(* ===== verification/Prelude.thy ===== *)
theory Prelude
  imports Main "HOL-Library.Product_Lexorder"
begin

text \<open>
  What every component shares: identifiers and clock readings, the Python values that cross the
  code's boundaries (JSON, aware and naive datetimes, text), the raise/return discipline of the
  handlers as a sum type, and the fragment of SQL the repositories use (row selection, guarded
  update with its row count, one transaction that commits or rolls back).

  Text is modelled over ASCII, the alphabet of every identifier, status, currency and error code
  the code inspects; an instant is a number of microseconds since the epoch in UTC.
\<close>

named_theorems table_simps \<open>rewriting of guarded table updates\<close>
named_theorems handler_defs \<open>the definitions of the handlers\<close>

subsection \<open>Identifiers, instants, JSON\<close>

type_synonym uuid = nat
type_synonym instant = int

text \<open>
  A Python \<open>datetime\<close>: without a zone it is a wall-clock reading, with one it denotes an instant.
  A timestamptz column always reads back as an aware value.
\<close>

datatype py_datetime = Naive instant | Aware instant

fun as_utc :: "py_datetime \<Rightarrow> py_datetime" where
  "as_utc (Naive t) = Aware t"
| "as_utc (Aware t) = Aware t"

abbreviation seconds :: "int \<Rightarrow> instant" where
  "seconds n \<equiv> n * 1000000"

text \<open>JSON values; a float keeps its source text, since the code only rejects or ignores it.\<close>

datatype json =
    JNull
  | JBool bool
  | JInt int
  | JFloat string
  | JStr string
  | JList "json list"
  | JObj "(string \<times> json) list"

subsection \<open>Text\<close>

definition is_space :: "char \<Rightarrow> bool" where
  "is_space c \<longleftrightarrow> (let n = (of_char c :: nat) in 9 \<le> n \<and> n \<le> 13 \<or> 28 \<le> n \<and> n \<le> 32)"

definition is_upper :: "char \<Rightarrow> bool" where
  "is_upper c \<longleftrightarrow> (let n = (of_char c :: nat) in 65 \<le> n \<and> n \<le> 90)"

definition is_lower :: "char \<Rightarrow> bool" where
  "is_lower c \<longleftrightarrow> (let n = (of_char c :: nat) in 97 \<le> n \<and> n \<le> 122)"

definition is_digit :: "char \<Rightarrow> bool" where
  "is_digit c \<longleftrightarrow> (let n = (of_char c :: nat) in 48 \<le> n \<and> n \<le> 57)"

definition upper_char :: "char \<Rightarrow> char" where
  "upper_char c = (if is_lower c then char_of ((of_char c :: nat) - 32) else c)"

definition lower_char :: "char \<Rightarrow> char" where
  "lower_char c = (if is_upper c then char_of ((of_char c :: nat) + 32) else c)"

definition strip :: "string \<Rightarrow> string" where
  "strip s = rev (dropWhile is_space (rev (dropWhile is_space s)))"

abbreviation upper :: "string \<Rightarrow> string" where
  "upper \<equiv> map upper_char"

abbreviation lower :: "string \<Rightarrow> string" where
  "lower \<equiv> map lower_char"

text \<open>\<open>not value.strip()\<close>\<close>

definition blank :: "string \<Rightarrow> bool" where
  "blank s \<longleftrightarrow> list_all is_space s"

lemma strip_eq_Nil [simp]: "strip s = [] \<longleftrightarrow> blank s"
proof -
  have "list_all is_space (dropWhile is_space s) \<longleftrightarrow> list_all is_space s"
    by (induction s) auto
  then show ?thesis
    by (simp add: strip_def blank_def list_all_iff)
qed

lemma length_strip_le: "length (strip s) \<le> length s"
  unfolding strip_def
  by (metis length_dropWhile_le length_rev order_trans)

lemma set_strip: "set (strip s) \<subseteq> set s"
  by (auto simp: strip_def dest!: set_dropWhileD)

lemma strip_no_space: "\<not> list_ex is_space s \<Longrightarrow> strip s = s"
proof -
  assume a: "\<not> list_ex is_space s"
  have "dropWhile is_space xs = xs" if "\<not> list_ex is_space xs" for xs
    using that by (cases xs) auto
  moreover have "\<not> list_ex is_space (rev s)" using a by (simp add: list_ex_iff)
  ultimately show ?thesis using a by (simp add: strip_def)
qed

text \<open>Decimal rendering of a number, as an f-string does it.\<close>

fun str_nat :: "nat \<Rightarrow> string" where
  "str_nat n = (if n < 10 then [char_of (48 + n)] else str_nat (n div 10) @ [char_of (48 + n mod 10)])"

declare str_nat.simps [simp del]

definition str_int :: "int \<Rightarrow> string" where
  "str_int i = (if i < 0 then CHR ''-'' # str_nat (nat (- i)) else str_nat (nat i))"

subsection \<open>Returning and raising\<close>

fun andthen :: "'e + 'a \<Rightarrow> ('a \<Rightarrow> 'e + 'b) \<Rightarrow> 'e + 'b" where
  "andthen (Inl e) f = Inl e"
| "andthen (Inr x) f = f x"

definition require :: "bool \<Rightarrow> 'e \<Rightarrow> 'e + unit" where
  "require b e = (if b then Inr () else Inl e)"

lemma andthen_Inr_iff [simp]: "andthen m f = Inr y \<longleftrightarrow> (\<exists>x. m = Inr x \<and> f x = Inr y)"
  by (cases m) auto

lemma andthen_Inl_iff: "andthen m f = Inl e \<longleftrightarrow> m = Inl e \<or> (\<exists>x. m = Inr x \<and> f x = Inl e)"
  by (cases m) auto

lemma require_Inr_iff [simp]: "require b e = Inr u \<longleftrightarrow> b"
  by (simp add: require_def)

lemma require_Inl_iff: "require b e = Inl e' \<longleftrightarrow> \<not> b \<and> e' = e"
  by (auto simp: require_def)

lemma require_True [simp]: "require True e = Inr ()"
  and require_False [simp]: "require False e = Inl e"
  by (simp_all add: require_def)

lemma andthen_cong [fundef_cong]:
  "m = m' \<Longrightarrow> (\<And>x. m' = Inr x \<Longrightarrow> f x = f' x) \<Longrightarrow> andthen m f = andthen m' f'"
  by (cases m') auto

fun map_error :: "('e \<Rightarrow> 'f) \<Rightarrow> 'e + 'a \<Rightarrow> 'f + 'a" where
  "map_error g (Inl e) = Inl (g e)"
| "map_error g (Inr x) = Inr x"

lemma map_error_Inr_iff [simp]: "map_error g m = Inr x \<longleftrightarrow> m = Inr x"
  by (cases m) auto

text \<open>\<open>for x in xs\<close> over a fallible body, stopping at the first raise.\<close>

fun traverse :: "('a \<Rightarrow> 'e + 'b) \<Rightarrow> 'a list \<Rightarrow> 'e + 'b list" where
  "traverse f [] = Inr []"
| "traverse f (x # xs) = andthen (f x) (\<lambda>y. andthen (traverse f xs) (\<lambda>ys. Inr (y # ys)))"

lemma traverse_Inr_length: "traverse f xs = Inr ys \<Longrightarrow> length ys = length xs"
  by (induction xs arbitrary: ys) auto

lemma traverse_Inr_iff: "traverse f xs = Inr ys \<longleftrightarrow> list_all2 (\<lambda>x y. f x = Inr y) xs ys"
  by (induction xs arbitrary: ys) (auto simp: list_all2_Cons1)

subsection \<open>Tables\<close>

text \<open>
  What the database driver raises. A handler's in-transaction body raises a domain error or one
  of these; \<open>raised\<close> keeps the two apart because the code catches them separately.
\<close>

datatype sql_error =
    MultipleResultsFound
  | NumericOutOfRange
  | StringTooLong
  | CheckViolation
  | UniqueViolation
  | ForeignKeyViolation

datatype 'e raised = Domain 'e | Sql sql_error

fun scalar_one_or_none :: "'r list \<Rightarrow> 'e raised + 'r option" where
  "scalar_one_or_none [] = Inr None"
| "scalar_one_or_none [r] = Inr (Some r)"
| "scalar_one_or_none (r # s # rs) = Inl (Sql MultipleResultsFound)"

definition update_where :: "('r \<Rightarrow> bool) \<Rightarrow> ('r \<Rightarrow> 'r) \<Rightarrow> 'r list \<Rightarrow> 'r list" where
  "update_where P f rs = map (\<lambda>r. if P r then f r else r) rs"

definition rowcount :: "('r \<Rightarrow> bool) \<Rightarrow> 'r list \<Rightarrow> nat" where
  "rowcount P rs = length (filter P rs)"

text \<open>\<open>async with session.begin()\<close>: commit on return, roll back on a raise.\<close>

definition transaction :: "'db \<Rightarrow> 'e + ('a \<times> 'db) \<Rightarrow> ('e + 'a) \<times> 'db" where
  "transaction db m = (case m of Inl e \<Rightarrow> (Inl e, db) | Inr (x, db') \<Rightarrow> (Inr x, db'))"

lemma transaction_Inr_iff:
  "transaction db m = (Inr x, db') \<longleftrightarrow> m = Inr (x, db')"
  by (auto simp: transaction_def split: sum.splits)

lemma transaction_Inl_iff:
  "transaction db m = (Inl e, db') \<longleftrightarrow> m = Inl e \<and> db' = db"
  by (auto simp: transaction_def split: sum.splits)

lemma transaction_inv:
  assumes "I db" and "\<And>x db'. m = Inr (x, db') \<Longrightarrow> I db'"
  shows "I (snd (transaction db m))"
  using assms by (auto simp: transaction_def split: sum.splits)

lemma transaction_frame:
  assumes "\<And>x db'. m = Inr (x, db') \<Longrightarrow> F db' = F db"
  shows "F (snd (transaction db m)) = F db"
  using assms by (auto simp: transaction_def split: sum.splits)

lemma scalar_Some_iff [simp]: "scalar_one_or_none rs = Inr (Some r) \<longleftrightarrow> rs = [r]"
  by (cases rs rule: scalar_one_or_none.cases) auto

lemma scalar_None_iff [simp]: "scalar_one_or_none rs = Inr None \<longleftrightarrow> rs = []"
  by (cases rs rule: scalar_one_or_none.cases) auto

lemma filter_singletonD: "filter P rs = [r] \<Longrightarrow> r \<in> set rs \<and> P r"
  by (metis filter_eq_Cons_iff in_set_conv_decomp)

lemma update_where_Nil [simp]: "update_where P f [] = []"
  by (simp add: update_where_def)

lemma update_where_Cons [simp]:
  "update_where P f (r # rs) = (if P r then f r else r) # update_where P f rs"
  by (simp add: update_where_def)

lemma length_update_where [simp]: "length (update_where P f rs) = length rs"
  by (simp add: update_where_def)

lemma set_update_where: "set (update_where P f rs) = (\<lambda>r. if P r then f r else r) ` set rs"
  by (simp add: update_where_def)

lemma update_where_id: "(\<And>r. r \<in> set rs \<Longrightarrow> \<not> P r) \<Longrightarrow> update_where P f rs = rs"
  unfolding update_where_def by (rule map_idI) simp

lemma rowcount_0_iff: "rowcount P rs = 0 \<longleftrightarrow> (\<forall>r \<in> set rs. \<not> P r)"
  by (simp add: rowcount_def filter_empty_conv)

lemma rowcount_0_update: "rowcount P rs = 0 \<Longrightarrow> update_where P f rs = rs"
  by (rule update_where_id) (simp add: rowcount_0_iff)

lemma map_update_where:
  "(\<And>r. r \<in> set rs \<Longrightarrow> P r \<Longrightarrow> g (f r) = g r) \<Longrightarrow> map g (update_where P f rs) = map g rs"
  by (simp add: update_where_def)

lemma list_all_update_where:
  assumes "list_all Q rs" and "\<And>r. r \<in> set rs \<Longrightarrow> Q r \<Longrightarrow> P r \<Longrightarrow> Q (f r)"
  shows "list_all Q (update_where P f rs)"
  using assms by (auto simp: update_where_def list_all_iff)

text \<open>Rows with distinct keys: a key selects at most one row, and updating that row is local.\<close>

lemma distinct_key_filter_le1:
  "distinct (map key rs) \<Longrightarrow> length (filter (\<lambda>r. key r = k \<and> Q r) rs) \<le> 1"
proof (induction rs)
  case (Cons a rs)
  then show ?case
    by (cases "key a = k \<and> Q a") (auto simp: filter_empty_conv image_iff)
qed simp

lemma distinct_key_rowcount_le1:
  "distinct (map key rs) \<Longrightarrow> (\<And>r. P r \<Longrightarrow> key r = k) \<Longrightarrow> rowcount P rs \<le> 1"
  using distinct_key_filter_le1 [of key rs k P]
  by (metis (mono_tags, lifting) filter_cong rowcount_def)

lemma distinct_key_filter_singleton:
  assumes "distinct (map key rs)" and "r \<in> set rs" and "Q r"
  shows "filter (\<lambda>x. key x = key r \<and> Q x) rs = [r]"
  using assms
proof (induction rs)
  case (Cons a rs)
  show ?case
  proof (cases "a = r")
    case True
    have "filter (\<lambda>x. key x = key r \<and> Q x) rs = []"
      using Cons.prems(1) True by (auto simp: filter_empty_conv image_iff)
    with True Cons.prems(3) show ?thesis by simp
  next
    case False
    then have "r \<in> set rs" using Cons.prems(2) by simp
    then have "key a \<noteq> key r" using Cons.prems(1) by (auto simp: image_iff)
    with Cons \<open>r \<in> set rs\<close> show ?thesis by simp
  qed
qed simp

lemma distinct_key_inj:
  "distinct (map key rs) \<Longrightarrow> r \<in> set rs \<Longrightarrow> s \<in> set rs \<Longrightarrow> key r = key s \<Longrightarrow> r = s"
  by (simp add: distinct_map inj_on_def)

lemma sum_update_key:
  fixes g :: "'r \<Rightarrow> int"
  assumes "distinct (map key rs)" and "r \<in> set rs"
  shows "sum_list (map g (update_where (\<lambda>x. key x = key r) f rs))
       = sum_list (map g rs) - g r + g (f r)"
  using assms
proof (induction rs)
  case (Cons a rs)
  show ?case
  proof (cases "key a = key r")
    case True
    then have "a = r" using Cons.prems distinct_key_inj [of key "a # rs" a r] by simp
    moreover have "update_where (\<lambda>x. key x = key r) f rs = rs"
      using Cons.prems(1) True by (intro update_where_id) (auto simp: image_iff)
    ultimately show ?thesis by simp
  next
    case False
    with Cons show ?thesis by auto
  qed
qed simp

lemma filter_update_other:
  assumes "\<And>x. x \<in> set rs \<Longrightarrow> P x \<Longrightarrow> \<not> Q x" and "\<And>x. x \<in> set rs \<Longrightarrow> P x \<Longrightarrow> \<not> Q (f x)"
  shows "filter Q (update_where P f rs) = filter Q rs"
  using assms by (induction rs) auto

text \<open>
  A table of the database with its primary key and the unit of work's write of one loaded row: the
  row with that key is replaced by the object's current values.
\<close>

locale keyed_table =
  fixes key :: "'r \<Rightarrow> 'k" and rows :: "'db \<Rightarrow> 'r list" and put :: "'r \<Rightarrow> 'db \<Rightarrow> 'db"
  assumes rows_put: "rows (put r db) = update_where (\<lambda>x. key x = key r) (\<lambda>_. r) (rows db)"
begin

lemma keys_put: "map key (rows (put r db)) = map key (rows db)"
  unfolding rows_put by (rule map_update_where) simp

lemma map_put:
  "(\<And>x. x \<in> set (rows db) \<Longrightarrow> key x = key r \<Longrightarrow> g x = g r) \<Longrightarrow> map g (rows (put r db)) = map g (rows db)"
  unfolding rows_put by (rule map_update_where) simp

lemma in_put_cases:
  assumes "x \<in> set (rows (put r db))"
  obtains "x = r" "key x = key r" | "x \<in> set (rows db)" "key x \<noteq> key r"
  using assms by (auto simp: rows_put set_update_where split: if_splits)

lemma sum_put:
  fixes g :: "'r \<Rightarrow> int"
  assumes "distinct (map key (rows db))" and "r0 \<in> set (rows db)" and "key r = key r0"
  shows "sum_list (map g (rows (put r db))) = sum_list (map g (rows db)) - g r0 + g r"
  unfolding rows_put assms(3) by (rule sum_update_key [OF assms(1,2)])

lemma lookup_put:
  assumes "distinct (map key (rows db))" and "r0 \<in> set (rows db)" and "key r = key r0"
  shows "filter (\<lambda>x. key x = key r0) (rows (put r db)) = [r]"
proof -
  have "r \<in> set (rows (put r db))"
    using assms(2,3) by (force simp: rows_put set_update_where image_iff)
  moreover have "distinct (map key (rows (put r db)))"
    using assms(1) by (simp add: keys_put)
  ultimately show ?thesis
    using distinct_key_filter_singleton [of key "rows (put r db)" r "\<lambda>_. True"] assms(3) by simp
qed

lemma filter_put_other:
  assumes "distinct (map key (rows db))" and "r \<in> set (rows db)" and "key r' = key r"
    and "tenant r = t" and "tenant r' = t"
  shows "filter (\<lambda>x. tenant x \<noteq> t) (rows (put r' db)) = filter (\<lambda>x. tenant x \<noteq> t) (rows db)"
proof -
  have "tenant x = t" if "x \<in> set (rows db)" "key x = key r" for x
    using distinct_key_inj [OF assms(1) that(1) assms(2) that(2)] assms(4) by simp
  then show ?thesis
    unfolding rows_put assms(3) using assms(5) by (intro filter_update_other) auto
qed

lemma put_self:
  assumes "distinct (map key (rows db))" and "r \<in> set (rows db)"
  shows "rows (put r db) = rows db"
  unfolding rows_put update_where_def
  by (rule map_idI) (use assms distinct_key_inj [of key "rows db"] in auto)

lemma list_all_put:
  assumes "list_all Q (rows db)" and "Q r"
  shows "list_all Q (rows (put r db))"
  unfolding rows_put by (rule list_all_update_where [OF assms(1)]) (use assms(2) in simp)

end

text \<open>
  A table with a primary key and an update that leaves the key alone: the contract every mutating
  statement of the repositories meets.
\<close>

locale keyed_update =
  fixes key :: "'r \<Rightarrow> 'k" and upd :: "'r \<Rightarrow> 'r"
  assumes key_upd: "key (upd r) = key r"
begin

lemma keys_update: "map key (update_where P upd rs) = map key rs"
  by (rule map_update_where) (rule key_upd)

lemma distinct_update: "distinct (map key (update_where P upd rs)) = distinct (map key rs)"
  by (simp add: keys_update)

lemma lookup_updated:
  assumes "distinct (map key rs)" and "r \<in> set rs"
  shows "filter (\<lambda>x. key x = key r) (update_where (\<lambda>x. key x = key r) upd rs) = [upd r]"
proof -
  have d: "distinct (map key (update_where (\<lambda>x. key x = key r) upd rs))"
    using assms(1) by (simp add: keys_update)
  have m: "upd r \<in> set (update_where (\<lambda>x. key x = key r) upd rs)"
    using assms(2) by (auto simp: set_update_where image_iff intro!: bexI [of _ r])
  from distinct_key_filter_singleton [OF d m, of "\<lambda>_. True"] show ?thesis
    by (simp add: key_upd)
qed

lemma lookup_other:
  assumes "k \<noteq> key r"
  shows "filter (\<lambda>x. key x = k) (update_where (\<lambda>x. key x = key r) upd rs)
       = filter (\<lambda>x. key x = k) rs"
  using assms by (induction rs) (auto simp: key_upd)

end

lemma singleton_list_iff: "length xs = 1 \<longleftrightarrow> (\<exists>x. xs = [x])"
  by (cases xs) auto

text \<open>\<open>ORDER BY\<close> with \<open>LIMIT\<close>: a row is left out only when the batch is full of rows that come no later.\<close>

lemma take_sort_passed:
  fixes k :: "'a \<Rightarrow> 'b :: linorder"
  assumes "r \<in> set xs" and "r \<notin> set (take n (sort_key k xs))"
  shows "length (take n (sort_key k xs)) = n \<and> (\<forall>x \<in> set (take n (sort_key k xs)). k x \<le> k r)"
proof -
  let ?ys = "sort_key k xs"
  have "set ?ys = set (take n ?ys) \<union> set (drop n ?ys)" by (metis append_take_drop_id set_append)
  then have d: "r \<in> set (drop n ?ys)" using assms by auto
  then have "n < length ?ys" by (metis drop_all emptyE linorder_not_le list.set(1))
  moreover have "sorted (map k (take n ?ys @ drop n ?ys))" by simp
  with d have "\<forall>x \<in> set (take n ?ys). k x \<le> k r" by (simp add: sorted_append del: append_take_drop_id)
  ultimately show ?thesis by simp
qed

end
