(* ===== verification/Billing_State.thy ===== *)
theory Billing_State
  imports Prelude
begin

text \<open>
  The pure reservation transitions of \<open>app/billing/state.py\<close>: how a capture splits a hold into a
  debit and a release, when a release is allowed, and when a hold has expired. The arguments are
  typed integers, so the \<open>isinstance\<close> half of the argument check is carried by the HOL types.
\<close>

subsection \<open>Decisions\<close>

datatype transition_error =
    InvalidReservationTransition string
  | StateValueError string

record CaptureDecision =
  cd_charged_minor :: int
  cd_released_minor :: int
  cd_idempotent :: bool

record ReleaseDecision =
  rd_released_minor :: int
  rd_idempotent :: bool

definition require_nonnegative_integer :: "int \<Rightarrow> string \<Rightarrow> transition_error + unit" where
  "require_nonnegative_integer v name =
     require (0 \<le> v) (StateValueError (name @ '' must be a non-negative integer''))"

definition decide_capture ::
  "string \<Rightarrow> int \<Rightarrow> int \<Rightarrow> int option \<Rightarrow> transition_error + CaptureDecision" where
  "decide_capture status reserved_minor actual_minor captured_minor =
     andthen (require_nonnegative_integer reserved_minor ''reserved_minor'') (\<lambda>_.
     andthen (require (reserved_minor \<noteq> 0)
                (InvalidReservationTransition ''reservation amount must be positive'')) (\<lambda>_.
     andthen (require_nonnegative_integer actual_minor ''actual_minor'') (\<lambda>_.
     if status = ''committed'' then
       (if captured_minor = None \<or> captured_minor \<noteq> Some actual_minor
        then Inl (InvalidReservationTransition ''committed capture amount differs'')
        else Inr \<lparr>cd_charged_minor = actual_minor,
                  cd_released_minor = reserved_minor - actual_minor, cd_idempotent = True\<rparr>)
     else if status \<noteq> ''pending'' then
       Inl (InvalidReservationTransition ''reservation is not pending'')
     else if actual_minor > reserved_minor then
       Inl (InvalidReservationTransition ''actual amount exceeds reservation'')
     else Inr \<lparr>cd_charged_minor = actual_minor,
               cd_released_minor = reserved_minor - actual_minor, cd_idempotent = False\<rparr>)))"

definition decide_release :: "string \<Rightarrow> int \<Rightarrow> transition_error + ReleaseDecision" where
  "decide_release status reserved_minor =
     andthen (require_nonnegative_integer reserved_minor ''reserved_minor'') (\<lambda>_.
     andthen (require (reserved_minor \<noteq> 0)
                (InvalidReservationTransition ''reservation amount must be positive'')) (\<lambda>_.
     if status = ''released'' then
       Inr \<lparr>rd_released_minor = reserved_minor, rd_idempotent = True\<rparr>
     else if status \<noteq> ''pending'' then
       Inl (InvalidReservationTransition ''reservation is not pending'')
     else Inr \<lparr>rd_released_minor = reserved_minor, rd_idempotent = False\<rparr>))"

fun reservation_is_expired :: "py_datetime \<Rightarrow> py_datetime \<Rightarrow> transition_error + bool" where
  "reservation_is_expired (Aware e) (Aware n) = Inr (e \<le> n)"
| "reservation_is_expired _ _ =
     Inl (StateValueError ''reservation timestamps must be timezone-aware'')"

lemmas [handler_defs] = require_nonnegative_integer_def decide_capture_def decide_release_def

subsection \<open>What a decision says\<close>

lemma decide_capture_Inr_iff:
  "decide_capture st r a c = Inr d \<longleftrightarrow>
     0 < r \<and> 0 \<le> a \<and>
     cd_charged_minor d = a \<and> cd_released_minor d = r - a \<and> CaptureDecision.more d = () \<and>
     (if st = ''committed'' then c = Some a \<and> cd_idempotent d
      else st = ''pending'' \<and> a \<le> r \<and> \<not> cd_idempotent d)"
  by (cases d) (auto simp: handler_defs)

lemma decide_release_Inr_iff:
  "decide_release st r = Inr d \<longleftrightarrow>
     0 < r \<and> rd_released_minor d = r \<and> ReleaseDecision.more d = () \<and>
     (if st = ''released'' then rd_idempotent d else st = ''pending'' \<and> \<not> rd_idempotent d)"
  by (cases d) (auto simp: handler_defs)

lemma decide_capture_fresh_pending:
  "decide_capture st r a c = Inr d \<Longrightarrow> \<not> cd_idempotent d \<Longrightarrow> st = ''pending'' \<and> a \<le> r"
  by (auto simp: decide_capture_Inr_iff split: if_splits)

end
