(* ===== verification/Billing_Pricing.thy ===== *)
theory Billing_Pricing
  imports Prelude
begin

text \<open>
  The value types of \<open>app/billing/ports.py\<close> with their constructor checks, the error hierarchy of
  \<open>app/billing/errors.py\<close>, and the tariff interpreter of \<open>app/billing/pricing.py\<close>. A price is a
  catalog row whose JSON is read field by field; every rejected field is the source's
  \<open>BillingInvariantError\<close>.
\<close>

subsection \<open>Errors\<close>

datatype billing_error =
    BillingInputError string
  | BillingNotFound string
  | BillingConflict string
  | BillingStorageError
  | BillingInvariantError
  | PyValueError string
  | PyTypeError string

text \<open>\<open>status_code\<close> and \<open>retryable\<close> of the hierarchy; a bare Python error has neither.\<close>

fun billing_status_code :: "billing_error \<Rightarrow> int option" where
  "billing_status_code (BillingInputError _) = Some 400"
| "billing_status_code (BillingNotFound _) = Some 404"
| "billing_status_code (BillingConflict _) = Some 409"
| "billing_status_code BillingStorageError = Some 503"
| "billing_status_code BillingInvariantError = Some 500"
| "billing_status_code (PyValueError _) = None"
| "billing_status_code (PyTypeError _) = None"

fun billing_retryable :: "billing_error \<Rightarrow> bool" where
  "billing_retryable BillingStorageError = True"
| "billing_retryable _ = False"

definition INSUFFICIENT_FUNDS where "INSUFFICIENT_FUNDS = ''BILLING_INSUFFICIENT_FUNDS''"
definition RESERVATION_NOT_FOUND where "RESERVATION_NOT_FOUND = ''BILLING_RESERVATION_NOT_FOUND''"
definition WALLET_NOT_FOUND where "WALLET_NOT_FOUND = ''BILLING_WALLET_NOT_FOUND''"
definition WALLET_UNAVAILABLE where "WALLET_UNAVAILABLE = ''BILLING_WALLET_UNAVAILABLE''"
definition RESERVATION_IDEMPOTENCY_CONFLICT
  where "RESERVATION_IDEMPOTENCY_CONFLICT = ''BILLING_RESERVATION_IDEMPOTENCY_CONFLICT''"
definition CAPTURE_AMOUNT_EXCEEDED where "CAPTURE_AMOUNT_EXCEEDED = ''BILLING_CAPTURE_AMOUNT_EXCEEDED''"
definition CAPTURE_CONFLICT where "CAPTURE_CONFLICT = ''BILLING_CAPTURE_CONFLICT''"
definition RELEASE_CONFLICT where "RELEASE_CONFLICT = ''BILLING_RELEASE_CONFLICT''"
definition RESERVATION_EXPIRED where "RESERVATION_EXPIRED = ''BILLING_RESERVATION_EXPIRED''"
definition CURRENCY_MISMATCH where "CURRENCY_MISMATCH = ''BILLING_CURRENCY_MISMATCH''"

lemmas billing_codes =
  INSUFFICIENT_FUNDS_def RESERVATION_NOT_FOUND_def WALLET_NOT_FOUND_def WALLET_UNAVAILABLE_def
  RESERVATION_IDEMPOTENCY_CONFLICT_def CAPTURE_AMOUNT_EXCEEDED_def CAPTURE_CONFLICT_def
  RELEASE_CONFLICT_def RESERVATION_EXPIRED_def CURRENCY_MISMATCH_def

subsection \<open>Money, price snapshots, usage\<close>

record Money =
  amount_minor :: int
  currency :: string

definition is_currency :: "string \<Rightarrow> bool" where
  "is_currency s \<longleftrightarrow> length s = 3 \<and> list_all is_upper s"

definition mk_Money :: "int \<Rightarrow> string \<Rightarrow> billing_error + Money" where
  "mk_Money a c =
     andthen (require (0 \<le> a) (PyValueError ''amount_minor must be non-negative'')) (\<lambda>_.
     let normalized = upper (strip c) in
     andthen (require (is_currency normalized)
                (PyValueError ''currency must be a three-letter uppercase code'')) (\<lambda>_.
     Inr \<lparr>amount_minor = a, currency = normalized\<rparr>))"

record PriceSnapshot =
  ps_price_version_id :: uuid
  ps_price_key :: string
  ps_version :: int
  ps_currency :: string
  ps_unit :: string
  ps_pricing :: "(string \<times> json) list"

definition mk_PriceSnapshot ::
  "uuid \<Rightarrow> string \<Rightarrow> int \<Rightarrow> string \<Rightarrow> string \<Rightarrow> (string \<times> json) list \<Rightarrow> billing_error + PriceSnapshot"
where
  "mk_PriceSnapshot vid key ver cur un pr =
     andthen (require (\<not> blank key) (PyValueError ''price_key must not be blank'')) (\<lambda>_.
     andthen (require (1 \<le> ver) (PyValueError ''price version must be a positive integer'')) (\<lambda>_.
     andthen (require (\<not> blank un) (PyValueError ''price unit must not be blank'')) (\<lambda>_.
     andthen (mk_Money 0 cur) (\<lambda>_.
     Inr \<lparr>ps_price_version_id = vid, ps_price_key = key, ps_version = ver,
          ps_currency = upper (strip cur), ps_unit = un, ps_pricing = pr\<rparr>))))"

record BillingUsage =
  bu_input_tokens :: int
  bu_output_tokens :: int
  bu_image_count :: int
  bu_video_seconds :: int
  bu_audio_seconds :: int
  bu_character_count :: int
  bu_audio_duration_ms :: int
  bu_video_duration_ms :: int
  bu_storage_bytes :: int
  bu_billable_units :: int

definition no_usage :: BillingUsage where
  "no_usage = \<lparr>bu_input_tokens = 0, bu_output_tokens = 0, bu_image_count = 0, bu_video_seconds = 0,
     bu_audio_seconds = 0, bu_character_count = 0, bu_audio_duration_ms = 0,
     bu_video_duration_ms = 0, bu_storage_bytes = 0, bu_billable_units = 0\<rparr>"

definition usage_values :: "BillingUsage \<Rightarrow> int list" where
  "usage_values u = [bu_input_tokens u, bu_output_tokens u, bu_image_count u, bu_video_seconds u,
     bu_audio_seconds u, bu_character_count u, bu_audio_duration_ms u, bu_video_duration_ms u,
     bu_storage_bytes u, bu_billable_units u]"

definition mk_BillingUsage :: "BillingUsage \<Rightarrow> billing_error + BillingUsage" where
  "mk_BillingUsage u =
     andthen (require (\<not> list_ex (\<lambda>v. v < 0) (usage_values u))
                (PyValueError ''billing usage values must be non-negative'')) (\<lambda>_. Inr u)"

subsection \<open>The tariff\<close>

definition ALLOWED_METERS :: "string list" where
  "ALLOWED_METERS = [''input_tokens'', ''output_tokens'', ''image_count'', ''video_seconds'',
     ''audio_seconds'', ''character_count'', ''audio_duration_ms'', ''video_duration_ms'',
     ''storage_bytes'', ''billable_units'']"

text \<open>\<open>getattr(usage, meter)\<close>: defined exactly on the field names, which are the allowed meters.\<close>

definition usage_meter :: "BillingUsage \<Rightarrow> string \<Rightarrow> int option" where
  "usage_meter u m = map_of (zip ALLOWED_METERS (usage_values u)) m"

record LocalTariff =
  lt_currency :: string
  lt_reservation_minor :: int
  lt_minimum_charge_minor :: int
  lt_components :: "(string \<times> int) list"

fun positive_int :: "json option \<Rightarrow> billing_error + int" where
  "positive_int (Some (JInt v)) = (if v \<le> 0 then Inl BillingInvariantError else Inr v)"
| "positive_int _ = Inl BillingInvariantError"

text \<open>The loop over \<open>raw_components.items()\<close>: one entry of the validated dict per raw entry.\<close>

definition parse_component :: "string \<times> json \<Rightarrow> billing_error + string \<times> int" where
  "parse_component mr =
     andthen (require (fst mr \<in> set ALLOWED_METERS) BillingInvariantError) (\<lambda>_.
     andthen (positive_int (Some (snd mr))) (\<lambda>rate. Inr (fst mr, rate)))"

fun raw_components :: "json option \<Rightarrow> billing_error + (string \<times> json) list" where
  "raw_components (Some (JObj (x # xs))) = Inr (x # xs)"
| "raw_components _ = Inl BillingInvariantError"

definition parse_local_tariff :: "PriceSnapshot \<Rightarrow> billing_error + LocalTariff" where
  "parse_local_tariff price =
     (let get = map_of (ps_pricing price) in
      andthen (require (get ''schema'' = Some (JStr ''local_tariff_v1'')) BillingInvariantError) (\<lambda>_.
      andthen (require (ps_unit price = ''local_metered_usage'') BillingInvariantError) (\<lambda>_.
      andthen (require (get ''currency'' = Some (JStr (ps_currency price))) BillingInvariantError) (\<lambda>_.
      andthen (require (get ''rounding'' = Some (JStr ''integer_sum'')) BillingInvariantError) (\<lambda>_.
      andthen (positive_int (get ''reservation_minor'')) (\<lambda>reservation.
      andthen (positive_int (get ''minimum_charge_minor'')) (\<lambda>minimum.
      andthen (require (minimum \<le> reservation) BillingInvariantError) (\<lambda>_.
      andthen (raw_components (get ''components'')) (\<lambda>raw.
      andthen (traverse parse_component raw) (\<lambda>components.
      Inr \<lparr>lt_currency = ps_currency price, lt_reservation_minor = reservation,
           lt_minimum_charge_minor = minimum, lt_components = components\<rparr>))))))))))"

definition reservation_amount :: "PriceSnapshot \<Rightarrow> billing_error + Money" where
  "reservation_amount price =
     andthen (parse_local_tariff price) (\<lambda>tariff.
     mk_Money (lt_reservation_minor tariff) (lt_currency tariff))"

text \<open>\<open>total += getattr(usage, meter) * rate\<close> over the tariff's components, in order.\<close>

fun add_components :: "BillingUsage \<Rightarrow> int \<Rightarrow> (string \<times> int) list \<Rightarrow> billing_error + int" where
  "add_components u acc [] = Inr acc"
| "add_components u acc ((meter, rate) # cs) =
     (case usage_meter u meter of
        None \<Rightarrow> Inl (PyTypeError ''attribute error'')
      | Some v \<Rightarrow> add_components u (acc + v * rate) cs)"

definition charge_for_usage :: "PriceSnapshot \<Rightarrow> BillingUsage \<Rightarrow> billing_error + Money" where
  "charge_for_usage price usage =
     andthen (parse_local_tariff price) (\<lambda>tariff.
     andthen (add_components usage (lt_minimum_charge_minor tariff) (lt_components tariff)) (\<lambda>charge.
     andthen (require (0 < charge) BillingInvariantError) (\<lambda>_.
     mk_Money charge (lt_currency tariff))))"

definition pricing_version :: "PriceSnapshot \<Rightarrow> billing_error + string" where
  "pricing_version price =
     (let label = ps_price_key price @ ''@v'' @ str_int (ps_version price) in
      if length label > 64 then Inl BillingInvariantError else Inr label)"

lemmas [handler_defs] =
  mk_Money_def mk_PriceSnapshot_def mk_BillingUsage_def parse_component_def
  parse_local_tariff_def reservation_amount_def charge_for_usage_def pricing_version_def

subsection \<open>Facts about money and tariffs\<close>

lemma mk_Money_Inr_iff:
  "mk_Money a c = Inr m \<longleftrightarrow>
     0 \<le> a \<and> is_currency (upper (strip c)) \<and> m = \<lparr>amount_minor = a, currency = upper (strip c)\<rparr>"
  by (auto simp: mk_Money_def Let_def)

lemma positive_int_Inr_iff: "positive_int j = Inr v \<longleftrightarrow> j = Some (JInt v) \<and> 0 < v"
  by (cases j rule: positive_int.cases) auto

lemma raw_components_Inr_iff:
  "raw_components j = Inr xs \<longleftrightarrow> j = Some (JObj xs) \<and> xs \<noteq> []"
  by (cases j rule: raw_components.cases) auto

lemma parse_component_Inr_iff:
  "parse_component mr = Inr (m, r) \<longleftrightarrow>
     mr = (m, JInt r) \<and> m \<in> set ALLOWED_METERS \<and> 0 < r"
  by (cases mr) (auto simp: parse_component_def positive_int_Inr_iff)

lemma parse_components_wf:
  "traverse parse_component raw = Inr cs \<Longrightarrow>
   (\<forall>(m, r) \<in> set cs. m \<in> set ALLOWED_METERS \<and> 0 < r) \<and> map fst cs = map fst raw"
proof (induction raw arbitrary: cs)
  case (Cons a raw)
  then obtain b bs where "cs = b # bs" "parse_component a = Inr b"
    "traverse parse_component raw = Inr bs" by auto
  with Cons.IH [of bs] show ?case
    by (cases a; cases b) (auto simp: parse_component_Inr_iff)
qed simp

lemma usage_meter_allowed:
  "m \<in> set ALLOWED_METERS \<Longrightarrow> \<exists>v. usage_meter u m = Some v \<and> v \<in> set (usage_values u)"
  by (auto simp: usage_meter_def ALLOWED_METERS_def usage_values_def)

lemma mk_BillingUsage_nonneg:
  "mk_BillingUsage u = Inr v \<Longrightarrow> v = u \<and> (\<forall>x \<in> set (usage_values u). 0 \<le> x)"
  by (auto simp: mk_BillingUsage_def list_ex_iff not_less)

text \<open>The reference the loop is compared with: one sum over the components.\<close>

definition metered_total :: "BillingUsage \<Rightarrow> (string \<times> int) list \<Rightarrow> int" where
  "metered_total u cs = sum_list (map (\<lambda>(m, r). the (usage_meter u m) * r) cs)"

lemma add_components_total:
  "\<forall>(m, r) \<in> set cs. m \<in> set ALLOWED_METERS \<Longrightarrow>
   add_components u t cs = Inr (t + metered_total u cs)"
proof (induction u t cs rule: add_components.induct)
  case (2 u t m r cs)
  then obtain v where "usage_meter u m = Some v" using usage_meter_allowed by fastforce
  with 2 show ?case by (auto simp: metered_total_def)
qed (simp add: metered_total_def)

lemma metered_total_nonneg:
  assumes "\<forall>x \<in> set (usage_values u). 0 \<le> x"
    and "\<forall>(m, r) \<in> set cs. m \<in> set ALLOWED_METERS \<and> 0 < r"
  shows "0 \<le> metered_total u cs"
  unfolding metered_total_def
proof (rule sum_list_nonneg)
  fix x assume "x \<in> set (map (\<lambda>(m, r). the (usage_meter u m) * r) cs)"
  then obtain m r where mr: "(m, r) \<in> set cs" "x = the (usage_meter u m) * r" by auto
  with assms(2) have "m \<in> set ALLOWED_METERS" "0 < r" by auto
  with usage_meter_allowed [of m u] assms(1) mr(2) show "0 \<le> x" by fastforce
qed

lemma parse_local_tariff_wf:
  assumes "parse_local_tariff p = Inr t"
  shows "lt_currency t = ps_currency p" and "0 < lt_minimum_charge_minor t"
    and "lt_minimum_charge_minor t \<le> lt_reservation_minor t"
    and "\<forall>(m, r) \<in> set (lt_components t). m \<in> set ALLOWED_METERS \<and> 0 < r"
    and "lt_components t \<noteq> []"
  using assms
  by (auto simp: parse_local_tariff_def Let_def positive_int_Inr_iff raw_components_Inr_iff
      traverse_Inr_iff list_all2_Cons1 neq_Nil_conv
      dest!: parse_components_wf [unfolded traverse_Inr_iff])

lemma charge_for_usage_eq:
  assumes "parse_local_tariff p = Inr t"
  shows "charge_for_usage p u =
    (let charge = lt_minimum_charge_minor t + metered_total u (lt_components t) in
     andthen (require (0 < charge) BillingInvariantError) (\<lambda>_. mk_Money charge (ps_currency p)))"
proof -
  have "\<forall>(m, r) \<in> set (lt_components t). m \<in> set ALLOWED_METERS"
    using parse_local_tariff_wf(4) [OF assms] by auto
  then show ?thesis
    using assms parse_local_tariff_wf(1) [OF assms]
    by (simp add: charge_for_usage_def add_components_total Let_def)
qed

subsection \<open>Charging\<close>

text \<open>
  C9. On a valid tariff and valid usage, charging always succeeds and the charge is exactly the
  minimum plus the sum of each metered quantity times its rate: at least the minimum, never
  negative, in the tariff's currency; and usage that is nowhere smaller is never charged less.
\<close>

theorem charge_for_usage_exact:
  assumes "parse_local_tariff p = Inr t" and "is_currency (ps_currency p)" "upper (strip (ps_currency p)) = ps_currency p"
    and "mk_BillingUsage u = Inr u" "mk_BillingUsage v = Inr v"
    and "list_all2 (\<le>) (usage_values u) (usage_values v)"
  shows "\<exists>m n. charge_for_usage p u = Inr m \<and> charge_for_usage p v = Inr n \<and>
    amount_minor m = lt_minimum_charge_minor t + metered_total u (lt_components t) \<and>
    0 < lt_minimum_charge_minor t \<and> lt_minimum_charge_minor t \<le> amount_minor m \<and>
    currency m = ps_currency p \<and> amount_minor m \<le> amount_minor n"
proof -
  note wf = parse_local_tariff_wf [OF assms(1)]
  have pos: "0 \<le> metered_total u (lt_components t)" "0 \<le> metered_total v (lt_components t)"
    using metered_total_nonneg wf(4) mk_BillingUsage_nonneg [OF assms(4)] mk_BillingUsage_nonneg [OF assms(5)]
    by blast+
  have "\<forall>x y. (x, y) \<in> set (zip (usage_values u) (usage_values v)) \<longrightarrow> x \<le> y"
    using assms(6) by (auto simp: list_all2_iff)
  then have le: "the (usage_meter u m) \<le> the (usage_meter v m)" if "m \<in> set ALLOWED_METERS" for m
    using that by (auto simp: usage_meter_def ALLOWED_METERS_def usage_values_def)
  have "metered_total u (lt_components t) \<le> metered_total v (lt_components t)"
    unfolding metered_total_def
  proof (rule sum_list_mono)
    fix c assume "c \<in> set (lt_components t)"
    moreover obtain m r where "c = (m, r)" by (cases c)
    ultimately have "m \<in> set ALLOWED_METERS" "0 < r" "c = (m, r)" using wf(4) by auto
    with le [of m] show "(\<lambda>(m, r). the (usage_meter u m) * r) c \<le> (\<lambda>(m, r). the (usage_meter v m) * r) c"
      by (simp add: mult_right_mono)
  qed
  with pos wf(2) assms(2,3) show ?thesis
    by (simp add: charge_for_usage_eq [OF assms(1)] mk_Money_def Let_def require_def)
qed

definition demo_price :: PriceSnapshot where
  "demo_price = \<lparr>ps_price_version_id = 1, ps_price_key = ''chat'', ps_version = 1, ps_currency = ''PTS'',
     ps_unit = ''local_metered_usage'',
     ps_pricing = [(''schema'', JStr ''local_tariff_v1''), (''currency'', JStr ''PTS''),
       (''rounding'', JStr ''integer_sum''), (''reservation_minor'', JInt 300), (''minimum_charge_minor'', JInt 2),
       (''components'', JObj [(''input_tokens'', JInt 1), (''output_tokens'', JInt 3)])]\<rparr>"

theorem charge_for_usage_exact_witness:
  "\<exists>m n. charge_for_usage demo_price (no_usage\<lparr>bu_output_tokens := 10\<rparr>) = Inr m \<and>
     charge_for_usage demo_price (no_usage\<lparr>bu_output_tokens := 10, bu_input_tokens := 4\<rparr>) = Inr n \<and>
     amount_minor m \<le> amount_minor n"
proof -
  have "parse_local_tariff demo_price = Inr \<lparr>lt_currency = ''PTS'', lt_reservation_minor = 300,
      lt_minimum_charge_minor = 2, lt_components = [(''input_tokens'', 1), (''output_tokens'', 3)]\<rparr>"
    "is_currency (ps_currency demo_price)" "upper (strip (ps_currency demo_price)) = ps_currency demo_price"
    "mk_BillingUsage (no_usage\<lparr>bu_output_tokens := 10\<rparr>) = Inr (no_usage\<lparr>bu_output_tokens := 10\<rparr>)"
    "mk_BillingUsage (no_usage\<lparr>bu_output_tokens := 10, bu_input_tokens := 4\<rparr>)
      = Inr (no_usage\<lparr>bu_output_tokens := 10, bu_input_tokens := 4\<rparr>)"
    "list_all2 (\<le>) (usage_values (no_usage\<lparr>bu_output_tokens := 10\<rparr>))
      (usage_values (no_usage\<lparr>bu_output_tokens := 10, bu_input_tokens := 4\<rparr>))"
    by code_simp+
  from charge_for_usage_exact [OF this] show ?thesis by blast
qed

end
