(* ===== verification/Billing_Service.thy ===== *)
theory Billing_Service
  imports Billing_State Billing_Pricing
begin

text \<open>
  The wallet service of \<open>app/billing/service.py\<close> over the rows it reads and writes
  (\<open>app/infrastructure/models.py\<close>, \<open>app/billing/queries.py\<close>): reserve, capture and release of a
  balance hold, each one database transaction, with the constraints PostgreSQL checks at flush.
  Fresh identifiers and clock readings are arguments. Row locks make a transaction on one wallet
  atomic, so an operation is a function of the database; the one place where another transaction
  may commit in between, the unlocked source lookup of \<open>reserve\<close>, takes the states its first read
  and its locked reads saw and the state at flush separately.
\<close>

subsection \<open>Rows\<close>

record WalletAccount =
  w_id :: uuid
  w_tenant_id :: uuid
  w_currency :: string
  w_balance_minor :: int
  w_reserved_minor :: int
  w_version :: int
  w_status :: string

record BalanceReservation =
  r_id :: uuid
  r_tenant_id :: uuid
  r_wallet_account_id :: uuid
  r_amount_minor :: int
  r_currency :: string
  r_status :: string
  r_source_type :: string
  r_source_id :: uuid
  r_expires_at :: instant
  r_captured_amount_minor :: "int option"
  r_committed_at :: "instant option"
  r_released_at :: "instant option"

text \<open>
  The journal's idempotency key \<open>reservation:<id>:<suffix>\<close>, kept structured because \<open>str(UUID)\<close>
  is injective and contains no colon; so is \<open>operator-grant:<tenant>:<version>\<close>. Any other text is
  \<open>TextKey\<close>.
\<close>

datatype ledger_key = ReservationKey uuid string | OperatorGrantKey uuid int | TextKey string

record LedgerEntry =
  l_id :: uuid
  l_tenant_id :: uuid
  l_wallet_account_id :: uuid
  l_reservation_id :: "uuid option"
  l_entry_type :: string
  l_amount_minor :: int
  l_currency :: string
  l_reference_type :: string
  l_reference_id :: uuid
  l_idempotency_key :: "ledger_key option"

record UsageRecord =
  u_id :: uuid
  u_tenant_id :: uuid
  u_actor_user_id :: "uuid option"
  u_inference_request_id :: "uuid option"
  u_generation_job_id :: "uuid option"
  u_model_deployment_id :: uuid
  u_modality :: string
  u_model_key :: string
  u_provider_request_id :: "string option"
  u_provider_task_id :: "string option"
  u_pricing_version :: string
  u_currency :: string
  u_measures :: BillingUsage
  u_charge_amount_minor :: int

record PriceVersion =
  pv_id :: uuid
  pv_price_key :: string
  pv_version :: int
  pv_currency :: string
  pv_unit :: string
  pv_pricing :: "(string \<times> json) list"

text \<open>The columns of InferenceRequests and GenerationJobs that settlement reads.\<close>

record priced_source =
  src_tenant_id :: uuid
  src_id :: uuid
  src_accepted_price_version_id :: "uuid option"

record billing_db =
  wallets :: "WalletAccount list"
  reservations :: "BalanceReservation list"
  ledger :: "LedgerEntry list"
  usage_records :: "UsageRecord list"
  price_versions :: "PriceVersion list"
  inference_requests :: "priced_source list"
  generation_jobs :: "priced_source list"

subsection \<open>Constraints checked at flush\<close>

definition bigint :: "int \<Rightarrow> bool" where
  "bigint i \<longleftrightarrow> - (2 ^ 63) \<le> i \<and> i < 2 ^ 63"

definition wallet_numeric :: "WalletAccount \<Rightarrow> bool" where
  "wallet_numeric w \<longleftrightarrow> bigint (w_balance_minor w) \<and> bigint (w_reserved_minor w) \<and> bigint (w_version w)"

definition wallet_check :: "WalletAccount \<Rightarrow> bool" where
  "wallet_check w \<longleftrightarrow>
     w_status w \<in> set [''active'', ''frozen'', ''closed''] \<and>
     0 \<le> w_balance_minor w \<and> 0 \<le> w_reserved_minor w \<and> w_reserved_minor w \<le> w_balance_minor w \<and>
     is_currency (w_currency w) \<and> 0 \<le> w_version w"

definition reservation_numeric :: "BalanceReservation \<Rightarrow> bool" where
  "reservation_numeric r \<longleftrightarrow> bigint (r_amount_minor r) \<and>
     (case r_captured_amount_minor r of None \<Rightarrow> True | Some c \<Rightarrow> bigint c)"

definition reservation_check :: "BalanceReservation \<Rightarrow> bool" where
  "reservation_check r \<longleftrightarrow>
     r_status r \<in> set [''pending'', ''committed'', ''released'', ''expired''] \<and>
     0 < r_amount_minor r \<and> is_currency (r_currency r) \<and>
     (case r_captured_amount_minor r of None \<Rightarrow> True | Some c \<Rightarrow> 0 \<le> c \<and> c \<le> r_amount_minor r) \<and>
     (r_status r = ''committed'' \<longleftrightarrow> r_captured_amount_minor r \<noteq> None)"

definition ledger_check :: "LedgerEntry \<Rightarrow> bool" where
  "ledger_check l \<longleftrightarrow>
     l_entry_type l \<in> set [''credit'', ''debit'', ''hold'', ''release'', ''adjustment''] \<and>
     0 < l_amount_minor l \<and> is_currency (l_currency l)"

definition usage_check :: "UsageRecord \<Rightarrow> bool" where
  "usage_check u \<longleftrightarrow>
     u_modality u \<in> set [''text'', ''image'', ''video'', ''audio'', ''embedding'', ''rerank'', ''multimodal''] \<and>
     list_all (\<lambda>v. 0 \<le> v) (usage_values (u_measures u)) \<and> 0 \<le> u_charge_amount_minor u \<and>
     u_currency u = upper (u_currency u) \<and>
     (u_inference_request_id u \<noteq> None) \<noteq> (u_generation_job_id u \<noteq> None)"

definition numeric_ok :: "billing_db \<Rightarrow> bool" where
  "numeric_ok db \<longleftrightarrow>
     list_all wallet_numeric (wallets db) \<and> list_all reservation_numeric (reservations db) \<and>
     list_all (\<lambda>l. bigint (l_amount_minor l)) (ledger db) \<and>
     list_all (\<lambda>u. list_all bigint (u_charge_amount_minor u # usage_values (u_measures u)))
       (usage_records db)"

definition checks_ok :: "billing_db \<Rightarrow> bool" where
  "checks_ok db \<longleftrightarrow>
     list_all wallet_check (wallets db) \<and> list_all reservation_check (reservations db) \<and>
     list_all ledger_check (ledger db) \<and> list_all usage_check (usage_records db)"

definition reservation_source :: "BalanceReservation \<Rightarrow> uuid \<times> string \<times> uuid" where
  "reservation_source r = (r_tenant_id r, r_source_type r, r_source_id r)"

text \<open>A unique index over a nullable column ignores the rows where it is NULL.\<close>

definition journal_keys :: "LedgerEntry list \<Rightarrow> (uuid \<times> ledger_key) list" where
  "journal_keys ls = map (\<lambda>l. (l_tenant_id l, the (l_idempotency_key l)))
     (filter (\<lambda>l. l_idempotency_key l \<noteq> None) ls)"

definition usage_source_keys :: "(UsageRecord \<Rightarrow> uuid option) \<Rightarrow> UsageRecord list \<Rightarrow> (uuid \<times> uuid) list"
where
  "usage_source_keys source us = map (\<lambda>u. (u_tenant_id u, the (source u)))
     (filter (\<lambda>u. source u \<noteq> None) us)"

definition unique_ok :: "billing_db \<Rightarrow> bool" where
  "unique_ok db \<longleftrightarrow>
     distinct (map w_id (wallets db)) \<and>
     distinct (map (\<lambda>w. (w_tenant_id w, w_currency w)) (wallets db)) \<and>
     distinct (map r_id (reservations db)) \<and>
     distinct (map reservation_source (reservations db)) \<and>
     distinct (map l_id (ledger db)) \<and> distinct (journal_keys (ledger db)) \<and>
     distinct (map u_id (usage_records db)) \<and>
     distinct (usage_source_keys u_inference_request_id (usage_records db)) \<and>
     distinct (usage_source_keys u_generation_job_id (usage_records db))"

definition fk_ok :: "billing_db \<Rightarrow> bool" where
  "fk_ok db \<longleftrightarrow>
     list_all (\<lambda>r. list_ex (\<lambda>w. w_tenant_id w = r_tenant_id r \<and> w_id w = r_wallet_account_id r) (wallets db))
       (reservations db) \<and>
     list_all (\<lambda>l. list_ex (\<lambda>w. w_tenant_id w = l_tenant_id l \<and> w_id w = l_wallet_account_id l) (wallets db))
       (ledger db) \<and>
     list_all (\<lambda>l. case l_reservation_id l of None \<Rightarrow> True
        | Some i \<Rightarrow> list_ex (\<lambda>r. r_tenant_id r = l_tenant_id l \<and> r_id r = i) (reservations db)) (ledger db)"

definition flush :: "billing_db \<Rightarrow> 'e raised + billing_db" where
  "flush db =
     (if \<not> numeric_ok db then Inl (Sql NumericOutOfRange)
      else if \<not> checks_ok db then Inl (Sql CheckViolation)
      else if \<not> unique_ok db then Inl (Sql UniqueViolation)
      else if \<not> fk_ok db then Inl (Sql ForeignKeyViolation)
      else Inr db)"

definition constraints_ok :: "billing_db \<Rightarrow> bool" where
  "constraints_ok db \<longleftrightarrow> numeric_ok db \<and> checks_ok db \<and> unique_ok db \<and> fk_ok db"

lemma flush_Inr_iff [simp]: "flush db = Inr db' \<longleftrightarrow> db' = db \<and> constraints_ok db"
  by (auto simp: flush_def constraints_ok_def)

subsection \<open>Queries and row loading\<close>

definition wallet_by_currency_for_update :: "uuid \<Rightarrow> string \<Rightarrow> billing_db \<Rightarrow> WalletAccount list" where
  "wallet_by_currency_for_update t c db = filter (\<lambda>w. w_tenant_id w = t \<and> w_currency w = c) (wallets db)"

definition wallet_by_id_for_update :: "uuid \<Rightarrow> uuid \<Rightarrow> billing_db \<Rightarrow> WalletAccount list" where
  "wallet_by_id_for_update t i db = filter (\<lambda>w. w_tenant_id w = t \<and> w_id w = i) (wallets db)"

definition reservation_by_id_for_update :: "uuid \<Rightarrow> uuid \<Rightarrow> billing_db \<Rightarrow> BalanceReservation list" where
  "reservation_by_id_for_update t i db = filter (\<lambda>r. r_tenant_id r = t \<and> r_id r = i) (reservations db)"

definition reservation_wallet_id :: "uuid \<Rightarrow> uuid \<Rightarrow> billing_db \<Rightarrow> uuid list" where
  "reservation_wallet_id t i db = map r_wallet_account_id (reservation_by_id_for_update t i db)"

definition reservation_by_source :: "uuid \<Rightarrow> string \<Rightarrow> uuid \<Rightarrow> billing_db \<Rightarrow> BalanceReservation list" where
  "reservation_by_source t st sid db =
     filter (\<lambda>r. r_tenant_id r = t \<and> r_source_type r = st \<and> r_source_id r = sid) (reservations db)"

fun or_raise :: "'e \<Rightarrow> 'e raised + 'a option \<Rightarrow> 'e raised + 'a" where
  "or_raise e (Inl x) = Inl x"
| "or_raise e (Inr None) = Inl (Domain e)"
| "or_raise e (Inr (Some r)) = Inr r"

lemma or_raise_Inr_iff [simp]: "or_raise e m = Inr r \<longleftrightarrow> m = Inr (Some r)"
  by (cases "(e, m)" rule: or_raise.cases) auto

definition find_reservation_by_source ::
  "billing_db \<Rightarrow> uuid \<Rightarrow> string \<Rightarrow> uuid \<Rightarrow> billing_error raised + BalanceReservation option" where
  "find_reservation_by_source db t st sid = scalar_one_or_none (reservation_by_source t st sid db)"

definition load_reservation_wallet_id :: "billing_db \<Rightarrow> uuid \<Rightarrow> uuid \<Rightarrow> billing_error raised + uuid" where
  "load_reservation_wallet_id db t rid =
     or_raise (BillingNotFound RESERVATION_NOT_FOUND) (scalar_one_or_none (reservation_wallet_id t rid db))"

definition lock_reservation ::
  "billing_db \<Rightarrow> uuid \<Rightarrow> uuid \<Rightarrow> billing_error raised + BalanceReservation" where
  "lock_reservation db t rid =
     or_raise (BillingNotFound RESERVATION_NOT_FOUND) (scalar_one_or_none (reservation_by_id_for_update t rid db))"

definition lock_reservation_by_source ::
  "billing_db \<Rightarrow> uuid \<Rightarrow> string \<Rightarrow> uuid \<Rightarrow> billing_error raised + BalanceReservation option" where
  "lock_reservation_by_source db t st sid = scalar_one_or_none (reservation_by_source t st sid db)"

definition lock_wallet_for_currency ::
  "billing_db \<Rightarrow> uuid \<Rightarrow> string \<Rightarrow> billing_error raised + WalletAccount" where
  "lock_wallet_for_currency db t c =
     or_raise (BillingNotFound WALLET_NOT_FOUND) (scalar_one_or_none (wallet_by_currency_for_update t c db))"

definition lock_wallet_by_id ::
  "billing_db \<Rightarrow> uuid \<Rightarrow> uuid \<Rightarrow> billing_error raised + WalletAccount" where
  "lock_wallet_by_id db t wid =
     or_raise BillingInvariantError (scalar_one_or_none (wallet_by_id_for_update t wid db))"

text \<open>The accepted price and the usage row of a reservation's source.\<close>

definition price_for_reservation ::
  "billing_db \<Rightarrow> uuid \<Rightarrow> BalanceReservation \<Rightarrow> billing_error raised + PriceSnapshot" where
  "price_for_reservation db t r =
     andthen
       (if r_source_type r = ''chat_inference'' then
          scalar_one_or_none (map src_accepted_price_version_id
            (filter (\<lambda>s. src_tenant_id s = t \<and> src_id s = r_source_id r) (inference_requests db)))
        else if r_source_type r = ''generation'' then
          scalar_one_or_none (map src_accepted_price_version_id
            (filter (\<lambda>s. src_tenant_id s = t \<and> src_id s = r_source_id r) (generation_jobs db)))
        else Inl (Domain BillingInvariantError)) (\<lambda>accepted.
     case accepted of
       Some (Some vid) \<Rightarrow>
         andthen (or_raise BillingInvariantError
                    (scalar_one_or_none (filter (\<lambda>p. pv_id p = vid) (price_versions db)))) (\<lambda>p.
         map_error Domain (mk_PriceSnapshot (pv_id p) (pv_price_key p) (pv_version p) (pv_currency p)
                             (pv_unit p) (pv_pricing p)))
     | _ \<Rightarrow> Inl (Domain BillingInvariantError))"

definition usage_for_reservation ::
  "billing_db \<Rightarrow> uuid \<Rightarrow> BalanceReservation \<Rightarrow> billing_error raised + UsageRecord" where
  "usage_for_reservation db t r =
     (if r_source_type r = ''chat_inference'' then
        or_raise BillingInvariantError (scalar_one_or_none
          (filter (\<lambda>u. u_tenant_id u = t \<and> u_inference_request_id u = Some (r_source_id r)) (usage_records db)))
      else if r_source_type r = ''generation'' then
        or_raise BillingInvariantError (scalar_one_or_none
          (filter (\<lambda>u. u_tenant_id u = t \<and> u_generation_job_id u = Some (r_source_id r)) (usage_records db)))
      else Inl (Domain BillingInvariantError))"

subsection \<open>Helpers of the service\<close>

definition ledger_entry ::
  "uuid \<Rightarrow> uuid \<Rightarrow> uuid \<Rightarrow> uuid \<Rightarrow> string \<Rightarrow> int \<Rightarrow> string \<Rightarrow> string \<Rightarrow> LedgerEntry" where
  "ledger_entry lid t wid rid entry_type amount cur suffix =
     \<lparr>l_id = lid, l_tenant_id = t, l_wallet_account_id = wid, l_reservation_id = Some rid,
      l_entry_type = entry_type, l_amount_minor = amount, l_currency = cur,
      l_reference_type = ''balance_reservation'', l_reference_id = rid,
      l_idempotency_key = Some (ReservationKey rid suffix)\<rparr>"

definition billing_usage_from_record :: "UsageRecord \<Rightarrow> billing_error + BillingUsage" where
  "billing_usage_from_record u = mk_BillingUsage (u_measures u)"

definition apply_usage_charge ::
  "UsageRecord \<Rightarrow> PriceSnapshot \<Rightarrow> Money \<Rightarrow> billing_error + UsageRecord" where
  "apply_usage_charge record price charge =
     andthen (pricing_version price) (\<lambda>label.
     andthen (require (u_charge_amount_minor record \<in> set [0, amount_minor charge]) BillingInvariantError) (\<lambda>_.
     Inr (record\<lparr>u_pricing_version := label, u_currency := currency charge,
                 u_charge_amount_minor := amount_minor charge\<rparr>)))"

record ReservationResult =
  rr_reservation_id :: uuid
  rr_tenant_id :: uuid
  rr_source_type :: string
  rr_source_id :: uuid
  rr_amount :: Money
  rr_status :: string
  rr_expires_at :: py_datetime

record CaptureResult =
  cr_reservation :: ReservationResult
  cr_charged :: Money
  cr_released :: Money
  cr_idempotent :: bool

record ReleaseResult =
  rel_reservation :: ReservationResult
  rel_released :: Money
  rel_idempotent :: bool

definition reservation_result :: "BalanceReservation \<Rightarrow> billing_error + ReservationResult" where
  "reservation_result r =
     andthen (require (r_status r \<in> set [''pending'', ''committed'', ''released'', ''expired''])
                BillingInvariantError) (\<lambda>_.
     andthen (mk_Money (r_amount_minor r) (r_currency r)) (\<lambda>amount.
     Inr \<lparr>rr_reservation_id = r_id r, rr_tenant_id = r_tenant_id r, rr_source_type = r_source_type r,
          rr_source_id = r_source_id r, rr_amount = amount, rr_status = r_status r,
          rr_expires_at = as_utc (Aware (r_expires_at r))\<rparr>))"

definition capture_result ::
  "BalanceReservation \<Rightarrow> int \<Rightarrow> int \<Rightarrow> bool \<Rightarrow> billing_error + CaptureResult" where
  "capture_result r charged released idem =
     andthen (reservation_result r) (\<lambda>res.
     andthen (mk_Money charged (r_currency r)) (\<lambda>c.
     andthen (mk_Money released (r_currency r)) (\<lambda>d.
     Inr \<lparr>cr_reservation = res, cr_charged = c, cr_released = d, cr_idempotent = idem\<rparr>)))"

definition release_result ::
  "BalanceReservation \<Rightarrow> string \<Rightarrow> int \<Rightarrow> bool \<Rightarrow> billing_error + ReleaseResult" where
  "release_result r cur released idem =
     andthen (reservation_result r) (\<lambda>res.
     andthen (mk_Money released cur) (\<lambda>d.
     Inr \<lparr>rel_reservation = res, rel_released = d, rel_idempotent = idem\<rparr>))"

definition resolve_existing_reservation ::
  "BalanceReservation \<Rightarrow> Money \<Rightarrow> py_datetime \<Rightarrow> billing_error + ReservationResult" where
  "resolve_existing_reservation r requested_amount requested_expires_at =
     (if r_currency r \<noteq> currency requested_amount then
        Inl (BillingConflict RESERVATION_IDEMPOTENCY_CONFLICT)
      else if r_amount_minor r \<noteq> amount_minor requested_amount then
        Inl (BillingConflict RESERVATION_IDEMPOTENCY_CONFLICT)
      else if as_utc (Aware (r_expires_at r)) \<noteq> requested_expires_at then
        Inl (BillingConflict RESERVATION_IDEMPOTENCY_CONFLICT)
      else reservation_result r)"

definition capture_transition_error :: "string \<Rightarrow> Money \<Rightarrow> BalanceReservation \<Rightarrow> billing_error" where
  "capture_transition_error status actual r =
     (if status = ''committed'' then BillingConflict CAPTURE_CONFLICT
      else if status \<in> set [''released'', ''expired''] then BillingConflict CAPTURE_CONFLICT
      else if status = ''pending'' \<and> amount_minor actual > r_amount_minor r
        then BillingConflict CAPTURE_AMOUNT_EXCEEDED
      else BillingInvariantError)"

definition assert_wallet_reservation_match ::
  "WalletAccount \<Rightarrow> BalanceReservation \<Rightarrow> billing_error + unit" where
  "assert_wallet_reservation_match w r =
     require (\<not> (w_id w \<noteq> r_wallet_account_id r \<or> w_tenant_id w \<noteq> r_tenant_id r \<or>
                 w_currency w \<noteq> r_currency r)) BillingInvariantError"

definition assert_currency :: "Money \<Rightarrow> string \<Rightarrow> billing_error + unit" where
  "assert_currency actual c = require (currency actual = c) (BillingConflict CURRENCY_MISMATCH)"

definition is_source_type :: "string \<Rightarrow> bool" where
  "is_source_type s \<longleftrightarrow>
     s \<noteq> [] \<and> (is_lower (hd s) \<or> is_digit (hd s)) \<and> length s \<le> 64 \<and>
     list_all (\<lambda>c. is_lower c \<or> is_digit c \<or> c \<in> set '':_-'') (tl s)"

definition normalize_source_type :: "string \<Rightarrow> billing_error + string" where
  "normalize_source_type v =
     (let normalized = lower (strip v) in
      if is_source_type normalized then Inr normalized
      else Inl (BillingInputError ''BILLING_INVALID_SOURCE''))"

fun require_future_utc :: "py_datetime \<Rightarrow> instant \<Rightarrow> billing_error + instant" where
  "require_future_utc (Naive _) now = Inl (BillingInputError ''BILLING_INVALID_EXPIRY'')"
| "require_future_utc (Aware t) now =
     (if t \<le> now then Inl (BillingInputError ''BILLING_INVALID_EXPIRY'') else Inr t)"

end
