(* ===== verification/Billing_Operations.thy ===== *)
theory Billing_Operations
  imports Billing_Service
begin

text \<open>
  The operations of \<open>SqlAlchemyBillingService\<close> and the demo credit of
  \<open>scripts/seed_demo_credit.py\<close>. Each operation returns its outcome and the committed database. A
  body raises a domain error or a driver error; the outer handler lets the former through and turns
  the latter into \<open>BillingStorageError\<close>, as the \<open>except\<close> clauses do.
\<close>

subsection \<open>Writing rows\<close>

definition put_wallet :: "WalletAccount \<Rightarrow> billing_db \<Rightarrow> billing_db" where
  "put_wallet w db = db\<lparr>wallets := update_where (\<lambda>x. w_id x = w_id w) (\<lambda>_. w) (wallets db)\<rparr>"

definition put_reservation :: "BalanceReservation \<Rightarrow> billing_db \<Rightarrow> billing_db" where
  "put_reservation r db =
     db\<lparr>reservations := update_where (\<lambda>x. r_id x = r_id r) (\<lambda>_. r) (reservations db)\<rparr>"

definition put_usage :: "UsageRecord \<Rightarrow> billing_db \<Rightarrow> billing_db" where
  "put_usage u db = db\<lparr>usage_records := update_where (\<lambda>x. u_id x = u_id u) (\<lambda>_. u) (usage_records db)\<rparr>"

definition add_reservation :: "BalanceReservation \<Rightarrow> billing_db \<Rightarrow> billing_db" where
  "add_reservation r db = db\<lparr>reservations := reservations db @ [r]\<rparr>"

definition add_ledger :: "LedgerEntry list \<Rightarrow> billing_db \<Rightarrow> billing_db" where
  "add_ledger ls db = db\<lparr>ledger := ledger db @ ls\<rparr>"

fun storage_error :: "billing_error raised + 'a \<Rightarrow> billing_error + 'a" where
  "storage_error (Inl (Domain e)) = Inl e"
| "storage_error (Inl (Sql _)) = Inl BillingStorageError"
| "storage_error (Inr x) = Inr x"

lemma storage_error_Inr_iff [simp]: "storage_error m = Inr x \<longleftrightarrow> m = Inr x"
  by (cases m rule: storage_error.cases) auto

subsection \<open>Reserve\<close>

text \<open>
  \<open>_reserve_in_transaction\<close>. \<open>first\<close> is what the unlocked lookup reads, \<open>seen\<close> what the queries
  under the wallet lock read, \<open>db\<close> what the flush writes to; they differ only by what other
  transactions committed in between.
\<close>

definition existing_reservation ::
  "billing_db \<Rightarrow> uuid \<Rightarrow> BalanceReservation \<Rightarrow> Money \<Rightarrow> instant \<Rightarrow> billing_error raised + ReservationResult" where
  "existing_reservation seen t existing amount expires_at =
     andthen (lock_wallet_by_id seen t (r_wallet_account_id existing)) (\<lambda>wallet.
     andthen (lock_reservation seen t (r_id existing)) (\<lambda>reservation.
     andthen (map_error Domain (assert_wallet_reservation_match wallet reservation)) (\<lambda>_.
     map_error Domain (resolve_existing_reservation reservation amount (Aware expires_at)))))"

definition new_reservation ::
  "uuid \<Rightarrow> uuid \<Rightarrow> uuid \<Rightarrow> Money \<Rightarrow> string \<Rightarrow> uuid \<Rightarrow> instant \<Rightarrow> BalanceReservation" where
  "new_reservation rid t wid amount st sid expires_at =
     \<lparr>r_id = rid, r_tenant_id = t, r_wallet_account_id = wid, r_amount_minor = amount_minor amount,
      r_currency = currency amount, r_status = ''pending'', r_source_type = st, r_source_id = sid,
      r_expires_at = expires_at, r_captured_amount_minor = None, r_committed_at = None,
      r_released_at = None\<rparr>"

definition hold_wallet :: "int \<Rightarrow> WalletAccount \<Rightarrow> WalletAccount" where
  "hold_wallet amount w =
     w\<lparr>w_reserved_minor := w_reserved_minor w + amount, w_version := w_version w + 1\<rparr>"

definition place_hold ::
  "billing_db \<Rightarrow> uuid \<Rightarrow> uuid \<Rightarrow> uuid \<Rightarrow> WalletAccount \<Rightarrow> string \<Rightarrow> uuid \<Rightarrow> Money \<Rightarrow> instant \<Rightarrow> billing_db" where
  "place_hold db rid lid t wallet st sid amount expires_at =
     add_ledger [ledger_entry lid t (w_id wallet) rid ''hold'' (amount_minor amount) (w_currency wallet) ''hold'']
       (add_reservation (new_reservation rid t (w_id wallet) amount st sid expires_at)
         (put_wallet (hold_wallet (amount_minor amount) wallet) db))"

definition reserve_in_txn ::
  "billing_db \<Rightarrow> billing_db \<Rightarrow> billing_db \<Rightarrow> uuid \<Rightarrow> uuid \<Rightarrow> uuid \<Rightarrow> string \<Rightarrow> uuid \<Rightarrow> Money \<Rightarrow> instant
   \<Rightarrow> billing_error raised + (ReservationResult \<times> billing_db)" where
  "reserve_in_txn first seen db rid lid t st sid amount expires_at =
     andthen (find_reservation_by_source first t st sid) (\<lambda>found.
     case found of
       Some existing \<Rightarrow>
         andthen (existing_reservation seen t existing amount expires_at) (\<lambda>res. Inr (res, db))
     | None \<Rightarrow>
         andthen (lock_wallet_for_currency seen t (currency amount)) (\<lambda>wallet.
         andthen (lock_reservation_by_source seen t st sid) (\<lambda>locked.
         case locked of
           Some existing \<Rightarrow>
             andthen (lock_wallet_by_id seen t (r_wallet_account_id existing)) (\<lambda>existing_wallet.
             andthen (map_error Domain (assert_wallet_reservation_match existing_wallet existing)) (\<lambda>_.
             andthen (map_error Domain
                        (resolve_existing_reservation existing amount (Aware expires_at))) (\<lambda>res.
             Inr (res, db))))
         | None \<Rightarrow>
             andthen (require (w_status wallet = ''active'') (Domain (BillingConflict WALLET_UNAVAILABLE))) (\<lambda>_.
             let available = w_balance_minor wallet - w_reserved_minor wallet in
             andthen (require (0 \<le> available) (Domain BillingInvariantError)) (\<lambda>_.
             andthen (require (amount_minor amount \<le> available)
                        (Domain (BillingConflict INSUFFICIENT_FUNDS))) (\<lambda>_.
             andthen (flush (place_hold db rid lid t wallet st sid amount expires_at)) (\<lambda>db'.
             andthen (map_error Domain
                        (reservation_result (new_reservation rid t (w_id wallet) amount st sid expires_at))) (\<lambda>res.
             Inr (res, db')))))))))"

text \<open>\<open>_resolve_reservation_race\<close>: after the rollback, answer from the row the winner inserted.\<close>

definition resolve_reservation_race ::
  "billing_db \<Rightarrow> uuid \<Rightarrow> string \<Rightarrow> uuid \<Rightarrow> Money \<Rightarrow> instant \<Rightarrow> billing_error + ReservationResult" where
  "resolve_reservation_race db t st sid amount expires_at =
     storage_error
       (andthen (find_reservation_by_source db t st sid) (\<lambda>found.
        case found of
          None \<Rightarrow> Inl (Domain BillingStorageError)
        | Some reservation \<Rightarrow> existing_reservation db t reservation amount expires_at))"

definition reserve ::
  "billing_db \<Rightarrow> billing_db \<Rightarrow> billing_db \<Rightarrow> uuid \<Rightarrow> uuid \<Rightarrow> instant \<Rightarrow> uuid \<Rightarrow> string \<Rightarrow> uuid \<Rightarrow> Money \<Rightarrow> py_datetime
   \<Rightarrow> (billing_error + ReservationResult) \<times> billing_db" where
  "reserve first seen db rid lid now t source_type source_id amount expires_at =
     (case andthen (require (0 < amount_minor amount)
                      (BillingInputError ''BILLING_INVALID_RESERVATION_AMOUNT'')) (\<lambda>_.
           andthen (normalize_source_type source_type) (\<lambda>st.
           andthen (require_future_utc expires_at now) (\<lambda>exp. Inr (st, exp)))) of
        Inl e \<Rightarrow> (Inl e, db)
      | Inr (st, exp) \<Rightarrow>
          (case reserve_in_txn first seen db rid lid t st source_id amount exp of
             Inr (res, db') \<Rightarrow> (Inr res, db')
           | Inl (Domain e) \<Rightarrow> (Inl e, db)
           | Inl (Sql UniqueViolation) \<Rightarrow> (resolve_reservation_race db t st source_id amount exp, db)
           | Inl (Sql _) \<Rightarrow> (Inl BillingStorageError, db)))"

text \<open>
  \<open>reserve_in_transaction\<close> neither begins nor commits: it returns the caller's transaction state,
  and a raise leaves the caller to roll back.
\<close>

definition reserve_in_transaction ::
  "billing_db \<Rightarrow> billing_db \<Rightarrow> billing_db \<Rightarrow> uuid \<Rightarrow> uuid \<Rightarrow> instant \<Rightarrow> uuid \<Rightarrow> string \<Rightarrow> uuid \<Rightarrow> PriceSnapshot \<Rightarrow> py_datetime
   \<Rightarrow> billing_error + (ReservationResult \<times> billing_db)" where
  "reserve_in_transaction first seen db rid lid now t source_type source_id price expires_at =
     andthen (reservation_amount price) (\<lambda>amount.
     andthen (normalize_source_type source_type) (\<lambda>st.
     andthen (require_future_utc expires_at now) (\<lambda>exp.
     storage_error (reserve_in_txn first seen db rid lid t st source_id amount exp))))"

subsection \<open>Capture\<close>

text \<open>
  The opening of both settlement operations: read the reservation's wallet, lock the wallet, lock
  the reservation, compare the two.
\<close>

definition lock_rows ::
  "billing_db \<Rightarrow> uuid \<Rightarrow> uuid \<Rightarrow> billing_error raised + (WalletAccount \<times> BalanceReservation)" where
  "lock_rows db t rid =
     andthen (load_reservation_wallet_id db t rid) (\<lambda>wallet_id.
     andthen (lock_wallet_by_id db t wallet_id) (\<lambda>wallet.
     andthen (lock_reservation db t rid) (\<lambda>reservation.
     andthen (map_error Domain (assert_wallet_reservation_match wallet reservation)) (\<lambda>_.
     Inr (wallet, reservation)))))"


text \<open>
  What a capture charges: the given amount, or the tariff applied to the given usage or to the
  stored usage row, which is then kept for the settlement label.
\<close>

definition capture_charge ::
  "billing_db \<Rightarrow> uuid \<Rightarrow> BalanceReservation \<Rightarrow> Money option \<Rightarrow> BillingUsage option
   \<Rightarrow> billing_error raised + (Money \<times> (UsageRecord \<times> PriceSnapshot) option)" where
  "capture_charge db t reservation actual usage =
     (case (actual, usage) of
        (Some money, None) \<Rightarrow> Inr (money, None)
      | _ \<Rightarrow>
        andthen (price_for_reservation db t reservation) (\<lambda>price.
        andthen (usage_for_reservation db t reservation) (\<lambda>usage_record.
        andthen (case usage of Some u \<Rightarrow> Inr u
                 | None \<Rightarrow> map_error Domain (billing_usage_from_record usage_record)) (\<lambda>u.
        andthen (map_error Domain (charge_for_usage price u)) (\<lambda>charge.
        Inr (charge, Some (usage_record, price)))))))"

fun settle_usage ::
  "(UsageRecord \<times> PriceSnapshot) option \<Rightarrow> Money \<Rightarrow> billing_db \<Rightarrow> billing_error + billing_db" where
  "settle_usage None charge db = Inr db"
| "settle_usage (Some (record, price)) charge db =
     andthen (apply_usage_charge record price charge) (\<lambda>record'. Inr (put_usage record' db))"

fun capture_error :: "string \<Rightarrow> Money \<Rightarrow> BalanceReservation \<Rightarrow> transition_error \<Rightarrow> billing_error" where
  "capture_error status actual r (InvalidReservationTransition _) = capture_transition_error status actual r"
| "capture_error status actual r (StateValueError _) = BillingInvariantError"

definition capture_wallet :: "int \<Rightarrow> int \<Rightarrow> WalletAccount \<Rightarrow> WalletAccount" where
  "capture_wallet reserved charged w =
     w\<lparr>w_reserved_minor := w_reserved_minor w - reserved, w_balance_minor := w_balance_minor w - charged,
       w_version := w_version w + 1\<rparr>"

definition commit_reservation :: "int \<Rightarrow> instant \<Rightarrow> BalanceReservation \<Rightarrow> BalanceReservation" where
  "commit_reservation charged now r =
     r\<lparr>r_status := ''committed'', r_captured_amount_minor := Some charged, r_committed_at := Some now\<rparr>"

definition capture_entries ::
  "uuid \<Rightarrow> uuid \<Rightarrow> uuid \<Rightarrow> WalletAccount \<Rightarrow> uuid \<Rightarrow> CaptureDecision \<Rightarrow> LedgerEntry list" where
  "capture_entries lid1 lid2 t wallet rid d =
     (if 0 < cd_charged_minor d then
        [ledger_entry lid1 t (w_id wallet) rid ''debit'' (cd_charged_minor d) (w_currency wallet) ''debit'']
      else []) @
     (if 0 < cd_released_minor d then
        [ledger_entry lid2 t (w_id wallet) rid ''release'' (cd_released_minor d) (w_currency wallet) ''release'']
      else [])"

definition settle_capture ::
  "billing_db \<Rightarrow> uuid \<Rightarrow> uuid \<Rightarrow> instant \<Rightarrow> uuid \<Rightarrow> WalletAccount \<Rightarrow> BalanceReservation \<Rightarrow>
   Money option \<Rightarrow> BillingUsage option \<Rightarrow> billing_error raised + (CaptureResult \<times> billing_db)" where
  "settle_capture db lid1 lid2 now t wallet reservation actual usage =
     andthen (capture_charge db t reservation actual usage) (\<lambda>(charge, settlement).
     andthen (map_error Domain (assert_currency charge (w_currency wallet))) (\<lambda>_.
     andthen (map_error (\<lambda>_. Domain BillingInvariantError)
                (reservation_is_expired (as_utc (Aware (r_expires_at reservation))) (Aware now))) (\<lambda>expired.
     andthen (require (\<not> (r_status reservation = ''pending'' \<and> expired))
                (Domain (BillingConflict RESERVATION_EXPIRED))) (\<lambda>_.
     andthen (map_error (\<lambda>e. Domain (capture_error (r_status reservation) charge reservation e))
                (decide_capture (r_status reservation) (r_amount_minor reservation)
                   (amount_minor charge) (r_captured_amount_minor reservation))) (\<lambda>d.
     if cd_idempotent d then
       andthen (map_error Domain (settle_usage settlement charge db)) (\<lambda>db1.
       andthen (map_error Domain
                  (capture_result reservation (cd_charged_minor d) (cd_released_minor d) True)) (\<lambda>res.
       if settlement = None then Inr (res, db1)
       else andthen (flush db1) (\<lambda>db2. Inr (res, db2))))
     else
       andthen (require (w_status wallet = ''active'') (Domain (BillingConflict WALLET_UNAVAILABLE))) (\<lambda>_.
       andthen (require (\<not> (w_reserved_minor wallet < r_amount_minor reservation \<or>
                            w_balance_minor wallet < cd_charged_minor d)) (Domain BillingInvariantError)) (\<lambda>_.
       let wallet' = capture_wallet (r_amount_minor reservation) (cd_charged_minor d) wallet;
           reservation' = commit_reservation (cd_charged_minor d) now reservation in
       andthen (map_error Domain (settle_usage settlement charge
                  (put_reservation reservation' (put_wallet wallet' db)))) (\<lambda>db1.
       andthen (flush (add_ledger (capture_entries lid1 lid2 t wallet (r_id reservation) d) db1)) (\<lambda>db2.
       andthen (map_error Domain
                  (capture_result reservation' (cd_charged_minor d) (cd_released_minor d) False)) (\<lambda>res.
       Inr (res, db2)))))))))))"

text \<open>
  \<open>now\<close> is one clock reading for a settlement: the source reads the clock for the expiry check and again for
  \<open>committed_at\<close>, moments later in the same transaction.
\<close>

definition capture_body ::
  "billing_db \<Rightarrow> uuid \<Rightarrow> uuid \<Rightarrow> instant \<Rightarrow> uuid \<Rightarrow> uuid \<Rightarrow> Money option \<Rightarrow> BillingUsage option
   \<Rightarrow> billing_error raised + (CaptureResult \<times> billing_db)" where
  "capture_body db lid1 lid2 now t rid actual usage =
     andthen (lock_rows db t rid) (\<lambda>(wallet, reservation).
     settle_capture db lid1 lid2 now t wallet reservation actual usage)"

definition capture ::
  "billing_db \<Rightarrow> uuid \<Rightarrow> uuid \<Rightarrow> instant \<Rightarrow> uuid \<Rightarrow> uuid \<Rightarrow> Money option \<Rightarrow> BillingUsage option
   \<Rightarrow> (billing_error + CaptureResult) \<times> billing_db" where
  "capture db lid1 lid2 now t rid actual usage =
     (if actual \<noteq> None \<and> usage \<noteq> None then
        (Inl (BillingInputError ''BILLING_CAPTURE_INPUT_CONFLICT''), db)
      else transaction db (storage_error (capture_body db lid1 lid2 now t rid actual usage)))"

subsection \<open>Release\<close>

fun release_error :: "string \<Rightarrow> transition_error \<Rightarrow> billing_error" where
  "release_error status (InvalidReservationTransition _) =
     (if status \<in> set [''committed'', ''expired''] then BillingConflict RELEASE_CONFLICT
      else BillingInvariantError)"
| "release_error status (StateValueError _) = BillingInvariantError"

definition release_wallet :: "int \<Rightarrow> WalletAccount \<Rightarrow> WalletAccount" where
  "release_wallet amount w =
     w\<lparr>w_reserved_minor := w_reserved_minor w - amount, w_version := w_version w + 1\<rparr>"

definition release_reservation :: "instant \<Rightarrow> BalanceReservation \<Rightarrow> BalanceReservation" where
  "release_reservation now r = r\<lparr>r_status := ''released'', r_released_at := Some now\<rparr>"

definition settle_release ::
  "billing_db \<Rightarrow> uuid \<Rightarrow> instant \<Rightarrow> uuid \<Rightarrow> WalletAccount \<Rightarrow> BalanceReservation
   \<Rightarrow> billing_error raised + (ReleaseResult \<times> billing_db)" where
  "settle_release db lid now t wallet reservation =
     andthen (map_error (\<lambda>e. Domain (release_error (r_status reservation) e))
                (decide_release (r_status reservation) (r_amount_minor reservation))) (\<lambda>d.
     if rd_idempotent d then
       andthen (map_error Domain
                  (release_result reservation (w_currency wallet) (rd_released_minor d) True)) (\<lambda>res.
       Inr (res, db))
     else
       andthen (require (\<not> w_reserved_minor wallet < r_amount_minor reservation)
                  (Domain BillingInvariantError)) (\<lambda>_.
       let wallet' = release_wallet (r_amount_minor reservation) wallet;
           reservation' = release_reservation now reservation in
       andthen (flush (add_ledger
                  [ledger_entry lid t (w_id wallet) (r_id reservation) ''release'' (rd_released_minor d)
                     (w_currency wallet) ''release'']
                  (put_reservation reservation' (put_wallet wallet' db)))) (\<lambda>db1.
       andthen (map_error Domain
                  (release_result reservation' (w_currency wallet) (rd_released_minor d) False)) (\<lambda>res.
       Inr (res, db1)))))"

definition release_body ::
  "billing_db \<Rightarrow> uuid \<Rightarrow> instant \<Rightarrow> uuid \<Rightarrow> uuid \<Rightarrow> billing_error raised + (ReleaseResult \<times> billing_db)" where
  "release_body db lid now t rid =
     andthen (lock_rows db t rid) (\<lambda>(wallet, reservation).
     settle_release db lid now t wallet reservation)"

definition release ::
  "billing_db \<Rightarrow> uuid \<Rightarrow> instant \<Rightarrow> uuid \<Rightarrow> uuid \<Rightarrow> (billing_error + ReleaseResult) \<times> billing_db" where
  "release db lid now t rid = transaction db (storage_error (release_body db lid now t rid))"

subsection \<open>Credits\<close>

datatype credit_error = RuntimeError string | ValueError string

definition credit_wallet :: "int \<Rightarrow> WalletAccount \<Rightarrow> WalletAccount" where
  "credit_wallet amount w =
     w\<lparr>w_balance_minor := w_balance_minor w + amount, w_version := w_version w + 1\<rparr>"

definition credit_entry ::
  "uuid \<Rightarrow> uuid \<Rightarrow> WalletAccount \<Rightarrow> int \<Rightarrow> string \<Rightarrow> ledger_key \<Rightarrow> LedgerEntry" where
  "credit_entry lid t wallet amount reference key =
     \<lparr>l_id = lid, l_tenant_id = t, l_wallet_account_id = w_id wallet, l_reservation_id = None,
      l_entry_type = ''credit'', l_amount_minor = amount, l_currency = ''PTS'',
      l_reference_type = reference, l_reference_id = t, l_idempotency_key = Some key\<rparr>"

text \<open>
  \<open>_run\<close>: the tenant row of the slug is given by \<open>tenant_of\<close>; the join orders nothing, so
  \<open>first()\<close> is the first matching row. The commit flushes.
\<close>

definition demo_credit ::
  "bool \<Rightarrow> (string \<Rightarrow> uuid option) \<Rightarrow> billing_db \<Rightarrow> uuid \<Rightarrow> string \<Rightarrow> int
   \<Rightarrow> credit_error raised + billing_db" where
  "demo_credit production tenant_of db lid slug amount =
     (if production then Inl (Domain (RuntimeError ''demo credit cannot run in production'')) else
      let key = TextKey (''demo-credit:'' @ slug @ '':v1'') in
      case tenant_of slug of
        None \<Rightarrow> Inl (Domain (RuntimeError ''demo tenant wallet was not found''))
      | Some t \<Rightarrow>
        (case filter (\<lambda>w. w_tenant_id w = t \<and> w_currency w = ''PTS'' \<and> w_status w = ''active'') (wallets db) of
           [] \<Rightarrow> Inl (Domain (RuntimeError ''demo tenant wallet was not found''))
         | wallet # _ \<Rightarrow>
           andthen (scalar_one_or_none
                      (filter (\<lambda>l. l_tenant_id l = t \<and> l_idempotency_key l = Some key) (ledger db))) (\<lambda>found.
           if found \<noteq> None then Inr db
           else
             flush (add_ledger
                  [credit_entry lid t wallet amount ''demo_seed'' key]
                  (put_wallet (credit_wallet amount wallet) db)))))"

text \<open>
  \<open>scripts/operator_accounts.py\<close>: find or open the tenant's points wallet, and grant the initial
  points into it. Both run inside the caller's transaction.
\<close>

definition open_wallet :: "uuid \<Rightarrow> uuid \<Rightarrow> WalletAccount" where
  "open_wallet wid t = \<lparr>w_id = wid, w_tenant_id = t, w_currency = ''PTS'', w_balance_minor = 0,
     w_reserved_minor = 0, w_version = 0, w_status = ''active''\<rparr>"

definition ensure_pts_wallet ::
  "billing_db \<Rightarrow> uuid \<Rightarrow> uuid \<Rightarrow> credit_error raised + (WalletAccount \<times> billing_db)" where
  "ensure_pts_wallet db wid t =
     andthen (scalar_one_or_none
                (filter (\<lambda>w. w_tenant_id w = t \<and> w_currency w = ''PTS'' \<and> w_status w = ''active'') (wallets db)))
       (\<lambda>found.
     case found of
       Some wallet \<Rightarrow> Inr (wallet, db)
     | None \<Rightarrow>
         andthen (flush (db\<lparr>wallets := wallets db @ [open_wallet wid t]\<rparr>)) (\<lambda>db'.
         Inr (open_wallet wid t, db')))"

definition grant_initial_points ::
  "billing_db \<Rightarrow> uuid \<Rightarrow> uuid \<Rightarrow> WalletAccount \<Rightarrow> int \<Rightarrow> credit_error raised + billing_db" where
  "grant_initial_points db lid t wallet amount =
     (if amount < 0 then Inl (Domain (ValueError ''initial_points_minor must be non-negative''))
      else if amount = 0 then Inr db
      else let wallet' = credit_wallet amount wallet in
        flush (add_ledger
          [credit_entry lid t wallet amount ''operator_grant'' (OperatorGrantKey t (w_version wallet'))]
          (put_wallet wallet' db)))"

text \<open>What both settlement reconcilers do with a hold that has expired.\<close>

fun capture_or_release_expired ::
  "(billing_error + CaptureResult) \<times> 'db \<Rightarrow> ('db \<Rightarrow> (billing_error + ReleaseResult) \<times> 'db) \<Rightarrow> (billing_error + unit) \<times> 'db" where
  "capture_or_release_expired (Inr r, db) rel = (Inr (), db)"
| "capture_or_release_expired (Inl e, db) rel =
     (if e = BillingConflict RESERVATION_EXPIRED then
        (case rel db of (Inl e', db') \<Rightarrow> (Inl e', db') | (Inr _, db') \<Rightarrow> (Inr (), db'))
      else (Inl e, db))"

lemmas [handler_defs] =
  existing_reservation_def reserve_in_txn_def resolve_reservation_race_def reserve_def
  reserve_in_transaction_def capture_charge_def lock_rows_def
  settle_capture_def capture_body_def capture_def settle_release_def release_body_def
  release_def

subsection \<open>The tables\<close>

interpretation wallet_table: keyed_table w_id wallets put_wallet
  by unfold_locales (simp add: put_wallet_def)

interpretation reservation_table: keyed_table r_id reservations put_reservation
  by unfold_locales (simp add: put_reservation_def)

interpretation usage_table: keyed_table u_id usage_records put_usage
  by unfold_locales (simp add: put_usage_def)

text \<open>A write to one table leaves the others alone.\<close>

lemma put_wallet_frame [simp]:
  "reservations (put_wallet w db) = reservations db" "ledger (put_wallet w db) = ledger db"
  "usage_records (put_wallet w db) = usage_records db"
  by (simp_all add: put_wallet_def)

lemma put_reservation_frame [simp]:
  "wallets (put_reservation r db) = wallets db" "ledger (put_reservation r db) = ledger db"
  "usage_records (put_reservation r db) = usage_records db"
  by (simp_all add: put_reservation_def)

lemma put_usage_frame [simp]:
  "wallets (put_usage u db) = wallets db" "ledger (put_usage u db) = ledger db"
  "reservations (put_usage u db) = reservations db"
  by (simp_all add: put_usage_def)

lemma add_reservation_frame [simp]:
  "wallets (add_reservation r db) = wallets db" "ledger (add_reservation r db) = ledger db"
  "usage_records (add_reservation r db) = usage_records db"
  "reservations (add_reservation r db) = reservations db @ [r]"
  by (simp_all add: add_reservation_def)

lemma add_ledger_frame [simp]:
  "wallets (add_ledger ls db) = wallets db" "reservations (add_ledger ls db) = reservations db"
  "usage_records (add_ledger ls db) = usage_records db" "ledger (add_ledger ls db) = ledger db @ ls"
  by (simp_all add: add_ledger_def)

lemma settle_usage_frame:
  "settle_usage s c db = Inr db' \<Longrightarrow>
   wallets db' = wallets db \<and> reservations db' = reservations db \<and> ledger db' = ledger db"
  by (cases "(s, c, db)" rule: settle_usage.cases) auto

subsection \<open>What a successful operation did\<close>

lemma lock_wallet_by_id_Inr_iff:
  "lock_wallet_by_id db t i = Inr w \<longleftrightarrow> filter (\<lambda>w. w_tenant_id w = t \<and> w_id w = i) (wallets db) = [w]"
  by (simp add: lock_wallet_by_id_def wallet_by_id_for_update_def)

lemma lock_reservation_Inr_iff:
  "lock_reservation db t i = Inr r \<longleftrightarrow> filter (\<lambda>r. r_tenant_id r = t \<and> r_id r = i) (reservations db) = [r]"
  by (simp add: lock_reservation_def reservation_by_id_for_update_def)

text \<open>The rows an operation on a reservation has locked once its first checks passed.\<close>

definition locked_rows :: "billing_db \<Rightarrow> uuid \<Rightarrow> uuid \<Rightarrow> WalletAccount \<Rightarrow> BalanceReservation \<Rightarrow> bool" where
  "locked_rows db t rid w r \<longleftrightarrow>
     w \<in> set (wallets db) \<and> r \<in> set (reservations db) \<and> r_id r = rid \<and> r_tenant_id r = t \<and>
     w_id w = r_wallet_account_id r \<and> w_tenant_id w = t \<and> w_currency w = r_currency r"

lemma lock_rows_locked:
  assumes "lock_rows db t rid = Inr (w, r)"
  shows "locked_rows db t rid w r"
proof -
  from assms obtain wid u where "lock_wallet_by_id db t wid = Inr w" "lock_reservation db t rid = Inr r"
    "assert_wallet_reservation_match w r = Inr u"
    by (auto simp: lock_rows_def)
  then show ?thesis
    by (auto simp: locked_rows_def lock_wallet_by_id_Inr_iff lock_reservation_Inr_iff
        assert_wallet_reservation_match_def dest!: filter_singletonD)
qed

lemma reserve_in_txn_cases:
  assumes "reserve_in_txn first seen db rid lid t st sid amount exp = Inr (res, db')"
  obtains (replay) r where "db' = db" "r_tenant_id r = t" "r \<in> set (reservations seen)"
    "reservation_by_source t st sid first \<noteq> [] \<or> reservation_by_source t st sid seen \<noteq> []"
    "resolve_existing_reservation r amount (Aware exp) = Inr res"
  | (hold) w where "filter (\<lambda>w. w_tenant_id w = t \<and> w_currency w = currency amount) (wallets seen) = [w]"
    "reservation_by_source t st sid seen = []" "reservation_by_source t st sid first = []"
    "w_status w = ''active''" "amount_minor amount \<le> w_balance_minor w - w_reserved_minor w"
    "db' = place_hold db rid lid t w st sid amount exp" "constraints_ok db'"
    "reservation_result (new_reservation rid t (w_id w) amount st sid exp) = Inr res"
proof -
  from assms obtain found where f: "find_reservation_by_source first t st sid = Inr found"
    by (auto simp: reserve_in_txn_def)
  show ?thesis
  proof (cases found)
    case (Some e)
    with f assms have "existing_reservation seen t e amount exp = Inr res" "db' = db"
      by (auto simp: reserve_in_txn_def)
    moreover have "reservation_by_source t st sid first \<noteq> []"
      using f Some by (simp add: find_reservation_by_source_def)
    ultimately show ?thesis
      by (auto simp: existing_reservation_def lock_reservation_Inr_iff dest!: filter_singletonD
          intro: replay)
  next
    case None
    with f assms obtain w locked where
        w: "lock_wallet_for_currency seen t (currency amount) = Inr w"
      and l: "lock_reservation_by_source seen t st sid = Inr locked"
      by (auto simp: reserve_in_txn_def)
    show ?thesis
    proof (cases locked)
      case (Some e)
      with l have e: "reservation_by_source t st sid seen = [e]"
        by (simp add: lock_reservation_by_source_def)
      then have "e \<in> set (reservations seen)" "r_tenant_id e = t"
        by (auto simp: reservation_by_source_def dest!: filter_singletonD)
      with f None w l Some e assms show ?thesis
        by (intro replay [of e]) (auto simp: reserve_in_txn_def)
    next
      case None2: None
      with f None w l assms show ?thesis
        by (intro hold [of w])
          (auto simp: reserve_in_txn_def lock_reservation_by_source_def lock_wallet_for_currency_def
            find_reservation_by_source_def wallet_by_currency_for_update_def Let_def)
    qed
  qed
qed

lemma release_body_cases:
  assumes "release_body db lid now t rid = Inr (res, db')"
  obtains (replay) w r where "locked_rows db t rid w r" "r_status r = ''released''" "db' = db"
    "release_result r (w_currency w) (r_amount_minor r) True = Inr res"
  | (fresh) w r where "locked_rows db t rid w r" "r_status r = ''pending''"
    "r_amount_minor r \<le> w_reserved_minor w" "constraints_ok db'"
    "db' = add_ledger
       [ledger_entry lid t (w_id w) rid ''release'' (r_amount_minor r) (w_currency w) ''release'']
       (put_reservation (release_reservation now r) (put_wallet (release_wallet (r_amount_minor r) w) db))"
    "release_result (release_reservation now r) (w_currency w) (r_amount_minor r) False = Inr res"
proof -
  from assms obtain w r where l: "lock_rows db t rid = Inr (w, r)"
    and s: "settle_release db lid now t w r = Inr (res, db')"
    by (auto simp: release_body_def)
  from s obtain d where d: "decide_release (r_status r) (r_amount_minor r) = Inr d"
    by (auto simp: settle_release_def)
  have lr: "locked_rows db t rid w r" by (rule lock_rows_locked [OF l])
  then have rid: "r_id r = rid" by (simp add: locked_rows_def)
  show ?thesis
  proof (cases "rd_idempotent d")
    case True
    with s d rid show ?thesis
      by (intro replay [OF lr]) (auto simp: settle_release_def decide_release_Inr_iff split: if_splits)
  next
    case False
    with s d rid show ?thesis
      by (intro fresh [OF lr])
        (auto simp: settle_release_def decide_release_Inr_iff Let_def split: if_splits)
  qed
qed

lemma settle_capture_decided:
  assumes "settle_capture db lid1 lid2 now t w r actual usage = Inr (res, db')"
  obtains charge s d where "capture_charge db t r actual usage = Inr (charge, s)"
    "currency charge = w_currency w" "r_status r = ''pending'' \<longrightarrow> now < r_expires_at r"
    "decide_capture (r_status r) (r_amount_minor r) (amount_minor charge)
       (r_captured_amount_minor r) = Inr d"
  using assms by (force simp: settle_capture_def assert_currency_def split: prod.splits)

lemma capture_body_cases:
  assumes "capture_body db lid1 lid2 now t rid actual usage = Inr (res, db')"
  obtains (replay) w r charge s where "locked_rows db t rid w r" "r_status r = ''committed''"
    "capture_charge db t r actual usage = Inr (charge, s)"
    "r_captured_amount_minor r = Some (amount_minor charge)"
    "settle_usage s charge db = Inr db'" "s = None \<or> constraints_ok db'"
    "capture_result r (amount_minor charge) (r_amount_minor r - amount_minor charge) True = Inr res"
  | (fresh) w r charge s db1 where "locked_rows db t rid w r" "r_status r = ''pending''"
    "capture_charge db t r actual usage = Inr (charge, s)" "currency charge = w_currency w"
    "now < r_expires_at r" "w_status w = ''active''"
    "0 \<le> amount_minor charge" "amount_minor charge \<le> r_amount_minor r"
    "r_amount_minor r \<le> w_reserved_minor w" "amount_minor charge \<le> w_balance_minor w"
    "settle_usage s charge
       (put_reservation (commit_reservation (amount_minor charge) now r)
         (put_wallet (capture_wallet (r_amount_minor r) (amount_minor charge) w) db)) = Inr db1"
    "db' = add_ledger (capture_entries lid1 lid2 t w rid
             \<lparr>cd_charged_minor = amount_minor charge,
              cd_released_minor = r_amount_minor r - amount_minor charge, cd_idempotent = False\<rparr>) db1"
    "constraints_ok db'"
    "capture_result (commit_reservation (amount_minor charge) now r) (amount_minor charge)
       (r_amount_minor r - amount_minor charge) False = Inr res"
proof -
  from assms obtain w r where l: "lock_rows db t rid = Inr (w, r)"
    and s: "settle_capture db lid1 lid2 now t w r actual usage = Inr (res, db')"
    by (auto simp: capture_body_def)
  have lr: "locked_rows db t rid w r" by (rule lock_rows_locked [OF l])
  then have rid: "r_id r = rid" by (simp add: locked_rows_def)
  from s obtain charge st d where c: "capture_charge db t r actual usage = Inr (charge, st)"
      "currency charge = w_currency w" "r_status r = ''pending'' \<longrightarrow> now < r_expires_at r"
    and d: "decide_capture (r_status r) (r_amount_minor r) (amount_minor charge)
      (r_captured_amount_minor r) = Inr d"
    by (rule settle_capture_decided)
  show ?thesis
  proof (cases "cd_idempotent d")
    case True
    with d have "r_status r = ''committed''" "r_captured_amount_minor r = Some (amount_minor charge)"
      "cd_charged_minor d = amount_minor charge" "cd_released_minor d = r_amount_minor r - amount_minor charge"
      by (auto simp: decide_capture_Inr_iff split: if_splits)
    with True s d c show ?thesis
      by (intro replay [OF lr _ c(1)]; cases st) (auto simp: settle_capture_def split: if_splits)
  next
    case False
    with d have p: "r_status r = ''pending''" "0 \<le> amount_minor charge"
      "amount_minor charge \<le> r_amount_minor r"
      by (auto simp: decide_capture_Inr_iff split: if_splits)
    from False d have d': "d = \<lparr>cd_charged_minor = amount_minor charge,
        cd_released_minor = r_amount_minor r - amount_minor charge, cd_idempotent = False\<rparr>"
      by (cases d) (auto simp: decide_capture_Inr_iff split: if_splits)
    from s c d p rid obtain db1 where
      "settle_usage st charge
         (put_reservation (commit_reservation (amount_minor charge) now r)
           (put_wallet (capture_wallet (r_amount_minor r) (amount_minor charge) w) db)) = Inr db1"
      "db' = add_ledger (capture_entries lid1 lid2 t w rid d) db1" "constraints_ok db'"
      "w_status w = ''active''" "r_amount_minor r \<le> w_reserved_minor w"
      "amount_minor charge \<le> w_balance_minor w"
      "capture_result (commit_reservation (amount_minor charge) now r) (amount_minor charge)
       (r_amount_minor r - amount_minor charge) False = Inr res"
      unfolding d' by (auto simp: settle_capture_def Let_def)
    with c p show ?thesis unfolding d' by (intro fresh [OF lr]) auto
  qed
qed

end
