(* ===== verification/Billing_Books.thy ===== *)
theory Billing_Books
  imports Billing_Operations
begin

text \<open>
  The accounting invariant of the wallet service and its preservation. For every wallet the
  projected \<open>reserved_minor\<close> equals both the sum of its pending reservations and the net of the
  journal's holds, releases and debits, and \<open>balance_minor\<close> equals the journal's credits less its
  debits; every reservation's journal rows are exactly the ones its status calls for.
\<close>

subsection \<open>The books\<close>

definition pending_of :: "uuid \<Rightarrow> BalanceReservation \<Rightarrow> int" where
  "pending_of wid r = (if r_wallet_account_id r = wid \<and> r_status r = ''pending'' then r_amount_minor r else 0)"

definition pending_total :: "uuid \<Rightarrow> billing_db \<Rightarrow> int" where
  "pending_total wid db = sum_list (map (pending_of wid) (reservations db))"

definition held_effect :: "uuid \<Rightarrow> LedgerEntry \<Rightarrow> int" where
  "held_effect wid l =
     (if l_wallet_account_id l \<noteq> wid then 0
      else if l_entry_type l = ''hold'' then l_amount_minor l
      else if l_entry_type l \<in> set [''release'', ''debit''] then - l_amount_minor l else 0)"

definition balance_effect :: "uuid \<Rightarrow> LedgerEntry \<Rightarrow> int" where
  "balance_effect wid l =
     (if l_wallet_account_id l \<noteq> wid then 0
      else if l_entry_type l = ''credit'' then l_amount_minor l
      else if l_entry_type l = ''debit'' then - l_amount_minor l else 0)"

definition journal_sum :: "(LedgerEntry \<Rightarrow> int) \<Rightarrow> billing_db \<Rightarrow> int" where
  "journal_sum effect db = sum_list (map effect (ledger db))"

definition books :: "billing_db \<Rightarrow> WalletAccount \<Rightarrow> bool" where
  "books db w \<longleftrightarrow>
     w_reserved_minor w = pending_total (w_id w) db \<and>
     w_reserved_minor w = journal_sum (held_effect (w_id w)) db \<and>
     w_balance_minor w = journal_sum (balance_effect (w_id w)) db"

text \<open>The journal rows of one reservation, and the rows its status calls for.\<close>

definition entries_of :: "uuid \<Rightarrow> LedgerEntry list \<Rightarrow> (string \<times> int) list" where
  "entries_of rid ls =
     map (\<lambda>l. (l_entry_type l, l_amount_minor l)) (filter (\<lambda>l. l_reservation_id l = Some rid) ls)"

definition nonzero_entry :: "string \<Rightarrow> int \<Rightarrow> (string \<times> int) list" where
  "nonzero_entry ty a = (if 0 < a then [(ty, a)] else [])"

definition expected_entries :: "BalanceReservation \<Rightarrow> (string \<times> int) list" where
  "expected_entries r = (''hold'', r_amount_minor r) #
     (if r_status r = ''pending'' then []
      else if r_status r = ''released'' then [(''release'', r_amount_minor r)]
      else case r_captured_amount_minor r of None \<Rightarrow> []
        | Some c \<Rightarrow> nonzero_entry ''debit'' c @ nonzero_entry ''release'' (r_amount_minor r - c))"

definition journalled :: "billing_db \<Rightarrow> BalanceReservation \<Rightarrow> bool" where
  "journalled db r \<longleftrightarrow> entries_of (r_id r) (ledger db) = expected_entries r"

text \<open>The key of a row names its reservation and its entry type; no other row has such a key.\<close>

definition key_ok :: "LedgerEntry \<Rightarrow> bool" where
  "key_ok l \<longleftrightarrow>
     (case l_reservation_id l of
        Some rid \<Rightarrow> l_idempotency_key l = Some (ReservationKey rid (l_entry_type l))
      | None \<Rightarrow> (case l_idempotency_key l of Some (ReservationKey _ _) \<Rightarrow> False | _ \<Rightarrow> True))"

definition wallet_of_reservation_ok :: "billing_db \<Rightarrow> BalanceReservation \<Rightarrow> bool" where
  "wallet_of_reservation_ok db r \<longleftrightarrow>
     list_all (\<lambda>w. w_id w = r_wallet_account_id r \<longrightarrow> w_currency w = r_currency r) (wallets db)"

definition billing_inv :: "billing_db \<Rightarrow> bool" where
  "billing_inv db \<longleftrightarrow>
     constraints_ok db \<and> list_all (books db) (wallets db) \<and>
     list_all (\<lambda>r. journalled db r \<and> wallet_of_reservation_ok db r) (reservations db) \<and>
     list_all key_ok (ledger db)"

subsection \<open>How the books move\<close>

lemma constraints_distinct:
  assumes "constraints_ok db"
  shows "distinct (map w_id (wallets db))" and "distinct (map r_id (reservations db))"
    and "distinct (map l_id (ledger db))" and "distinct (map u_id (usage_records db))"
  using assms by (auto simp: constraints_ok_def unique_ok_def)

lemma journal_sum_add [simp]:
  "journal_sum e (add_ledger ls db) = journal_sum e db + sum_list (map e ls)"
  by (simp add: journal_sum_def)

lemma journal_sum_frame:
  "ledger db' = ledger db \<Longrightarrow> journal_sum e db' = journal_sum e db"
  by (simp add: journal_sum_def)

lemma entries_of_append [simp]: "entries_of rid (xs @ ys) = entries_of rid xs @ entries_of rid ys"
  by (simp add: entries_of_def)

lemma entries_of_Nil [simp]: "entries_of rid [] = []"
  by (simp add: entries_of_def)

lemma entries_of_ledger_entry [simp]:
  "entries_of rid' [ledger_entry lid t wid rid ty a c s] = (if rid' = rid then [(ty, a)] else [])"
  by (simp add: entries_of_def ledger_entry_def)

lemma effects_ledger_entry [simp]:
  "held_effect wid' (ledger_entry lid t wid rid ty a c s) =
     (if wid \<noteq> wid' then 0 else if ty = ''hold'' then a else if ty \<in> set [''release'', ''debit''] then - a else 0)"
  "balance_effect wid' (ledger_entry lid t wid rid ty a c s) =
     (if wid \<noteq> wid' then 0 else if ty = ''credit'' then a else if ty = ''debit'' then - a else 0)"
  by (auto simp: held_effect_def balance_effect_def ledger_entry_def)

lemma key_ok_ledger_entry [simp]: "key_ok (ledger_entry lid t wid rid ty a c ty)"
  by (simp add: key_ok_def ledger_entry_def)

text \<open>
  One settlement step: a wallet row and a reservation row are rewritten and journal rows appended.
  If the three movements agree for the wallet concerned, the books of every wallet still balance.
\<close>

lemma books_settled:
  assumes inv: "list_all (books db) (wallets db)"
    and dw: "distinct (map w_id (wallets db))" and dr: "distinct (map r_id (reservations db))"
    and w: "w \<in> set (wallets db)" "w_id w' = w_id w"
    and r: "r \<in> set (reservations db)" "r_id r' = r_id r"
    and other: "\<And>wid. wid \<noteq> w_id w \<Longrightarrow> pending_of wid r' = pending_of wid r"
      "\<And>wid l. wid \<noteq> w_id w \<Longrightarrow> l \<in> set ls \<Longrightarrow> held_effect wid l = 0 \<and> balance_effect wid l = 0"
    and own: "w_reserved_minor w' - w_reserved_minor w = pending_of (w_id w) r' - pending_of (w_id w) r"
      "w_reserved_minor w' - w_reserved_minor w = sum_list (map (held_effect (w_id w)) ls)"
      "w_balance_minor w' - w_balance_minor w = sum_list (map (balance_effect (w_id w)) ls)"
    and db': "wallets db' = wallets (put_wallet w' db)"
      "reservations db' = reservations (put_reservation r' db)" "ledger db' = ledger db @ ls"
  shows "list_all (books db') (wallets db')"
  unfolding list_all_iff
proof
  fix x assume "x \<in> set (wallets db')"
  then have x: "x \<in> set (wallets (put_wallet w' db))" by (simp add: db')
  have pend: "pending_total wid db' = pending_total wid db - pending_of wid r + pending_of wid r'" for wid
    unfolding pending_total_def db' by (rule reservation_table.sum_put [OF dr r])
  have jour: "journal_sum e db' = journal_sum e db + sum_list (map e ls)" for e
    by (simp add: journal_sum_def db')
  from x show "books db' x"
  proof (cases rule: wallet_table.in_put_cases)
    case 1
    have "books db w" using inv w(1) by (simp add: list_all_iff)
    with 1 own w(2) show ?thesis by (simp add: books_def pend jour)
  next
    case 2
    then have ne: "w_id x \<noteq> w_id w" using w(2) by simp
    have z: "sum_list (map (held_effect (w_id x)) ls) = 0" "sum_list (map (balance_effect (w_id x)) ls) = 0"
      using other(2) [OF ne] by (simp_all add: sum_list_0 cong: map_cong)
    have "books db x" using inv 2 by (simp add: list_all_iff)
    with z other(1) [OF ne] show ?thesis by (simp add: books_def pend jour)
  qed
qed

text \<open>The same step seen from the reservations.\<close>

lemma journalled_settled:
  assumes inv: "list_all (\<lambda>r. journalled db r \<and> wallet_of_reservation_ok db r) (reservations db)"
    and dw: "distinct (map w_id (wallets db))" and r: "r \<in> set (reservations db)" "r_id r' = r_id r"
    and w: "w \<in> set (wallets db)" "w_id w' = w_id w" "w_currency w' = w_currency w"
    and same: "r_wallet_account_id r' = r_wallet_account_id r" "r_currency r' = r_currency r"
    and own: "expected_entries r' = expected_entries r @ entries_of (r_id r) ls"
    and other: "\<And>rid. rid \<noteq> r_id r \<Longrightarrow> entries_of rid ls = []"
    and db': "wallets db' = wallets (put_wallet w' db)"
      "reservations db' = reservations (put_reservation r' db)" "ledger db' = ledger db @ ls"
  shows "list_all (\<lambda>r. journalled db' r \<and> wallet_of_reservation_ok db' r) (reservations db')"
  unfolding list_all_iff
proof
  fix x assume "x \<in> set (reservations db')"
  then have x: "x \<in> set (reservations (put_reservation r' db))" by (simp add: db')
  have wok: "wallet_of_reservation_ok db' y" if y: "wallet_of_reservation_ok db y" for y
  proof -
    have "list_all (\<lambda>v. w_id v = r_wallet_account_id y \<longrightarrow> w_currency v = r_currency y)
        (wallets (put_wallet w' db))"
      by (rule wallet_table.list_all_put)
        (use y w in \<open>auto simp: wallet_of_reservation_ok_def list_all_iff\<close>)
    then show ?thesis by (simp add: wallet_of_reservation_ok_def db')
  qed
  from x show "journalled db' x \<and> wallet_of_reservation_ok db' x"
  proof (cases rule: reservation_table.in_put_cases)
    case 1
    have old: "journalled db r" "wallet_of_reservation_ok db r" using inv r(1) by (simp_all add: list_all_iff)
    have "wallet_of_reservation_ok db r'" using old(2) same by (simp add: wallet_of_reservation_ok_def)
    with 1 old own r(2) show ?thesis by (simp add: journalled_def db' wok)
  next
    case 2
    then have "entries_of (r_id x) ls = []" using other r(2) by simp
    moreover have "journalled db x" "wallet_of_reservation_ok db x" using inv 2 by (simp_all add: list_all_iff)
    ultimately show ?thesis by (simp add: journalled_def db' wok)
  qed
qed

subsection \<open>Every operation keeps the books\<close>

lemma billing_invD:
  assumes "billing_inv db"
  shows "constraints_ok db" and "list_all (books db) (wallets db)"
    and "list_all (\<lambda>r. journalled db r \<and> wallet_of_reservation_ok db r) (reservations db)"
    and "list_all key_ok (ledger db)"
  using assms by (auto simp: billing_inv_def)

lemma release_body_inv:
  assumes "release_body db lid now t rid = Inr (res, db')" and inv: "billing_inv db"
  shows "billing_inv db'"
  using assms(1)
proof (cases rule: release_body_cases)
  case (fresh w r)
  note d = constraints_distinct [OF billing_invD(1) [OF inv]]
  let ?l = "ledger_entry lid t (w_id w) rid ''release'' (r_amount_minor r) (w_currency w) ''release''"
  have rows: "w \<in> set (wallets db)" "r \<in> set (reservations db)" "r_id r = rid" "r_wallet_account_id r = w_id w"
    using fresh(1) by (auto simp: locked_rows_def)
  have db': "wallets db' = wallets (put_wallet (release_wallet (r_amount_minor r) w) db)"
    "reservations db' = reservations (put_reservation (release_reservation now r) db)"
    "ledger db' = ledger db @ [?l]"
    using fresh(5) by (simp_all add: put_reservation_def put_wallet_def)
  have "list_all (books db') (wallets db')"
    by (rule books_settled [OF billing_invD(2) [OF inv] d(1,2) rows(1) _ rows(2) _ _ _ _ _ _ db'])
      (use fresh(2) rows in \<open>auto simp: release_wallet_def release_reservation_def pending_of_def\<close>)
  moreover have "list_all (\<lambda>r. journalled db' r \<and> wallet_of_reservation_ok db' r) (reservations db')"
    by (rule journalled_settled [OF billing_invD(3) [OF inv] d(1) rows(2) _ rows(1) _ _ _ _ _ _ db'])
      (use fresh(2) rows in \<open>auto simp: release_wallet_def release_reservation_def expected_entries_def\<close>)
  moreover have "list_all key_ok (ledger db')"
    using billing_invD(4) [OF inv] by (simp add: db')
  ultimately show ?thesis using fresh(4) by (simp add: billing_inv_def)
qed (use inv in simp)

lemma capture_entries_effects:
  assumes "0 \<le> a" and "a \<le> r"
  defines "d \<equiv> \<lparr>cd_charged_minor = a, cd_released_minor = r - a, cd_idempotent = False\<rparr>"
  shows "sum_list (map (held_effect (w_id w)) (capture_entries la lb t w rid d)) = - r"
    and "sum_list (map (balance_effect (w_id w)) (capture_entries la lb t w rid d)) = - a"
    and "entries_of rid (capture_entries la lb t w rid d)
       = nonzero_entry ''debit'' a @ nonzero_entry ''release'' (r - a)"
    and "rid' \<noteq> rid \<Longrightarrow> entries_of rid' (capture_entries la lb t w rid d) = []"
    and "list_all key_ok (capture_entries la lb t w rid d)"
    and "l \<in> set (capture_entries la lb t w rid d) \<Longrightarrow> wid \<noteq> w_id w \<Longrightarrow>
         held_effect wid l = 0 \<and> balance_effect wid l = 0"
  using assms(1,2) unfolding d_def by (auto simp: capture_entries_def nonzero_entry_def split: if_splits)

lemma billing_inv_usage:
  assumes "billing_inv db" and "constraints_ok db'" and "wallets db' = wallets db"
    and "reservations db' = reservations db" and "ledger db' = ledger db"
  shows "billing_inv db'"
  using assms
  by (simp add: billing_inv_def books_def [abs_def] journalled_def wallet_of_reservation_ok_def
      pending_total_def journal_sum_def)

lemma capture_body_inv:
  assumes "capture_body db lid1 lid2 now t rid actual usage = Inr (res, db')" and inv: "billing_inv db"
  shows "billing_inv db'"
  using assms(1)
proof (cases rule: capture_body_cases)
  case (replay w r charge s)
  show ?thesis
  proof (cases s)
    case None
    with replay(5) inv show ?thesis by simp
  next
    case (Some p)
    with replay billing_inv_usage [OF inv, of db'] settle_usage_frame [OF replay(5)]
    show ?thesis by simp
  qed
next
  case (fresh w r charge s db1)
  note d = constraints_distinct [OF billing_invD(1) [OF inv]]
  let ?a = "amount_minor charge"
  let ?ls = "capture_entries lid1 lid2 t w rid \<lparr>cd_charged_minor = ?a,
    cd_released_minor = r_amount_minor r - ?a, cd_idempotent = False\<rparr>"
  note eff = capture_entries_effects [OF fresh(7,8), where w = w and la = lid1 and lb = lid2 and t = t and rid = rid]
  have rows: "w \<in> set (wallets db)" "r \<in> set (reservations db)" "r_id r = rid" "r_wallet_account_id r = w_id w"
    using fresh(1) by (auto simp: locked_rows_def)
  have db': "wallets db' = wallets (put_wallet (capture_wallet (r_amount_minor r) ?a w) db)"
    "reservations db' = reservations (put_reservation (commit_reservation ?a now r) db)"
    "ledger db' = ledger db @ ?ls"
    using settle_usage_frame [OF fresh(11)] fresh(12)
    by (simp_all add: put_reservation_def put_wallet_def)
  have "list_all (books db') (wallets db')"
    by (rule books_settled [OF billing_invD(2) [OF inv] d(1,2) rows(1) _ rows(2) _ _ _ _ _ _ db'])
      (use fresh(2) rows eff in \<open>auto simp: capture_wallet_def commit_reservation_def pending_of_def\<close>)
  moreover have "list_all (\<lambda>r. journalled db' r \<and> wallet_of_reservation_ok db' r) (reservations db')"
    by (rule journalled_settled [OF billing_invD(3) [OF inv] d(1) rows(2) _ rows(1) _ _ _ _ _ _ db'])
      (use fresh(2) rows eff(3,4) in
        \<open>auto simp: capture_wallet_def commit_reservation_def expected_entries_def\<close>)
  moreover have "list_all key_ok (ledger db')"
    using billing_invD(4) [OF inv] eff(5) by (simp add: db')
  ultimately show ?thesis using fresh(13) by (simp add: billing_inv_def)
qed

text \<open>
  Placing a hold. The wallet row is locked, so the row the transaction read is the row it writes:
  that is the hypothesis on \<open>w\<close>.
\<close>

lemma no_entries_of_fresh:
  assumes "constraints_ok db" and "rid \<notin> r_id ` set (reservations db)"
  shows "entries_of rid (ledger db) = []"
proof -
  have "fk_ok db" using assms(1) by (simp add: constraints_ok_def)
  then have "l_reservation_id l \<noteq> Some rid" if "l \<in> set (ledger db)" for l
    using that assms(2) by (fastforce simp: fk_ok_def list_all_iff list_ex_iff split: option.splits)
  then show ?thesis by (auto simp: entries_of_def filter_empty_conv)
qed

lemma place_hold_inv:
  assumes inv: "billing_inv db" and w: "w \<in> set (wallets db)" and c: "w_currency w = currency amount"
    and db': "db' = place_hold db rid lid t w st sid amount exp" and ok: "constraints_ok db'"
  shows "billing_inv db'"
proof -
  note d = constraints_distinct [OF billing_invD(1) [OF inv]]
  note d' = constraints_distinct [OF ok]
  let ?w = "hold_wallet (amount_minor amount) w"
  let ?r = "new_reservation rid t (w_id w) amount st sid exp"
  have ww: "w_id ?w = w_id w" "w_currency ?w = w_currency w" by (simp_all add: hold_wallet_def)
  have rows: "wallets db' = wallets (put_wallet ?w db)" "reservations db' = reservations db @ [?r]"
    "ledger db' = ledger db @ [ledger_entry lid t (w_id w) rid ''hold'' (amount_minor amount) (w_currency w) ''hold'']"
    by (simp_all add: db' place_hold_def)
  have new: "rid \<notin> r_id ` set (reservations db)"
    using d'(2) by (auto simp: rows new_reservation_def)
  have "books db' x" if "x \<in> set (wallets (put_wallet ?w db))" for x
    using that
  proof (cases rule: wallet_table.in_put_cases)
    case 1
    have "books db w" using billing_invD(2) [OF inv] w by (simp add: list_all_iff)
    with 1 show ?thesis
      by (simp add: books_def pending_total_def journal_sum_def rows pending_of_def new_reservation_def
          hold_wallet_def)
  next
    case 2
    then have "books db x" using billing_invD(2) [OF inv] by (simp add: list_all_iff)
    with 2 ww(1) show ?thesis
      by (simp add: books_def pending_total_def journal_sum_def rows pending_of_def new_reservation_def)
  qed
  moreover have "wallet_of_reservation_ok db' x" if "wallet_of_reservation_ok db x" for x
    unfolding wallet_of_reservation_ok_def rows
    by (rule wallet_table.list_all_put)
      (use that w ww in \<open>auto simp: wallet_of_reservation_ok_def list_all_iff\<close>)
  moreover have "wallet_of_reservation_ok db ?r"
    using distinct_key_inj [OF d(1) _ w] c
    by (auto simp: wallet_of_reservation_ok_def list_all_iff new_reservation_def)
  moreover have "journalled db' x" if "x \<in> set (reservations db)" for x
    using billing_invD(3) [OF inv] that new by (auto simp: list_all_iff journalled_def rows)
  moreover have "journalled db' ?r"
    using no_entries_of_fresh [OF billing_invD(1) [OF inv] new]
    by (simp add: journalled_def rows expected_entries_def new_reservation_def)
  ultimately show ?thesis
    using ok billing_invD(3,4) [OF inv] by (simp add: billing_inv_def rows list_all_iff)
qed

lemma reserve_in_txn_inv:
  assumes "reserve_in_txn first seen db rid lid t st sid amount exp = Inr (res, db')"
    and inv: "billing_inv db"
    and lock: "\<And>w. w \<in> set (wallets seen) \<Longrightarrow> w_tenant_id w = t \<Longrightarrow> w_currency w = currency amount \<Longrightarrow>
      w \<in> set (wallets db)"
  shows "billing_inv db'"
  using assms(1)
proof (cases rule: reserve_in_txn_cases)
  case (hold w)
  then have "w \<in> set (wallets seen)" "w_tenant_id w = t" "w_currency w = currency amount"
    using filter_singletonD [OF hold(1)] by auto
  with lock place_hold_inv [OF inv] hold show ?thesis by blast
qed (use inv in simp)

text \<open>A credit: one wallet's balance grows by what one new journal row outside any reservation says.\<close>

lemma credit_inv:
  assumes inv: "billing_inv db" and w: "w \<in> set (wallets db)"
    and l: "l_wallet_account_id l = w_id w" "l_reservation_id l = None" "l_entry_type l = ''credit''"
      "l_amount_minor l = amount" "key_ok l"
    and db': "db' = add_ledger [l] (put_wallet (credit_wallet amount w) db)" and ok: "constraints_ok db'"
  shows "billing_inv db'"
proof -
  let ?w = "credit_wallet amount w"
  have ww: "w_id ?w = w_id w" "w_currency ?w = w_currency w" by (simp_all add: credit_wallet_def)
  have books: "books db' x" if "x \<in> set (wallets (put_wallet ?w db))" for x
    using that
  proof (cases rule: wallet_table.in_put_cases)
    case 1
    have "books db w" using billing_invD(2) [OF inv] w by (simp add: list_all_iff)
    with 1 l show ?thesis
      by (simp add: books_def pending_total_def journal_sum_def db' held_effect_def balance_effect_def
          credit_wallet_def)
  next
    case 2
    then have "books db x" using billing_invD(2) [OF inv] by (simp add: list_all_iff)
    with 2 ww(1) l show ?thesis
      by (simp add: books_def pending_total_def journal_sum_def db' held_effect_def balance_effect_def)
  qed
  have "wallet_of_reservation_ok db' x" if "wallet_of_reservation_ok db x" for x
    unfolding wallet_of_reservation_ok_def db' add_ledger_frame
    by (rule wallet_table.list_all_put)
      (use that w ww in \<open>auto simp: wallet_of_reservation_ok_def list_all_iff\<close>)
  moreover have "entries_of rid [l] = []" for rid using l by (simp add: entries_of_def)
  ultimately show ?thesis
    using ok billing_invD(3,4) [OF inv] books l(5)
    by (simp add: billing_inv_def db' list_all_iff journalled_def)
qed

lemma demo_credit_inv:
  assumes "demo_credit production tenant_of db lid slug amount = Inr db'" and inv: "billing_inv db"
  shows "billing_inv db'"
proof (cases "db' = db")
  case False
  with assms(1) obtain t w ws key where
      w: "filter (\<lambda>w. w_tenant_id w = t \<and> w_currency w = ''PTS'' \<and> w_status w = ''active'') (wallets db) = w # ws"
    and key: "key = TextKey (''demo-credit:'' @ slug @ '':v1'')"
    and db': "db' = add_ledger [credit_entry lid t w amount ''demo_seed'' key] (put_wallet (credit_wallet amount w) db)"
    and ok: "constraints_ok db'"
    by (auto simp: demo_credit_def Let_def split: if_splits option.splits list.splits)
  have "w \<in> set (wallets db)" using arg_cong [OF w, of set] by auto
  from credit_inv [OF inv this _ _ _ _ _ db' ok] key show ?thesis
    by (simp add: credit_entry_def key_ok_def)
qed (use inv in simp)

lemma grant_initial_points_inv:
  assumes "grant_initial_points db lid t w amount = Inr db'" and "billing_inv db"
    and "w \<in> set (wallets db)"
  shows "billing_inv db'"
proof (cases "amount = 0")
  case False
  with assms(1) show ?thesis
    by (intro credit_inv [OF assms(2,3)])
      (auto simp: grant_initial_points_def Let_def credit_entry_def key_ok_def split: if_splits)
qed (use assms in \<open>auto simp: grant_initial_points_def\<close>)

text \<open>Opening a wallet: no reservation or journal row can refer to a row that did not exist.\<close>

lemma no_rows_of_fresh_wallet:
  assumes "constraints_ok db" and "wid \<notin> w_id ` set (wallets db)"
  shows "pending_total wid db = 0" and "journal_sum (held_effect wid) db = 0"
    and "journal_sum (balance_effect wid) db = 0"
    and "r \<in> set (reservations db) \<Longrightarrow> r_wallet_account_id r \<noteq> wid"
proof -
  have fk: "fk_ok db" using assms(1) by (simp add: constraints_ok_def)
  have r: "r_wallet_account_id r \<noteq> wid" if "r \<in> set (reservations db)" for r
    using fk that assms(2) by (force simp: fk_ok_def list_all_iff list_ex_iff image_iff)
  then show "r \<in> set (reservations db) \<Longrightarrow> r_wallet_account_id r \<noteq> wid" .
  have l: "l_wallet_account_id l \<noteq> wid" if "l \<in> set (ledger db)" for l
    using fk that assms(2) by (force simp: fk_ok_def list_all_iff list_ex_iff image_iff)
  show "pending_total wid db = 0"
    using r by (simp add: pending_total_def pending_of_def sum_list_0 cong: map_cong)
  show "journal_sum (held_effect wid) db = 0" "journal_sum (balance_effect wid) db = 0"
    using l by (simp_all add: journal_sum_def held_effect_def balance_effect_def sum_list_0 cong: map_cong)
qed

lemma ensure_pts_wallet_inv:
  assumes "ensure_pts_wallet db wid t = Inr (w, db')" and inv: "billing_inv db"
  shows "billing_inv db'" and "w \<in> set (wallets db')"
proof -
  from assms(1) obtain found where found: "scalar_one_or_none
      (filter (\<lambda>w. w_tenant_id w = t \<and> w_currency w = ''PTS'' \<and> w_status w = ''active'') (wallets db))
      = (Inr found :: credit_error raised + WalletAccount option)"
    by (auto simp: ensure_pts_wallet_def)
  have "billing_inv db' \<and> w \<in> set (wallets db')"
  proof (cases found)
    case (Some v)
    with assms found show ?thesis
      by (auto simp: ensure_pts_wallet_def dest: filter_singletonD)
  next
    case None
    with assms(1) found have db': "db' = db\<lparr>wallets := wallets db @ [w]\<rparr>" "w = open_wallet wid t" "constraints_ok db'"
      by (auto simp: ensure_pts_wallet_def split: option.splits)
    have new: "wid \<notin> w_id ` set (wallets db)"
      using constraints_distinct(1) [OF db'(3)] by (auto simp: db'(1,2) open_wallet_def)
    note fresh = no_rows_of_fresh_wallet [OF billing_invD(1) [OF inv] new]
    have rows: "wallets db' = wallets db @ [w]" "reservations db' = reservations db" "ledger db' = ledger db"
      by (simp_all add: db'(1))
    have b: "books db' x = books db x" for x
      by (simp add: books_def pending_total_def journal_sum_def rows)
    moreover have "books db w" using fresh by (simp add: books_def db'(2) open_wallet_def)
    moreover have "wallet_of_reservation_ok db' r"
      if "r \<in> set (reservations db)" "wallet_of_reservation_ok db r" for r
      using that fresh(4) [OF that(1)] by (simp add: wallet_of_reservation_ok_def rows db'(2) open_wallet_def)
    ultimately show ?thesis
      using billing_invD [OF inv] db'(3)
      by (simp add: billing_inv_def rows list_all_iff journalled_def)
  qed
  then show "billing_inv db'" and "w \<in> set (wallets db')" by simp_all
qed

end
