(* ===== verification/Billing_Liveness.thy ===== *)
theory Billing_Liveness
  imports Billing_Books
begin

text \<open>
  Settlement never gets stuck: in a database whose books balance, the guards and the constraints a
  capture or a release meets all hold, so the operation succeeds. The conditions left are the
  caller's (the amount fits the hold, the hold has not expired, the wallet is active) and those of
  fresh identifiers and of the 64-bit version counter.
\<close>

subsection \<open>Constraints after a settlement write\<close>

lemma list_all_conj: "list_all (\<lambda>x. P x \<and> Q x) xs \<longleftrightarrow> list_all P xs \<and> list_all Q xs"
  by (auto simp: list_all_iff)

lemma checks_settled:
  assumes "numeric_ok db" "checks_ok db"
    and "wallet_numeric w'" "wallet_check w'" "reservation_numeric r'" "reservation_check r'"
    and "list_all (\<lambda>l. bigint (l_amount_minor l) \<and> ledger_check l) ls"
  defines "db' \<equiv> add_ledger ls (put_reservation r' (put_wallet w' db))"
  shows "numeric_ok db'" and "checks_ok db'"
  using assms(1-7)
  by (simp_all add: numeric_ok_def checks_ok_def db'_def wallet_table.list_all_put
      reservation_table.list_all_put list_all_conj)

lemma unique_settled:
  assumes u: "unique_ok db"
    and w: "w \<in> set (wallets db)" "w_id w' = w_id w" "w_tenant_id w' = w_tenant_id w" "w_currency w' = w_currency w"
    and r: "r \<in> set (reservations db)" "r_id r' = r_id r" "reservation_source r' = reservation_source r"
    and ids: "distinct (map l_id (ledger db @ ls))" and keys: "distinct (journal_keys (ledger db @ ls))"
  shows "unique_ok (add_ledger ls (put_reservation r' (put_wallet w' db)))"
proof -
  have dw: "distinct (map w_id (wallets db))" and dr: "distinct (map r_id (reservations db))"
    using u by (simp_all add: unique_ok_def)
  have "map w_id (wallets (put_wallet w' db)) = map w_id (wallets db)"
    by (rule wallet_table.keys_put)
  moreover have "map (\<lambda>w. (w_tenant_id w, w_currency w)) (wallets (put_wallet w' db))
      = map (\<lambda>w. (w_tenant_id w, w_currency w)) (wallets db)"
    by (rule wallet_table.map_put) (use w distinct_key_inj [OF dw _ w(1)] in auto)
  moreover have "map r_id (reservations (put_reservation r' (put_wallet w' db))) = map r_id (reservations db)"
    using reservation_table.keys_put [of r' "put_wallet w' db"] by simp
  moreover have "map reservation_source (reservations (put_reservation r' (put_wallet w' db)))
      = map reservation_source (reservations (put_wallet w' db))"
    by (rule reservation_table.map_put) (use r distinct_key_inj [OF dr _ r(1)] in auto)
  ultimately show ?thesis
    using u ids keys by (simp add: unique_ok_def)
qed

lemma put_covers:
  assumes "key r' = key r" and "tenant r' = tenant r" and "r \<in> set rs" and "distinct (map key rs)"
    and "\<exists>x \<in> set rs. tenant x = t \<and> key x = k"
  shows "\<exists>x \<in> set (update_where (\<lambda>x. key x = key r') (\<lambda>_. r') rs). tenant x = t \<and> key x = k"
proof -
  from assms(5) obtain x where x: "x \<in> set rs" "tenant x = t" "key x = k" by blast
  show ?thesis
  proof (cases "key x = key r'")
    case True
    then have "x = r" using distinct_key_inj [OF assms(4) x(1) assms(3)] assms(1) by simp
    with x assms(1,2) True show ?thesis
      by (intro bexI [of _ r']) (auto simp: set_update_where image_iff)
  next
    case False
    with x show ?thesis by (intro bexI [of _ x]) (auto simp: set_update_where image_iff)
  qed
qed

lemma fk_settled:
  assumes fk: "fk_ok db" and d: "distinct (map w_id (wallets db))" "distinct (map r_id (reservations db))"
    and w: "w \<in> set (wallets db)" "w_id w' = w_id w" "w_tenant_id w' = w_tenant_id w"
    and r: "r \<in> set (reservations db)" "r_id r' = r_id r" "r_tenant_id r' = r_tenant_id r"
      "r_wallet_account_id r' = r_wallet_account_id r"
    and ls: "list_all (\<lambda>l. l_tenant_id l = w_tenant_id w \<and> l_wallet_account_id l = w_id w \<and>
       l_tenant_id l = r_tenant_id r \<and> l_reservation_id l = Some (r_id r)) ls"
  shows "fk_ok (add_ledger ls (put_reservation r' (put_wallet w' db)))"
proof -
  let ?db = "add_ledger ls (put_reservation r' (put_wallet w' db))"
  have wok: "\<exists>x \<in> set (wallets ?db). w_tenant_id x = t \<and> w_id x = k"
    if "\<exists>x \<in> set (wallets db). w_tenant_id x = t \<and> w_id x = k" for t k
    using put_covers [where key = w_id and tenant = w_tenant_id, OF w(2,3,1) d(1) that]
    by (simp add: wallet_table.rows_put)
  have rok: "\<exists>x \<in> set (reservations ?db). r_tenant_id x = t \<and> r_id x = k"
    if "\<exists>x \<in> set (reservations db). r_tenant_id x = t \<and> r_id x = k" for t k
    using put_covers [where key = r_id and tenant = r_tenant_id, OF r(2,3,1) d(2) that]
    by (simp add: reservation_table.rows_put)
  have rows: "\<exists>y \<in> set (reservations db). r_tenant_id x = r_tenant_id y \<and> r_wallet_account_id x = r_wallet_account_id y"
    if "x \<in> set (reservations ?db)" for x
    using that r by (auto simp: reservation_table.rows_put set_update_where split: if_splits)
  note old = fk [unfolded fk_ok_def list_all_iff list_ex_iff]
  have "\<exists>x \<in> set (wallets ?db). w_tenant_id x = r_tenant_id y \<and> w_id x = r_wallet_account_id y"
    if "y \<in> set (reservations ?db)" for y
  proof -
    from rows [OF that] obtain z where "z \<in> set (reservations db)" "r_tenant_id y = r_tenant_id z"
      "r_wallet_account_id y = r_wallet_account_id z" by blast
    with old show ?thesis by (intro wok) simp
  qed
  moreover have "\<exists>x \<in> set (wallets ?db). w_tenant_id x = l_tenant_id l \<and> w_id x = l_wallet_account_id l"
    if "l \<in> set (ledger db) \<or> l \<in> set ls" for l
    using that old w(1) ls by (intro wok) (auto simp: list_all_iff)
  moreover have "\<exists>x \<in> set (reservations ?db). r_tenant_id x = l_tenant_id l \<and> r_id x = i"
    if "l \<in> set (ledger db) \<or> l \<in> set ls" "l_reservation_id l = Some i" for l i
    using that(1)
  proof
    assume "l \<in> set (ledger db)"
    with old that(2) show ?thesis by (intro rok) fastforce
  next
    assume "l \<in> set ls"
    with ls r(1) that(2) show ?thesis by (intro rok bexI [of _ r]) (auto simp: list_all_iff)
  qed
  ultimately show ?thesis
    unfolding fk_ok_def list_all_iff list_ex_iff by (simp split: option.splits)
qed

subsection \<open>Fresh journal keys\<close>

lemma journal_keys_append: "journal_keys (xs @ ys) = journal_keys xs @ journal_keys ys"
  by (simp add: journal_keys_def)

lemma journal_key_entry:
  assumes "(t, ReservationKey rid ty) \<in> set (journal_keys ls)" and "list_all key_ok ls"
  shows "\<exists>a. (ty, a) \<in> set (entries_of rid ls)"
proof -
  from assms(1) obtain l where l: "l \<in> set ls" "l_idempotency_key l = Some (ReservationKey rid ty)"
    by (auto simp: journal_keys_def)
  with assms(2) have "key_ok l" by (simp add: list_all_iff)
  with l(2) have "l_reservation_id l = Some rid" "l_entry_type l = ty"
    by (auto simp: key_ok_def split: option.splits)
  with l(1) show ?thesis by (force simp: entries_of_def)
qed

lemma pending_keys_fresh:
  assumes inv: "billing_inv db" and r: "r \<in> set (reservations db)" "r_status r = ''pending''"
    and "ty \<noteq> ''hold''"
  shows "(t, ReservationKey (r_id r) ty) \<notin> set (journal_keys (ledger db))"
proof
  assume "(t, ReservationKey (r_id r) ty) \<in> set (journal_keys (ledger db))"
  from journal_key_entry [OF this billing_invD(4) [OF inv]] obtain a
    where "(ty, a) \<in> set (entries_of (r_id r) (ledger db))" by blast
  moreover have "journalled db r" using billing_invD(3) [OF inv] r(1) by (simp add: list_all_iff)
  ultimately show False using assms(4) r(2) by (simp add: journalled_def expected_entries_def)
qed

subsection \<open>Locking succeeds\<close>

lemma locked_rows_exist:
  assumes inv: "billing_inv db" and r: "r \<in> set (reservations db)"
  obtains w where "lock_rows db (r_tenant_id r) (r_id r) = Inr (w, r)" "w \<in> set (wallets db)"
    "w_id w = r_wallet_account_id r" "w_tenant_id w = r_tenant_id r" "w_currency w = r_currency r"
proof -
  note ok = billing_invD(1) [OF inv]
  note d = constraints_distinct [OF ok]
  from ok r obtain w where w: "w \<in> set (wallets db)" "w_tenant_id w = r_tenant_id r"
    "w_id w = r_wallet_account_id r"
    by (auto simp: constraints_ok_def fk_ok_def list_all_iff list_ex_iff)
  have c: "w_currency w = r_currency r"
    using billing_invD(3) [OF inv] r w by (auto simp: list_all_iff wallet_of_reservation_ok_def)
  have rl: "filter (\<lambda>x. r_tenant_id x = r_tenant_id r \<and> r_id x = r_id r) (reservations db) = [r]"
    using distinct_key_filter_singleton [OF d(2) r, of "\<lambda>x. r_tenant_id x = r_tenant_id r"]
    by (simp add: conj_commute)
  have wl: "filter (\<lambda>x. w_tenant_id x = r_tenant_id r \<and> w_id x = r_wallet_account_id r) (wallets db) = [w]"
    using distinct_key_filter_singleton [OF d(1) w(1), of "\<lambda>x. w_tenant_id x = r_tenant_id r"] w
    by (simp add: conj_commute)
  have "lock_rows db (r_tenant_id r) (r_id r) = Inr (w, r)"
    using rl wl w c
    by (simp add: lock_rows_def load_reservation_wallet_id_def reservation_wallet_id_def lock_reservation_def
        reservation_by_id_for_update_def lock_wallet_by_id_def wallet_by_id_for_update_def
        assert_wallet_reservation_match_def)
  with w c that show ?thesis by blast
qed

lemma pending_le_reserved:
  assumes inv: "billing_inv db" and r: "r \<in> set (reservations db)" "r_status r = ''pending''"
    and w: "w \<in> set (wallets db)" "w_id w = r_wallet_account_id r"
  shows "r_amount_minor r \<le> w_reserved_minor w" and "w_reserved_minor w \<le> w_balance_minor w"
    and "0 < r_amount_minor r"
proof -
  note ok = billing_invD(1) [OF inv]
  have pos: "0 \<le> pending_of (w_id w) x" if "x \<in> set (reservations db)" for x
    using ok that by (auto simp: constraints_ok_def checks_ok_def list_all_iff reservation_check_def pending_of_def)
  have "pending_of (w_id w) r \<le> sum_list (map (pending_of (w_id w)) (reservations db))"
    by (rule member_le_sum_list) (use r(1) pos in auto)
  moreover have "books db w" using billing_invD(2) [OF inv] w(1) by (simp add: list_all_iff)
  ultimately show "r_amount_minor r \<le> w_reserved_minor w"
    using r w(2) by (simp add: books_def pending_total_def pending_of_def)
  show "w_reserved_minor w \<le> w_balance_minor w" "0 < r_amount_minor r"
    using ok w(1) r(1) by (auto simp: constraints_ok_def checks_ok_def list_all_iff wallet_check_def reservation_check_def)
qed

subsection \<open>Release and capture succeed\<close>

lemma settled_constraints:
  assumes inv: "billing_inv db" and w: "w \<in> set (wallets db)" and r: "r \<in> set (reservations db)"
    and match: "w_id w = r_wallet_account_id r" "w_tenant_id w = r_tenant_id r"
    and w': "w_id w' = w_id w" "w_tenant_id w' = w_tenant_id w" "w_currency w' = w_currency w"
      "wallet_numeric w'" "wallet_check w'"
    and r': "r_id r' = r_id r" "reservation_source r' = reservation_source r"
      "r_wallet_account_id r' = r_wallet_account_id r" "reservation_numeric r'" "reservation_check r'"
    and ls: "list_all (\<lambda>l. bigint (l_amount_minor l) \<and> ledger_check l) ls"
      "list_all (\<lambda>l. l_tenant_id l = w_tenant_id w \<and> l_wallet_account_id l = w_id w \<and>
         l_tenant_id l = r_tenant_id r \<and> l_reservation_id l = Some (r_id r)) ls"
    and ids: "distinct (map l_id ls)" "set (map l_id ls) \<inter> l_id ` set (ledger db) = {}"
    and keys: "distinct (journal_keys ls)" "set (journal_keys ls) \<inter> set (journal_keys (ledger db)) = {}"
  shows "constraints_ok (add_ledger ls (put_reservation r' (put_wallet w' db)))"
proof -
  have ok: "numeric_ok db" "checks_ok db" "unique_ok db" "fk_ok db"
    using billing_invD(1) [OF inv] by (simp_all add: constraints_ok_def)
  note d = constraints_distinct [OF billing_invD(1) [OF inv]]
  have rt: "r_tenant_id r' = r_tenant_id r" using r'(2) by (simp add: reservation_source_def)
  have "distinct (map l_id (ledger db @ ls))" using ids d(3) by auto
  moreover have "distinct (journal_keys (ledger db @ ls))"
    using keys ok(3) by (auto simp: journal_keys_append unique_ok_def)
  ultimately show ?thesis
    using checks_settled [OF ok(1,2) w'(4,5) r'(4,5) ls(1)]
      unique_settled [OF ok(3) w w'(1,2,3) r r'(1,2)]
      fk_settled [OF ok(4) d(1,2) w w'(1,2) r r'(1) rt r'(3) ls(2)]
    by (simp add: constraints_ok_def)
qed

lemma row_checks:
  assumes "billing_inv db"
  shows "w \<in> set (wallets db) \<Longrightarrow> wallet_numeric w \<and> wallet_check w"
    and "r \<in> set (reservations db) \<Longrightarrow> reservation_numeric r \<and> reservation_check r"
  using billing_invD(1) [OF assms]
  by (simp_all add: constraints_ok_def numeric_ok_def checks_ok_def list_all_iff)

lemma is_currency_money: "is_currency c \<Longrightarrow> upper (strip c) = c"
proof -
  assume a: "is_currency c"
  have "upper_char x = x \<and> \<not> is_space x" if "is_upper x" for x
    using that by (auto simp: upper_char_def is_upper_def is_lower_def is_space_def Let_def)
  with a show ?thesis
    by (subst strip_no_space) (auto simp: is_currency_def list_all_iff list_ex_iff map_idI)
qed

lemma reservation_result_total:
  "reservation_check r \<Longrightarrow> reservation_result r =
     Inr \<lparr>rr_reservation_id = r_id r, rr_tenant_id = r_tenant_id r, rr_source_type = r_source_type r,
          rr_source_id = r_source_id r, rr_amount = \<lparr>amount_minor = r_amount_minor r, currency = r_currency r\<rparr>,
          rr_status = r_status r, rr_expires_at = Aware (r_expires_at r)\<rparr>"
  using is_currency_money [of "r_currency r"]
  by (auto simp: reservation_result_def reservation_check_def mk_Money_def Let_def require_def)

lemma release_row_ok:
  assumes "reservation_numeric r \<and> reservation_check r" and "r_status r = ''pending''"
  shows "reservation_numeric (release_reservation now r)" and "reservation_check (release_reservation now r)"
  using assms by (auto simp: reservation_numeric_def reservation_check_def release_reservation_def)

lemma commit_row_ok:
  assumes "reservation_numeric r \<and> reservation_check r" and "0 \<le> a" and "a \<le> r_amount_minor r"
  shows "reservation_numeric (commit_reservation a now r)" and "reservation_check (commit_reservation a now r)"
  using assms by (auto simp: reservation_numeric_def reservation_check_def commit_reservation_def bigint_def)

lemma capture_wallet_ok:
  assumes "wallet_numeric w \<and> wallet_check w" and "0 \<le> a" "a \<le> r" "r \<le> w_reserved_minor w"
    and "w_version w < 2 ^ 63 - 1"
  shows "wallet_numeric (capture_wallet r a w)" and "wallet_check (capture_wallet r a w)"
  using assms by (auto simp: wallet_numeric_def wallet_check_def capture_wallet_def bigint_def)

lemma release_wallet_eq: "release_wallet r w = capture_wallet r 0 w"
  by (simp add: release_wallet_def capture_wallet_def)

lemma release_body_succeeds:
  assumes inv: "billing_inv db" and r: "r \<in> set (reservations db)" "r_status r = ''pending''"
    and lid: "lid \<notin> l_id ` set (ledger db)"
    and ver: "\<And>w. w \<in> set (wallets db) \<Longrightarrow> w_version w < 2 ^ 63 - 1"
  shows "\<exists>res db'. release_body db lid now (r_tenant_id r) (r_id r) = Inr (res, db')"
proof -
  obtain w where lock: "lock_rows db (r_tenant_id r) (r_id r) = Inr (w, r)" and w: "w \<in> set (wallets db)"
    and m: "w_id w = r_wallet_account_id r" "w_tenant_id w = r_tenant_id r" and c: "w_currency w = r_currency r"
    by (rule locked_rows_exist [OF inv r(1)])
  note le = pending_le_reserved [OF inv r w m(1)]
  note rc = row_checks(2) [OF inv r(1)] and wc = row_checks(1) [OF inv w]
  let ?l = "ledger_entry lid (r_tenant_id r) (w_id w) (r_id r) ''release'' (r_amount_minor r) (w_currency w) ''release''"
  have "constraints_ok (add_ledger [?l] (put_reservation (release_reservation now r)
      (put_wallet (release_wallet (r_amount_minor r) w) db)))"
  proof (rule settled_constraints [OF inv w r(1) m])
    show "wallet_numeric (release_wallet (r_amount_minor r) w)" "wallet_check (release_wallet (r_amount_minor r) w)"
      using capture_wallet_ok [OF wc _ _ le(1) ver [OF w]] le(3) by (simp_all add: release_wallet_eq)
    show "list_all (\<lambda>l. bigint (l_amount_minor l) \<and> ledger_check l) [?l]"
      using rc c by (simp add: ledger_entry_def ledger_check_def reservation_numeric_def reservation_check_def)
    show "set (journal_keys [?l]) \<inter> set (journal_keys (ledger db)) = {}"
      using pending_keys_fresh [OF inv r, of "''release''" "r_tenant_id r"]
      by (simp add: journal_keys_def ledger_entry_def)
  qed (use m lid release_row_ok [OF rc r(2)] in
      \<open>simp_all add: release_wallet_def release_reservation_def reservation_source_def ledger_entry_def
        journal_keys_def\<close>)
  moreover have "mk_Money (r_amount_minor r) (w_currency w) = Inr \<lparr>amount_minor = r_amount_minor r, currency = w_currency w\<rparr>"
    using is_currency_money wc le(3) by (simp add: mk_Money_Inr_iff wallet_check_def)
  ultimately show ?thesis
    using lock le r(2) release_row_ok(2) [OF rc r(2)]
    by (auto simp: release_body_def settle_release_def decide_release_def require_nonnegative_integer_def
        require_def release_result_def reservation_result_total Let_def)
qed

lemma journal_keys_capture_entries:
  "journal_keys (capture_entries la lb t w rid d) =
     (if 0 < cd_charged_minor d then [(t, ReservationKey rid ''debit'')] else []) @
     (if 0 < cd_released_minor d then [(t, ReservationKey rid ''release'')] else [])"
  by (simp add: journal_keys_def capture_entries_def ledger_entry_def)

lemma capture_body_succeeds:
  assumes inv: "billing_inv db" and r: "r \<in> set (reservations db)" "r_status r = ''pending''"
    and a: "0 \<le> a" "a \<le> r_amount_minor r" and live: "now < r_expires_at r"
    and active: "\<And>w. w \<in> set (wallets db) \<Longrightarrow> w_id w = r_wallet_account_id r \<Longrightarrow> w_status w = ''active''"
    and ids: "lid1 \<notin> l_id ` set (ledger db)" "lid2 \<notin> l_id ` set (ledger db)" "lid1 \<noteq> lid2"
    and ver: "\<And>w. w \<in> set (wallets db) \<Longrightarrow> w_version w < 2 ^ 63 - 1"
  shows "\<exists>res db'. capture_body db lid1 lid2 now (r_tenant_id r) (r_id r)
     (Some \<lparr>amount_minor = a, currency = r_currency r\<rparr>) None = Inr (res, db')"
proof -
  obtain w where lock: "lock_rows db (r_tenant_id r) (r_id r) = Inr (w, r)" and w: "w \<in> set (wallets db)"
    and m: "w_id w = r_wallet_account_id r" "w_tenant_id w = r_tenant_id r" and c: "w_currency w = r_currency r"
    by (rule locked_rows_exist [OF inv r(1)])
  note le = pending_le_reserved [OF inv r w m(1)]
  note rc = row_checks(2) [OF inv r(1)] and wc = row_checks(1) [OF inv w]
  let ?d = "\<lparr>cd_charged_minor = a, cd_released_minor = r_amount_minor r - a, cd_idempotent = False\<rparr>"
  let ?ls = "capture_entries lid1 lid2 (r_tenant_id r) w (r_id r) ?d"
  let ?r = "commit_reservation a now r" and ?w = "capture_wallet (r_amount_minor r) a w"
  have "constraints_ok (add_ledger ?ls (put_reservation ?r (put_wallet ?w db)))"
  proof (rule settled_constraints [OF inv w r(1) m])
    show "list_all (\<lambda>l. bigint (l_amount_minor l) \<and> ledger_check l) ?ls"
      using rc c a by (auto simp: capture_entries_def ledger_entry_def ledger_check_def
          reservation_numeric_def reservation_check_def bigint_def)
    show "distinct (journal_keys ?ls)" "set (journal_keys ?ls) \<inter> set (journal_keys (ledger db)) = {}"
      using pending_keys_fresh [OF inv r, of "''debit''" "r_tenant_id r"]
        pending_keys_fresh [OF inv r, of "''release''" "r_tenant_id r"]
      by (auto simp: journal_keys_capture_entries)
    show "list_all (\<lambda>l. l_tenant_id l = w_tenant_id w \<and> l_wallet_account_id l = w_id w \<and>
         l_tenant_id l = r_tenant_id r \<and> l_reservation_id l = Some (r_id r)) ?ls"
      "distinct (map l_id ?ls)" "set (map l_id ?ls) \<inter> l_id ` set (ledger db) = {}"
      using m ids by (auto simp: capture_entries_def ledger_entry_def)
  qed (use m commit_row_ok [OF rc a] capture_wallet_ok [OF wc a le(1) ver [OF w]] in
      \<open>simp_all add: capture_wallet_def commit_reservation_def reservation_source_def\<close>)
  moreover have "mk_Money v (r_currency r) = Inr \<lparr>amount_minor = v, currency = r_currency r\<rparr>" if "0 \<le> v" for v
    using is_currency_money rc that by (simp add: mk_Money_Inr_iff reservation_check_def)
  moreover have "r_currency ?r = r_currency r" by (simp add: commit_reservation_def)
  ultimately show ?thesis
    using lock le r(2) a c live active [OF w m(1)] commit_row_ok(2) [OF rc a]
    by (auto simp: capture_body_def settle_capture_def capture_charge_def assert_currency_def
        decide_capture_def require_nonnegative_integer_def require_def Let_def
        capture_result_def reservation_result_total)
qed

subsection \<open>What a settled reservation answers\<close>

lemma capture_result_total:
  assumes "reservation_check r" and "0 \<le> a" and "a \<le> r_amount_minor r"
  shows "\<exists>rr. reservation_result r = Inr rr \<and> capture_result r a (r_amount_minor r - a) b =
    Inr \<lparr>cr_reservation = rr, cr_charged = \<lparr>amount_minor = a, currency = r_currency r\<rparr>,
         cr_released = \<lparr>amount_minor = r_amount_minor r - a, currency = r_currency r\<rparr>, cr_idempotent = b\<rparr>"
proof -
  have "is_currency (r_currency r)" using assms(1) by (simp add: reservation_check_def)
  with assms is_currency_money [of "r_currency r"] show ?thesis
    by (simp add: capture_result_def reservation_result_total mk_Money_def Let_def require_def)
qed

lemma capture_body_committed:
  assumes inv: "billing_inv db" and r: "r \<in> set (reservations db)" "r_status r = ''committed''"
    and a: "r_captured_amount_minor r = Some a"
  shows "capture_body db lid1 lid2 now (r_tenant_id r) (r_id r)
       (Some \<lparr>amount_minor = a, currency = r_currency r\<rparr>) None
     = map_error Domain (andthen (capture_result r a (r_amount_minor r - a) True) (\<lambda>res. Inr (res, db)))"
proof -
  obtain w where lock: "lock_rows db (r_tenant_id r) (r_id r) = Inr (w, r)" and c: "w_currency w = r_currency r"
    by (rule locked_rows_exist [OF inv r(1)])
  have "0 \<le> a" "a \<le> r_amount_minor r" "0 < r_amount_minor r" and rc: "reservation_check r"
    using row_checks(2) [OF inv r(1)] a by (auto simp: reservation_check_def)
  with lock c r(2) a capture_result_total [of r a True] show ?thesis
    by (auto simp: capture_body_def settle_capture_def capture_charge_def assert_currency_def
        decide_capture_def require_nonnegative_integer_def require_def)
qed

lemma release_body_committed:
  assumes inv: "billing_inv db" and r: "r \<in> set (reservations db)" "r_status r = ''committed''"
  shows "release_body db lid now (r_tenant_id r) (r_id r) = Inl (Domain (BillingConflict RELEASE_CONFLICT))"
proof -
  obtain w where "lock_rows db (r_tenant_id r) (r_id r) = Inr (w, r)"
    by (rule locked_rows_exist [OF inv r(1)])
  moreover have "0 < r_amount_minor r" using row_checks(2) [OF inv r(1)] by (simp add: reservation_check_def)
  ultimately show ?thesis
    using r(2) by (simp add: release_body_def settle_release_def decide_release_def
        require_nonnegative_integer_def require_def)
qed

lemma capture_body_released:
  assumes inv: "billing_inv db" and r: "r \<in> set (reservations db)" "r_status r = ''released''"
    and m: "0 \<le> amount_minor m" "currency m = r_currency r"
  shows "capture_body db lid1 lid2 now (r_tenant_id r) (r_id r) (Some m) None
     = Inl (Domain (BillingConflict CAPTURE_CONFLICT))"
proof -
  obtain w where "lock_rows db (r_tenant_id r) (r_id r) = Inr (w, r)" "w_currency w = r_currency r"
    by (rule locked_rows_exist [OF inv r(1)])
  moreover have "0 < r_amount_minor r" using row_checks(2) [OF inv r(1)] by (simp add: reservation_check_def)
  ultimately show ?thesis
    using r(2) m by (simp add: capture_body_def settle_capture_def capture_charge_def assert_currency_def
        decide_capture_def require_nonnegative_integer_def require_def capture_transition_error_def)
qed

lemma release_body_released:
  assumes inv: "billing_inv db" and r: "r \<in> set (reservations db)" "r_status r = ''released''"
  shows "\<exists>res. release_body db lid now (r_tenant_id r) (r_id r) = Inr (res, db) \<and> rel_idempotent res \<and>
    rel_released res = \<lparr>amount_minor = r_amount_minor r, currency = r_currency r\<rparr>"
proof -
  obtain w where "lock_rows db (r_tenant_id r) (r_id r) = Inr (w, r)" "w_currency w = r_currency r"
    by (rule locked_rows_exist [OF inv r(1)])
  moreover have rc: "reservation_check r" using row_checks(2) [OF inv r(1)] by simp
  moreover have "0 < r_amount_minor r" "is_currency (r_currency r)" using rc by (simp_all add: reservation_check_def)
  ultimately show ?thesis
    using r(2) is_currency_money [of "r_currency r"]
    by (simp add: release_body_def settle_release_def decide_release_def require_nonnegative_integer_def
        require_def release_result_def reservation_result_total mk_Money_def Let_def)
qed

text \<open>The committed row a successful capture leaves, and the released row a release leaves.\<close>

lemma capture_body_row:
  assumes inv: "billing_inv db" and "capture_body db lid1 lid2 now t rid actual usage = Inr (res, db')"
  obtains r a where "r \<in> set (reservations db')" "r_id r = rid" "r_tenant_id r = t" "r_status r = ''committed''"
    "r_captured_amount_minor r = Some a" "0 \<le> a" "a \<le> r_amount_minor r"
    "capture_result r a (r_amount_minor r - a) (cr_idempotent res) = Inr res"
  using assms(2)
proof (cases rule: capture_body_cases)
  case (replay w r charge s)
  then have r: "r \<in> set (reservations db)" "r_id r = rid" "r_tenant_id r = t" by (auto simp: locked_rows_def)
  have "reservation_check r" using row_checks(2) [OF inv r(1)] by simp
  then have "0 \<le> amount_minor charge" "amount_minor charge \<le> r_amount_minor r"
    using replay(4) by (auto simp: reservation_check_def)
  moreover have "cr_idempotent res" using replay(7) by (auto simp: capture_result_def)
  ultimately show ?thesis
    using r replay settle_usage_frame [OF replay(5)] by (intro that [of r "amount_minor charge"]) auto
next
  case (fresh w r charge s db1)
  let ?r = "commit_reservation (amount_minor charge) now r"
  from fresh(1) have r: "r \<in> set (reservations db)" "r_id r = rid" "r_tenant_id r = t"
    by (auto simp: locked_rows_def)
  have "?r \<in> set (reservations db')"
    using settle_usage_frame [OF fresh(11)] fresh(12) r
    by (auto simp: put_reservation_def set_update_where commit_reservation_def image_iff intro!: bexI [of _ r])
  moreover have "\<not> cr_idempotent res" using fresh(14) by (auto simp: capture_result_def)
  ultimately show ?thesis
    using r fresh(7,8,14) by (intro that [of ?r "amount_minor charge"]) (auto simp: commit_reservation_def)
qed

lemma release_body_row:
  assumes "release_body db lid now t rid = Inr (res, db')"
  obtains r where "r \<in> set (reservations db')" "r_id r = rid" "r_tenant_id r = t" "r_status r = ''released''"
    "release_result r (r_currency r) (r_amount_minor r) (rel_idempotent res) = Inr res"
  using assms
proof (cases rule: release_body_cases)
  case (replay w r)
  then show ?thesis by (intro that [of r]) (auto simp: locked_rows_def release_result_def)
next
  case (fresh w r)
  let ?r = "release_reservation now r"
  have "?r \<in> set (reservations db')"
    using fresh(1,5)
    by (auto simp: locked_rows_def put_reservation_def set_update_where release_reservation_def image_iff
        intro!: bexI [of _ r])
  with fresh show ?thesis
    by (intro that [of ?r]) (auto simp: locked_rows_def release_result_def release_reservation_def)
qed

end
