(* ===== verification/Billing_Properties.thy ===== *)
theory Billing_Properties
  imports Billing_Liveness
begin

text \<open>
  The wallet service as a state machine (every committed operation is a step) and its theorems: the
  books balance in every reachable database, a hold is settled at most once and exactly, settlement
  succeeds when the caller meets its conditions, retries are idempotent and tenants are isolated.
\<close>

subsection \<open>Committed operations as steps\<close>

text \<open>
  \<open>wallet_locked\<close>: the wallet row a reserve read under its row lock is still the stored row when it
  flushes. Other tables (usage rows, prices, requests, jobs) belong to other components; the step
  \<open>other\<close> lets them change freely within the schema's constraints.
\<close>

definition wallet_locked :: "billing_db \<Rightarrow> billing_db \<Rightarrow> uuid \<Rightarrow> string \<Rightarrow> bool" where
  "wallet_locked seen db t c \<longleftrightarrow>
     list_all (\<lambda>w. w_tenant_id w = t \<and> w_currency w = c \<longrightarrow> w \<in> set (wallets db)) (wallets seen)"

definition empty_db :: billing_db where
  "empty_db = \<lparr>wallets = [], reservations = [], ledger = [], usage_records = [], price_versions = [],
     inference_requests = [], generation_jobs = []\<rparr>"

inductive billing_step :: "billing_db \<Rightarrow> billing_db \<Rightarrow> bool" where
  step_reserve: "reserve first seen db rid lid now t st sid amount exp = (out, db') \<Longrightarrow>
    wallet_locked seen db t (currency amount) \<Longrightarrow> billing_step db db'"
| step_reserve_in_transaction:
    "reserve_in_transaction first seen db rid lid now t st sid price exp = Inr (res, db') \<Longrightarrow>
    reservation_amount price = Inr amount \<Longrightarrow> wallet_locked seen db t (currency amount) \<Longrightarrow>
    billing_step db db'"
| step_capture: "capture db lid1 lid2 now t rid actual usage = (out, db') \<Longrightarrow> billing_step db db'"
| step_release: "release db lid now t rid = (out, db') \<Longrightarrow> billing_step db db'"
| step_demo_credit: "demo_credit production tenant_of db lid slug amount = Inr db' \<Longrightarrow> billing_step db db'"
| step_grant: "ensure_pts_wallet db wid t = Inr (w, db1) \<Longrightarrow>
    grant_initial_points db1 lid t w amount = Inr db' \<Longrightarrow> billing_step db db'"
| step_other: "wallets db' = wallets db \<Longrightarrow> reservations db' = reservations db \<Longrightarrow> ledger db' = ledger db \<Longrightarrow>
    constraints_ok db' \<Longrightarrow> billing_step db db'"

inductive billing_reachable :: "billing_db \<Rightarrow> bool" where
  start: "billing_reachable empty_db"
| step: "billing_reachable db \<Longrightarrow> billing_step db db' \<Longrightarrow> billing_reachable db'"

lemma capture_Inr_iff:
  "capture db lid1 lid2 now t rid actual usage = (Inr res, db') \<longleftrightarrow>
     (actual = None \<or> usage = None) \<and> capture_body db lid1 lid2 now t rid actual usage = Inr (res, db')"
  by (auto simp: capture_def transaction_Inr_iff)

lemma capture_Inl: "capture db lid1 lid2 now t rid actual usage = (Inl e, db') \<Longrightarrow> db' = db"
  by (auto simp: capture_def transaction_Inl_iff split: if_splits)

lemma release_Inr_iff:
  "release db lid now t rid = (Inr res, db') \<longleftrightarrow> release_body db lid now t rid = Inr (res, db')"
  by (simp add: release_def transaction_Inr_iff)

lemma release_Inl: "release db lid now t rid = (Inl e, db') \<Longrightarrow> db' = db"
  by (simp add: release_def transaction_Inl_iff)

text \<open>A reserve either commits what its transaction body produced, or nothing.\<close>

lemma reserve_commit:
  assumes "reserve first seen db rid lid now t st sid amount exp = (out, db')"
  shows "db' = db \<or> (\<exists>st' e res. reserve_in_txn first seen db rid lid t st' sid amount e = Inr (res, db') \<and> out = Inr res)"
  using assms by (fastforce simp: reserve_def split: sum.splits raised.splits sql_error.splits)

lemma reserve_Inl: "reserve first seen db rid lid now t st sid amount exp = (Inl e, db') \<Longrightarrow> db' = db"
  by (auto simp: reserve_def split: sum.splits raised.splits sql_error.splits)

lemma empty_db_inv: "billing_inv empty_db"
  by (simp add: billing_inv_def empty_db_def constraints_ok_def numeric_ok_def checks_ok_def unique_ok_def
      fk_ok_def journal_keys_def usage_source_keys_def)

lemma wallet_lockedD:
  "wallet_locked seen db t c \<Longrightarrow> w \<in> set (wallets seen) \<Longrightarrow> w_tenant_id w = t \<Longrightarrow> w_currency w = c \<Longrightarrow>
   w \<in> set (wallets db)"
  by (auto simp: wallet_locked_def list_all_iff)

lemma billing_step_inv:
  assumes "billing_step db db'" and inv: "billing_inv db"
  shows "billing_inv db'"
  using assms(1)
proof cases
  case (step_reserve first seen rid lid now t st sid amount exp out)
  from reserve_commit [OF step_reserve(1)] show ?thesis
    using inv reserve_in_txn_inv [OF _ inv wallet_lockedD [OF step_reserve(2)]] by blast
next
  case (step_reserve_in_transaction first seen rid lid now t st sid price exp res amount)
  then obtain st' e where "reserve_in_txn first seen db rid lid t st' sid amount e = Inr (res, db')"
    by (auto simp: reserve_in_transaction_def)
  from reserve_in_txn_inv [OF this inv wallet_lockedD [OF step_reserve_in_transaction(3)]] show ?thesis .
next
  case (step_capture lid1 lid2 now t rid actual usage out)
  then show ?thesis
    using inv by (cases out) (auto simp: capture_Inr_iff dest: capture_Inl intro: capture_body_inv)
next
  case (step_release lid now t rid out)
  then show ?thesis
    using inv by (cases out) (auto simp: release_Inr_iff dest: release_Inl intro: release_body_inv)
next
  case step_demo_credit
  then show ?thesis using demo_credit_inv inv by blast
next
  case step_grant
  then show ?thesis using grant_initial_points_inv ensure_pts_wallet_inv inv by blast
next
  case step_other
  then show ?thesis using billing_inv_usage [OF inv] by blast
qed

lemma billing_reachable_billing_inv: "billing_reachable db \<Longrightarrow> billing_inv db"
  by (induction rule: billing_reachable.induct) (auto intro: empty_db_inv billing_step_inv)

subsection \<open>A small database\<close>

text \<open>Tenant 1 opens wallet 10 and is granted 1000 points; then a chat hold of 300 is placed.\<close>

definition granted_db :: billing_db where
  "granted_db = (case ensure_pts_wallet empty_db 10 1 of
     Inr (w, db) \<Rightarrow> (case grant_initial_points db 100 1 w 1000 of Inr db' \<Rightarrow> db' | Inl _ \<Rightarrow> empty_db)
   | Inl _ \<Rightarrow> empty_db)"

definition points :: "int \<Rightarrow> Money" where
  "points n = \<lparr>amount_minor = n, currency = ''PTS''\<rparr>"

definition held_db :: billing_db where
  "held_db = snd (reserve granted_db granted_db granted_db 20 101 0 1 ''chat_inference'' 7 (points 300)
     (Aware 1000))"

lemma granted_db_eval:
  "granted_db = empty_db
     \<lparr>wallets := [\<lparr>w_id = 10, w_tenant_id = 1, w_currency = ''PTS'', w_balance_minor = 1000,
        w_reserved_minor = 0, w_version = 1, w_status = ''active''\<rparr>],
      ledger := [credit_entry 100 1 (open_wallet 10 1) 1000 ''operator_grant'' (OperatorGrantKey 1 1)]\<rparr>"
  by code_simp

lemma held_db_eval:
  "held_db = granted_db
     \<lparr>wallets := [\<lparr>w_id = 10, w_tenant_id = 1, w_currency = ''PTS'', w_balance_minor = 1000,
        w_reserved_minor = 300, w_version = 2, w_status = ''active''\<rparr>],
      reservations := [new_reservation 20 1 10 (points 300) ''chat_inference'' 7 1000],
      ledger := ledger granted_db @ [ledger_entry 101 1 10 20 ''hold'' 300 ''PTS'' ''hold'']\<rparr>"
  by code_simp

lemma granted_db_reachable: "billing_reachable granted_db"
proof -
  have "\<exists>w db1. ensure_pts_wallet empty_db 10 1 = Inr (w, db1) \<and>
      grant_initial_points db1 100 1 w 1000 = Inr granted_db"
    by (rule exI [of _ "open_wallet 10 1"], rule exI [of _ "empty_db\<lparr>wallets := [open_wallet 10 1]\<rparr>"]) code_simp
  then show ?thesis
    using billing_reachable.start billing_reachable.step billing_step.step_grant by blast
qed

lemma held_db_reachable: "billing_reachable held_db"
proof -
  have "wallet_locked granted_db granted_db 1 (currency (points 300))"
    by (simp add: wallet_locked_def list_all_iff)
  then have "billing_step granted_db held_db"
    unfolding held_db_def by (rule billing_step.step_reserve [OF prod.collapse [symmetric]])
  then show ?thesis using granted_db_reachable billing_reachable.step by blast
qed

subsection \<open>Looking up a source again\<close>

lemma lock_rowsD:
  assumes "lock_rows db t rid = Inr (w, r)"
  shows "lock_wallet_by_id db t (w_id w) = Inr w" and "lock_reservation db t rid = Inr r"
    and "assert_wallet_reservation_match w r = Inr ()"
  using assms by (auto simp: lock_rows_def lock_wallet_by_id_Inr_iff dest: filter_singletonD)

lemma existing_found:
  assumes inv: "billing_inv db" and r: "r \<in> set (reservations db)"
  shows "find_reservation_by_source db (r_tenant_id r) (r_source_type r) (r_source_id r) = Inr (Some r)"
    and "existing_reservation db (r_tenant_id r) r amount e
       = map_error Domain (resolve_existing_reservation r amount (Aware e))"
proof -
  have "distinct (map reservation_source (reservations db))"
    using billing_invD(1) [OF inv] by (simp add: constraints_ok_def unique_ok_def)
  from distinct_key_filter_singleton [OF this r, of "\<lambda>_. True"]
  show "find_reservation_by_source db (r_tenant_id r) (r_source_type r) (r_source_id r) = Inr (Some r)"
    by (simp add: find_reservation_by_source_def reservation_by_source_def reservation_source_def)
  obtain w where "lock_rows db (r_tenant_id r) (r_id r) = Inr (w, r)" "w_id w = r_wallet_account_id r"
    by (rule locked_rows_exist [OF inv r])
  with lock_rowsD [OF this(1)] show "existing_reservation db (r_tenant_id r) r amount e
       = map_error Domain (resolve_existing_reservation r amount (Aware e))"
    by (simp add: existing_reservation_def)
qed

lemma reserve_again:
  assumes "billing_inv db" and "r \<in> set (reservations db)" and "0 < amount_minor amount" and "now < e"
    and "normalize_source_type st = Inr (r_source_type r)"
  shows "reserve db db db rid lid now (r_tenant_id r) st (r_source_id r) amount (Aware e)
       = (resolve_existing_reservation r amount (Aware e), db)"
  using assms existing_found [OF assms(1,2)]
  by (cases "resolve_existing_reservation r amount (Aware e)")
    (auto simp: reserve_def reserve_in_txn_def)

text \<open>The row a successful reserve answers from.\<close>

lemma reserve_row:
  assumes inv: "billing_inv db" and "reserve db db db rid lid now t st sid amount exp = (Inr res, db')"
  obtains r e where "r \<in> set (reservations db')" "r_tenant_id r = t" "r_source_id r = sid" "exp = Aware e"
    "normalize_source_type st = Inr (r_source_type r)" "billing_inv db'" "0 < amount_minor amount"
    "resolve_existing_reservation r amount exp = Inr res"
proof -
  from assms(2) obtain st' e where v: "0 < amount_minor amount" "normalize_source_type st = Inr st'"
    "require_future_utc exp now = Inr e"
    by (auto simp: reserve_def split: sum.splits)
  then have e: "exp = Aware e" by (cases exp) (auto split: if_splits)
  show ?thesis
  proof (cases "\<exists>r \<in> set (reservations db). reservation_source r = (t, st', sid)")
    case True
    then obtain r where "r \<in> set (reservations db)" "r_tenant_id r = t" "r_source_type r = st'" "r_source_id r = sid"
      by (auto simp: reservation_source_def)
    with v e assms reserve_again [OF inv, of r amount now e st rid lid] show ?thesis
      by (intro that [of r e]) (auto split: if_splits)
  next
    case False
    then have none: "reservation_by_source t st' sid db = []"
      by (auto simp: reservation_by_source_def reservation_source_def filter_empty_conv)
    then have "reserve_in_txn db db db rid lid t st' sid amount e = Inr (res, db')"
      using assms(2) v
      by (auto simp: reserve_def resolve_reservation_race_def find_reservation_by_source_def
          split: sum.splits raised.splits sql_error.splits)
    then show ?thesis
    proof (cases rule: reserve_in_txn_cases)
      case (replay r)
      then show ?thesis using none by simp
    next
      case (hold w)
      let ?r = "new_reservation rid t (w_id w) amount st' sid e"
      have "billing_inv db'"
        by (rule place_hold_inv [OF inv _ _ hold(6,7)]) (use filter_singletonD [OF hold(1)] in auto)
      moreover have "resolve_existing_reservation ?r amount exp = Inr res"
        using hold(8) e by (simp add: resolve_existing_reservation_def new_reservation_def)
      moreover have "?r \<in> set (reservations db')" by (simp add: hold(6) place_hold_def)
      ultimately show ?thesis using v e by (intro that [of ?r e]) (auto simp: new_reservation_def)
    qed
  qed
qed

subsection \<open>Rows of other tenants\<close>

definition other_tenants ::
  "uuid \<Rightarrow> billing_db \<Rightarrow> WalletAccount list \<times> BalanceReservation list \<times> LedgerEntry list \<times> UsageRecord list" where
  "other_tenants t db =
     (filter (\<lambda>w. w_tenant_id w \<noteq> t) (wallets db), filter (\<lambda>r. r_tenant_id r \<noteq> t) (reservations db),
      filter (\<lambda>l. l_tenant_id l \<noteq> t) (ledger db), filter (\<lambda>u. u_tenant_id u \<noteq> t) (usage_records db))"

lemma other_tenants_put_wallet:
  "distinct (map w_id (wallets db)) \<Longrightarrow> w \<in> set (wallets db) \<Longrightarrow> w_id w' = w_id w \<Longrightarrow> w_tenant_id w = t \<Longrightarrow>
   w_tenant_id w' = t \<Longrightarrow> other_tenants t (put_wallet w' db) = other_tenants t db"
  using wallet_table.filter_put_other [of db w w' w_tenant_id t] by (simp add: other_tenants_def)

lemma other_tenants_put_reservation:
  "distinct (map r_id (reservations db)) \<Longrightarrow> r \<in> set (reservations db) \<Longrightarrow> r_id r' = r_id r \<Longrightarrow> r_tenant_id r = t \<Longrightarrow>
   r_tenant_id r' = t \<Longrightarrow> other_tenants t (put_reservation r' db) = other_tenants t db"
  using reservation_table.filter_put_other [of db r r' r_tenant_id t] by (simp add: other_tenants_def)

lemma other_tenants_put_usage:
  "distinct (map u_id (usage_records db)) \<Longrightarrow> u \<in> set (usage_records db) \<Longrightarrow> u_id u' = u_id u \<Longrightarrow> u_tenant_id u = t \<Longrightarrow>
   u_tenant_id u' = t \<Longrightarrow> other_tenants t (put_usage u' db) = other_tenants t db"
  using usage_table.filter_put_other [of db u u' u_tenant_id t] by (simp add: other_tenants_def)

lemma other_tenants_add_ledger:
  "list_all (\<lambda>l. l_tenant_id l = t) ls \<Longrightarrow> other_tenants t (add_ledger ls db) = other_tenants t db"
  by (auto simp: other_tenants_def list_all_iff filter_empty_conv)

lemma usage_for_reservation_row:
  "usage_for_reservation db t r = Inr u \<Longrightarrow> u \<in> set (usage_records db) \<and> u_tenant_id u = t"
  by (auto simp: usage_for_reservation_def split: if_splits dest!: filter_singletonD)

lemma capture_charge_settlement:
  "capture_charge db t r actual usage = Inr (charge, Some (u, p)) \<Longrightarrow> u \<in> set (usage_records db) \<and> u_tenant_id u = t"
  by (auto simp: capture_charge_def split: option.splits dest!: usage_for_reservation_row)

lemma other_tenants_settle:
  assumes "capture_charge db t r actual usage = Inr (charge, s)" and "settle_usage s charge db1 = Inr db2"
    and "usage_records db1 = usage_records db" and "distinct (map u_id (usage_records db))"
  shows "other_tenants t db2 = other_tenants t db1"
proof (cases s)
  case (Some up)
  then obtain u p where "s = Some (u, p)" by (cases up) auto
  with assms(2) obtain l where u: "db2 = put_usage (u\<lparr>u_pricing_version := l, u_currency := currency charge,
      u_charge_amount_minor := amount_minor charge\<rparr>) db1"
    by (auto simp: apply_usage_charge_def)
  have "u \<in> set (usage_records db1)" "u_tenant_id u = t"
    using capture_charge_settlement assms(1,3) \<open>s = Some (u, p)\<close> by auto
  with u assms(3,4) show ?thesis by (auto intro!: other_tenants_put_usage [of _ u])
qed (use assms in simp)

lemma locked_tenants:
  assumes "billing_inv db" and "locked_rows db t rid w r"
    and "w_id w' = w_id w" "w_tenant_id w' = w_tenant_id w" "r_id r' = r_id r" "r_tenant_id r' = r_tenant_id r"
  shows "other_tenants t (put_reservation r' (put_wallet w' db)) = other_tenants t db"
proof -
  note d = constraints_distinct [OF billing_invD(1) [OF assms(1)]]
  have "other_tenants t (put_wallet w' db) = other_tenants t db"
    by (rule other_tenants_put_wallet [OF d(1), of w]) (use assms in \<open>auto simp: locked_rows_def\<close>)
  moreover have "other_tenants t (put_reservation r' (put_wallet w' db)) = other_tenants t (put_wallet w' db)"
    by (rule other_tenants_put_reservation [of _ r]) (use assms d(2) in \<open>auto simp: locked_rows_def\<close>)
  ultimately show ?thesis by simp
qed

lemma capture_body_tenants:
  assumes inv: "billing_inv db" and "capture_body db lid1 lid2 now t rid actual usage = Inr (res, db')"
  shows "other_tenants t db' = other_tenants t db"
  using assms(2)
proof (cases rule: capture_body_cases)
  case (replay w r charge s)
  from other_tenants_settle [OF replay(3,5) refl] constraints_distinct(4) [OF billing_invD(1) [OF inv]]
  show ?thesis by simp
next
  case (fresh w r charge s db1)
  have "other_tenants t db' = other_tenants t db1"
    unfolding fresh(12) by (rule other_tenants_add_ledger) (simp add: capture_entries_def ledger_entry_def)
  also have "\<dots> = other_tenants t (put_reservation (commit_reservation (amount_minor charge) now r)
         (put_wallet (capture_wallet (r_amount_minor r) (amount_minor charge) w) db))"
    by (rule other_tenants_settle [OF fresh(3,11)])
      (use constraints_distinct(4) [OF billing_invD(1) [OF inv]] in simp_all)
  also have "\<dots> = other_tenants t db"
    by (rule locked_tenants [OF inv fresh(1)]) (simp_all add: commit_reservation_def capture_wallet_def)
  finally show ?thesis .
qed

lemma release_body_tenants:
  assumes inv: "billing_inv db" and "release_body db lid now t rid = Inr (res, db')"
  shows "other_tenants t db' = other_tenants t db"
  using assms(2)
proof (cases rule: release_body_cases)
  case (fresh w r)
  have "other_tenants t db' = other_tenants t (put_reservation (release_reservation now r)
      (put_wallet (release_wallet (r_amount_minor r) w) db))"
    unfolding fresh(5) by (rule other_tenants_add_ledger) (simp add: ledger_entry_def)
  also have "\<dots> = other_tenants t db"
    by (rule locked_tenants [OF inv fresh(1)]) (simp_all add: release_reservation_def release_wallet_def)
  finally show ?thesis .
qed simp

lemma reserve_in_txn_tenants:
  assumes inv: "billing_inv db" and "reserve_in_txn first seen db rid lid t st sid amount e = Inr (res, db')"
    and lock: "wallet_locked seen db t (currency amount)"
  shows "other_tenants t db' = other_tenants t db"
  using assms(2)
proof (cases rule: reserve_in_txn_cases)
  case (hold w)
  have w: "w \<in> set (wallets db)" "w_tenant_id w = t"
    using filter_singletonD [OF hold(1)] wallet_lockedD [OF lock] by auto
  have "other_tenants t db' = other_tenants t (add_reservation (new_reservation rid t (w_id w) amount st sid e)
      (put_wallet (hold_wallet (amount_minor amount) w) db))"
    unfolding hold(6) place_hold_def by (rule other_tenants_add_ledger) (simp add: ledger_entry_def)
  also have "\<dots> = other_tenants t (put_wallet (hold_wallet (amount_minor amount) w) db)"
    by (simp add: other_tenants_def new_reservation_def)
  also have "\<dots> = other_tenants t db"
    by (rule other_tenants_put_wallet [OF constraints_distinct(1) [OF billing_invD(1) [OF inv]] w(1)])
      (use w in \<open>simp_all add: hold_wallet_def\<close>)
  finally show ?thesis .
qed simp

subsection \<open>Theorems\<close>

text \<open>
  C1. In every database the wallet service and the credit scripts can reach from the empty one, in
  any interleaving of reserves (including lost insert races), captures, releases and credits, the
  accounting invariant holds: the schema's constraints, each wallet's \<open>reserved_minor\<close> equal to its
  pending holds and to the journal, each \<open>balance_minor\<close> equal to the journal, and each
  reservation's journal rows exactly those of its status.
\<close>

theorem billing_books_balance: "billing_reachable db \<Longrightarrow> billing_inv db"
  by (rule billing_reachable_billing_inv)

theorem billing_books_balance_witness: "billing_inv held_db"
  by (rule billing_books_balance [OF held_db_reachable])

text \<open>
  C2. A first capture charges what it reports and nothing else: the hold was pending and unexpired,
  the wallet active, charged plus released is the held amount, the wallet's reserved amount falls by
  the hold and its balance by the charge, the reservation is committed with that charge, the journal
  is only extended, and no other wallet or reservation row changes.
\<close>

theorem capture_exact:
  assumes "capture db lid1 lid2 now t rid actual usage = (Inr res, db')" and "\<not> cr_idempotent res"
  shows "\<exists>w r a. locked_rows db t rid w r \<and> r_status r = ''pending'' \<and> now < r_expires_at r \<and>
    w_status w = ''active'' \<and> 0 \<le> a \<and> a \<le> r_amount_minor r \<and>
    amount_minor (cr_charged res) = a \<and> amount_minor (cr_released res) = r_amount_minor r - a \<and>
    wallets db' = update_where (\<lambda>x. w_id x = w_id w) (\<lambda>_. capture_wallet (r_amount_minor r) a w) (wallets db) \<and>
    reservations db' = update_where (\<lambda>x. r_id x = rid) (\<lambda>_. commit_reservation a now r) (reservations db) \<and>
    (\<exists>ls. ledger db' = ledger db @ ls \<and>
       entries_of rid ls = nonzero_entry ''debit'' a @ nonzero_entry ''release'' (r_amount_minor r - a))"
proof -
  from assms(1) have "capture_body db lid1 lid2 now t rid actual usage = Inr (res, db')"
    by (simp add: capture_Inr_iff)
  then show ?thesis
  proof (cases rule: capture_body_cases)
    case (replay w r charge s)
    with assms(2) show ?thesis by (auto simp: capture_result_def)
  next
    case (fresh w r charge s db1)
    let ?a = "amount_minor charge"
    have res: "amount_minor (cr_charged res) = ?a" "amount_minor (cr_released res) = r_amount_minor r - ?a"
      using fresh(14) by (auto simp: capture_result_def mk_Money_Inr_iff)
    have id: "r_id r = rid" "r_id (commit_reservation ?a now r) = rid"
        "w_id (capture_wallet (r_amount_minor r) ?a w) = w_id w"
      using fresh(1) by (simp_all add: locked_rows_def commit_reservation_def capture_wallet_def)
    have rows: "wallets db' = update_where (\<lambda>x. w_id x = w_id w) (\<lambda>_. capture_wallet (r_amount_minor r) ?a w) (wallets db)"
      "reservations db' = update_where (\<lambda>x. r_id x = rid) (\<lambda>_. commit_reservation ?a now r) (reservations db)"
      using settle_usage_frame [OF fresh(11)] fresh(12) id
      by (simp_all add: put_reservation_def put_wallet_def)
    have "\<exists>ls. ledger db' = ledger db @ ls \<and>
        entries_of rid ls = nonzero_entry ''debit'' ?a @ nonzero_entry ''release'' (r_amount_minor r - ?a)"
      using settle_usage_frame [OF fresh(11)] fresh(12) capture_entries_effects(3) [OF fresh(7,8)] by auto
    with fresh res rows show ?thesis by blast
  qed
qed

theorem capture_exact_witness:
  "\<exists>res db'. capture held_db 102 103 5 1 20 (Some (points 120)) None = (Inr res, db') \<and>
     (\<exists>w r a. locked_rows held_db 1 20 w r \<and> amount_minor (cr_charged res) = a \<and>
        amount_minor (cr_released res) = r_amount_minor r - a)"
proof -
  have "(case fst (capture held_db 102 103 5 1 20 (Some (points 120)) None) of
      Inr res \<Rightarrow> \<not> cr_idempotent res | Inl _ \<Rightarrow> False)"
    unfolding held_db_eval granted_db_eval by code_simp
  then obtain res db' where r: "capture held_db 102 103 5 1 20 (Some (points 120)) None = (Inr res, db')"
      "\<not> cr_idempotent res"
    by (cases "capture held_db 102 103 5 1 20 (Some (points 120)) None") (auto split: sum.splits)
  with capture_exact [OF r] show ?thesis by blast
qed

text \<open>
  A capture that succeeded can be retried: at any later time and with any journal identifiers,
  capturing the charged amount again returns the same amounts flagged idempotent and changes
  nothing.
\<close>

theorem capture_replay:
  assumes "billing_inv db" and "capture db lid1 lid2 now t rid actual usage = (Inr res, db')"
  shows "\<exists>res'. capture db' lid3 lid4 now' t rid (Some (cr_charged res)) None = (Inr res', db') \<and>
    cr_charged res' = cr_charged res \<and> cr_released res' = cr_released res \<and>
    cr_reservation res' = cr_reservation res \<and> cr_idempotent res'"
proof -
  from assms(2) have b: "capture_body db lid1 lid2 now t rid actual usage = Inr (res, db')"
    by (simp add: capture_Inr_iff)
  note inv' = capture_body_inv [OF b assms(1)]
  obtain r a where r: "r \<in> set (reservations db')" "r_id r = rid" "r_tenant_id r = t" "r_status r = ''committed''"
    "r_captured_amount_minor r = Some a" "0 \<le> a" "a \<le> r_amount_minor r"
    "capture_result r a (r_amount_minor r - a) (cr_idempotent res) = Inr res"
    by (rule capture_body_row [OF assms(1) b])
  have rc: "reservation_check r" using row_checks(2) [OF inv' r(1)] by simp
  from capture_result_total [OF rc r(6,7)] obtain rr where rr: "\<And>b. capture_result r a (r_amount_minor r - a) b =
    Inr \<lparr>cr_reservation = rr, cr_charged = \<lparr>amount_minor = a, currency = r_currency r\<rparr>,
         cr_released = \<lparr>amount_minor = r_amount_minor r - a, currency = r_currency r\<rparr>, cr_idempotent = b\<rparr>"
    by (metis sum.inject(2))
  from rr r(8) have res: "res = \<lparr>cr_reservation = rr, cr_charged = \<lparr>amount_minor = a, currency = r_currency r\<rparr>,
      cr_released = \<lparr>amount_minor = r_amount_minor r - a, currency = r_currency r\<rparr>,
      cr_idempotent = cr_idempotent res\<rparr>" by simp
  from capture_body_committed [OF inv' r(1,4,5), of lid3 lid4 now'] rr r(2,3)
  show ?thesis by (subst (1 2 3 4) res) (simp add: capture_Inr_iff)
qed

theorem capture_replay_witness:
  "\<exists>res db'. capture held_db 102 103 5 1 20 (Some (points 120)) None = (Inr res, db') \<and>
     (\<exists>res'. capture db' 104 105 9999 1 20 (Some (cr_charged res)) None = (Inr res', db') \<and> cr_idempotent res')"
proof -
  have "(case fst (capture held_db 102 103 5 1 20 (Some (points 120)) None) of Inr _ \<Rightarrow> True | Inl _ \<Rightarrow> False)"
    unfolding held_db_eval granted_db_eval by code_simp
  then obtain res db' where r: "capture held_db 102 103 5 1 20 (Some (points 120)) None = (Inr res, db')"
    by (cases "capture held_db 102 103 5 1 20 (Some (points 120)) None") (auto split: sum.splits)
  with capture_replay [OF billing_reachable_billing_inv [OF held_db_reachable] r] show ?thesis by blast
qed

text \<open>
  C3. Capture does not get stuck: in a reachable database a pending hold that has not expired, on an
  active wallet, is captured for any amount between zero and the hold, given fresh journal
  identifiers and a version counter below its 64-bit bound. No invariant error, constraint violation
  or key clash can prevent it.
\<close>

theorem capture_not_stuck:
  assumes "billing_reachable db" and "r \<in> set (reservations db)" "r_status r = ''pending''"
    and "0 \<le> a" "a \<le> r_amount_minor r" "now < r_expires_at r"
    and "\<And>w. w \<in> set (wallets db) \<Longrightarrow> w_id w = r_wallet_account_id r \<Longrightarrow> w_status w = ''active''"
    and "lid1 \<notin> l_id ` set (ledger db)" "lid2 \<notin> l_id ` set (ledger db)" "lid1 \<noteq> lid2"
    and "\<And>w. w \<in> set (wallets db) \<Longrightarrow> w_version w < 2 ^ 63 - 1"
  shows "\<exists>res db'. capture db lid1 lid2 now (r_tenant_id r) (r_id r)
     (Some \<lparr>amount_minor = a, currency = r_currency r\<rparr>) None = (Inr res, db')"
  using capture_body_succeeds [OF billing_reachable_billing_inv [OF assms(1)] assms(2-11)]
  by (simp add: capture_Inr_iff)

theorem capture_not_stuck_witness:
  "\<exists>res db'. capture held_db 102 103 5 1 20 (Some (points 300)) None = (Inr res, db')"
  using capture_not_stuck [OF held_db_reachable,
      of "new_reservation 20 1 10 (points 300) ''chat_inference'' 7 1000" 300 5 102 103]
  by (simp add: held_db_eval granted_db_eval new_reservation_def points_def credit_entry_def ledger_entry_def)

text \<open>
  C5. Release does not get stuck either, and needs no active wallet: in a reachable database every
  pending hold can be released, expired or not, on a frozen wallet too.
\<close>

theorem release_not_stuck:
  assumes "billing_reachable db" and "r \<in> set (reservations db)" "r_status r = ''pending''"
    and "lid \<notin> l_id ` set (ledger db)"
    and "\<And>w. w \<in> set (wallets db) \<Longrightarrow> w_version w < 2 ^ 63 - 1"
  shows "\<exists>res db'. release db lid now (r_tenant_id r) (r_id r) = (Inr res, db')"
  using release_body_succeeds [OF billing_reachable_billing_inv [OF assms(1)] assms(2-5)]
  by (simp add: release_Inr_iff)

theorem release_not_stuck_witness: "\<exists>res db'. release held_db 102 5000 1 20 = (Inr res, db')"
  using release_not_stuck [OF held_db_reachable,
      of "new_reservation 20 1 10 (points 300) ''chat_inference'' 7 1000" 102 5000]
  by (simp add: held_db_eval granted_db_eval new_reservation_def points_def credit_entry_def ledger_entry_def)




lemma reserve_replay_facts:
  assumes "billing_inv db" and "reserve db db db rid lid now t st sid amount (Aware e) = (Inr res, db')"
    and "now' < e"
  shows "reserve db' db' db' rid2 lid2 now' t st sid amount (Aware e) = (Inr res, db')"
    and "0 < a \<Longrightarrow> a \<noteq> amount_minor amount \<Longrightarrow>
      reserve db' db' db' rid2 lid2 now' t st sid (amount\<lparr>amount_minor := a\<rparr>) (Aware e)
        = (Inl (BillingConflict RESERVATION_IDEMPOTENCY_CONFLICT), db')"
proof -
  obtain r where r: "r \<in> set (reservations db')" "r_tenant_id r = t" "r_source_id r = sid"
    "normalize_source_type st = Inr (r_source_type r)" "billing_inv db'" "0 < amount_minor amount"
    "resolve_existing_reservation r amount (Aware e) = Inr res"
    by (rule reserve_row [OF assms(1,2)]) auto
  show "reserve db' db' db' rid2 lid2 now' t st sid amount (Aware e) = (Inr res, db')"
    using reserve_again [OF r(5,1,6) assms(3) r(4)] r(2,3,7) by simp
  assume a: "0 < a" "a \<noteq> amount_minor amount"
  have "resolve_existing_reservation r (amount\<lparr>amount_minor := a\<rparr>) (Aware e)
      = Inl (BillingConflict RESERVATION_IDEMPOTENCY_CONFLICT)"
    using r(7) a by (auto simp: resolve_existing_reservation_def split: if_splits)
  then show "reserve db' db' db' rid2 lid2 now' t st sid (amount\<lparr>amount_minor := a\<rparr>) (Aware e)
        = (Inl (BillingConflict RESERVATION_IDEMPOTENCY_CONFLICT), db')"
    using reserve_again [OF r(5,1) _ assms(3) r(4), of "amount\<lparr>amount_minor := a\<rparr>"] r(2,3) a by simp
qed

text \<open>
  C20. Reserving is idempotent on its source: repeating a successful reserve before the hold's expiry,
  with whatever fresh identifiers, answers with the same reservation and changes nothing; asking for
  another amount is refused as an idempotency conflict.
\<close>

theorem reserve_replay:
  assumes "billing_inv db" and "reserve db db db rid lid now t st sid amount (Aware e) = (Inr res, db')"
    and "now' < e"
  shows "reserve db' db' db' rid2 lid2 now' t st sid amount (Aware e) = (Inr res, db') \<and>
    (\<forall>a > 0. a \<noteq> amount_minor amount \<longrightarrow>
      reserve db' db' db' rid2 lid2 now' t st sid (amount\<lparr>amount_minor := a\<rparr>) (Aware e)
        = (Inl (BillingConflict RESERVATION_IDEMPOTENCY_CONFLICT), db'))"
  using reserve_replay_facts [OF assms] by simp

theorem reserve_replay_witness:
  "\<exists>res. reserve granted_db granted_db granted_db 20 101 0 1 ''chat_inference'' 7 (points 300) (Aware 1000)
      = (Inr res, held_db) \<and>
    reserve held_db held_db held_db 21 102 500 1 ''chat_inference'' 7 (points 300) (Aware 1000) = (Inr res, held_db)"
proof -
  have "(case fst (reserve granted_db granted_db granted_db 20 101 0 1 ''chat_inference'' 7 (points 300) (Aware 1000))
      of Inr _ \<Rightarrow> True | Inl _ \<Rightarrow> False)"
    unfolding granted_db_eval by code_simp
  then obtain res where r:
    "reserve granted_db granted_db granted_db 20 101 0 1 ''chat_inference'' 7 (points 300) (Aware 1000) = (Inr res, held_db)"
    unfolding held_db_def
    by (cases "reserve granted_db granted_db granted_db 20 101 0 1 ''chat_inference'' 7 (points 300) (Aware 1000)")
      (auto split: sum.splits)
  with reserve_replay [OF billing_reachable_billing_inv [OF granted_db_reachable] r, of 500 21 102]
  show ?thesis by simp
qed

text \<open>
  C7. A reserve never overcommits: when it places a new hold, the wallet it locked was active and had
  at least the requested amount available, and exactly one pending reservation and one hold row for
  that amount are added while the wallet's reserved amount grows by it; in every other case it
  changes nothing.
\<close>

theorem reserve_exact:
  assumes "reserve first seen db rid lid now t st sid amount exp = (out, db')"
  shows "db' = db \<or> (\<exists>w st' e. w \<in> set (wallets seen) \<and> w_tenant_id w = t \<and> w_currency w = currency amount \<and>
    w_status w = ''active'' \<and> 0 < amount_minor amount \<and>
    w_reserved_minor w + amount_minor amount \<le> w_balance_minor w \<and>
    exp = Aware e \<and> now < e \<and> normalize_source_type st = Inr st' \<and>
    wallets db' = update_where (\<lambda>x. w_id x = w_id w) (\<lambda>_. hold_wallet (amount_minor amount) w) (wallets db) \<and>
    reservations db' = reservations db @ [new_reservation rid t (w_id w) amount st' sid e] \<and>
    ledger db' = ledger db @ [ledger_entry lid t (w_id w) rid ''hold'' (amount_minor amount) (w_currency w) ''hold''])"
proof (cases "db' = db")
  case False
  with assms obtain st' e res where v: "0 < amount_minor amount" "normalize_source_type st = Inr st'"
      "require_future_utc exp now = Inr e"
    and b: "reserve_in_txn first seen db rid lid t st' sid amount e = Inr (res, db')"
    by (auto simp: reserve_def split: sum.splits raised.splits sql_error.splits)
  from v(3) have e: "exp = Aware e" "now < e" by (cases exp; auto split: if_splits)+
  from b show ?thesis
  proof (cases rule: reserve_in_txn_cases)
    case (hold w)
    with v e filter_singletonD [OF hold(1)] show ?thesis
      by (intro disjI2 exI [of _ w] exI [of _ st'] exI [of _ e])
        (auto simp: place_hold_def put_wallet_def hold_wallet_def)
  qed (use False in simp)
qed simp

theorem reserve_exact_witness: "snd (reserve granted_db granted_db granted_db 20 101 0 1 ''chat'' 7 (points 1001) (Aware 9)) = granted_db"
  using reserve_exact [of granted_db granted_db granted_db 20 101 0 1 "''chat''" 7 "points 1001" "Aware 9",
      OF prod.collapse [symmetric]]
  by (auto simp: granted_db_eval points_def)

text \<open>
  A lost insert race is answered from the winner's row: when another transaction has committed a
  reservation for the same source after this one's lookups and before its flush, the unique
  violation is resolved to the winner's reservation if amount, currency and expiry agree and to an
  idempotency conflict otherwise; nothing is written and no storage error surfaces.
\<close>

theorem reserve_race:
  assumes inv: "billing_inv db" and r: "r \<in> set (reservations db)" "r_tenant_id r = t" "r_source_id r = sid"
    and st: "normalize_source_type st = Inr (r_source_type r)"
    and stale: "reservation_by_source t (r_source_type r) sid first = []"
      "reservation_by_source t (r_source_type r) sid seen = []"
    and w: "filter (\<lambda>w. w_tenant_id w = t \<and> w_currency w = currency amount) (wallets seen) = [w]"
      "w \<in> set (wallets db)" "w_status w = ''active''" "w_version w < 2 ^ 63 - 1"
    and amount: "0 < amount_minor amount" "w_reserved_minor w + amount_minor amount \<le> w_balance_minor w"
    and exp: "now < e"
  shows "reserve first seen db rid lid now t st sid amount (Aware e)
    = (resolve_existing_reservation r amount (Aware e), db)"
proof -
  let ?db = "place_hold db rid lid t w (r_source_type r) sid amount e"
  have ok: "numeric_ok db" "checks_ok db" using billing_invD(1) [OF inv] by (simp_all add: constraints_ok_def)
  have wc: "wallet_numeric w" "wallet_check w" using row_checks(1) [OF inv w(2)] by simp_all
  have cur: "w_currency w = currency amount" "w_tenant_id w = t" using filter_singletonD [OF w(1)] by simp_all
  have w': "wallet_numeric (hold_wallet (amount_minor amount) w)" "wallet_check (hold_wallet (amount_minor amount) w)"
    and n: "bigint (amount_minor amount)" and c: "is_currency (currency amount)"
    using wc amount w(4) cur by (auto simp: wallet_numeric_def wallet_check_def hold_wallet_def bigint_def)
  have "numeric_ok ?db" "checks_ok ?db"
    using ok w' n c amount(1) cur
    by (simp_all add: numeric_ok_def checks_ok_def place_hold_def wallet_table.list_all_put reservation_numeric_def
        reservation_check_def ledger_check_def new_reservation_def ledger_entry_def)
  moreover have "\<not> unique_ok ?db"
    using r by (auto simp: unique_ok_def place_hold_def reservation_source_def new_reservation_def image_iff)
  ultimately have "flush ?db = (Inl (Sql UniqueViolation) :: billing_error raised + billing_db)"
    by (simp add: flush_def)
  then have "reserve_in_txn first seen db rid lid t (r_source_type r) sid amount e = Inl (Sql UniqueViolation)"
    using stale w amount
    by (simp add: reserve_in_txn_def find_reservation_by_source_def lock_reservation_by_source_def
        lock_wallet_for_currency_def wallet_by_currency_for_update_def Let_def)
  moreover have "resolve_reservation_race db t (r_source_type r) sid amount e
      = resolve_existing_reservation r amount (Aware e)"
    using existing_found [OF inv r(1)] r(2,3)
    by (cases "resolve_existing_reservation r amount (Aware e)") (simp_all add: resolve_reservation_race_def)
  ultimately show ?thesis using st amount(1) exp by (simp add: reserve_def)
qed

theorem reserve_race_witness:
  "reserve granted_db (held_db\<lparr>reservations := []\<rparr>) held_db 21 102 5 1 ''chat_inference'' 7 (points 300) (Aware 1000)
   = (resolve_existing_reservation (new_reservation 20 1 10 (points 300) ''chat_inference'' 7 1000)
        (points 300) (Aware 1000), held_db)"
proof -
  have "normalize_source_type ''chat_inference'' = Inr ''chat_inference''" by code_simp
  then show ?thesis
    by (intro reserve_race [OF billing_reachable_billing_inv [OF held_db_reachable], where w = "hd (wallets held_db)"])
      (simp_all add: held_db_eval granted_db_eval new_reservation_def reservation_by_source_def empty_db_def points_def)
qed

lemma tenant_facts:
  assumes "billing_inv db"
  shows "capture db lid1 lid2 now t rid actual usage = (out1, db1) \<Longrightarrow> other_tenants t db1 = other_tenants t db"
    and "release db lid1 now t rid = (out2, db2) \<Longrightarrow> other_tenants t db2 = other_tenants t db"
    and "reserve first seen db rid lid1 now t st sid amount exp = (out3, db3) \<Longrightarrow>
      wallet_locked seen db t (currency amount) \<Longrightarrow> other_tenants t db3 = other_tenants t db"
proof -
  show "capture db lid1 lid2 now t rid actual usage = (out1, db1) \<Longrightarrow> other_tenants t db1 = other_tenants t db"
    using capture_body_tenants [OF assms] by (cases out1) (auto simp: capture_Inr_iff dest: capture_Inl)
  show "release db lid1 now t rid = (out2, db2) \<Longrightarrow> other_tenants t db2 = other_tenants t db"
    using release_body_tenants [OF assms] by (cases out2) (auto simp: release_Inr_iff dest: release_Inl)
  show "reserve first seen db rid lid1 now t st sid amount exp = (out3, db3) \<Longrightarrow>
      wallet_locked seen db t (currency amount) \<Longrightarrow> other_tenants t db3 = other_tenants t db"
    by (drule reserve_commit) (auto dest: reserve_in_txn_tenants [OF assms])
qed

text \<open>
  C8. Tenant isolation: whatever an operation of the service does for a tenant, the wallets,
  reservations, journal rows and usage rows of every other tenant are left exactly as they were.
\<close>

theorem billing_tenant_isolation:
  assumes "billing_inv db"
  shows "other_tenants t (snd (capture db lid1 lid2 now t rid actual usage)) = other_tenants t db \<and>
    other_tenants t (snd (release db lid1 now t rid)) = other_tenants t db \<and>
    (wallet_locked seen db t (currency amount) \<longrightarrow>
      other_tenants t (snd (reserve first seen db rid lid1 now t st sid amount exp)) = other_tenants t db)"
  using tenant_facts [OF assms prod.collapse [symmetric]] by simp

theorem billing_tenant_isolation_witness:
  "other_tenants 1 (snd (release held_db 102 5 1 20)) = other_tenants 1 held_db"
  using billing_tenant_isolation [OF billing_reachable_billing_inv [OF held_db_reachable]] by blast

end
