(* ===== verification/Messaging.thy ===== *)
theory Messaging
  imports Prelude
begin

text \<open>
  The message contract of \<open>app/messaging/rabbitmq.py\<close>: the identifier-only event envelope with its
  checks, the route of each event family, and the publisher's gate in front of the broker. The
  broker itself (aio_pika) is a parameter of \<open>publish\<close>.
\<close>

subsection \<open>Event names\<close>

text \<open>\<open>re.compile(r"^[a-z][a-z0-9._-]{2,127}$").fullmatch\<close>\<close>

definition is_event_type :: "string \<Rightarrow> bool" where
  "is_event_type s \<longleftrightarrow>
     3 \<le> length s \<and> length s \<le> 128 \<and> is_lower (hd s) \<and>
     list_all (\<lambda>c. is_lower c \<or> is_digit c \<or> c \<in> set ''._-'') (tl s)"

definition CHAT_ROUTING_KEY :: string where "CHAT_ROUTING_KEY = ''chat.inference.execute''"
definition GENERATION_ROUTING_KEY :: string where "GENERATION_ROUTING_KEY = ''generation.accepted''"
definition VIDEO_GENERATION_ROUTING_KEY :: string
  where "VIDEO_GENERATION_ROUTING_KEY = ''generation.video.accepted''"

definition SUPPORTED_ROUTING_KEYS :: "string list" where
  "SUPPORTED_ROUTING_KEYS = [CHAT_ROUTING_KEY, GENERATION_ROUTING_KEY, VIDEO_GENERATION_ROUTING_KEY]"

definition GENERATION_ROUTING_BY_MODALITY :: "(string \<times> string) list" where
  "GENERATION_ROUTING_BY_MODALITY =
     [(''text'', GENERATION_ROUTING_KEY), (''image'', GENERATION_ROUTING_KEY),
      (''audio'', GENERATION_ROUTING_KEY), (''video'', VIDEO_GENERATION_ROUTING_KEY)]"

lemmas routing_keys =
  CHAT_ROUTING_KEY_def GENERATION_ROUTING_KEY_def VIDEO_GENERATION_ROUTING_KEY_def
  SUPPORTED_ROUTING_KEYS_def GENERATION_ROUTING_BY_MODALITY_def

subsection \<open>Exceptions\<close>

text \<open>
  What an exception shows to its handlers: whether it is a \<open>ValueError\<close>, and its optional \<open>code\<close> and
  \<open>retryable\<close> attributes, which the handlers inspect dynamically.
\<close>

record py_exception =
  exc_is_value_error :: bool
  exc_code :: "json option"
  exc_retryable :: "json option"

definition ValueError :: py_exception where
  "ValueError = \<lparr>exc_is_value_error = True, exc_code = None, exc_retryable = None\<rparr>"

definition MessagingUnavailable :: "string \<Rightarrow> py_exception" where
  "MessagingUnavailable code = \<lparr>exc_is_value_error = False, exc_code = Some (JStr code), exc_retryable = None\<rparr>"

subsection \<open>Envelopes and routes\<close>

record EventEnvelope =
  ee_event_id :: uuid
  ee_tenant_id :: uuid
  ee_aggregate_type :: string
  ee_aggregate_id :: uuid
  ee_event_type :: string
  ee_aggregate_version :: int
  ee_routing_key :: "string option"

definition mk_EventEnvelope :: "EventEnvelope \<Rightarrow> py_exception + EventEnvelope" where
  "mk_EventEnvelope e =
     andthen (require (is_event_type (ee_aggregate_type e)) ValueError) (\<lambda>_.
     andthen (require (is_event_type (ee_event_type e)) ValueError) (\<lambda>_.
     andthen (require (1 \<le> ee_aggregate_version e) ValueError) (\<lambda>_.
     andthen (require (case ee_routing_key e of None \<Rightarrow> True | Some k \<Rightarrow> k \<in> set SUPPORTED_ROUTING_KEYS)
                ValueError) (\<lambda>_.
     Inr e))))"

definition routing_key_for_outbox_event :: "string \<Rightarrow> (string \<times> json) list \<Rightarrow> py_exception + string" where
  "routing_key_for_outbox_event event_type payload =
     (if event_type = CHAT_ROUTING_KEY then Inr CHAT_ROUTING_KEY
      else if event_type = GENERATION_ROUTING_KEY then
        (case map_of payload ''modality'' of
           Some (JStr modality) \<Rightarrow>
             (case map_of GENERATION_ROUTING_BY_MODALITY modality of
                Some route \<Rightarrow> Inr route | None \<Rightarrow> Inl ValueError)
         | _ \<Rightarrow> Inl ValueError)
      else Inl ValueError)"

text \<open>
  \<open>RabbitMQPublisher.publish\<close>: \<open>started\<close> says whether the exchange is set, \<open>broker\<close> whether the
  mandatory, confirmed publish of the message on a routing key succeeded.
\<close>

definition publish ::
  "bool \<Rightarrow> (string \<Rightarrow> EventEnvelope \<Rightarrow> bool) \<Rightarrow> EventEnvelope \<Rightarrow> py_exception + unit" where
  "publish started broker envelope =
     andthen (require (ee_event_type envelope \<in> set SUPPORTED_ROUTING_KEYS) ValueError) (\<lambda>_.
     andthen (require started (MessagingUnavailable ''MESSAGING_NOT_STARTED'')) (\<lambda>_.
     let routing_key = (case ee_routing_key envelope of
           Some k \<Rightarrow> if k = [] then ee_event_type envelope else k | None \<Rightarrow> ee_event_type envelope) in
     andthen (require (routing_key \<in> set SUPPORTED_ROUTING_KEYS) ValueError) (\<lambda>_.
     if broker routing_key envelope then Inr ()
     else Inl (MessagingUnavailable ''MESSAGING_UNAVAILABLE''))))"

lemma routing_key_supported:
  "routing_key_for_outbox_event ty payload = Inr k \<Longrightarrow>
   k \<in> set SUPPORTED_ROUTING_KEYS \<and> ty \<in> {CHAT_ROUTING_KEY, GENERATION_ROUTING_KEY}"
  by (auto simp: routing_key_for_outbox_event_def routing_keys split: if_splits option.splits json.splits)

end
