(* ===== verification/Outbox_Types.thy ===== *)
theory Outbox_Types
  imports Complex_Main Messaging
begin

text \<open>
  \<open>app/outbox/types.py\<close>: the outbox event handed to the relay, the only error data that may reach a
  row, and the bounded exponential backoff. Python floats appear only as delays: a product with a
  power of two is exact unless it overflows to infinity, where the minimum returns the bound, so a
  delay is a rational number.
\<close>

datatype outbox_error = OutboxValueError string | OutboxOverflowError

subsection \<open>Events\<close>

record OutboxEvent =
  oe_event_id :: uuid
  oe_tenant_id :: uuid
  oe_aggregate_type :: string
  oe_aggregate_id :: uuid
  oe_event_type :: string
  oe_aggregate_version :: int
  oe_payload :: "(string \<times> json) list"
  oe_attempts :: int
  oe_available_at :: "instant option"
  oe_claim_owner :: "string option"
  oe_lease_token :: "uuid option"
  oe_lease_expires_at :: "instant option"

definition mk_OutboxEvent :: "OutboxEvent \<Rightarrow> outbox_error + OutboxEvent" where
  "mk_OutboxEvent e =
     andthen (require (is_event_type (oe_aggregate_type e)) (OutboxValueError ''aggregate_type is invalid'')) (\<lambda>_.
     andthen (require (is_event_type (oe_event_type e)) (OutboxValueError ''event_type is invalid'')) (\<lambda>_.
     andthen (require (1 \<le> oe_aggregate_version e)
                (OutboxValueError ''aggregate_version must be positive'')) (\<lambda>_.
     andthen (require (0 \<le> oe_attempts e) (OutboxValueError ''attempts must be nonnegative'')) (\<lambda>_.
     andthen (require ((oe_claim_owner e = None) = (oe_lease_token e = None))
                (OutboxValueError ''claim_owner and lease_token must be provided together'')) (\<lambda>_.
     Inr e)))))"

definition claimed :: "OutboxEvent \<Rightarrow> bool" where
  "claimed e \<longleftrightarrow> oe_claim_owner e \<noteq> None \<and> oe_lease_token e \<noteq> None"

definition require_lease :: "OutboxEvent \<Rightarrow> py_exception + (string \<times> uuid)" where
  "require_lease e =
     (case (oe_claim_owner e, oe_lease_token e) of
        (Some owner, Some token) \<Rightarrow> Inr (owner, token) | _ \<Rightarrow> Inl ValueError)"

subsection \<open>Sanitized errors\<close>

definition is_error_code :: "string \<Rightarrow> bool" where
  "is_error_code s \<longleftrightarrow> 1 \<le> length s \<and> length s \<le> 120 \<and>
     list_all (\<lambda>c. is_upper c \<or> is_digit c \<or> c = CHR ''_'') s"

definition is_error_phase :: "string \<Rightarrow> bool" where
  "is_error_phase s \<longleftrightarrow> 1 \<le> length s \<and> length s \<le> 64 \<and> list_all (\<lambda>c. is_lower c \<or> c = CHR ''_'') s"

record OutboxErrorDetails =
  ed_code :: string
  ed_phase :: string
  ed_retryable :: bool

definition mk_OutboxErrorDetails :: "OutboxErrorDetails \<Rightarrow> outbox_error + OutboxErrorDetails" where
  "mk_OutboxErrorDetails d =
     andthen (require (is_error_code (ed_code d)) (OutboxValueError ''error code is invalid'')) (\<lambda>_.
     andthen (require (is_error_phase (ed_phase d)) (OutboxValueError ''error phase is invalid'')) (\<lambda>_.
     Inr d))"

definition as_mapping :: "OutboxErrorDetails \<Rightarrow> (string \<times> json) list" where
  "as_mapping d = [(''code'', JStr (ed_code d)), (''phase'', JStr (ed_phase d)), (''retryable'', JBool (ed_retryable d))]"

definition sanitize_error_details ::
  "(string \<times> json) list \<Rightarrow> string \<Rightarrow> string \<Rightarrow> bool \<Rightarrow> outbox_error + OutboxErrorDetails" where
  "sanitize_error_details source default_code default_phase default_retryable =
     (let dc = (if is_error_code default_code then default_code else ''OUTBOX_PUBLISH_FAILED'');
          dp = (if is_error_phase default_phase then default_phase else ''publish'');
          code = (case map_of source ''code'' of Some (JStr c) \<Rightarrow> strip c | _ \<Rightarrow> dc);
          code' = (if is_error_code code then code else dc);
          phase = (case map_of source ''phase'' of Some (JStr p) \<Rightarrow> strip p | _ \<Rightarrow> dp);
          phase' = (if is_error_phase phase then phase else dp);
          retryable = (case map_of source ''retryable'' of Some (JBool b) \<Rightarrow> b | _ \<Rightarrow> default_retryable)
      in mk_OutboxErrorDetails \<lparr>ed_code = code', ed_phase = phase', ed_retryable = retryable\<rparr>)"

definition error_details_from_exception ::
  "py_exception \<Rightarrow> string \<Rightarrow> bool \<Rightarrow> outbox_error + OutboxErrorDetails" where
  "error_details_from_exception error phase default_retryable =
     (let raw_code = (case exc_code error of Some c \<Rightarrow> c | None \<Rightarrow> JNull);
          retryable = (case exc_retryable error of Some (JBool b) \<Rightarrow> b | _ \<Rightarrow> default_retryable)
      in sanitize_error_details [(''code'', raw_code), (''phase'', JStr phase), (''retryable'', JBool retryable)]
           ''OUTBOX_PUBLISH_FAILED'' ''publish'' True)"

subsection \<open>Backoff\<close>

definition exponential_backoff_seconds :: "int \<Rightarrow> rat \<Rightarrow> rat \<Rightarrow> outbox_error + rat" where
  "exponential_backoff_seconds attempts base_seconds max_seconds =
     andthen (require (1 \<le> attempts) (OutboxValueError ''attempts must be positive'')) (\<lambda>_.
     andthen (require (0 < base_seconds) (OutboxValueError ''base_seconds must be positive'')) (\<lambda>_.
     andthen (require (0 < max_seconds) (OutboxValueError ''max_seconds must be positive'')) (\<lambda>_.
     andthen (require (attempts - 1 < 1024) OutboxOverflowError) (\<lambda>_.
     Inr (min (base_seconds * 2 ^ nat (attempts - 1)) max_seconds)))))"

record RetryPolicy =
  rp_max_attempts :: int
  rp_base_seconds :: rat
  rp_max_seconds :: rat

definition mk_RetryPolicy :: "RetryPolicy \<Rightarrow> outbox_error + RetryPolicy" where
  "mk_RetryPolicy p =
     andthen (require (1 \<le> rp_max_attempts p) (OutboxValueError ''max_attempts must be positive'')) (\<lambda>_.
     andthen (require (0 < rp_base_seconds p) (OutboxValueError ''base_seconds must be positive'')) (\<lambda>_.
     andthen (require (0 < rp_max_seconds p) (OutboxValueError ''max_seconds must be positive'')) (\<lambda>_.
     Inr p)))"

definition delay_seconds :: "RetryPolicy \<Rightarrow> int \<Rightarrow> outbox_error + rat" where
  "delay_seconds p attempts = exponential_backoff_seconds attempts (rp_base_seconds p) (rp_max_seconds p)"

definition should_retry :: "RetryPolicy \<Rightarrow> int \<Rightarrow> bool \<Rightarrow> bool" where
  "should_retry p attempts retryable \<longleftrightarrow> retryable \<and> attempts < rp_max_attempts p"

lemmas [handler_defs] =
  mk_OutboxEvent_def mk_OutboxErrorDetails_def exponential_backoff_seconds_def mk_RetryPolicy_def
  delay_seconds_def should_retry_def

subsection \<open>What reaches a row\<close>

lemma default_details_ok: "is_error_code ''OUTBOX_PUBLISH_FAILED''" "is_error_phase ''publish''"
  by code_simp+

lemma sanitize_total:
  "\<exists>d. sanitize_error_details src dc dp dr = Inr d \<and> is_error_code (ed_code d) \<and> is_error_phase (ed_phase d)"
  using default_details_ok
  by (auto simp: sanitize_error_details_def mk_OutboxErrorDetails_def Let_def split: option.splits json.splits)

lemma exception_details_total:
  "\<exists>d. error_details_from_exception e ph dr = Inr d \<and> is_error_code (ed_code d) \<and> is_error_phase (ed_phase d) \<and>
     ed_retryable d = (case exc_retryable e of Some (JBool b) \<Rightarrow> b | _ \<Rightarrow> dr)"
  using default_details_ok
  by (auto simp: error_details_from_exception_def sanitize_error_details_def mk_OutboxErrorDetails_def Let_def
      split: option.splits json.splits)

lemma is_error_code_strip: "is_error_code c \<Longrightarrow> strip c = c"
  by (rule strip_no_space)
    (auto simp: is_error_code_def list_all_iff list_ex_iff is_space_def is_upper_def is_digit_def Let_def)

lemma is_error_phase_strip: "is_error_phase c \<Longrightarrow> strip c = c"
  by (rule strip_no_space)
    (auto simp: is_error_phase_def list_all_iff list_ex_iff is_space_def is_lower_def Let_def)

text \<open>
  C27. Sanitizing an error keeps exactly three stable fields and always yields a storable value: the
  code and phase match their grammars whatever the source mapping holds, and sanitizing the stored
  mapping again gives the same details.
\<close>

theorem sanitize_stable:
  "\<exists>d. sanitize_error_details source dc dp dr = Inr d \<and> mk_OutboxErrorDetails d = Inr d \<and>
     sanitize_error_details (as_mapping d) dc' dp' dr' = Inr d"
proof -
  obtain d where d: "sanitize_error_details source dc dp dr = Inr d" "is_error_code (ed_code d)" "is_error_phase (ed_phase d)"
    using sanitize_total by blast
  then have "mk_OutboxErrorDetails d = Inr d" by (simp add: mk_OutboxErrorDetails_def)
  moreover have "sanitize_error_details (as_mapping d) dc' dp' dr' = Inr d"
    using d by (cases d) (simp add: sanitize_error_details_def as_mapping_def Let_def is_error_code_strip
        is_error_phase_strip mk_OutboxErrorDetails_def)
  ultimately show ?thesis using d(1) by blast
qed

text \<open>
  The retry delay is positive, never above the policy's maximum, never below the base unless the
  maximum is, never shrinks with a further attempt, and is defined for every attempt number a claim
  can produce (at most 1000).
\<close>

theorem backoff_bounds:
  assumes "1 \<le> n" "n \<le> 999" "0 < base" "0 < cap"
  shows "\<exists>d d'. exponential_backoff_seconds n base cap = Inr d \<and> exponential_backoff_seconds (n + 1) base cap = Inr d' \<and>
    0 < d \<and> d \<le> cap \<and> min base cap \<le> d \<and> d \<le> d' \<and> d' \<le> 2 * d"
proof -
  define x where "x = base * 2 ^ nat (n - 1)"
  have "nat (n + 1 - 1) = Suc (nat (n - 1))" using assms(1) by simp
  then have "exponential_backoff_seconds n base cap = Inr (min x cap)"
    "exponential_backoff_seconds (n + 1) base cap = Inr (min (2 * x) cap)"
    using assms by (simp_all add: exponential_backoff_seconds_def require_def x_def)
  moreover have "(1 :: rat) \<le> 2 ^ nat (n - 1)" by simp
  then have "base \<le> x" using assms(3) by (simp add: x_def)
  ultimately show ?thesis using assms(3,4) by (simp add: min_def)
qed

theorem backoff_bounds_witness:
  "\<exists>d d'. exponential_backoff_seconds 3 1 300 = Inr d \<and> exponential_backoff_seconds 4 1 300 = Inr d' \<and> d \<le> d'"
  using backoff_bounds [of 3 1 300] by auto

end
