(* ===== verification/Outbox_Repository.thy ===== *)
theory Outbox_Repository
  imports Outbox_Types
begin

text \<open>
  \<open>app/outbox/repository.py\<close> over the rows of \<open>OutboxEvents\<close>: the fenced claim and the two fenced
  marks, each one committed transaction. The rows another transaction has locked, which
  \<open>SKIP LOCKED\<close> passes over, and the fresh lease tokens are arguments of a claim.
\<close>

subsection \<open>Rows\<close>

record OutboxRow =
  o_id :: uuid
  o_tenant_id :: uuid
  o_aggregate_type :: string
  o_aggregate_id :: uuid
  o_event_type :: string
  o_aggregate_version :: int
  o_payload :: "(string \<times> json) list"
  o_status :: string
  o_attempts :: int
  o_available_at :: instant
  o_published_at :: "instant option"
  o_error_details :: "OutboxErrorDetails option"
  o_claim_owner :: "string option"
  o_lease_token :: "uuid option"
  o_lease_expires_at :: "instant option"
  o_created_at :: instant

type_synonym outbox_db = "OutboxRow list"

text \<open>The check constraints of the table.\<close>

definition outbox_check :: "OutboxRow \<Rightarrow> bool" where
  "outbox_check r \<longleftrightarrow>
     o_status r \<in> set [''pending'', ''published'', ''failed''] \<and> 0 \<le> o_attempts r \<and> 0 < o_aggregate_version r \<and>
     (o_claim_owner r = None \<and> o_lease_token r = None \<and> o_lease_expires_at r = None \<or>
      o_claim_owner r \<noteq> None \<and> o_claim_owner r \<noteq> Some [] \<and> o_lease_token r \<noteq> None \<and> o_lease_expires_at r \<noteq> None)"

subsection \<open>Argument checks\<close>

definition validate_owner :: "string \<Rightarrow> outbox_error + string" where
  "validate_owner owner =
     (let normalized = strip owner in
      if normalized = [] \<or> length normalized > 200
      then Inl (OutboxValueError ''outbox claim owner must be 1 to 200 characters'') else Inr normalized)"

definition validate_limit :: "int \<Rightarrow> outbox_error + unit" where
  "validate_limit limit =
     require (1 \<le> limit \<and> limit \<le> 500) (OutboxValueError ''outbox claim limit must be between 1 and 500'')"

definition validate_lease_seconds :: "int \<Rightarrow> outbox_error + unit" where
  "validate_lease_seconds n =
     require (1 \<le> n \<and> n \<le> 86400) (OutboxValueError ''outbox lease must be between 1 and 86400 seconds'')"

definition validate_max_attempts :: "int \<Rightarrow> outbox_error + unit" where
  "validate_max_attempts n =
     require (1 \<le> n \<and> n \<le> 1000) (OutboxValueError ''outbox max_attempts must be between 1 and 1000'')"

datatype event_types = OneType string | ManyTypes "string list"

text \<open>\<open>dict.fromkeys\<close> keeps the first occurrence of each value.\<close>

definition fromkeys :: "'a list \<Rightarrow> 'a list" where
  "fromkeys xs = rev (remdups (rev xs))"

definition normalize_event_types ::
  "event_types option \<Rightarrow> string option \<Rightarrow> outbox_error + string list option" where
  "normalize_event_types event_types event_type =
     (if event_types \<noteq> None \<and> event_type \<noteq> None
      then Inl (OutboxValueError ''pass event_type or event_types, not both'')
      else
        (case (case event_type of Some e \<Rightarrow> Some (OneType e) | None \<Rightarrow> event_types) of
           None \<Rightarrow> Inr None
         | Some selected \<Rightarrow>
             let values = (case selected of OneType e \<Rightarrow> [e] | ManyTypes es \<Rightarrow> es);
                 normalized = fromkeys (map strip values) in
             if list_ex (\<lambda>v. v = []) normalized
             then Inl (OutboxValueError ''outbox event_type filter must not contain blank values'')
             else if list_ex (\<lambda>v. \<not> is_event_type v) normalized
             then Inl (OutboxValueError ''outbox event_type filter contains an invalid value'')
             else Inr (Some normalized)))"

subsection \<open>Claim\<close>

definition lease_available :: "instant \<Rightarrow> OutboxRow \<Rightarrow> bool" where
  "lease_available now r \<longleftrightarrow> (case o_lease_expires_at r of None \<Rightarrow> True | Some e \<Rightarrow> e \<le> now)"

definition selects :: "uuid option \<Rightarrow> string list option \<Rightarrow> OutboxRow \<Rightarrow> bool" where
  "selects tenant types r \<longleftrightarrow>
     (case tenant of None \<Rightarrow> True | Some t \<Rightarrow> o_tenant_id r = t) \<and>
     (case types of None \<Rightarrow> True | Some ts \<Rightarrow> o_event_type r \<in> set ts)"

definition claimable ::
  "instant \<Rightarrow> int \<Rightarrow> uuid option \<Rightarrow> string list option \<Rightarrow> OutboxRow \<Rightarrow> bool" where
  "claimable now max_attempts tenant types r \<longleftrightarrow>
     o_status r = ''pending'' \<and> o_available_at r \<le> now \<and> o_attempts r < max_attempts \<and>
     lease_available now r \<and> selects tenant types r"

definition exhausted ::
  "instant \<Rightarrow> int \<Rightarrow> uuid option \<Rightarrow> string list option \<Rightarrow> OutboxRow \<Rightarrow> bool" where
  "exhausted now max_attempts tenant types r \<longleftrightarrow>
     o_status r = ''pending'' \<and> o_available_at r \<le> now \<and> o_attempts r \<ge> max_attempts \<and>
     lease_available now r \<and> selects tenant types r"

definition fail_exhausted :: "OutboxRow \<Rightarrow> OutboxRow" where
  "fail_exhausted r = r\<lparr>o_status := ''failed'',
     o_error_details := Some \<lparr>ed_code = ''OUTBOX_MAX_ATTEMPTS'', ed_phase = ''claim'', ed_retryable = False\<rparr>,
     o_claim_owner := None, o_lease_token := None, o_lease_expires_at := None\<rparr>"

definition take_lease :: "int \<Rightarrow> string \<Rightarrow> uuid \<Rightarrow> instant \<Rightarrow> OutboxRow \<Rightarrow> OutboxRow" where
  "take_lease attempts owner token lease_until r =
     r\<lparr>o_attempts := attempts, o_available_at := lease_until, o_claim_owner := Some owner,
       o_lease_token := Some token, o_lease_expires_at := Some lease_until\<rparr>"

definition event_from_row ::
  "OutboxRow \<Rightarrow> int \<Rightarrow> string \<Rightarrow> uuid \<Rightarrow> instant \<Rightarrow> outbox_error + OutboxEvent" where
  "event_from_row r attempts owner token lease_until =
     mk_OutboxEvent \<lparr>oe_event_id = o_id r, oe_tenant_id = o_tenant_id r, oe_aggregate_type = o_aggregate_type r,
       oe_aggregate_id = o_aggregate_id r, oe_event_type = o_event_type r,
       oe_aggregate_version = o_aggregate_version r, oe_payload = o_payload r, oe_attempts = attempts,
       oe_available_at = Some lease_until, oe_claim_owner = Some owner, oe_lease_token = Some token,
       oe_lease_expires_at = Some lease_until\<rparr>"

text \<open>The loop over the selected rows; \<open>tokens\<close> are the successive \<open>uuid4()\<close> values.\<close>

fun claim_rows ::
  "string \<Rightarrow> instant \<Rightarrow> (nat \<Rightarrow> uuid) \<Rightarrow> nat \<Rightarrow> OutboxRow list \<Rightarrow> outbox_db
   \<Rightarrow> outbox_error + (OutboxEvent list \<times> outbox_db)" where
  "claim_rows owner lease_until tokens i [] db = Inr ([], db)"
| "claim_rows owner lease_until tokens i (r # rs) db =
     (let token = tokens i; attempts = o_attempts r + 1;
          db' = update_where (\<lambda>x. o_id x = o_id r \<and> o_tenant_id x = o_tenant_id r \<and> o_status x = ''pending'')
                  (take_lease attempts owner token lease_until) db in
      andthen (event_from_row r attempts owner token lease_until) (\<lambda>event.
      andthen (claim_rows owner lease_until tokens (Suc i) rs db') (\<lambda>(events, db'').
      Inr (event # events, db''))))"

definition claim_selection ::
  "instant \<Rightarrow> int \<Rightarrow> uuid option \<Rightarrow> string list option \<Rightarrow> (uuid \<Rightarrow> bool) \<Rightarrow> int \<Rightarrow> outbox_db \<Rightarrow> OutboxRow list" where
  "claim_selection now max_attempts tenant types locked limit db =
     take (nat limit) (sort_key (\<lambda>r. (o_created_at r, o_id r))
       (filter (\<lambda>r. claimable now max_attempts tenant types r \<and> \<not> locked (o_id r)) db))"

definition claim ::
  "outbox_db \<Rightarrow> instant \<Rightarrow> (uuid \<Rightarrow> bool) \<Rightarrow> (nat \<Rightarrow> uuid) \<Rightarrow> string \<Rightarrow> event_types option \<Rightarrow> string option \<Rightarrow>
   int \<Rightarrow> uuid option \<Rightarrow> int \<Rightarrow> int \<Rightarrow> (outbox_error + OutboxEvent list) \<times> outbox_db" where
  "claim db now locked tokens owner event_types event_type limit tenant lease_seconds max_attempts =
     transaction db
       (andthen (validate_owner owner) (\<lambda>owner.
        andthen (validate_limit limit) (\<lambda>_.
        andthen (validate_lease_seconds lease_seconds) (\<lambda>_.
        andthen (validate_max_attempts max_attempts) (\<lambda>_.
        andthen (normalize_event_types event_types event_type) (\<lambda>types.
        if types = Some [] then Inr ([], db)
        else
          let lease_until = now + seconds lease_seconds;
              db1 = update_where (exhausted now max_attempts tenant types) fail_exhausted db in
          claim_rows owner lease_until tokens 0
            (claim_selection now max_attempts tenant types locked limit db1) db1))))))"

subsection \<open>Marks\<close>

definition holds_lease :: "uuid \<Rightarrow> uuid \<Rightarrow> int \<Rightarrow> string \<Rightarrow> uuid \<Rightarrow> OutboxRow \<Rightarrow> bool" where
  "holds_lease tenant event_id version owner token r \<longleftrightarrow>
     o_tenant_id r = tenant \<and> o_id r = event_id \<and> o_aggregate_version r = version \<and> o_status r = ''pending'' \<and>
     o_claim_owner r = Some owner \<and> o_lease_token r = Some token"

definition set_published :: "instant \<Rightarrow> OutboxRow \<Rightarrow> OutboxRow" where
  "set_published now r = r\<lparr>o_status := ''published'', o_published_at := Some now, o_error_details := None,
     o_claim_owner := None, o_lease_token := None, o_lease_expires_at := None\<rparr>"

definition mark_published ::
  "outbox_db \<Rightarrow> instant \<Rightarrow> uuid \<Rightarrow> uuid \<Rightarrow> int \<Rightarrow> string \<Rightarrow> uuid \<Rightarrow> (outbox_error + bool) \<times> outbox_db" where
  "mark_published db now tenant event_id version owner token =
     transaction db
       (andthen (validate_owner owner) (\<lambda>owner.
        let P = holds_lease tenant event_id version owner token in
        Inr (rowcount P db = 1, update_where P (set_published now) db)))"

datatype error_source = Details OutboxErrorDetails | Raw "(string \<times> json) list"

definition set_retry :: "instant \<Rightarrow> OutboxErrorDetails \<Rightarrow> instant \<Rightarrow> int \<Rightarrow> OutboxRow \<Rightarrow> OutboxRow" where
  "set_retry now details retry_at max_attempts r =
     (let again = o_attempts r < max_attempts \<and> ed_retryable details in
      r\<lparr>o_status := (if again then ''pending'' else ''failed''), o_available_at := (if again then retry_at else now),
        o_error_details := Some details,
        o_claim_owner := None, o_lease_token := None, o_lease_expires_at := None\<rparr>)"

fun utc_instant :: "py_datetime \<Rightarrow> instant" where
  "utc_instant (Aware t) = t"
| "utc_instant (Naive t) = t"

definition mark_retry ::
  "outbox_db \<Rightarrow> instant \<Rightarrow> uuid \<Rightarrow> uuid \<Rightarrow> int \<Rightarrow> string \<Rightarrow> uuid \<Rightarrow> error_source \<Rightarrow> py_datetime \<Rightarrow> int
   \<Rightarrow> (outbox_error + bool) \<times> outbox_db" where
  "mark_retry db now tenant event_id version owner token details retry_at max_attempts =
     transaction db
       (andthen (validate_owner owner) (\<lambda>owner.
        andthen (validate_max_attempts max_attempts) (\<lambda>_.
        andthen (case details of Details d \<Rightarrow> Inr d
                 | Raw m \<Rightarrow> sanitize_error_details m ''OUTBOX_PUBLISH_FAILED'' ''publish'' True) (\<lambda>safe.
        let P = holds_lease tenant event_id version owner token in
        Inr (rowcount P db = 1, update_where P (set_retry now safe (utc_instant retry_at) max_attempts) db)))))"

lemmas [handler_defs] =
  validate_owner_def validate_limit_def validate_lease_seconds_def validate_max_attempts_def
  event_from_row_def claim_def mark_published_def mark_retry_def

subsection \<open>The updates keep the key\<close>

interpretation fail_update: keyed_update o_id fail_exhausted
  by unfold_locales (simp add: fail_exhausted_def)

interpretation lease_update: keyed_update o_id "take_lease attempts owner token lease_until"
  by unfold_locales (simp add: take_lease_def)

interpretation published_update: keyed_update o_id "set_published now"
  by unfold_locales (simp add: set_published_def)

interpretation retry_update: keyed_update o_id "set_retry now details retry_at max_attempts"
  by unfold_locales (simp add: set_retry_def Let_def)

subsection \<open>What a claim does to one row\<close>

text \<open>
  The loop's effect on a row: the lease of the selected row it is, or nothing. The list of updates is
  thereby one map over the table.
\<close>

fun lease_for ::
  "string \<Rightarrow> instant \<Rightarrow> (nat \<Rightarrow> uuid) \<Rightarrow> nat \<Rightarrow> OutboxRow list \<Rightarrow> OutboxRow \<Rightarrow> OutboxRow" where
  "lease_for owner lu tokens i [] x = x"
| "lease_for owner lu tokens i (r # rs) x =
     (if o_id x = o_id r \<and> o_tenant_id x = o_tenant_id r \<and> o_status x = ''pending''
      then take_lease (o_attempts r + 1) owner (tokens i) lu x
      else lease_for owner lu tokens (Suc i) rs x)"

lemma lease_for_other: "o_id x \<notin> o_id ` set rs \<Longrightarrow> lease_for owner lu tokens i rs x = x"
  by (induction rs arbitrary: i) auto

lemma lease_for_selected:
  assumes "distinct (map o_id rs)" and "j < length rs" and "o_status (rs ! j) = ''pending''"
  shows "lease_for owner lu tokens i rs (rs ! j) =
     take_lease (o_attempts (rs ! j) + 1) owner (tokens (i + j)) lu (rs ! j)"
  using assms
proof (induction rs arbitrary: i j)
  case (Cons r rs)
  show ?case
  proof (cases j)
    case 0
    with Cons.prems show ?thesis by simp
  next
    case (Suc k)
    with Cons.prems have "o_id (rs ! k) \<in> o_id ` set rs" "o_id r \<notin> o_id ` set rs" by auto
    then have "o_id (rs ! k) \<noteq> o_id r" by metis
    with Suc Cons show ?thesis by simp
  qed
qed simp

lemma claim_rows_db:
  assumes "claim_rows owner lu tokens i rs db = Inr (events, db')" and "distinct (map o_id rs)"
  shows "db' = map (lease_for owner lu tokens i rs) db"
  using assms
proof (induction owner lu tokens i rs db arbitrary: events db' rule: claim_rows.induct)
  case (2 owner lu tokens i r rs db)
  let ?P = "\<lambda>x. o_id x = o_id r \<and> o_tenant_id x = o_tenant_id r \<and> o_status x = ''pending''"
  let ?t = "take_lease (o_attempts r + 1) owner (tokens i) lu"
  from 2(2) obtain es e where "claim_rows owner lu tokens (Suc i) rs (update_where ?P ?t db) = Inr (es, db')"
    "event_from_row r (o_attempts r + 1) owner (tokens i) lu = Inr e"
    by (auto simp: Let_def)
  with 2 have "db' = map (lease_for owner lu tokens (Suc i) rs) (update_where ?P ?t db)" by simp
  moreover have "lease_for owner lu tokens (Suc i) rs (?t x) = ?t x" if "?P x" for x
    using that 2(3) by (intro lease_for_other) (simp add: take_lease_def)
  ultimately show ?case by (simp add: update_where_def)
qed (simp add: map_idI)

text \<open>The event a claim returns for its \<open>j\<close>-th row.\<close>

lemma claim_rows_events:
  assumes "claim_rows owner lu tokens i rs db = Inr (events, db')"
  shows "length events = length rs \<and> (\<forall>j < length rs.
    event_from_row (rs ! j) (o_attempts (rs ! j) + 1) owner (tokens (i + j)) lu = Inr (events ! j))"
  using assms
proof (induction owner lu tokens i rs db arbitrary: events db' rule: claim_rows.induct)
  case (2 owner lu tokens i r rs db)
  from 2(2) obtain es e where e: "event_from_row r (o_attempts r + 1) owner (tokens i) lu = Inr e"
    "events = e # es" "length es = length rs \<and> (\<forall>j < length rs.
      event_from_row (rs ! j) (o_attempts (rs ! j) + 1) owner (tokens (Suc i + j)) lu = Inr (es ! j))"
    using 2(1) by (fastforce simp: Let_def)
  show ?case
  proof (intro conjI allI impI)
    show "length events = length (r # rs)" using e by simp
    fix j assume "j < length (r # rs)"
    then show "event_from_row ((r # rs) ! j) (o_attempts ((r # rs) ! j) + 1) owner (tokens (i + j)) lu = Inr (events ! j)"
      using e by (cases j) auto
  qed
qed simp

lemma selection_facts:
  assumes "distinct (map o_id db)" and sel_def: "sel = claim_selection now m tenant types locked limit db"
  shows "set sel \<subseteq> {r \<in> set db. claimable now m tenant types r \<and> \<not> locked (o_id r)}"
    and "distinct (map o_id sel)" and "length sel \<le> nat limit"
    and "sorted (map (\<lambda>r. (o_created_at r, o_id r)) sel)"
proof -
  let ?f = "filter (\<lambda>r. claimable now m tenant types r \<and> \<not> locked (o_id r)) db"
  show "set sel \<subseteq> {r \<in> set db. claimable now m tenant types r \<and> \<not> locked (o_id r)}"
    unfolding sel_def claim_selection_def by (rule subset_trans [OF set_take_subset]) auto
  have "distinct (map o_id ?f)" using assms(1) by (simp add: distinct_map_filter)
  then have "distinct (map o_id (sort_key (\<lambda>r. (o_created_at r, o_id r)) ?f))"
    by (simp add: distinct_map)
  then show "distinct (map o_id sel)" unfolding sel_def claim_selection_def
    by (simp add: distinct_take flip: take_map)
  show "length sel \<le> nat limit" by (simp add: sel_def claim_selection_def)
  show "sorted (map (\<lambda>r. (o_created_at r, o_id r)) sel)"
    unfolding sel_def claim_selection_def by (simp add: sorted_wrt_take flip: take_map)
qed

text \<open>Oldest first: a row left unselected although it could be claimed has only older rows before it.\<close>

lemma selection_oldest:
  assumes "r \<in> set db" "claimable now m tenant types r" "\<not> locked (o_id r)"
    and "r \<notin> set (claim_selection now m tenant types locked limit db)"
  shows "length (claim_selection now m tenant types locked limit db) = nat limit \<and>
    (\<forall>x \<in> set (claim_selection now m tenant types locked limit db).
       (o_created_at x, o_id x) \<le> (o_created_at r, o_id r))"
  using take_sort_passed [of r "filter (\<lambda>r. claimable now m tenant types r \<and> \<not> locked (o_id r)) db" "nat limit"
      "\<lambda>r. (o_created_at r, o_id r)"] assms
  by (simp add: claim_selection_def)

text \<open>The unique constraints of the table, which the writers of new events meet at flush.\<close>

definition outbox_aggregate :: "OutboxRow \<Rightarrow> uuid \<times> string \<times> uuid \<times> int" where
  "outbox_aggregate r = (o_tenant_id r, o_aggregate_type r, o_aggregate_id r, o_aggregate_version r)"

definition outbox_unique :: "OutboxRow list \<Rightarrow> bool" where
  "outbox_unique rs \<longleftrightarrow> distinct (map o_id rs) \<and> distinct (map outbox_aggregate rs)"

end
