(* ===== verification/Outbox_Properties.thy ===== *)
theory Outbox_Properties
  imports Outbox_Repository
begin

text \<open>
  The outbox as a state machine in which any number of relays insert, claim and mark rows: a lease
  token settles its row at most once, an event is leased at most \<open>max_attempts\<close> times, a live lease
  excludes every other claimer and a terminal row never changes.
\<close>

subsection \<open>The outcome of a claim and of a mark\<close>

lemma claim_cases:
  assumes "claim db now locked tokens owner ets et limit tenant ls m = (Inr events, db')"
  obtains (empty) "events = []" "db' = db" "normalize_event_types ets et = Inr (Some [])"
  | (batch) own types db1 sel where "own = strip owner" "own \<noteq> []" "length own \<le> 200" "1 \<le> limit" "limit \<le> 500"
    "1 \<le> ls" "ls \<le> 86400" "1 \<le> m" "m \<le> 1000" "normalize_event_types ets et = Inr types"
    "db1 = update_where (exhausted now m tenant types) fail_exhausted db"
    "sel = claim_selection now m tenant types locked limit db1"
    "claim_rows own (now + seconds ls) tokens 0 sel db1 = Inr (events, db')" "types \<noteq> Some []"
proof -
  from assms obtain types where t: "normalize_event_types ets et = Inr types"
    by (auto simp: claim_def transaction_Inr_iff)
  show ?thesis
  proof (cases "types = Some []")
    case True
    with assms t empty show ?thesis by (auto simp: claim_def transaction_Inr_iff)
  next
    case False
    with assms t batch [OF refl _ _ _ _ _ _ _ _ t refl refl] show ?thesis
      by (auto simp: claim_def transaction_Inr_iff validate_owner_def validate_limit_def
          validate_lease_seconds_def validate_max_attempts_def Let_def not_less split: if_splits)
  qed
qed

text \<open>A row of the table after a successful claim.\<close>

definition after_claim ::
  "instant \<Rightarrow> int \<Rightarrow> uuid option \<Rightarrow> string list option \<Rightarrow> string \<Rightarrow> instant \<Rightarrow> (nat \<Rightarrow> uuid) \<Rightarrow> OutboxRow list \<Rightarrow>
   OutboxRow \<Rightarrow> OutboxRow" where
  "after_claim now m tenant types own lu tokens sel r =
     lease_for own lu tokens 0 sel (if exhausted now m tenant types r then fail_exhausted r else r)"

lemma exhausted_not_claimable:
  "exhausted now m tenant types r \<Longrightarrow> \<not> claimable now m tenant types r"
  "\<not> claimable now m tenant types (fail_exhausted r)"
  by (auto simp: exhausted_def claimable_def fail_exhausted_def)

lemma selection_unexhausted:
  assumes d: "distinct (map o_id db)" and db1: "db1 = update_where (exhausted now m tenant types) fail_exhausted db"
    and sel: "sel = claim_selection now m tenant types locked limit db1"
  shows "set sel \<subseteq> {r \<in> set db. claimable now m tenant types r \<and> \<not> locked (o_id r)}" and "distinct (map o_id sel)"
    and "length sel \<le> nat limit"
proof -
  have d1: "distinct (map o_id db1)" using d by (simp add: db1 fail_update.keys_update)
  note f = selection_facts [OF d1 sel]
  show "distinct (map o_id sel)" "length sel \<le> nat limit" by (fact f(2,3))+
  show "set sel \<subseteq> {r \<in> set db. claimable now m tenant types r \<and> \<not> locked (o_id r)}"
  proof
    fix r assume "r \<in> set sel"
    then have r: "r \<in> set db1" "claimable now m tenant types r" "\<not> locked (o_id r)" using f(1) by auto
    then show "r \<in> {r \<in> set db. claimable now m tenant types r \<and> \<not> locked (o_id r)}"
      using exhausted_not_claimable by (auto simp: db1 set_update_where split: if_splits)
  qed
qed

lemma claim_rows_map:
  assumes "distinct (map o_id db)" "db1 = update_where (exhausted now m tenant types) fail_exhausted db"
    "sel = claim_selection now m tenant types locked limit db1"
    "claim_rows own lu tokens 0 sel db1 = Inr (events, db')"
  shows "db' = map (after_claim now m tenant types own lu tokens sel) db"
  using claim_rows_db [OF assms(4) selection_unexhausted(2) [OF assms(1-3)]]
  by (simp add: assms(2) update_where_def after_claim_def)

text \<open>Which of the three fates a row meets.\<close>

lemma after_claim_cases:
  assumes d: "distinct (map o_id db)" and r: "r \<in> set db"
    and sub: "set sel \<subseteq> {r \<in> set db. claimable now m tenant types r \<and> \<not> locked (o_id r)}"
    and ds: "distinct (map o_id sel)"
  obtains (leased) j where "j < length sel" "sel ! j = r" "claimable now m tenant types r" "\<not> locked (o_id r)"
      "after_claim now m tenant types own lu tokens sel r = take_lease (o_attempts r + 1) own (tokens j) lu r"
  | (failed) "exhausted now m tenant types r" "r \<notin> set sel"
      "after_claim now m tenant types own lu tokens sel r = fail_exhausted r"
  | (kept) "\<not> exhausted now m tenant types r" "r \<notin> set sel" "after_claim now m tenant types own lu tokens sel r = r"
proof (cases "r \<in> set sel")
  case True
  then obtain j where j: "j < length sel" "sel ! j = r" by (auto simp: in_set_conv_nth)
  have c: "claimable now m tenant types r" "\<not> locked (o_id r)" using True sub by auto
  then have "o_status (sel ! j) = ''pending''" using j by (simp add: claimable_def)
  with lease_for_selected [OF ds j(1), of own lu tokens 0] c j exhausted_not_claimable(1)
  show ?thesis by (intro leased [OF j c]) (auto simp: after_claim_def)
next
  case False
  then have "o_id r \<notin> o_id ` set sel" using distinct_key_inj [OF d r] sub by auto
  then have "o_id (fail_exhausted r) \<notin> o_id ` set sel" by (simp add: fail_exhausted_def)
  with False \<open>o_id r \<notin> o_id ` set sel\<close> show ?thesis
    using lease_for_other failed kept by (cases "exhausted now m tenant types r") (auto simp: after_claim_def)
qed

lemma after_claim_map:
  assumes "distinct (map o_id db)" and "set sel \<subseteq> {r \<in> set db. claimable now m tenant types r \<and> \<not> locked (o_id r)}"
    and "distinct (map o_id sel)"
  shows "map (after_claim now m tenant types own lu tokens sel) db =
    map (\<lambda>r. if r \<in> set sel then lease_for own lu tokens 0 sel r else if exhausted now m tenant types r then fail_exhausted r else r) db"
proof (rule map_cong [OF refl])
  fix r assume "r \<in> set db"
  from assms(1) this assms(2,3)
  show "after_claim now m tenant types own lu tokens sel r =
    (if r \<in> set sel then lease_for own lu tokens 0 sel r else if exhausted now m tenant types r then fail_exhausted r else r)"
    by (cases rule: after_claim_cases [where own = own and lu = lu and tokens = tokens])
      (auto simp: after_claim_def dest: exhausted_not_claimable(1))
qed

lemma mark_published_Inr_iff:
  "mark_published db now t i v owner k = (Inr ok, db') \<longleftrightarrow>
     (\<exists>own. validate_owner owner = Inr own \<and> ok = (rowcount (holds_lease t i v own k) db = 1) \<and>
        db' = update_where (holds_lease t i v own k) (set_published now) db)"
  by (auto simp: mark_published_def transaction_Inr_iff Let_def)

lemma mark_retry_Inr_iff:
  "mark_retry db now t i v owner k src ra m = (Inr ok, db') \<longleftrightarrow>
     (\<exists>own d. validate_owner owner = Inr own \<and> 1 \<le> m \<and> m \<le> 1000 \<and>
        (case src of Details d \<Rightarrow> Inr d | Raw x \<Rightarrow> sanitize_error_details x ''OUTBOX_PUBLISH_FAILED'' ''publish'' True) = Inr d \<and>
        ok = (rowcount (holds_lease t i v own k) db = 1) \<and>
        db' = update_where (holds_lease t i v own k) (set_retry now d (utc_instant ra) m) db)"
  by (auto simp: mark_retry_def transaction_Inr_iff Let_def validate_max_attempts_def split: error_source.splits)

lemma claim_Inl: "claim db now locked tokens owner ets et limit tenant ls m = (Inl e, db') \<Longrightarrow> db' = db"
  by (simp add: claim_def transaction_Inl_iff)

subsection \<open>The outbox and its history\<close>

text \<open>
  The table together with the history the theorems speak of: every lease issued (event and token)
  and every token whose mark was acknowledged. A claim's tokens are fresh UUIDs.
\<close>

record outbox_sys =
  os_db :: outbox_db
  os_issued :: "(uuid \<times> uuid) list"
  os_marked :: "uuid list"

definition fresh_row :: "OutboxRow \<Rightarrow> bool" where
  "fresh_row r \<longleftrightarrow> o_status r = ''pending'' \<and> o_attempts r = 0 \<and> outbox_check r \<and> o_lease_token r = None"

definition event_lease :: "OutboxEvent \<Rightarrow> uuid \<times> uuid" where
  "event_lease e = (oe_event_id e, the (oe_lease_token e))"

definition leases_of :: "uuid \<Rightarrow> (uuid \<times> uuid) list \<Rightarrow> nat" where
  "leases_of i xs = length (filter (\<lambda>p. fst p = i) xs)"

inductive outbox_step :: "int \<Rightarrow> outbox_sys \<Rightarrow> outbox_sys \<Rightarrow> bool" for m where
  step_insert: "fresh_row r \<Longrightarrow> o_id r \<notin> o_id ` set (os_db s) \<Longrightarrow>
    outbox_step m s (s\<lparr>os_db := os_db s @ [r]\<rparr>)"
| step_claim: "claim (os_db s) now locked tokens owner ets et limit tenant ls m = (Inr events, db') \<Longrightarrow>
    inj tokens \<Longrightarrow> range tokens \<inter> snd ` set (os_issued s) = {} \<Longrightarrow>
    outbox_step m s (s\<lparr>os_db := db', os_issued := os_issued s @ map event_lease events\<rparr>)"
| step_published: "mark_published (os_db s) now t i v owner k = (Inr ok, db') \<Longrightarrow>
    outbox_step m s (s\<lparr>os_db := db', os_marked := os_marked s @ (if ok then [k] else [])\<rparr>)"
| step_retry: "mark_retry (os_db s) now t i v owner k src ra m = (Inr ok, db') \<Longrightarrow>
    outbox_step m s (s\<lparr>os_db := db', os_marked := os_marked s @ (if ok then [k] else [])\<rparr>)"

inductive outbox_reachable :: "int \<Rightarrow> outbox_sys \<Rightarrow> bool" for m where
  start: "outbox_reachable m \<lparr>os_db = [], os_issued = [], os_marked = []\<rparr>"
| step: "outbox_reachable m s \<Longrightarrow> outbox_step m s s' \<Longrightarrow> outbox_reachable m s'"

definition row_inv :: "int \<Rightarrow> (uuid \<times> uuid) list \<Rightarrow> uuid list \<Rightarrow> OutboxRow \<Rightarrow> bool" where
  "row_inv m issued marked r \<longleftrightarrow>
     outbox_check r \<and> o_attempts r = int (leases_of (o_id r) issued) \<and> o_attempts r \<le> m \<and>
     (\<forall>k. o_lease_token r = Some k \<longrightarrow> (o_id r, k) \<in> set issued \<and> k \<notin> set marked) \<and>
     (o_status r \<noteq> ''pending'' \<longrightarrow> o_lease_token r = None)"

definition outbox_inv :: "int \<Rightarrow> outbox_sys \<Rightarrow> bool" where
  "outbox_inv m s \<longleftrightarrow>
     distinct (map o_id (os_db s)) \<and> distinct (map snd (os_issued s)) \<and> distinct (os_marked s) \<and>
     set (os_marked s) \<subseteq> snd ` set (os_issued s) \<and> fst ` set (os_issued s) \<subseteq> o_id ` set (os_db s) \<and>
     (\<forall>r \<in> set (os_db s). row_inv m (os_issued s) (os_marked s) r)"

lemma outbox_invD:
  assumes "outbox_inv m s"
  shows "distinct (map o_id (os_db s))" "distinct (map snd (os_issued s))" "distinct (os_marked s)"
    "set (os_marked s) \<subseteq> snd ` set (os_issued s)" "fst ` set (os_issued s) \<subseteq> o_id ` set (os_db s)"
    "r \<in> set (os_db s) \<Longrightarrow> row_inv m (os_issued s) (os_marked s) r"
  using assms by (auto simp: outbox_inv_def)

subsection \<open>Marks keep the invariant\<close>

lemma holds_lease_unique:
  assumes "distinct (map o_id db)" and "rowcount (holds_lease t i v own k) db = 1"
  obtains r where "r \<in> set db" "holds_lease t i v own k r"
proof -
  obtain r where "filter (holds_lease t i v own k) db = [r]"
    using assms(2) unfolding rowcount_def singleton_list_iff by (elim exE)
  from filter_singletonD [OF this] that show ?thesis by blast
qed

text \<open>An acknowledged mark releases the lease of its row; any other mark leaves the table alone.\<close>

lemma mark_inv:
  assumes inv: "outbox_inv m s"
    and upd: "\<And>r. o_id (f r) = o_id r \<and> o_attempts (f r) = o_attempts r \<and> o_lease_token (f r) = None \<and>
      (outbox_check r \<longrightarrow> outbox_check (f r))"
    and ok: "ok = (rowcount (holds_lease t i v own k) (os_db s) = 1)"
    and s': "s' = s\<lparr>os_db := update_where (holds_lease t i v own k) f (os_db s),
      os_marked := os_marked s @ (if ok then [k] else [])\<rparr>"
  shows "outbox_inv m s'"
proof -
  let ?P = "holds_lease t i v own k"
  note d = outbox_invD [OF inv]
  have le: "rowcount ?P (os_db s) \<le> 1"
    by (rule distinct_key_rowcount_le1 [OF d(1)]) (simp add: holds_lease_def)
  show ?thesis
  proof (cases ok)
    case False
    with ok le have "update_where ?P f (os_db s) = os_db s" by (intro rowcount_0_update) auto
    with False s' inv show ?thesis by simp
  next
    case True
    with ok obtain r0 where r0: "r0 \<in> set (os_db s)" "?P r0" using holds_lease_unique [OF d(1)] by blast
    have k: "(o_id r0, k) \<in> set (os_issued s)" "k \<notin> set (os_marked s)"
      using d(6) [OF r0(1)] r0(2) by (auto simp: row_inv_def holds_lease_def)
    have other: "o_lease_token r \<noteq> Some k" if "r \<in> set (os_db s)" "\<not> ?P r" for r
    proof
      assume "o_lease_token r = Some k"
      then have "(o_id r, k) \<in> set (os_issued s)" using d(6) [OF that(1)] by (simp add: row_inv_def)
      then have "o_id r = o_id r0" using k(1) distinct_key_inj [OF d(2)] by fastforce
      then show False using distinct_key_inj [OF d(1) that(1) r0(1)] that(2) r0(2) by simp
    qed
    have rows: "row_inv m (os_issued s) (os_marked s @ [k]) (if ?P r then f r else r)" if "r \<in> set (os_db s)" for r
      using d(6) [OF that] other [OF that] upd [of r] by (auto simp: row_inv_def)
    have ids: "map o_id (update_where ?P f (os_db s)) = map o_id (os_db s)"
      using upd by (intro map_update_where) simp
    then have idset: "o_id ` set (update_where ?P f (os_db s)) = o_id ` set (os_db s)"
      by (metis set_map)
    have "\<forall>r \<in> set (update_where ?P f (os_db s)). row_inv m (os_issued s) (os_marked s @ [k]) r"
      unfolding set_update_where using rows by blast
    moreover have "k \<in> snd ` set (os_issued s)" using k(1) by force
    ultimately show ?thesis
      using ids idset True d(1-5) k(2) unfolding s' outbox_inv_def by simp
  qed
qed

subsection \<open>Claims and inserts keep the invariant\<close>

lemma leases_of_append: "leases_of i (xs @ ys) = leases_of i xs + leases_of i ys"
  by (simp add: leases_of_def)

lemma leases_of_absent: "i \<notin> fst ` set xs \<Longrightarrow> leases_of i xs = 0"
  by (auto simp: leases_of_def filter_empty_conv)

lemma leases_of_one: "distinct (map fst xs) \<Longrightarrow> i \<in> fst ` set xs \<Longrightarrow> leases_of i xs = 1"
  using distinct_key_filter_singleton [of fst xs _ "\<lambda>_. True"] by (auto simp: leases_of_def)

lemma event_from_row_fields:
  assumes "event_from_row r a own k lu = Inr e"
  shows "oe_event_id e = o_id r" "oe_tenant_id e = o_tenant_id r" "oe_aggregate_version e = o_aggregate_version r"
    "oe_event_type e = o_event_type r" "oe_attempts e = a" "oe_claim_owner e = Some own" "oe_lease_token e = Some k"
    "oe_lease_expires_at e = Some lu"
  using assms by (auto simp: event_from_row_def mk_OutboxEvent_def)

text \<open>The leases a batch records: row identifiers with successive tokens.\<close>

lemma claim_rows_leases:
  assumes "claim_rows own lu tokens 0 sel db1 = Inr (events, db')"
  shows "map event_lease events = map (\<lambda>j. (o_id (sel ! j), tokens j)) [0..<length sel]"
proof (rule nth_equalityI)
  note e = claim_rows_events [OF assms]
  then show "length (map event_lease events) = length (map (\<lambda>j. (o_id (sel ! j), tokens j)) [0..<length sel])" by simp
  fix j assume "j < length (map event_lease events)"
  with e have "j < length sel" "event_from_row (sel ! j) (o_attempts (sel ! j) + 1) own (tokens (0 + j)) lu = Inr (events ! j)"
    by auto
  with e event_from_row_fields [OF this(2)]
  show "map event_lease events ! j = map (\<lambda>j. (o_id (sel ! j), tokens j)) [0..<length sel] ! j"
    by (simp add: event_lease_def)
qed

lemma leased_row_inv:
  assumes "row_inv m issued marked r" and "claimable now m tenant types r" and "own \<noteq> []"
    and "leases_of (o_id r) new = 1" and "(o_id r, k) \<in> set new" and "k \<notin> set marked"
  shows "row_inv m (issued @ new) marked (take_lease (o_attempts r + 1) own k lu r)"
  using assms by (auto simp: row_inv_def claimable_def take_lease_def leases_of_append outbox_check_def)

lemma kept_row_inv:
  assumes "row_inv m issued marked r" and "leases_of (o_id r) new = 0"
  shows "row_inv m (issued @ new) marked r"
  using assms by (auto simp: row_inv_def leases_of_append)

lemma failed_row_inv:
  assumes "row_inv m issued marked r" and "leases_of (o_id r) new = 0"
  shows "row_inv m (issued @ new) marked (fail_exhausted r)"
  using assms by (auto simp: row_inv_def leases_of_append fail_exhausted_def outbox_check_def)

lemma claim_inv:
  assumes inv: "outbox_inv m s"
    and c: "claim (os_db s) now locked tokens owner ets et limit tenant ls m = (Inr events, db')"
    and tok: "inj tokens" "range tokens \<inter> snd ` set (os_issued s) = {}"
  shows "outbox_inv m (s\<lparr>os_db := db', os_issued := os_issued s @ map event_lease events\<rparr>)"
  using c
proof (cases rule: claim_cases)
  case (batch own types db1 sel)
  note d = outbox_invD [OF inv]
  note sel = selection_unexhausted [OF d(1) batch(11,12)]
  let ?new = "map (\<lambda>j. (o_id (sel ! j), tokens j)) [0..<length sel]"
  let ?after = "after_claim now m tenant types own (now + seconds ls) tokens sel"
  have new: "map event_lease events = ?new" by (rule claim_rows_leases [OF batch(13)])
  have db': "db' = map ?after (os_db s)" by (rule claim_rows_map [OF d(1) batch(11,12,13)])
  have fsts: "map fst ?new = map o_id sel" by (rule nth_equalityI) simp_all
  have fnew: "fst ` set ?new = o_id ` set sel" using arg_cong [OF fsts, of set] by (simp add: image_image)
  have tokfresh: "tokens j \<notin> snd ` set (os_issued s)" "tokens j \<notin> set (os_marked s)" for j
    using tok(2) d(4) by blast+
  have rows: "row_inv m (os_issued s @ ?new) (os_marked s) (?after r) \<and> o_id (?after r) = o_id r"
    if r: "r \<in> set (os_db s)" for r
    using d(1) r sel(1,2)
  proof (cases rule: after_claim_cases [where own = own and lu = "now + seconds ls" and tokens = tokens])
    case (leased j)
    have "o_id r \<in> fst ` set ?new" using leased(1,2) fnew by (metis imageI nth_mem)
    then have "leases_of (o_id r) ?new = 1" using leases_of_one [of ?new] fsts sel(2) by metis
    moreover have "(o_id r, tokens j) \<in> set ?new" using leased(1,2) by (auto simp: image_iff)
    ultimately show ?thesis
      using leased_row_inv [OF d(6) [OF r] leased(3) batch(2)] tokfresh(2) leased(5)
      by (simp add: take_lease_def)
  next
    case failed
    have "o_id r \<notin> fst ` set ?new" using failed(2) sel(1) distinct_key_inj [OF d(1) r] fnew by auto
    with failed_row_inv [OF d(6) [OF r] leases_of_absent] failed(3) show ?thesis
      by (simp add: fail_exhausted_def)
  next
    case kept
    have "o_id r \<notin> fst ` set ?new" using kept(2) sel(1) distinct_key_inj [OF d(1) r] fnew by auto
    with kept_row_inv [OF d(6) [OF r] leases_of_absent] kept(3) show ?thesis by simp
  qed
  have ids: "map o_id db' = map o_id (os_db s)" using rows by (simp add: db')
  then have idset: "o_id ` set db' = o_id ` set (os_db s)" by (metis set_map)
  have "distinct (map snd ?new)" using tok(1) by (simp add: comp_def distinct_map inj_on_def)
  moreover have "snd ` set (os_issued s) \<inter> tokens ` {0..<length sel} = {}" using tok(2) by blast
  ultimately have "distinct (map snd (os_issued s @ ?new))"
    using d(2) by (simp add: comp_def image_image)
  moreover have "\<forall>r \<in> set db'. row_inv m (os_issued s @ ?new) (os_marked s) r"
    using rows by (auto simp: db')
  moreover have "fst ` set (os_issued s @ ?new) \<subseteq> o_id ` set db'"
    using d(5) sel(1) fnew idset by (auto simp: image_Un)
  ultimately show ?thesis
    using d(1,3,4) ids unfolding outbox_inv_def new by auto
qed (use inv in simp)

lemma insert_inv:
  assumes inv: "outbox_inv m s" and "fresh_row r" and "o_id r \<notin> o_id ` set (os_db s)" and "0 \<le> m"
  shows "outbox_inv m (s\<lparr>os_db := os_db s @ [r]\<rparr>)"
proof -
  note d = outbox_invD [OF inv]
  have "o_id r \<notin> fst ` set (os_issued s)" using d(5) assms(3) by blast
  then have "row_inv m (os_issued s) (os_marked s) r"
    using assms(2,4) by (simp add: row_inv_def fresh_row_def leases_of_absent)
  then show ?thesis using d assms(3) by (auto simp: outbox_inv_def)
qed

lemma outbox_step_inv:
  assumes "outbox_step m s s'" and inv: "outbox_inv m s" and "0 \<le> m"
  shows "outbox_inv m s'"
  using assms(1)
proof cases
  case step_insert
  then show ?thesis using insert_inv [OF inv _ _ assms(3)] by simp
next
  case step_claim
  then show ?thesis using claim_inv [OF inv] by simp
next
  case (step_published now t i v owner k ok db')
  then obtain own where "ok = (rowcount (holds_lease t i v own k) (os_db s) = 1)"
    "db' = update_where (holds_lease t i v own k) (set_published now) (os_db s)"
    by (auto simp: mark_published_Inr_iff)
  with step_published show ?thesis
    by (intro mark_inv [OF inv, of "set_published now"]) (auto simp: set_published_def outbox_check_def)
next
  case (step_retry now t i v owner k src ra ok db')
  then obtain own d where "ok = (rowcount (holds_lease t i v own k) (os_db s) = 1)"
    "db' = update_where (holds_lease t i v own k) (set_retry now d (utc_instant ra) m) (os_db s)"
    by (auto simp: mark_retry_Inr_iff)
  with step_retry show ?thesis
    by (intro mark_inv [OF inv, of "set_retry now d (utc_instant ra) m"])
      (auto simp: set_retry_def outbox_check_def Let_def)
qed

lemma outbox_reachable_inv: "outbox_reachable m s \<Longrightarrow> 0 \<le> m \<Longrightarrow> outbox_inv m s"
proof (induction rule: outbox_reachable.induct)
  case start
  then show ?case by (simp add: outbox_inv_def)
next
  case (step s s')
  then show ?case using outbox_step_inv by blast
qed

subsection \<open>A lease keeps its attempt number\<close>

text \<open>Every row that carries the event's token has the attempt number the event was claimed with.\<close>

definition lease_agrees :: "OutboxEvent \<Rightarrow> outbox_db \<Rightarrow> bool" where
  "lease_agrees e db \<longleftrightarrow> oe_lease_token e \<noteq> None \<and>
     (\<forall>r \<in> set db. o_lease_token r = oe_lease_token e \<longrightarrow> o_attempts r = oe_attempts e)"

lemma claimed_agrees:
  assumes inv: "outbox_inv m s" and c: "claim (os_db s) now locked tokens owner ets et limit tenant ls m = (Inr events, db')"
    and tok: "inj tokens" "range tokens \<inter> snd ` set (os_issued s) = {}" and e: "e \<in> set events"
  shows "lease_agrees e db' \<and> event_lease e \<in> set (map event_lease events) \<and> oe_lease_token e = Some (snd (event_lease e))"
  using c
proof (cases rule: claim_cases)
  case (batch own types db1 sel)
  note d = outbox_invD [OF inv]
  note sel = selection_unexhausted [OF d(1) batch(11,12)] and ev = claim_rows_events [OF batch(13)]
  obtain j where j: "j < length sel" "events ! j = e" using e ev by (auto simp: in_set_conv_nth)
  note f = event_from_row_fields [OF ev [THEN conjunct2, rule_format, OF j(1)]]
  have "o_attempts r = oe_attempts e" if r: "r \<in> set db'" "o_lease_token r = Some (tokens j)" for r
  proof -
    obtain x where x: "x \<in> set (os_db s)" "r = after_claim now m tenant types own (now + seconds ls) tokens sel x"
      using r(1) claim_rows_map [OF d(1) batch(11,12,13)] by auto
    have fresh: "o_lease_token x \<noteq> Some (tokens i)" for i using d(6) [OF x(1)] tok(2) by (force simp: row_inv_def)
    from d(1) x(1) sel(1,2) show ?thesis
      by (cases rule: after_claim_cases [where own = own and lu = "now + seconds ls" and tokens = tokens])
        (use r(2) x(2) f(5) j fresh tok(1) in \<open>auto simp: take_lease_def fail_exhausted_def inj_eq\<close>)
  qed
  moreover have "event_lease e \<in> set (map event_lease events)" using e by simp
  ultimately show ?thesis using f(7) j by (simp add: lease_agrees_def event_lease_def)
qed (use e in simp)

lemma step_agrees:
  assumes inv: "outbox_inv m s" and st: "outbox_step m s s'" and e: "lease_agrees e (os_db s)" "the (oe_lease_token e) \<in> snd ` set (os_issued s)"
  shows "lease_agrees e (os_db s') \<and> the (oe_lease_token e) \<in> snd ` set (os_issued s')"
  using st
proof cases
  case (step_insert r)
  then show ?thesis using e by (auto simp: lease_agrees_def fresh_row_def)
next
  case (step_claim now locked tokens owner ets et limit tenant ls events db')
  note d = outbox_invD [OF inv]
  have fresh: "\<forall>j. oe_lease_token e \<noteq> Some (tokens j)" using e(2) step_claim(4) by force
  have "lease_agrees e db'"
    using step_claim(2)
  proof (cases rule: claim_cases)
    case (batch own types db1 sel)
    note sel = selection_unexhausted [OF d(1) batch(11,12)]
    have "o_attempts r = oe_attempts e" if r: "r \<in> set db'" "o_lease_token r = oe_lease_token e" for r
    proof -
      obtain x where x: "x \<in> set (os_db s)" "r = after_claim now m tenant types own (now + seconds ls) tokens sel x"
        using r(1) claim_rows_map [OF d(1) batch(11,12,13)] by auto
      from d(1) x(1) sel(1,2) show ?thesis
        by (cases rule: after_claim_cases [where own = own and lu = "now + seconds ls" and tokens = tokens])
          (use r(2) x e(1) fresh in \<open>auto simp: take_lease_def fail_exhausted_def lease_agrees_def\<close>)
    qed
    then show ?thesis using e(1) by (simp add: lease_agrees_def)
  qed (use e in simp)
  then show ?thesis using e(2) step_claim(1) by (simp add: image_Un)
next
  case (step_published now t i v owner k ok db')
  then show ?thesis using e by (auto simp: lease_agrees_def mark_published_Inr_iff set_update_where set_published_def split: if_splits)
next
  case (step_retry now t i v owner k src ra ok db')
  then show ?thesis using e by (auto simp: lease_agrees_def mark_retry_Inr_iff set_update_where set_retry_def Let_def split: if_splits)
qed

lemma steps_agree:
  assumes "(outbox_step m)\<^sup>*\<^sup>* s s'" and "outbox_inv m s" and "0 \<le> m"
    and "lease_agrees e (os_db s)" and "the (oe_lease_token e) \<in> snd ` set (os_issued s)"
  shows "outbox_inv m s' \<and> lease_agrees e (os_db s') \<and> the (oe_lease_token e) \<in> snd ` set (os_issued s')"
  using assms
proof (induction rule: rtranclp_induct)
  case (step s1 s2)
  then show ?case using step_agrees [of m s1 s2 e] outbox_step_inv [of m s1 s2] by blast
qed simp

subsection \<open>A small outbox\<close>

definition demo_row :: "uuid \<Rightarrow> OutboxRow" where
  "demo_row i = \<lparr>o_id = i, o_tenant_id = 1, o_aggregate_type = ''inference_request'', o_aggregate_id = 9,
     o_event_type = ''chat.inference.execute'', o_aggregate_version = 1, o_payload = [], o_status = ''pending'',
     o_attempts = 0, o_available_at = 0, o_published_at = None, o_error_details = None, o_claim_owner = None,
     o_lease_token = None, o_lease_expires_at = None, o_created_at = int i\<rparr>"

definition demo_claim :: "(outbox_error + OutboxEvent list) \<times> outbox_db" where
  "demo_claim = claim [demo_row 3] 10 (\<lambda>_. False) (\<lambda>j. 100 + j) ''relay-a'' None None 1 None 60 5"

lemma demo_claim_eval:
  "demo_claim = (Inr [\<lparr>oe_event_id = 3, oe_tenant_id = 1, oe_aggregate_type = ''inference_request'',
       oe_aggregate_id = 9, oe_event_type = ''chat.inference.execute'', oe_aggregate_version = 1, oe_payload = [],
       oe_attempts = 1, oe_available_at = Some 60000010, oe_claim_owner = Some ''relay-a'',
       oe_lease_token = Some 100, oe_lease_expires_at = Some 60000010\<rparr>],
     [take_lease 1 ''relay-a'' 100 60000010 (demo_row 3)])"
  by code_simp

lemma demo_inserted: "outbox_reachable 5 \<lparr>os_db = [demo_row 3], os_issued = [], os_marked = []\<rparr>"
proof -
  let ?s0 = "\<lparr>os_db = [], os_issued = [], os_marked = []\<rparr>"
  have "fresh_row (demo_row 3)" by code_simp
  then have "outbox_step 5 ?s0 (?s0\<lparr>os_db := os_db ?s0 @ [demo_row 3]\<rparr>)" by (intro step_insert) auto
  then show ?thesis using outbox_reachable.start outbox_reachable.step by fastforce
qed

lemma demo_reachable:
  "outbox_reachable 5 \<lparr>os_db = [take_lease 1 ''relay-a'' 100 60000010 (demo_row 3)], os_issued = [(3, 100)], os_marked = []\<rparr>"
proof -
  let ?s1 = "\<lparr>os_db = [demo_row 3], os_issued = [], os_marked = []\<rparr>"
  have "claim (os_db ?s1) 10 (\<lambda>_. False) (\<lambda>j. 100 + j) ''relay-a'' None None 1 None 60 5 = demo_claim"
    by (simp add: demo_claim_def)
  from step_claim [OF this [unfolded demo_claim_eval]]
  have "outbox_step 5 ?s1 \<lparr>os_db = [take_lease 1 ''relay-a'' 100 60000010 (demo_row 3)], os_issued = [(3, 100)], os_marked = []\<rparr>"
    by (simp add: inj_def event_lease_def)
  with demo_inserted show ?thesis using outbox_reachable.step by blast
qed

subsection \<open>Theorems\<close>

lemma lease_facts:
  assumes "outbox_reachable m s" and "0 \<le> m"
  shows "distinct (os_marked s)"
    and "r \<in> set (os_db s) \<Longrightarrow> o_lease_token r = Some k \<Longrightarrow> k \<notin> set (os_marked s)"
    and "r \<in> set (os_db s) \<Longrightarrow> r' \<in> set (os_db s) \<Longrightarrow> o_lease_token r = Some k \<Longrightarrow> o_lease_token r' = Some k \<Longrightarrow> r = r'"
    and "int (leases_of i (os_issued s)) \<le> m"
proof -
  note d = outbox_invD [OF outbox_reachable_inv [OF assms]]
  show "distinct (os_marked s)" by (fact d(3))
  show "r \<in> set (os_db s) \<Longrightarrow> o_lease_token r = Some k \<Longrightarrow> k \<notin> set (os_marked s)"
    using d(6) by (auto simp: row_inv_def)
  show "r = r'" if "r \<in> set (os_db s)" "r' \<in> set (os_db s)" "o_lease_token r = Some k" "o_lease_token r' = Some k"
  proof -
    have "(o_id r, k) \<in> set (os_issued s)" "(o_id r', k) \<in> set (os_issued s)"
      using d(6) [OF that(1)] d(6) [OF that(2)] that(3,4) by (auto simp: row_inv_def)
    then have "o_id r = o_id r'" using distinct_key_inj [OF d(2)] by fastforce
    then show ?thesis using distinct_key_inj [OF d(1) that(1,2)] by simp
  qed
  show "int (leases_of i (os_issued s)) \<le> m"
  proof (cases "i \<in> fst ` set (os_issued s)")
    case True
    then obtain r where "r \<in> set (os_db s)" "o_id r = i" using d(5) by auto
    with d(6) [OF this(1)] show ?thesis by (simp add: row_inv_def)
  qed (simp add: leases_of_absent assms(2))
qed

text \<open>
  C4. Fencing: however many relays interleave their claims, publish marks and retry marks, each
  lease token settles its event at most once, a token that has settled is no longer carried by any
  row, no two rows carry the same token, and no event is ever leased more than \<open>max_attempts\<close> times.
\<close>

theorem outbox_fencing:
  assumes "outbox_reachable m s" and "0 \<le> m"
  shows "distinct (os_marked s) \<and>
    (\<forall>r \<in> set (os_db s). \<forall>k. o_lease_token r = Some k \<longrightarrow> k \<notin> set (os_marked s) \<and>
       (\<forall>r' \<in> set (os_db s). o_lease_token r' = Some k \<longrightarrow> r' = r)) \<and>
    (\<forall>i. int (leases_of i (os_issued s)) \<le> m)"
  using lease_facts [OF assms] by metis

theorem outbox_fencing_witness:
  "(100 :: uuid) \<notin> set (os_marked \<lparr>os_db = [take_lease 1 ''relay-a'' 100 60000010 (demo_row 3)],
     os_issued = [(3, 100)], os_marked = []\<rparr>) \<and> int (leases_of 3 [(3, 100)]) \<le> 5"
  using outbox_fencing [OF demo_reachable] by (auto simp: take_lease_def)

text \<open>
  C10. A claim that succeeds does exactly this. With an empty list of event types it returns nothing and writes
  nothing. Otherwise it returns at most \<open>limit\<close> events with distinct identifiers, each for a row that was
  pending, due, unleased, below the attempt limit and unlocked, now carrying the caller's lease with one
  more attempt; every row that had exhausted its attempts becomes failed, whether or not anything is
  returned; every other row is untouched; and a claimable unlocked row is passed over only when the batch is
  full, with \<open>limit\<close> older ones, so nothing is returned only when nothing could be claimed.
\<close>

theorem claim_exact:
  assumes "distinct (map o_id db)" and "claim db now locked tokens owner ets et limit tenant ls m = (Inr events, db')"
  shows "\<exists>types. normalize_event_types ets et = Inr types \<and>
    (types = Some [] \<and> events = [] \<and> db' = db \<or>
     types \<noteq> Some [] \<and> (\<exists>sel. length events = length sel \<and> length events \<le> nat limit \<and>
       distinct (map oe_event_id events) \<and>
       db' = map (\<lambda>r. if r \<in> set sel then lease_for (strip owner) (now + seconds ls) tokens 0 sel r
                      else if exhausted now m tenant types r then fail_exhausted r else r) db \<and>
       (\<forall>j < length sel. sel ! j \<in> set db \<and> claimable now m tenant types (sel ! j) \<and> \<not> locked (o_id (sel ! j)) \<and>
          lease_for (strip owner) (now + seconds ls) tokens 0 sel (sel ! j)
            = take_lease (o_attempts (sel ! j) + 1) (strip owner) (tokens j) (now + seconds ls) (sel ! j) \<and>
          oe_event_id (events ! j) = o_id (sel ! j) \<and> oe_lease_token (events ! j) = Some (tokens j) \<and>
          oe_attempts (events ! j) = o_attempts (sel ! j) + 1) \<and>
       (\<forall>r \<in> set db. claimable now m tenant types r \<and> \<not> locked (o_id r) \<and> r \<notin> set sel \<longrightarrow>
          sel \<noteq> [] \<and> length sel = nat limit \<and> (\<forall>x \<in> set sel. (o_created_at x, o_id x) \<le> (o_created_at r, o_id r)))))"
  using assms(2)
proof (cases rule: claim_cases)
  case (batch own types db1 sel)
  note sel = selection_unexhausted [OF assms(1) batch(11,12)]
  note ev = claim_rows_events [OF batch(13)]
  have st: "o_status (sel ! j) = ''pending''" if "j < length sel" for j
    using sel(1) nth_mem [OF that] by (auto simp: claimable_def)
  have field: "oe_event_id (events ! j) = o_id (sel ! j)" "oe_lease_token (events ! j) = Some (tokens j)"
    "oe_attempts (events ! j) = o_attempts (sel ! j) + 1" if "j < length sel" for j
    using ev that event_from_row_fields [of "sel ! j" _ own "tokens j" _ "events ! j"] by auto
  have "map oe_event_id events = map o_id sel" using ev field by (intro nth_equalityI) auto
  then have "distinct (map oe_event_id events)" using sel(2) by simp
  moreover have "db' = map (\<lambda>r. if r \<in> set sel then lease_for own (now + seconds ls) tokens 0 sel r
      else if exhausted now m tenant types r then fail_exhausted r else r) db"
    unfolding claim_rows_map [OF assms(1) batch(11,12,13)] by (rule after_claim_map [OF assms(1) sel(1,2)])
  moreover have "r \<in> set db1" if "r \<in> set db" "claimable now m tenant types r" for r
    using that exhausted_not_claimable(1) by (auto simp: batch(11) set_update_where image_iff intro!: bexI [of _ r])
  then have "\<forall>r \<in> set db. claimable now m tenant types r \<and> \<not> locked (o_id r) \<and> r \<notin> set sel \<longrightarrow>
      length sel = nat limit \<and> (\<forall>x \<in> set sel. (o_created_at x, o_id x) \<le> (o_created_at r, o_id r))"
    using selection_oldest [of _ db1 now m tenant types locked limit] unfolding batch(12) by blast
  moreover have "sel \<noteq> []" if "length sel = nat limit" using that batch(4) by auto
  moreover have "sel ! j \<in> set db \<and> claimable now m tenant types (sel ! j) \<and> \<not> locked (o_id (sel ! j))"
    if "j < length sel" for j using sel(1) nth_mem [OF that] by auto
  ultimately show ?thesis
    using ev batch(1,10,14) sel(3) field lease_for_selected [OF sel(2) _ st, where owner = own and tokens = tokens and i = 0]
    by (intro exI [of _ types] conjI disjI2 exI [of _ sel]) simp_all
qed simp

theorem claim_exact_witness:
  "\<exists>types sel. length sel = 1 \<and>
     snd demo_claim = map (\<lambda>r. if r \<in> set sel then lease_for (strip ''relay-a'') (10 + seconds 60) (\<lambda>j. 100 + j) 0 sel r
       else if exhausted 10 5 None types r then fail_exhausted r else r) [demo_row 3]"
proof -
  obtain e where e: "claim [demo_row 3] 10 (\<lambda>_. False) (\<lambda>j. 100 + j) ''relay-a'' None None 1 None 60 5 = (Inr [e], snd demo_claim)"
    using demo_claim_eval by (auto simp: demo_claim_def)
  have "distinct (map o_id [demo_row 3])" by simp
  from claim_exact [OF this e] obtain types sel where len: "length [e] = length sel"
    and eq: "snd demo_claim = map (\<lambda>r. if r \<in> set sel then lease_for (strip ''relay-a'') (10 + seconds 60) (\<lambda>j. 100 + j) 0 sel r
       else if exhausted 10 5 None types r then fail_exhausted r else r) [demo_row 3]"
    by blast
  from len have "length sel = 1" by simp
  with eq show ?thesis by (intro exI [of _ types] exI [of _ sel] conjI)
qed

lemma live_lease_facts:
  assumes "distinct (map o_id db)" and r: "r \<in> set db" and live: "o_lease_expires_at r = Some e" "now < e"
  shows "claim db now locked tokens owner ets et limit tenant ls m = (Inr events, db') \<Longrightarrow>
      r \<in> set db' \<and> o_id r \<notin> oe_event_id ` set events"
    and "o_claim_owner r = Some own \<Longrightarrow> o_lease_token r = Some k \<Longrightarrow> strip owner \<noteq> own \<or> k' \<noteq> k \<Longrightarrow>
      mark_published db now' t (o_id r) v owner k' = (out, db'') \<Longrightarrow> out \<noteq> Inr True \<and> db'' = db"
proof -
  show "r \<in> set db' \<and> o_id r \<notin> oe_event_id ` set events"
    if "claim db now locked tokens owner ets et limit tenant ls m = (Inr events, db')"
    using that
  proof (cases rule: claim_cases)
    case (batch own types db1 sel)
    note sel = selection_unexhausted [OF assms(1) batch(11,12)]
    note ev = claim_rows_events [OF batch(13)]
    have n: "\<not> claimable now m tenant types r" "\<not> exhausted now m tenant types r"
      using live by (auto simp: claimable_def exhausted_def lease_available_def)
    have "after_claim now m tenant types own (now + seconds ls) tokens sel r = r"
      using assms(1) r sel(1,2) n
      by (cases rule: after_claim_cases [where own = own and lu = "now + seconds ls" and tokens = tokens]) auto
    then have in_db': "r \<in> set db'"
      using r unfolding claim_rows_map [OF assms(1) batch(11,12,13)] by (metis image_eqI set_map)
    have "oe_event_id e' \<in> o_id ` set sel" if e': "e' \<in> set events" for e'
    proof -
      from e' ev obtain j where "j < length sel" "events ! j = e'" by (auto simp: in_set_conv_nth)
      with ev event_from_row_fields(1) show ?thesis by (metis add_0 imageI nth_mem)
    qed
    moreover have "o_id r \<notin> o_id ` set sel" using sel(1) n(1) distinct_key_inj [OF assms(1) r] by auto
    ultimately have "o_id r \<notin> oe_event_id ` set events" by auto
    with in_db' show ?thesis by simp
  qed (use r in simp)
next
  assume own: "o_claim_owner r = Some own" "o_lease_token r = Some k" "strip owner \<noteq> own \<or> k' \<noteq> k"
    and m: "mark_published db now' t (o_id r) v owner k' = (out, db'')"
  have no: "\<not> holds_lease t (o_id r) v (strip owner) k' x" if "x \<in> set db" for x
    using distinct_key_inj [OF assms(1) that r] own by (auto simp: holds_lease_def)
  then have "rowcount (holds_lease t (o_id r) v (strip owner) k') db = 0" by (simp add: rowcount_0_iff)
  with m show "out \<noteq> Inr True \<and> db'' = db"
    by (auto simp: mark_published_def transaction_def validate_owner_def Let_def rowcount_0_update split: if_splits)
qed

text \<open>
  A live lease excludes: while a row's lease has not expired, no claim by anyone returns it or
  changes it, and a mark under any other token or owner is refused and changes nothing.
\<close>

theorem live_lease_excludes:
  assumes "distinct (map o_id db)" and "r \<in> set db" and "o_lease_expires_at r = Some e" "now < e"
  shows "(\<forall>events db'. claim db now locked tokens owner ets et limit tenant ls m = (Inr events, db') \<longrightarrow>
      r \<in> set db' \<and> o_id r \<notin> oe_event_id ` set events) \<and>
    (\<forall>own k k' out db''. o_claim_owner r = Some own \<and> o_lease_token r = Some k \<and> (strip owner \<noteq> own \<or> k' \<noteq> k) \<and>
      mark_published db now' t (o_id r) v owner k' = (out, db'') \<longrightarrow> out \<noteq> Inr True \<and> db'' = db)"
  using live_lease_facts [OF assms] by metis

theorem live_lease_excludes_witness:
  "\<exists>events db'. claim [take_lease 1 ''relay-a'' 100 60000010 (demo_row 3), demo_row 4] 20 (\<lambda>_. False) (\<lambda>j. 200 + j)
     ''relay-b'' None None 10 None 60 5 = (Inr events, db') \<and> length events = 1 \<and>
     take_lease 1 ''relay-a'' 100 60000010 (demo_row 3) \<in> set db' \<and> 3 \<notin> oe_event_id ` set events"
proof -
  let ?r = "take_lease 1 ''relay-a'' 100 60000010 (demo_row 3)"
  have "(case fst (claim [?r, demo_row 4] 20 (\<lambda>_. False) (\<lambda>j. 200 + j) ''relay-b'' None None 10 None 60 5) of
      Inr events \<Rightarrow> length events = 1 | Inl _ \<Rightarrow> False)"
    by code_simp
  then obtain events db' where c: "claim [?r, demo_row 4] 20 (\<lambda>_. False) (\<lambda>j. 200 + j) ''relay-b'' None None 10 None 60 5
      = (Inr events, db')" "length events = 1"
    by (cases "claim [?r, demo_row 4] 20 (\<lambda>_. False) (\<lambda>j. 200 + j) ''relay-b'' None None 10 None 60 5")
      (auto split: sum.splits)
  have "distinct (map o_id [?r, demo_row 4])" "?r \<in> set [?r, demo_row 4]" "o_lease_expires_at ?r = Some 60000010" "o_id ?r = 3"
    by (simp_all add: take_lease_def demo_row_def)
  with live_lease_excludes [OF this(1-3), of 20] c show ?thesis by auto
qed

text \<open>
  Published and failed are final: no step of any relay changes or removes a row in either state.
\<close>

theorem outbox_terminal:
  assumes "outbox_reachable m s" "0 \<le> m" "outbox_step m s s'" "r \<in> set (os_db s)" "o_status r \<noteq> ''pending''"
  shows "r \<in> set (os_db s')"
proof -
  note inv = outbox_reachable_inv [OF assms(1,2)]
  have no: "\<not> holds_lease t i v own k r" for t i v own k using assms(5) by (simp add: holds_lease_def)
  then have upd: "r \<in> set (update_where (holds_lease t i v own k) f (os_db s))" for t i v own k f
    using assms(4) by (auto simp: set_update_where image_iff intro!: bexI [of _ r])
  from assms(3) show ?thesis
  proof cases
    case step_insert
    with assms(4) show ?thesis by simp
  next
    case (step_claim now locked tokens owner ets et limit tenant ls events db')
    from step_claim(2) show ?thesis
    proof (cases rule: claim_cases)
      case (batch own types db1 sel)
      note d = outbox_invD(1) [OF inv]
      note sel = selection_unexhausted [OF d batch(11,12)]
      have "after_claim now m tenant types own (now + seconds ls) tokens sel r = r"
        using d assms(4) sel(1,2) assms(5)
        by (cases rule: after_claim_cases [where own = own and lu = "now + seconds ls" and tokens = tokens])
          (auto simp: claimable_def exhausted_def)
      with step_claim(1) assms(4) show ?thesis
        by (simp add: claim_rows_map [OF d batch(11,12,13)] image_iff) (metis assms(4))
    qed (use step_claim assms(4) in simp)
  next
    case step_published
    with upd show ?thesis by (auto simp: mark_published_Inr_iff)
  next
    case step_retry
    with upd show ?thesis by (auto simp: mark_retry_Inr_iff)
  qed
qed

definition demo_published :: OutboxRow where
  "demo_published = set_published 30 (take_lease 1 ''relay-a'' 100 60000010 (demo_row 3))"

theorem outbox_terminal_witness:
  "\<exists>db'. mark_published [demo_published] 40 1 3 1 ''relay-a'' 100 = (Inr False, db') \<and> demo_published \<in> set db'"
proof -
  let ?s = "\<lparr>os_db = [demo_published], os_issued = [(3, 100)], os_marked = [100]\<rparr>"
  have "mark_published [take_lease 1 ''relay-a'' 100 60000010 (demo_row 3)] 30 1 3 1 ''relay-a'' 100 = (Inr True, [demo_published])"
    by code_simp
  with step_published [of "\<lparr>os_db = [take_lease 1 ''relay-a'' 100 60000010 (demo_row 3)], os_issued = [(3, 100)], os_marked = []\<rparr>"
      30 1 3 1 "''relay-a''" 100 True "[demo_published]" 5]
  have r: "outbox_reachable 5 ?s" using outbox_reachable.step [OF demo_reachable] by simp
  have m: "mark_published [demo_published] 40 1 3 1 ''relay-a'' 100 = (Inr False, [demo_published])" by code_simp
  with step_published [of ?s 40 1 3 1 "''relay-a''" 100 False "[demo_published]" 5]
  have "outbox_step 5 ?s ?s" by simp
  from outbox_terminal [OF r _ this, of demo_published] have "demo_published \<in> set (os_db ?s)"
    by (simp add: demo_published_def set_published_def)
  with m show ?thesis by simp
qed

end
