(* ===== verification/Outbox_Relay.thy ===== *)
theory Outbox_Relay
  imports Outbox_Properties
begin

text \<open>
  \<open>app/outbox/relay.py\<close>: one pass of the relay. It is written, as in the source, against an
  \<open>OutboxRepository\<close> (a record of operations) and a publisher; the publisher also returns the
  database as concurrent processes left it, because the broker call runs outside any transaction.
  The interface is a locale, discharged by the SQL repository.
\<close>

subsection \<open>Ports\<close>

record 'db outbox_ops =
  op_claim :: "'db \<Rightarrow> string \<Rightarrow> event_types option \<Rightarrow> int \<Rightarrow> uuid option \<Rightarrow> int \<Rightarrow> int \<Rightarrow>
    (outbox_error + OutboxEvent list) \<times> 'db"
  op_mark_published :: "'db \<Rightarrow> uuid \<Rightarrow> uuid \<Rightarrow> int \<Rightarrow> string \<Rightarrow> uuid \<Rightarrow> (outbox_error + bool) \<times> 'db"
  op_mark_retry :: "'db \<Rightarrow> uuid \<Rightarrow> uuid \<Rightarrow> int \<Rightarrow> string \<Rightarrow> uuid \<Rightarrow> error_source \<Rightarrow> py_datetime \<Rightarrow> int \<Rightarrow>
    (outbox_error + bool) \<times> 'db"

definition sql_ops :: "instant \<Rightarrow> (uuid \<Rightarrow> bool) \<Rightarrow> (nat \<Rightarrow> uuid) \<Rightarrow> outbox_db outbox_ops" where
  "sql_ops now locked tokens =
     \<lparr>op_claim = (\<lambda>db owner types limit tenant lease m. claim db now locked tokens owner types None limit tenant lease m),
      op_mark_published = (\<lambda>db t i v owner k. mark_published db now t i v owner k),
      op_mark_retry = (\<lambda>db t i v owner k d ra m. mark_retry db now t i v owner k d ra m)\<rparr>"

record RelayBatchResult =
  rb_claimed :: int
  rb_published :: int
  rb_retried :: int
  rb_failed :: int
  rb_fenced :: int
  rb_skipped :: int

datatype outcome = Published | Retried | Failed | Fenced | Skipped

fun increment :: "RelayBatchResult \<Rightarrow> outcome \<Rightarrow> RelayBatchResult" where
  "increment r Published = r\<lparr>rb_published := rb_published r + 1\<rparr>"
| "increment r Retried = r\<lparr>rb_retried := rb_retried r + 1\<rparr>"
| "increment r Failed = r\<lparr>rb_failed := rb_failed r + 1\<rparr>"
| "increment r Fenced = r\<lparr>rb_fenced := rb_fenced r + 1\<rparr>"
| "increment r Skipped = r\<lparr>rb_skipped := rb_skipped r + 1\<rparr>"

subsection \<open>The relay\<close>

record relay =
  rl_owner :: string
  rl_event_types :: "string list option"
  rl_batch_size :: int
  rl_lease_seconds :: int
  rl_retry_policy :: RetryPolicy

definition mk_relay ::
  "string \<Rightarrow> event_types option \<Rightarrow> string option \<Rightarrow> int \<Rightarrow> int \<Rightarrow> RetryPolicy \<Rightarrow> outbox_error + relay" where
  "mk_relay owner event_types event_type batch_size lease_seconds policy =
     andthen (require (\<not> (strip owner = [] \<or> length (strip owner) > 200))
                (OutboxValueError ''outbox relay owner must be 1 to 200 characters'')) (\<lambda>_.
     andthen (require (1 \<le> batch_size \<and> batch_size \<le> 500)
                (OutboxValueError ''outbox relay batch_size must be between 1 and 500'')) (\<lambda>_.
     andthen (require (1 \<le> lease_seconds) (OutboxValueError ''outbox relay lease_seconds must be positive'')) (\<lambda>_.
     andthen (normalize_event_types event_types event_type) (\<lambda>selected.
     Inr \<lparr>rl_owner = strip owner, rl_event_types = selected, rl_batch_size = batch_size,
          rl_lease_seconds = lease_seconds, rl_retry_policy = policy\<rparr>))))"

text \<open>\<open>timedelta(seconds=x)\<close>: nearest microsecond, ties to even, at most 999999999 days.\<close>

definition round_half_even :: "rat \<Rightarrow> int" where
  "round_half_even x =
     (let f = \<lfloor>x\<rfloor>; d = x - of_int f in
      if d < 1 / 2 then f else if d > 1 / 2 then f + 1 else if even f then f else f + 1)"

definition timedelta :: "rat \<Rightarrow> outbox_error + int" where
  "timedelta x =
     (let us = round_half_even (x * 1000000) in
      if us div 86400000000 > 999999999 then Inl OutboxOverflowError else Inr us)"

definition build_envelope :: "OutboxEvent \<Rightarrow> py_exception + EventEnvelope" where
  "build_envelope event =
     andthen (require_lease event) (\<lambda>_.
     andthen (routing_key_for_outbox_event (oe_event_type event) (oe_payload event)) (\<lambda>route.
     mk_EventEnvelope \<lparr>ee_event_id = oe_event_id event, ee_tenant_id = oe_tenant_id event,
       ee_aggregate_type = oe_aggregate_type event, ee_aggregate_id = oe_aggregate_id event,
       ee_event_type = oe_event_type event, ee_aggregate_version = oe_aggregate_version event,
       ee_routing_key = Some route\<rparr>))"

text \<open>The \<open>except\<close> branch of \<open>_process_one\<close>, after the lease check.\<close>

definition process_failure ::
  "'db outbox_ops \<Rightarrow> instant \<Rightarrow> relay \<Rightarrow> OutboxEvent \<Rightarrow> string \<Rightarrow> uuid \<Rightarrow> py_exception \<Rightarrow> 'db
   \<Rightarrow> (outbox_error + outcome) \<times> 'db" where
  "process_failure ops clock relay event owner token error db =
     (case andthen (error_details_from_exception error ''publish'' (\<not> exc_is_value_error error)) (\<lambda>details.
           andthen (if should_retry (rl_retry_policy relay) (oe_attempts event) (ed_retryable details)
                    then andthen (delay_seconds (rl_retry_policy relay) (oe_attempts event)) timedelta
                    else Inr 0) (\<lambda>delay. Inr (details, clock + delay))) of
        Inl e \<Rightarrow> (Inl e, db)
      | Inr (details, retry_at) \<Rightarrow>
          (case op_mark_retry ops db (oe_tenant_id event) (oe_event_id event) (oe_aggregate_version event)
                  owner token (Details details) (Aware retry_at) (rp_max_attempts (rl_retry_policy relay)) of
             (Inl e, db') \<Rightarrow> (Inl e, db')
           | (Inr marked, db') \<Rightarrow>
               (Inr (if \<not> marked then Fenced
                     else if should_retry (rl_retry_policy relay) (oe_attempts event) (ed_retryable details)
                     then Retried else Failed), db')))"

definition process_one ::
  "'db outbox_ops \<Rightarrow> (EventEnvelope \<Rightarrow> 'db \<Rightarrow> (py_exception + unit) \<times> 'db) \<Rightarrow> instant \<Rightarrow> relay \<Rightarrow> OutboxEvent \<Rightarrow> 'db
   \<Rightarrow> (outbox_error + outcome) \<times> 'db" where
  "process_one ops publisher clock relay event db =
     (if rl_event_types relay \<noteq> None \<and> oe_event_type event \<notin> set (the (rl_event_types relay)) then (Inr Skipped, db)
      else if oe_claim_owner event \<noteq> Some (rl_owner relay) then (Inr Fenced, db)
      else
        (case (case build_envelope event of Inl e \<Rightarrow> (Inl e, db) | Inr envelope \<Rightarrow> publisher envelope db) of
           (Inl error, db1) \<Rightarrow>
             (case require_lease event of
                Inl _ \<Rightarrow> (Inr Fenced, db1)
              | Inr (owner, token) \<Rightarrow> process_failure ops clock relay event owner token error db1)
         | (Inr _, db1) \<Rightarrow>
             (case require_lease event of
                Inl _ \<Rightarrow> (Inr Fenced, db1)
              | Inr (owner, token) \<Rightarrow>
                  (case op_mark_published ops db1 (oe_tenant_id event) (oe_event_id event)
                          (oe_aggregate_version event) owner token of
                     (Inl e, db2) \<Rightarrow> (Inl e, db2)
                   | (Inr marked, db2) \<Rightarrow> (Inr (if marked then Published else Fenced), db2)))))"

text \<open>
  The batch: \<open>ops i\<close> and \<open>publisher i\<close> are the ports at the \<open>i\<close>-th event (clock readings, tokens and the
  broker's answers differ from call to call). A repository error escapes the loop.
\<close>

fun process_batch ::
  "(nat \<Rightarrow> 'db outbox_ops) \<Rightarrow> (nat \<Rightarrow> EventEnvelope \<Rightarrow> 'db \<Rightarrow> (py_exception + unit) \<times> 'db) \<Rightarrow> (nat \<Rightarrow> instant) \<Rightarrow>
   relay \<Rightarrow> nat \<Rightarrow> OutboxEvent list \<Rightarrow> RelayBatchResult \<Rightarrow> 'db \<Rightarrow> (outbox_error + RelayBatchResult) \<times> 'db" where
  "process_batch ops publisher clock relay i [] result db = (Inr result, db)"
| "process_batch ops publisher clock relay i (e # es) result db =
     (case process_one (ops i) (publisher i) (clock i) relay e db of
        (Inl err, db') \<Rightarrow> (Inl err, db')
      | (Inr out, db') \<Rightarrow> process_batch ops publisher clock relay (Suc i) es (increment result out) db')"

definition run_once ::
  "(nat \<Rightarrow> 'db outbox_ops) \<Rightarrow> (nat \<Rightarrow> EventEnvelope \<Rightarrow> 'db \<Rightarrow> (py_exception + unit) \<times> 'db) \<Rightarrow> (nat \<Rightarrow> instant) \<Rightarrow>
   relay \<Rightarrow> uuid option \<Rightarrow> 'db \<Rightarrow> (outbox_error + RelayBatchResult) \<times> 'db" where
  "run_once ops publisher clock relay tenant db =
     (case op_claim (ops 0) db (rl_owner relay) (map_option ManyTypes (rl_event_types relay)) (rl_batch_size relay)
             tenant (rl_lease_seconds relay) (rp_max_attempts (rl_retry_policy relay)) of
        (Inl e, db') \<Rightarrow> (Inl e, db')
      | (Inr events, db') \<Rightarrow>
          process_batch ops publisher clock relay 0 events
            \<lparr>rb_claimed = int (length events), rb_published = 0, rb_retried = 0, rb_failed = 0, rb_fenced = 0,
             rb_skipped = 0\<rparr> db')"

lemmas [handler_defs] = build_envelope_def process_failure_def process_one_def run_once_def

subsection \<open>The repository's contract\<close>

text \<open>
  What the relay relies on: a mark is acknowledged exactly when its lease is held, an acknowledged
  publish mark leaves the row published, an acknowledged retry mark leaves it pending when the error can be
  retried and the row has attempts left and failed otherwise, and an unacknowledged or rejected mark
  changes nothing.
\<close>

locale fenced_repository =
  fixes ops :: "'db outbox_ops" and wf :: "'db \<Rightarrow> bool"
    and held :: "'db \<Rightarrow> uuid \<Rightarrow> uuid \<Rightarrow> int \<Rightarrow> string \<Rightarrow> uuid \<Rightarrow> bool" and status :: "'db \<Rightarrow> uuid \<Rightarrow> string option"
    and tried :: "'db \<Rightarrow> uuid \<Rightarrow> int"
  assumes published_mark: "wf db \<Longrightarrow> op_mark_published ops db t i v owner k = (Inr ok, db') \<Longrightarrow>
      ok = held db t i v (strip owner) k \<and> (\<not> ok \<longrightarrow> db' = db) \<and> (ok \<longrightarrow> status db' i = Some ''published'')"
    and retry_mark: "wf db \<Longrightarrow> op_mark_retry ops db t i v owner k (Details d) ra m = (Inr ok, db') \<Longrightarrow>
      ok = held db t i v (strip owner) k \<and> (\<not> ok \<longrightarrow> db' = db) \<and>
      (ok \<longrightarrow> status db' i = Some (if tried db i < m \<and> ed_retryable d then ''pending'' else ''failed''))"
begin

text \<open>The lease the relay settles an event under, and that it was lost.\<close>

definition holding :: "OutboxEvent \<Rightarrow> string \<Rightarrow> uuid \<Rightarrow> 'db \<Rightarrow> bool" where
  "holding event owner k db \<longleftrightarrow> held db (oe_tenant_id event) (oe_event_id event) (oe_aggregate_version event) (strip owner) k"

text \<open>
  After one event: counted published only if the broker confirmed it and the row is published;
  counted retried only if it was not confirmed and the row is pending again, failed only if it was not confirmed
  and the row is failed; fenced or skipped only if this relay wrote nothing.
\<close>

lemma process_failure_sound:
  assumes "process_failure ops clock relay event owner k error db = (Inr out, db')" and wf: "wf db"
    and tried: "holding event owner k db \<Longrightarrow> tried db (oe_event_id event) = oe_attempts event"
  shows "out = Retried \<and> status db' (oe_event_id event) = Some ''pending'' \<or> out = Failed \<and> status db' (oe_event_id event) = Some ''failed'' \<or>
    out = Fenced \<and> db' = db \<and> \<not> holding event owner k db'"
proof -
  from assms(1) obtain d ra ok where m: "op_mark_retry ops db (oe_tenant_id event) (oe_event_id event)
      (oe_aggregate_version event) owner k (Details d) (Aware ra) (rp_max_attempts (rl_retry_policy relay)) = (Inr ok, db')"
    and out: "out = (if \<not> ok then Fenced
       else if should_retry (rl_retry_policy relay) (oe_attempts event) (ed_retryable d) then Retried else Failed)"
    by (auto simp: process_failure_def split: sum.splits prod.splits)
  from retry_mark [OF wf m] out tried show ?thesis by (auto simp: should_retry_def holding_def)
qed

lemma process_one_sound:
  assumes "process_one ops publisher clock relay event db = (Inr out, db')" and lease: "require_lease event = Inr (owner, k)"
    and wf: "wf db" "\<And>env. wf (snd (publisher env db))"
    and tried: "holding event owner k db \<Longrightarrow> tried db (oe_event_id event) = oe_attempts event"
      "\<And>env. holding event owner k (snd (publisher env db)) \<Longrightarrow> tried (snd (publisher env db)) (oe_event_id event) = oe_attempts event"
  shows "out = Published \<and> status db' (oe_event_id event) = Some ''published'' \<and>
      (\<exists>env db1. build_envelope event = Inr env \<and> publisher env db = (Inr (), db1) \<and> holding event owner k db1) \<or>
    (out = Retried \<and> status db' (oe_event_id event) = Some ''pending'' \<or> out = Failed \<and> status db' (oe_event_id event) = Some ''failed'') \<and>
      (\<forall>env. build_envelope event = Inr env \<longrightarrow> (\<exists>err db1. publisher env db = (Inl err, db1))) \<or>
    out = Fenced \<and> (oe_claim_owner event \<noteq> Some (rl_owner relay) \<and> db' = db \<or>
      \<not> holding event owner k db' \<and> (db' = db \<or> (\<exists>env. build_envelope event = Inr env \<and> db' = snd (publisher env db)))) \<or>
    out = Skipped \<and> (\<exists>types. rl_event_types relay = Some types \<and> oe_event_type event \<notin> set types) \<and> db' = db"
proof (cases "rl_event_types relay \<noteq> None \<and> oe_event_type event \<notin> set (the (rl_event_types relay)) \<or>
    oe_claim_owner event \<noteq> Some (rl_owner relay)")
  case True
  with assms(1) show ?thesis by (auto simp: process_one_def split: if_splits)
next
  case sel: False
  show ?thesis
  proof (cases "build_envelope event")
    case (Inl e)
    have "process_one ops publisher clock relay event db = process_failure ops clock relay event owner k e db"
      unfolding process_one_def using sel lease Inl by simp auto
    with process_failure_sound [OF _ wf(1) tried(1)] assms(1) Inl show ?thesis by simp blast
  next
    case env: (Inr env)
    obtain ans db1 where pub: "publisher env db = (ans, db1)" by (cases "publisher env db")
    with wf(2) [of env] tried(2) [of env] have db1: "wf db1" "holding event owner k db1 \<Longrightarrow> tried db1 (oe_event_id event) = oe_attempts event"
      by simp_all
    show ?thesis
    proof (cases ans)
      case (Inl err)
      have "process_one ops publisher clock relay event db
          = process_failure ops clock relay event owner k err db1"
        unfolding process_one_def using sel lease pub Inl env by simp auto
      with assms(1) have "process_failure ops clock relay event owner k err db1 = (Inr out, db')" by simp
      from process_failure_sound [OF this db1] Inl pub env show ?thesis by simp blast
    next
      case conf: (Inr u)
      have "process_one ops publisher clock relay event db =
          (case op_mark_published ops db1 (oe_tenant_id event) (oe_event_id event) (oe_aggregate_version event) owner k of
             (Inl e, db2) \<Rightarrow> (Inl e, db2) | (Inr marked, db2) \<Rightarrow> (Inr (if marked then Published else Fenced), db2))"
        unfolding process_one_def using sel lease pub conf env by simp auto
      with assms(1) obtain ok where
        m: "op_mark_published ops db1 (oe_tenant_id event) (oe_event_id event) (oe_aggregate_version event) owner k = (Inr ok, db')"
        and out: "out = (if ok then Published else Fenced)"
        by (auto split: prod.splits sum.splits)
      from published_mark [OF db1(1) m] out lease pub conf env show ?thesis
        by (cases ok) (auto simp: holding_def)
    qed
  qed
qed

end

subsection \<open>The SQL repository meets the contract\<close>

definition row_status :: "outbox_db \<Rightarrow> uuid \<Rightarrow> string option" where
  "row_status db i = (case filter (\<lambda>r. o_id r = i) db of r # _ \<Rightarrow> Some (o_status r) | [] \<Rightarrow> None)"

definition lease_held :: "outbox_db \<Rightarrow> uuid \<Rightarrow> uuid \<Rightarrow> int \<Rightarrow> string \<Rightarrow> uuid \<Rightarrow> bool" where
  "lease_held db t i v owner k \<longleftrightarrow> list_ex (holds_lease t i v owner k) db"

definition unique_rows :: "outbox_db \<Rightarrow> bool" where
  "unique_rows db \<longleftrightarrow> distinct (map o_id db)"

lemma rowcount_held: "unique_rows db \<Longrightarrow> (rowcount (holds_lease t i v own k) db = Suc 0) = lease_held db t i v own k"
proof -
  assume "unique_rows db"
  then have "rowcount (holds_lease t i v own k) db \<le> 1"
    unfolding unique_rows_def by (rule distinct_key_rowcount_le1) (simp add: holds_lease_def)
  moreover have "rowcount (holds_lease t i v own k) db = 0 \<longleftrightarrow> \<not> lease_held db t i v own k"
    by (auto simp: rowcount_0_iff lease_held_def list_ex_iff)
  ultimately show ?thesis by linarith
qed

definition row_attempts :: "outbox_db \<Rightarrow> uuid \<Rightarrow> int" where
  "row_attempts db i = (case filter (\<lambda>r. o_id r = i) db of r # _ \<Rightarrow> o_attempts r | [] \<Rightarrow> 0)"

lemma marked_status:
  assumes u: "unique_rows db" and held: "lease_held db t i v own k" and key: "\<And>r. o_id (f r) = o_id r"
  shows "\<exists>r. holds_lease t i v own k r \<and> r \<in> set db \<and> row_attempts db i = o_attempts r \<and>
    row_status (update_where (holds_lease t i v own k) f db) i = Some (o_status (f r))"
proof -
  let ?P = "holds_lease t i v own k"
  from held obtain r where r: "r \<in> set db" "?P r" by (auto simp: lease_held_def list_ex_iff)
  have d: "distinct (map o_id (update_where ?P f db))"
    using u key by (simp add: unique_rows_def map_update_where)
  have "f r \<in> set (update_where ?P f db)" using r by (auto simp: set_update_where image_iff intro!: bexI [of _ r])
  from distinct_key_filter_singleton [OF d this, of "\<lambda>_. True"] key r(2)
  have "filter (\<lambda>x. o_id x = i) (update_where ?P f db) = [f r]" by (simp add: holds_lease_def)
  moreover have "filter (\<lambda>x. o_id x = i) db = [r]"
    using distinct_key_filter_singleton [of o_id db r "\<lambda>_. True"] u r by (simp add: unique_rows_def holds_lease_def)
  ultimately show ?thesis using r by (auto simp: row_status_def row_attempts_def)
qed

lemma unheld_unchanged: "\<not> lease_held db t i v own k \<Longrightarrow> update_where (holds_lease t i v own k) f db = db"
  by (rule update_where_id) (auto simp: lease_held_def list_ex_iff)

lemma validate_owner_Inr: "validate_owner owner = Inr own \<Longrightarrow> own = strip owner"
  by (auto simp: validate_owner_def Let_def split: if_splits)

interpretation sql_outbox: fenced_repository "sql_ops now locked tokens" unique_rows lease_held row_status row_attempts
proof unfold_locales
  fix db t i v owner k ok db'
  assume u: "unique_rows db" and "op_mark_published (sql_ops now locked tokens) db t i v owner k = (Inr ok, db')"
  then have "ok = lease_held db t i v (strip owner) k"
    "db' = update_where (holds_lease t i v (strip owner) k) (set_published now) db"
    by (auto simp: sql_ops_def mark_published_Inr_iff rowcount_held dest!: validate_owner_Inr)
  with marked_status [OF u, of t i v "strip owner" k "set_published now"] unheld_unchanged
  show "ok = lease_held db t i v (strip owner) k \<and> (\<not> ok \<longrightarrow> db' = db) \<and> (ok \<longrightarrow> row_status db' i = Some ''published'')"
    by (auto simp: set_published_def)
next
  fix db t i v owner k d ra m ok db'
  assume u: "unique_rows db" and "op_mark_retry (sql_ops now locked tokens) db t i v owner k (Details d) ra m = (Inr ok, db')"
  then have "ok = lease_held db t i v (strip owner) k"
    "db' = update_where (holds_lease t i v (strip owner) k) (set_retry now d (utc_instant ra) m) db"
    by (auto simp: sql_ops_def mark_retry_Inr_iff rowcount_held dest!: validate_owner_Inr)
  with marked_status [OF u, of t i v "strip owner" k "set_retry now d (utc_instant ra) m"] unheld_unchanged
  show "ok = lease_held db t i v (strip owner) k \<and> (\<not> ok \<longrightarrow> db' = db) \<and>
      (ok \<longrightarrow> row_status db' i = Some (if row_attempts db i < m \<and> ed_retryable d then ''pending'' else ''failed''))"
    by (auto simp: set_retry_def Let_def)
qed

subsection \<open>Theorems\<close>

definition settled_total :: "RelayBatchResult \<Rightarrow> int" where
  "settled_total r = rb_published r + rb_retried r + rb_failed r + rb_fenced r + rb_skipped r"

lemma increment_total: "settled_total (increment r out) = settled_total r + 1 \<and> rb_claimed (increment r out) = rb_claimed r"
  by (cases out) (simp_all add: settled_total_def)

lemma process_batch_total:
  "process_batch ops publisher clock relay i es r db = (Inr r', db') \<Longrightarrow>
   settled_total r' = settled_total r + int (length es) \<and> rb_claimed r' = rb_claimed r"
proof (induction ops publisher clock relay i es r db rule: process_batch.induct)
  case (2 ops publisher clock relay i e es r db)
  then obtain out db1 where "process_one (ops i) (publisher i) (clock i) relay e db = (Inr out, db1)"
    "process_batch ops publisher clock relay (Suc i) es (increment r out) db1 = (Inr r', db')"
    by (auto split: prod.splits sum.splits)
  with 2(1) [OF this(1) [symmetric]] show ?case using increment_total [of r out] by auto
qed simp

text \<open>
  Every claimed event is accounted for exactly once: when a pass returns, the events it counts as
  published, retried, failed, fenced or skipped add up to the events it claimed, whatever the broker
  answered and whatever other processes did meanwhile.
\<close>

theorem relay_accounts_for_every_event:
  assumes "run_once ops publisher clock relay tenant db = (Inr result, db')"
  shows "rb_published result + rb_retried result + rb_failed result + rb_fenced result + rb_skipped result = rb_claimed result"
proof -
  from assms obtain events db1 where
    "process_batch ops publisher clock relay 0 events \<lparr>rb_claimed = int (length events), rb_published = 0,
      rb_retried = 0, rb_failed = 0, rb_fenced = 0, rb_skipped = 0\<rparr> db1 = (Inr result, db')"
    by (auto simp: run_once_def split: prod.splits sum.splits)
  from process_batch_total [OF this] show ?thesis by (simp add: settled_total_def)
qed

definition demo_relay :: relay where
  "demo_relay = \<lparr>rl_owner = ''relay-a'', rl_event_types = None, rl_batch_size = 1, rl_lease_seconds = 60,
     rl_retry_policy = \<lparr>rp_max_attempts = 5, rp_base_seconds = 1, rp_max_seconds = 300\<rparr>\<rparr>"

definition demo_ops :: "nat \<Rightarrow> outbox_db outbox_ops" where
  "demo_ops i = sql_ops (10 + int i) (\<lambda>_. False) (\<lambda>j. 100 + j)"

definition broker_up :: "EventEnvelope \<Rightarrow> outbox_db \<Rightarrow> (py_exception + unit) \<times> outbox_db" where
  "broker_up envelope db = (Inr (), db)"

theorem relay_accounts_for_every_event_witness:
  "\<exists>result db'. run_once demo_ops (\<lambda>_. broker_up) int demo_relay None [demo_row 3] = (Inr result, db') \<and>
     rb_published result + rb_retried result + rb_failed result + rb_fenced result + rb_skipped result = rb_claimed result \<and>
     rb_published result = 1"
proof -
  have "(case fst (run_once demo_ops (\<lambda>_. broker_up) int demo_relay None [demo_row 3]) of
      Inr result \<Rightarrow> rb_published result = 1 | Inl _ \<Rightarrow> False)"
    by code_simp
  then obtain result db' where r: "run_once demo_ops (\<lambda>_. broker_up) int demo_relay None [demo_row 3] = (Inr result, db')"
    "rb_published result = 1"
    by (cases "run_once demo_ops (\<lambda>_. broker_up) int demo_relay None [demo_row 3]") (auto split: sum.splits)
  with relay_accounts_for_every_event [OF r(1)] show ?thesis by blast
qed

lemma held_attempts:
  assumes "lease_agrees e db" and "unique_rows db" and "require_lease e = Inr (owner, k)"
    and "lease_held db (oe_tenant_id e) (oe_event_id e) (oe_aggregate_version e) own k"
  shows "row_attempts db (oe_event_id e) = oe_attempts e"
proof -
  obtain r where r: "holds_lease (oe_tenant_id e) (oe_event_id e) (oe_aggregate_version e) own k r" "r \<in> set db"
    "row_attempts db (oe_event_id e) = o_attempts r"
    using marked_status [OF assms(2,4), of id] by auto
  then show ?thesis using assms(1,3) by (auto simp: lease_agrees_def holds_lease_def require_lease_def split: option.splits)
qed

text \<open>
  C11. What the relay counts is true of the outbox. Take an event a claim returned under a fresh lease token, let any relays
  insert, claim and mark rows after that, and any more of them run during the broker call. If the relay counts the event
  published, the broker confirmed it, its lease was still held and its row is published; if it counts it retried, it was
  not confirmed and its row is pending again; if it counts it failed, it was not confirmed and its row is failed; if it
  counts it fenced, the event belongs to another relay or its lease is no longer held, and the relay wrote nothing;
  and it skips only events of types it does not serve.
\<close>

theorem relay_process_one_sound:
  assumes "outbox_reachable m s0" and "0 \<le> m"
    and "claim (os_db s0) now0 locked0 tokens0 owner0 ets et limit tenant ls m = (Inr events, db0)" and "event \<in> set events"
    and "inj tokens0" and "range tokens0 \<inter> snd ` set (os_issued s0) = {}"
    and "(outbox_step m)\<^sup>*\<^sup>* (s0\<lparr>os_db := db0, os_issued := os_issued s0 @ map event_lease events\<rparr>) s"
    and "\<And>env. \<exists>s'. (outbox_step m)\<^sup>*\<^sup>* s s' \<and> snd (publisher env (os_db s)) = os_db s'"
    and "process_one (sql_ops now locked tokens) publisher clock relay event (os_db s) = (Inr out, db')"
    and "require_lease event = Inr (owner, k)"
  shows "out = Published \<and> row_status db' (oe_event_id event) = Some ''published'' \<and>
      (\<exists>env db1. build_envelope event = Inr env \<and> publisher env (os_db s) = (Inr (), db1) \<and>
        lease_held db1 (oe_tenant_id event) (oe_event_id event) (oe_aggregate_version event) (strip owner) k) \<or>
    (out = Retried \<and> row_status db' (oe_event_id event) = Some ''pending'' \<or>
     out = Failed \<and> row_status db' (oe_event_id event) = Some ''failed'') \<and>
      (\<forall>env. build_envelope event = Inr env \<longrightarrow> (\<exists>err db1. publisher env (os_db s) = (Inl err, db1))) \<or>
    out = Fenced \<and> (oe_claim_owner event \<noteq> Some (rl_owner relay) \<and> db' = os_db s \<or>
      \<not> lease_held db' (oe_tenant_id event) (oe_event_id event) (oe_aggregate_version event) (strip owner) k \<and>
      (db' = os_db s \<or> (\<exists>env. build_envelope event = Inr env \<and> db' = snd (publisher env (os_db s))))) \<or>
    out = Skipped \<and> (\<exists>types. rl_event_types relay = Some types \<and> oe_event_type event \<notin> set types) \<and> db' = os_db s"
proof -
  note inv0 = outbox_reachable_inv [OF assms(1,2)]
  note e = claimed_agrees [OF inv0 assms(3,5,6,4)]
  have "event_lease event \<in> set (os_issued s0 @ map event_lease events)" using e by simp
  then have i: "the (oe_lease_token event) \<in> snd ` set (os_issued s0 @ map event_lease events)"
    using e by (metis image_eqI option.sel)
  note s = steps_agree [OF assms(7) claim_inv [OF inv0 assms(3,5,6)] assms(2), of event, simplified, OF e [THEN conjunct1] i [simplified]]
  have pub: "unique_rows (snd (publisher env (os_db s))) \<and> lease_agrees event (snd (publisher env (os_db s)))" for env
  proof -
    obtain s' where s': "(outbox_step m)\<^sup>*\<^sup>* s s'" "snd (publisher env (os_db s)) = os_db s'" using assms(8) by blast
    have "outbox_inv m s' \<and> lease_agrees event (os_db s')" using steps_agree [OF s'(1) s [THEN conjunct1] assms(2), of event] s by simp
    then show ?thesis using s'(2) outbox_invD(1) [of m s'] by (simp add: unique_rows_def)
  qed
  have u: "unique_rows (os_db s)" using outbox_invD(1) [OF s [THEN conjunct1]] by (simp add: unique_rows_def)
  show ?thesis
    using sql_outbox.process_one_sound [OF assms(9,10) u pub [THEN conjunct1]] held_attempts [OF s [THEN conjunct2, THEN conjunct1] u assms(10)] held_attempts [OF pub [THEN conjunct2] pub [THEN conjunct1] assms(10)]
    unfolding sql_outbox.holding_def by blast
qed

definition demo_event :: OutboxEvent where
  "demo_event = (case fst demo_claim of Inr (e # _) \<Rightarrow> e)"

definition demo_claimed :: outbox_sys where
  "demo_claimed = \<lparr>os_db = snd demo_claim, os_issued = [(3, 100)], os_marked = []\<rparr>"

text \<open>The broker refuses the event as invalid data.\<close>

definition broker_rejects :: "EventEnvelope \<Rightarrow> outbox_db \<Rightarrow> (py_exception + unit) \<times> outbox_db" where
  "broker_rejects envelope db = (Inl ValueError, db)"

theorem relay_process_one_sound_witness:
  "\<exists>db'. process_one (sql_ops 20 (\<lambda>_. False) (\<lambda>j. j)) broker_rejects 20 demo_relay demo_event (os_db demo_claimed) = (Inr Failed, db') \<and>
     row_status db' (oe_event_id demo_event) = Some ''failed''"
proof -
  have "fst (process_one (sql_ops 20 (\<lambda>_. False) (\<lambda>j. j)) broker_rejects 20 demo_relay demo_event (os_db demo_claimed)) = Inr Failed"
    unfolding demo_event_def demo_claimed_def demo_claim_eval by code_simp
  then obtain db' where p: "process_one (sql_ops 20 (\<lambda>_. False) (\<lambda>j. j)) broker_rejects 20 demo_relay demo_event (os_db demo_claimed)
      = (Inr Failed, db')" by (metis prod.collapse)
  let ?s = "\<lparr>os_db = [demo_row 3], os_issued = [], os_marked = []\<rparr>"
  have e: "fst demo_claim = Inr [demo_event]" "event_lease demo_event = (3, 100)" "require_lease demo_event = Inr (''relay-a'', 100)"
    by (simp_all add: demo_event_def demo_claim_eval event_lease_def require_lease_def)
  have c: "claim (os_db ?s) 10 (\<lambda>_. False) (\<lambda>j. 100 + j) ''relay-a'' None None 1 None 60 5 = (Inr [demo_event], snd demo_claim)"
    using e(1) by (simp add: demo_claim_def prod_eq_iff)
  have same: "?s\<lparr>os_db := snd demo_claim, os_issued := os_issued ?s @ map event_lease [demo_event]\<rparr> = demo_claimed"
    by (simp add: demo_claimed_def e(2))
  have "inj (\<lambda>j. 100 + j :: nat)" by (simp add: inj_def)
  from relay_process_one_sound [OF demo_inserted _ c _ this _ _ _ p e(3), unfolded same]
  have "row_status db' (oe_event_id demo_event) = Some ''failed''" by (auto simp: broker_rejects_def)
  with p show ?thesis by blast
qed

end
