(* ===== verification/Generation_State.thy ===== *)
theory Generation_State
  imports Billing_Pricing
begin

text \<open>
  \<open>app/generations/state.py\<close>: the declared state machine of a generation job, with the status names
  of \<open>app/contracts/generations.py\<close> as constructors.
\<close>

datatype GenerationStatus =
    Accepted | Reserved | Submitted | Submitted_unknown | Queued | Running | Storing
  | Succeeded | Failed | Cancelled | Expired

definition TERMINAL_STATUSES :: "GenerationStatus list" where
  "TERMINAL_STATUSES = [Succeeded, Failed, Cancelled, Expired]"

fun ALLOWED_TRANSITIONS :: "GenerationStatus \<Rightarrow> GenerationStatus list" where
  "ALLOWED_TRANSITIONS Accepted = [Reserved, Failed, Cancelled, Expired]"
| "ALLOWED_TRANSITIONS Reserved = [Queued, Failed, Cancelled, Expired]"
| "ALLOWED_TRANSITIONS Queued = [Accepted, Submitted, Failed, Cancelled, Expired]"
| "ALLOWED_TRANSITIONS Submitted = [Running, Submitted_unknown, Failed, Cancelled]"
| "ALLOWED_TRANSITIONS Submitted_unknown = [Running, Failed, Cancelled, Expired]"
| "ALLOWED_TRANSITIONS Running = [Storing, Succeeded, Failed, Cancelled, Expired]"
| "ALLOWED_TRANSITIONS Storing = [Succeeded, Failed, Expired]"
| "ALLOWED_TRANSITIONS Succeeded = []"
| "ALLOWED_TRANSITIONS Failed = []"
| "ALLOWED_TRANSITIONS Cancelled = []"
| "ALLOWED_TRANSITIONS Expired = []"

datatype gen_error =
    InvalidGenerationTransition
  | GenerationNotFoundError
  | GenerationStateConflictError
  | GenerationInfrastructureError string
  | IdempotencyConflictError
  | IdempotencyInProgressError
  | ModelUnavailableError
  | GenValueError string
  | BillingFailure billing_error

definition assert_transition :: "GenerationStatus \<Rightarrow> GenerationStatus \<Rightarrow> gen_error + unit" where
  "assert_transition current target = require (target \<in> set (ALLOWED_TRANSITIONS current)) InvalidGenerationTransition"

definition is_terminal :: "GenerationStatus \<Rightarrow> bool" where
  "is_terminal s \<longleftrightarrow> s \<in> set TERMINAL_STATUSES"

text \<open>
  Where a job stands with respect to the chargeable provider call: before it, at or past the commit to
  it, or finished. No declared transition goes back.
\<close>

fun stage :: "GenerationStatus \<Rightarrow> nat" where
  "stage Accepted = 0" | "stage Reserved = 0" | "stage Queued = 0"
| "stage Submitted = 1"
| "stage Submitted_unknown = 2" | "stage Running = 2" | "stage Storing = 2"
| "stage Succeeded = 3" | "stage Failed = 3" | "stage Cancelled = 3" | "stage Expired = 3"

lemma terminal_iff: "is_terminal s \<longleftrightarrow> ALLOWED_TRANSITIONS s = []"
  by (cases s) (simp_all add: is_terminal_def TERMINAL_STATUSES_def)

lemma stage_mono: "t \<in> set (ALLOWED_TRANSITIONS s) \<Longrightarrow> stage s \<le> stage t"
  by (cases s) auto

lemma submitted_only_from_queued: "Submitted \<in> set (ALLOWED_TRANSITIONS s) \<Longrightarrow> s = Queued"
  by (cases s) auto

end
