(* ===== verification/Audit_Log.thy ===== *)
theory Audit_Log
  imports Prelude
begin

text \<open>
  \<open>app/audit/writer.py\<close>: the append-only audit log and its guard against sensitive payload keys.
  \<open>str.casefold\<close> is \<open>lower\<close> on ASCII.
\<close>

record AuditContext =
  ac_request_id :: "uuid option"
  ac_ip_address :: "string option"
  ac_user_agent :: "string option"

record AuditEvent =
  au_id :: uuid
  au_tenant_id :: uuid
  au_actor_user_id :: "uuid option"
  au_action :: string
  au_resource_type :: string
  au_resource_id :: "uuid option"
  au_request_id :: "uuid option"
  au_payload :: "(string \<times> json) list"
  au_ip_address :: "string option"
  au_user_agent :: "string option"

definition audit_char :: "char \<Rightarrow> bool" where
  "audit_char c \<longleftrightarrow> is_lower c \<or> is_digit c \<or> c \<in> set ''._:-''"

definition is_audit_action :: "string \<Rightarrow> bool" where
  "is_audit_action s \<longleftrightarrow> 3 \<le> length s \<and> length s \<le> 160 \<and> is_lower (hd s) \<and> list_all audit_char (tl s)"

definition is_audit_resource_type :: "string \<Rightarrow> bool" where
  "is_audit_resource_type s \<longleftrightarrow> 2 \<le> length s \<and> length s \<le> 64 \<and> is_lower (hd s) \<and> list_all audit_char (tl s)"

definition SENSITIVE_KEYS :: "string list" where
  "SENSITIVE_KEYS = [''authorization'', ''cookie'', ''password'', ''secret'', ''session_token'', ''token'']"

datatype audit_error = AuditValueError string

definition append_audit_event ::
  "AuditEvent list \<Rightarrow> uuid \<Rightarrow> uuid \<Rightarrow> uuid option \<Rightarrow> string \<Rightarrow> string \<Rightarrow> uuid option \<Rightarrow> AuditContext \<Rightarrow>
   (string \<times> json) list \<Rightarrow> audit_error + AuditEvent list" where
  "append_audit_event audit_log new_id tenant actor action resource_type resource_id context payload =
     andthen (require (is_audit_action action) (AuditValueError ''audit action is invalid'')) (\<lambda>_.
     andthen (require (is_audit_resource_type resource_type) (AuditValueError ''audit resource type is invalid'')) (\<lambda>_.
     andthen (require (\<not> list_ex (\<lambda>kv. lower (fst kv) \<in> set SENSITIVE_KEYS) payload)
                (AuditValueError ''audit payload contains a sensitive key'')) (\<lambda>_.
     Inr (audit_log @ [\<lparr>au_id = new_id, au_tenant_id = tenant, au_actor_user_id = actor, au_action = action,
       au_resource_type = resource_type, au_resource_id = resource_id, au_request_id = ac_request_id context,
       au_payload = payload, au_ip_address = ac_ip_address context,
       au_user_agent = (case ac_user_agent context of None \<Rightarrow> None | Some [] \<Rightarrow> None | Some s \<Rightarrow> Some (take 512 s))\<rparr>]))))"

lemma append_audit_event_Inr:
  assumes "append_audit_event audit_log i t a act ty res ctx payload = Inr log'"
  shows "\<exists>e. log' = audit_log @ [e] \<and> au_action e = act \<and> au_payload e = payload \<and>
    (\<forall>kv \<in> set payload. lower (fst kv) \<notin> set SENSITIVE_KEYS)"
  using assms by (auto simp: append_audit_event_def list_ex_iff)

end
