(* ===== verification/Shared_Tables.thy ===== *)
theory Shared_Tables
  imports Billing_Operations
begin

text \<open>
  What the generation and the chat tables of \<open>app/infrastructure/models.py\<close> have in common: column widths,
  the accepted-decision snapshot both carry and the idempotency records of client requests (\<open>'b\<close> is the stored
  response body).
\<close>

subsection \<open>Columns\<close>

definition fits :: "nat \<Rightarrow> string option \<Rightarrow> bool" where
  "fits n v \<longleftrightarrow> (case v of None \<Rightarrow> True | Some s \<Rightarrow> length s \<le> n)"

fun first_row :: "'a list \<Rightarrow> 'a option" where
  "first_row [] = None"
| "first_row (x # xs) = Some x"

definition is_sha256_hex :: "string \<Rightarrow> bool" where
  "is_sha256_hex s \<longleftrightarrow> length s = 64 \<and> list_all (\<lambda>c. is_digit c \<or> c \<in> set ''abcdef'') s"

fun null_or :: "('a \<Rightarrow> bool) \<Rightarrow> 'a option \<Rightarrow> bool" where
  "null_or P None \<longleftrightarrow> True"
| "null_or P (Some v) \<longleftrightarrow> P v"

text \<open>
  The accepted snapshot is absent or complete. A check constraint rejects a row only when it is false, so a
  comparison with NULL lets the second alternative pass.
\<close>

definition snapshot_complete ::
  "uuid \<Rightarrow> uuid option \<Rightarrow> uuid option \<Rightarrow> uuid option \<Rightarrow> uuid option \<Rightarrow> int option \<Rightarrow> string option \<Rightarrow> json option \<Rightarrow> json option \<Rightarrow> bool"
where
  "snapshot_complete model_deployment revision deployment policy price version hash schema input \<longleftrightarrow>
     revision = None \<and> deployment = None \<and> policy = None \<and> price = None \<and> version = None \<and> hash = None \<and> schema = None \<and> input = None \<or>
     revision \<noteq> None \<and> deployment = Some model_deployment \<and> policy \<noteq> None \<and> price \<noteq> None \<and>
     null_or (\<lambda>v. 0 < v) version \<and> null_or is_sha256_hex hash \<and>
     null_or (\<lambda>v. case v of JObj _ \<Rightarrow> True | _ \<Rightarrow> False) schema \<and> null_or (\<lambda>v. case v of JObj _ \<Rightarrow> True | _ \<Rightarrow> False) input"

subsection \<open>Idempotency records\<close>

record 'b IdempotencyRecord =
  id_id :: uuid
  id_tenant_id :: uuid
  id_actor_user_id :: uuid
  id_operation :: string
  id_key :: string
  id_request_hash :: string
  id_status :: string
  id_response_status :: "int option"
  id_response_body :: "'b option"
  id_resource_type :: "string option"
  id_resource_id :: "uuid option"

definition idempotency_scope :: "'b IdempotencyRecord \<Rightarrow> uuid \<times> uuid \<times> string \<times> string" where
  "idempotency_scope r = (id_tenant_id r, id_actor_user_id r, id_operation r, id_key r)"

definition idempotency_ok :: "'b IdempotencyRecord list \<Rightarrow> bool" where
  "idempotency_ok rs \<longleftrightarrow> distinct (map id_id rs) \<and> distinct (map idempotency_scope rs)"

end
