(* ===== verification/Generation_Jobs.thy ===== *)
theory Generation_Jobs
  imports Generation_State Audit_Log Shared_Tables Outbox_Types
begin

text \<open>
  The job repository of \<open>app/generations/repository.py\<close> over the rows of \<open>GenerationJobs\<close>,
  \<open>GenerationArtifacts\<close> and \<open>InboxEvents\<close>: claims with a lease and a fencing token, fenced
  transitions and the provider identifiers. Each operation is one transaction returning its outcome
  and the committed database. Of the catalog the
  queries join, only the product key and the concurrency limit of a deployment are read.
\<close>

subsection \<open>Rows\<close>

record GenJob =
  j_id :: uuid
  j_job_id :: uuid
  j_tenant_id :: uuid
  j_actor_user_id :: "uuid option"
  j_model_deployment_id :: uuid
  j_accepted_model_revision_id :: "uuid option"
  j_accepted_model_deployment_id :: "uuid option"
  j_accepted_routing_policy_id :: "uuid option"
  j_accepted_price_version_id :: "uuid option"
  j_accepted_capability_schema_version :: "int option"
  j_accepted_capability_schema_hash :: "string option"
  j_accepted_capability_schema :: "json option"
  j_accepted_input_snapshot :: "json option"
  j_billing_reservation_id :: "uuid option"
  j_modality :: string
  j_status :: GenerationStatus
  j_provider_request_id :: "string option"
  j_provider_task_id :: "string option"
  j_request_hash :: "string option"
  j_request_payload :: "(string \<times> json) list"
  j_error_code :: "string option"
  j_claim_owner :: "string option"
  j_lease_token :: "uuid option"
  j_lease_expires_at :: "instant option"
  j_fencing_token :: int
  j_reconciliation_status :: string
  j_provider_observed_status :: "string option"
  j_provider_observed_at :: "instant option"
  j_deleted_at :: "instant option"
  j_started_at :: "instant option"
  j_completed_at :: "instant option"
  j_created_at :: instant
  j_updated_at :: instant

record GenArtifact =
  a_id :: uuid
  a_tenant_id :: uuid
  a_generation_job_id :: uuid
  a_kind :: string
  a_status :: string
  a_storage_provider :: string
  a_object_key :: string
  a_mime_type :: string
  a_size_bytes :: int
  a_sha256 :: "string option"
  a_expires_at :: "instant option"
  a_updated_at :: instant

record InboxEvent =
  ib_id :: uuid
  ib_tenant_id :: uuid
  ib_provider_name :: string
  ib_event_key :: string
  ib_event_type :: string
  ib_payload_digest :: string
  ib_normalized_payload :: "(string \<times> json) list"
  ib_status :: string

text \<open>Deployments are rows (identifier, product model key, concurrency limit).\<close>

record gen_db =
  g_jobs :: "GenJob list"
  g_artifacts :: "GenArtifact list"
  g_inbox :: "InboxEvent list"
  g_deployments :: "(uuid \<times> string \<times> int) list"
  g_audit :: "AuditEvent list"
  g_billing :: billing_db

text \<open>The constraints of the jobs table that an update can break.\<close>

definition lease_consistent :: "GenJob \<Rightarrow> bool" where
  "lease_consistent j \<longleftrightarrow>
     j_claim_owner j = None \<and> j_lease_token j = None \<and> j_lease_expires_at j = None \<or>
     j_claim_owner j \<noteq> None \<and> j_claim_owner j \<noteq> Some [] \<and> j_lease_token j \<noteq> None \<and> j_lease_expires_at j \<noteq> None"

definition job_check :: "GenJob \<Rightarrow> bool" where
  "job_check j \<longleftrightarrow>
     j_modality j \<in> set [''text'', ''image'', ''video'', ''audio''] \<and> 0 \<le> j_fencing_token j \<and> lease_consistent j \<and>
     j_reconciliation_status j \<in> set [''not_required'', ''pending'', ''resolved'', ''disputed''] \<and>
     snapshot_complete (j_model_deployment_id j) (j_accepted_model_revision_id j) (j_accepted_model_deployment_id j)
       (j_accepted_routing_policy_id j) (j_accepted_price_version_id j) (j_accepted_capability_schema_version j)
       (j_accepted_capability_schema_hash j) (j_accepted_capability_schema j) (j_accepted_input_snapshot j)"

definition provider_keys :: "(GenJob \<Rightarrow> string option) \<Rightarrow> GenJob list \<Rightarrow> (uuid \<times> uuid \<times> string) list" where
  "provider_keys f js = map (\<lambda>j. (j_tenant_id j, j_model_deployment_id j, the (f j))) (filter (\<lambda>j. f j \<noteq> None) js)"

definition job_widths :: "GenJob \<Rightarrow> bool" where
  "job_widths j \<longleftrightarrow>
     fits 255 (j_provider_request_id j) \<and> fits 255 (j_provider_task_id j) \<and> fits 128 (j_request_hash j) \<and>
     fits 120 (j_error_code j) \<and> fits 200 (j_claim_owner j) \<and> fits 64 (j_provider_observed_status j)"

definition jobs_flush :: "gen_db \<Rightarrow> gen_error raised + gen_db" where
  "jobs_flush db =
     (if \<not> list_all (\<lambda>j. bigint (j_fencing_token j)) (g_jobs db) then Inl (Sql NumericOutOfRange)
      else if \<not> list_all job_widths (g_jobs db) then Inl (Sql StringTooLong)
      else if \<not> list_all job_check (g_jobs db) then Inl (Sql CheckViolation)
      else if \<not> (distinct (map j_id (g_jobs db)) \<and> distinct (map j_job_id (g_jobs db)) \<and>
                  distinct (provider_keys j_provider_request_id (g_jobs db)) \<and>
                  distinct (provider_keys j_provider_task_id (g_jobs db))) then Inl (Sql UniqueViolation)
      else Inr db)"

definition jobs_ok :: "gen_db \<Rightarrow> bool" where
  "jobs_ok db \<longleftrightarrow>
     list_all (\<lambda>j. bigint (j_fencing_token j)) (g_jobs db) \<and> list_all job_widths (g_jobs db) \<and>
     list_all job_check (g_jobs db) \<and>
     distinct (map j_id (g_jobs db)) \<and> distinct (map j_job_id (g_jobs db)) \<and>
     distinct (provider_keys j_provider_request_id (g_jobs db)) \<and>
     distinct (provider_keys j_provider_task_id (g_jobs db))"

lemma jobs_flush_Inr_iff [simp]: "jobs_flush db = Inr db' \<longleftrightarrow> db' = db \<and> jobs_ok db"
  by (auto simp: jobs_flush_def jobs_ok_def)

subsection \<open>Records\<close>

record PublicArtifact =
  pa_artifact_id :: uuid
  pa_kind :: string
  pa_status :: string
  pa_mime_type :: string
  pa_size_bytes :: int

record GenerationRecord =
  gr_db_id :: uuid
  gr_job_id :: uuid
  gr_tenant_id :: uuid
  gr_actor_user_id :: "uuid option"
  gr_product_model_id :: string
  gr_modality :: string
  gr_status :: GenerationStatus
  gr_request_payload :: "(string \<times> json) list"
  gr_created_at :: instant
  gr_updated_at :: instant
  gr_completed_at :: "instant option"
  gr_error_code :: "string option"
  gr_model_deployment_id :: uuid
  gr_concurrency_limit :: int
  gr_billing_reservation_id :: "uuid option"
  gr_claim_owner :: "string option"
  gr_lease_token :: "uuid option"
  gr_lease_expires_at :: "instant option"
  gr_fencing_token :: int
  gr_reconciliation_status :: string
  gr_provider_request_id :: "string option"
  gr_provider_task_id :: "string option"
  gr_artifacts :: "PublicArtifact list"

definition public_artifact :: "GenArtifact \<Rightarrow> PublicArtifact" where
  "public_artifact a = \<lparr>pa_artifact_id = a_id a, pa_kind = a_kind a, pa_status = a_status a,
     pa_mime_type = a_mime_type a, pa_size_bytes = a_size_bytes a\<rparr>"

definition record_from_job :: "GenJob \<Rightarrow> string \<Rightarrow> PublicArtifact list \<Rightarrow> int \<Rightarrow> GenerationRecord" where
  "record_from_job j product artifacts limit =
     \<lparr>gr_db_id = j_id j, gr_job_id = j_job_id j, gr_tenant_id = j_tenant_id j, gr_actor_user_id = j_actor_user_id j,
      gr_product_model_id = product, gr_modality = j_modality j, gr_status = j_status j,
      gr_request_payload = j_request_payload j, gr_created_at = j_created_at j, gr_updated_at = j_updated_at j,
      gr_completed_at = j_completed_at j, gr_error_code = j_error_code j,
      gr_model_deployment_id = j_model_deployment_id j, gr_concurrency_limit = limit,
      gr_billing_reservation_id = j_billing_reservation_id j, gr_claim_owner = j_claim_owner j,
      gr_lease_token = j_lease_token j, gr_lease_expires_at = j_lease_expires_at j,
      gr_fencing_token = j_fencing_token j, gr_reconciliation_status = j_reconciliation_status j,
      gr_provider_request_id = j_provider_request_id j, gr_provider_task_id = j_provider_task_id j,
      gr_artifacts = artifacts\<rparr>"

text \<open>\<open>_job_query\<close>: the inner join of a job with its deployment and product.\<close>

fun job_query :: "(uuid \<times> string \<times> int) list \<Rightarrow> GenJob list \<Rightarrow> (GenJob \<times> string \<times> int) list" where
  "job_query deployments [] = []"
| "job_query deployments (j # js) =
     (case map_of deployments (j_model_deployment_id j) of
        Some d \<Rightarrow> (j, d) # job_query deployments js | None \<Rightarrow> job_query deployments js)"

definition materialize :: "gen_db \<Rightarrow> uuid \<Rightarrow> GenJob \<times> string \<times> int \<Rightarrow> GenerationRecord" where
  "materialize db t row =
     (case row of (j, product, limit) \<Rightarrow>
        record_from_job j product
          (map public_artifact (filter (\<lambda>a. a_tenant_id a = t \<and> a_generation_job_id a = j_id j) (g_artifacts db))) limit)"

definition get_by_job_id :: "gen_db \<Rightarrow> uuid \<Rightarrow> uuid \<Rightarrow> uuid option \<Rightarrow> GenerationRecord option" where
  "get_by_job_id db t jid actor =
     map_option (materialize db t) (first_row (filter (\<lambda>(j, _). j_tenant_id j = t \<and> j_job_id j = jid \<and>
       (case actor of None \<Rightarrow> True | Some a \<Rightarrow> j_actor_user_id j = Some a)) (job_query (g_deployments db) (g_jobs db))))"

definition get_by_db_id :: "gen_db \<Rightarrow> uuid \<Rightarrow> uuid \<Rightarrow> GenerationRecord option" where
  "get_by_db_id db t i =
     map_option (materialize db t) (first_row (filter (\<lambda>(j, _). j_tenant_id j = t \<and> j_id j = i)
       (job_query (g_deployments db) (g_jobs db))))"

definition get_job :: "gen_db \<Rightarrow> uuid \<Rightarrow> uuid \<Rightarrow> uuid \<Rightarrow> GenerationRecord option" where
  "get_job db t actor jid =
     map_option (materialize db t) (first_row (filter (\<lambda>(j, _). j_tenant_id j = t \<and> j_actor_user_id j = Some actor \<and>
       j_job_id j = jid \<and> j_deleted_at j = None) (job_query (g_deployments db) (g_jobs db))))"

definition list_recent :: "gen_db \<Rightarrow> uuid \<Rightarrow> uuid \<Rightarrow> int \<Rightarrow> gen_error + GenerationRecord list" where
  "list_recent db t actor limit =
     andthen (require (1 \<le> limit \<and> limit \<le> 100) (GenValueError ''generation list limit must be between 1 and 100'')) (\<lambda>_.
     Inr (map (\<lambda>(j, product, _). record_from_job j product
            (map public_artifact (sort_key a_id
               (filter (\<lambda>a. a_tenant_id a = t \<and> a_generation_job_id a = j_id j) (g_artifacts db)))) 1)
       (take (nat limit) (rev (sort_key (\<lambda>(j, _). (j_created_at j, j_id j))
         (filter (\<lambda>(j, _). j_tenant_id j = t \<and> j_deleted_at j = None \<and> j_actor_user_id j = Some actor)
           (job_query (g_deployments db) (g_jobs db))))))))"

subsection \<open>Guarded updates\<close>

text \<open>\<open>UPDATE generation_jobs SET ... WHERE P\<close> with its row count.\<close>

definition update_jobs :: "(GenJob \<Rightarrow> bool) \<Rightarrow> (GenJob \<Rightarrow> GenJob) \<Rightarrow> gen_db \<Rightarrow> gen_db" where
  "update_jobs P f db = db\<lparr>g_jobs := update_where P f (g_jobs db)\<rparr>"

definition update_one ::
  "(GenJob \<Rightarrow> bool) \<Rightarrow> (GenJob \<Rightarrow> GenJob) \<Rightarrow> gen_db \<Rightarrow> gen_error raised + gen_db" where
  "update_one P f db =
     andthen (jobs_flush (update_jobs P f db)) (\<lambda>db'.
     andthen (require (rowcount P (g_jobs db) = 1) (Domain GenerationStateConflictError)) (\<lambda>_. Inr db'))"

definition validate_claim_input :: "string \<Rightarrow> int \<Rightarrow> gen_error + unit" where
  "validate_claim_input worker_id lease_seconds =
     andthen (require (\<not> (blank worker_id \<or> length worker_id > 200)) (GenValueError ''generation claim owner is invalid'')) (\<lambda>_.
     require (1 \<le> lease_seconds \<and> lease_seconds \<le> 3600)
       (GenValueError ''generation lease must be between 1 and 3600 seconds''))"

definition validate_fence :: "int \<Rightarrow> gen_error + unit" where
  "validate_fence fencing_token =
     require (1 \<le> fencing_token) (GenValueError ''generation fencing token must be positive'')"

subsection \<open>Claims\<close>

definition unleased_accepted :: "GenJob \<Rightarrow> bool" where
  "unleased_accepted j \<longleftrightarrow> j_status j = Accepted \<and> j_lease_token j = None"

definition take_claim :: "GenJob \<Rightarrow> string \<Rightarrow> uuid \<Rightarrow> int \<Rightarrow> instant \<Rightarrow> GenJob \<Rightarrow> GenJob" where
  "take_claim job worker_id token lease_seconds now j =
     j\<lparr>j_status := Reserved, j_started_at := (case j_started_at job of Some s \<Rightarrow> Some s | None \<Rightarrow> Some now),
       j_claim_owner := Some worker_id, j_lease_token := Some token,
       j_lease_expires_at := Some (now + seconds lease_seconds),
       j_fencing_token := j_fencing_token job + 1, j_updated_at := now\<rparr>"

text \<open>The shared tail of the two claims: the guarded update and the reload.\<close>

definition claim_row ::
  "gen_db \<Rightarrow> GenJob \<Rightarrow> string \<Rightarrow> uuid \<Rightarrow> int \<Rightarrow> instant \<Rightarrow> gen_error raised + (GenerationRecord option \<times> gen_db)" where
  "claim_row db job worker_id token lease_seconds now =
     (let P = (\<lambda>j. j_tenant_id j = j_tenant_id job \<and> j_job_id j = j_job_id job \<and> unleased_accepted j) in
      andthen (jobs_flush (update_jobs P (take_claim job worker_id token lease_seconds now) db)) (\<lambda>db'.
      if rowcount P (g_jobs db) \<noteq> 1 then Inr (None, db')
      else Inr (get_by_job_id db' (j_tenant_id job) (j_job_id job) None, db')))"

definition claim_accepted ::
  "gen_db \<Rightarrow> instant \<Rightarrow> (uuid \<Rightarrow> bool) \<Rightarrow> uuid \<Rightarrow> uuid \<Rightarrow> uuid \<Rightarrow> string \<Rightarrow> int
   \<Rightarrow> (gen_error raised + GenerationRecord option) \<times> gen_db" where
  "claim_accepted db now locked token t jid worker_id lease_seconds =
     transaction db
       (andthen (map_error Domain (validate_claim_input worker_id lease_seconds)) (\<lambda>_.
        case first_row (filter (\<lambda>(j, _). j_tenant_id j = t \<and> j_job_id j = jid \<and> unleased_accepted j \<and> \<not> locked (j_id j))
               (job_query (g_deployments db) (g_jobs db))) of
          None \<Rightarrow> Inr (None, db)
        | Some (job, _) \<Rightarrow> claim_row db job worker_id token lease_seconds now))"

definition claim_next_accepted ::
  "gen_db \<Rightarrow> instant \<Rightarrow> (uuid \<Rightarrow> bool) \<Rightarrow> uuid \<Rightarrow> uuid option \<Rightarrow> string list option \<Rightarrow> string \<Rightarrow> int
   \<Rightarrow> (gen_error raised + GenerationRecord option) \<times> gen_db" where
  "claim_next_accepted db now locked token tenant modalities worker_id lease_seconds =
     transaction db
       (andthen (map_error Domain (validate_claim_input worker_id lease_seconds)) (\<lambda>_.
        if modalities = Some [] then Inr (None, db)
        else
          (case first_row (sort_key (\<lambda>(j, _). (j_created_at j, j_id j))
                 (filter (\<lambda>(j, _). unleased_accepted j \<and> (case tenant of None \<Rightarrow> True | Some t \<Rightarrow> j_tenant_id j = t) \<and>
                    (case modalities of None \<Rightarrow> True | Some ms \<Rightarrow> j_modality j \<in> set ms) \<and> \<not> locked (j_id j))
                   (job_query (g_deployments db) (g_jobs db)))) of
             None \<Rightarrow> Inr (None, db)
           | Some (job, _) \<Rightarrow> claim_row db job worker_id token lease_seconds now)))"

definition lease_lapsed :: "instant \<Rightarrow> GenJob \<Rightarrow> bool" where
  "lease_lapsed now j \<longleftrightarrow>
     j_lease_token j = None \<or> (case j_lease_expires_at j of None \<Rightarrow> False | Some e \<Rightarrow> e \<le> now)"

definition awaiting_reconciliation :: "GenJob \<Rightarrow> bool" where
  "awaiting_reconciliation j \<longleftrightarrow> j_status j = Submitted_unknown \<and> j_reconciliation_status j = ''pending''"

definition take_recovery :: "GenJob \<Rightarrow> string \<Rightarrow> uuid \<Rightarrow> int \<Rightarrow> instant \<Rightarrow> GenJob \<Rightarrow> GenJob" where
  "take_recovery job worker_id token lease_seconds now j =
     j\<lparr>j_claim_owner := Some worker_id, j_lease_token := Some token,
       j_lease_expires_at := Some (now + seconds lease_seconds),
       j_fencing_token := j_fencing_token job + 1, j_updated_at := now\<rparr>"

definition claim_recovery_row ::
  "gen_db \<Rightarrow> GenJob \<Rightarrow> string \<Rightarrow> uuid \<Rightarrow> int \<Rightarrow> instant \<Rightarrow> gen_error raised + (GenerationRecord option \<times> gen_db)" where
  "claim_recovery_row db job worker_id token lease_seconds now =
     (let P = (\<lambda>j. j_id j = j_id job \<and> awaiting_reconciliation j \<and> lease_lapsed now j) in
      andthen (jobs_flush (update_jobs P (take_recovery job worker_id token lease_seconds now) db)) (\<lambda>db'.
      if rowcount P (g_jobs db) \<noteq> 1 then Inr (None, db')
      else Inr (get_by_job_id db' (j_tenant_id job) (j_job_id job) None, db')))"

definition claim_pending_reconciliation ::
  "gen_db \<Rightarrow> instant \<Rightarrow> (uuid \<Rightarrow> bool) \<Rightarrow> uuid \<Rightarrow> string \<Rightarrow> int
   \<Rightarrow> (gen_error raised + GenerationRecord option) \<times> gen_db" where
  "claim_pending_reconciliation db now locked token worker_id lease_seconds =
     transaction db
       (andthen (map_error Domain (validate_claim_input worker_id lease_seconds)) (\<lambda>_.
        case first_row (sort_key (\<lambda>(j, _). (j_updated_at j, j_id j))
               (filter (\<lambda>(j, _). awaiting_reconciliation j \<and> j_modality j = ''video'' \<and> j_provider_task_id j \<noteq> None \<and>
                  lease_lapsed now j \<and> \<not> locked (j_id j)) (job_query (g_deployments db) (g_jobs db)))) of
          None \<Rightarrow> Inr (None, db)
        | Some (job, _) \<Rightarrow> claim_recovery_row db job worker_id token lease_seconds now))"

definition drop_lease :: "GenJob \<Rightarrow> GenJob" where
  "drop_lease j = j\<lparr>j_claim_owner := None, j_lease_token := None, j_lease_expires_at := None\<rparr>"

definition release_reconciliation_claim ::
  "gen_db \<Rightarrow> instant \<Rightarrow> uuid \<Rightarrow> uuid \<Rightarrow> uuid \<Rightarrow> int \<Rightarrow> (gen_error raised + unit) \<times> gen_db" where
  "release_reconciliation_claim db now t jid lease_token fencing_token =
     transaction db
       (andthen (map_error Domain (validate_fence fencing_token)) (\<lambda>_.
        andthen (update_one (\<lambda>j. j_tenant_id j = t \<and> j_job_id j = jid \<and> awaiting_reconciliation j \<and>
            j_lease_token j = Some lease_token \<and> j_fencing_token j = fencing_token)
          (\<lambda>j. (drop_lease j)\<lparr>j_updated_at := now\<rparr>) db) (\<lambda>db'. Inr ((), db'))))"

subsection \<open>Fenced operations\<close>

text \<open>The fence every later write carries: the lease token, the fencing token and an unexpired lease.\<close>

definition fenced :: "instant \<Rightarrow> uuid \<Rightarrow> int \<Rightarrow> GenJob \<Rightarrow> bool" where
  "fenced now lease_token fencing_token j \<longleftrightarrow>
     j_lease_token j = Some lease_token \<and> j_fencing_token j = fencing_token \<and>
     (case j_lease_expires_at j of None \<Rightarrow> False | Some e \<Rightarrow> now < e)"

definition LEASED_STATUSES :: "GenerationStatus list" where
  "LEASED_STATUSES = [Reserved, Queued, Submitted, Running, Storing]"

definition reload :: "gen_db \<Rightarrow> uuid \<Rightarrow> uuid \<Rightarrow> gen_error raised + (GenerationRecord \<times> gen_db)" where
  "reload db t jid =
     (case get_by_job_id db t jid None of
        None \<Rightarrow> Inl (Domain GenerationNotFoundError) | Some r \<Rightarrow> Inr (r, db))"

definition renew_lease ::
  "gen_db \<Rightarrow> instant \<Rightarrow> uuid \<Rightarrow> uuid \<Rightarrow> string \<Rightarrow> uuid \<Rightarrow> int \<Rightarrow> int \<Rightarrow> (gen_error raised + GenerationRecord) \<times> gen_db" where
  "renew_lease db now t jid worker_id lease_token fencing_token lease_seconds =
     transaction db
       (andthen (map_error Domain (validate_claim_input worker_id lease_seconds)) (\<lambda>_.
        andthen (map_error Domain (validate_fence fencing_token)) (\<lambda>_.
        andthen (update_one (\<lambda>j. j_tenant_id j = t \<and> j_job_id j = jid \<and> j_status j \<in> set LEASED_STATUSES \<and>
            j_claim_owner j = Some worker_id \<and> fenced now lease_token fencing_token j)
          (\<lambda>j. j\<lparr>j_lease_expires_at := Some (now + seconds lease_seconds), j_updated_at := now\<rparr>) db) (\<lambda>db'.
        reload db' t jid))))"

definition set_transition ::
  "instant \<Rightarrow> GenerationStatus \<Rightarrow> string option \<Rightarrow> string option \<Rightarrow> string option \<Rightarrow> string option \<Rightarrow> GenJob \<Rightarrow> GenJob" where
  "set_transition now target error_code request_id task_id observed j =
     (let j1 = j\<lparr>j_status := target, j_updated_at := now\<rparr>;
          j2 = (if target \<in> set [Failed, Cancelled, Expired, Succeeded] then j1\<lparr>j_completed_at := Some now\<rparr> else j1);
          j3 = (if target \<in> set [Accepted, Submitted_unknown, Failed, Cancelled, Expired, Succeeded]
                then drop_lease j2 else j2);
          j4 = (if target = Submitted_unknown then j3\<lparr>j_reconciliation_status := ''pending''\<rparr> else j3);
          j5 = (if error_code \<noteq> None then j4\<lparr>j_error_code := error_code\<rparr> else j4);
          j6 = (if request_id \<noteq> None then j5\<lparr>j_provider_request_id := request_id\<rparr> else j5);
          j7 = (if task_id \<noteq> None then j6\<lparr>j_provider_task_id := task_id\<rparr> else j6)
      in if observed \<noteq> None
         then j7\<lparr>j_provider_observed_status := observed, j_provider_observed_at := Some now\<rparr> else j7)"

definition transition ::
  "gen_db \<Rightarrow> instant \<Rightarrow> uuid \<Rightarrow> uuid \<Rightarrow> GenerationStatus \<Rightarrow> GenerationStatus \<Rightarrow> string option \<Rightarrow> string option \<Rightarrow>
   string option \<Rightarrow> string option \<Rightarrow> uuid \<Rightarrow> int \<Rightarrow> (gen_error raised + GenerationRecord) \<times> gen_db" where
  "transition db now t jid expected target error_code request_id task_id observed lease_token fencing_token =
     transaction db
       (andthen (map_error Domain (assert_transition expected target)) (\<lambda>_.
        andthen (map_error Domain (validate_fence fencing_token)) (\<lambda>_.
        andthen (require (case error_code of None \<Rightarrow> True | Some c \<Rightarrow> is_error_code c) (Domain (GenValueError ''error_code''))) (\<lambda>_.
        andthen (require (case observed of None \<Rightarrow> True | Some s \<Rightarrow> \<not> (blank s \<or> length s > 64))
                   (Domain (GenValueError ''provider observed status is invalid''))) (\<lambda>_.
        andthen (update_one (\<lambda>j. j_tenant_id j = t \<and> j_job_id j = jid \<and> j_status j = expected \<and>
            fenced now lease_token fencing_token j)
          (set_transition now target error_code request_id task_id observed) db) (\<lambda>db'.
        reload db' t jid))))))"

definition record_provider_task ::
  "gen_db \<Rightarrow> instant \<Rightarrow> uuid \<Rightarrow> uuid \<Rightarrow> string \<Rightarrow> uuid \<Rightarrow> int \<Rightarrow> (gen_error raised + unit) \<times> gen_db" where
  "record_provider_task db now t jid task_id lease_token fencing_token =
     transaction db
       (andthen (map_error Domain (validate_fence fencing_token)) (\<lambda>_.
        andthen (require (\<not> (blank task_id \<or> length task_id > 255)) (Domain (GenValueError ''provider_task_id is invalid''))) (\<lambda>_.
        andthen (update_one (\<lambda>j. j_tenant_id j = t \<and> j_job_id j = jid \<and> j_status j = Submitted \<and>
            j_provider_task_id j = None \<and> fenced now lease_token fencing_token j)
          (\<lambda>j. j\<lparr>j_provider_task_id := Some task_id, j_updated_at := now\<rparr>) db) (\<lambda>db'. Inr ((), db')))))"

definition record_provider_request ::
  "gen_db \<Rightarrow> instant \<Rightarrow> uuid \<Rightarrow> uuid \<Rightarrow> string \<Rightarrow> uuid \<Rightarrow> int \<Rightarrow> (gen_error raised + unit) \<times> gen_db" where
  "record_provider_request db now t jid request_id lease_token fencing_token =
     transaction db
       (andthen (map_error Domain (validate_fence fencing_token)) (\<lambda>_.
        andthen (require (\<not> (blank request_id \<or> length request_id > 255)) (Domain (GenValueError ''provider_request_id is invalid''))) (\<lambda>_.
        andthen (update_one (\<lambda>j. j_tenant_id j = t \<and> j_job_id j = jid \<and> j_status j = Submitted \<and>
            j_provider_request_id j = None \<and> fenced now lease_token fencing_token j)
          (\<lambda>j. j\<lparr>j_provider_request_id := Some request_id, j_updated_at := now\<rparr>) db) (\<lambda>db'. Inr ((), db')))))"

end
