(* ===== verification/Generation_Completion.thy ===== *)
theory Generation_Completion
  imports Generation_Jobs
begin

text \<open>
  Completion of a generation (artifacts, usage row and terminal status in one transaction) and the
  provider inbox of \<open>app/generations/repository.py\<close>.
\<close>

subsection \<open>What an executor hands back\<close>

record StoredArtifact =
  st_storage_provider :: string
  st_object_key :: string
  st_mime_type :: string
  st_size_bytes :: int
  st_sha256 :: "string option"
  st_expires_at :: "instant option"

record GenerationArtifactInput =
  ai_kind :: string
  ai_stored :: StoredArtifact

record GenerationUsage =
  gu_input_tokens :: int
  gu_output_tokens :: int
  gu_image_count :: int
  gu_video_seconds :: int
  gu_audio_seconds :: int
  gu_character_count :: int
  gu_audio_duration_ms :: int
  gu_video_duration_ms :: int
  gu_storage_bytes :: int
  gu_billable_units :: int

record GenerationExecutionResult =
  er_artifacts :: "GenerationArtifactInput list"
  er_provider_request_id :: "string option"
  er_provider_task_id :: "string option"
  er_usage :: GenerationUsage

definition billing_usage :: "GenerationUsage \<Rightarrow> gen_error + BillingUsage" where
  "billing_usage u = map_error BillingFailure (mk_BillingUsage
     \<lparr>bu_input_tokens = gu_input_tokens u, bu_output_tokens = gu_output_tokens u, bu_image_count = gu_image_count u,
      bu_video_seconds = gu_video_seconds u, bu_audio_seconds = gu_audio_seconds u,
      bu_character_count = gu_character_count u, bu_audio_duration_ms = gu_audio_duration_ms u,
      bu_video_duration_ms = gu_video_duration_ms u, bu_storage_bytes = gu_storage_bytes u,
      bu_billable_units = gu_billable_units u\<rparr>)"

definition validate_usage :: "GenerationUsage \<Rightarrow> gen_error + unit" where
  "validate_usage u =
     require (\<not> list_ex (\<lambda>v. v < 0)
        [gu_input_tokens u, gu_output_tokens u, gu_image_count u, gu_video_seconds u, gu_audio_seconds u,
         gu_character_count u, gu_audio_duration_ms u, gu_video_duration_ms u, gu_storage_bytes u, gu_billable_units u])
       (GenValueError ''generation usage values must be non-negative integers'')"

text \<open>\<open>str.split(sep)\<close> for a one-character separator: always at least one part.\<close>

fun split_on :: "char \<Rightarrow> string \<Rightarrow> string list" where
  "split_on sep [] = [[]]"
| "split_on sep (c # cs) =
     (if c = sep then [] # split_on sep cs
      else (case split_on sep cs of [] \<Rightarrow> [[c]] | part # parts \<Rightarrow> (c # part) # parts))"

abbreviation backslash :: char where
  "backslash \<equiv> CHR 0x5C"

definition validate_artifact_input :: "GenerationArtifactInput \<Rightarrow> gen_error + unit" where
  "validate_artifact_input item =
     andthen (require (ai_kind item \<in> set [''output'', ''thumbnail'', ''preview'', ''input''])
                (GenValueError ''unsupported generation artifact kind'')) (\<lambda>_.
     let stored = ai_stored item; key = st_object_key stored in
     require (\<not> (blank (st_storage_provider stored) \<or> blank key \<or> hd key \<in> set [CHR ''/'', backslash] \<or>
               ''..'' \<in> set (split_on (CHR ''/'') (map (\<lambda>c. if c = backslash then CHR ''/'' else c) key)) \<or>
               blank (st_mime_type stored) \<or> st_size_bytes stored < 0))
       (GenValueError ''invalid stored generation artifact''))"

subsection \<open>Completion\<close>

definition price_for_job :: "billing_db \<Rightarrow> GenJob \<Rightarrow> gen_error raised + PriceSnapshot" where
  "price_for_job db job =
     (case j_accepted_price_version_id job of
        None \<Rightarrow> Inl (Domain (GenerationInfrastructureError ''GENERATION_PRICE_SNAPSHOT_MISSING''))
      | Some vid \<Rightarrow>
          andthen (or_raise (GenerationInfrastructureError ''GENERATION_PRICE_SNAPSHOT_MISSING'')
                     (scalar_one_or_none (filter (\<lambda>p. pv_id p = vid) (price_versions db)))) (\<lambda>p.
          map_error (Domain \<circ> BillingFailure)
            (mk_PriceSnapshot (pv_id p) (pv_price_key p) (pv_version p) (pv_currency p) (pv_unit p) (pv_pricing p))))"

definition artifact_check :: "GenArtifact \<Rightarrow> bool" where
  "artifact_check a \<longleftrightarrow>
     a_kind a \<in> set [''input'', ''output'', ''thumbnail'', ''preview''] \<and>
     a_status a \<in> set [''pending'', ''ready'', ''expired'', ''delete_pending'', ''deleted''] \<and> 0 \<le> a_size_bytes a"

definition artifact_widths :: "GenArtifact \<Rightarrow> bool" where
  "artifact_widths a \<longleftrightarrow>
     length (a_storage_provider a) \<le> 64 \<and> length (a_object_key a) \<le> 1024 \<and> length (a_mime_type a) \<le> 255 \<and>
     fits 64 (a_sha256 a)"

definition artifacts_ok :: "GenArtifact list \<Rightarrow> bool" where
  "artifacts_ok as \<longleftrightarrow> list_all (\<lambda>a. bigint (a_size_bytes a)) as \<and> list_all artifact_widths as \<and>
     list_all artifact_check as \<and> distinct (map a_id as)"

definition artifacts_flush :: "gen_db \<Rightarrow> gen_error raised + gen_db" where
  "artifacts_flush db =
     (if \<not> list_all (\<lambda>a. bigint (a_size_bytes a)) (g_artifacts db) then Inl (Sql NumericOutOfRange)
      else if \<not> list_all artifact_widths (g_artifacts db) then Inl (Sql StringTooLong)
      else if \<not> list_all artifact_check (g_artifacts db) then Inl (Sql CheckViolation)
      else if \<not> distinct (map a_id (g_artifacts db)) then Inl (Sql UniqueViolation)
      else Inr db)"

lemma artifacts_flush_Inr_iff [simp]: "artifacts_flush db = Inr db' \<longleftrightarrow> db' = db \<and> artifacts_ok (g_artifacts db)"
  by (auto simp: artifacts_flush_def artifacts_ok_def)

definition new_artifact :: "instant \<Rightarrow> uuid \<Rightarrow> uuid \<Rightarrow> uuid \<Rightarrow> GenerationArtifactInput \<Rightarrow> GenArtifact" where
  "new_artifact now t job_id aid item =
     (let stored = ai_stored item in
      \<lparr>a_id = aid, a_tenant_id = t, a_generation_job_id = job_id, a_kind = ai_kind item, a_status = ''ready'',
       a_storage_provider = st_storage_provider stored, a_object_key = st_object_key stored,
       a_mime_type = st_mime_type stored, a_size_bytes = st_size_bytes stored, a_sha256 = st_sha256 stored,
       a_expires_at = st_expires_at stored, a_updated_at = now\<rparr>)"

text \<open>The loop over the artifacts: each is validated, then added to the session.\<close>

fun add_artifacts ::
  "instant \<Rightarrow> uuid \<Rightarrow> uuid \<Rightarrow> (nat \<Rightarrow> uuid) \<Rightarrow> nat \<Rightarrow> GenerationArtifactInput list \<Rightarrow> gen_error + GenArtifact list" where
  "add_artifacts now t job_id ids n [] = Inr []"
| "add_artifacts now t job_id ids n (item # items) =
     andthen (validate_artifact_input item) (\<lambda>_.
     andthen (add_artifacts now t job_id ids (Suc n) items) (\<lambda>rest.
     Inr (new_artifact now t job_id (ids n) item # rest)))"

text \<open>\<open>x or y\<close> on optional text: the empty string is false.\<close>

fun or_text :: "string option \<Rightarrow> string option \<Rightarrow> string option" where
  "or_text (Some (c # cs)) y = Some (c # cs)"
| "or_text x y = y"

definition generation_usage_row ::
  "uuid \<Rightarrow> uuid \<Rightarrow> GenJob \<Rightarrow> string \<Rightarrow> string option \<Rightarrow> string option \<Rightarrow> string \<Rightarrow> string \<Rightarrow> BillingUsage \<Rightarrow> int \<Rightarrow> UsageRecord"
where
  "generation_usage_row uid t job model_key request_id task_id label cur meters charge =
     \<lparr>u_id = uid, u_tenant_id = t, u_actor_user_id = j_actor_user_id job, u_inference_request_id = None,
      u_generation_job_id = Some (j_id job), u_model_deployment_id = j_model_deployment_id job,
      u_modality = j_modality job, u_model_key = model_key,
      u_provider_request_id = or_text request_id (j_provider_request_id job),
      u_provider_task_id = or_text task_id (j_provider_task_id job), u_pricing_version = label, u_currency = cur,
      u_measures = meters, u_charge_amount_minor = charge\<rparr>"

definition set_succeeded :: "instant \<Rightarrow> string option \<Rightarrow> string option \<Rightarrow> GenJob \<Rightarrow> GenJob" where
  "set_succeeded now request_id task_id j =
     (let j1 = (drop_lease j)\<lparr>j_status := Succeeded, j_completed_at := Some now, j_updated_at := now,
                 j_error_code := None, j_reconciliation_status := ''not_required''\<rparr>;
          j2 = (if request_id \<noteq> None then j1\<lparr>j_provider_request_id := request_id\<rparr> else j1)
      in if task_id \<noteq> None then j2\<lparr>j_provider_task_id := task_id\<rparr> else j2)"

definition complete_fenced :: "instant \<Rightarrow> uuid \<Rightarrow> uuid \<Rightarrow> uuid \<Rightarrow> int \<Rightarrow> GenJob \<Rightarrow> bool" where
  "complete_fenced now t jid lease_token fencing_token j \<longleftrightarrow>
     j_tenant_id j = t \<and> j_job_id j = jid \<and> fenced now lease_token fencing_token j"

definition complete ::
  "gen_db \<Rightarrow> instant \<Rightarrow> (nat \<Rightarrow> uuid) \<Rightarrow> uuid \<Rightarrow> uuid \<Rightarrow> uuid \<Rightarrow> GenerationStatus \<Rightarrow> GenerationArtifactInput list \<Rightarrow>
   GenerationUsage \<Rightarrow> string option \<Rightarrow> string option \<Rightarrow> uuid \<Rightarrow> int \<Rightarrow> (gen_error raised + GenerationRecord) \<times> gen_db"
where
  "complete db now ids uid t jid expected artifacts usage request_id task_id lease_token fencing_token =
     transaction db
       (andthen (map_error Domain (assert_transition expected Succeeded)) (\<lambda>_.
        andthen (require (expected = Storing)
                   (Domain (GenValueError ''generation completion must use the storing state''))) (\<lambda>_.
        andthen (map_error Domain (validate_fence fencing_token)) (\<lambda>_.
        andthen (map_error Domain (validate_usage usage)) (\<lambda>_.
        andthen (or_raise GenerationNotFoundError
                   (scalar_one_or_none (filter (complete_fenced now t jid lease_token fencing_token) (g_jobs db)))) (\<lambda>job.
        andthen (require (j_status job = expected) (Domain GenerationStateConflictError)) (\<lambda>_.
        andthen (price_for_job (g_billing db) job) (\<lambda>price.
        andthen (map_error Domain (billing_usage usage)) (\<lambda>meters.
        andthen (map_error (Domain \<circ> BillingFailure) (charge_for_usage price meters)) (\<lambda>charge.
        andthen (require (filter (\<lambda>a. a_tenant_id a = t \<and> a_generation_job_id a = j_id job) (g_artifacts db) = [])
                   (Domain GenerationStateConflictError)) (\<lambda>_.
        case get_by_job_id db t jid None of
          None \<Rightarrow> Inl (Domain GenerationNotFoundError)
        | Some record \<Rightarrow>
        andthen (map_error Domain (add_artifacts now t (j_id job) ids 0 artifacts)) (\<lambda>new.
        andthen (artifacts_flush (db\<lparr>g_artifacts := g_artifacts db @ new\<rparr>)) (\<lambda>db1.
        andthen (scalar_one_or_none (filter (\<lambda>u. u_tenant_id u = t \<and> u_generation_job_id u = Some (j_id job))
                   (usage_records (g_billing db1)))) (\<lambda>usage_exists.
        andthen (require (usage_exists = None) (Domain GenerationStateConflictError)) (\<lambda>_.
        andthen (map_error (Domain \<circ> BillingFailure) (pricing_version price)) (\<lambda>label.
        andthen (flush ((g_billing db1)\<lparr>usage_records := usage_records (g_billing db1) @
                   [generation_usage_row uid t job (gr_product_model_id record) request_id task_id label
                      (ps_currency price) meters (amount_minor charge)]\<rparr>)) (\<lambda>billing.
        andthen (update_one (\<lambda>j. complete_fenced now t jid lease_token fencing_token j \<and> j_status j = expected)
                   (set_succeeded now request_id task_id) (db1\<lparr>g_billing := billing\<rparr>)) (\<lambda>db2.
        reload db2 t jid))))))))))))))))))"

subsection \<open>The provider inbox\<close>

text \<open>
  \<open>digest\<close> stands for SHA-256 of the canonical JSON text of the payload, which the hash library computes.
\<close>

definition inbox_key :: "InboxEvent \<Rightarrow> uuid \<times> string \<times> string" where
  "inbox_key e = (ib_tenant_id e, ib_provider_name e, ib_event_key e)"

definition inbox_text_ok :: "string \<Rightarrow> nat \<Rightarrow> bool" where
  "inbox_text_ok v maximum \<longleftrightarrow> \<not> (blank v \<or> length v > maximum)"

definition record_inbox_event ::
  "((string \<times> json) list \<Rightarrow> string) \<Rightarrow> gen_db \<Rightarrow> uuid \<Rightarrow> uuid \<Rightarrow> string \<Rightarrow> string \<Rightarrow> string \<Rightarrow> (string \<times> json) list
   \<Rightarrow> (gen_error raised + bool) \<times> gen_db" where
  "record_inbox_event digest db inbox_id t provider_name event_key event_type payload =
     transaction db
       (andthen (require (inbox_text_ok provider_name 64) (Domain (GenValueError ''inbox provider name is invalid''))) (\<lambda>_.
        andthen (require (inbox_text_ok event_key 255) (Domain (GenValueError ''inbox event key is invalid''))) (\<lambda>_.
        andthen (require (inbox_text_ok event_type 160) (Domain (GenValueError ''inbox event type is invalid''))) (\<lambda>_.
        andthen (require (is_sha256_hex (digest payload)) (Sql CheckViolation)) (\<lambda>_.
        case filter (\<lambda>e. inbox_key e = (t, provider_name, event_key)) (g_inbox db) of
          [] \<Rightarrow>
            andthen (require (inbox_id \<notin> set (map ib_id (g_inbox db))) (Sql UniqueViolation)) (\<lambda>_.
            Inr (True, db\<lparr>g_inbox := g_inbox db @
              [\<lparr>ib_id = inbox_id, ib_tenant_id = t, ib_provider_name = provider_name, ib_event_key = event_key,
                ib_event_type = event_type, ib_payload_digest = digest payload, ib_normalized_payload = payload,
                ib_status = ''received''\<rparr>]\<rparr>))
        | [existing] \<Rightarrow>
            andthen (require (ib_payload_digest existing = digest payload) (Domain GenerationStateConflictError)) (\<lambda>_.
            Inr (False, db))
        | _ \<Rightarrow> Inl (Sql MultipleResultsFound))))))"

end
