(* ===== verification/Uuid_Text.thy ===== *)
theory Uuid_Text
  imports Prelude
begin

text \<open>
  \<open>str(UUID)\<close> and \<open>UUID(text)\<close> of Python's \<open>uuid\<close> module on ASCII text, which every identifier crosses on its
  way through a queue or a key: 32 lower-case hexadecimal digits grouped by dashes out, and the module's
  lenient reading back (prefixes, braces and dashes dropped, then \<open>int(text, 16)\<close>).
\<close>

subsection \<open>Writing\<close>

definition hex_char :: "nat \<Rightarrow> char" where
  "hex_char d = (if d < 10 then char_of (48 + d) else char_of (87 + d))"

text \<open>\<open>format(value, '032x')\<close> for a given number of digits.\<close>

fun hex_fixed :: "nat \<Rightarrow> nat \<Rightarrow> string" where
  "hex_fixed 0 u = []"
| "hex_fixed (Suc n) u = hex_fixed n (u div 16) @ [hex_char (u mod 16)]"

definition dashed :: "string \<Rightarrow> string" where
  "dashed h = take 8 h @ ''-'' @ take 4 (drop 8 h) @ ''-'' @ take 4 (drop 12 h) @ ''-'' @ take 4 (drop 16 h) @ ''-'' @ drop 20 h"

definition str_uuid :: "uuid \<Rightarrow> string" where
  "str_uuid u = dashed (hex_fixed 32 u)"

subsection \<open>Reading\<close>

definition hex_digit :: "char \<Rightarrow> nat option" where
  "hex_digit c =
     (let n = of_char c in
      if 48 \<le> n \<and> n \<le> 57 then Some (n - 48) else if 97 \<le> n \<and> n \<le> 102 then Some (n - 87)
      else if 65 \<le> n \<and> n \<le> 70 then Some (n - 55) else None)"

text \<open>The digits of \<open>int(text, 16)\<close>: single underscores are allowed between digits.\<close>

fun hex_body :: "nat \<Rightarrow> string \<Rightarrow> nat option" where
  "hex_body acc [] = None"
| "hex_body acc [c] = map_option (\<lambda>d. acc * 16 + d) (hex_digit c)"
| "hex_body acc (c # c' # cs) =
     (case hex_digit c of
        None \<Rightarrow> None
      | Some d \<Rightarrow> if c' = CHR ''_'' then hex_body (acc * 16 + d) cs else hex_body (acc * 16 + d) (c' # cs))"

fun drop_base :: "string \<Rightarrow> string" where
  "drop_base (z # x # cs) =
     (if z = CHR ''0'' \<and> x \<in> {CHR ''x'', CHR ''X''}
      then (if cs \<noteq> [] \<and> hd cs = CHR ''_'' then tl cs else cs) else z # x # cs)"
| "drop_base s = s"

text \<open>A minus sign cannot occur: the caller has dropped the dashes.\<close>

definition int16 :: "string \<Rightarrow> nat option" where
  "int16 s = (let t = strip s in hex_body 0 (drop_base (if t \<noteq> [] \<and> hd t = CHR ''+'' then tl t else t)))"

text \<open>\<open>text.replace(pattern, '')\<close>\<close>

function erase :: "string \<Rightarrow> string \<Rightarrow> string" where
  "erase pat [] = []"
| "erase pat (c # cs) =
     (if pat \<noteq> [] \<and> take (length pat) (c # cs) = pat then erase pat (drop (length pat) (c # cs)) else c # erase pat cs)"
  by pat_completeness auto
termination
  by (relation "measure (length \<circ> snd)") (auto simp: Suc_le_eq)

definition strip_braces :: "string \<Rightarrow> string" where
  "strip_braces s = (let brace = (\<lambda>c. c \<in> set ''{}'') in rev (dropWhile brace (rev (dropWhile brace s))))"

definition parse_uuid :: "string \<Rightarrow> uuid option" where
  "parse_uuid s =
     (let h = erase ''-'' (strip_braces (erase ''uuid:'' (erase ''urn:'' s))) in
      if length h \<noteq> 32 then None else int16 h)"

subsection \<open>Reading back what was written\<close>

definition is_hex :: "char \<Rightarrow> bool" where
  "is_hex c \<longleftrightarrow> (let n = (of_char c :: nat) in 48 \<le> n \<and> n \<le> 57 \<or> 97 \<le> n \<and> n \<le> 102)"

lemma hex_digit_char: "d < 16 \<Longrightarrow> hex_digit (hex_char d) = Some d"
  by (auto simp: hex_digit_def hex_char_def Let_def of_char_of)

lemma hex_char_is_hex: "d < 16 \<Longrightarrow> is_hex (hex_char d)"
  by (auto simp: hex_char_def is_hex_def Let_def of_char_of)

lemma length_hex_fixed [simp]: "length (hex_fixed n u) = n"
  by (induction n arbitrary: u) auto

lemma hex_fixed_is_hex: "list_all is_hex (hex_fixed n u)"
  by (induction n arbitrary: u) (auto simp: hex_char_is_hex)

lemma is_hex_not: "is_hex c \<Longrightarrow> c \<notin> set ''-:{}+xX_'' \<and> \<not> is_space c"
  by (auto simp: is_hex_def is_space_def Let_def)

text \<open>Reading digit by digit is left to right; writing is right to left.\<close>

lemma hex_body_snoc:
  assumes "list_all is_hex s" and "is_hex c" and "hex_digit c = Some d"
  shows "hex_body acc (s @ [c]) = (if s = [] then Some (acc * 16 + d) else map_option (\<lambda>v. v * 16 + d) (hex_body acc s))"
  using assms(1)
proof (induction acc s rule: hex_body.induct)
  case (2 acc a)
  have "c \<noteq> CHR ''_''" using is_hex_not [OF assms(2)] by simp
  then show ?case using assms(3) by (simp split: option.splits)
next
  case (3 acc a b cs)
  have "b \<noteq> CHR ''_''" using is_hex_not [of b] 3(3) by simp
  with 3 show ?case by (cases "hex_digit a") auto
qed (simp add: assms(3))

lemma hex_body_fixed:
  assumes "u < 16 ^ n" and "0 < n"
  shows "hex_body 0 (hex_fixed n u) = Some u"
  using assms
proof (induction n arbitrary: u)
  case (Suc n)
  have d: "hex_digit (hex_char (u mod 16)) = Some (u mod 16)" "is_hex (hex_char (u mod 16))"
    by (simp_all add: hex_digit_char hex_char_is_hex)
  show ?case
  proof (cases n)
    case 0
    with Suc.prems(1) d(1) show ?thesis by simp
  next
    case (Suc m)
    have "u div 16 < 16 ^ n" using Suc.prems(1) by (simp add: less_mult_imp_div_less mult.commute)
    then have "hex_body 0 (hex_fixed n (u div 16)) = Some (u div 16)" using Suc.IH Suc by simp
    moreover have "hex_fixed n (u div 16) \<noteq> []" using Suc by (metis length_hex_fixed list.size(3) nat.distinct(1))
    ultimately show ?thesis using hex_body_snoc [OF hex_fixed_is_hex d(2,1), of 0 n "u div 16"] by simp
  qed
qed simp

lemma erase_absent: "p \<noteq> [] \<Longrightarrow> hd p \<notin> set s \<Longrightarrow> erase p s = s"
proof (induction p s rule: erase.induct)
  case (2 pat c cs)
  then have "take (length pat) (c # cs) \<noteq> pat" by (cases pat) auto
  with 2 show ?case by simp
qed simp

lemma erase_char: "erase [x] s = filter (\<lambda>c. c \<noteq> x) s"
  by (induction s) auto

lemma dropWhile_id: "(\<And>c. c \<in> set s \<Longrightarrow> \<not> P c) \<Longrightarrow> dropWhile P s = s"
  by (cases s) auto

lemma set_dashed: "set (dashed h) \<subseteq> set h \<union> {CHR ''-''}"
  unfolding dashed_def by (auto dest: in_set_takeD in_set_dropD)

lemma undashed:
  assumes "CHR ''-'' \<notin> set h"
  shows "filter (\<lambda>c. c \<noteq> CHR ''-'') (dashed h) = h"
proof -
  have f: "filter (\<lambda>c. c \<noteq> CHR ''-'') s = s" if "set s \<subseteq> set h" for s
    using assms that by (intro filter_True) auto
  have "take 8 h @ take 4 (drop 8 h) @ take 4 (drop 12 h) @ take 4 (drop 16 h) @ drop 20 h = h"
    using append_take_drop_id [of 8 h] append_take_drop_id [of 4 "drop 8 h"] append_take_drop_id [of 4 "drop 12 h"]
      append_take_drop_id [of 4 "drop 16 h"] by simp
  then show ?thesis
    unfolding dashed_def filter_append
    by (simp add: f set_take_subset subset_trans [OF set_take_subset set_drop_subset] set_drop_subset)
qed

lemma drop_base_hex: "list_all is_hex h \<Longrightarrow> drop_base h = h"
  by (cases h rule: drop_base.cases) (auto dest: is_hex_not)

lemma int16_fixed:
  assumes "u < 16 ^ n" and "0 < n"
  shows "int16 (hex_fixed n u) = Some u"
proof -
  note h = hex_fixed_is_hex [of n u]
  have s: "strip (hex_fixed n u) = hex_fixed n u"
    by (rule strip_no_space) (use h in \<open>auto simp: list_ex_iff list_all_iff dest: is_hex_not\<close>)
  obtain c cs where c: "hex_fixed n u = c # cs" using assms(2) by (cases "hex_fixed n u") (use length_hex_fixed [of n u] in auto)
  then have "c \<noteq> CHR ''+''" using h by (auto dest: is_hex_not)
  then have "int16 (hex_fixed n u) = hex_body 0 (drop_base (hex_fixed n u))"
    using s by (simp add: int16_def Let_def c)
  then show ?thesis using hex_body_fixed [OF assms] drop_base_hex [OF h] by simp
qed

lemma parse_str_uuid:
  assumes "u < 2 ^ 128"
  shows "parse_uuid (str_uuid u) = Some u"
proof -
  let ?h = "hex_fixed 32 u"
  have set_h: "c \<in> set ?h \<Longrightarrow> is_hex c" for c using hex_fixed_is_hex [of 32 u] by (simp add: list_all_iff)
  have set_d: "c \<in> set (dashed ?h) \<Longrightarrow> is_hex c \<or> c = CHR ''-''" for c using set_dashed set_h by blast
  have "erase ''urn:'' (dashed ?h) = dashed ?h" "erase ''uuid:'' (dashed ?h) = dashed ?h"
    by (rule erase_absent; use set_d in \<open>force simp: is_hex_def Let_def\<close>)+
  moreover have "strip_braces (dashed ?h) = dashed ?h"
    unfolding strip_braces_def Let_def using set_d by (subst dropWhile_id; auto dest!: set_d is_hex_not)+
  moreover have "erase ''-'' (dashed ?h) = ?h"
    unfolding erase_char by (rule undashed) (use set_h is_hex_not in fastforce)
  moreover have "int16 ?h = Some u" using assms by (intro int16_fixed) simp_all
  ultimately show ?thesis by (simp add: parse_uuid_def str_uuid_def)
qed

end
