(* ===== verification/Generation_Lifecycle.thy ===== *)
theory Generation_Lifecycle
  imports Generation_Completion Uuid_Text
begin

text \<open>
  What acts on a generation job besides the worker that claimed it: the heartbeat and the stalled-job
  reconciler of \<open>app/generations/worker.py\<close>, the user's cancel and delete and the artifact cleanup of
  \<open>app/generations/lifecycle.py\<close>, and the operator's resolution of \<open>app/generations/recovery.py\<close>.
\<close>

subsection \<open>Loaded rows\<close>

definition put_job :: "GenJob \<Rightarrow> gen_db \<Rightarrow> gen_db" where
  "put_job j db = db\<lparr>g_jobs := update_where (\<lambda>x. j_id x = j_id j) (\<lambda>_. j) (g_jobs db)\<rparr>"

interpretation job_table: keyed_table j_id g_jobs put_job
  by unfold_locales (simp add: put_job_def)

definition put_artifact :: "GenArtifact \<Rightarrow> gen_db \<Rightarrow> gen_db" where
  "put_artifact a db = db\<lparr>g_artifacts := update_where (\<lambda>x. a_id x = a_id a) (\<lambda>_. a) (g_artifacts db)\<rparr>"

interpretation artifact_table: keyed_table a_id g_artifacts put_artifact
  by unfold_locales (simp add: put_artifact_def)

definition audited ::
  "gen_db \<Rightarrow> uuid \<Rightarrow> uuid \<Rightarrow> uuid option \<Rightarrow> string \<Rightarrow> uuid \<Rightarrow> AuditContext \<Rightarrow> (string \<times> json) list \<Rightarrow> gen_error raised + gen_db"
where
  "audited db aid t actor action job_id context payload =
     andthen (map_error (\<lambda>e. case e of AuditValueError m \<Rightarrow> Domain (GenValueError m))
       (append_audit_event (g_audit db) aid t actor action ''generation_job'' (Some job_id) context payload)) (\<lambda>log'.
     Inr (db\<lparr>g_audit := log'\<rparr>))"

definition system_context :: "string \<Rightarrow> AuditContext" where
  "system_context agent = \<lparr>ac_request_id = None, ac_ip_address = None, ac_user_agent = Some agent\<rparr>"

subsection \<open>Heartbeat\<close>

definition ensure_live ::
  "gen_db \<Rightarrow> instant \<Rightarrow> int \<Rightarrow> uuid \<Rightarrow> uuid \<Rightarrow> string \<Rightarrow> uuid \<Rightarrow> int \<Rightarrow> string \<Rightarrow> (gen_error raised + unit) \<times> gen_db" where
  "ensure_live db now lease_seconds t jid worker_id lease_token fencing_token phase =
     transaction db
       (andthen (require (phase \<noteq> [] \<and> length phase \<le> 64) (Domain (GenValueError ''heartbeat phase is invalid''))) (\<lambda>_.
        andthen (require (\<not> (blank worker_id \<or> fencing_token < 1)) (Domain (GenValueError ''heartbeat fence is invalid''))) (\<lambda>_.
        let P = (\<lambda>j. j_tenant_id j = t \<and> j_job_id j = jid \<and> j_status j \<in> set LEASED_STATUSES \<and>
                   j_claim_owner j = Some worker_id \<and> fenced now lease_token fencing_token j) in
        andthen (jobs_flush (update_jobs P (\<lambda>j. j\<lparr>j_updated_at := now,
                   j_lease_expires_at := Some (now + seconds lease_seconds)\<rparr>) db)) (\<lambda>db'.
        andthen (require (rowcount P (g_jobs db) = 1)
                   (Domain (GenerationInfrastructureError ''GENERATION_HEARTBEAT_LOST''))) (\<lambda>_. Inr ((), db'))))))"

subsection \<open>Stalled jobs\<close>

definition stalled :: "instant \<Rightarrow> GenJob \<Rightarrow> bool" where
  "stalled now j \<longleftrightarrow> j_status j \<in> set LEASED_STATUSES \<and>
     (case j_lease_expires_at j of None \<Rightarrow> False | Some e \<Rightarrow> e \<le> now)"

definition reconcile_stalled_job :: "instant \<Rightarrow> GenJob \<Rightarrow> GenJob" where
  "reconcile_stalled_job now j =
     (if j_status j \<in> set [Reserved, Queued] then
        (drop_lease j)\<lparr>j_status := Failed, j_error_code := Some ''GENERATION_WORKER_STALLED'', j_completed_at := Some now,
          j_updated_at := now, j_reconciliation_status := ''not_required''\<rparr>
      else if j_status j \<in> set [Submitted, Running, Storing] then
        (drop_lease j)\<lparr>j_status := Submitted_unknown, j_error_code := Some ''GENERATION_RECONCILIATION_REQUIRED'',
          j_updated_at := now, j_reconciliation_status := ''pending''\<rparr>
      else j)"

fun reconcile_stalled_jobs :: "instant \<Rightarrow> GenJob list \<Rightarrow> gen_db \<Rightarrow> gen_db" where
  "reconcile_stalled_jobs now [] db = db"
| "reconcile_stalled_jobs now (j # js) db =
     reconcile_stalled_jobs now js (put_job (reconcile_stalled_job now j) db)"

definition reconcile_stalled_once ::
  "gen_db \<Rightarrow> instant \<Rightarrow> (uuid \<Rightarrow> bool) \<Rightarrow> int \<Rightarrow> int \<Rightarrow> (gen_error raised + nat) \<times> gen_db" where
  "reconcile_stalled_once db now locked stale_seconds limit =
     transaction db
       (andthen (require (\<not> (stale_seconds < 60 \<or> \<not> (1 \<le> limit \<and> limit \<le> 500)))
                   (Domain (GenValueError ''invalid generation reconciliation bounds''))) (\<lambda>_.
        let jobs = take (nat limit) (sort_key (\<lambda>j. (j_updated_at j, j_id j))
                     (filter (\<lambda>j. stalled now j \<and> \<not> locked (j_id j)) (g_jobs db))) in
        andthen (jobs_flush (reconcile_stalled_jobs now jobs db)) (\<lambda>db'.
        Inr (length jobs, db'))))"

subsection \<open>User lifecycle\<close>

definition lock_visible_job :: "gen_db \<Rightarrow> uuid \<Rightarrow> uuid \<Rightarrow> uuid \<Rightarrow> gen_error raised + GenJob" where
  "lock_visible_job db t actor jid =
     or_raise GenerationNotFoundError (scalar_one_or_none
       (filter (\<lambda>j. j_tenant_id j = t \<and> j_actor_user_id j = Some actor \<and> j_job_id j = jid) (g_jobs db)))"

definition cancel_job :: "instant \<Rightarrow> GenJob \<Rightarrow> GenJob" where
  "cancel_job now j = j\<lparr>j_status := Cancelled, j_completed_at := Some now, j_updated_at := now,
     j_error_code := None, j_reconciliation_status := ''not_required''\<rparr>"

definition cancel_accepted ::
  "gen_db \<Rightarrow> instant \<Rightarrow> uuid \<Rightarrow> uuid \<Rightarrow> uuid \<Rightarrow> uuid \<Rightarrow> AuditContext \<Rightarrow> (gen_error raised + unit) \<times> gen_db" where
  "cancel_accepted db now aid t actor jid context =
     transaction db
       (andthen (lock_visible_job db t actor jid) (\<lambda>job.
        if j_status job = Cancelled then Inr ((), db)
        else
          andthen (require (j_status job = Accepted) (Domain GenerationStateConflictError)) (\<lambda>_.
          andthen (audited (put_job (cancel_job now job) db) aid t (Some actor) ''generation.cancel'' (j_id job) context
                     [(''phase'', JStr ''accepted'')]) (\<lambda>db'.
          andthen (jobs_flush db') (\<lambda>db''. Inr ((), db''))))))"

definition soft_delete ::
  "gen_db \<Rightarrow> instant \<Rightarrow> uuid \<Rightarrow> uuid \<Rightarrow> uuid \<Rightarrow> uuid \<Rightarrow> AuditContext \<Rightarrow> (gen_error raised + unit) \<times> gen_db" where
  "soft_delete db now aid t actor jid context =
     transaction db
       (andthen (lock_visible_job db t actor jid) (\<lambda>job.
        if j_deleted_at job \<noteq> None then Inr ((), db)
        else
          andthen (require (is_terminal (j_status job)) (Domain GenerationStateConflictError)) (\<lambda>_.
          andthen (jobs_flush (put_job (job\<lparr>j_deleted_at := Some now, j_updated_at := now\<rparr>) db)) (\<lambda>db1.
          let db2 = db1\<lparr>g_artifacts := update_where
                (\<lambda>a. a_tenant_id a = t \<and> a_generation_job_id a = j_id job \<and> a_status a \<in> set [''pending'', ''ready''])
                (\<lambda>a. a\<lparr>a_status := ''expired'', a_expires_at := Some now, a_updated_at := now\<rparr>) (g_artifacts db1)\<rparr> in
          andthen (audited db2 aid t (Some actor) ''generation.delete'' (j_id job) context
                     [(''retention'', JStr ''cleanup_pending'')]) (\<lambda>db3. Inr ((), db3))))))"

subsection \<open>Artifact cleanup\<close>

record ArtifactDeletionClaim =
  dc_artifact_id :: uuid
  dc_tenant_id :: uuid
  dc_job_db_id :: uuid
  dc_job_id :: uuid
  dc_object_key :: string

text \<open>\<open>ORDER BY expires_at\<close> puts NULL last.\<close>

definition nulls_last :: "instant option \<Rightarrow> int \<times> instant" where
  "nulls_last e = (case e of None \<Rightarrow> (1, 0) | Some v \<Rightarrow> (0, v))"

definition deletable :: "instant \<Rightarrow> GenArtifact \<Rightarrow> bool" where
  "deletable now a \<longleftrightarrow>
     a_status a = ''expired'' \<and> (case a_expires_at a of None \<Rightarrow> False | Some e \<Rightarrow> e \<le> now) \<or>
     a_status a = ''delete_pending'' \<and> a_updated_at a \<le> now - seconds (5 * 60)"

definition artifact_job :: "gen_db \<Rightarrow> GenArtifact \<Rightarrow> (GenArtifact \<times> uuid) list" where
  "artifact_job db a = map (\<lambda>j. (a, j_job_id j))
     (filter (\<lambda>j. j_tenant_id j = a_tenant_id a \<and> j_id j = a_generation_job_id a) (g_jobs db))"

definition cleanup_claim ::
  "gen_db \<Rightarrow> instant \<Rightarrow> (uuid \<Rightarrow> bool) \<Rightarrow> (gen_error raised + ArtifactDeletionClaim option) \<times> gen_db" where
  "cleanup_claim db now locked =
     transaction db
       (case first_row (sort_key (\<lambda>(a, _). (nulls_last (a_expires_at a), a_id a))
               (filter (\<lambda>(a, _). deletable now a \<and> \<not> locked (a_id a)) (concat (map (artifact_job db) (g_artifacts db))))) of
          None \<Rightarrow> Inr (None, db)
        | Some (a, job_id) \<Rightarrow>
            andthen (artifacts_flush (put_artifact (a\<lparr>a_status := ''delete_pending'', a_updated_at := now\<rparr>) db)) (\<lambda>db'.
            Inr (Some \<lparr>dc_artifact_id = a_id a, dc_tenant_id = a_tenant_id a, dc_job_db_id = a_generation_job_id a,
                       dc_job_id = job_id, dc_object_key = a_object_key a\<rparr>, db')))"

definition claimed_artifact :: "ArtifactDeletionClaim \<Rightarrow> GenArtifact \<Rightarrow> bool" where
  "claimed_artifact claim a \<longleftrightarrow>
     a_tenant_id a = dc_tenant_id claim \<and> a_id a = dc_artifact_id claim \<and> a_status a = ''delete_pending''"

text \<open>\<open>str_uuid\<close> is \<open>str(UUID)\<close>; the tombstone key of a deleted artifact is built from it.\<close>

definition cleanup_complete ::
  "gen_db \<Rightarrow> instant \<Rightarrow> ArtifactDeletionClaim \<Rightarrow> (gen_error raised + unit) \<times> gen_db" where
  "cleanup_complete db now claim =
     transaction db
       (andthen (artifacts_flush (db\<lparr>g_artifacts := update_where (claimed_artifact claim)
            (\<lambda>a. a\<lparr>a_status := ''deleted'', a_object_key := ''deleted/'' @ str_uuid (dc_artifact_id claim),
                   a_size_bytes := 0, a_sha256 := None, a_expires_at := Some now, a_updated_at := now\<rparr>)
            (g_artifacts db)\<rparr>)) (\<lambda>db'.
        andthen (require (rowcount (claimed_artifact claim) (g_artifacts db) = 1) (Domain GenerationStateConflictError)) (\<lambda>_.
        Inr ((), db'))))"

definition cleanup_retry :: "gen_db \<Rightarrow> instant \<Rightarrow> ArtifactDeletionClaim \<Rightarrow> (gen_error raised + unit) \<times> gen_db" where
  "cleanup_retry db now claim =
     transaction db
       (andthen (artifacts_flush (db\<lparr>g_artifacts := update_where (claimed_artifact claim)
            (\<lambda>a. a\<lparr>a_status := ''expired'', a_expires_at := Some (now + seconds (5 * 60)), a_updated_at := now\<rparr>)
            (g_artifacts db)\<rparr>)) (\<lambda>db'. Inr ((), db')))"

text \<open>
  \<open>run_once\<close>: three transactions around the storage call, whose failure is re-raised as \<open>StorageFailure\<close>
  after the retry is scheduled. \<open>clock\<close> gives the reading each transaction took.
\<close>

datatype cleanup_error = StorageFailure | CleanupRaised "gen_error raised"

definition cleanup_run_once ::
  "(uuid \<Rightarrow> uuid \<Rightarrow> string \<Rightarrow> bool) \<Rightarrow> gen_db \<Rightarrow> (nat \<Rightarrow> instant) \<Rightarrow> (uuid \<Rightarrow> bool) \<Rightarrow>
   (cleanup_error + bool) \<times> gen_db" where
  "cleanup_run_once delete_object db clock locked =
     (case cleanup_claim db (clock 0) locked of
        (Inl e, db1) \<Rightarrow> (Inl (CleanupRaised e), db1)
      | (Inr None, db1) \<Rightarrow> (Inr False, db1)
      | (Inr (Some claim), db1) \<Rightarrow>
          (if delete_object (dc_tenant_id claim) (dc_job_id claim) (dc_object_key claim) then
             (case cleanup_complete db1 (clock 1) claim of
                (Inl e, db2) \<Rightarrow> (Inl (CleanupRaised e), db2) | (Inr _, db2) \<Rightarrow> (Inr True, db2))
           else
             (case cleanup_retry db1 (clock 1) claim of
                (Inl e, db2) \<Rightarrow> (Inl (CleanupRaised e), db2) | (Inr _, db2) \<Rightarrow> (Inl StorageFailure, db2))))"

end
