(* ===== verification/Generation_Recovery.thy ===== *)
theory Generation_Recovery
  imports Generation_Lifecycle
begin

text \<open>
  Settlement of a generation's hold against the wallet service, and the paths that resolve a job whose
  provider outcome is unknown: \<open>SqlAlchemyGenerationBilling\<close> of \<open>app/generations/worker.py\<close> and the two
  services of \<open>app/generations/recovery.py\<close>. Each opens its own sessions, so an operation is a sequence
  of transactions; the clock, the fresh identifiers and the outcomes of the provider calls are arguments.
\<close>

subsection \<open>The wallet service on the shared database\<close>

text \<open>The accepted price is a column of the job row itself.\<close>

definition priced_job :: "GenJob \<Rightarrow> priced_source" where
  "priced_job j = \<lparr>src_tenant_id = j_tenant_id j, src_id = j_id j, src_accepted_price_version_id = j_accepted_price_version_id j\<rparr>"

definition billing_of :: "gen_db \<Rightarrow> billing_db" where
  "billing_of db = (g_billing db)\<lparr>generation_jobs := map priced_job (g_jobs db)\<rparr>"

definition gen_capture ::
  "gen_db \<Rightarrow> uuid \<Rightarrow> uuid \<Rightarrow> instant \<Rightarrow> uuid \<Rightarrow> uuid \<Rightarrow> BillingUsage option \<Rightarrow> (billing_error + CaptureResult) \<times> gen_db" where
  "gen_capture db lid1 lid2 now t rid usage =
     (case capture (billing_of db) lid1 lid2 now t rid None usage of (r, b) \<Rightarrow> (r, db\<lparr>g_billing := b\<rparr>))"

definition gen_release ::
  "gen_db \<Rightarrow> uuid \<Rightarrow> instant \<Rightarrow> uuid \<Rightarrow> uuid \<Rightarrow> (billing_error + ReleaseResult) \<times> gen_db" where
  "gen_release db lid now t rid =
     (case release (billing_of db) lid now t rid of (r, b) \<Rightarrow> (r, db\<lparr>g_billing := b\<rparr>))"

definition mark_reconciliation_resolved ::
  "gen_db \<Rightarrow> instant \<Rightarrow> uuid \<Rightarrow> uuid \<Rightarrow> uuid \<Rightarrow> (gen_error raised + unit) \<times> gen_db" where
  "mark_reconciliation_resolved db now aid t job_db_id =
     transaction db
       (andthen (scalar_one_or_none (filter (\<lambda>j. j_tenant_id j = t \<and> j_id j = job_db_id) (g_jobs db))) (\<lambda>found.
        case found of
          None \<Rightarrow> Inr ((), db)
        | Some job \<Rightarrow>
            (if j_reconciliation_status job \<noteq> ''pending'' then Inr ((), db)
             else
               andthen (audited (put_job (job\<lparr>j_reconciliation_status := ''resolved'', j_updated_at := now\<rparr>) db) aid t None
                          ''generation.reconciliation.resolved'' (j_id job) (system_context ''generation-billing-reconciler'')
                          [(''operator_subject'', JStr ''system:generation-billing-reconciler'')]) (\<lambda>db1.
               andthen (jobs_flush db1) (\<lambda>db2. Inr ((), db2))))))"

subsection \<open>The settlement reconciler\<close>

record settlement_row =
  sr_tenant_id :: uuid
  sr_reservation_id :: uuid
  sr_job_db_id :: uuid
  sr_status :: GenerationStatus
  sr_reconciliation_status :: string
  sr_usage_id :: "uuid option"

definition usage_of_job :: "gen_db \<Rightarrow> GenJob \<Rightarrow> uuid option list" where
  "usage_of_job db j =
     (case filter (\<lambda>u. u_tenant_id u = j_tenant_id j \<and> u_generation_job_id u = Some (j_id j)) (usage_records (g_billing db)) of
        [] \<Rightarrow> [None] | us \<Rightarrow> map (\<lambda>u. Some (u_id u)) us)"

definition settlement_rows_of :: "gen_db \<Rightarrow> BalanceReservation \<Rightarrow> settlement_row list" where
  "settlement_rows_of db r =
     concat (map (\<lambda>j. map (\<lambda>u. \<lparr>sr_tenant_id = r_tenant_id r, sr_reservation_id = r_id r, sr_job_db_id = j_id j,
         sr_status = j_status j, sr_reconciliation_status = j_reconciliation_status j, sr_usage_id = u\<rparr>) (usage_of_job db j))
       (filter (\<lambda>j. j_tenant_id j = r_tenant_id r \<and> j_id j = r_source_id r \<and> is_terminal (j_status j)) (g_jobs db)))"

text \<open>The reservation rows are appended as they are created, so the table order is the creation order.\<close>

definition settlement_rows :: "gen_db \<Rightarrow> int \<Rightarrow> settlement_row list" where
  "settlement_rows db limit =
     take (nat limit) (concat (map (settlement_rows_of db)
       (filter (\<lambda>r. r_source_type r = ''generation'' \<and> r_status r = ''pending'') (reservations (g_billing db)))))"

datatype settle_error = SettleBilling billing_error | SettleGeneration "gen_error raised"

definition settle_row ::
  "gen_db \<Rightarrow> (nat \<Rightarrow> uuid) \<Rightarrow> nat \<Rightarrow> instant \<Rightarrow> settlement_row \<Rightarrow> (settle_error + nat) \<times> gen_db" where
  "settle_row db ids n now row =
     (let t = sr_tenant_id row; rid = sr_reservation_id row;
          rel = (\<lambda>d. gen_release d (ids (n + 2)) now t rid) in
      if sr_status row = Succeeded \<and> sr_usage_id row = None then (Inr 0, db)
      else
        (case (if sr_status row = Succeeded
               then capture_or_release_expired (gen_capture db (ids n) (ids (n + 1)) now t rid None) rel
               else (case rel db of (Inl e, d) \<Rightarrow> (Inl e, d) | (Inr _, d) \<Rightarrow> (Inr (), d))) of
           (Inl e, db1) \<Rightarrow> (Inl (SettleBilling e), db1)
         | (Inr _, db1) \<Rightarrow>
             (if sr_status row = Failed \<and> sr_reconciliation_status row = ''pending'' then
                (case mark_reconciliation_resolved db1 now (ids (n + 3)) t (sr_job_db_id row) of
                   (Inl e, db2) \<Rightarrow> (Inl (SettleGeneration e), db2) | (Inr _, db2) \<Rightarrow> (Inr 1, db2))
              else (Inr 1, db1))))"

text \<open>A raise leaves the loop; the rows settled before it stay settled.\<close>

fun settle_rows ::
  "(nat \<Rightarrow> uuid) \<Rightarrow> instant \<Rightarrow> nat \<Rightarrow> settlement_row list \<Rightarrow> nat \<Rightarrow> gen_db \<Rightarrow> (settle_error + nat) \<times> gen_db" where
  "settle_rows ids now n [] repaired db = (Inr repaired, db)"
| "settle_rows ids now n (row # rows) repaired db =
     (case settle_row db ids n now row of
        (Inl e, db') \<Rightarrow> (Inl e, db')
      | (Inr k, db') \<Rightarrow> settle_rows ids now (n + 4) rows (repaired + k) db')"

definition reconcile_once ::
  "gen_db \<Rightarrow> (nat \<Rightarrow> uuid) \<Rightarrow> instant \<Rightarrow> int \<Rightarrow> (settle_error + nat) \<times> gen_db" where
  "reconcile_once db ids now limit =
     (if \<not> (1 \<le> limit \<and> limit \<le> 500)
      then (Inl (SettleGeneration (Domain (GenValueError ''reconciliation limit must be between 1 and 500''))), db)
      else settle_rows ids now 0 (settlement_rows db limit) 0 db)"

subsection \<open>Operator resolution\<close>

record PendingGenerationRecovery =
  pr_tenant_id :: uuid
  pr_job_id :: uuid
  pr_modality :: string
  pr_provider_request_id :: "string option"
  pr_provider_task_id :: "string option"
  pr_updated_at :: instant

definition list_pending :: "gen_db \<Rightarrow> int \<Rightarrow> gen_error + PendingGenerationRecovery list" where
  "list_pending db limit =
     andthen (require (1 \<le> limit \<and> limit \<le> 500) (GenValueError ''recovery list limit must be between 1 and 500'')) (\<lambda>_.
     Inr (map (\<lambda>j. \<lparr>pr_tenant_id = j_tenant_id j, pr_job_id = j_job_id j, pr_modality = j_modality j,
            pr_provider_request_id = j_provider_request_id j, pr_provider_task_id = j_provider_task_id j,
            pr_updated_at = j_updated_at j\<rparr>)
       (take (nat limit) (sort_key (\<lambda>j. (j_updated_at j, j_id j))
         (filter (\<lambda>j. j_reconciliation_status j = ''pending'' \<and> j_status j \<in> set [Submitted_unknown, Failed]) (g_jobs db))))))"

text \<open>\<open>str.split()\<close>: the maximal runs without white space.\<close>

function split_ws :: "string \<Rightarrow> string list" where
  "split_ws s = (let t = dropWhile is_space s in
     if t = [] then [] else takeWhile (\<lambda>c. \<not> is_space c) t # split_ws (dropWhile (\<lambda>c. \<not> is_space c) t))"
  by pat_completeness auto

lemma length_dropWhile_less: "t \<noteq> [] \<Longrightarrow> P (hd t) \<Longrightarrow> length (dropWhile P t) < length t"
  by (cases t) (auto simp: le_imp_less_Suc length_dropWhile_le)

lemma hd_dropWhile_space: "dropWhile is_space s \<noteq> [] \<Longrightarrow> \<not> is_space (hd (dropWhile is_space s))"
  using hd_dropWhile by blast

termination split_ws
proof (relation "measure length")
  fix s t :: string
  assume t: "t = dropWhile is_space s" "t \<noteq> []"
  then have "length (dropWhile (\<lambda>c. \<not> is_space c) t) < length t"
    by (intro length_dropWhile_less) (auto simp: hd_dropWhile_space)
  also have "\<dots> \<le> length s"
    using t(1) by (simp add: length_dropWhile_le)
  finally show "(dropWhile (\<lambda>c. \<not> is_space c) t, s) \<in> measure length"
    by simp
qed simp

declare split_ws.simps [simp del]

definition join_words :: "string list \<Rightarrow> string" where
  "join_words ws = concat (case ws of [] \<Rightarrow> [] | w # rest \<Rightarrow> w # map (\<lambda>v. '' '' @ v) rest)"

definition bounded_text :: "string \<Rightarrow> string \<Rightarrow> nat \<Rightarrow> gen_error + string" where
  "bounded_text v label maximum =
     (let normalized = join_words (split_ws v) in
      if normalized = [] \<or> length normalized > maximum then Inl (GenValueError (label @ '' is invalid'')) else Inr normalized)"

definition lock_job :: "gen_db \<Rightarrow> uuid \<Rightarrow> uuid \<Rightarrow> gen_error raised + GenJob" where
  "lock_job db t jid =
     or_raise GenerationNotFoundError (scalar_one_or_none (filter (\<lambda>j. j_tenant_id j = t \<and> j_job_id j = jid) (g_jobs db)))"

definition resolved_failed :: "instant \<Rightarrow> GenJob \<Rightarrow> GenJob" where
  "resolved_failed now j =
     (drop_lease j)\<lparr>j_status := Failed, j_error_code := Some ''GENERATION_OPERATOR_RESOLVED_FAILED'',
       j_completed_at := Some now, j_updated_at := now, j_provider_observed_status := Some ''FAILED'',
       j_provider_observed_at := Some now\<rparr>"

text \<open>
  The first transaction of \<open>resolve_failed\<close>: fail the job, or see that it is already failed. Its result is
  None when the resolution is already complete, else the reservation to release.
\<close>

definition request_resolution ::
  "gen_db \<Rightarrow> instant \<Rightarrow> uuid \<Rightarrow> uuid \<Rightarrow> uuid \<Rightarrow> string \<Rightarrow> string \<Rightarrow> (gen_error raised + uuid option) \<times> gen_db" where
  "request_resolution db now aid t jid subject reason =
     transaction db
       (andthen (lock_job db t jid) (\<lambda>job.
        let finish = (\<lambda>db'. case j_billing_reservation_id job of
              None \<Rightarrow> Inl (Domain (GenerationInfrastructureError ''GENERATION_BILLING_RESERVATION_MISSING''))
            | Some rid \<Rightarrow> andthen (jobs_flush db') (\<lambda>d. Inr (Some rid, d))) in
        if j_status job = Submitted_unknown \<and> j_reconciliation_status job = ''pending'' then
          andthen (audited (put_job (resolved_failed now job) db) aid t None ''generation.reconciliation.failed_requested''
                     (j_id job) (system_context ''operator-cli'')
                     [(''operator_subject'', JStr subject), (''reason'', JStr reason)]) finish
        else if j_status job = Failed \<and> j_reconciliation_status job = ''pending'' \<and>
                j_provider_observed_status job = Some ''FAILED'' then finish db
        else if j_status job = Failed \<and> j_reconciliation_status job = ''resolved'' \<and>
                j_provider_observed_status job = Some ''FAILED'' then Inr (None, db)
        else Inl (Domain (GenerationInfrastructureError ''GENERATION_RECONCILIATION_CONFLICT''))))"

definition finish_resolution ::
  "gen_db \<Rightarrow> instant \<Rightarrow> uuid \<Rightarrow> uuid \<Rightarrow> uuid \<Rightarrow> string \<Rightarrow> (gen_error raised + unit) \<times> gen_db" where
  "finish_resolution db now aid t jid subject =
     transaction db
       (andthen (lock_job db t jid) (\<lambda>job.
        if j_reconciliation_status job = ''resolved'' then Inr ((), db)
        else if j_status job \<noteq> Failed \<or> j_reconciliation_status job \<noteq> ''pending''
        then Inl (Domain (GenerationInfrastructureError ''GENERATION_RECONCILIATION_CONFLICT''))
        else
          andthen (audited (put_job (job\<lparr>j_reconciliation_status := ''resolved'', j_updated_at := now\<rparr>) db) aid t None
                     ''generation.reconciliation.resolved'' (j_id job) (system_context ''operator-cli'')
                     [(''operator_subject'', JStr subject), (''outcome'', JStr ''failed'')]) (\<lambda>db1.
          andthen (jobs_flush db1) (\<lambda>db2. Inr ((), db2)))))"

definition resolve_failed ::
  "gen_db \<Rightarrow> (nat \<Rightarrow> instant) \<Rightarrow> (nat \<Rightarrow> uuid) \<Rightarrow> uuid \<Rightarrow> uuid \<Rightarrow> string \<Rightarrow> string \<Rightarrow> (settle_error + unit) \<times> gen_db" where
  "resolve_failed db clock ids t jid operator_subject reason =
     (case andthen (bounded_text operator_subject ''operator subject'' 200) (\<lambda>s.
           andthen (bounded_text reason ''reason'' 500) (\<lambda>r. Inr (s, r))) of
        Inl e \<Rightarrow> (Inl (SettleGeneration (Domain e)), db)
      | Inr (subject, normalized_reason) \<Rightarrow>
          (case request_resolution db (clock 0) (ids 0) t jid subject normalized_reason of
             (Inl e, db1) \<Rightarrow> (Inl (SettleGeneration e), db1)
           | (Inr None, db1) \<Rightarrow> (Inr (), db1)
           | (Inr (Some rid), db1) \<Rightarrow>
               (case gen_release db1 (ids 1) (clock 1) t rid of
                  (Inl e, db2) \<Rightarrow> (Inl (SettleBilling e), db2)
                | (Inr _, db2) \<Rightarrow>
                    (case finish_resolution db2 (clock 2) (ids 2) t jid subject of
                       (Inl e, db3) \<Rightarrow> (Inl (SettleGeneration e), db3) | (Inr _, db3) \<Rightarrow> (Inr (), db3)))))"

end
