(* ===== verification/Catalog.thy ===== *)
theory Catalog
  imports Billing_Service "HOL-Library.List_Lexorder" "HOL-Library.Char_ord"
begin

text \<open>
  The model catalog: the rows of \<open>app/infrastructure/models.py\<close> that route a request, the tenant's view of
  \<open>app/catalog/repository.py\<close>, the coarse availability of \<open>app/catalog/service.py\<close>, the trusted voice of
  \<open>app/generations/voice_resources.py\<close> and the route an accepted generation is bound to
  (\<open>_resolve_route\<close> of \<open>app/generations/repository.py\<close>). SQL joins are list comprehensions in join order.
\<close>

subsection \<open>Rows\<close>

record ProductModel =
  pm_id :: uuid
  pm_model_key :: string
  pm_display_name :: string
  pm_modality :: string
  pm_task_type :: string
  pm_status :: string
  pm_capabilities :: "(string \<times> json) list"
  pm_pricing_summary :: "(string \<times> json) list"
  pm_description :: "string option"

record Entitlement =
  te_tenant_id :: uuid
  te_product_model_id :: uuid
  te_enabled :: bool
  te_config :: "(string \<times> json) list"

record ProviderEndpoint =
  pe_id :: uuid
  pe_endpoint_key :: string
  pe_provider_name :: string
  pe_protocol :: string
  pe_base_url :: string
  pe_secret_ref :: string
  pe_status :: string
  pe_config :: "(string \<times> json) list"

record ModelDeployment =
  md_id :: uuid
  md_product_model_id :: uuid
  md_provider_endpoint_id :: uuid
  md_provider_model_id :: string
  md_status :: string
  md_priority :: int
  md_concurrency_limit :: int
  md_routing_config :: "(string \<times> json) list"
  md_created_at :: instant

record ModelRevision =
  mr_id :: uuid
  mr_product_model_id :: uuid
  mr_version :: int
  mr_capability_schema_version :: int
  mr_capability_schema :: json
  mr_capability_schema_hash :: string

record RoutingPolicy =
  po_id :: uuid
  po_model_revision_id :: uuid
  po_version :: int
  po_strategy :: string

record PricedVersion =
  cp_row :: PriceVersion
  cp_model_revision_id :: uuid
  cp_effective_from :: instant
  cp_effective_to :: "instant option"

record PriceBinding =
  pb_model_revision_id :: uuid
  pb_model_deployment_id :: uuid
  pb_price_version_id :: uuid
  pb_effective_from :: instant
  pb_effective_to :: "instant option"

record catalog_db =
  c_products :: "ProductModel list"
  c_entitlements :: "Entitlement list"
  c_endpoints :: "ProviderEndpoint list"
  c_deployments :: "ModelDeployment list"
  c_revisions :: "ModelRevision list"
  c_policies :: "RoutingPolicy list"
  c_prices :: "PricedVersion list"
  c_bindings :: "PriceBinding list"

subsection \<open>Trusted voices\<close>

record AudioVoiceBinding =
  vb_target_model :: string
  vb_provider_voice_id :: string

datatype voice_error = VoiceResourceUnavailable

definition resolve_audio_voice_binding ::
  "string \<Rightarrow> (string \<times> json) list \<Rightarrow> (string \<times> json) list \<Rightarrow> voice_error + AudioVoiceBinding option" where
  "resolve_audio_voice_binding provider_model_id routing_config entitlement_config =
     (if map_of routing_config ''live_modality'' \<noteq> Some (JStr ''audio'') then Inr None
      else if map_of routing_config ''voice_resource_required'' = Some (JBool True) then
        (case map_of entitlement_config ''voice_resource'' of
           Some (JObj resource) \<Rightarrow>
             (case map_of resource ''provider_voice_id'' of
                Some (JStr voice) \<Rightarrow>
                  (if map_of resource ''status'' \<noteq> Some (JStr ''active'') \<or>
                      map_of resource ''target_model'' \<noteq> Some (JStr provider_model_id) \<or> blank voice
                   then Inl VoiceResourceUnavailable
                   else Inr (Some \<lparr>vb_target_model = provider_model_id, vb_provider_voice_id = strip voice\<rparr>))
              | _ \<Rightarrow> Inl VoiceResourceUnavailable)
         | _ \<Rightarrow> Inl VoiceResourceUnavailable)
      else
        (case map_of routing_config ''default_voice'' of
           Some (JStr voice) \<Rightarrow>
             (if blank voice then Inl VoiceResourceUnavailable
              else Inr (Some \<lparr>vb_target_model = provider_model_id, vb_provider_voice_id = strip voice\<rparr>))
         | _ \<Rightarrow> Inl VoiceResourceUnavailable))"

subsection \<open>The route of a request\<close>

record DeploymentRoute =
  ro_product_model_db_id :: uuid
  ro_product_model_id :: string
  ro_modality :: string
  ro_task_type :: string
  ro_deployment_id :: uuid
  ro_endpoint_id :: uuid
  ro_provider_name :: string
  ro_protocol :: string
  ro_base_url :: string
  ro_provider_model_id :: string
  ro_concurrency_limit :: int
  ro_endpoint_key :: string
  ro_endpoint_config :: "(string \<times> json) list"
  ro_deployment_config :: "(string \<times> json) list"

type_synonym route_row = "ProductModel \<times> Entitlement \<times> ModelDeployment \<times> ProviderEndpoint"

definition entitled :: "uuid \<Rightarrow> ProductModel \<Rightarrow> Entitlement \<Rightarrow> bool" where
  "entitled t p e \<longleftrightarrow> te_product_model_id e = pm_id p \<and> te_tenant_id e = t \<and> te_enabled e"

definition route_query :: "catalog_db \<Rightarrow> uuid \<Rightarrow> string \<Rightarrow> string \<Rightarrow> route_row list" where
  "route_query c t model_key modality =
     sort_key (\<lambda>(_, _, d, _). (md_priority d, md_created_at d))
       [(p, e, d, ep). p \<leftarrow> c_products c, e \<leftarrow> c_entitlements c, entitled t p e,
          d \<leftarrow> c_deployments c, md_product_model_id d = pm_id p,
          ep \<leftarrow> c_endpoints c, pe_id ep = md_provider_endpoint_id d,
          pm_model_key p = model_key \<and> pm_modality p = modality \<and> pm_status p = ''active'' \<and>
          md_status d = ''active'' \<and> pe_status ep = ''active'']"

fun usable_row :: "route_row \<Rightarrow> bool" where
  "usable_row (p, e, d, ep) \<longleftrightarrow>
     map_of (pm_capabilities p) ''execution_policy'' \<noteq> Some (JStr ''unsupported'') \<and>
     (case resolve_audio_voice_binding (md_provider_model_id d) (md_routing_config d) (te_config e) of
        Inl _ \<Rightarrow> False | Inr _ \<Rightarrow> True)"

fun route_of :: "route_row \<Rightarrow> DeploymentRoute" where
  "route_of (p, e, d, ep) =
     \<lparr>ro_product_model_db_id = pm_id p, ro_product_model_id = pm_model_key p, ro_modality = pm_modality p,
      ro_task_type = pm_task_type p, ro_deployment_id = md_id d, ro_endpoint_id = pe_id ep,
      ro_provider_name = pe_provider_name ep, ro_protocol = pe_protocol ep, ro_base_url = pe_base_url ep,
      ro_provider_model_id = md_provider_model_id d, ro_concurrency_limit = md_concurrency_limit d,
      ro_endpoint_key = pe_endpoint_key ep, ro_endpoint_config = pe_config ep, ro_deployment_config = md_routing_config d\<rparr>"

text \<open>The loop: skip the rows that cannot execute, return the first other one; None is \<open>RouteUnavailable\<close>.\<close>

fun first_usable :: "route_row list \<Rightarrow> DeploymentRoute option" where
  "first_usable [] = None"
| "first_usable (row # rows) = (if usable_row row then Some (route_of row) else first_usable rows)"

definition resolve_route :: "catalog_db \<Rightarrow> uuid \<Rightarrow> string \<Rightarrow> string \<Rightarrow> DeploymentRoute option" where
  "resolve_route c t model_key modality = first_usable (route_query c t model_key modality)"

subsection \<open>The accepted decision\<close>

record AcceptedDecisionSnapshot =
  ad_model_revision_id :: uuid
  ad_model_deployment_id :: uuid
  ad_routing_policy_id :: uuid
  ad_price_version_id :: uuid
  ad_price :: PriceSnapshot
  ad_capability_schema_version :: int
  ad_capability_schema_hash :: string
  ad_capability_schema :: "(string \<times> json) list"

definition effective :: "instant \<Rightarrow> instant \<Rightarrow> instant option \<Rightarrow> bool" where
  "effective now from until \<longleftrightarrow> from \<le> now \<and> (case until of None \<Rightarrow> True | Some u \<Rightarrow> now < u)"

definition accepted_decision_statement ::
  "catalog_db \<Rightarrow> uuid \<Rightarrow> uuid \<Rightarrow> instant \<Rightarrow> (ModelRevision \<times> RoutingPolicy \<times> PricedVersion) list" where
  "accepted_decision_statement c product deployment now =
     take 1 (sort_key (\<lambda>(r, po, pv). (- mr_version r, - po_version po, - pv_version (cp_row pv)))
       [(r, po, pv). r \<leftarrow> c_revisions c, d \<leftarrow> c_deployments c, md_id d = deployment \<and> md_product_model_id d = product,
          po \<leftarrow> c_policies c, po_model_revision_id po = mr_id r,
          b \<leftarrow> c_bindings c, pb_model_revision_id b = mr_id r \<and> pb_model_deployment_id b = md_id d,
          pv \<leftarrow> c_prices c, pv_id (cp_row pv) = pb_price_version_id b \<and> cp_model_revision_id pv = mr_id r,
          mr_product_model_id r = product \<and> po_strategy po = ''priority'' \<and>
          effective now (pb_effective_from b) (pb_effective_to b) \<and>
          effective now (cp_effective_from pv) (cp_effective_to pv)])"

definition price_snapshot :: "PriceVersion \<Rightarrow> billing_error + PriceSnapshot" where
  "price_snapshot p = mk_PriceSnapshot (pv_id p) (pv_price_key p) (pv_version p) (pv_currency p) (pv_unit p) (pv_pricing p)"

definition resolve_accepted_decision ::
  "catalog_db \<Rightarrow> uuid \<Rightarrow> uuid \<Rightarrow> instant \<Rightarrow> billing_error + AcceptedDecisionSnapshot option" where
  "resolve_accepted_decision c product deployment now =
     (case accepted_decision_statement c product deployment now of
        [] \<Rightarrow> Inr None
      | (revision, policy, price) # _ \<Rightarrow>
          (case mr_capability_schema revision of
             JObj schema \<Rightarrow>
               andthen (price_snapshot (cp_row price)) (\<lambda>snapshot.
               Inr (Some \<lparr>ad_model_revision_id = mr_id revision, ad_model_deployment_id = deployment,
                 ad_routing_policy_id = po_id policy, ad_price_version_id = pv_id (cp_row price), ad_price = snapshot,
                 ad_capability_schema_version = mr_capability_schema_version revision,
                 ad_capability_schema_hash = mr_capability_schema_hash revision, ad_capability_schema = schema\<rparr>))
           | _ \<Rightarrow> Inr None))"

subsection \<open>The tenant's catalog\<close>

record DeploymentSnapshot =
  ds_status :: string
  ds_endpoint_status :: string
  ds_provider_model_id :: string
  ds_routing_config :: "(string \<times> json) list"

record CatalogRecord =
  cr_product_model_id :: uuid
  cr_model_key :: string
  cr_display_name :: string
  cr_modality :: string
  cr_task_type :: string
  cr_product_status :: string
  cr_capabilities :: "(string \<times> json) list"
  cr_pricing_summary :: "(string \<times> json) list"
  cr_description :: "string option"
  cr_entitlement_config :: "(string \<times> json) list"
  cr_deployments :: "DeploymentSnapshot list"

text \<open>An outer join pairs a row without partner with None.\<close>

definition outer :: "'a list \<Rightarrow> 'a option list" where
  "outer xs = (if xs = [] then [None] else map Some xs)"

definition catalog_query ::
  "catalog_db \<Rightarrow> uuid \<Rightarrow> (ProductModel \<times> Entitlement \<times> ModelDeployment option \<times> ProviderEndpoint option) list" where
  "catalog_query c t =
     sort_key (\<lambda>(p, _, d, _). (pm_display_name p, case d of None \<Rightarrow> (1, 0) | Some d' \<Rightarrow> (0 :: int, md_priority d')))
       [(p, e, d, ep). p \<leftarrow> c_products c, e \<leftarrow> c_entitlements c, entitled t p e, pm_status p = ''active'',
          d \<leftarrow> outer (filter (\<lambda>d. md_product_model_id d = pm_id p) (c_deployments c)),
          ep \<leftarrow> outer (filter (\<lambda>ep. case d of None \<Rightarrow> False | Some d' \<Rightarrow> pe_id ep = md_provider_endpoint_id d') (c_endpoints c))]"

fun snapshot_of :: "ModelDeployment option \<times> ProviderEndpoint option \<Rightarrow> DeploymentSnapshot list" where
  "snapshot_of (Some d, Some ep) =
     [\<lparr>ds_status = md_status d, ds_endpoint_status = pe_status ep, ds_provider_model_id = md_provider_model_id d,
       ds_routing_config = md_routing_config d\<rparr>]"
| "snapshot_of _ = []"

text \<open>\<open>grouped\<close> is an insertion-ordered dictionary: the first row of a product makes its record, a later one adds to it.\<close>

fun group_row ::
  "ProductModel \<times> Entitlement \<times> ModelDeployment option \<times> ProviderEndpoint option \<Rightarrow> CatalogRecord list \<Rightarrow> CatalogRecord list"
where
  "group_row (p, e, d) grouped =
     (if list_ex (\<lambda>r. cr_product_model_id r = pm_id p) grouped then
        update_where (\<lambda>r. cr_product_model_id r = pm_id p) (\<lambda>r. r\<lparr>cr_deployments := cr_deployments r @ snapshot_of d\<rparr>) grouped
      else grouped @
        [\<lparr>cr_product_model_id = pm_id p, cr_model_key = pm_model_key p, cr_display_name = pm_display_name p,
          cr_modality = pm_modality p, cr_task_type = pm_task_type p, cr_product_status = pm_status p,
          cr_capabilities = pm_capabilities p, cr_pricing_summary = pm_pricing_summary p, cr_description = pm_description p,
          cr_entitlement_config = te_config e, cr_deployments = snapshot_of d\<rparr>])"

definition list_for_tenant :: "catalog_db \<Rightarrow> uuid \<Rightarrow> CatalogRecord list" where
  "list_for_tenant c t = fold group_row (catalog_query c t) []"

definition grant_default_entitlements :: "catalog_db \<Rightarrow> uuid \<Rightarrow> string list \<Rightarrow> nat \<times> catalog_db" where
  "grant_default_entitlements c t model_keys =
     (let ids = map pm_id (filter (\<lambda>p. pm_status p = ''active'' \<and> (model_keys = [] \<or> pm_model_key p \<in> set model_keys)) (c_products c));
          existing = map te_product_model_id (filter (\<lambda>e. te_tenant_id e = t \<and> te_product_model_id e \<in> set ids) (c_entitlements c));
          missing = filter (\<lambda>i. i \<notin> set existing) ids
      in (length missing,
          c\<lparr>c_entitlements := c_entitlements c @
            map (\<lambda>i. \<lparr>te_tenant_id = t, te_product_model_id = i, te_enabled = True, te_config = []\<rparr>) missing\<rparr>))"

subsection \<open>Availability\<close>

datatype ModelAvailability = Available | Maintenance | Unavailable

fun truthy :: "json option \<Rightarrow> bool" where
  "truthy None \<longleftrightarrow> False"
| "truthy (Some JNull) \<longleftrightarrow> False"
| "truthy (Some (JBool b)) \<longleftrightarrow> b"
| "truthy (Some (JInt i)) \<longleftrightarrow> i \<noteq> 0"
| "truthy (Some (JFloat s)) \<longleftrightarrow> list_ex (\<lambda>c. is_digit c \<and> c \<noteq> CHR ''0'') (takeWhile (\<lambda>c. c \<notin> set ''eE'') s)"
| "truthy (Some (JStr s)) \<longleftrightarrow> s \<noteq> []"
| "truthy (Some (JList xs)) \<longleftrightarrow> xs \<noteq> []"
| "truthy (Some (JObj kvs)) \<longleftrightarrow> kvs \<noteq> []"

definition live :: "DeploymentSnapshot \<Rightarrow> bool" where
  "live d \<longleftrightarrow> ds_status d = ''active'' \<and> ds_endpoint_status d = ''active''"

definition has_voice_resource :: "CatalogRecord \<Rightarrow> bool" where
  "has_voice_resource r \<longleftrightarrow>
     \<not> truthy (map_of (cr_capabilities r) ''voice_resource_required'') \<or>
     list_ex (\<lambda>d. live d \<and>
       (case resolve_audio_voice_binding (ds_provider_model_id d) (ds_routing_config d) (cr_entitlement_config r) of
          Inr (Some _) \<Rightarrow> True | _ \<Rightarrow> False)) (cr_deployments r)"

definition calculate_availability :: "CatalogRecord \<Rightarrow> bool \<Rightarrow> ModelAvailability" where
  "calculate_availability r execution_enabled =
     (if cr_product_status r \<noteq> ''active'' \<or>
         map_of (cr_capabilities r) ''execution_policy'' = Some (JStr ''unsupported'') \<or> \<not> has_voice_resource r
      then Unavailable
      else if \<not> execution_enabled then Maintenance
      else if list_ex live (cr_deployments r) then Available
      else if list_ex (\<lambda>d. ds_status d \<in> set [''active'', ''draining''] \<and> ds_endpoint_status d \<in> set [''degraded'', ''active''])
                (cr_deployments r) then Maintenance
      else Unavailable)"

end
