(* ===== verification/Generation_Acceptance.thy ===== *)
theory Generation_Acceptance
  imports Generation_Recovery Catalog Outbox_Repository
begin

text \<open>
  Acceptance of a generation request (\<open>accept\<close> of \<open>app/generations/repository.py\<close>): one transaction that
  claims the client's idempotency key, resolves the route and the effective price, inserts the job, places
  the balance hold, queues the outbox event and completes the idempotency record; a second request with the
  same key is answered from the first. Identifiers and clocks are arguments; the actor's membership, a
  foreign key of the inserted rows, has been established by authentication.
\<close>

subsection \<open>What a response may carry\<close>

text \<open>
  \<open>GenerationRecord.public_response\<close> builds the response contract of \<open>app/contracts/generations.py\<close>, whose
  field constraints raise: the product key and the error code have a pattern, an artifact has one of four
  kinds, one of four statuses, a MIME type and a size, and there are at most 64 of them.
\<close>

record GenerationJobResponse =
  gj_job_id :: string
  gj_product_model_id :: string
  gj_modality :: string
  gj_status :: GenerationStatus
  gj_created_at :: instant
  gj_updated_at :: instant
  gj_completed_at :: "instant option"
  gj_error_code :: "string option"
  gj_reconciliation_pending :: bool
  gj_artifacts :: "PublicArtifact list"

definition is_product_key :: "string \<Rightarrow> bool" where
  "is_product_key s \<longleftrightarrow> s \<noteq> [] \<and> length s \<le> 160 \<and> (is_lower (hd s) \<or> is_digit (hd s)) \<and>
     list_all (\<lambda>c. is_lower c \<or> is_digit c \<or> c = CHR ''-'') (tl s)"

definition response_code_ok :: "string \<Rightarrow> bool" where
  "response_code_ok s \<longleftrightarrow> 1 \<le> length s \<and> length s \<le> 120 \<and> list_all (\<lambda>c. is_upper c \<or> is_digit c \<or> c = CHR ''_'') s"

definition response_artifact_ok :: "PublicArtifact \<Rightarrow> bool" where
  "response_artifact_ok a \<longleftrightarrow>
     pa_kind a \<in> set [''input'', ''output'', ''thumbnail'', ''preview''] \<and>
     pa_status a \<in> set [''pending'', ''ready'', ''expired'', ''deleted''] \<and>
     1 \<le> length (pa_mime_type a) \<and> length (pa_mime_type a) \<le> 255 \<and> 0 \<le> pa_size_bytes a"

definition public_response :: "GenerationRecord \<Rightarrow> gen_error + GenerationJobResponse" where
  "public_response r =
     andthen (require (list_all response_artifact_ok (gr_artifacts r)) (GenValueError ''artifact'')) (\<lambda>_.
     andthen (require (is_product_key (gr_product_model_id r)) (GenValueError ''product_model_id'')) (\<lambda>_.
     andthen (require (gr_modality r \<in> set [''text'', ''image'', ''video'', ''audio'']) (GenValueError ''modality'')) (\<lambda>_.
     andthen (require (null_or response_code_ok (gr_error_code r)) (GenValueError ''error_code'')) (\<lambda>_.
     andthen (require (length (gr_artifacts r) \<le> 64) (GenValueError ''artifacts'')) (\<lambda>_.
     Inr \<lparr>gj_job_id = str_uuid (gr_job_id r), gj_product_model_id = gr_product_model_id r, gj_modality = gr_modality r,
          gj_status = gr_status r, gj_created_at = gr_created_at r, gj_updated_at = gr_updated_at r,
          gj_completed_at = gr_completed_at r, gj_error_code = gr_error_code r,
          gj_reconciliation_pending = (gr_status r = Submitted_unknown \<and> gr_reconciliation_status r = ''pending''),
          gj_artifacts = gr_artifacts r\<rparr>)))))"

subsection \<open>Acceptance\<close>

record accept_db =
  ac_gen :: gen_db
  ac_catalog :: catalog_db
  ac_idempotency :: "GenerationJobResponse IdempotencyRecord list"
  ac_outbox :: "OutboxRow list"

record CreateGenerationRequest =
  cg_product_model_id :: string
  cg_modality :: string
  cg_payload :: "(string \<times> json) list"
  cg_client_request_id :: string

record AcceptedGeneration =
  ag_record :: GenerationRecord
  ag_replayed :: bool

text \<open>The deployments the job queries join are those of the catalog.\<close>

definition deployment_view :: "catalog_db \<Rightarrow> (uuid \<times> string \<times> int) list" where
  "deployment_view c = [(md_id d, pm_model_key p, md_concurrency_limit d).
     d \<leftarrow> c_deployments c, p \<leftarrow> c_products c, pm_id p = md_product_model_id d]"

text \<open>The identifiers and clock readings one acceptance draws.\<close>

record accept_fresh =
  fr_idempotency_id :: uuid
  fr_db_id :: uuid
  fr_job_id :: uuid
  fr_reservation_id :: uuid
  fr_ledger_id :: uuid
  fr_outbox_id :: uuid
  fr_now :: instant
  fr_db_now :: instant

abbreviation GENERATION_CREATE :: string where
  "GENERATION_CREATE \<equiv> ''generation.create''"

definition processing_record :: "accept_fresh \<Rightarrow> uuid \<Rightarrow> uuid \<Rightarrow> CreateGenerationRequest \<Rightarrow> string \<Rightarrow> GenerationJobResponse IdempotencyRecord" where
  "processing_record fr t actor request request_hash =
     \<lparr>id_id = fr_idempotency_id fr, id_tenant_id = t, id_actor_user_id = actor, id_operation = GENERATION_CREATE,
      id_key = cg_client_request_id request, id_request_hash = request_hash, id_status = ''processing'',
      id_response_status = None, id_response_body = None, id_resource_type = None, id_resource_id = None\<rparr>"

definition complete_record :: "accept_fresh \<Rightarrow> GenerationJobResponse \<Rightarrow> GenerationJobResponse IdempotencyRecord \<Rightarrow> GenerationJobResponse IdempotencyRecord" where
  "complete_record fr body r = r\<lparr>id_status := ''completed'', id_response_status := Some 202, id_response_body := Some body,
     id_resource_type := Some ''generation_job'', id_resource_id := Some (fr_db_id fr)\<rparr>"

text \<open>
  \<open>cg_payload\<close> stands for \<open>request.model_dump(mode="json", exclude_none=True)\<close>, the dump of the whole validated
  request; the other fields of the record are the parts of it the repository reads.
\<close>

definition accepted_job ::
  "accept_fresh \<Rightarrow> uuid \<Rightarrow> uuid \<Rightarrow> CreateGenerationRequest \<Rightarrow> string \<Rightarrow> DeploymentRoute \<Rightarrow> AcceptedDecisionSnapshot \<Rightarrow> GenJob" where
  "accepted_job fr t actor request request_hash route decision =
     \<lparr>j_id = fr_db_id fr, j_job_id = fr_job_id fr, j_tenant_id = t, j_actor_user_id = Some actor,
      j_model_deployment_id = ro_deployment_id route, j_accepted_model_revision_id = Some (ad_model_revision_id decision),
      j_accepted_model_deployment_id = Some (ad_model_deployment_id decision),
      j_accepted_routing_policy_id = Some (ad_routing_policy_id decision),
      j_accepted_price_version_id = Some (ad_price_version_id decision),
      j_accepted_capability_schema_version = Some (ad_capability_schema_version decision),
      j_accepted_capability_schema_hash = Some (ad_capability_schema_hash decision),
      j_accepted_capability_schema = Some (JObj (ad_capability_schema decision)),
      j_accepted_input_snapshot = Some (JObj (cg_payload request)),
      j_billing_reservation_id = None, j_modality = cg_modality request, j_status = Accepted,
      j_provider_request_id = None, j_provider_task_id = None, j_request_hash = Some request_hash,
      j_request_payload = cg_payload request, j_error_code = None, j_claim_owner = None, j_lease_token = None,
      j_lease_expires_at = None, j_fencing_token = 0, j_reconciliation_status = ''not_required'',
      j_provider_observed_status = None, j_provider_observed_at = None, j_deleted_at = None, j_started_at = None,
      j_completed_at = None, j_created_at = fr_now fr, j_updated_at = fr_now fr\<rparr>"

definition accepted_event ::
  "accept_fresh \<Rightarrow> uuid \<Rightarrow> CreateGenerationRequest \<Rightarrow> uuid \<Rightarrow> OutboxRow" where
  "accepted_event fr t request reservation_id =
     \<lparr>o_id = fr_outbox_id fr, o_tenant_id = t, o_aggregate_type = ''generation_job'', o_aggregate_id = fr_db_id fr,
      o_event_type = ''generation.accepted'', o_aggregate_version = 1,
      o_payload = [(''job_id'', JStr (str_uuid (fr_job_id fr))), (''modality'', JStr (cg_modality request)),
        (''product_model_id'', JStr (cg_product_model_id request)), (''reservation_id'', JStr (str_uuid reservation_id))],
      o_status = ''pending'', o_attempts = 0, o_available_at = fr_db_now fr, o_published_at = None, o_error_details = None,
      o_claim_owner = None, o_lease_token = None, o_lease_expires_at = None, o_created_at = fr_db_now fr\<rparr>"

text \<open>The answer to a repeated key.\<close>

definition replay_accepted ::
  "accept_db \<Rightarrow> uuid \<Rightarrow> string \<Rightarrow> GenerationJobResponse IdempotencyRecord \<Rightarrow> gen_error raised + (AcceptedGeneration \<times> accept_db)" where
  "replay_accepted s t request_hash existing =
     (if id_request_hash existing \<noteq> request_hash then Inl (Domain IdempotencyConflictError)
      else
        (case id_resource_id existing of
           None \<Rightarrow> Inl (Domain IdempotencyInProgressError)
         | Some db_id \<Rightarrow>
             (case get_by_db_id (ac_gen s) t db_id of
                None \<Rightarrow> Inl (Domain (GenerationInfrastructureError ''GENERATION_PERSISTENCE_UNAVAILABLE''))
              | Some record \<Rightarrow> Inr (\<lparr>ag_record = record, ag_replayed = True\<rparr>, s))))"

definition accept_new ::
  "accept_db \<Rightarrow> accept_fresh \<Rightarrow> uuid \<Rightarrow> uuid \<Rightarrow> CreateGenerationRequest \<Rightarrow> string \<Rightarrow> gen_error raised + (AcceptedGeneration \<times> accept_db)"
where
  "accept_new s fr t actor request request_hash =
     (let db = ac_gen s; idem = ac_idempotency s @ [processing_record fr t actor request request_hash] in
      andthen (require (idempotency_ok idem) (Sql UniqueViolation)) (\<lambda>_.
      case resolve_route (ac_catalog s) t (cg_product_model_id request) (cg_modality request) of
        None \<Rightarrow> Inl (Domain ModelUnavailableError)
      | Some route \<Rightarrow>
      andthen (map_error (Domain \<circ> BillingFailure)
        (resolve_accepted_decision (ac_catalog s) (ro_product_model_db_id route) (ro_deployment_id route) (fr_now fr))) (\<lambda>found.
      case found of
        None \<Rightarrow> Inl (Domain ModelUnavailableError)
      | Some decision \<Rightarrow>
      (let job = accepted_job fr t actor request request_hash route decision in
      andthen (jobs_flush (db\<lparr>g_jobs := g_jobs db @ [job]\<rparr>)) (\<lambda>db1.
      andthen (map_error (Domain \<circ> BillingFailure)
        (reserve_in_transaction (billing_of db1) (billing_of db1) (billing_of db1) (fr_reservation_id fr) (fr_ledger_id fr)
           (fr_now fr) t ''generation'' (j_id job) (ad_price decision) (Aware (fr_now fr + seconds (15 * 60))))) (\<lambda>(reservation, billing).
      let job' = job\<lparr>j_billing_reservation_id := Some (rr_reservation_id reservation), j_updated_at := fr_db_now fr\<rparr> in
      andthen (jobs_flush (put_job job' (db1\<lparr>g_billing := billing\<rparr>))) (\<lambda>db2.
      let outbox = ac_outbox s @ [accepted_event fr t request (rr_reservation_id reservation)] in
      andthen (require (outbox_unique outbox) (Sql UniqueViolation)) (\<lambda>_.
      let response = record_from_job job' (ro_product_model_id route) [] (ro_concurrency_limit route) in
      andthen (map_error Domain (public_response response)) (\<lambda>body.
      Inr (\<lparr>ag_record = response, ag_replayed = False\<rparr>,
           s\<lparr>ac_gen := db2, ac_outbox := outbox,
             ac_idempotency := update_where (\<lambda>r. id_id r = fr_idempotency_id fr) (complete_record fr body) idem\<rparr>))))))))))"

definition accept ::
  "accept_db \<Rightarrow> accept_fresh \<Rightarrow> uuid \<Rightarrow> uuid \<Rightarrow> CreateGenerationRequest \<Rightarrow> string \<Rightarrow> (gen_error raised + AcceptedGeneration) \<times> accept_db"
where
  "accept s fr t actor request request_hash =
     transaction s
       (andthen (require (length (cg_client_request_id request) \<le> 255 \<and> length request_hash \<le> 128) (Sql StringTooLong)) (\<lambda>_.
        case filter (\<lambda>r. idempotency_scope r = (t, actor, GENERATION_CREATE, cg_client_request_id request)) (ac_idempotency s) of
          [] \<Rightarrow> accept_new s fr t actor request request_hash
        | [existing] \<Rightarrow> replay_accepted s t request_hash existing
        | _ \<Rightarrow> Inl (Sql MultipleResultsFound)))"

end
