(* ===== verification/Generation_Invariants.thy ===== *)
theory Generation_Invariants
  imports Generation_Acceptance
begin

text \<open>
  How every committed operation of the generation subsystem moves the rows of \<open>generation_jobs\<close>: a row keeps
  its identity, its status follows the state machine, its fencing token never decreases, and a new lease
  comes with a new fencing token. The step relation composes the operations in any order, which is how the
  workers, the reconcilers, the operator and the users interleave.
\<close>

subsection \<open>One row, one step\<close>

definition same_identity :: "GenJob \<Rightarrow> GenJob \<Rightarrow> bool" where
  "same_identity j j' \<longleftrightarrow>
     j_id j' = j_id j \<and> j_job_id j' = j_job_id j \<and> j_tenant_id j' = j_tenant_id j \<and> j_actor_user_id j' = j_actor_user_id j \<and>
     j_model_deployment_id j' = j_model_deployment_id j \<and> j_accepted_price_version_id j' = j_accepted_price_version_id j \<and>
     j_billing_reservation_id j' = j_billing_reservation_id j \<and> j_modality j' = j_modality j \<and>
     j_request_payload j' = j_request_payload j \<and> j_created_at j' = j_created_at j"

text \<open>
  The edges the code takes: those of the declared machine, and the reconciler's own edge from a running or
  storing job whose worker stalled, which the declared machine does not have.
\<close>

definition status_edge :: "GenerationStatus \<Rightarrow> GenerationStatus \<Rightarrow> bool" where
  "status_edge s s' \<longleftrightarrow> s' \<in> set (ALLOWED_TRANSITIONS s) \<or> s \<in> {Running, Storing} \<and> s' = Submitted_unknown"

definition lease_held_in :: "GenerationStatus \<Rightarrow> bool" where
  "lease_held_in s \<longleftrightarrow> s \<in> set LEASED_STATUSES"

text \<open>A leased status has a lease; only a leased status or an unknown outcome under recovery has one.\<close>

definition lease_fits :: "GenJob \<Rightarrow> bool" where
  "lease_fits j \<longleftrightarrow>
     (lease_held_in (j_status j) \<longrightarrow> j_lease_token j \<noteq> None) \<and>
     (j_lease_token j \<noteq> None \<longrightarrow> lease_held_in (j_status j) \<or> j_status j = Submitted_unknown)"

definition job_step :: "GenJob \<Rightarrow> GenJob \<Rightarrow> bool" where
  "job_step j j' \<longleftrightarrow>
     same_identity j j' \<and> (j_status j' = j_status j \<or> status_edge (j_status j) (j_status j')) \<and>
     j_fencing_token j \<le> j_fencing_token j' \<and>
     (j_lease_token j' = None \<or> j_lease_token j' = j_lease_token j \<or> j_fencing_token j' = j_fencing_token j + 1) \<and>
     (lease_fits j \<longrightarrow> lease_fits j')"

definition fresh_job :: "GenJob \<Rightarrow> bool" where
  "fresh_job j \<longleftrightarrow> j_status j = Accepted \<and> j_lease_token j = None \<and> j_fencing_token j = 0"

definition jobs_moved :: "gen_db \<Rightarrow> gen_db \<Rightarrow> bool" where
  "jobs_moved db db' \<longleftrightarrow> jobs_ok db' \<and>
     (\<exists>js new. g_jobs db' = js @ new \<and> list_all2 job_step (g_jobs db) js \<and> list_all fresh_job new)"

lemma same_identity_refl [simp]: "same_identity j j"
  by (simp add: same_identity_def)

lemma job_step_refl [simp]: "job_step j j"
  by (simp add: job_step_def)

lemma list_all2_refl_on: "(\<And>x. R x x) \<Longrightarrow> list_all2 R xs xs"
  by (simp add: list_all2_refl)

lemma jobs_ok_cong: "g_jobs db' = g_jobs db \<Longrightarrow> jobs_ok db' = jobs_ok db"
  by (simp add: jobs_ok_def)

lemma movedI:
  "jobs_ok db' \<Longrightarrow> list_all2 job_step (g_jobs db) (g_jobs db') \<Longrightarrow> jobs_moved db db'"
  unfolding jobs_moved_def by (intro conjI exI [of _ "g_jobs db'"] exI [of _ "[]"]) simp_all

lemma moved_same: "jobs_ok db \<Longrightarrow> g_jobs db' = g_jobs db \<Longrightarrow> jobs_moved db db'"
  using jobs_ok_cong [of db' db] by (intro movedI) (auto intro: list_all2_refl_on)

lemma list_all2_update_where:
  "(\<And>x. R x x) \<Longrightarrow> (\<And>x. x \<in> set xs \<Longrightarrow> P x \<Longrightarrow> R x (f x)) \<Longrightarrow> list_all2 R xs (update_where P f xs)"
  by (induction xs) auto

lemma moved_update:
  assumes "g_jobs db' = update_where P f (g_jobs db)" and "jobs_ok db'"
    and "\<And>j. j \<in> set (g_jobs db) \<Longrightarrow> P j \<Longrightarrow> job_step j (f j)"
  shows "jobs_moved db db'"
  by (rule movedI [OF assms(2)]) (simp add: assms(1,3) list_all2_update_where)

lemma jobs_ok_keys:
  assumes "jobs_ok db"
  shows "distinct (map j_id (g_jobs db))" and "distinct (map j_job_id (g_jobs db))"
  using assms by (simp_all add: jobs_ok_def)

lemma moved_put:
  assumes "g_jobs db' = update_where (\<lambda>x. j_id x = j_id j) (\<lambda>_. j') (g_jobs db)" and "jobs_ok db" and "jobs_ok db'"
    and "j \<in> set (g_jobs db)" and "job_step j j'"
  shows "jobs_moved db db'"
proof (rule moved_update [OF assms(1,3)])
  fix x
  assume "x \<in> set (g_jobs db)" "j_id x = j_id j"
  then have "x = j" using distinct_key_inj [OF jobs_ok_keys(1) [OF assms(2)]] assms(4) by blast
  then show "job_step x j'" using assms(5) by simp
qed

lemma g_jobs_put_job [simp]: "g_jobs (put_job j db) = update_where (\<lambda>x. j_id x = j_id j) (\<lambda>_. j) (g_jobs db)"
  by (simp add: put_job_def)

lemma transaction_moved:
  assumes "jobs_ok db" and "\<And>x db'. m = Inr (x, db') \<Longrightarrow> jobs_moved db db'"
  shows "jobs_moved db (snd (transaction db m))"
  using assms moved_same [OF assms(1) refl] by (auto simp: transaction_def split: sum.splits)

lemma update_one_moved:
  assumes "update_one P f db = Inr db'" and "\<And>j. j \<in> set (g_jobs db) \<Longrightarrow> P j \<Longrightarrow> job_step j (f j)"
  shows "jobs_moved db db'"
  using assms(1) by (intro moved_update [OF _ _ assms(2)]) (auto simp: update_one_def update_jobs_def)

lemma reload_db: "reload db t jid = Inr (r, db') \<Longrightarrow> db' = db"
  by (simp add: reload_def split: option.splits)

lemma reload_again: "reload db t jid = Inr (r, db') \<Longrightarrow> reload db' t jid = Inr (r, db')"
  using reload_db by blast

lemma audited_jobs: "audited db aid t actor action i ctx payload = Inr db' \<Longrightarrow> g_jobs db' = g_jobs db \<and> g_billing db' = g_billing db"
  by (auto simp: audited_def)

lemma first_row_in: "first_row xs = Some x \<Longrightarrow> x \<in> set xs"
  by (cases xs) auto

lemma job_query_in: "(j, d) \<in> set (job_query ds js) \<Longrightarrow> j \<in> set js"
  by (induction js) (auto split: option.splits)

subsection \<open>Each operation\<close>

lemmas status_simps =
  job_step_def status_edge_def lease_fits_def lease_held_in_def LEASED_STATUSES_def drop_lease_def

lemma take_claim_step:
  "unleased_accepted job \<Longrightarrow> job_step job (take_claim job w tok n now job)"
  by (simp add: take_claim_def status_simps same_identity_def unleased_accepted_def)

lemma claim_row_moved:
  assumes "claim_row db job w tok n now = Inr (r, db')" and "jobs_ok db" and "job \<in> set (g_jobs db)"
  shows "jobs_moved db db'"
proof -
  let ?P = "\<lambda>j. j_tenant_id j = j_tenant_id job \<and> j_job_id j = j_job_id job \<and> unleased_accepted j"
  have u: "g_jobs db' = update_where ?P (take_claim job w tok n now) (g_jobs db)" "jobs_ok db'"
    using assms(1) by (auto simp: claim_row_def update_jobs_def Let_def split: if_splits)
  show ?thesis
  proof (rule moved_update [OF u])
    fix j
    assume "j \<in> set (g_jobs db)" "?P j"
    then have "j = job" "unleased_accepted job"
      using distinct_key_inj [OF jobs_ok_keys(2) [OF assms(2)] _ assms(3)] by auto
    then show "job_step j (take_claim job w tok n now j)" using take_claim_step by simp
  qed
qed

lemma claim_accepted_moved: "jobs_ok db \<Longrightarrow> jobs_moved db (snd (claim_accepted db now locked tok t jid w n))"
  unfolding claim_accepted_def
  by (rule transaction_moved)
    (auto split: option.splits prod.splits dest!: first_row_in job_query_in intro: moved_same claim_row_moved)

lemma claim_next_accepted_moved: "jobs_ok db \<Longrightarrow> jobs_moved db (snd (claim_next_accepted db now locked tok t ms w n))"
  unfolding claim_next_accepted_def
  by (rule transaction_moved)
    (auto split: option.splits prod.splits if_splits dest!: first_row_in job_query_in intro: moved_same claim_row_moved)

lemma take_recovery_step: "awaiting_reconciliation job \<Longrightarrow> job_step job (take_recovery job w tok n now job)"
  by (simp add: take_recovery_def status_simps same_identity_def awaiting_reconciliation_def)

lemma claim_recovery_row_moved:
  assumes "claim_recovery_row db job w tok n now = Inr (r, db')" and "jobs_ok db" and "job \<in> set (g_jobs db)"
  shows "jobs_moved db db'"
proof -
  let ?P = "\<lambda>j. j_id j = j_id job \<and> awaiting_reconciliation j \<and> lease_lapsed now j"
  have u: "g_jobs db' = update_where ?P (take_recovery job w tok n now) (g_jobs db)" "jobs_ok db'"
    using assms(1) by (auto simp: claim_recovery_row_def update_jobs_def Let_def split: if_splits)
  show ?thesis
  proof (rule moved_update [OF u])
    fix j
    assume "j \<in> set (g_jobs db)" "?P j"
    then have "j = job" "awaiting_reconciliation job"
      using distinct_key_inj [OF jobs_ok_keys(1) [OF assms(2)] _ assms(3)] by auto
    then show "job_step j (take_recovery job w tok n now j)" using take_recovery_step by simp
  qed
qed

lemma claim_pending_moved: "jobs_ok db \<Longrightarrow> jobs_moved db (snd (claim_pending_reconciliation db now locked tok w n))"
  unfolding claim_pending_reconciliation_def
  by (rule transaction_moved)
    (auto split: option.splits prod.splits dest!: first_row_in job_query_in intro: moved_same claim_recovery_row_moved)

lemma release_reconciliation_claim_moved:
  "jobs_ok db \<Longrightarrow> jobs_moved db (snd (release_reconciliation_claim db now t jid lt f))"
  unfolding release_reconciliation_claim_def
  by (rule transaction_moved) (auto elim!: update_one_moved simp: awaiting_reconciliation_def status_simps same_identity_def)

lemma renew_lease_moved: "jobs_ok db \<Longrightarrow> jobs_moved db (snd (renew_lease db now t jid w lt f n))"
  unfolding renew_lease_def
  by (rule transaction_moved) (auto dest!: reload_db elim!: update_one_moved simp: status_simps same_identity_def)

lemma set_transition_fields [simp]:
  "j_status (set_transition now target ec rq tk ob j) = target"
  "j_fencing_token (set_transition now target ec rq tk ob j) = j_fencing_token j"
  "j_lease_token (set_transition now target ec rq tk ob j) =
     (if target \<in> {Accepted, Submitted_unknown, Failed, Cancelled, Expired, Succeeded} then None else j_lease_token j)"
  by (simp_all add: set_transition_def Let_def drop_lease_def)

lemma set_transition_identity [simp]: "same_identity j (set_transition now target ec rq tk ob j)"
  by (simp add: set_transition_def Let_def drop_lease_def same_identity_def)

lemma set_transition_step:
  assumes "j_status j = expected" and "target \<in> set (ALLOWED_TRANSITIONS expected)" and "j_lease_token j \<noteq> None"
  shows "job_step j (set_transition now target ec rq tk ob j)"
  using assms by (cases expected) (auto simp: status_simps)

lemma fenced_lease: "fenced now lt f j \<Longrightarrow> j_lease_token j \<noteq> None"
  by (simp add: fenced_def)

lemma transition_moved: "jobs_ok db \<Longrightarrow> jobs_moved db (snd (transition db now t jid expected target ec rq tk ob lt f))"
  unfolding transition_def
  by (rule transaction_moved)
    (auto simp: assert_transition_def dest!: reload_db elim!: update_one_moved intro!: set_transition_step dest: fenced_lease)

lemma record_provider_task_moved: "jobs_ok db \<Longrightarrow> jobs_moved db (snd (record_provider_task db now t jid task lt f))"
  unfolding record_provider_task_def
  by (rule transaction_moved) (auto elim!: update_one_moved simp: status_simps same_identity_def)

lemma record_provider_request_moved: "jobs_ok db \<Longrightarrow> jobs_moved db (snd (record_provider_request db now t jid req lt f))"
  unfolding record_provider_request_def
  by (rule transaction_moved) (auto elim!: update_one_moved simp: status_simps same_identity_def)

text \<open>Completion writes artifacts and a usage row beside the job.\<close>

lemma set_succeeded_fields [simp]:
  "j_status (set_succeeded now rq tk j) = Succeeded"
  "j_fencing_token (set_succeeded now rq tk j) = j_fencing_token j"
  "j_lease_token (set_succeeded now rq tk j) = None"
  "same_identity j (set_succeeded now rq tk j)"
  by (simp_all add: set_succeeded_def Let_def drop_lease_def same_identity_def)

lemma set_succeeded_step: "j_status j = Storing \<Longrightarrow> job_step j (set_succeeded now rq tk j)"
  by (simp add: status_simps)

lemma update_one_Inr:
  "update_one P f db = Inr db' \<longleftrightarrow> db' = update_jobs P f db \<and> jobs_ok db' \<and> rowcount P (g_jobs db) = 1"
  by (auto simp: update_one_def)

lemma complete_Inr:
  assumes "complete db now ids uid t jid expected arts usage rq tk lt f = (Inr r, db')"
  obtains job price meters charge new label billing rcd where
    "expected = Storing" "filter (complete_fenced now t jid lt f) (g_jobs db) = [job]" "j_status job = Storing"
    "price_for_job (g_billing db) job = Inr price" "billing_usage usage = Inr meters"
    "charge_for_usage price meters = Inr charge"
    "filter (\<lambda>a. a_tenant_id a = t \<and> a_generation_job_id a = j_id job) (g_artifacts db) = []"
    "get_by_job_id db t jid None = Some rcd"
    "add_artifacts now t (j_id job) ids 0 arts = Inr new" "pricing_version price = Inr label"
    "filter (\<lambda>u. u_tenant_id u = t \<and> u_generation_job_id u = Some (j_id job)) (usage_records (g_billing db)) = []"
    "billing = (g_billing db)\<lparr>usage_records := usage_records (g_billing db) @
       [generation_usage_row uid t job (gr_product_model_id rcd) rq tk label (ps_currency price) meters (amount_minor charge)]\<rparr>"
    "constraints_ok billing"
    "db' = update_jobs (\<lambda>j. complete_fenced now t jid lt f j \<and> j_status j = Storing) (set_succeeded now rq tk)
       (db\<lparr>g_artifacts := g_artifacts db @ new, g_billing := billing\<rparr>)"
    "artifacts_ok (g_artifacts db @ new)" "jobs_ok db'" "reload db' t jid = Inr (r, db')"
  using assms unfolding complete_def transaction_Inr_iff
  apply (clarsimp simp: update_one_Inr split: option.splits)
  subgoal for job price meters charge rcd new label
    by (rule that [of job price meters charge rcd new label]) (auto dest: reload_db reload_again)
  done

lemma complete_Inl: "complete db now ids uid t jid ex arts usage rq tk lt f = (Inl e, db') \<Longrightarrow> db' = db"
  unfolding complete_def transaction_Inl_iff by simp

lemma complete_moved: "jobs_ok db \<Longrightarrow> jobs_moved db (snd (complete db now ids uid t jid expected arts usage rq tk lt f))"
proof (cases "complete db now ids uid t jid expected arts usage rq tk lt f")
  case (Pair res db')
  assume ok: "jobs_ok db"
  show ?thesis
  proof (cases res)
    case (Inl e)
    then have "db' = db" using Pair complete_Inl by simp
    then show ?thesis using Pair ok by (simp add: moved_same)
  next
    case (Inr r)
    from Pair [unfolded Inr] show ?thesis
    proof (rule complete_Inr)
      fix job price meters charge new label billing rcd
      assume db': "db' = update_jobs (\<lambda>j. complete_fenced now t jid lt f j \<and> j_status j = Storing) (set_succeeded now rq tk)
         (db\<lparr>g_artifacts := g_artifacts db @ new, g_billing := billing\<rparr>)" and "jobs_ok db'"
      then have "jobs_moved db db'"
        by (intro moved_update [where P = "\<lambda>j. complete_fenced now t jid lt f j \<and> j_status j = Storing" and f = "set_succeeded now rq tk"])
          (auto simp: update_jobs_def set_succeeded_step)
      then show ?thesis using Pair by simp
    qed
  qed
qed

lemma ensure_live_moved: "jobs_ok db \<Longrightarrow> jobs_moved db (snd (ensure_live db now n t jid w lt f phase))"
  unfolding ensure_live_def
  by (rule transaction_moved) (auto simp: Let_def update_jobs_def status_simps same_identity_def intro!: moved_update)

text \<open>
  The reconciler loads the stalled rows once and writes them one by one; with distinct identifiers this is one
  guarded update over the selected rows.
\<close>

lemma reconcile_stalled_step: "stalled now j \<Longrightarrow> job_step j (reconcile_stalled_job now j)"
  by (auto simp: reconcile_stalled_job_def stalled_def status_simps same_identity_def)

lemma reconcile_stalled_id [simp]: "j_id (reconcile_stalled_job now j) = j_id j"
  by (simp add: reconcile_stalled_job_def drop_lease_def)

lemma reconcile_stalled_jobs_eq:
  assumes "distinct (map j_id (g_jobs db))" and "set js \<subseteq> set (g_jobs db)" and "distinct (map j_id js)"
  shows "reconcile_stalled_jobs now js db =
    db\<lparr>g_jobs := update_where (\<lambda>x. j_id x \<in> j_id ` set js) (reconcile_stalled_job now) (g_jobs db)\<rparr>"
  using assms
proof (induction js arbitrary: db)
  case Nil
  have "update_where (\<lambda>x. False) f rs = rs" for f :: "GenJob \<Rightarrow> GenJob" and rs by (rule update_where_id) simp
  then show ?case by simp
next
  case (Cons j js)
  let ?f = "reconcile_stalled_job now"
  let ?db = "put_job (?f j) db"
  have g: "g_jobs ?db = update_where (\<lambda>x. j_id x = j_id j) (\<lambda>_. ?f j) (g_jobs db)" by simp
  have keys: "map j_id (g_jobs ?db) = map j_id (g_jobs db)" by (rule job_table.keys_put)
  have other: "j_id x \<noteq> j_id j" if "x \<in> set js" for x using Cons.prems(3) that by (metis image_eqI list.simps(9) distinct.simps(2) set_map)
  have "set js \<subseteq> set (g_jobs ?db)"
    using Cons.prems(2) other by (force simp: set_update_where image_iff)
  then have "reconcile_stalled_jobs now js ?db =
      ?db\<lparr>g_jobs := update_where (\<lambda>x. j_id x \<in> j_id ` set js) ?f (g_jobs ?db)\<rparr>"
    using Cons.IH [of ?db] Cons.prems keys by (metis distinct.simps(2) list.simps(9))
  moreover have "update_where (\<lambda>x. j_id x \<in> j_id ` set js) ?f (g_jobs ?db) =
      update_where (\<lambda>x. j_id x \<in> j_id ` set (j # js)) ?f (g_jobs db)"
    unfolding g update_where_def map_map
  proof (rule map_cong [OF refl])
    fix x
    assume x: "x \<in> set (g_jobs db)"
    have "x = j" if "j_id x = j_id j" using distinct_key_inj [OF Cons.prems(1) x _ that] Cons.prems(2) by simp
    moreover have "j_id j \<notin> j_id ` set js" using other by fastforce
    ultimately show "((\<lambda>r. if j_id r \<in> j_id ` set js then ?f r else r) \<circ> (\<lambda>r. if j_id r = j_id j then ?f j else r)) x =
        (if j_id x \<in> j_id ` set (j # js) then ?f x else x)"
      by auto
  qed
  ultimately show ?case by (simp add: put_job_def)
qed

definition stalled_selection :: "instant \<Rightarrow> (uuid \<Rightarrow> bool) \<Rightarrow> int \<Rightarrow> gen_db \<Rightarrow> GenJob list" where
  "stalled_selection now locked limit db = take (nat limit) (sort_key (\<lambda>j. (j_updated_at j, j_id j))
     (filter (\<lambda>j. stalled now j \<and> \<not> locked (j_id j)) (g_jobs db)))"

lemma stalled_selection_rows:
  assumes "jobs_ok db"
  shows "set (stalled_selection now locked limit db) \<subseteq> {j \<in> set (g_jobs db). stalled now j \<and> \<not> locked (j_id j)}"
    and "distinct (map j_id (stalled_selection now locked limit db))"
proof -
  show "set (stalled_selection now locked limit db) \<subseteq> {j \<in> set (g_jobs db). stalled now j \<and> \<not> locked (j_id j)}"
    unfolding stalled_selection_def by (auto dest!: in_set_takeD)
  let ?f = "filter (\<lambda>j. stalled now j \<and> \<not> locked (j_id j)) (g_jobs db)"
  have "distinct (map j_id ?f)" using jobs_ok_keys(1) [OF assms] by (rule distinct_map_filter)
  then have "distinct (map j_id (sort_key (\<lambda>j. (j_updated_at j, j_id j)) ?f))"
    by (simp add: distinct_map)
  then show "distinct (map j_id (stalled_selection now locked limit db))"
    unfolding stalled_selection_def take_map [symmetric] by (rule distinct_take)
qed

lemma reconcile_stalled_once_Inr:
  assumes "jobs_ok db" and "reconcile_stalled_once db now locked stale limit = (Inr n, db')"
  defines "js \<equiv> stalled_selection now locked limit db"
  shows "db' = db\<lparr>g_jobs := update_where (\<lambda>x. j_id x \<in> j_id ` set js) (reconcile_stalled_job now) (g_jobs db)\<rparr> \<and>
    jobs_ok db' \<and> n = length js \<and> 1 \<le> limit \<and> limit \<le> 500"
proof -
  have "set js \<subseteq> set (g_jobs db)" "distinct (map j_id js)"
    unfolding js_def using stalled_selection_rows [OF assms(1)] by blast+
  from reconcile_stalled_jobs_eq [OF jobs_ok_keys(1) [OF assms(1)] this] show ?thesis
    using assms(2) unfolding reconcile_stalled_once_def transaction_Inr_iff js_def stalled_selection_def by (auto simp: Let_def)
qed

lemma selected_row:
  assumes "jobs_ok db" and "x \<in> set (g_jobs db)" and "j_id x \<in> j_id ` set (stalled_selection now locked limit db)"
  shows "stalled now x \<and> \<not> locked (j_id x)"
  using stalled_selection_rows(1) [OF assms(1)] distinct_key_inj [OF jobs_ok_keys(1) [OF assms(1)]] assms(2,3) by fast

lemma reconcile_stalled_moved:
  assumes "jobs_ok db"
  shows "jobs_moved db (snd (reconcile_stalled_once db now locked stale limit))"
proof (cases "reconcile_stalled_once db now locked stale limit")
  case (Pair res db')
  show ?thesis
  proof (cases res)
    case (Inl e)
    have "db' = db" using Pair [unfolded Inl] unfolding reconcile_stalled_once_def transaction_Inl_iff by simp
    then show ?thesis using Pair assms by (simp add: moved_same)
  next
    case (Inr n)
    from reconcile_stalled_once_Inr [OF assms Pair [unfolded Inr]] have
      "g_jobs db' = update_where (\<lambda>x. j_id x \<in> j_id ` set (stalled_selection now locked limit db)) (reconcile_stalled_job now) (g_jobs db)"
      "jobs_ok db'" by (metis gen_db.select_convs(1) gen_db.surjective gen_db.update_convs(1), blast)
    then have "jobs_moved db db'"
      by (rule moved_update) (rule reconcile_stalled_step, use selected_row [OF assms] in blast)
    then show ?thesis using Pair by simp
  qed
qed

lemma lock_visible_job_Inr: "lock_visible_job db t actor jid = Inr job \<Longrightarrow> job \<in> set (g_jobs db)"
  by (auto simp: lock_visible_job_def dest!: filter_singletonD)

lemma lock_job_Inr: "lock_job db t jid = Inr job \<Longrightarrow> job \<in> set (g_jobs db) \<and> j_tenant_id job = t \<and> j_job_id job = jid"
  by (auto simp: lock_job_def dest!: filter_singletonD)

lemma put_audited_moved:
  assumes "audited (put_job j' db) aid t actor action i ctx payload = Inr db'" and "jobs_ok db" and "jobs_ok db'"
    and "j \<in> set (g_jobs db)" and "job_step j j'"
  shows "jobs_moved db db'"
proof (rule moved_put [OF _ assms(2,3,4,5)])
  have "j_id j' = j_id j" using assms(5) by (simp add: job_step_def same_identity_def)
  then show "g_jobs db' = update_where (\<lambda>x. j_id x = j_id j) (\<lambda>_. j') (g_jobs db)"
    using audited_jobs [OF assms(1)] by simp
qed

lemma cancel_job_step:
  assumes "j_status j = Accepted" and "lease_fits j \<Longrightarrow> j_lease_token j = None"
  shows "job_step j (cancel_job now j)"
  using assms by (auto simp: cancel_job_def status_simps same_identity_def)

lemma accepted_unleased: "j_status j = Accepted \<Longrightarrow> lease_fits j \<Longrightarrow> j_lease_token j = None"
  by (auto simp: lease_fits_def lease_held_in_def LEASED_STATUSES_def)

lemma cancel_accepted_moved: "jobs_ok db \<Longrightarrow> jobs_moved db (snd (cancel_accepted db now aid t actor jid ctx))"
  unfolding cancel_accepted_def
  by (rule transaction_moved)
    (auto split: if_splits intro: moved_same
      elim!: put_audited_moved intro!: cancel_job_step accepted_unleased dest!: lock_visible_job_Inr)

lemma soft_delete_moved: "jobs_ok db \<Longrightarrow> jobs_moved db (snd (soft_delete db now aid t actor jid ctx))"
  unfolding soft_delete_def
proof (rule transaction_moved, assumption)
  fix x db'
  assume ok: "jobs_ok db"
  assume "andthen (lock_visible_job db t actor jid) (\<lambda>job.
        if j_deleted_at job \<noteq> None then Inr ((), db)
        else
          andthen (require (is_terminal (j_status job)) (Domain GenerationStateConflictError)) (\<lambda>_.
          andthen (jobs_flush (put_job (job\<lparr>j_deleted_at := Some now, j_updated_at := now\<rparr>) db)) (\<lambda>db1.
          let db2 = db1\<lparr>g_artifacts := update_where
                (\<lambda>a. a_tenant_id a = t \<and> a_generation_job_id a = j_id job \<and> a_status a \<in> set [''pending'', ''ready''])
                (\<lambda>a. a\<lparr>a_status := ''expired'', a_expires_at := Some now, a_updated_at := now\<rparr>) (g_artifacts db1)\<rparr> in
          andthen (audited db2 aid t (Some actor) ''generation.delete'' (j_id job) ctx
                     [(''retention'', JStr ''cleanup_pending'')]) (\<lambda>db3. Inr ((), db3))))) = Inr (x, db')"
  then consider "db' = db"
    | job where "job \<in> set (g_jobs db)" "jobs_ok (put_job (job\<lparr>j_deleted_at := Some now, j_updated_at := now\<rparr>) db)"
        "g_jobs db' = g_jobs (put_job (job\<lparr>j_deleted_at := Some now, j_updated_at := now\<rparr>) db)"
    by (auto simp: Let_def split: if_splits dest!: audited_jobs lock_visible_job_Inr)
  then show "jobs_moved db db'"
  proof cases
    case (2 job)
    show ?thesis
    proof (rule moved_put [OF _ ok _ 2(1), where j' = "job\<lparr>j_deleted_at := Some now, j_updated_at := now\<rparr>"])
      show "jobs_ok db'" using 2(2) jobs_ok_cong [OF 2(3)] by simp
    qed (use 2(3) in \<open>simp_all add: status_simps same_identity_def\<close>)
  qed (use moved_same [OF ok] in simp)
qed

lemma mark_reconciliation_resolved_moved:
  "jobs_ok db \<Longrightarrow> jobs_moved db (snd (mark_reconciliation_resolved db now aid t i))"
  unfolding mark_reconciliation_resolved_def
  by (rule transaction_moved)
    (auto split: option.splits if_splits intro: moved_same elim!: put_audited_moved dest!: filter_singletonD
      simp: status_simps same_identity_def)

lemma resolved_failed_step: "j_status j = Submitted_unknown \<Longrightarrow> job_step j (resolved_failed now j)"
  by (simp add: resolved_failed_def status_simps same_identity_def)

lemma request_resolution_moved: "jobs_ok db \<Longrightarrow> jobs_moved db (snd (request_resolution db now aid t jid subject reason))"
  unfolding request_resolution_def
  by (rule transaction_moved)
    (auto simp: Let_def split: if_splits option.splits intro: moved_same elim!: put_audited_moved
      intro!: resolved_failed_step dest!: lock_job_Inr)

lemma finish_resolution_moved: "jobs_ok db \<Longrightarrow> jobs_moved db (snd (finish_resolution db now aid t jid subject))"
  unfolding finish_resolution_def
  by (rule transaction_moved)
    (auto split: if_splits intro: moved_same elim!: put_audited_moved dest!: lock_job_Inr
      simp: status_simps same_identity_def)

text \<open>Settlement, cleanup and the inbox leave the jobs alone.\<close>

lemma gen_capture_jobs: "g_jobs (snd (gen_capture db lid1 lid2 now t rid usage)) = g_jobs db"
  by (simp add: gen_capture_def split: prod.splits)

lemma gen_release_jobs: "g_jobs (snd (gen_release db lid now t rid)) = g_jobs db"
  by (simp add: gen_release_def split: prod.splits)

lemma cleanup_claim_jobs: "g_jobs (snd (cleanup_claim db now locked)) = g_jobs db"
  unfolding cleanup_claim_def by (rule transaction_frame) (auto simp: put_artifact_def split: option.splits)

lemma cleanup_complete_jobs: "g_jobs (snd (cleanup_complete db now cl)) = g_jobs db"
  unfolding cleanup_complete_def by (rule transaction_frame) auto

lemma cleanup_retry_jobs: "g_jobs (snd (cleanup_retry db now cl)) = g_jobs db"
  unfolding cleanup_retry_def by (rule transaction_frame) auto

lemma record_inbox_event_jobs: "g_jobs (snd (record_inbox_event digest db i t pn ek et payload)) = g_jobs db"
  unfolding record_inbox_event_def by (rule transaction_frame) (auto split: list.splits)

text \<open>Acceptance appends one fresh job.\<close>

definition held_job :: "accept_fresh \<Rightarrow> uuid \<Rightarrow> GenJob \<Rightarrow> GenJob" where
  "held_job fr rid job = job\<lparr>j_billing_reservation_id := Some rid, j_updated_at := fr_db_now fr\<rparr>"

lemma accept_new_Inr:
  assumes "accept_new s fr t actor request rh = Inr (r, s')"
  obtains route decision reservation billing where
    "idempotency_ok (ac_idempotency s @ [processing_record fr t actor request rh])"
    "resolve_route (ac_catalog s) t (cg_product_model_id request) (cg_modality request) = Some route"
    "resolve_accepted_decision (ac_catalog s) (ro_product_model_db_id route) (ro_deployment_id route) (fr_now fr) = Inr (Some decision)"
    "jobs_ok ((ac_gen s)\<lparr>g_jobs := g_jobs (ac_gen s) @ [accepted_job fr t actor request rh route decision]\<rparr>)"
    "reserve_in_transaction (billing_of ((ac_gen s)\<lparr>g_jobs := g_jobs (ac_gen s) @ [accepted_job fr t actor request rh route decision]\<rparr>))
       (billing_of ((ac_gen s)\<lparr>g_jobs := g_jobs (ac_gen s) @ [accepted_job fr t actor request rh route decision]\<rparr>))
       (billing_of ((ac_gen s)\<lparr>g_jobs := g_jobs (ac_gen s) @ [accepted_job fr t actor request rh route decision]\<rparr>))
       (fr_reservation_id fr) (fr_ledger_id fr) (fr_now fr) t ''generation'' (fr_db_id fr) (ad_price decision)
       (Aware (fr_now fr + seconds (15 * 60))) = Inr (reservation, billing)"
    "jobs_ok (ac_gen s')"
    "ac_gen s' = put_job (held_job fr (rr_reservation_id reservation) (accepted_job fr t actor request rh route decision))
       ((ac_gen s)\<lparr>g_jobs := g_jobs (ac_gen s) @ [accepted_job fr t actor request rh route decision], g_billing := billing\<rparr>)"
    "outbox_unique (ac_outbox s')" "ac_outbox s' = ac_outbox s @ [accepted_event fr t request (rr_reservation_id reservation)]"
    "ac_idempotency s' = update_where (\<lambda>r. id_id r = fr_idempotency_id fr) (complete_record fr (projr (public_response (ag_record r))))
       (ac_idempotency s @ [processing_record fr t actor request rh])"
    "ac_catalog s' = ac_catalog s"
    "r = \<lparr>ag_record = record_from_job (held_job fr (rr_reservation_id reservation) (accepted_job fr t actor request rh route decision))
       (ro_product_model_id route) [] (ro_concurrency_limit route), ag_replayed = False\<rparr>"
  using assms unfolding accept_new_def Let_def
  apply (clarsimp split: option.splits prod.splits)
  subgoal for route decision reservation billing body
    by (rule that [of route decision reservation billing]) (simp_all add: held_job_def accepted_job_def)
  done

lemma accept_new_jobs:
  assumes "jobs_ok (db\<lparr>g_jobs := g_jobs db @ [accepted_job fr t actor request rh route decision]\<rparr>)"
  shows "g_jobs (put_job (held_job fr rid (accepted_job fr t actor request rh route decision))
      (db\<lparr>g_jobs := g_jobs db @ [accepted_job fr t actor request rh route decision], g_billing := b\<rparr>)) =
    g_jobs db @ [held_job fr rid (accepted_job fr t actor request rh route decision)]"
proof -
  have "fr_db_id fr \<notin> j_id ` set (g_jobs db)" using jobs_ok_keys(1) [OF assms] by (simp add: accepted_job_def)
  then have "update_where (\<lambda>x. j_id x = fr_db_id fr) (\<lambda>_. y) (g_jobs db) = g_jobs db" for y
    by (intro update_where_id) (metis image_eqI)
  then show ?thesis by (simp add: update_where_def held_job_def accepted_job_def)
qed

lemma accept_new_moved:
  assumes "accept_new s fr t actor request rh = Inr (r, s')"
  shows "jobs_moved (ac_gen s) (ac_gen s')"
  using assms
proof (rule accept_new_Inr)
  fix route decision reservation billing
  let ?job = "accepted_job fr t actor request rh route decision"
  assume ok: "jobs_ok ((ac_gen s)\<lparr>g_jobs := g_jobs (ac_gen s) @ [?job]\<rparr>)" "jobs_ok (ac_gen s')"
    and "ac_gen s' = put_job (held_job fr (rr_reservation_id reservation) ?job)
      ((ac_gen s)\<lparr>g_jobs := g_jobs (ac_gen s) @ [?job], g_billing := billing\<rparr>)"
  then have "g_jobs (ac_gen s') = g_jobs (ac_gen s) @ [held_job fr (rr_reservation_id reservation) ?job]"
    using accept_new_jobs [OF ok(1)] by simp
  then show ?thesis
    unfolding jobs_moved_def using ok(2)
    by (intro conjI exI [of _ "g_jobs (ac_gen s)"] exI [of _ "[held_job fr (rr_reservation_id reservation) ?job]"])
      (auto simp: fresh_job_def accepted_job_def held_job_def intro: list_all2_refl_on)
qed

lemma accept_Inl: "accept s fr t actor request rh = (Inl e, s') \<Longrightarrow> s' = s"
  unfolding accept_def transaction_Inl_iff by simp

lemma accept_Inr:
  "accept s fr t actor request rh = (Inr r, s') \<Longrightarrow> s' = s \<or> accept_new s fr t actor request rh = Inr (r, s')"
  unfolding accept_def transaction_Inr_iff by (auto simp: replay_accepted_def split: list.splits if_splits option.splits)

lemma accept_state:
  "snd (accept s fr t actor request rh) = s \<or> (\<exists>r. accept_new s fr t actor request rh = Inr (r, snd (accept s fr t actor request rh)))"
proof (cases "accept s fr t actor request rh")
  case (Pair outcome s')
  then show ?thesis by (cases outcome) (auto dest: accept_Inl accept_Inr)
qed

lemma accept_moved:
  assumes "jobs_ok (ac_gen s)"
  shows "jobs_moved (ac_gen s) (ac_gen (snd (accept s fr t actor request rh)))"
  using accept_state [of s fr t actor request rh] assms by (auto simp: moved_same accept_new_moved)

subsection \<open>Interleavings\<close>

text \<open>
  One committed transaction of any actor: acceptance, the worker's claims and fenced writes, the heartbeat,
  the reconcilers, the users, the operator, settlement, the cleanup and the inbox.
\<close>

inductive gen_step :: "gen_db \<Rightarrow> gen_db \<Rightarrow> bool" where
  step_accept: "gen_step (ac_gen s) (ac_gen (snd (accept s fr t actor request rh)))"
| step_claim: "gen_step db (snd (claim_accepted db now locked tok t jid w n))"
| step_claim_next: "gen_step db (snd (claim_next_accepted db now locked tok tn ms w n))"
| step_claim_pending: "gen_step db (snd (claim_pending_reconciliation db now locked tok w n))"
| step_release_claim: "gen_step db (snd (release_reconciliation_claim db now t jid lt f))"
| step_renew: "gen_step db (snd (renew_lease db now t jid w lt f n))"
| step_transition: "gen_step db (snd (transition db now t jid expected target ec rq tk ob lt f))"
| step_task: "gen_step db (snd (record_provider_task db now t jid task lt f))"
| step_request: "gen_step db (snd (record_provider_request db now t jid req lt f))"
| step_complete: "gen_step db (snd (complete db now ids uid t jid expected arts usage rq tk lt f))"
| step_heartbeat: "gen_step db (snd (ensure_live db now n t jid w lt f phase))"
| step_stalled: "gen_step db (snd (reconcile_stalled_once db now locked stale limit))"
| step_cancel: "gen_step db (snd (cancel_accepted db now aid t actor jid ctx))"
| step_delete: "gen_step db (snd (soft_delete db now aid t actor jid ctx))"
| step_mark_resolved: "gen_step db (snd (mark_reconciliation_resolved db now aid t i))"
| step_request_resolution: "gen_step db (snd (request_resolution db now aid t jid subject reason))"
| step_finish_resolution: "gen_step db (snd (finish_resolution db now aid t jid subject))"
| step_capture: "gen_step db (snd (gen_capture db lid1 lid2 now t rid u))"
| step_release: "gen_step db (snd (gen_release db lid now t rid))"
| step_cleanup_claim: "gen_step db (snd (cleanup_claim db now locked))"
| step_cleanup_complete: "gen_step db (snd (cleanup_complete db now cl))"
| step_cleanup_retry: "gen_step db (snd (cleanup_retry db now cl))"
| step_inbox: "gen_step db (snd (record_inbox_event digest db i t pn ek et payload))"

lemmas op_moved =
  accept_moved claim_accepted_moved claim_next_accepted_moved claim_pending_moved release_reconciliation_claim_moved
  renew_lease_moved transition_moved record_provider_task_moved record_provider_request_moved complete_moved
  ensure_live_moved reconcile_stalled_moved cancel_accepted_moved soft_delete_moved mark_reconciliation_resolved_moved
  request_resolution_moved finish_resolution_moved

lemmas op_jobs =
  gen_capture_jobs gen_release_jobs cleanup_claim_jobs cleanup_complete_jobs cleanup_retry_jobs record_inbox_event_jobs

lemma gen_step_moved: "gen_step db db' \<Longrightarrow> jobs_ok db \<Longrightarrow> jobs_moved db db'"
  by (induction rule: gen_step.induct) (simp_all add: op_moved moved_same op_jobs)

inductive gen_run :: "gen_db \<Rightarrow> gen_db \<Rightarrow> bool" for db where
  run_here: "gen_run db db"
| run_step: "gen_run db db1 \<Longrightarrow> gen_step db1 db2 \<Longrightarrow> gen_run db db2"

text \<open>What one row keeps through any number of steps.\<close>

definition job_path :: "GenJob \<Rightarrow> GenJob \<Rightarrow> bool" where
  "job_path j j' \<longleftrightarrow> same_identity j j' \<and> j_fencing_token j \<le> j_fencing_token j' \<and>
     stage (j_status j) \<le> stage (j_status j') \<and> (is_terminal (j_status j) \<longrightarrow> j_status j' = j_status j) \<and>
     (lease_fits j \<longrightarrow> lease_fits j')"

lemma edge_stage: "status_edge s s' \<Longrightarrow> stage s \<le> stage s'"
  by (auto simp: status_edge_def stage_mono)

lemma edge_not_terminal: "status_edge s s' \<Longrightarrow> \<not> is_terminal s"
  by (auto simp: status_edge_def terminal_iff)

text \<open>The backward edge from queued to accepted keeps the stage: no chargeable call was made.\<close>

lemma job_step_path: "job_step j j' \<Longrightarrow> job_path j j'"
  using edge_stage edge_not_terminal by (fastforce simp: job_step_def job_path_def)

lemma job_path_refl [simp]: "job_path j j"
  by (simp add: job_path_def)

lemma job_path_trans: "job_path j1 j2 \<Longrightarrow> job_path j2 j3 \<Longrightarrow> job_path j1 j3"
  by (auto simp: job_path_def same_identity_def)

lemma moved_nth:
  assumes "jobs_moved db db'" and "i < length (g_jobs db)"
  shows "i < length (g_jobs db') \<and> job_step (g_jobs db ! i) (g_jobs db' ! i)"
  using assms by (auto simp: jobs_moved_def list_all2_conv_all_nth nth_append)

lemma gen_run_ok: "gen_run db db' \<Longrightarrow> jobs_ok db \<Longrightarrow> jobs_ok db'"
  by (induction rule: gen_run.induct) (auto dest: gen_step_moved simp: jobs_moved_def)

lemma gen_run_path:
  "gen_run db db' \<Longrightarrow> jobs_ok db \<Longrightarrow> i < length (g_jobs db) \<Longrightarrow>
     i < length (g_jobs db') \<and> job_path (g_jobs db ! i) (g_jobs db' ! i)"
proof (induction rule: gen_run.induct)
  case (run_step db1 db2)
  have "jobs_moved db1 db2" using run_step gen_run_ok gen_step_moved by blast
  from moved_nth [OF this] run_step show ?case by (meson job_path_trans job_step_path)
qed simp

lemma job_path_row:
  assumes "gen_run db db'" and "jobs_ok db" and "j \<in> set (g_jobs db)" and "j' \<in> set (g_jobs db')" and "j_id j' = j_id j"
  shows "job_path j j'"
proof -
  obtain i where i: "i < length (g_jobs db)" "g_jobs db ! i = j" using assms(3) by (auto simp: in_set_conv_nth)
  from gen_run_path [OF assms(1,2) i(1)] have p: "g_jobs db' ! i \<in> set (g_jobs db')" "job_path j (g_jobs db' ! i)"
    using i(2) by auto
  have "g_jobs db' ! i = j'"
    using distinct_key_inj [OF jobs_ok_keys(1) [OF gen_run_ok [OF assms(1,2)]] p(1) assms(4)] p(2) assms(5)
    by (auto simp: job_path_def same_identity_def)
  then show ?thesis using p(2) by simp
qed

lemma fits_preserved:
  "gen_run db db' \<Longrightarrow> jobs_ok db \<Longrightarrow> list_all lease_fits (g_jobs db) \<Longrightarrow> list_all lease_fits (g_jobs db')"
proof (induction rule: gen_run.induct)
  case (run_step db1 db2)
  have "jobs_moved db1 db2" using run_step gen_run_ok gen_step_moved by blast
  then obtain js new where g: "g_jobs db2 = js @ new" "list_all2 job_step (g_jobs db1) js" "list_all fresh_job new"
    by (auto simp: jobs_moved_def)
  have "list_all lease_fits js"
    using g(2) run_step.IH [OF run_step.prems] unfolding list_all_length list_all2_conv_all_nth job_step_def by auto
  moreover have "list_all lease_fits new"
    using g(3) by (auto simp: list_all_iff fresh_job_def lease_fits_def lease_held_in_def LEASED_STATUSES_def)
  ultimately show ?case using g(1) by simp
qed simp

end
