(* ===== verification/Generation_Properties.thy ===== *)
theory Generation_Properties
  imports Generation_Invariants
begin

text \<open>
  What the generation subsystem guarantees over every interleaving of its actors: the fence, the one-way
  submission, the finality of outcomes, and that no claimed job is lost when its worker dies.
\<close>

subsection \<open>A concrete table\<close>

definition demo_job :: "uuid \<Rightarrow> GenerationStatus \<Rightarrow> uuid option \<Rightarrow> int \<Rightarrow> GenJob" where
  "demo_job i status lease fence =
     \<lparr>j_id = i, j_job_id = i + 100, j_tenant_id = 1, j_actor_user_id = Some 5, j_model_deployment_id = 3,
      j_accepted_model_revision_id = None, j_accepted_model_deployment_id = None, j_accepted_routing_policy_id = None,
      j_accepted_price_version_id = None, j_accepted_capability_schema_version = None, j_accepted_capability_schema_hash = None,
      j_accepted_capability_schema = None, j_accepted_input_snapshot = None, j_billing_reservation_id = None, j_modality = ''image'', j_status = status,
      j_provider_request_id = None, j_provider_task_id = None, j_request_hash = None, j_request_payload = [],
      j_error_code = None, j_claim_owner = map_option (\<lambda>_. ''w'') lease, j_lease_token = lease,
      j_lease_expires_at = map_option (\<lambda>_. 1000) lease, j_fencing_token = fence, j_reconciliation_status = ''not_required'',
      j_provider_observed_status = None, j_provider_observed_at = None, j_deleted_at = None, j_started_at = None,
      j_completed_at = None, j_created_at = 0, j_updated_at = 0\<rparr>"

definition demo_gen :: "GenJob list \<Rightarrow> gen_db" where
  "demo_gen jobs = \<lparr>g_jobs = jobs, g_artifacts = [], g_inbox = [], g_deployments = [(3, ''tts'', 2)], g_audit = [],
     g_billing = \<lparr>wallets = [], reservations = [], ledger = [], usage_records = [], price_versions = [],
       inference_requests = [], generation_jobs = []\<rparr>\<rparr>"

subsection \<open>The fence\<close>

lemma update_one_none: "(\<And>j. j \<in> set (g_jobs db) \<Longrightarrow> \<not> P j) \<Longrightarrow> \<exists>e. update_one P f db = Inl e"
  by (cases "update_one P f db") (auto simp: update_one_Inr rowcount_def filter_empty_conv)

lemma transaction_fails: "(\<exists>e. m = Inl e) \<Longrightarrow> \<exists>e. transaction db m = (Inl e, db)"
  by (auto simp: transaction_def)

lemma andthen_fails: "(\<And>x. m = Inr x \<Longrightarrow> \<exists>e. k x = Inl e) \<Longrightarrow> \<exists>e. andthen m k = Inl e"
  by (cases m) auto

lemma andthen_fails_here: "\<exists>e. m = Inl e \<Longrightarrow> \<exists>e. andthen m k = Inl e"
  by (cases m) auto

definition fence_gone :: "uuid \<Rightarrow> int \<Rightarrow> gen_db \<Rightarrow> bool" where
  "fence_gone jid f db \<longleftrightarrow> (\<forall>j \<in> set (g_jobs db). j_job_id j = jid \<longrightarrow> j_fencing_token j \<noteq> f)"

lemma fence_gone_updates:
  assumes "fence_gone jid f db"
  shows "\<exists>e. transition db now t jid ex tg ec rq tk ob lt f = (Inl e, db)"
    and "\<exists>e. renew_lease db now t jid w lt f n = (Inl e, db)"
    and "\<exists>e. record_provider_task db now t jid task lt f = (Inl e, db)"
    and "\<exists>e. record_provider_request db now t jid req lt f = (Inl e, db)"
    and "\<exists>e. release_reconciliation_claim db now t jid lt f = (Inl e, db)"
proof -
  note simps = fence_gone_def fenced_def
  show "\<exists>e. transition db now t jid ex tg ec rq tk ob lt f = (Inl e, db)"
    unfolding transition_def
    by (intro transaction_fails andthen_fails andthen_fails_here update_one_none) (use assms in \<open>auto simp: simps\<close>)
  show "\<exists>e. renew_lease db now t jid w lt f n = (Inl e, db)"
    unfolding renew_lease_def
    by (intro transaction_fails andthen_fails andthen_fails_here update_one_none) (use assms in \<open>auto simp: simps\<close>)
  show "\<exists>e. record_provider_task db now t jid task lt f = (Inl e, db)"
    unfolding record_provider_task_def
    by (intro transaction_fails andthen_fails andthen_fails_here update_one_none) (use assms in \<open>auto simp: simps\<close>)
  show "\<exists>e. record_provider_request db now t jid req lt f = (Inl e, db)"
    unfolding record_provider_request_def
    by (intro transaction_fails andthen_fails andthen_fails_here update_one_none) (use assms in \<open>auto simp: simps\<close>)
  show "\<exists>e. release_reconciliation_claim db now t jid lt f = (Inl e, db)"
    unfolding release_reconciliation_claim_def
    by (intro transaction_fails andthen_fails andthen_fails_here update_one_none) (use assms in \<open>auto simp: simps\<close>)
qed

lemma fence_gone_complete:
  assumes "fence_gone jid f db"
  shows "\<exists>e. complete db now ids uid t jid ex arts usage rq tk lt f = (Inl e, db)"
proof (cases "complete db now ids uid t jid ex arts usage rq tk lt f")
  case (Pair res db')
  show ?thesis
  proof (cases res)
    case (Inl e)
    then show ?thesis using Pair complete_Inl by blast
  next
    case (Inr r)
    from Pair [unfolded Inr] obtain job where "filter (complete_fenced now t jid lt f) (g_jobs db) = [job]"
      by (rule complete_Inr)
    then show ?thesis using assms by (auto dest!: filter_singletonD simp: complete_fenced_def fenced_def fence_gone_def)
  qed
qed

lemma fence_gone_heartbeat:
  assumes "fence_gone jid f db"
  shows "\<exists>e. ensure_live db now n t jid w lt f phase = (Inl e, db)"
proof -
  have "rowcount (\<lambda>j. j_tenant_id j = t \<and> j_job_id j = jid \<and> j_status j \<in> set LEASED_STATUSES \<and>
      j_claim_owner j = Some w \<and> fenced now lt f j) (g_jobs db) = 0"
    using assms by (auto simp: rowcount_0_iff fence_gone_def fenced_def)
  then show ?thesis
    unfolding ensure_live_def Let_def by (intro transaction_fails andthen_fails) (simp add: require_def)
qed

lemma overtaken_fence_gone:
  assumes "gen_run db db'" and "jobs_ok db" and "j \<in> set (g_jobs db)" and "j_job_id j = jid" and "f < j_fencing_token j"
  shows "fence_gone jid f db'"
  unfolding fence_gone_def
proof (intro ballI impI)
  fix x
  assume x: "x \<in> set (g_jobs db')" "j_job_id x = jid"
  obtain i where i: "i < length (g_jobs db)" "g_jobs db ! i = j" using assms(3) by (auto simp: in_set_conv_nth)
  from gen_run_path [OF assms(1,2) i(1)] have p: "g_jobs db' ! i \<in> set (g_jobs db')" "job_path j (g_jobs db' ! i)"
    using i(2) by auto
  then have "x = g_jobs db' ! i"
    using distinct_key_inj [OF jobs_ok_keys(2) [OF gen_run_ok [OF assms(1,2)]] x(1)] x(2) assms(4)
    by (auto simp: job_path_def same_identity_def)
  then show "j_fencing_token x \<noteq> f" using p(2) assms(5) by (auto simp: job_path_def)
qed

text \<open>
  C12. A worker that lost its claim can never write again: once a job carries a higher fencing token, every
  fenced operation under the old token, in any later state, raises and leaves the database as it is.
\<close>

theorem stale_fence_rejected:
  assumes "gen_run db db'" and "jobs_ok db" and "j \<in> set (g_jobs db)" and "j_job_id j = jid" and "f < j_fencing_token j"
  shows "\<exists>e1 e2 e3 e4 e5 e6 e7.
    transition db' now t jid ex tg ec rq tk ob lt f = (Inl e1, db') \<and>
    complete db' now ids uid t jid ex arts usage rq tk lt f = (Inl e2, db') \<and>
    renew_lease db' now t jid w lt f n = (Inl e3, db') \<and>
    record_provider_task db' now t jid task lt f = (Inl e4, db') \<and>
    record_provider_request db' now t jid req lt f = (Inl e5, db') \<and>
    release_reconciliation_claim db' now t jid lt f = (Inl e6, db') \<and>
    ensure_live db' now n t jid w lt f phase = (Inl e7, db')"
proof -
  have g: "fence_gone jid f db'" by (rule overtaken_fence_gone [OF assms])
  show ?thesis
    using fence_gone_updates [OF g] fence_gone_complete [OF g] fence_gone_heartbeat [OF g] by metis
qed

theorem stale_fence_rejected_witness:
  "\<exists>e. transition (demo_gen [demo_job 1 Queued (Some 9) 2]) 500 1 101 Queued Submitted None None None None 9 1 =
     (Inl e, demo_gen [demo_job 1 Queued (Some 9) 2])"
proof -
  let ?db = "demo_gen [demo_job 1 Queued (Some 9) 2]"
  have "jobs_ok ?db" by code_simp
  from stale_fence_rejected [OF run_here this, of "demo_job 1 Queued (Some 9) 2" 101 1]
  show ?thesis by (auto simp: demo_gen_def demo_job_def)
qed

subsection \<open>Submission and outcome\<close>

text \<open>
  C13. The chargeable provider call is committed at most once: from the moment a job is past the queued state
  no later step of any actor moves it into the submitted state again, and it never becomes claimable again.
\<close>

theorem one_way_submission:
  assumes "gen_run db db1" and "jobs_ok db" and "j \<in> set (g_jobs db)" and "1 \<le> stage (j_status j)"
    and "j1 \<in> set (g_jobs db1)" and "j_id j1 = j_id j"
    and "gen_step db1 db2" and "j2 \<in> set (g_jobs db2)" and "j_id j2 = j_id j"
  shows "j_status j1 \<notin> {Accepted, Reserved, Queued} \<and> \<not> (j_status j1 \<noteq> Submitted \<and> j_status j2 = Submitted)"
proof -
  have s: "1 \<le> stage (j_status j1)"
    using job_path_row [OF assms(1-3,5,6)] assms(4) by (simp add: job_path_def)
  then have n: "j_status j1 \<notin> {Accepted, Reserved, Queued}" by auto
  have ok: "jobs_ok db1" by (rule gen_run_ok [OF assms(1,2)])
  have m: "jobs_moved db1 db2" by (rule gen_step_moved [OF assms(7) ok])
  obtain i where i: "i < length (g_jobs db1)" "g_jobs db1 ! i = j1" using assms(5) by (auto simp: in_set_conv_nth)
  from moved_nth [OF m i(1)] have p: "g_jobs db2 ! i \<in> set (g_jobs db2)" "job_step j1 (g_jobs db2 ! i)" using i(2) by auto
  have ok2: "jobs_ok db2" using m by (simp add: jobs_moved_def)
  have "g_jobs db2 ! i = j2"
    using distinct_key_inj [OF jobs_ok_keys(1) [OF ok2] p(1) assms(8)] p(2) assms(6,9)
    by (auto simp: job_step_def same_identity_def)
  then have "job_step j1 j2" using p(2) by simp
  then show ?thesis using n by (auto simp: job_step_def status_edge_def dest: submitted_only_from_queued)
qed

theorem one_way_submission_witness:
  "\<not> (j_status (demo_job 1 Running (Some 9) 1) \<noteq> Submitted \<and>
     j_status (hd (g_jobs (snd (reconcile_stalled_once (demo_gen [demo_job 1 Running (Some 9) 1]) 5000 (\<lambda>_. False) 1200 50)))) = Submitted)"
proof -
  let ?db = "demo_gen [demo_job 1 Running (Some 9) 1]"
  let ?db2 = "snd (reconcile_stalled_once ?db 5000 (\<lambda>_. False) 1200 50)"
  have ok: "jobs_ok ?db" by code_simp
  have "map j_id (g_jobs ?db2) = [1]" by code_simp
  then obtain x where x: "g_jobs ?db2 = [x]" "j_id x = 1" by (cases "g_jobs ?db2") auto
  from one_way_submission [OF run_here ok, of "demo_job 1 Running (Some 9) 1" _ ?db2 x] step_stalled x
  show ?thesis by (auto simp: demo_gen_def demo_job_def)
qed

text \<open>
  An outcome is final: a succeeded, failed, cancelled or expired job keeps that status, whatever any actor
  does afterwards.
\<close>

theorem terminal_final:
  assumes "gen_run db db'" and "jobs_ok db" and "j \<in> set (g_jobs db)" and "is_terminal (j_status j)"
    and "j' \<in> set (g_jobs db')" and "j_id j' = j_id j"
  shows "j_status j' = j_status j"
  using job_path_row [OF assms(1,2,3,5,6)] assms(4) by (simp add: job_path_def)

theorem terminal_final_witness:
  "j_status (hd (g_jobs (snd (transition (demo_gen [demo_job 1 Failed None 1]) 500 1 101 Running Storing None None None None 9 1)))) = Failed"
proof -
  let ?db = "demo_gen [demo_job 1 Failed None 1]"
  let ?db2 = "snd (transition ?db 500 1 101 Running Storing None None None None 9 1)"
  have ok: "jobs_ok ?db" by code_simp
  have "map j_id (g_jobs ?db2) = [1]" by code_simp
  then obtain x where x: "g_jobs ?db2 = [x]" "j_id x = 1" by (cases "g_jobs ?db2") auto
  have "gen_run ?db ?db2" by (rule run_step [OF run_here]) (rule step_transition)
  from terminal_final [OF this ok, of "demo_job 1 Failed None 1" x] x show ?thesis
    by (auto simp: demo_gen_def demo_job_def is_terminal_def TERMINAL_STATUSES_def)
qed

subsection \<open>Stalled jobs\<close>

lemma reconciled_row_ok:
  assumes "job_check j" and "job_widths j"
  shows "job_check (reconcile_stalled_job now j) \<and> job_widths (reconcile_stalled_job now j)"
  using assms by (auto simp: reconcile_stalled_job_def job_check_def job_widths_def lease_consistent_def drop_lease_def fits_def)

lemma reconcile_stalled_fields [simp]:
  "j_job_id (reconcile_stalled_job now j) = j_job_id j" "j_tenant_id (reconcile_stalled_job now j) = j_tenant_id j"
  "j_model_deployment_id (reconcile_stalled_job now j) = j_model_deployment_id j"
  "j_provider_request_id (reconcile_stalled_job now j) = j_provider_request_id j"
  "j_provider_task_id (reconcile_stalled_job now j) = j_provider_task_id j"
  "j_fencing_token (reconcile_stalled_job now j) = j_fencing_token j"
  by (simp_all add: reconcile_stalled_job_def drop_lease_def)

lemma provider_keys_update:
  assumes "\<And>j. p (f j) = p j" and "\<And>j. j_tenant_id (f j) = j_tenant_id j" and "\<And>j. j_model_deployment_id (f j) = j_model_deployment_id j"
  shows "provider_keys p (update_where P f js) = provider_keys p js"
  using assms by (induction js) (auto simp: provider_keys_def)

lemma reconciled_ok:
  assumes "jobs_ok db"
  shows "jobs_ok (db\<lparr>g_jobs := update_where P (reconcile_stalled_job now) (g_jobs db)\<rparr>)"
  using assms reconciled_row_ok
  by (auto simp: jobs_ok_def provider_keys_update map_update_where list_all_iff set_update_where)

lemma reconcile_stalled_total:
  assumes "jobs_ok db" and "60 \<le> stale" and "1 \<le> limit" and "limit \<le> 500"
  shows "\<exists>n db'. reconcile_stalled_once db now locked stale limit = (Inr n, db')"
proof -
  let ?js = "stalled_selection now locked limit db"
  have js: "set ?js \<subseteq> set (g_jobs db)" "distinct (map j_id ?js)"
    using stalled_selection_rows [OF assms(1)] by blast+
  from reconcile_stalled_jobs_eq [OF jobs_ok_keys(1) [OF assms(1)] js, of now] reconciled_ok [OF assms(1)]
  show ?thesis
    using assms(2-4) unfolding reconcile_stalled_once_def transaction_Inr_iff stalled_selection_def
    by (auto simp: Let_def require_def)
qed

text \<open>
  The stalled unlocked jobs that come before a job in the query's order, longest untouched first: the job is in the batch
  when they are fewer than the batch's limit.
\<close>

definition stalled_before :: "instant \<Rightarrow> (uuid \<Rightarrow> bool) \<Rightarrow> GenJob \<Rightarrow> gen_db \<Rightarrow> GenJob list" where
  "stalled_before now locked j db = filter (\<lambda>x. stalled now x \<and> \<not> locked (j_id x) \<and>
     (j_updated_at x, j_id x) < (j_updated_at j, j_id j)) (g_jobs db)"

lemma stalled_selected:
  assumes "jobs_ok db" and j: "j \<in> set (g_jobs db)" "stalled now j" "\<not> locked (j_id j)"
    and few: "length (stalled_before now locked j db) < nat limit"
  shows "j \<in> set (stalled_selection now locked limit db)"
proof (rule ccontr)
  let ?js = "stalled_selection now locked limit db"
  assume out: "j \<notin> set ?js"
  have full: "length ?js = nat limit" and le: "\<forall>x \<in> set ?js. (j_updated_at x, j_id x) \<le> (j_updated_at j, j_id j)"
    using take_sort_passed [of j "filter (\<lambda>j. stalled now j \<and> \<not> locked (j_id j)) (g_jobs db)" "nat limit" "\<lambda>j. (j_updated_at j, j_id j)"]
      j out by (simp_all add: stalled_selection_def)
  note js = stalled_selection_rows [OF assms(1), of now locked limit]
  have "(j_updated_at x, j_id x) < (j_updated_at j, j_id j)" if x: "x \<in> set ?js" for x
  proof -
    have "j_id x \<noteq> j_id j" using x out js(1) distinct_key_inj [OF jobs_ok_keys(1) [OF assms(1)] _ j(1)] by blast
    with le x show ?thesis by (auto simp: order_less_le)
  qed
  with js(1) have "set ?js \<subseteq> set (stalled_before now locked j db)" by (auto simp: stalled_before_def)
  then have "card (set ?js) \<le> length (stalled_before now locked j db)" by (meson List.finite_set card_length card_mono le_trans)
  with full few distinct_card [OF js(2) [unfolded distinct_map, THEN conjunct1]] show False by simp
qed

text \<open>What a pass makes of a stalled job.\<close>

definition recovered :: "GenJob \<Rightarrow> GenJob \<Rightarrow> bool" where
  "recovered j j' \<longleftrightarrow> j_id j' = j_id j \<and> j_lease_token j' = None \<and>
     (if j_status j \<in> set [Reserved, Queued] then j_status j' = Failed
      else j_status j' = Submitted_unknown \<and> j_reconciliation_status j' = ''pending'')"

lemma stalled_pass:
  assumes ok: "jobs_ok db" and j: "j \<in> set (g_jobs db)" "stalled now j" "\<not> locked (j_id j)"
    and b: "60 \<le> stale" "1 \<le> limit" "limit \<le> 500"
  shows "\<exists>n db'. reconcile_stalled_once db now locked stale limit = (Inr n, db') \<and> g_billing db' = g_billing db \<and>
    (length (stalled_before now locked j db) < nat limit \<and> (\<exists>j' \<in> set (g_jobs db'). recovered j j') \<or>
     nat limit \<le> length (stalled_before now locked j db) \<and> n = nat limit)"
proof -
  obtain n db' where r: "reconcile_stalled_once db now locked stale limit = (Inr n, db')"
    using reconcile_stalled_total [OF ok b] by blast
  note eq = reconcile_stalled_once_Inr [OF ok r]
  show ?thesis
  proof (cases "length (stalled_before now locked j db) < nat limit")
    case True
    from stalled_selected [OF ok j True] eq have "reconcile_stalled_job now j \<in> set (g_jobs db')"
      using j(1) by (force simp: set_update_where)
    moreover have "recovered j (reconcile_stalled_job now j)"
      using j(2) by (auto simp: recovered_def stalled_def reconcile_stalled_job_def drop_lease_def LEASED_STATUSES_def)
    ultimately show ?thesis using r eq True by auto
  next
    case False
    have "nat limit \<le> length (filter (\<lambda>x. stalled now x \<and> \<not> locked (j_id x)) (g_jobs db))"
      using False length_filter_le [of "\<lambda>x. (j_updated_at x, j_id x) < (j_updated_at j, j_id j)"
          "filter (\<lambda>x. stalled now x \<and> \<not> locked (j_id x)) (g_jobs db)"]
      by (simp add: stalled_before_def)
    then show ?thesis using r eq False by (simp add: stalled_selection_def)
  qed
qed

text \<open>
  C14. No claimed job is lost: in every reachable state a job that a worker holds carries an expiry. Once that has
  passed, a reconciliation pass with valid bounds returns, and if no transaction has the row locked and fewer stalled
  unlocked jobs than the batch's limit come before it in the query's order, the pass drops its lease, fails it if no
  provider call was committed, and otherwise parks it as an unknown outcome; the billing tables, its hold with them,
  are untouched. When \<open>limit\<close> or more come before it, the pass recovers \<open>limit\<close> of those instead.
\<close>

theorem stalled_job_recovered:
  assumes "gen_run db0 db" and "jobs_ok db0" and "list_all lease_fits (g_jobs db0)"
    and "j \<in> set (g_jobs db)" and "j_status j \<in> set LEASED_STATUSES"
    and "60 \<le> stale" and "1 \<le> limit" and "limit \<le> 500" and "\<not> locked (j_id j)"
  shows "\<exists>e. j_lease_expires_at j = Some e \<and> (e \<le> now \<longrightarrow>
    (\<exists>n db'. reconcile_stalled_once db now locked stale limit = (Inr n, db') \<and> g_billing db' = g_billing db \<and>
       (length (stalled_before now locked j db) < nat limit \<and> (\<exists>j' \<in> set (g_jobs db'). recovered j j') \<or>
        nat limit \<le> length (stalled_before now locked j db) \<and> n = nat limit)))"
proof -
  have ok: "jobs_ok db" by (rule gen_run_ok [OF assms(1,2)])
  have "lease_fits j" using fits_preserved [OF assms(1-3)] assms(4) by (simp add: list_all_iff)
  then have "j_lease_token j \<noteq> None" using assms(5) by (simp add: lease_fits_def lease_held_in_def)
  moreover have "lease_consistent j" using ok assms(4) by (auto simp: jobs_ok_def list_all_iff job_check_def)
  ultimately obtain e where e: "j_lease_expires_at j = Some e" by (auto simp: lease_consistent_def)
  then have "e \<le> now \<Longrightarrow> stalled now j" using assms(5) by (simp add: stalled_def)
  with e stalled_pass [where locked = locked and now = now, OF ok assms(4) _ assms(9,6-8)] show ?thesis by blast
qed

theorem stalled_job_recovered_witness:
  "\<exists>n db' j'. reconcile_stalled_once (demo_gen [demo_job 1 Storing (Some 9) 1]) 1000 (\<lambda>_. False) 1200 500 = (Inr n, db') \<and>
     j' \<in> set (g_jobs db') \<and> j_status j' = Submitted_unknown"
proof -
  let ?db = "demo_gen [demo_job 1 Storing (Some 9) 1]" and ?j = "demo_job 1 Storing (Some 9) 1"
  have ok: "jobs_ok ?db" "list_all lease_fits (g_jobs ?db)" by code_simp+
  have few: "length (stalled_before 1000 (\<lambda>_. False) ?j ?db) < nat 500" by code_simp
  have j: "?j \<in> set (g_jobs ?db)" "j_status ?j \<in> set LEASED_STATUSES" "j_lease_expires_at ?j = Some 1000"
    by (simp_all add: demo_gen_def demo_job_def LEASED_STATUSES_def)
  have "\<exists>n db'. reconcile_stalled_once ?db 1000 (\<lambda>_. False) 1200 500 = (Inr n, db') \<and> (\<exists>j' \<in> set (g_jobs db'). recovered ?j j')"
    using stalled_job_recovered [OF run_here ok j(1,2), where now = 1000 and locked = "\<lambda>_. False" and stale = 1200 and limit = 500]
      j(3) few unfolding option.inject by auto
  moreover have "recovered ?j j' \<Longrightarrow> j_status j' = Submitted_unknown" for j' by (simp add: recovered_def demo_job_def)
  ultimately show ?thesis by blast
qed

text \<open>
  Reconciliation never takes a job away from a live worker: a pass at some moment leaves every row whose
  lease has not expired by then exactly as it is.
\<close>

theorem reconcile_spares_live:
  assumes "jobs_ok db" and "j \<in> set (g_jobs db)" and "j_lease_expires_at j = Some e" and "now < e"
  shows "j \<in> set (g_jobs (snd (reconcile_stalled_once db now locked stale limit)))"
proof (cases "reconcile_stalled_once db now locked stale limit")
  case (Pair res db')
  show ?thesis
  proof (cases res)
    case (Inl e)
    have "db' = db" using Pair [unfolded Inl] unfolding reconcile_stalled_once_def transaction_Inl_iff by simp
    then show ?thesis using Pair assms(2) by simp
  next
    case (Inr n)
    have "j_id j \<notin> j_id ` set (stalled_selection now locked limit db)"
      using selected_row [OF assms(1,2), of now locked limit] assms(3,4) by (fastforce simp: stalled_def)
    then show ?thesis
      using reconcile_stalled_once_Inr [OF assms(1) Pair [unfolded Inr]] Pair assms(2) by (force simp: set_update_where)
  qed
qed

theorem reconcile_spares_live_witness:
  "demo_job 1 Running (Some 9) 1 \<in> set (g_jobs (snd (reconcile_stalled_once (demo_gen [demo_job 1 Running (Some 9) 1]) 999 (\<lambda>_. False) 1200 50)))"
proof -
  have ok: "jobs_ok (demo_gen [demo_job 1 Running (Some 9) 1])" by code_simp
  from reconcile_spares_live [OF ok, of "demo_job 1 Running (Some 9) 1" 1000] show ?thesis
    by (simp add: demo_gen_def demo_job_def)
qed

text \<open>The reconciler's edge is not one of the declared machine.\<close>

theorem stalled_edge_undeclared:
  "j_status (reconcile_stalled_job now (demo_job 1 Running (Some 9) 1)) = Submitted_unknown \<and>
   assert_transition Running Submitted_unknown = Inl InvalidGenerationTransition"
  by (simp add: reconcile_stalled_job_def demo_job_def drop_lease_def assert_transition_def require_def)

subsection \<open>Claims\<close>

lemma record_of_materialized:
  assumes "get_by_job_id db t jid None = Some r" and "jobs_ok db" and "j \<in> set (g_jobs db)" and "j_job_id j = jid"
  shows "gr_status r = j_status j \<and> gr_lease_token r = j_lease_token j \<and> gr_fencing_token r = j_fencing_token j \<and>
    gr_lease_expires_at r = j_lease_expires_at j \<and> gr_db_id r = j_id j \<and> gr_job_id r = jid \<and> gr_tenant_id r = t \<and> j_tenant_id j = t \<and>
    gr_billing_reservation_id r = j_billing_reservation_id j"
proof -
  obtain x d where x: "(x, d) \<in> set (job_query (g_deployments db) (g_jobs db))" "j_tenant_id x = t" "j_job_id x = jid" "r = materialize db t (x, d)"
    using assms(1) by (auto simp: get_by_job_id_def dest!: first_row_in)
  then have "x = j"
    using distinct_key_inj [OF jobs_ok_keys(2) [OF assms(2)] job_query_in [OF x(1)] assms(3)] assms(4) by simp
  then show ?thesis using x by (cases d) (simp add: materialize_def record_from_job_def)
qed

lemma claim_row_Some:
  assumes "claim_row db job w tok n now = Inr (Some r, db')" and "jobs_ok db" and "job \<in> set (g_jobs db)"
  shows "unleased_accepted job \<and> g_jobs db' = update_where (\<lambda>j. j_id j = j_id job) (\<lambda>_. take_claim job w tok n now job) (g_jobs db) \<and>
    jobs_ok db' \<and> gr_db_id r = j_id job \<and> gr_status r = Reserved \<and> gr_lease_token r = Some tok \<and>
    gr_fencing_token r = j_fencing_token job + 1 \<and> gr_lease_expires_at r = Some (now + seconds n)"
proof -
  let ?P = "\<lambda>j. j_tenant_id j = j_tenant_id job \<and> j_job_id j = j_job_id job \<and> unleased_accepted j"
  have u: "g_jobs db' = update_where ?P (take_claim job w tok n now) (g_jobs db)" "jobs_ok db'"
      "rowcount ?P (g_jobs db) = 1" "get_by_job_id db' (j_tenant_id job) (j_job_id job) None = Some r"
    using assms(1) by (auto simp: claim_row_def update_jobs_def Let_def split: if_splits)
  obtain x where x: "x \<in> set (g_jobs db)" "?P x"
    using u(3) by (auto simp: rowcount_def length_Suc_conv dest!: filter_singletonD)
  then have un: "unleased_accepted job" using distinct_key_inj [OF jobs_ok_keys(2) [OF assms(2)] x(1) assms(3)] by auto
  have eq: "?P j \<longleftrightarrow> j_id j = j_id job" if "j \<in> set (g_jobs db)" for j
    using distinct_key_inj [OF jobs_ok_keys(2) [OF assms(2)] that assms(3)]
      distinct_key_inj [OF jobs_ok_keys(1) [OF assms(2)] that assms(3)] un by auto
  have same: "j = job" if "j \<in> set (g_jobs db)" "j_id j = j_id job" for j
    using distinct_key_inj [OF jobs_ok_keys(1) [OF assms(2)] that(1) assms(3) that(2)] .
  have g: "g_jobs db' = update_where (\<lambda>j. j_id j = j_id job) (\<lambda>_. take_claim job w tok n now job) (g_jobs db)"
    unfolding u(1) update_where_def using eq same by (intro map_cong [OF refl]) auto
  have "take_claim job w tok n now job \<in> set (g_jobs db')"
    using assms(3) by (auto simp: g set_update_where)
  from record_of_materialized [OF u(4,2) this] show ?thesis
    using un g u(2) by (simp add: take_claim_def)
qed

text \<open>
  C15. A delivery claims a job exactly once: a successful claim found the job accepted and unleased, turns
  exactly that row into reserved under a fresh lease and the next fencing token, and a second delivery of
  the same job finds nothing to claim and changes nothing.
\<close>

theorem claim_once:
  assumes "jobs_ok db" and "claim_accepted db now locked tok t jid w n = (Inr (Some r), db')"
    and "validate_claim_input w2 n2 = Inr ()"
  shows "\<exists>j \<in> set (g_jobs db). j_job_id j = jid \<and> unleased_accepted j \<and>
    g_jobs db' = update_where (\<lambda>x. j_id x = j_id j) (\<lambda>_. take_claim j w tok n now j) (g_jobs db) \<and>
    gr_db_id r = j_id j \<and> gr_status r = Reserved \<and> gr_lease_token r = Some tok \<and> gr_fencing_token r = j_fencing_token j + 1 \<and>
    claim_accepted db' now2 locked2 tok2 t jid w2 n2 = (Inr None, db')"
proof -
  obtain j d where j: "(j, d) \<in> set (job_query (g_deployments db) (g_jobs db))" "j_job_id j = jid"
      "claim_row db j w tok n now = Inr (Some r, db')"
    using assms(2) unfolding claim_accepted_def transaction_Inr_iff
    by (auto split: option.splits prod.splits dest!: first_row_in)
  have jin: "j \<in> set (g_jobs db)" using job_query_in [OF j(1)] .
  note c = claim_row_Some [OF j(3) assms(1) jin]
  have tin: "take_claim j w tok n now j \<in> set (g_jobs db')" using c jin by (auto simp: set_update_where)
  have "\<not> (j_job_id x = jid \<and> unleased_accepted x)" if "(x, y) \<in> set (job_query (g_deployments db') (g_jobs db'))" for x y
  proof
    assume x: "j_job_id x = jid \<and> unleased_accepted x"
    have "x = take_claim j w tok n now j"
      using distinct_key_inj [OF jobs_ok_keys(2) [of db'] job_query_in [OF that] tin] c x j(2) by (simp add: take_claim_def)
    then show False using x by (simp add: take_claim_def unleased_accepted_def)
  qed
  then have "filter (\<lambda>(x, _). j_tenant_id x = t \<and> j_job_id x = jid \<and> unleased_accepted x \<and> \<not> locked2 (j_id x))
      (job_query (g_deployments db') (g_jobs db')) = []"
    by (auto simp: filter_empty_conv)
  then have "claim_accepted db' now2 locked2 tok2 t jid w2 n2 = (Inr None, db')"
    using assms(3) by (simp add: claim_accepted_def transaction_def)
  then show ?thesis using c jin j(2) by blast
qed

theorem claim_once_witness:
  "\<exists>r db'. claim_accepted (demo_gen [demo_job 1 Accepted None 0]) 10 (\<lambda>_. False) 77 1 101 ''w'' 60 = (Inr (Some r), db') \<and>
     claim_accepted db' 20 (\<lambda>_. False) 78 1 101 ''v'' 60 = (Inr None, db')"
proof -
  let ?db = "demo_gen [demo_job 1 Accepted None 0]"
  let ?c = "claim_accepted ?db 10 (\<lambda>_. False) 77 1 101 ''w'' 60"
  have ok: "jobs_ok ?db" by code_simp
  have "(case fst ?c of Inr (Some r) \<Rightarrow> True | _ \<Rightarrow> False)" by code_simp
  then obtain r where r: "fst ?c = Inr (Some r)" by (auto split: sum.splits option.splits)
  then have c: "?c = (Inr (Some r), snd ?c)" by (metis prod.collapse)
  have v: "validate_claim_input ''v'' 60 = Inr ()" by code_simp
  from claim_once [OF ok c v] c show ?thesis by blast
qed

end
