(* ===== verification/Catalog_Properties.thy ===== *)
theory Catalog_Properties
  imports Catalog
begin

text \<open>
  What the catalog promises: the route bound to a request is the best usable one, and how that rule relates
  to the availability the tenant is shown.
\<close>

subsection \<open>The selected route\<close>

definition route_key :: "route_row \<Rightarrow> int \<times> instant" where
  "route_key row = (case row of (_, _, d, _) \<Rightarrow> (md_priority d, md_created_at d))"

lemma route_query_sorted: "sorted (map route_key (route_query c t k m))"
  unfolding route_query_def route_key_def by (rule sorted_sort_key)

lemma first_usable_Some:
  assumes "first_usable rows = Some r" and "sorted (map route_key rows)"
  shows "\<exists>row \<in> set rows. usable_row row \<and> r = route_of row \<and> (\<forall>row' \<in> set rows. usable_row row' \<longrightarrow> route_key row \<le> route_key row')"
  using assms by (induction rows) (auto split: if_splits)

lemma first_usable_None_iff: "first_usable rows = None \<longleftrightarrow> (\<forall>row \<in> set rows. \<not> usable_row row)"
  by (induction rows) auto

definition active_row :: "catalog_db \<Rightarrow> uuid \<Rightarrow> string \<Rightarrow> string \<Rightarrow> route_row \<Rightarrow> bool" where
  "active_row c t model_key modality row \<longleftrightarrow>
     (case row of (p, e, d, ep) \<Rightarrow>
        p \<in> set (c_products c) \<and> e \<in> set (c_entitlements c) \<and> d \<in> set (c_deployments c) \<and> ep \<in> set (c_endpoints c) \<and>
        entitled t p e \<and> md_product_model_id d = pm_id p \<and> pe_id ep = md_provider_endpoint_id d \<and>
        pm_model_key p = model_key \<and> pm_modality p = modality \<and> pm_status p = ''active'' \<and>
        md_status d = ''active'' \<and> pe_status ep = ''active'')"

lemma set_route_query: "set (route_query c t k m) = {row. active_row c t k m row}"
  unfolding route_query_def set_sort by (auto simp: active_row_def)

text \<open>One entitled tenant, one audio product and one deployment, with the given capabilities and routing.\<close>

definition demo_product :: "(string \<times> json) list \<Rightarrow> ProductModel" where
  "demo_product capabilities = \<lparr>pm_id = 1, pm_model_key = ''tts'', pm_display_name = ''TTS'', pm_modality = ''audio'',
     pm_task_type = ''tts'', pm_status = ''active'', pm_capabilities = capabilities, pm_pricing_summary = [], pm_description = None\<rparr>"

definition demo_catalog :: "(string \<times> json) list \<Rightarrow> (string \<times> json) list \<Rightarrow> catalog_db" where
  "demo_catalog capabilities routing =
     \<lparr>c_products = [demo_product capabilities],
      c_entitlements = [\<lparr>te_tenant_id = 9, te_product_model_id = 1, te_enabled = True, te_config = []\<rparr>],
      c_endpoints = [\<lparr>pe_id = 2, pe_endpoint_key = ''e'', pe_provider_name = ''dashscope'', pe_protocol = ''dashscope_http'',
        pe_base_url = ''u'', pe_secret_ref = ''s'', pe_status = ''active'', pe_config = []\<rparr>],
      c_deployments = [\<lparr>md_id = 3, md_product_model_id = 1, md_provider_endpoint_id = 2, md_provider_model_id = ''m'',
        md_status = ''active'', md_priority = 0, md_concurrency_limit = 4, md_routing_config = routing, md_created_at = 0\<rparr>],
      c_revisions = [], c_policies = [], c_prices = [], c_bindings = []\<rparr>"

lemma resolve_route_selected:
  assumes "resolve_route c t model_key modality = Some r"
  shows "\<exists>row. active_row c t model_key modality row \<and> usable_row row \<and> r = route_of row \<and>
    (\<forall>row'. active_row c t model_key modality row' \<and> usable_row row' \<longrightarrow> route_key row \<le> route_key row')"
  using first_usable_Some [OF assms [unfolded resolve_route_def] route_query_sorted] unfolding set_route_query by blast

text \<open>
  C26. The route of a request is an active deployment on an active endpoint of an active product the tenant is
  entitled to, executable and with a voice when it needs one, of minimal priority and then age among those;
  the request is refused exactly when there is none.
\<close>

theorem resolve_route_best:
  "case resolve_route c t model_key modality of
     Some r \<Rightarrow> \<exists>row. active_row c t model_key modality row \<and> usable_row row \<and> r = route_of row \<and>
       (\<forall>row'. active_row c t model_key modality row' \<and> usable_row row' \<longrightarrow> route_key row \<le> route_key row')
   | None \<Rightarrow> \<not> (\<exists>row. active_row c t model_key modality row \<and> usable_row row)"
proof (cases "resolve_route c t model_key modality")
  case None
  then show ?thesis using first_usable_None_iff [of "route_query c t model_key modality"]
    by (auto simp: resolve_route_def set_route_query simp del: usable_row.simps)
next
  case (Some r)
  then show ?thesis using resolve_route_selected [OF Some] by simp
qed

theorem resolve_route_best_witness:
  "resolve_route (demo_catalog [] [(''live_modality'', JStr ''audio'')]) 9 ''tts'' ''audio'' = None \<and>
   \<not> (\<exists>row. active_row (demo_catalog [] [(''live_modality'', JStr ''audio'')]) 9 ''tts'' ''audio'' row \<and> usable_row row)"
proof
  show "resolve_route (demo_catalog [] [(''live_modality'', JStr ''audio'')]) 9 ''tts'' ''audio'' = None" by code_simp
  then show "\<not> (\<exists>row. active_row (demo_catalog [] [(''live_modality'', JStr ''audio'')]) 9 ''tts'' ''audio'' row \<and> usable_row row)"
    using resolve_route_best [of "demo_catalog [] [(''live_modality'', JStr ''audio'')]" 9 "''tts''" "''audio''"] by simp
qed

subsection \<open>Entitlements\<close>

text \<open>
  Granting the default entitlements entitles the tenant to every selected active product it had no row
  for, and granting again changes nothing.
\<close>

theorem grant_idempotent:
  "\<exists>n c'. grant_default_entitlements c t keys = (n, c') \<and> grant_default_entitlements c' t keys = (0, c') \<and>
     (\<forall>p \<in> set (c_products c). pm_status p = ''active'' \<and> (keys = [] \<or> pm_model_key p \<in> set keys) \<longrightarrow>
        (\<exists>e \<in> set (c_entitlements c'). te_tenant_id e = t \<and> te_product_model_id e = pm_id p))"
proof -
  define ids where "ids = map pm_id (filter (\<lambda>p. pm_status p = ''active'' \<and> (keys = [] \<or> pm_model_key p \<in> set keys)) (c_products c))"
  define have_ids where "have_ids es = map te_product_model_id (filter (\<lambda>e. te_tenant_id e = t \<and> te_product_model_id e \<in> set ids) es)" for es :: "Entitlement list"
  define new where "new i = \<lparr>te_tenant_id = t, te_product_model_id = i, te_enabled = True, te_config = []\<rparr>" for i
  define c' where "c' = c\<lparr>c_entitlements := c_entitlements c @ map new (filter (\<lambda>i. i \<notin> set (have_ids (c_entitlements c))) ids)\<rparr>"
  have g: "grant_default_entitlements x t keys = (length (filter (\<lambda>i. i \<notin> set (have_ids (c_entitlements x))) ids),
      x\<lparr>c_entitlements := c_entitlements x @ map new (filter (\<lambda>i. i \<notin> set (have_ids (c_entitlements x))) ids)\<rparr>)"
    if "c_products x = c_products c" for x
    unfolding grant_default_entitlements_def Let_def that ids_def have_ids_def new_def by simp
  have all: "\<exists>e \<in> set (c_entitlements c'). te_tenant_id e = t \<and> te_product_model_id e = i" if i: "i \<in> set ids" for i
  proof (cases "i \<in> set (have_ids (c_entitlements c))")
    case True
    then show ?thesis by (auto simp: have_ids_def c'_def)
  next
    case False
    with i have "new i \<in> set (c_entitlements c')" by (simp add: c'_def)
    then show ?thesis by (rule rev_bexI) (simp add: new_def)
  qed
  then have none: "filter (\<lambda>i. i \<notin> set (have_ids (c_entitlements c'))) ids = []"
    unfolding filter_empty_conv have_ids_def by fastforce
  have p: "c_products c' = c_products c" by (simp add: c'_def)
  have "grant_default_entitlements c' t keys = (0, c')" unfolding g [OF p] none by simp
  moreover have "\<exists>n. grant_default_entitlements c t keys = (n, c')" using g [OF refl] by (simp add: c'_def)
  ultimately show ?thesis using all by (auto simp: ids_def)
qed

theorem grant_idempotent_witness:
  "fst (grant_default_entitlements (demo_catalog [] []) 8 []) = 1 \<and>
   fst (grant_default_entitlements (snd (grant_default_entitlements (demo_catalog [] []) 8 [])) 8 []) = 0"
proof
  show "fst (grant_default_entitlements (demo_catalog [] []) 8 []) = 1" by code_simp
  show "fst (grant_default_entitlements (snd (grant_default_entitlements (demo_catalog [] []) 8 [])) 8 []) = 0"
    using grant_idempotent [of "demo_catalog [] []" 8 "[]"] by auto
qed

subsection \<open>Grouping\<close>

type_synonym catalog_row = "ProductModel \<times> Entitlement \<times> ModelDeployment option \<times> ProviderEndpoint option"

text \<open>A record carries the columns of a row of its product, and the snapshot of every row of its product.\<close>

definition record_from :: "catalog_row \<Rightarrow> CatalogRecord \<Rightarrow> bool" where
  "record_from row r \<longleftrightarrow>
     (case row of (p, e, _) \<Rightarrow>
        cr_product_model_id r = pm_id p \<and> cr_model_key r = pm_model_key p \<and> cr_product_status r = pm_status p \<and>
        cr_capabilities r = pm_capabilities p \<and> cr_entitlement_config r = te_config e)"

definition grouped_ok :: "catalog_row list \<Rightarrow> CatalogRecord list \<Rightarrow> bool" where
  "grouped_ok rows g \<longleftrightarrow>
     (\<forall>r \<in> set g. \<exists>row \<in> set rows. record_from row r) \<and>
     (\<forall>row \<in> set rows. \<exists>r \<in> set g. cr_product_model_id r = pm_id (fst row) \<and> set (snapshot_of (snd (snd row))) \<subseteq> set (cr_deployments r))"

lemma grouped_ok_step:
  assumes "grouped_ok rows g"
  shows "grouped_ok (rows @ [row]) (group_row row g)"
proof -
  obtain p e d where row: "row = (p, e, d)" by (cases row) auto
  let ?P = "\<lambda>r. cr_product_model_id r = pm_id p"
  show ?thesis
  proof (cases "list_ex ?P g")
    case True
    let ?f = "\<lambda>r. r\<lparr>cr_deployments := cr_deployments r @ snapshot_of d\<rparr>"
    have g: "group_row row g = update_where ?P ?f g" using True row by simp
    have from_rows: "\<exists>x \<in> set (rows @ [row]). record_from x r" if "r \<in> set (update_where ?P ?f g)" for r
      using that assms by (fastforce simp: grouped_ok_def set_update_where record_from_def split: if_splits)
    have covers: "\<exists>r \<in> set (update_where ?P ?f g). cr_product_model_id r = pm_id (fst x) \<and> set (snapshot_of (snd (snd x))) \<subseteq> set (cr_deployments r)"
      if x: "x \<in> set (rows @ [row])" for x
    proof (cases "x = row")
      case True
      obtain r where "r \<in> set g" "?P r" using \<open>list_ex ?P g\<close> by (auto simp: list_ex_iff)
      then show ?thesis using True row by (auto simp: set_update_where intro!: bexI [of _ "?f r"])
    next
      case False
      then obtain r where r: "r \<in> set g" "cr_product_model_id r = pm_id (fst x)" "set (snapshot_of (snd (snd x))) \<subseteq> set (cr_deployments r)"
        using x assms unfolding grouped_ok_def by fastforce
      then have "(if ?P r then ?f r else r) \<in> set (update_where ?P ?f g)" by (simp add: set_update_where)
      then show ?thesis by (rule rev_bexI) (use r in auto)
    qed
    show ?thesis using from_rows covers by (simp add: grouped_ok_def g)
  next
    case False
    with assms row show ?thesis by (auto simp: grouped_ok_def record_from_def)
  qed
qed

lemma grouped_ok_fold: "grouped_ok rows (fold group_row rows [])"
proof (induction rows rule: rev_induct)
  case Nil
  then show ?case by (simp add: grouped_ok_def)
next
  case (snoc row rows)
  then show ?case using grouped_ok_step [OF snoc.IH] by simp
qed

lemma in_catalog_query:
  assumes "active_row c t k m (p, e, d, ep)"
  shows "(p, e, Some d, Some ep) \<in> set (catalog_query c t)"
proof -
  have "Some d \<in> set (outer (filter (\<lambda>d. md_product_model_id d = pm_id p) (c_deployments c)))"
    "Some ep \<in> set (outer (filter (\<lambda>x. pe_id x = md_provider_endpoint_id d) (c_endpoints c)))"
    using assms by (auto simp: outer_def active_row_def filter_empty_conv)
  then show ?thesis
    using assms unfolding catalog_query_def set_sort by (auto simp: active_row_def intro!: bexI [of _ p] bexI [of _ e] bexI [of _ "Some d"])
qed

lemma from_catalog_query:
  assumes "(p, e, d) \<in> set (catalog_query c t)"
  shows "p \<in> set (c_products c) \<and> e \<in> set (c_entitlements c) \<and> entitled t p e"
  using assms unfolding catalog_query_def set_sort by auto

text \<open>
  C30. Whatever a tenant can be admitted to it is shown as available: when a request for a model resolves to a
  route, the tenant's catalog lists that product with availability \<open>available\<close>, unless the product is
  flagged as needing a voice resource while the selected deployment is not an audio one.
\<close>

theorem admitted_is_available:
  assumes "resolve_route c t model_key modality = Some r"
    and "distinct (map pm_id (c_products c))"
    and "distinct (map (\<lambda>e. (te_tenant_id e, te_product_model_id e)) (c_entitlements c))"
    and "\<And>p. p \<in> set (c_products c) \<Longrightarrow> truthy (map_of (pm_capabilities p) ''voice_resource_required'') \<Longrightarrow>
           map_of (ro_deployment_config r) ''live_modality'' = Some (JStr ''audio'')"
  shows "\<exists>rec \<in> set (list_for_tenant c t). cr_model_key rec = model_key \<and>
    cr_product_model_id rec = ro_product_model_db_id r \<and> calculate_availability rec True = Available"
proof -
  obtain p e d ep where row: "active_row c t model_key modality (p, e, d, ep)" "usable_row (p, e, d, ep)" "r = route_of (p, e, d, ep)"
    using resolve_route_selected [OF assms(1)] by (metis prod_cases4)
  note g = grouped_ok_fold [of "catalog_query c t", folded list_for_tenant_def]
  obtain rec where rec: "rec \<in> set (list_for_tenant c t)" "cr_product_model_id rec = pm_id p"
      "set (snapshot_of (Some d, Some ep)) \<subseteq> set (cr_deployments rec)"
    using g in_catalog_query [OF row(1)] by (force simp: grouped_ok_def)
  obtain p' e' d' where from': "(p', e', d') \<in> set (catalog_query c t)" "record_from (p', e', d') rec"
    using g rec(1) by (force simp: grouped_ok_def)
  have "p' = p"
    using distinct_key_inj [OF assms(2)] from_catalog_query [OF from'(1)] row(1) from'(2) rec(2)
    by (auto simp: record_from_def active_row_def)
  moreover have "e' = e"
    using distinct_key_inj [OF assms(3), of e' e] from_catalog_query [OF from'(1)] row(1) \<open>p' = p\<close>
    by (auto simp: entitled_def active_row_def)
  ultimately have f: "record_from (p, e, d') rec" using from'(2) by simp
  define s where "s = hd (snapshot_of (Some d, Some ep))"
  have s: "s \<in> set (cr_deployments rec)" "live s" "ds_provider_model_id s = md_provider_model_id d" "ds_routing_config s = md_routing_config d"
    using rec(3) row(1) by (auto simp: s_def live_def active_row_def)
  have "has_voice_resource rec"
  proof (cases "truthy (map_of (pm_capabilities p) ''voice_resource_required'')")
    case True
    then have "map_of (md_routing_config d) ''live_modality'' = Some (JStr ''audio'')"
      using assms(4) [of p] row(1,3) by (auto simp: active_row_def)
    then obtain b where "resolve_audio_voice_binding (md_provider_model_id d) (md_routing_config d) (te_config e) = Inr (Some b)"
      using row(2) by (auto simp: resolve_audio_voice_binding_def split: if_splits option.splits json.splits)
    then show ?thesis
      using s f by (auto simp: has_voice_resource_def list_ex_iff record_from_def intro!: bexI [of _ s])
  qed (use f in \<open>simp add: has_voice_resource_def record_from_def\<close>)
  then have "calculate_availability rec True = Available"
    using f row(1,2) s by (auto simp: calculate_availability_def record_from_def active_row_def list_ex_iff)
  then show ?thesis using rec(1) f row(1,3) by (auto simp: record_from_def active_row_def)
qed

theorem admitted_is_available_witness:
  "list_ex (\<lambda>rec. calculate_availability rec True = Available)
     (list_for_tenant (demo_catalog [] [(''live_modality'', JStr ''audio''), (''default_voice'', JStr ''v'')]) 9)"
proof -
  let ?c = "demo_catalog [] [(''live_modality'', JStr ''audio''), (''default_voice'', JStr ''v'')]"
  have "resolve_route ?c 9 ''tts'' ''audio'' \<noteq> None" by code_simp
  then obtain r where r: "resolve_route ?c 9 ''tts'' ''audio'' = Some r" by blast
  have "\<exists>rec \<in> set (list_for_tenant ?c 9). cr_model_key rec = ''tts'' \<and>
      cr_product_model_id rec = ro_product_model_db_id r \<and> calculate_availability rec True = Available"
    by (rule admitted_is_available [OF r]) (simp_all add: demo_catalog_def demo_product_def)
  then show ?thesis by (auto simp: list_ex_iff)
qed

text \<open>
  The converse fails: an audio product whose only deployment has no default voice is listed as available,
  and every request for it is refused.
\<close>

theorem available_not_admitted:
  "list_ex (\<lambda>rec. cr_model_key rec = ''tts'' \<and> calculate_availability rec True = Available)
     (list_for_tenant (demo_catalog [] [(''live_modality'', JStr ''audio'')]) 9) \<and>
   resolve_route (demo_catalog [] [(''live_modality'', JStr ''audio'')]) 9 ''tts'' ''audio'' = None"
  by code_simp

end
