(* ===== verification/Billing_Settlement.thy ===== *)
theory Billing_Settlement
  imports Billing_Properties
begin

text \<open>
  The wallet service as its clients see it: the contract of a settlement port, proved once for every client
  that captures and releases holds, and that each operation of the service keeps the books.
\<close>

subsection \<open>The settlement contract\<close>

text \<open>
  What \<open>BillingSettlementPort\<close> promises its clients: a capture or release that raises changes nothing, and
  either keeps the provider's own invariant and the client's frame.
\<close>

locale settlement_port =
  fixes cap :: "'db \<Rightarrow> uuid \<Rightarrow> uuid \<Rightarrow> instant \<Rightarrow> uuid \<Rightarrow> uuid \<Rightarrow> BillingUsage option \<Rightarrow> (billing_error + CaptureResult) \<times> 'db"
    and rel :: "'db \<Rightarrow> uuid \<Rightarrow> instant \<Rightarrow> uuid \<Rightarrow> uuid \<Rightarrow> (billing_error + ReleaseResult) \<times> 'db"
    and inv :: "'db \<Rightarrow> bool" and frame :: "'db \<Rightarrow> 'f"
  assumes cap_inv: "inv db \<Longrightarrow> inv (snd (cap db lid1 lid2 now t rid usage))"
    and rel_inv: "inv db \<Longrightarrow> inv (snd (rel db lid now t rid))"
    and cap_frame: "frame (snd (cap db lid1 lid2 now t rid usage)) = frame db"
    and rel_frame: "frame (snd (rel db lid now t rid)) = frame db"
begin

text \<open>Capturing, and releasing instead when the hold has expired.\<close>

definition settle :: "'db \<Rightarrow> uuid \<Rightarrow> uuid \<Rightarrow> uuid \<Rightarrow> instant \<Rightarrow> uuid \<Rightarrow> uuid \<Rightarrow> (billing_error + unit) \<times> 'db" where
  "settle db lid1 lid2 lid3 now t rid =
     (case cap db lid1 lid2 now t rid None of
        (Inr _, db') \<Rightarrow> (Inr (), db')
      | (Inl e, db') \<Rightarrow>
          if e = BillingConflict RESERVATION_EXPIRED
          then (case rel db' lid3 now t rid of (Inl e', db'') \<Rightarrow> (Inl e', db'') | (Inr _, db'') \<Rightarrow> (Inr (), db''))
          else (Inl e, db'))"

lemma settle_inv: "inv db \<Longrightarrow> inv (snd (settle db lid1 lid2 lid3 now t rid))"
  using cap_inv [of db lid1 lid2 now t rid None] rel_inv [of "snd (cap db lid1 lid2 now t rid None)" lid3 now t rid]
  by (auto simp: settle_def split: prod.splits sum.splits)

lemma settle_frame: "frame (snd (settle db lid1 lid2 lid3 now t rid)) = frame db"
  using cap_frame [of db lid1 lid2 now t rid None] rel_frame [of "snd (cap db lid1 lid2 now t rid None)" lid3 now t rid]
  by (auto simp: settle_def split: prod.splits sum.splits)

end

subsection \<open>The operations keep the books\<close>

lemma capture_inv:
  assumes "billing_inv b"
  shows "billing_inv (snd (capture b lid1 lid2 now t rid actual usage))"
proof (cases "capture b lid1 lid2 now t rid actual usage")
  case (Pair res b')
  show ?thesis
  proof (cases res)
    case (Inl e)
    then show ?thesis using Pair assms capture_Inl by fastforce
  next
    case (Inr r)
    then have "capture_body b lid1 lid2 now t rid actual usage = Inr (r, b')" using Pair capture_Inr_iff by simp
    from capture_body_inv [OF this assms] show ?thesis using Pair by simp
  qed
qed

lemma release_inv:
  assumes "billing_inv b"
  shows "billing_inv (snd (release b lid now t rid))"
proof (cases "release b lid now t rid")
  case (Pair res b')
  show ?thesis
  proof (cases res)
    case (Inl e)
    then show ?thesis using Pair assms release_Inl by fastforce
  next
    case (Inr r)
    then have "release_body b lid now t rid = Inr (r, b')" using Pair release_Inr_iff by simp
    from release_body_inv [OF this assms] show ?thesis using Pair by simp
  qed
qed

lemma reserve_in_transaction_inv:
  assumes "reserve_in_transaction b b b rid lid now t st sid price expiry = Inr (res, b')" and "billing_inv b"
  shows "billing_inv b'"
  using assms(1) by (auto simp: reserve_in_transaction_def intro: reserve_in_txn_inv [OF _ assms(2)])

text \<open>The books do not read the priced sources, which each client computes from its own table.\<close>

lemma billing_inv_view:
  assumes "wallets b' = wallets b" "reservations b' = reservations b" "ledger b' = ledger b" "usage_records b' = usage_records b"
  shows "billing_inv b' = billing_inv b"
proof -
  have "constraints_ok b' = constraints_ok b"
    by (simp only: constraints_ok_def numeric_ok_def checks_ok_def unique_ok_def fk_ok_def assms)
  then show ?thesis
    using billing_inv_usage [of b' b] billing_inv_usage [of b b'] billing_invD(1) assms by auto
qed

text \<open>A reserve for a source that has no hold yet places one of exactly the price's reservation amount.\<close>

lemma reserve_hold_row:
  assumes st: "normalize_source_type st = Inr st"
    and "reserve_in_transaction b b b rid lid now t st sid price expiry = Inr (res, b')"
    and "reservation_by_source t st sid b = []"
  shows "\<exists>amount r. reservation_amount price = Inr amount \<and> reservations b' = reservations b @ [r] \<and> r_id r = rid \<and> rr_reservation_id res = rid \<and>
    r_tenant_id r = t \<and> r_source_type r = st \<and> r_source_id r = sid \<and> r_status r = ''pending'' \<and>
    r_amount_minor r = amount_minor amount"
proof -
  obtain amount e where a: "reservation_amount price = Inr amount"
      "reserve_in_txn b b b rid lid t st sid amount e = Inr (res, b')"
    using assms(2) by (auto simp: reserve_in_transaction_def st)
  from a(2) show ?thesis
  proof (cases rule: reserve_in_txn_cases)
    case (replay r)
    then show ?thesis using assms(3) by simp
  next
    case (hold w)
    let ?r = "new_reservation rid t (w_id w) amount st sid e"
    have "reservations b' = reservations b @ [?r]" by (simp add: hold(6) place_hold_def)
    moreover have "rr_reservation_id res = rid"
      using hold(8) by (auto simp: reservation_result_def new_reservation_def)
    ultimately show ?thesis using a(1) by (auto simp: new_reservation_def intro!: exI [of _ ?r])
  qed
qed

lemma reserve_new_hold:
  assumes "normalize_source_type st = Inr st"
    and "reserve_in_transaction b b b rid lid now t st sid price expiry = Inr (res, b')"
    and "reservation_by_source t st sid b = []"
  shows "\<exists>amount r. reservation_amount price = Inr amount \<and> r \<in> set (reservations b') \<and> r_id r = rid \<and> rr_reservation_id res = rid \<and>
    r_tenant_id r = t \<and> r_source_type r = st \<and> r_source_id r = sid \<and> r_status r = ''pending'' \<and>
    r_amount_minor r = amount_minor amount"
  using reserve_hold_row [OF assms] by fastforce

end
