(* ===== verification/Generation_Books.thy ===== *)
theory Generation_Books
  imports Generation_Properties Catalog_Properties Billing_Settlement
begin

text \<open>
  Generation and billing together: the wallet books stay balanced over every interleaving of generation
  steps, completion and acceptance do exactly what they report, and the settlement reconciler, written once
  against the contract of a settlement port, keeps that contract on the wallet service.
\<close>

subsection \<open>The wallet service as a settlement port\<close>

lemma billing_of_fields [simp]:
  "wallets (billing_of db) = wallets (g_billing db)" "reservations (billing_of db) = reservations (g_billing db)"
  "ledger (billing_of db) = ledger (g_billing db)" "usage_records (billing_of db) = usage_records (g_billing db)"
  "price_versions (billing_of db) = price_versions (g_billing db)"
  by (simp_all add: billing_of_def)

lemma billing_of_inv [simp]: "billing_inv (billing_of db) = billing_inv (g_billing db)"
  by (rule billing_inv_view) simp_all

lemma gen_capture_inv: "billing_inv (g_billing db) \<Longrightarrow> billing_inv (g_billing (snd (gen_capture db lid1 lid2 now t rid usage)))"
  using capture_inv [of "billing_of db" lid1 lid2 now t rid None usage] by (simp add: gen_capture_def case_prod_unfold)

lemma gen_release_inv: "billing_inv (g_billing db) \<Longrightarrow> billing_inv (g_billing (snd (gen_release db lid now t rid)))"
  using release_inv [of "billing_of db" lid now t rid] by (simp add: gen_release_def case_prod_unfold)

interpretation generation_billing: settlement_port gen_capture gen_release "\<lambda>db. billing_inv (g_billing db)"
  "\<lambda>db. (g_jobs db, g_artifacts db, g_inbox db, g_deployments db, g_audit db)"
  by unfold_locales
    (simp_all add: gen_capture_inv gen_release_inv, simp_all add: gen_capture_def gen_release_def split: prod.splits)

lemma capture_or_release_settles:
  "capture_or_release_expired (gen_capture db lid1 lid2 now t rid None) (\<lambda>d. gen_release d lid3 now t rid) =
     generation_billing.settle db lid1 lid2 lid3 now t rid"
  by (cases "gen_capture db lid1 lid2 now t rid None"; cases "fst (gen_capture db lid1 lid2 now t rid None)")
    (auto simp: generation_billing.settle_def split: prod.splits sum.splits)

subsection \<open>The books over generation steps\<close>

lemma update_one_billing: "update_one P f db = Inr db' \<Longrightarrow> g_billing db' = g_billing db"
  by (auto simp: update_one_Inr update_jobs_def)

lemma claim_row_billing: "claim_row db job w tok n now = Inr (r, db') \<Longrightarrow> g_billing db' = g_billing db"
  by (auto simp: claim_row_def Let_def update_jobs_def split: if_splits)

lemma claim_recovery_row_billing: "claim_recovery_row db job w tok n now = Inr (r, db') \<Longrightarrow> g_billing db' = g_billing db"
  by (auto simp: claim_recovery_row_def Let_def update_jobs_def split: if_splits)

lemma put_job_billing [simp]: "g_billing (put_job j db) = g_billing db"
  by (simp add: put_job_def)

lemma reconcile_stalled_jobs_billing [simp]: "g_billing (reconcile_stalled_jobs now js db) = g_billing db"
  by (induction js arbitrary: db) auto

lemmas billing_frames =
  claim_row_billing claim_recovery_row_billing update_one_billing reload_db audited_jobs

lemma claims_billing:
  "g_billing (snd (claim_accepted db now locked tok t jid w n)) = g_billing db"
  "g_billing (snd (claim_next_accepted db now locked tok tn ms w n)) = g_billing db"
  "g_billing (snd (claim_pending_reconciliation db now locked tok w n)) = g_billing db"
  unfolding claim_accepted_def claim_next_accepted_def claim_pending_reconciliation_def
  by (rule transaction_frame; auto split: option.splits prod.splits if_splits dest: billing_frames)+

lemma fenced_billing:
  "g_billing (snd (release_reconciliation_claim db now t jid lt f)) = g_billing db"
  "g_billing (snd (renew_lease db now t jid w lt f n)) = g_billing db"
  "g_billing (snd (transition db now t jid ex tg ec rq tk ob lt f)) = g_billing db"
  "g_billing (snd (record_provider_task db now t jid task lt f)) = g_billing db"
  "g_billing (snd (record_provider_request db now t jid req lt f)) = g_billing db"
  unfolding release_reconciliation_claim_def renew_lease_def transition_def record_provider_task_def record_provider_request_def
  by (rule transaction_frame; auto dest: update_one_billing dest!: reload_db)+

lemma lifecycle_billing:
  "g_billing (snd (ensure_live db now n t jid w lt f phase)) = g_billing db"
  "g_billing (snd (reconcile_stalled_once db now locked stale limit)) = g_billing db"
  "g_billing (snd (cancel_accepted db now aid t actor jid ctx)) = g_billing db"
  "g_billing (snd (soft_delete db now aid t actor jid ctx)) = g_billing db"
  "g_billing (snd (mark_reconciliation_resolved db now aid t i)) = g_billing db"
  "g_billing (snd (request_resolution db now aid t jid subject reason)) = g_billing db"
  "g_billing (snd (finish_resolution db now aid t jid subject)) = g_billing db"
  unfolding ensure_live_def reconcile_stalled_once_def cancel_accepted_def soft_delete_def
    mark_reconciliation_resolved_def request_resolution_def finish_resolution_def
  by (rule transaction_frame; auto simp: Let_def update_jobs_def split: option.splits if_splits dest!: audited_jobs)+

lemma cleanup_billing:
  "g_billing (snd (cleanup_claim db now locked)) = g_billing db"
  "g_billing (snd (cleanup_complete db now cl)) = g_billing db"
  "g_billing (snd (cleanup_retry db now cl)) = g_billing db"
  "g_billing (snd (record_inbox_event digest db i t pn ek et payload)) = g_billing db"
  unfolding cleanup_claim_def cleanup_complete_def cleanup_retry_def record_inbox_event_def
  by (rule transaction_frame; auto simp: put_artifact_def split: option.splits list.splits)+

lemma complete_inv:
  assumes "billing_inv (g_billing db)"
  shows "billing_inv (g_billing (snd (complete db now ids uid t jid ex arts usage rq tk lt f)))"
proof (cases "complete db now ids uid t jid ex arts usage rq tk lt f")
  case (Pair res db')
  show ?thesis
  proof (cases res)
    case (Inl e)
    then show ?thesis using Pair assms complete_Inl by fastforce
  next
    case (Inr r)
    from Pair [unfolded Inr] have "billing_inv (g_billing db')"
      by (rule complete_Inr) (auto simp: update_jobs_def intro: billing_inv_usage [OF assms])
    then show ?thesis using Pair by simp
  qed
qed

lemma accept_inv:
  assumes "billing_inv (g_billing (ac_gen s))"
  shows "billing_inv (g_billing (ac_gen (snd (accept s fr t actor request rh))))"
proof -
  have "billing_inv (g_billing (ac_gen s'))" if "accept_new s fr t actor request rh = Inr (r, s')" for r s'
    using that
  proof (rule accept_new_Inr)
    fix route decision reservation billing
    let ?db = "(ac_gen s)\<lparr>g_jobs := g_jobs (ac_gen s) @ [accepted_job fr t actor request rh route decision]\<rparr>"
    assume r: "reserve_in_transaction (billing_of ?db) (billing_of ?db) (billing_of ?db) (fr_reservation_id fr) (fr_ledger_id fr)
        (fr_now fr) t ''generation'' (fr_db_id fr) (ad_price decision) (Aware (fr_now fr + seconds (15 * 60))) = Inr (reservation, billing)"
      and g: "ac_gen s' = put_job (held_job fr (rr_reservation_id reservation) (accepted_job fr t actor request rh route decision))
        ((ac_gen s)\<lparr>g_jobs := g_jobs (ac_gen s) @ [accepted_job fr t actor request rh route decision], g_billing := billing\<rparr>)"
    have "billing_inv (billing_of ?db)" using assms by simp
    from reserve_in_transaction_inv [OF r this] g show "billing_inv (g_billing (ac_gen s'))" by simp
  qed
  then show ?thesis using accept_state [of s fr t actor request rh] assms by auto
qed

lemma gen_step_inv: "gen_step db db' \<Longrightarrow> billing_inv (g_billing db) \<Longrightarrow> billing_inv (g_billing db')"
  by (induction rule: gen_step.induct)
    (simp_all add: accept_inv complete_inv gen_capture_inv gen_release_inv claims_billing fenced_billing lifecycle_billing cleanup_billing)

lemma gen_run_inv: "gen_run db db' \<Longrightarrow> billing_inv (g_billing db) \<Longrightarrow> billing_inv (g_billing db')"
  by (induction rule: gen_run.induct) (auto intro: gen_step_inv)

text \<open>
  C16. The wallet books stay balanced under the whole generation subsystem: over every interleaving of
  acceptances, worker steps, completions, settlements, reconciliations, cancellations, deletions and
  operator resolutions, each wallet's reserved amount is the sum of its pending holds, its balance is what
  the journal says, and every reservation has exactly the journal rows of its status.
\<close>

theorem generation_books_balance:
  assumes "gen_run db db'" and "billing_inv (g_billing db)"
  shows "billing_inv (g_billing db')"
  using assms by (rule gen_run_inv)

theorem generation_books_balance_witness:
  "billing_inv (g_billing (snd (claim_accepted (demo_gen [demo_job 1 Accepted None 0]) 10 (\<lambda>_. False) 77 1 101 ''w'' 60)))"
proof -
  have "gen_run (demo_gen [demo_job 1 Accepted None 0]) (snd (claim_accepted (demo_gen [demo_job 1 Accepted None 0]) 10 (\<lambda>_. False) 77 1 101 ''w'' 60))"
    by (rule run_step [OF run_here step_claim])
  moreover have "billing_inv (g_billing (demo_gen [demo_job 1 Accepted None 0]))"
    using empty_db_inv by (simp add: demo_gen_def empty_db_def)
  ultimately show ?thesis by (rule generation_books_balance)
qed

subsection \<open>Completion\<close>

lemma add_artifacts_rows:
  "add_artifacts now t i ids n items = Inr new \<Longrightarrow>
     length new = length items \<and> list_all (\<lambda>a. a_generation_job_id a = i \<and> a_tenant_id a = t \<and> a_status a = ''ready'') new"
  by (induction items arbitrary: n new) (auto simp: new_artifact_def Let_def)

lemma update_single_row:
  assumes "distinct (map key rs)" and "filter P rs = [r]"
  shows "update_where P f rs = update_where (\<lambda>x. key x = key r) (\<lambda>_. f r) rs"
proof -
  have r: "r \<in> set rs" "P r" using filter_singletonD [OF assms(2)] by auto
  have "P x \<longleftrightarrow> x = r" if "x \<in> set rs" for x
  proof -
    have "set (filter P rs) = {r}" using assms(2) by simp
    then show ?thesis using that r(2) by auto
  qed
  moreover have "key x = key r \<longleftrightarrow> x = r" if "x \<in> set rs" for x
    using distinct_key_inj [OF assms(1) that r(1)] by auto
  ultimately show ?thesis unfolding update_where_def by (intro map_cong [OF refl]) auto
qed

text \<open>
  C17. Completion is atomic and happens once: it turns exactly the fenced storing job into succeeded, adds
  one ready artifact per result and one usage row whose charge is the accepted price applied to the reported
  usage, touches no wallet, hold or journal row, and cannot be repeated under the same fence.
\<close>

theorem complete_exact:
  assumes "jobs_ok db" and "complete db now ids uid t jid ex arts usage rq tk lt f = (Inr r, db')"
  shows "\<exists>job price meters charge new row. job \<in> set (g_jobs db) \<and> j_job_id job = jid \<and> j_status job = Storing \<and>
    price_for_job (g_billing db) job = Inr price \<and> billing_usage usage = Inr meters \<and> charge_for_usage price meters = Inr charge \<and>
    g_jobs db' = update_where (\<lambda>x. j_id x = j_id job) (\<lambda>_. set_succeeded now rq tk job) (g_jobs db) \<and>
    g_artifacts db' = g_artifacts db @ new \<and> length new = length arts \<and>
    list_all (\<lambda>a. a_generation_job_id a = j_id job \<and> a_tenant_id a = t \<and> a_status a = ''ready'') new \<and>
    usage_records (g_billing db') = usage_records (g_billing db) @ [row] \<and> u_generation_job_id row = Some (j_id job) \<and>
    u_measures row = meters \<and> u_charge_amount_minor row = amount_minor charge \<and>
    wallets (g_billing db') = wallets (g_billing db) \<and> reservations (g_billing db') = reservations (g_billing db) \<and>
    ledger (g_billing db') = ledger (g_billing db) \<and> gr_status r = Succeeded \<and>
    (\<exists>e. complete db' now2 ids2 uid2 t jid ex2 arts2 usage2 rq2 tk2 lt f = (Inl e, db'))"
  using assms(2)
proof (rule complete_Inr)
  fix job price meters charge new label billing rcd
  let ?P = "\<lambda>j. complete_fenced now t jid lt f j \<and> j_status j = Storing"
  assume job: "filter (complete_fenced now t jid lt f) (g_jobs db) = [job]" "j_status job = Storing"
    and pr: "price_for_job (g_billing db) job = Inr price" "billing_usage usage = Inr meters" "charge_for_usage price meters = Inr charge"
    and new: "add_artifacts now t (j_id job) ids 0 arts = Inr new"
    and b: "billing = (g_billing db)\<lparr>usage_records := usage_records (g_billing db) @
       [generation_usage_row uid t job (gr_product_model_id rcd) rq tk label (ps_currency price) meters (amount_minor charge)]\<rparr>"
    and db': "db' = update_jobs ?P (set_succeeded now rq tk) (db\<lparr>g_artifacts := g_artifacts db @ new, g_billing := billing\<rparr>)"
    and ok: "jobs_ok db'" and re: "reload db' t jid = Inr (r, db')"
  note jin = filter_singletonD [OF job(1)]
  have "filter ?P (g_jobs db) = filter (\<lambda>j. j_status j = Storing) (filter (complete_fenced now t jid lt f) (g_jobs db))"
    by (simp add: filter_filter conj_commute)
  then have "filter ?P (g_jobs db) = [job]" using job by simp
  from update_single_row [OF jobs_ok_keys(1) [OF assms(1)] this, of "set_succeeded now rq tk"]
  have jobs: "g_jobs db' = update_where (\<lambda>x. j_id x = j_id job) (\<lambda>_. set_succeeded now rq tk job) (g_jobs db)"
    by (simp add: db' update_jobs_def)
  then have sin: "set_succeeded now rq tk job \<in> set (g_jobs db')" using jin by (auto simp: set_update_where)
  have jid: "j_job_id (set_succeeded now rq tk job) = jid"
    using jin set_succeeded_fields(4) [of job now rq tk] by (simp add: same_identity_def complete_fenced_def)
  have "gr_status r = Succeeded"
    using record_of_materialized [of db' t jid r, OF _ ok sin jid] re by (simp add: reload_def split: option.splits)
  moreover have "\<exists>e. complete db' now2 ids2 uid2 t jid ex2 arts2 usage2 rq2 tk2 lt f = (Inl e, db')"
  proof (cases "complete db' now2 ids2 uid2 t jid ex2 arts2 usage2 rq2 tk2 lt f")
    case (Pair res db2)
    show ?thesis
    proof (cases res)
      case (Inl e)
      then show ?thesis using Pair complete_Inl by blast
    next
      case (Inr r2)
      from Pair [unfolded Inr] obtain job2 where "filter (complete_fenced now2 t jid lt f) (g_jobs db') = [job2]"
        by (rule complete_Inr)
      then have "job2 \<in> set (g_jobs db')" "j_job_id job2 = jid" "j_lease_token job2 \<noteq> None"
        by (auto dest!: filter_singletonD simp: complete_fenced_def fenced_def)
      with distinct_key_inj [OF jobs_ok_keys(2) [OF ok] _ sin] jid show ?thesis by fastforce
    qed
  qed
  ultimately show ?thesis
    using jin job(2) pr jobs add_artifacts_rows [OF new]
    by (intro exI [of _ job] exI [of _ price] exI [of _ meters] exI [of _ charge] exI [of _ new]
        exI [of _ "generation_usage_row uid t job (gr_product_model_id rcd) rq tk label (ps_currency price) meters (amount_minor charge)"])
      (simp add: db' b update_jobs_def generation_usage_row_def complete_fenced_def)
qed

definition demo_tariff :: PriceVersion where
  "demo_tariff = \<lparr>pv_id = 1, pv_price_key = ''image'', pv_version = 1, pv_currency = ''PTS'', pv_unit = ''local_metered_usage'',
     pv_pricing = [(''schema'', JStr ''local_tariff_v1''), (''currency'', JStr ''PTS''), (''rounding'', JStr ''integer_sum''),
       (''reservation_minor'', JInt 300), (''minimum_charge_minor'', JInt 2), (''components'', JObj [(''image_count'', JInt 40)])]\<rparr>"

definition storing_db :: gen_db where
  "storing_db = (demo_gen [(demo_job 1 Storing (Some 9) 1)
     \<lparr>j_accepted_model_revision_id := Some 4, j_accepted_model_deployment_id := Some 3, j_accepted_routing_policy_id := Some 5,
       j_accepted_price_version_id := Some 1, j_accepted_capability_schema_version := Some 1,
       j_accepted_capability_schema_hash := Some (replicate 64 CHR ''0''), j_accepted_capability_schema := Some (JObj []),
       j_accepted_input_snapshot := Some (JObj [])\<rparr>])
     \<lparr>g_billing := granted_db\<lparr>price_versions := [demo_tariff]\<rparr>\<rparr>"

definition demo_usage :: GenerationUsage where
  "demo_usage = \<lparr>gu_input_tokens = 0, gu_output_tokens = 0, gu_image_count = 2, gu_video_seconds = 0, gu_audio_seconds = 0,
     gu_character_count = 0, gu_audio_duration_ms = 0, gu_video_duration_ms = 0, gu_storage_bytes = 0, gu_billable_units = 0\<rparr>"

definition demo_artifact :: GenerationArtifactInput where
  "demo_artifact = \<lparr>ai_kind = ''output'', ai_stored = \<lparr>st_storage_provider = ''local'', st_object_key = ''a/b.png'',
     st_mime_type = ''image/png'', st_size_bytes = 10, st_sha256 = None, st_expires_at = None\<rparr>\<rparr>"

theorem complete_exact_witness:
  "\<exists>db'. snd (complete storing_db 500 (\<lambda>i. 50 + i) 60 1 101 Storing [demo_artifact] demo_usage None None 9 1) = db' \<and>
     (\<exists>e. complete db' 501 (\<lambda>i. 70 + i) 61 1 101 Storing [demo_artifact] demo_usage None None 9 1 = (Inl e, db')) \<and>
     length (g_artifacts db') = 1"
proof -
  let ?c = "complete storing_db 500 (\<lambda>i. 50 + i) 60 1 101 Storing [demo_artifact] demo_usage None None 9 1"
  have ok: "jobs_ok storing_db" by code_simp
  have "(case fst ?c of Inr r \<Rightarrow> True | Inl _ \<Rightarrow> False)" by code_simp
  then obtain r where "fst ?c = Inr r" by (auto split: sum.splits)
  then have c: "?c = (Inr r, snd ?c)" by (metis prod.collapse)
  have "g_artifacts storing_db = []" by code_simp
  then show ?thesis using complete_exact [OF ok c] by fastforce
qed

end
