(* ===== verification/Acceptance_Properties.thy ===== *)
theory Acceptance_Properties
  imports Generation_Books Catalog_Properties Messaging
begin

text \<open>
  What an accepted generation request leaves behind, across the catalog, the jobs, the wallet and the outbox,
  and how a repeated request is answered.
\<close>

subsection \<open>The hold of an acceptance\<close>

lemma normalize_generation: "normalize_source_type ''generation'' = Inr ''generation''"
  by code_simp

lemma accept_Inr_new:
  assumes "accept s fr t actor request rh = (Inr r, s')" and "\<not> ag_replayed r"
  shows "accept_new s fr t actor request rh = Inr (r, s') \<and> length (cg_client_request_id request) \<le> 255 \<and> length rh \<le> 128 \<and>
    filter (\<lambda>x. idempotency_scope x = (t, actor, GENERATION_CREATE, cg_client_request_id request)) (ac_idempotency s) = []"
  using assms unfolding accept_def transaction_Inr_iff
  by (auto simp: replay_accepted_def split: list.splits if_splits option.splits)

lemma modality_routable:
  assumes "m \<in> set [''text'', ''image'', ''video'', ''audio'']"
  shows "\<exists>k. map_of GENERATION_ROUTING_BY_MODALITY m = Some k"
  using assms by (auto simp: routing_keys)

text \<open>
  C18. An acceptance is atomic and complete: it appends one accepted, unleased job bound to the best route and
  the effective price, one pending hold of exactly the tariff's reservation amount with the job as its source,
  and one pending event that names the job, can be routed, and whose job identifier reads back as the job's.
\<close>

theorem accept_exact:
  assumes "accept s fr t actor request rh = (Inr r, s')" and "\<not> ag_replayed r" and "fr_job_id fr < 2 ^ 128"
    and "reservation_by_source t ''generation'' (fr_db_id fr) (g_billing (ac_gen s)) = []"
  shows "\<exists>route decision amount j hold ev text k.
    resolve_route (ac_catalog s) t (cg_product_model_id request) (cg_modality request) = Some route \<and>
    resolve_accepted_decision (ac_catalog s) (ro_product_model_db_id route) (ro_deployment_id route) (fr_now fr) = Inr (Some decision) \<and>
    reservation_amount (ad_price decision) = Inr amount \<and>
    g_jobs (ac_gen s') = g_jobs (ac_gen s) @ [j] \<and> j_status j = Accepted \<and> j_lease_token j = None \<and> j_id j = fr_db_id fr \<and>
    j_job_id j = fr_job_id fr \<and> j_tenant_id j = t \<and> j_model_deployment_id j = ro_deployment_id route \<and>
    j_accepted_price_version_id j = Some (ad_price_version_id decision) \<and>
    hold \<in> set (reservations (g_billing (ac_gen s'))) \<and> j_billing_reservation_id j = Some (r_id hold) \<and> r_status hold = ''pending'' \<and>
    r_tenant_id hold = t \<and> r_source_type hold = ''generation'' \<and> r_source_id hold = j_id j \<and> r_amount_minor hold = amount_minor amount \<and>
    ac_outbox s' = ac_outbox s @ [ev] \<and> o_status ev = ''pending'' \<and> o_tenant_id ev = t \<and> o_aggregate_id ev = j_id j \<and>
    map_of (o_payload ev) ''job_id'' = Some (JStr text) \<and> parse_uuid text = Some (j_job_id j) \<and>
    routing_key_for_outbox_event (o_event_type ev) (o_payload ev) = Inr k"
proof -
  note n = accept_Inr_new [OF assms(1,2)]
  from conjunct1 [OF n] show ?thesis
  proof (rule accept_new_Inr)
    fix route :: DeploymentRoute and decision :: AcceptedDecisionSnapshot and reservation :: ReservationResult and billing :: billing_db
    let ?job = "accepted_job fr t actor request rh route decision"
    let ?db = "(ac_gen s)\<lparr>g_jobs := g_jobs (ac_gen s) @ [?job]\<rparr>"
    let ?j = "held_job fr (rr_reservation_id reservation) ?job"
    assume route: "resolve_route (ac_catalog s) t (cg_product_model_id request) (cg_modality request) = Some route"
      and dec: "resolve_accepted_decision (ac_catalog s) (ro_product_model_db_id route) (ro_deployment_id route) (fr_now fr) = Inr (Some decision)"
      and ok: "jobs_ok ?db"
      and res: "reserve_in_transaction (billing_of ?db) (billing_of ?db) (billing_of ?db) (fr_reservation_id fr) (fr_ledger_id fr)
        (fr_now fr) t ''generation'' (fr_db_id fr) (ad_price decision) (Aware (fr_now fr + seconds (15 * 60))) = Inr (reservation, billing)"
      and gen: "ac_gen s' = put_job ?j ((ac_gen s)\<lparr>g_jobs := g_jobs (ac_gen s) @ [?job], g_billing := billing\<rparr>)"
      and out: "ac_outbox s' = ac_outbox s @ [accepted_event fr t request (rr_reservation_id reservation)]"
    have src: "reservation_by_source t ''generation'' (fr_db_id fr) (billing_of ?db) = []"
      using assms(4) by (simp add: reservation_by_source_def)
    obtain amount hold where h: "reservation_amount (ad_price decision) = Inr amount" "hold \<in> set (reservations billing)"
        "r_id hold = rr_reservation_id reservation" "r_tenant_id hold = t" "r_source_type hold = ''generation''"
        "r_source_id hold = fr_db_id fr" "r_status hold = ''pending''" "r_amount_minor hold = amount_minor amount"
      using reserve_new_hold [OF normalize_generation res src] by auto
    have "cg_modality request \<in> set [''text'', ''image'', ''video'', ''audio'']"
      using ok by (simp add: jobs_ok_def job_check_def accepted_job_def)
    then obtain k where "map_of GENERATION_ROUTING_BY_MODALITY (cg_modality request) = Some k"
      using modality_routable by blast
    then have k: "routing_key_for_outbox_event ''generation.accepted'' (o_payload (accepted_event fr t request rid)) = Inr k" for rid
      by (simp add: routing_key_for_outbox_event_def accepted_event_def CHAT_ROUTING_KEY_def GENERATION_ROUTING_KEY_def)
    have jobs: "g_jobs (ac_gen s') = g_jobs (ac_gen s) @ [?j]" using accept_new_jobs [OF ok] gen by simp
    show ?thesis
      by (intro exI [of _ route] exI [of _ decision] exI [of _ amount] exI [of _ ?j] exI [of _ hold]
          exI [of _ "accepted_event fr t request (rr_reservation_id reservation)"] exI [of _ "str_uuid (fr_job_id fr)"] exI [of _ k])
        (use route dec h jobs gen out k parse_str_uuid [OF assms(3)] in
          \<open>simp add: held_job_def accepted_job_def, simp add: accepted_event_def\<close>)
  qed
qed

subsection \<open>A concrete acceptance\<close>

definition image_catalog :: catalog_db where
  "image_catalog =
     \<lparr>c_products = [\<lparr>pm_id = 1, pm_model_key = ''img'', pm_display_name = ''I'', pm_modality = ''image'', pm_task_type = ''text_to_image'',
        pm_status = ''active'', pm_capabilities = [], pm_pricing_summary = [], pm_description = None\<rparr>],
      c_entitlements = [\<lparr>te_tenant_id = 1, te_product_model_id = 1, te_enabled = True, te_config = []\<rparr>],
      c_endpoints = [\<lparr>pe_id = 2, pe_endpoint_key = ''e'', pe_provider_name = ''dashscope'', pe_protocol = ''dashscope_http'',
        pe_base_url = ''u'', pe_secret_ref = ''s'', pe_status = ''active'', pe_config = []\<rparr>],
      c_deployments = [\<lparr>md_id = 3, md_product_model_id = 1, md_provider_endpoint_id = 2, md_provider_model_id = ''m'',
        md_status = ''active'', md_priority = 0, md_concurrency_limit = 4, md_routing_config = [], md_created_at = 0\<rparr>],
      c_revisions = [\<lparr>mr_id = 4, mr_product_model_id = 1, mr_version = 1, mr_capability_schema_version = 1,
        mr_capability_schema = JObj [], mr_capability_schema_hash = replicate 64 CHR ''0''\<rparr>],
      c_policies = [\<lparr>po_id = 5, po_model_revision_id = 4, po_version = 1, po_strategy = ''priority''\<rparr>],
      c_prices = [\<lparr>cp_row = demo_tariff, cp_model_revision_id = 4, cp_effective_from = 0, cp_effective_to = None\<rparr>],
      c_bindings = [\<lparr>pb_model_revision_id = 4, pb_model_deployment_id = 3, pb_price_version_id = 1, pb_effective_from = 0,
        pb_effective_to = None\<rparr>]\<rparr>"

definition image_db :: accept_db where
  "image_db = \<lparr>ac_gen = (demo_gen [])\<lparr>g_billing := granted_db\<lparr>price_versions := [demo_tariff]\<rparr>,
       g_deployments := deployment_view image_catalog\<rparr>,
     ac_catalog = image_catalog, ac_idempotency = [], ac_outbox = []\<rparr>"

definition image_request :: CreateGenerationRequest where
  "image_request = \<lparr>cg_product_model_id = ''img'', cg_modality = ''image'', cg_payload = [], cg_client_request_id = ''c''\<rparr>"

definition image_fresh :: accept_fresh where
  "image_fresh = \<lparr>fr_idempotency_id = 30, fr_db_id = 31, fr_job_id = 32, fr_reservation_id = 33, fr_ledger_id = 134,
     fr_outbox_id = 35, fr_now = 1000, fr_db_now = 1001\<rparr>"

definition image_route :: DeploymentRoute where
  "image_route = the (resolve_route image_catalog 1 ''img'' ''image'')"

definition image_decision :: AcceptedDecisionSnapshot where
  "image_decision = the (projr (resolve_accepted_decision image_catalog 1 3 1000))"

definition image_job :: GenJob where
  "image_job = accepted_job image_fresh 1 5 image_request ''h'' image_route image_decision"

definition image_held :: "ReservationResult \<times> billing_db" where
  "image_held = (let b = granted_db\<lparr>price_versions := [demo_tariff], generation_jobs := [priced_job image_job]\<rparr> in
     projr (reserve_in_transaction b b b 33 134 1000 1 ''generation'' 31 (ad_price image_decision) (Aware (1000 + seconds (15 * 60)))))"

lemma image_route: "resolve_route image_catalog 1 ''img'' ''image'' = Some image_route"
proof -
  have "resolve_route image_catalog 1 ''img'' ''image'' \<noteq> None" by code_simp
  then show ?thesis by (auto simp: image_route_def)
qed

lemma image_route_ids: "ro_product_model_db_id image_route = 1" "ro_deployment_id image_route = 3"
  by code_simp+

lemma image_decision: "resolve_accepted_decision image_catalog 1 3 1000 = Inr (Some image_decision)"
proof -
  have "(case resolve_accepted_decision image_catalog 1 3 1000 of Inr (Some _) \<Rightarrow> True | _ \<Rightarrow> False)" by code_simp
  then show ?thesis by (auto simp: image_decision_def split: sum.splits option.splits)
qed

lemma image_held:
  "(let b = granted_db\<lparr>price_versions := [demo_tariff], generation_jobs := [priced_job image_job]\<rparr> in
     reserve_in_transaction b b b 33 134 1000 1 ''generation'' 31 (ad_price image_decision) (Aware (1000 + seconds (15 * 60)))) = Inr image_held"
proof -
  have "\<not> isl (let b = granted_db\<lparr>price_versions := [demo_tariff], generation_jobs := [priced_job image_job]\<rparr> in
     reserve_in_transaction b b b 33 134 1000 1 ''generation'' 31 (ad_price image_decision) (Aware (1000 + seconds (15 * 60))))"
    unfolding granted_db_eval by code_simp
  then show ?thesis by (simp add: image_held_def Let_def)
qed

lemma image_job_ok: "job_check image_job \<and> job_widths image_job" 
  by code_simp
lemma accept_newI:
  assumes "idempotency_ok (ac_idempotency s @ [processing_record fr t actor request rh])"
    and "resolve_route (ac_catalog s) t (cg_product_model_id request) (cg_modality request) = Some route"
    and "resolve_accepted_decision (ac_catalog s) (ro_product_model_db_id route) (ro_deployment_id route) (fr_now fr) = Inr (Some decision)"
    and "job = accepted_job fr t actor request rh route decision" and "dbj = (ac_gen s)\<lparr>g_jobs := g_jobs (ac_gen s) @ [job]\<rparr>"
    and "jobs_ok dbj"
    and "reserve_in_transaction (billing_of dbj) (billing_of dbj) (billing_of dbj) (fr_reservation_id fr) (fr_ledger_id fr) (fr_now fr)
      t ''generation'' (j_id job) (ad_price decision) (Aware (fr_now fr + seconds (15 * 60))) = Inr (reservation, billing)"
    and "jobs_ok (put_job (job\<lparr>j_billing_reservation_id := Some (rr_reservation_id reservation), j_updated_at := fr_db_now fr\<rparr>)
      (dbj\<lparr>g_billing := billing\<rparr>))"
    and "outbox_unique (ac_outbox s @ [accepted_event fr t request (rr_reservation_id reservation)])"
    and "public_response (record_from_job (job\<lparr>j_billing_reservation_id := Some (rr_reservation_id reservation), j_updated_at := fr_db_now fr\<rparr>)
      (ro_product_model_id route) [] (ro_concurrency_limit route)) = Inr body"
  shows "\<exists>r s'. accept_new s fr t actor request rh = Inr (r, s') \<and> \<not> ag_replayed r"
proof -
  have "jobs_flush dbj = Inr dbj" using assms(6) by simp
  then show ?thesis using assms(1-3,7-10) unfolding accept_new_def Let_def by (simp add: assms(4,5) flip: assms(4))
qed

lemma image_db_rows:
  "ac_idempotency image_db = []" "ac_outbox image_db = []" "ac_catalog image_db = image_catalog" "g_jobs (ac_gen image_db) = []"
  "g_billing (ac_gen image_db) = granted_db\<lparr>price_versions := [demo_tariff]\<rparr>"
  "g_deployments (ac_gen image_db) = deployment_view image_catalog"
  by (simp_all add: image_db_def demo_gen_def)

lemma image_reservation_id: "rr_reservation_id (fst image_held) = 33"
  unfolding image_held_def granted_db_eval by code_simp

lemma image_held_job_ok:
  "job_check (image_job\<lparr>j_billing_reservation_id := Some 33, j_updated_at := 1001\<rparr>) \<and>
   job_widths (image_job\<lparr>j_billing_reservation_id := Some 33, j_updated_at := 1001\<rparr>)"
  by code_simp

lemma image_response:
  "\<exists>body. public_response (record_from_job (image_job\<lparr>j_billing_reservation_id := Some 33, j_updated_at := 1001\<rparr>)
     (ro_product_model_id image_route) [] (ro_concurrency_limit image_route)) = Inr body"
proof -
  have "\<not> isl (public_response (record_from_job (image_job\<lparr>j_billing_reservation_id := Some 33, j_updated_at := 1001\<rparr>)
     (ro_product_model_id image_route) [] (ro_concurrency_limit image_route)))" by code_simp
  then show ?thesis by (metis isl_def sum.exhaust)
qed

lemma image_accepted:
  "\<exists>r. accept image_db image_fresh 1 5 image_request ''h'' = (Inr r, snd (accept image_db image_fresh 1 5 image_request ''h'')) \<and> \<not> ag_replayed r"
proof -
  let ?db = "(ac_gen image_db)\<lparr>g_jobs := g_jobs (ac_gen image_db) @ [image_job]\<rparr>"
  note rows = image_db_rows image_job_def [symmetric] image_fresh_def image_request_def
  have id: "j_id image_job = 31" "j_fencing_token image_job = 0" "j_provider_request_id image_job = None" "j_provider_task_id image_job = None"
    by (simp_all add: image_job_def accepted_job_def image_fresh_def)
  have ok: "jobs_ok ?db" using image_job_ok id by (simp add: jobs_ok_def provider_keys_def bigint_def image_db_rows)
  have held: "reserve_in_transaction (billing_of ?db) (billing_of ?db) (billing_of ?db) 33 134 1000
      1 ''generation'' (j_id image_job) (ad_price image_decision) (Aware (1000 + seconds (15 * 60))) = Inr (fst image_held, snd image_held)"
    using image_held id(1) by (simp add: image_db_rows Let_def billing_of_def)
  obtain body where body: "public_response (record_from_job (image_job\<lparr>j_billing_reservation_id := Some 33, j_updated_at := 1001\<rparr>)
      (ro_product_model_id image_route) [] (ro_concurrency_limit image_route)) = Inr body" using image_response by blast
  have "\<exists>r s'. accept_new image_db image_fresh 1 5 image_request ''h'' = Inr (r, s') \<and> \<not> ag_replayed r"
  proof (rule accept_newI [where route = image_route and decision = image_decision and job = image_job and dbj = "?db"
        and reservation = "fst image_held" and billing = "snd image_held" and body = body])
    show "jobs_ok (put_job (image_job\<lparr>j_billing_reservation_id := Some (rr_reservation_id (fst image_held)),
        j_updated_at := fr_db_now image_fresh\<rparr>) (?db\<lparr>g_billing := snd image_held\<rparr>))"
      using image_held_job_ok id image_reservation_id
      by (simp add: jobs_ok_def provider_keys_def bigint_def image_db_rows put_job_def update_where_def image_fresh_def)
    show "public_response (record_from_job (image_job\<lparr>j_billing_reservation_id := Some (rr_reservation_id (fst image_held)),
        j_updated_at := fr_db_now image_fresh\<rparr>) (ro_product_model_id image_route) [] (ro_concurrency_limit image_route)) = Inr body"
      using body by (simp add: image_reservation_id image_fresh_def)
  qed (use ok held image_route image_decision image_route_ids in
      \<open>simp_all add: image_db_rows image_job_def image_fresh_def image_request_def idempotency_ok_def outbox_unique_def\<close>)
  then obtain r s' where "accept_new image_db image_fresh 1 5 image_request ''h'' = Inr (r, s')" "\<not> ag_replayed r" by blast
  then have "accept image_db image_fresh 1 5 image_request ''h'' = (Inr r, s')" "\<not> ag_replayed r"
    by (simp_all add: accept_def image_db_rows transaction_def require_def image_request_def)
  then show ?thesis by simp
qed

theorem accept_exact_witness:
  "\<exists>j hold. g_jobs (ac_gen (snd (accept image_db image_fresh 1 5 image_request ''h''))) = [j] \<and>
     hold \<in> set (reservations (g_billing (ac_gen (snd (accept image_db image_fresh 1 5 image_request ''h''))))) \<and>
     j_billing_reservation_id j = Some (r_id hold) \<and> r_source_id hold = 31"
proof -
  obtain r where r: "accept image_db image_fresh 1 5 image_request ''h'' = (Inr r, snd (accept image_db image_fresh 1 5 image_request ''h''))"
      "\<not> ag_replayed r" using image_accepted by blast
  have f: "fr_job_id image_fresh < 2 ^ 128" by (simp add: image_fresh_def)
  have n: "reservation_by_source 1 ''generation'' (fr_db_id image_fresh) (g_billing (ac_gen image_db)) = []" by code_simp
  have "g_jobs (ac_gen image_db) = []" "fr_db_id image_fresh = 31" by code_simp+
  with accept_exact [OF r f n] show ?thesis by fastforce
qed

subsection \<open>The answer to a repeated request\<close>

lemma route_in_view:
  assumes "resolve_route c t k m = Some route"
  shows "\<exists>d. map_of (deployment_view c) (ro_deployment_id route) = Some d"
proof -
  obtain p e d ep where "active_row c t k m (p, e, d, ep)" "route = route_of (p, e, d, ep)"
    using resolve_route_selected [OF assms] by (metis prod_cases4)
  then have "(md_id d, pm_model_key p, md_concurrency_limit d) \<in> set (deployment_view c)" "ro_deployment_id route = md_id d"
    by (auto simp: active_row_def deployment_view_def intro!: bexI [of _ d] bexI [of _ p])
  then show ?thesis by (metis (no_types, lifting) map_of_eq_None_iff not_None_eq fst_conv image_eqI)
qed

lemma job_query_append: "job_query ds (xs @ ys) = job_query ds xs @ job_query ds ys"
  by (induction xs) (auto split: option.splits)

lemma get_by_db_id_last:
  assumes "g_jobs db = js @ [j]" and "j_id j \<notin> j_id ` set js" and "map_of (g_deployments db) (j_model_deployment_id j) = Some d"
  shows "get_by_db_id db (j_tenant_id j) (j_id j) = Some (materialize db (j_tenant_id j) (j, d))"
proof -
  have "filter (\<lambda>(x, _). j_tenant_id x = j_tenant_id j \<and> j_id x = j_id j) (job_query (g_deployments db) js) = []"
    using assms(2) by (auto simp: filter_empty_conv dest!: job_query_in) (metis image_eqI)
  then show ?thesis using assms(1,3) by (simp add: get_by_db_id_def job_query_append)
qed

lemma accepted_key:
  assumes "idempotency_ok (rs @ [processing_record fr t actor request rh])"
    and "filter (\<lambda>x. idempotency_scope x = (t, actor, GENERATION_CREATE, cg_client_request_id request)) rs = []"
  shows "filter (\<lambda>x. idempotency_scope x = (t, actor, GENERATION_CREATE, cg_client_request_id request))
      (update_where (\<lambda>r. id_id r = fr_idempotency_id fr) (complete_record fr body) (rs @ [processing_record fr t actor request rh])) =
    [complete_record fr body (processing_record fr t actor request rh)]"
proof -
  have "fr_idempotency_id fr \<notin> id_id ` set rs" using assms(1) by (simp add: idempotency_ok_def processing_record_def)
  then have "update_where (\<lambda>r. id_id r = fr_idempotency_id fr) (complete_record fr body) rs = rs"
    by (intro update_where_id) (metis image_eqI)
  with assms(2) show ?thesis
    by (simp add: update_where_def complete_record_def processing_record_def idempotency_scope_def)
qed

text \<open>
  C19. A repeated key is answered once and for all: after an acceptance, a request of the same actor under the
  same client key returns the accepted job when its body hash is the same and is refused as a conflict when
  it is not, and changes nothing either way: no second job, hold or event.
\<close>

theorem accept_replay:
  assumes "accept s fr t actor request rh = (Inr r, s')" and "\<not> ag_replayed r"
    and "g_deployments (ac_gen s) = deployment_view (ac_catalog s)" and "length rh2 \<le> 128" and "cg_client_request_id again = cg_client_request_id request"
  shows "\<exists>found. accept s' fr2 t actor again rh2 =
      (if rh2 = rh then Inr \<lparr>ag_record = found, ag_replayed = True\<rparr> else Inl (Domain IdempotencyConflictError), s') \<and>
    gr_db_id found = fr_db_id fr \<and> gr_job_id found = fr_job_id fr \<and> gr_status found = Accepted"
proof -
  note n = accept_Inr_new [OF assms(1,2)]
  from conjunct1 [OF n] show ?thesis
  proof (rule accept_new_Inr)
    fix route :: DeploymentRoute and decision :: AcceptedDecisionSnapshot and reservation :: ReservationResult and billing :: billing_db
    let ?job = "accepted_job fr t actor request rh route decision"
    let ?db = "(ac_gen s)\<lparr>g_jobs := g_jobs (ac_gen s) @ [?job]\<rparr>"
    let ?j = "held_job fr (rr_reservation_id reservation) ?job"
    assume idem: "idempotency_ok (ac_idempotency s @ [processing_record fr t actor request rh])"
      and route: "resolve_route (ac_catalog s) t (cg_product_model_id request) (cg_modality request) = Some route"
      and ok: "jobs_ok ?db"
      and gen: "ac_gen s' = put_job ?j ((ac_gen s)\<lparr>g_jobs := g_jobs (ac_gen s) @ [?job], g_billing := billing\<rparr>)"
      and keys: "ac_idempotency s' = update_where (\<lambda>r. id_id r = fr_idempotency_id fr) (complete_record fr (projr (public_response (ag_record r))))
        (ac_idempotency s @ [processing_record fr t actor request rh])"
    have jobs: "g_jobs (ac_gen s') = g_jobs (ac_gen s) @ [?j]" using accept_new_jobs [OF ok] gen by simp
    have fresh: "fr_db_id fr \<notin> j_id ` set (g_jobs (ac_gen s))" using jobs_ok_keys(1) [OF ok] by (simp add: accepted_job_def)
    have fields: "j_id ?j = fr_db_id fr" "j_tenant_id ?j = t" "j_job_id ?j = fr_job_id fr" "j_status ?j = Accepted"
      "j_model_deployment_id ?j = ro_deployment_id route" by (simp_all add: held_job_def accepted_job_def)
    obtain d where d: "map_of (g_deployments (ac_gen s')) (j_model_deployment_id ?j) = Some d"
      using route_in_view [OF route] assms(3) gen fields(5) by (auto simp: put_job_def)
    have found: "get_by_db_id (ac_gen s') t (fr_db_id fr) = Some (materialize (ac_gen s') t (?j, d))"
      using get_by_db_id_last [OF jobs _ d] fresh fields by simp
    have rows: "filter (\<lambda>x. idempotency_scope x = (t, actor, GENERATION_CREATE, cg_client_request_id again)) (ac_idempotency s') =
        [complete_record fr (projr (public_response (ag_record r))) (processing_record fr t actor request rh)]"
      using accepted_key [OF idem] n keys assms(5) by simp
    have width: "length (cg_client_request_id again) \<le> 255" using n assms(5) by simp
    have "accept s' fr2 t actor again rh2 = (if rh2 = rh then Inr \<lparr>ag_record = materialize (ac_gen s') t (?j, d), ag_replayed = True\<rparr>
        else Inl (Domain IdempotencyConflictError), s')"
      using found width assms(4) by (simp add: accept_def rows require_def replay_accepted_def transaction_def complete_record_def processing_record_def)
    then show ?thesis using fields by (intro exI [of _ "materialize (ac_gen s') t (?j, d)"])
      (simp add: materialize_def record_from_job_def split: prod.splits)
  qed
qed

theorem accept_replay_witness:
  "(let s' = snd (accept image_db image_fresh 1 5 image_request ''h'') in
    \<exists>found. accept s' image_fresh 1 5 image_request ''h'' = (Inr \<lparr>ag_record = found, ag_replayed = True\<rparr>, s') \<and> gr_db_id found = 31)"
proof -
  obtain r where r: "accept image_db image_fresh 1 5 image_request ''h'' = (Inr r, snd (accept image_db image_fresh 1 5 image_request ''h''))"
      "\<not> ag_replayed r" using image_accepted by blast
  have "g_deployments (ac_gen image_db) = deployment_view (ac_catalog image_db)" by (simp add: image_db_rows)
  from accept_replay [OF r this _ refl, of "''h''" image_fresh] show ?thesis by (auto simp: Let_def image_fresh_def)
qed

subsection \<open>A replayed key whose job is being cleaned up\<close>

definition deleting_db :: gen_db where
  "deleting_db = (demo_gen [(demo_job 1 Succeeded None 1)\<lparr>j_deleted_at := Some 10, j_completed_at := Some 5\<rparr>])
     \<lparr>g_artifacts := [\<lparr>a_id = 7, a_tenant_id = 1, a_generation_job_id = 1, a_kind = ''output'', a_status = ''expired'',
        a_storage_provider = ''local'', a_object_key = ''a/b'', a_mime_type = ''image/png'', a_size_bytes = 1, a_sha256 = None,
        a_expires_at = Some 10, a_updated_at = 10\<rparr>]\<rparr>"

text \<open>
  A replay looks the job up without the deletion filter of the visible queries. Between the claim of its
  artifact by the cleanup and the completion of the deletion the record carries the status
  \<open>delete_pending\<close>, which the response contract does not list: the repeated request fails instead of answering.
\<close>

theorem replay_during_cleanup:
  "(case cleanup_claim deleting_db 20 (\<lambda>_. False) of (Inr (Some _), db) \<Rightarrow>
      get_job db 1 5 101 = None \<and>
      (case get_by_db_id db 1 1 of Some found \<Rightarrow> isl (public_response found) | None \<Rightarrow> False)
    | _ \<Rightarrow> False)"
  by code_simp

end
