(* ===== verification/Concurrency.thy ===== *)
theory Concurrency
  imports Uuid_Text Complex_Main
begin

text \<open>
  The crash-recoverable semaphore of \<open>app/infrastructure/concurrency.py\<close>: the three Lua scripts over one
  Redis sorted set per resource, the lease and guard objects around them, and the two-permit admission
  of deployments and chat streams. A script runs atomically at one reading of the Redis clock, in
  milliseconds. A call may be lost before it reaches Redis or after it took effect; both raise.
\<close>

subsection \<open>The sorted sets\<close>

record zset =
  z_members :: "(string \<times> int) list"
  z_expires_at :: int

type_synonym redis = "string \<Rightarrow> zset option"

text \<open>A key whose time to live has passed does not exist.\<close>

definition zmembers :: "redis \<Rightarrow> int \<Rightarrow> string \<Rightarrow> (string \<times> int) list" where
  "zmembers r now k = (case r k of None \<Rightarrow> [] | Some z \<Rightarrow> if z_expires_at z \<le> now then [] else z_members z)"

definition zexpires :: "redis \<Rightarrow> string \<Rightarrow> int" where
  "zexpires r k = (case r k of None \<Rightarrow> 0 | Some z \<Rightarrow> z_expires_at z)"

text \<open>Redis removes a sorted set that becomes empty.\<close>

definition zstore :: "string \<Rightarrow> (string \<times> int) list \<Rightarrow> int \<Rightarrow> redis \<Rightarrow> redis" where
  "zstore k ms expires r = r(k := if ms = [] then None else Some \<lparr>z_members = ms, z_expires_at = expires\<rparr>)"

definition unexpired :: "int \<Rightarrow> (string \<times> int) list \<Rightarrow> (string \<times> int) list" where
  "unexpired now ms = filter (\<lambda>m. now < snd m) ms"

definition zrem :: "string \<Rightarrow> (string \<times> int) list \<Rightarrow> (string \<times> int) list" where
  "zrem token ms = filter (\<lambda>m. fst m \<noteq> token) ms"

definition zadd :: "string \<Rightarrow> int \<Rightarrow> (string \<times> int) list \<Rightarrow> (string \<times> int) list" where
  "zadd token score ms = (token, score) # zrem token ms"

subsection \<open>The scripts\<close>

definition ACQUIRE_SCRIPT :: "redis \<Rightarrow> int \<Rightarrow> string \<Rightarrow> string \<Rightarrow> int \<Rightarrow> int \<Rightarrow> int \<times> redis" where
  "ACQUIRE_SCRIPT r now k token limit ttl =
     (let ms = unexpired now (zmembers r now k) in
      if limit \<le> int (length ms) then (0, zstore k ms (zexpires r k) r)
      else (1, zstore k (zadd token (now + ttl) ms) (now + ttl * 2) r))"

definition RENEW_SCRIPT :: "redis \<Rightarrow> int \<Rightarrow> string \<Rightarrow> string \<Rightarrow> int \<Rightarrow> int \<times> redis" where
  "RENEW_SCRIPT r now k token ttl =
     (let ms = unexpired now (zmembers r now k) in
      if token \<notin> set (map fst ms) then (0, zstore k ms (zexpires r k) r)
      else (1, zstore k (zadd token (now + ttl) ms) (now + ttl * 2) r))"

definition RELEASE_SCRIPT :: "redis \<Rightarrow> int \<Rightarrow> string \<Rightarrow> string \<Rightarrow> int \<times> redis" where
  "RELEASE_SCRIPT r now k token =
     (let ms = zmembers r now k in
      (if token \<in> set (map fst ms) then 1 else 0, zstore k (zrem token ms) (zexpires r k) r))"

subsection \<open>The client\<close>

datatype net = Delivered | Dropped | Answer_lost

datatype concurrency_error =
    ConcValueError string
  | ConcRuntimeError string
  | RedisFailure
  | ConcurrencyUnavailable
  | ConcurrencyLeaseLost

text \<open>One round trip: the script's integer, or an exception with or without the script's effect.\<close>

fun redis_eval :: "net \<Rightarrow> (redis \<Rightarrow> int \<times> redis) \<Rightarrow> redis \<Rightarrow> (concurrency_error + int) \<times> redis" where
  "redis_eval Delivered script r = (case script r of (x, r') \<Rightarrow> (Inr x, r'))"
| "redis_eval Dropped script r = (Inl RedisFailure, r)"
| "redis_eval Answer_lost script r = (Inl RedisFailure, snd (script r))"

definition resource_char :: "char \<Rightarrow> bool" where
  "resource_char c \<longleftrightarrow> is_lower c \<or> is_digit c"

definition RESOURCE_PATTERN :: "string \<Rightarrow> bool" where
  "RESOURCE_PATTERN s \<longleftrightarrow> s \<noteq> [] \<and> length s \<le> 200 \<and> resource_char (hd s) \<and>
     list_all (\<lambda>c. resource_char c \<or> c \<in> set '':_-'') (tl s)"

record RedisLease =
  rl_key :: string
  rl_token :: string
  rl_ttl_ms :: int
  rl_active :: bool

definition key_for :: "string \<Rightarrow> string \<Rightarrow> concurrency_error + string" where
  "key_for environment resource =
     andthen (require (RESOURCE_PATTERN resource)
                (ConcValueError ''resource contains unsupported Redis key characters'')) (\<lambda>_.
     Inr (''mosaic:'' @ environment @ '':concurrency:'' @ resource))"

definition ttl_ms :: "rat \<Rightarrow> concurrency_error + int" where
  "ttl_ms ttl_seconds =
     (if ttl_seconds < 1 \<or> ttl_seconds > 3600
      then Inl (ConcValueError ''ttl_seconds must be between 1 and 3600'') else Inr \<lfloor>ttl_seconds * 1000\<rfloor>)"

definition acquire ::
  "string \<Rightarrow> redis \<Rightarrow> net \<Rightarrow> int \<Rightarrow> string \<Rightarrow> string \<Rightarrow> int \<Rightarrow> rat \<Rightarrow> (concurrency_error + RedisLease option) \<times> redis" where
  "acquire environment r n now token resource limit ttl_seconds =
     (case andthen (key_for environment resource) (\<lambda>key.
           andthen (require (1 \<le> limit) (ConcValueError ''limit must be at least 1'')) (\<lambda>_.
           andthen (ttl_ms ttl_seconds) (\<lambda>ttl. Inr (key, ttl)))) of
        Inl e \<Rightarrow> (Inl e, r)
      | Inr (key, ttl) \<Rightarrow>
          (case redis_eval n (\<lambda>s. ACQUIRE_SCRIPT s now key token limit ttl) r of
             (Inl e, r') \<Rightarrow> (Inl e, r')
           | (Inr x, r') \<Rightarrow>
               (Inr (if x \<noteq> 1 then None
                     else Some \<lparr>rl_key = key, rl_token = token, rl_ttl_ms = ttl, rl_active = True\<rparr>), r')))"

text \<open>\<open>RedisLease.renew\<close> and \<open>release\<close>: the flag is cleared when the permit is lost or given up.\<close>

definition lease_renew :: "redis \<Rightarrow> net \<Rightarrow> int \<Rightarrow> RedisLease \<Rightarrow> (concurrency_error + bool) \<times> RedisLease \<times> redis" where
  "lease_renew r n now l =
     (if \<not> rl_active l then (Inr False, l, r)
      else
        (case redis_eval n (\<lambda>s. RENEW_SCRIPT s now (rl_key l) (rl_token l) (rl_ttl_ms l)) r of
           (Inl e, r') \<Rightarrow> (Inl e, l\<lparr>rl_active := False\<rparr>, r')
         | (Inr x, r') \<Rightarrow>
             (if x = 1 then (Inr True, l, r') else (Inr False, l\<lparr>rl_active := False\<rparr>, r'))))"

definition lease_release :: "redis \<Rightarrow> net \<Rightarrow> int \<Rightarrow> RedisLease \<Rightarrow> (concurrency_error + bool) \<times> RedisLease \<times> redis" where
  "lease_release r n now l =
     (if \<not> rl_active l then (Inr False, l, r)
      else
        (case redis_eval n (\<lambda>s. RELEASE_SCRIPT s now (rl_key l) (rl_token l)) r of
           (Inl e, r') \<Rightarrow> (Inl e, l\<lparr>rl_active := False\<rparr>, r')
         | (Inr x, r') \<Rightarrow> (Inr (x = 1), l\<lparr>rl_active := False\<rparr>, r')))"

text \<open>
  \<open>RedisLeaseGuard\<close>: one turn of its renewal loop, which stops at the first lease it cannot renew, and
  its exit, which releases in reverse order and ignores failures.
\<close>

fun guard_renew :: "(nat \<Rightarrow> net) \<Rightarrow> (nat \<Rightarrow> int) \<Rightarrow> nat \<Rightarrow> RedisLease list \<Rightarrow> redis \<Rightarrow> bool \<times> RedisLease list \<times> redis" where
  "guard_renew nets clock i [] r = (True, [], r)"
| "guard_renew nets clock i (l # ls) r =
     (case lease_renew r (nets i) (clock i) l of
        (Inr True, l', r') \<Rightarrow>
          (case guard_renew nets clock (Suc i) ls r' of (ok, ls', r'') \<Rightarrow> (ok, l' # ls', r''))
      | (_, l', r') \<Rightarrow> (False, l' # ls, r'))"

fun guard_release :: "(nat \<Rightarrow> net) \<Rightarrow> (nat \<Rightarrow> int) \<Rightarrow> nat \<Rightarrow> RedisLease list \<Rightarrow> redis \<Rightarrow> RedisLease list \<times> redis" where
  "guard_release nets clock i [] r = ([], r)"
| "guard_release nets clock i (l # ls) r =
     (case lease_release r (nets i) (clock i) l of (_, l', r') \<Rightarrow>
        (case guard_release nets clock (Suc i) ls r' of (ls', r'') \<Rightarrow> (l' # ls', r'')))"

definition guard_exit :: "(nat \<Rightarrow> net) \<Rightarrow> (nat \<Rightarrow> int) \<Rightarrow> RedisLease list \<Rightarrow> redis \<Rightarrow> RedisLease list \<times> redis" where
  "guard_exit nets clock leases r = (case guard_release nets clock 0 (rev leases) r of (ls, r') \<Rightarrow> (rev ls, r'))"

text \<open>\<open>RedisLeaseGuard.run\<close>: the operation's own outcome if it is done, else the loss.\<close>

definition guard_run :: "('e + 'a) option \<Rightarrow> ('e + 'a) + concurrency_error" where
  "guard_run finished = (case finished of Some outcome \<Rightarrow> Inl outcome | None \<Rightarrow> Inr ConcurrencyLeaseLost)"

subsection \<open>Admission\<close>

text \<open>
  Both admissions take an outer and an inner permit and give the outer one back when the inner one is
  refused or fails. \<open>tokens\<close>, \<open>nets\<close> and \<open>clock\<close> are indexed by the call.
\<close>

definition acquire_pair ::
  "string \<Rightarrow> redis \<Rightarrow> (nat \<Rightarrow> net) \<Rightarrow> (nat \<Rightarrow> int) \<Rightarrow> (nat \<Rightarrow> string) \<Rightarrow> string \<Rightarrow> int \<Rightarrow> string \<Rightarrow> int \<Rightarrow> rat
   \<Rightarrow> (concurrency_error + RedisLease list option) \<times> redis" where
  "acquire_pair environment r nets clock tokens outer outer_limit inner inner_limit ttl_seconds =
     (case acquire environment r (nets 0) (clock 0) (tokens 0) outer outer_limit ttl_seconds of
        (Inl _, r1) \<Rightarrow> (Inl ConcurrencyUnavailable, r1)
      | (Inr None, r1) \<Rightarrow> (Inr None, r1)
      | (Inr (Some first), r1) \<Rightarrow>
          (case acquire environment r1 (nets 1) (clock 1) (tokens 1) inner inner_limit ttl_seconds of
             (Inl _, r2) \<Rightarrow> (Inl ConcurrencyUnavailable, snd (snd (lease_release r2 (nets 2) (clock 2) first)))
           | (Inr None, r2) \<Rightarrow> (Inr None, snd (snd (lease_release r2 (nets 2) (clock 2) first)))
           | (Inr (Some second), r2) \<Rightarrow> (Inr (Some [first, second]), r2)))"

definition deployment_resource :: "uuid \<Rightarrow> string" where
  "deployment_resource d = ''deployment:'' @ str_uuid d"

definition tenant_deployment_resource :: "uuid \<Rightarrow> uuid \<Rightarrow> string" where
  "tenant_deployment_resource t d = ''tenant:'' @ str_uuid t @ '':deployment:'' @ str_uuid d"

definition stream_global_resource :: string where
  "stream_global_resource = ''chat-stream:global''"

definition stream_tenant_resource :: "uuid \<Rightarrow> string" where
  "stream_tenant_resource t = ''chat-stream:tenant:'' @ str_uuid t"

definition acquire_deployment_admission ::
  "string \<Rightarrow> redis \<Rightarrow> (nat \<Rightarrow> net) \<Rightarrow> (nat \<Rightarrow> int) \<Rightarrow> (nat \<Rightarrow> string) \<Rightarrow> uuid \<Rightarrow> uuid \<Rightarrow> int \<Rightarrow> rat
   \<Rightarrow> (concurrency_error + RedisLease list option) \<times> redis" where
  "acquire_deployment_admission environment r nets clock tokens t d limit ttl_seconds =
     acquire_pair environment r nets clock tokens (deployment_resource d) limit
       (tenant_deployment_resource t d) limit ttl_seconds"

definition acquire_chat_stream_admission ::
  "string \<Rightarrow> redis \<Rightarrow> (nat \<Rightarrow> net) \<Rightarrow> (nat \<Rightarrow> int) \<Rightarrow> (nat \<Rightarrow> string) \<Rightarrow> uuid \<Rightarrow> int \<Rightarrow> int \<Rightarrow> rat
   \<Rightarrow> (concurrency_error + RedisLease list option) \<times> redis" where
  "acquire_chat_stream_admission environment r nets clock tokens t tenant_limit global_limit ttl_seconds =
     acquire_pair environment r nets clock tokens stream_global_resource global_limit
       (stream_tenant_resource t) tenant_limit ttl_seconds"

end
