(* ===== verification/Generation_Worker.thy ===== *)
theory Generation_Worker
  imports Generation_Recovery Concurrency Outbox_Repository
begin

text \<open>
  The durable generation worker (\<open>DurableGenerationWorker\<close> of \<open>app/generations/worker.py\<close>): one delivery
  claims a job, moves it through the provider call and settles its hold, and every exception ends in a
  handler that decides between an unknown outcome and a failure. Between any two of its transactions the
  other processes run: \<open>wv_other\<close> transforms the database before each of them. What the provider, the
  resolver and the admission answer are arguments too; the metrics and logs are not modelled.
\<close>

subsection \<open>Exceptions\<close>

datatype worker_exn =
    ProviderError "int option"
  | InfraError string
  | ConcurrencySaturated
  | AdmissionUnavailable
  | OtherException

text \<open>What an exception of the repository is for the worker's handlers.\<close>

fun worker_raise :: "gen_error raised \<Rightarrow> worker_exn" where
  "worker_raise (Domain (GenerationInfrastructureError code)) = InfraError code"
| "worker_raise _ = OtherException"

fun submission_is_uncertain :: "worker_exn \<Rightarrow> bool" where
  "submission_is_uncertain (ProviderError None) \<longleftrightarrow> True"
| "submission_is_uncertain (ProviderError (Some status_code)) \<longleftrightarrow> 500 \<le> status_code"
| "submission_is_uncertain (InfraError code) \<longleftrightarrow> code \<noteq> ''GENERATION_PROVIDER_TASK_FAILED''"
| "submission_is_uncertain _ \<longleftrightarrow> True"

subsection \<open>The environment of one delivery\<close>

text \<open>
  Clocks, fresh identifiers and interference are indexed by the transaction. \<open>wv_redis_lost\<close> and
  \<open>wv_db_lost\<close> say which guard, if any, reported a loss before the executor was done; \<open>wv_configured\<close> names the
  fields of \<open>GenerationWorkerDependencies\<close> that are not \<open>None\<close>.
\<close>

record worker_env =
  wv_worker_id :: string
  wv_lease_seconds :: int
  wv_heartbeat_seconds :: int
  wv_now :: "nat \<Rightarrow> instant"
  wv_uuid :: "nat \<Rightarrow> uuid"
  wv_other :: "nat \<Rightarrow> gen_db \<Rightarrow> gen_db"
  wv_locked :: "uuid \<Rightarrow> bool"
  wv_resolve :: "worker_exn + unit"
  wv_admission :: "concurrency_error + RedisLease list option"
  wv_execute :: "worker_exn + GenerationExecutionResult option"
  wv_redis_lost :: bool
  wv_db_lost :: bool
  wv_configured :: "string list"

definition require_job_fence :: "GenerationRecord \<Rightarrow> worker_exn + (uuid \<times> int)" where
  "require_job_fence job =
     (case gr_lease_token job of
        None \<Rightarrow> Inl (InfraError ''GENERATION_FENCE_MISSING'')
      | Some token \<Rightarrow>
          if gr_fencing_token job < 1 then Inl (InfraError ''GENERATION_FENCE_MISSING'')
          else Inr (token, gr_fencing_token job))"

definition fenced_call ::
  "GenerationRecord \<Rightarrow> gen_db \<Rightarrow> (uuid \<Rightarrow> int \<Rightarrow> (gen_error raised + 'a) \<times> gen_db) \<Rightarrow> (worker_exn + 'a) \<times> gen_db" where
  "fenced_call job db call =
     (case require_job_fence job of
        Inl e \<Rightarrow> (Inl e, db)
      | Inr (lease_token, fencing_token) \<Rightarrow>
          (case call lease_token fencing_token of (r, db') \<Rightarrow> (map_error worker_raise r, db')))"

definition worker_transition ::
  "worker_env \<Rightarrow> nat \<Rightarrow> gen_db \<Rightarrow> GenerationRecord \<Rightarrow> GenerationStatus \<Rightarrow> GenerationStatus \<Rightarrow> string option \<Rightarrow> string option \<Rightarrow>
   string option \<Rightarrow> (worker_exn + GenerationRecord) \<times> gen_db" where
  "worker_transition env i db job expected target error_code request_id task_id =
     (let before = wv_other env i db in
      fenced_call job before (\<lambda>lease_token fencing_token.
        transition before (wv_now env i) (gr_tenant_id job) (gr_job_id job) expected target error_code request_id task_id None
          lease_token fencing_token))"

definition worker_ensure_live ::
  "worker_env \<Rightarrow> nat \<Rightarrow> gen_db \<Rightarrow> GenerationRecord \<Rightarrow> string \<Rightarrow> (worker_exn + unit) \<times> gen_db" where
  "worker_ensure_live env i db job phase =
     (let before = wv_other env i db in
      fenced_call job before (\<lambda>lease_token fencing_token.
        ensure_live before (wv_now env i) (wv_heartbeat_seconds env) (gr_tenant_id job) (gr_job_id job) (wv_worker_id env)
          lease_token fencing_token phase))"

definition worker_complete ::
  "worker_env \<Rightarrow> nat \<Rightarrow> gen_db \<Rightarrow> GenerationRecord \<Rightarrow> GenerationExecutionResult \<Rightarrow> (worker_exn + GenerationRecord) \<times> gen_db" where
  "worker_complete env i db job result =
     (let before = wv_other env i db in
      fenced_call job before (\<lambda>lease_token fencing_token.
        complete before (wv_now env i) (\<lambda>n. wv_uuid env (100 + n)) (wv_uuid env i) (gr_tenant_id job) (gr_job_id job) Storing
          (er_artifacts result) (er_usage result) (er_provider_request_id result) (er_provider_task_id result)
          lease_token fencing_token))"

text \<open>\<open>_fail\<close> and \<open>_release_quietly\<close> swallow every exception.\<close>

definition worker_fail :: "worker_env \<Rightarrow> nat \<Rightarrow> gen_db \<Rightarrow> GenerationRecord \<Rightarrow> GenerationStatus \<Rightarrow> string \<Rightarrow> gen_db" where
  "worker_fail env i db job expected error_code =
     snd (worker_transition env i db job expected
       (if error_code = ''GENERATION_SUBMITTED_UNKNOWN'' then Submitted_unknown else Failed) (Some error_code) None None)"

definition release_quietly :: "worker_env \<Rightarrow> nat \<Rightarrow> gen_db \<Rightarrow> uuid \<Rightarrow> uuid \<Rightarrow> gen_db" where
  "release_quietly env i db t reservation_id =
     snd (gen_release (wv_other env i db) (wv_uuid env i) (wv_now env i) t reservation_id)"

subsection \<open>Execution of a claimed job\<close>

text \<open>
  The body of the \<open>try\<close> block. The handler reads the variable \<open>job\<close>, so the body returns its last value with
  the outcome: \<open>attempt\<close> runs one call and keeps the old value when the call raises.
\<close>

type_synonym attempt_result = "(worker_exn + unit) \<times> GenerationRecord \<times> gen_db"

definition attempt ::
  "(worker_exn + 'a) \<times> gen_db \<Rightarrow> GenerationRecord \<Rightarrow> ('a \<Rightarrow> gen_db \<Rightarrow> attempt_result) \<Rightarrow> attempt_result" where
  "attempt m job k = (case m of (Inl e, db) \<Rightarrow> (Inl e, job, db) | (Inr x, db) \<Rightarrow> k x db)"

definition requeue_after_saturation ::
  "worker_env \<Rightarrow> nat \<Rightarrow> gen_db \<Rightarrow> GenerationRecord \<Rightarrow> (worker_exn + unit) \<times> gen_db" where
  "requeue_after_saturation env i db job =
     (if gr_status job \<noteq> Queued then (Inr (), db)
      else
        (case worker_transition env i db job Queued Accepted None None None of
           (Inl _, db') \<Rightarrow> (Inl (InfraError ''GENERATION_CONCURRENCY_REQUEUE_FAILED''), db')
         | (Inr _, db') \<Rightarrow> (Inr (), db')))"

text \<open>\<open>admission.run(database_lease.run(executor.execute(...)))\<close>: a loss reported first wins.\<close>

definition guarded_execute :: "worker_env \<Rightarrow> worker_exn + GenerationExecutionResult option" where
  "guarded_execute env =
     (if wv_redis_lost env then Inl OtherException
      else if wv_db_lost env then Inl (InfraError ''GENERATION_LEASE_LOST'')
      else wv_execute env)"

definition empty_result :: GenerationExecutionResult where
  "empty_result = \<lparr>er_artifacts = [], er_provider_request_id = None, er_provider_task_id = None,
     er_usage = \<lparr>gu_input_tokens = 0, gu_output_tokens = 0, gu_image_count = 0, gu_video_seconds = 0, gu_audio_seconds = 0,
       gu_character_count = 0, gu_audio_duration_ms = 0, gu_video_duration_ms = 0, gu_storage_bytes = 0, gu_billable_units = 0\<rparr>\<rparr>"

text \<open>After the provider has answered.\<close>

definition worker_capture ::
  "worker_env \<Rightarrow> nat \<Rightarrow> gen_db \<Rightarrow> GenerationRecord \<Rightarrow> uuid \<Rightarrow> GenerationExecutionResult \<Rightarrow> (worker_exn + CaptureResult) \<times> gen_db" where
  "worker_capture env i db job reservation_id result =
     (let before = wv_other env i db in
      case billing_usage (er_usage result) of
        Inl _ \<Rightarrow> (Inl OtherException, before)
      | Inr meters \<Rightarrow>
          (case gen_capture before (wv_uuid env i) (wv_uuid env (Suc i)) (wv_now env i) (gr_tenant_id job) reservation_id (Some meters) of
             (r, db') \<Rightarrow> (map_error (\<lambda>_. OtherException) r, db')))"

definition store_result ::
  "worker_env \<Rightarrow> gen_db \<Rightarrow> GenerationRecord \<Rightarrow> uuid \<Rightarrow> GenerationExecutionResult \<Rightarrow> attempt_result" where
  "store_result env db job reservation_id result =
     attempt (worker_ensure_live env 5 db job ''after_provider'') job (\<lambda>_ db.
     attempt (worker_transition env 6 db job Submitted Running None (er_provider_request_id result) (er_provider_task_id result)) job (\<lambda>job db.
     attempt (worker_transition env 7 db job Running Storing None None None) job (\<lambda>job db.
     attempt (worker_ensure_live env 8 db job ''before_capture'') job (\<lambda>_ db.
     attempt (worker_complete env 9 db job result) job (\<lambda>job db.
     attempt (worker_capture env 10 db job reservation_id result) job (\<lambda>_ db. (Inr (), job, db)))))))"

definition submit_and_store :: "worker_env \<Rightarrow> gen_db \<Rightarrow> GenerationRecord \<Rightarrow> uuid \<Rightarrow> attempt_result" where
  "submit_and_store env db job reservation_id =
     attempt (worker_transition env 3 db job Queued Submitted None None None) job (\<lambda>job db.
     attempt (guarded_execute env, wv_other env 4 db) job (\<lambda>found db.
     store_result env db job reservation_id (case found of None \<Rightarrow> empty_result | Some result \<Rightarrow> result)))"

definition execute_body :: "worker_env \<Rightarrow> gen_db \<Rightarrow> GenerationRecord \<Rightarrow> uuid \<Rightarrow> attempt_result" where
  "execute_body env db job reservation_id =
     attempt (worker_transition env 0 db job Reserved Queued None None None) job (\<lambda>job db.
     attempt (worker_ensure_live env 1 db job ''before_provider'') job (\<lambda>_ db.
     attempt (wv_resolve env, wv_other env 2 db) job (\<lambda>_ db.
     case wv_admission env of
       Inl ConcurrencyUnavailable \<Rightarrow>
         attempt (requeue_after_saturation env 3 db job) job (\<lambda>_ db. (Inl AdmissionUnavailable, job, db))
     | Inl _ \<Rightarrow> (Inl OtherException, job, db)
     | Inr None \<Rightarrow> attempt (requeue_after_saturation env 3 db job) job (\<lambda>_ db. (Inl ConcurrencySaturated, job, db))
     | Inr (Some _) \<Rightarrow> submit_and_store env db job reservation_id)))"

text \<open>The handlers.\<close>

definition unknown_outcome :: "GenerationRecord \<Rightarrow> worker_exn \<Rightarrow> bool" where
  "unknown_outcome job e \<longleftrightarrow> gr_status job = Submitted \<and> submission_is_uncertain e"

definition handle_exception :: "worker_env \<Rightarrow> GenerationRecord \<Rightarrow> worker_exn \<Rightarrow> gen_db \<Rightarrow> (worker_exn + unit) \<times> gen_db" where
  "handle_exception env job e db =
     (if e \<in> {ConcurrencySaturated, AdmissionUnavailable} then (Inl e, db)
      else
        let failed = (if unknown_outcome job e then worker_fail env 12 db job Submitted ''GENERATION_SUBMITTED_UNKNOWN''
                      else if gr_status job \<in> set LEASED_STATUSES
                      then worker_fail env 12 db job (gr_status job) ''GENERATION_EXECUTION_FAILED'' else db);
            settled = (case gr_billing_reservation_id job of
                         None \<Rightarrow> failed
                       | Some rid \<Rightarrow>
                           if \<not> unknown_outcome job e \<and> gr_status job \<noteq> Succeeded
                           then release_quietly env 13 failed (gr_tenant_id job) rid else failed)
        in (Inl (InfraError ''GENERATION_EXECUTION_FAILED''), settled))"

definition execute_claimed :: "worker_env \<Rightarrow> gen_db \<Rightarrow> GenerationRecord \<Rightarrow> (worker_exn + unit) \<times> gen_db" where
  "execute_claimed env db job =
     (if gr_status job \<noteq> Reserved \<or> is_terminal (gr_status job) then (Inr (), db)
      else
        (case require_job_fence job of
           Inl e \<Rightarrow> (Inl e, db)
         | Inr _ \<Rightarrow>
             (case gr_billing_reservation_id job of
                None \<Rightarrow> (Inl (InfraError ''GENERATION_BILLING_RESERVATION_MISSING''),
                         worker_fail env 12 db job Reserved ''GENERATION_BILLING_RESERVATION_MISSING'')
              | Some reservation_id \<Rightarrow>
                  (case execute_body env db job reservation_id of
                     (Inr _, _, db') \<Rightarrow> (Inr (), db')
                   | (Inl e, job', db') \<Rightarrow> handle_exception env job' e db'))))"

subsection \<open>Deliveries\<close>

record OutboxRecord =
  or_event_id :: uuid
  or_tenant_id :: uuid
  or_aggregate_type :: string
  or_aggregate_id :: uuid
  or_event_type :: string
  or_aggregate_version :: int
  or_payload :: "(string \<times> json) list"
  or_attempts :: int

definition outbox_record :: "OutboxRow \<Rightarrow> OutboxRecord" where
  "outbox_record row = \<lparr>or_event_id = o_id row, or_tenant_id = o_tenant_id row, or_aggregate_type = o_aggregate_type row,
     or_aggregate_id = o_aggregate_id row, or_event_type = o_event_type row, or_aggregate_version = o_aggregate_version row,
     or_payload = o_payload row, or_attempts = o_attempts row\<rparr>"

text \<open>
  \<open>UUID(str(raw))\<close>: only text and decimal integers can print as 32 hexadecimal digits; the text of every
  other value has a character \<open>int(text, 16)\<close> refuses or another length.
\<close>

definition event_job_id :: "OutboxRecord \<Rightarrow> worker_exn + uuid" where
  "event_job_id event =
     (case map_of (or_payload event) ''job_id'' of
        Some (JStr raw) \<Rightarrow> (case parse_uuid raw of Some u \<Rightarrow> Inr u | None \<Rightarrow> Inl (InfraError ''GENERATION_EVENT_INVALID''))
      | Some (JInt i) \<Rightarrow> (case parse_uuid (str_int i) of Some u \<Rightarrow> Inr u | None \<Rightarrow> Inl (InfraError ''GENERATION_EVENT_INVALID''))
      | _ \<Rightarrow> Inl (InfraError ''GENERATION_EVENT_INVALID''))"

definition GENERATION_DEPENDENCIES :: "string list" where
  "GENERATION_DEPENDENCIES = [''provider_resolver'', ''artifact_storage'', ''executor'', ''heartbeat'', ''concurrency'']"

definition require_dependencies :: "worker_env \<Rightarrow> worker_exn + unit" where
  "require_dependencies env =
     (let missing = filter (\<lambda>name. name \<notin> set (wv_configured env)) GENERATION_DEPENDENCIES in
      let missing = (if list_all (\<lambda>name. name \<notin> set (wv_configured env)) [''billing'', ''billing_factory'', ''billing_session_factory'']
                     then missing @ [''billing''] else missing) in
      if missing \<noteq> [] then Inl (InfraError ''GENERATION_WORKER_NOT_CONFIGURED'') else Inr ())"

definition worker_process :: "worker_env \<Rightarrow> gen_db \<Rightarrow> OutboxRecord \<Rightarrow> (worker_exn + unit) \<times> gen_db" where
  "worker_process env db event =
     (case require_dependencies env of
        Inl e \<Rightarrow> (Inl e, db)
      | Inr _ \<Rightarrow>
          if or_aggregate_type event \<noteq> ''generation_job'' \<or> or_event_type event \<noteq> ''generation.accepted''
          then (Inl (InfraError ''GENERATION_EVENT_INVALID''), db)
          else
            (case event_job_id event of
               Inl e \<Rightarrow> (Inl e, db)
             | Inr jid \<Rightarrow>
                 (case claim_accepted (wv_other env 20 db) (wv_now env 20) (wv_locked env) (wv_uuid env 20) (or_tenant_id event) jid
                         (wv_worker_id env) (wv_lease_seconds env) of
                    (Inl e, db') \<Rightarrow> (Inl (worker_raise e), db')
                  | (Inr None, db') \<Rightarrow> (Inr (), db')
                  | (Inr (Some job), db') \<Rightarrow> execute_claimed env db' job)))"

definition worker_run_once ::
  "worker_env \<Rightarrow> gen_db \<Rightarrow> uuid option \<Rightarrow> string list option \<Rightarrow> (worker_exn + bool) \<times> gen_db" where
  "worker_run_once env db tenant modalities =
     (case require_dependencies env of
        Inl e \<Rightarrow> (Inl e, db)
      | Inr _ \<Rightarrow>
          (case claim_next_accepted (wv_other env 20 db) (wv_now env 20) (wv_locked env) (wv_uuid env 20) tenant modalities
                  (wv_worker_id env) (wv_lease_seconds env) of
             (Inl e, db') \<Rightarrow> (Inl (worker_raise e), db')
           | (Inr None, db') \<Rightarrow> (Inr False, db')
           | (Inr (Some job), db') \<Rightarrow>
               (case execute_claimed env db' job of (Inl e, db'') \<Rightarrow> (Inl e, db'') | (Inr _, db'') \<Rightarrow> (Inr True, db''))))"

end
