(* ===== verification/Worker_Properties.thy ===== *)
theory Worker_Properties
  imports Generation_Worker Generation_Books
begin

text \<open>
  What the generation worker guarantees under interference. The locales state the calls a worker makes as
  steps of a relation between databases; the worker's own code then stays in that relation whatever the
  other processes do, as long as they stay in it too.
\<close>

subsection \<open>Rely and guarantee\<close>

text \<open>The calls that only write job rows.\<close>

locale job_calls =
  fixes R :: "gen_db \<Rightarrow> gen_db \<Rightarrow> bool"
  assumes stay: "R db db"
    and trans: "R db db1 \<Longrightarrow> R db1 db2 \<Longrightarrow> R db db2"
    and transition: "R db (snd (transition db now t jid expected target ec rq tk ob lt f))"
    and ensure_live: "R db (snd (ensure_live db now n t jid w lt f phase))"
begin

lemma fenced_call:
  assumes "\<And>lt f. R db (snd (call lt f))"
  shows "R db (snd (fenced_call job db call))"
  using assms stay by (auto simp: fenced_call_def split: sum.splits prod.splits) (metis snd_conv)

lemma worker_transition:
  assumes "\<And>i db. R db (wv_other env i db)"
  shows "R db (snd (worker_transition env i db job expected target ec rq tk))"
  unfolding worker_transition_def Let_def by (rule trans [OF assms fenced_call]) (rule transition)

lemma worker_ensure_live:
  assumes "\<And>i db. R db (wv_other env i db)"
  shows "R db (snd (worker_ensure_live env i db job phase))"
  unfolding worker_ensure_live_def Let_def by (rule trans [OF assms fenced_call]) (rule ensure_live)

lemma worker_fail:
  assumes "\<And>i db. R db (wv_other env i db)"
  shows "R db (worker_fail env i db job expected code)"
  unfolding worker_fail_def by (rule worker_transition [OF assms])

lemma requeue:
  assumes "\<And>i db. R db (wv_other env i db)"
  shows "R db (snd (requeue_after_saturation env i db job))"
  using worker_transition [OF assms, of db i job Queued Accepted None None None] stay
  by (auto simp: requeue_after_saturation_def split: prod.splits sum.splits)

lemma attempt:
  assumes "R db (snd m)" and "\<And>x db1. m = (Inr x, db1) \<Longrightarrow> R db1 (snd (snd (k x db1)))"
  shows "R db (snd (snd (attempt m job k)))"
  using assms by (auto simp: attempt_def split: prod.splits sum.splits intro: trans)

end

text \<open>With the calls that move money.\<close>

locale worker_calls = job_calls +
  assumes complete: "R db (snd (complete db now ids uid t jid expected arts usage rq tk lt f))"
    and capture: "R db (snd (gen_capture db lid1 lid2 now t rid u))"
    and release: "R db (snd (gen_release db lid now t rid))"
    and claim_accepted: "R db (snd (claim_accepted db now locked tok t jid w n))"
    and claim_next: "R db (snd (claim_next_accepted db now locked tok tn ms w n))"
begin

lemma worker_complete:
  assumes "\<And>i db. R db (wv_other env i db)"
  shows "R db (snd (worker_complete env i db job result))"
  unfolding worker_complete_def Let_def by (rule trans [OF assms fenced_call]) (rule complete)

lemma worker_capture:
  assumes "\<And>i db. R db (wv_other env i db)"
  shows "R db (snd (worker_capture env i db job rid result))"
  using trans [OF assms] assms capture by (auto simp: worker_capture_def Let_def split: sum.splits prod.splits) (metis snd_conv)

lemma release_quietly:
  assumes "\<And>i db. R db (wv_other env i db)"
  shows "R db (release_quietly env i db t rid)"
  unfolding release_quietly_def by (rule trans [OF assms release])

lemma store_result:
  assumes "\<And>i db. R db (wv_other env i db)"
  shows "R db (snd (snd (store_result env db job rid result)))"
  unfolding store_result_def
  by (intro attempt worker_ensure_live worker_transition worker_complete worker_capture assms) (simp add: stay)

lemma execute_body:
  assumes "\<And>i db. R db (wv_other env i db)"
  shows "R db (snd (snd (execute_body env db job rid)))"
  unfolding execute_body_def submit_and_store_def
  by (auto intro!: attempt worker_ensure_live worker_transition requeue store_result assms
      split: sum.splits concurrency_error.splits option.splits simp: stay assms)

lemma handle_exception:
  assumes "\<And>i db. R db (wv_other env i db)"
  shows "R db (snd (handle_exception env job e db))"
proof -
  have fail: "R db (if unknown_outcome job e then worker_fail env 12 db job Submitted ''GENERATION_SUBMITTED_UNKNOWN''
      else if gr_status job \<in> set LEASED_STATUSES
      then worker_fail env 12 db job (gr_status job) ''GENERATION_EXECUTION_FAILED'' else db)" (is "R db ?failed")
    using worker_fail [OF assms] stay by auto
  then have "R db (release_quietly env 13 ?failed t rid)" for t rid by (rule trans) (rule release_quietly [OF assms])
  with fail show ?thesis using stay by (auto simp: handle_exception_def Let_def split: option.splits)
qed

lemma execute_claimed:
  assumes "\<And>i db. R db (wv_other env i db)"
  shows "R db (snd (execute_claimed env db job))"
proof -
  have "R db (snd (case execute_body env db job rid of (Inr _, _, db') \<Rightarrow> (Inr (), db') | (Inl e, job', db') \<Rightarrow> handle_exception env job' e db'))" for rid
    using execute_body [OF assms, of db job rid] handle_exception [OF assms]
    by (auto split: sum.splits prod.splits intro: trans)
  then show ?thesis using stay worker_fail [OF assms] by (auto simp: execute_claimed_def split: sum.splits option.splits)
qed

lemma process_claim:
  assumes "\<And>i db. R db (wv_other env i db)"
  shows "R db (snd (worker_process env db event))"
proof -
  have c: "R db (snd (claim_accepted (wv_other env 20 db) now locked tok t jid w n))" for now locked tok t jid w n
    by (rule trans [OF assms claim_accepted])
  have "R db (snd (execute_claimed env db' job))" if "R db db'" for db' job using trans [OF that execute_claimed [OF assms]] .
  with c show ?thesis using stay
    by (auto simp: worker_process_def require_dependencies_def Let_def split: sum.splits prod.splits option.splits) (metis snd_conv)+
qed

lemma run_once_claim:
  assumes "\<And>i db. R db (wv_other env i db)"
  shows "R db (snd (worker_run_once env db tenant modalities))"
proof (cases "claim_next_accepted (wv_other env 20 db) (wv_now env 20) (wv_locked env) (wv_uuid env 20) tenant modalities
    (wv_worker_id env) (wv_lease_seconds env)")
  case (Pair res db')
  have c: "R db db'" by (rule trans [OF assms [of db 20]]) (use claim_next Pair in \<open>metis snd_conv\<close>)
  have "R db (snd (execute_claimed env db' job))" for job using trans [OF c execute_claimed [OF assms]] .
  then show ?thesis using c Pair stay
    by (auto simp: worker_run_once_def require_dependencies_def Let_def split: sum.splits option.splits prod.splits) (metis snd_conv)+
qed

end

lemma gen_run_trans: "gen_run db1 db2 \<Longrightarrow> gen_run db db1 \<Longrightarrow> gen_run db db2"
  by (induction rule: gen_run.induct) (auto intro: run_step)

lemma run_one: "gen_step db db' \<Longrightarrow> gen_run db db'"
  by (rule run_step [OF run_here])

interpretation interleaved: worker_calls gen_run
  by unfold_locales (auto intro: run_here run_one gen_step.intros gen_run_trans)

interpretation books_untouched: job_calls "\<lambda>db db'. g_billing db' = g_billing db"
  by unfold_locales (simp_all add: fenced_billing lifecycle_billing)

text \<open>
  The worker writes through the repository's operations only, so what holds of every run of those, the fence, the
  one-way submission, final outcomes and balanced books, holds of the database a delivery leaves.
\<close>

lemma worker_is_run:
  assumes "\<And>i d. gen_run d (wv_other env i d)"
  shows "gen_run db (snd (worker_process env db event)) \<and> gen_run db (snd (worker_run_once env db tenant modalities))"
  using interleaved.process_claim [OF assms] interleaved.run_once_claim [OF assms] by blast

definition demo_env :: worker_env where
  "demo_env = \<lparr>wv_worker_id = ''w'', wv_lease_seconds = 60, wv_heartbeat_seconds = 120, wv_now = (\<lambda>i. 100 + int i),
     wv_uuid = (\<lambda>i. 200 + i), wv_other = (\<lambda>_ d. d), wv_locked = (\<lambda>_. False), wv_resolve = Inr (),
     wv_admission = Inr (Some []), wv_execute = Inl (ProviderError (Some 503)), wv_redis_lost = False, wv_db_lost = False,
     wv_configured = ''billing'' # GENERATION_DEPENDENCIES\<rparr>"

subsection \<open>Unknown outcomes keep the hold\<close>

lemma transition_status:
  assumes "transition db now t jid expected target ec rq tk ob lt f = (Inr r, db')"
  shows "gr_status r = target \<and> gr_job_id r = jid \<and> gr_tenant_id r = t"
proof -
  let ?P = "\<lambda>j. j_tenant_id j = t \<and> j_job_id j = jid \<and> j_status j = expected \<and> fenced now lt f j"
  have u: "update_one ?P (set_transition now target ec rq tk ob) db = Inr db'" "reload db' t jid = Inr (r, db')"
    using assms unfolding transition_def transaction_Inr_iff by (auto dest: reload_db reload_again)
  then have "rowcount ?P (g_jobs db) \<noteq> 0" by (simp add: update_one_Inr)
  then obtain j where j: "j \<in> set (g_jobs db)" "?P j" by (auto simp: rowcount_0_iff)
  have "set_transition now target ec rq tk ob j \<in> set (g_jobs db')"
    using u(1) j by (auto simp: update_one_Inr update_jobs_def set_update_where)
  moreover have "j_job_id (set_transition now target ec rq tk ob j) = jid"
    using j(2) set_transition_identity [of j] by (simp add: same_identity_def)
  ultimately show ?thesis
    using record_of_materialized [of db' t jid r "set_transition now target ec rq tk ob j"] u
    by (simp add: update_one_Inr reload_def split: option.splits)
qed

lemma complete_row:
  assumes "complete db now ids uid t jid expected arts usage rq tk lt f = (Inr r, db')"
  shows "gr_status r = Succeeded \<and> gr_tenant_id r = t \<and> jobs_ok db' \<and>
    (\<exists>j \<in> set (g_jobs db'). j_job_id j = jid \<and> j_id j = gr_db_id r \<and> j_status j = Succeeded)"
  using assms
proof (rule complete_Inr)
  fix job :: GenJob and new :: "GenArtifact list" and billing :: billing_db
  assume job: "filter (complete_fenced now t jid lt f) (g_jobs db) = [job]" "j_status job = Storing"
    and db': "db' = update_jobs (\<lambda>j. complete_fenced now t jid lt f j \<and> j_status j = Storing) (set_succeeded now rq tk)
       (db\<lparr>g_artifacts := g_artifacts db @ new, g_billing := billing\<rparr>)"
    and ok: "jobs_ok db'" "reload db' t jid = Inr (r, db')"
  have j: "job \<in> set (g_jobs db)" "complete_fenced now t jid lt f job" using job(1) by (auto simp: filter_eq_Cons_iff)
  let ?j = "set_succeeded now rq tk job"
  have f: "j_status ?j = Succeeded" "j_job_id ?j = jid" using j(2) by (simp_all add: set_succeeded_def Let_def drop_lease_def complete_fenced_def)
  have "?j \<in> set (g_jobs db')" using j job(2) by (auto simp: db' update_jobs_def set_update_where)
  then show ?thesis using record_of_materialized [of db' t jid r ?j] ok f
    by (auto simp: reload_def split: option.splits intro!: bexI [of _ ?j])
qed

lemma fenced_call_Inr:
  "fenced_call job db call = (Inr x, db') \<Longrightarrow> \<exists>lt f. require_job_fence job = Inr (lt, f) \<and> call lt f = (Inr x, db')"
  by (auto simp: fenced_call_def split: sum.splits prod.splits)

lemma worker_transition_status: "worker_transition env i db job ex tg ec rq tk = (Inr r, db') \<Longrightarrow>
    gr_status r = tg \<and> gr_job_id r = gr_job_id job \<and> gr_tenant_id r = gr_tenant_id job"
  unfolding worker_transition_def Let_def by (auto dest!: fenced_call_Inr transition_status)

lemma worker_complete_row:
  "worker_complete env i db job result = (Inr r, db') \<Longrightarrow> gr_status r = Succeeded \<and> gr_tenant_id r = gr_tenant_id job \<and> jobs_ok db' \<and>
    (\<exists>j \<in> set (g_jobs db'). j_job_id j = gr_job_id job \<and> j_id j = gr_db_id r \<and> j_status j = Succeeded)"
  unfolding worker_complete_def Let_def by (auto dest!: fenced_call_Inr complete_row)

lemma attempt_Inl:
  "attempt m job k = (Inl e, job', db') \<longleftrightarrow> m = (Inl e, db') \<and> job' = job \<or> (\<exists>x db1. m = (Inr x, db1) \<and> k x db1 = (Inl e, job', db'))"
  by (auto simp: attempt_def split: prod.splits sum.splits)

lemma attempt_Inr:
  "attempt m job k = (Inr y, job', db') \<longleftrightarrow> (\<exists>x db1. m = (Inr x, db1) \<and> k x db1 = (Inr y, job', db'))"
  by (auto simp: attempt_def split: prod.splits sum.splits)

lemma store_result_submitted:
  assumes "store_result env db job rid result = (Inl e, job', db')" and "gr_status job' = Submitted"
    and "\<And>i d. g_billing (wv_other env i d) = g_billing d"
  shows "g_billing db' = g_billing db"
  using assms(1,2) books_untouched.worker_transition [OF assms(3)] books_untouched.worker_ensure_live [OF assms(3)]
  unfolding store_result_def attempt_Inl
  by (auto dest: worker_transition_status worker_complete_row) (metis snd_conv)+

lemma execute_body_submitted:
  assumes "execute_body env db job rid = (Inl e, job', db')" and "gr_status job' = Submitted" and "gr_status job = Reserved"
    and "\<And>i d. g_billing (wv_other env i d) = g_billing d"
  shows "g_billing db' = g_billing db"
proof -
  note calls = books_untouched.worker_transition [OF assms(4)] books_untouched.worker_ensure_live [OF assms(4)]
  have submit: "g_billing d' = g_billing d" if "submit_and_store env d j rid = (Inl e, job', d')" "gr_status j = Queued" for d j d'
    using that assms(2) unfolding submit_and_store_def attempt_Inl
    by (auto dest!: store_result_submitted [OF _ assms(2,4)] simp: assms(4)) (metis calls(1) snd_conv)+
  have wait: "gr_status j = Queued \<Longrightarrow> attempt (requeue_after_saturation env 3 d j) j (\<lambda>_ d. (Inl x, j, d)) \<noteq> (Inl e, job', db')" for d j x
    using assms(2) by (auto simp: attempt_Inl)
  from assms(1) show ?thesis unfolding execute_body_def attempt_Inl
  proof (elim disjE exE conjE)
    fix j1 d1 u2 d2 u3 d3
    assume s: "worker_transition env 0 db job Reserved Queued None None None = (Inr j1, d1)"
      "worker_ensure_live env 1 d1 j1 ''before_provider'' = (Inr u2, d2)" "(wv_resolve env, wv_other env 2 d2) = (Inr u3, d3)"
      and rest: "(case wv_admission env of
          Inl ConcurrencyUnavailable \<Rightarrow> attempt (requeue_after_saturation env 3 d3 j1) j1 (\<lambda>_ d. (Inl AdmissionUnavailable, j1, d))
        | Inl _ \<Rightarrow> (Inl OtherException, j1, d3)
        | Inr None \<Rightarrow> attempt (requeue_after_saturation env 3 d3 j1) j1 (\<lambda>_ d. (Inl ConcurrencySaturated, j1, d))
        | Inr (Some _) \<Rightarrow> submit_and_store env d3 j1 rid) = (Inl e, job', db')"
    have q: "gr_status j1 = Queued" using worker_transition_status [OF s(1)] by simp
    have "g_billing d1 = g_billing db" "g_billing d2 = g_billing d1" using s(1,2) calls by (metis snd_conv)+
    then have "g_billing d3 = g_billing db" using s(3) assms(4) by auto
    moreover have "submit_and_store env d3 j1 rid = (Inl e, job', db')"
      using rest wait [OF q] assms(2) q by (auto split: sum.splits concurrency_error.splits option.splits)
    ultimately show ?thesis using submit q by metis
  qed (use assms(2,3) worker_transition_status in \<open>auto dest: worker_transition_status\<close>)
qed

text \<open>
  C21. An unknown outcome keeps the customer's hold: when the worker last saw its job as submitted and the
  exception does not prove that the provider did nothing, the delivery ends with an error and the worker
  has not touched wallet, hold, journal or usage.
\<close>

theorem uncertain_outcome_keeps_hold:
  assumes "gr_status job = Reserved" and "gr_billing_reservation_id job = Some rid" and "require_job_fence job = Inr fence"
    and "execute_body env db job rid = (Inl e, job', db')" and "gr_status job' = Submitted" and "submission_is_uncertain e"
    and "\<And>i d. g_billing (wv_other env i d) = g_billing d"
  shows "(\<exists>e'. fst (execute_claimed env db job) = Inl e') \<and> g_billing (snd (execute_claimed env db job)) = g_billing db"
proof -
  have "execute_claimed env db job = handle_exception env job' e db'"
    using assms(1-4) by (simp add: execute_claimed_def is_terminal_def TERMINAL_STATUSES_def)
  moreover have "g_billing (snd (handle_exception env job' e db')) = g_billing db'"
    using assms(5,6) books_untouched.worker_fail [OF assms(7)]
    by (auto simp: handle_exception_def Let_def unknown_outcome_def split: option.splits)
  moreover have "\<exists>e'. fst (handle_exception env job' e db') = Inl e'" by (simp add: handle_exception_def Let_def)
  ultimately show ?thesis using execute_body_submitted [OF assms(4,5,1,7)] by simp
qed

definition held_job_db :: gen_db where
  "held_job_db = (demo_gen [(demo_job 1 Reserved (Some 9) 1)\<lparr>j_billing_reservation_id := Some 20,
       j_accepted_model_revision_id := Some 4, j_accepted_model_deployment_id := Some 3, j_accepted_routing_policy_id := Some 5,
       j_accepted_price_version_id := Some 1, j_accepted_capability_schema_version := Some 1,
       j_accepted_capability_schema_hash := Some (replicate 64 CHR ''0''), j_accepted_capability_schema := Some (JObj []),
       j_accepted_input_snapshot := Some (JObj [])\<rparr>])
     \<lparr>g_billing := held_db\<lparr>price_versions := [demo_tariff],
        reservations := map (\<lambda>r. r\<lparr>r_source_type := ''generation'', r_source_id := 1\<rparr>) (reservations held_db)\<rparr>\<rparr>"

definition held_record :: GenerationRecord where
  "held_record = the (get_by_job_id held_job_db 1 101 None)"

lemmas worker_unfold =
  execute_body_def submit_and_store_def store_result_def attempt_def held_record_def held_job_db_def held_db_eval granted_db_eval

theorem uncertain_outcome_keeps_hold_witness:
  "g_billing (snd (execute_claimed demo_env held_job_db held_record)) = g_billing held_job_db"
proof -
  let ?b = "execute_body demo_env held_job_db held_record 20"
  have "case ?b of (Inl e, job', db') \<Rightarrow> submission_is_uncertain e \<and> gr_status job' = Submitted | _ \<Rightarrow> False"
    unfolding worker_unfold by code_simp
  then obtain e job' db' where b: "?b = (Inl e, job', db')" "gr_status job' = Submitted" "submission_is_uncertain e"
    by (auto split: prod.splits sum.splits)
  have "gr_status held_record = Reserved" "gr_billing_reservation_id held_record = Some 20" "require_job_fence held_record = Inr (9, 1)"
    unfolding held_record_def held_job_db_def by code_simp+
  from uncertain_outcome_keeps_hold [OF this b] show ?thesis by (simp add: demo_env_def)
qed

subsection \<open>Success is settled\<close>

lemma gen_capture_committed:
  assumes "gen_capture db lid1 lid2 now t rid usage = (Inr c, db')" and "billing_inv (g_billing db)"
  shows "\<exists>r \<in> set (reservations (g_billing db')). r_id r = rid \<and> r_tenant_id r = t \<and> r_status r = ''committed''"
proof -
  obtain b where b: "capture (billing_of db) lid1 lid2 now t rid None usage = (Inr c, b)" "g_billing db' = b"
    using assms(1) by (auto simp: gen_capture_def split: prod.splits)
  have "billing_inv (billing_of db)" using assms(2) by simp
  moreover have "capture_body (billing_of db) lid1 lid2 now t rid None usage = Inr (c, b)" using b(1) by (simp add: capture_Inr_iff)
  ultimately show ?thesis by (rule capture_body_row) (use b(2) in blast)
qed

lemma store_result_settled:
  assumes "store_result env db job rid result = (Inr y, job', db')" and "\<And>i d. gen_run d (wv_other env i d)"
    and "billing_inv (g_billing db)" and "jobs_ok db"
  shows "(\<exists>j \<in> set (g_jobs db'). j_job_id j = gr_job_id job \<and> j_status j = Succeeded) \<and>
    (\<exists>r \<in> set (reservations (g_billing db')). r_id r = rid \<and> r_tenant_id r = gr_tenant_id job \<and> r_status r = ''committed'')"
proof -
  obtain u1 d1 j2 d2 j3 d3 u4 d4 c d6 where
    s: "worker_ensure_live env 5 db job ''after_provider'' = (Inr u1, d1)"
      "worker_transition env 6 d1 job Submitted Running None (er_provider_request_id result) (er_provider_task_id result) = (Inr j2, d2)"
      "worker_transition env 7 d2 j2 Running Storing None None None = (Inr j3, d3)"
      "worker_ensure_live env 8 d3 j3 ''before_capture'' = (Inr u4, d4)"
      "worker_complete env 9 d4 j3 result = (Inr job', d6)" "worker_capture env 10 d6 job' rid result = (Inr c, db')"
    using assms(1) unfolding store_result_def attempt_Inr by blast
  have ids: "gr_job_id j3 = gr_job_id job" "gr_tenant_id job' = gr_tenant_id job"
    using worker_transition_status [OF s(2)] worker_transition_status [OF s(3)] worker_complete_row [OF s(5)] by auto
  obtain j where j: "jobs_ok d6" "j \<in> set (g_jobs d6)" "j_job_id j = gr_job_id job" "j_status j = Succeeded"
    using worker_complete_row [OF s(5)] ids by auto
  let ?b = "wv_other env 10 d6"
  have run: "gen_run db d6"
  proof -
    have "gen_run db d1" "gen_run d3 d4" using interleaved.worker_ensure_live [OF assms(2)] s(1,4) by (metis snd_conv)+
    moreover have "gen_run d1 d2" "gen_run d2 d3" using interleaved.worker_transition [OF assms(2)] s(2,3) by (metis snd_conv)+
    moreover have "gen_run d4 d6" using interleaved.worker_complete [OF assms(2)] s(5) by (metis snd_conv)
    ultimately show ?thesis by (blast intro: gen_run_trans)
  qed
  then have inv: "billing_inv (g_billing ?b)" using gen_run_inv assms(2,3) by blast
  obtain meters where cap: "gen_capture ?b (wv_uuid env 10) (wv_uuid env (Suc 10)) (wv_now env 10) (gr_tenant_id job') rid (Some meters) = (Inr c, db')"
    using s(6) unfolding worker_capture_def Let_def by (auto split: sum.splits prod.splits)
  obtain i where i: "i < length (g_jobs d6)" "g_jobs d6 ! i = j" using j(2) by (auto simp: in_set_conv_nth)
  let ?j = "g_jobs ?b ! i"
  have "i < length (g_jobs ?b)" "job_path j ?j" using gen_run_path [OF assms(2) j(1) i(1)] i(2) by auto
  then have "?j \<in> set (g_jobs ?b)" "j_job_id ?j = gr_job_id job" "j_status ?j = Succeeded"
    using j(3,4) by (auto simp: job_path_def same_identity_def is_terminal_def TERMINAL_STATUSES_def)
  moreover have "g_jobs db' = g_jobs ?b" using gen_capture_jobs [of ?b] cap by (metis snd_conv)
  ultimately show ?thesis using gen_capture_committed [OF cap inv] ids(2) by auto
qed

lemma execute_body_Inr:
  assumes "execute_body env db job rid = (Inr y, job', db')" and "\<And>i d. gen_run d (wv_other env i d)"
  obtains j d result where "gen_run db d" "gr_job_id j = gr_job_id job" "gr_tenant_id j = gr_tenant_id job"
    "store_result env d j rid result = (Inr y, job', db')"
proof -
  obtain j1 d1 u2 d2 ls where
    s: "worker_transition env 0 db job Reserved Queued None None None = (Inr j1, d1)"
      "worker_ensure_live env 1 d1 j1 ''before_provider'' = (Inr u2, d2)"
    and submit: "submit_and_store env (wv_other env 2 d2) j1 rid = (Inr y, job', db')"
    using assms(1) unfolding execute_body_def attempt_Inr
    by (cases "wv_admission env"; cases "projl (wv_admission env)"; clarsimp simp: attempt_Inr split: option.splits)
  from submit obtain j3 d3 found where
    t: "worker_transition env 3 (wv_other env 2 d2) j1 Queued Submitted None None None = (Inr j3, d3)"
    and rest: "store_result env (wv_other env 4 d3) j3 rid (case found of None \<Rightarrow> empty_result | Some r \<Rightarrow> r) = (Inr y, job', db')"
    unfolding submit_and_store_def attempt_Inr by clarsimp
  have "gen_run db d1" "gen_run d1 d2" "gen_run (wv_other env 2 d2) d3"
    using interleaved.worker_transition [OF assms(2), where i = 0] interleaved.worker_ensure_live [OF assms(2), where i = 1]
      interleaved.worker_transition [OF assms(2), where i = 3] s t by (metis snd_conv)+
  then have "gen_run db (wv_other env 4 d3)" using assms(2) gen_run_trans by metis
  with rest show ?thesis
    using worker_transition_status [OF s(1)] worker_transition_status [OF t] by (intro that [OF _ _ _ rest]) simp_all
qed

text \<open>
  C22. A delivery that reports success has settled: the job is succeeded and its hold is committed, in the
  database it leaves, under any interference.
\<close>

theorem worker_success_settled:
  assumes "execute_claimed env db job = (Inr (), db')" and "gr_status job = Reserved"
    and "\<And>i d. gen_run d (wv_other env i d)" and "billing_inv (g_billing db)" and "jobs_ok db"
  shows "(\<exists>j \<in> set (g_jobs db'). j_job_id j = gr_job_id job \<and> j_status j = Succeeded) \<and>
    (\<exists>r \<in> set (reservations (g_billing db')). Some (r_id r) = gr_billing_reservation_id job \<and>
       r_tenant_id r = gr_tenant_id job \<and> r_status r = ''committed'')"
proof -
  have raises: "fst (handle_exception env j e d) \<noteq> Inr ()" for j e d by (simp add: handle_exception_def Let_def)
  obtain rid job' where rid: "gr_billing_reservation_id job = Some rid" and b: "execute_body env db job rid = (Inr (), job', db')"
    using assms(1,2) raises unfolding execute_claimed_def is_terminal_def TERMINAL_STATUSES_def
    by (clarsimp split: sum.splits option.splits prod.splits) (metis fst_conv)
  from b assms(3) show ?thesis
  proof (rule execute_body_Inr)
    fix j d result
    assume r: "gen_run db d" "gr_job_id j = gr_job_id job" "gr_tenant_id j = gr_tenant_id job"
      "store_result env d j rid result = (Inr (), job', db')"
    from store_result_settled [OF r(4) assms(3) gen_run_inv [OF r(1) assms(4)] gen_run_ok [OF r(1) assms(5)]] r(2,3) rid
    show ?thesis by auto
  qed
qed

definition done_env :: worker_env where
  "done_env = demo_env\<lparr>wv_execute := Inr (Some \<lparr>er_artifacts = [demo_artifact], er_provider_request_id = None,
     er_provider_task_id = None, er_usage = demo_usage\<rparr>)\<rparr>"

theorem worker_success_settled_witness:
  "\<exists>j \<in> set (g_jobs (snd (execute_claimed done_env held_job_db held_record))). j_job_id j = 101 \<and> j_status j = Succeeded"
proof -
  let ?c = "execute_claimed done_env held_job_db held_record"
  have "fst ?c = Inr ()"
    unfolding execute_claimed_def worker_unfold by code_simp
  then have c: "?c = (Inr (), snd ?c)" by (metis prod.collapse)
  have f: "gr_status held_record = Reserved" "gr_job_id held_record = 101"
    unfolding held_record_def held_job_db_def by code_simp+
  have run: "gen_run d (wv_other done_env i d)" for i d by (simp add: done_env_def demo_env_def run_here)
  have ok: "jobs_ok held_job_db" unfolding held_job_db_def by code_simp
  have inv: "billing_inv (g_billing held_job_db)" unfolding held_job_db_def held_db_eval granted_db_eval by code_simp
  from worker_success_settled [OF c f(1) run inv ok] f(2) show ?thesis by simp
qed

subsection \<open>A lost lease after the provider answered\<close>

text \<open>
  The lease lapses between the transitions to running and to storing and the reconciler parks the job as an
  unknown outcome, whose hold must stay. The worker, which last saw the job running, cannot mark it failed,
  ignores that, and releases the hold: the job awaits reconciliation without one, and a later completion
  by the recovery has nothing to capture.
\<close>

definition lapsed_env :: worker_env where
  "lapsed_env = done_env\<lparr>wv_now := (\<lambda>i. if i < 7 then 100 + int i else 200000000 + int i),
     wv_other := (\<lambda>i d. if i = 7 then snd (reconcile_stalled_once d 200000000 (\<lambda>_. False) 1200 50) else d)\<rparr>"

theorem lapsed_lease_releases_hold:
  "(case execute_claimed lapsed_env held_job_db held_record of (_, db) \<Rightarrow>
     map j_status (g_jobs db) = [Submitted_unknown] \<and> map j_reconciliation_status (g_jobs db) = [''pending''] \<and>
     map r_status (reservations (g_billing db)) = [''released''])"
  unfolding execute_claimed_def worker_unfold by code_simp

end
