(* ===== verification/Delivery_Properties.thy ===== *)
theory Delivery_Properties
  imports Acceptance_Properties Worker_Properties
begin

text \<open>
  The path of one request through the components: the event an acceptance stores names a job that the
  worker, reading the event back, claims.
\<close>

lemma claimed_row_ok:
  assumes "job_check j" and "job_widths j" and "validate_claim_input w n = Inr ()" and "j_fencing_token j = 0"
  shows "job_check (take_claim j w tok n now j) \<and> job_widths (take_claim j w tok n now j)"
proof -
  have "w \<noteq> []" "length w \<le> 200" using assms(3) by (auto simp: validate_claim_input_def blank_def strip_def)
  with assms show ?thesis
    by (auto simp: take_claim_def job_check_def job_widths_def lease_consistent_def fits_def)
qed

lemma take_claim_keys:
  "j_id (take_claim j w tok n now x) = j_id x" "j_job_id (take_claim j w tok n now x) = j_job_id x"
  "j_tenant_id (take_claim j w tok n now x) = j_tenant_id x" "j_model_deployment_id (take_claim j w tok n now x) = j_model_deployment_id x"
  "j_provider_request_id (take_claim j w tok n now x) = j_provider_request_id x" "j_provider_task_id (take_claim j w tok n now x) = j_provider_task_id x"
  by (simp_all add: take_claim_def)

lemma claim_last:
  assumes ok: "jobs_ok db" and jobs: "g_jobs db = js @ [j]" and u: "unleased_accepted j" and fence: "j_fencing_token j = 0"
    and d: "map_of (g_deployments db) (j_model_deployment_id j) = Some d"
    and v: "validate_claim_input w n = Inr ()" and l: "\<not> locked (j_id j)"
  shows "\<exists>db'. claim_accepted db now locked tok (j_tenant_id j) (j_job_id j) w n =
    (Inr (Some (materialize db' (j_tenant_id j) (take_claim j w tok n now j, d))), db')"
proof -
  let ?P = "\<lambda>x. j_tenant_id x = j_tenant_id j \<and> j_job_id x = j_job_id j \<and> unleased_accepted x"
  let ?db = "update_jobs ?P (take_claim j w tok n now) db"
  have fresh: "j_job_id j \<notin> j_job_id ` set js" using jobs_ok_keys(2) [OF ok] jobs by simp
  then have none: "x \<in> set js \<Longrightarrow> j_job_id x \<noteq> j_job_id j" for x by (metis image_eqI)
  then have upd: "update_where ?P (take_claim j w tok n now) js = js" by (intro update_where_id) auto
  have jobs': "g_jobs ?db = js @ [take_claim j w tok n now j]"
    using upd u by (simp add: update_jobs_def jobs update_where_def)
  have keys: "provider_keys j_provider_request_id (js @ [take_claim j w tok n now j]) = provider_keys j_provider_request_id (js @ [j])"
    "provider_keys j_provider_task_id (js @ [take_claim j w tok n now j]) = provider_keys j_provider_task_id (js @ [j])"
    by (simp_all add: provider_keys_def take_claim_keys)
  have "j_fencing_token (take_claim j w tok n now j) = 1" using fence by (simp add: take_claim_def)
  then have "jobs_ok ?db"
    using ok claimed_row_ok [OF _ _ v fence, of tok now] unfolding jobs_ok_def jobs jobs' keys
    by (simp add: take_claim_keys bigint_def)
  moreover have "filter ?P js = []" using none by (auto simp: filter_empty_conv)
  then have "rowcount ?P (g_jobs db) = 1" using u by (simp add: rowcount_def jobs)
  moreover have q: "filter (\<lambda>(x, _). j_tenant_id x = j_tenant_id j \<and> j_job_id x = j_job_id j \<and> Q x) (job_query ds js) = []" for Q ds
    using none by (auto simp: filter_empty_conv dest!: job_query_in)
  have deps: "g_deployments ?db = g_deployments db" by (simp add: update_jobs_def)
  have "get_by_job_id ?db (j_tenant_id j) (j_job_id j) None = Some (materialize ?db (j_tenant_id j) (take_claim j w tok n now j, d))"
    using q [of "\<lambda>_. True" "g_deployments ?db"] d jobs' deps
    by (simp add: get_by_job_id_def job_query_append take_claim_keys)
  ultimately have "claim_row db j w tok n now = Inr (Some (materialize ?db (j_tenant_id j) (take_claim j w tok n now j, d)), ?db)"
    by (auto simp: claim_row_def Let_def)
  moreover have "first_row (filter (\<lambda>(x, _). j_tenant_id x = j_tenant_id j \<and> j_job_id x = j_job_id j \<and> unleased_accepted x \<and> \<not> locked (j_id x))
      (job_query (g_deployments db) (g_jobs db))) = Some (j, d)"
    using q [of "\<lambda>x. unleased_accepted x \<and> \<not> locked (j_id x)"] d u l by (simp add: jobs job_query_append)
  ultimately show ?thesis using v by (auto simp: claim_accepted_def transaction_def)
qed

text \<open>
  C23. What acceptance writes the worker reads back: the event of an accepted request, taken from the outbox as
  stored, names exactly the accepted job, and its delivery to a free worker claims that job under fence one,
  with its hold attached.
\<close>

theorem delivery_claims_accepted:
  assumes "accept s fr t actor request rh = (Inr r, s')" and "\<not> ag_replayed r" and "fr_job_id fr < 2 ^ 128"
    and "g_deployments (ac_gen s) = deployment_view (ac_catalog s)"
    and "validate_claim_input w n = Inr ()" and "\<not> locked (fr_db_id fr)"
  shows "\<exists>ev found db'. ac_outbox s' = ac_outbox s @ [ev] \<and> event_job_id (outbox_record ev) = Inr (fr_job_id fr) \<and>
    or_tenant_id (outbox_record ev) = t \<and>
    claim_accepted (ac_gen s') now locked tok t (fr_job_id fr) w n = (Inr (Some found), db') \<and>
    gr_db_id found = fr_db_id fr \<and> gr_job_id found = fr_job_id fr \<and> gr_status found = Reserved \<and> gr_fencing_token found = 1 \<and>
    gr_lease_token found = Some tok \<and> gr_billing_reservation_id found \<noteq> None"
proof -
  note a = accept_Inr_new [OF assms(1,2)]
  from conjunct1 [OF a] show ?thesis
  proof (rule accept_new_Inr)
    fix route :: DeploymentRoute and decision :: AcceptedDecisionSnapshot and reservation :: ReservationResult and billing :: billing_db
    let ?job = "accepted_job fr t actor request rh route decision"
    let ?j = "held_job fr (rr_reservation_id reservation) ?job"
    let ?ev = "accepted_event fr t request (rr_reservation_id reservation)"
    assume route: "resolve_route (ac_catalog s) t (cg_product_model_id request) (cg_modality request) = Some route"
      and ok: "jobs_ok ((ac_gen s)\<lparr>g_jobs := g_jobs (ac_gen s) @ [?job]\<rparr>)" and ok': "jobs_ok (ac_gen s')"
      and gen: "ac_gen s' = put_job ?j ((ac_gen s)\<lparr>g_jobs := g_jobs (ac_gen s) @ [?job], g_billing := billing\<rparr>)"
      and out: "ac_outbox s' = ac_outbox s @ [?ev]"
    have jobs: "g_jobs (ac_gen s') = g_jobs (ac_gen s) @ [?j]" using accept_new_jobs [OF ok] gen by simp
    have f: "j_tenant_id ?j = t" "j_job_id ?j = fr_job_id fr" "j_id ?j = fr_db_id fr" "unleased_accepted ?j" "j_fencing_token ?j = 0"
      "j_model_deployment_id ?j = ro_deployment_id route" "j_billing_reservation_id ?j \<noteq> None"
      by (simp_all add: held_job_def accepted_job_def unleased_accepted_def)
    obtain d where d: "map_of (g_deployments (ac_gen s')) (j_model_deployment_id ?j) = Some d"
      using route_in_view [OF route] assms(4) gen f(6) by (auto simp: put_job_def)
    obtain db' where c: "claim_accepted (ac_gen s') now locked tok t (fr_job_id fr) w n =
        (Inr (Some (materialize db' t (take_claim ?j w tok n now ?j, d))), db')"
      using claim_last [OF ok' jobs f(4,5) d assms(5), of locked now tok] assms(6) f by auto
    have "event_job_id (outbox_record ?ev) = Inr (fr_job_id fr)" "or_tenant_id (outbox_record ?ev) = t"
      using parse_str_uuid [OF assms(3)] by (simp_all add: event_job_id_def outbox_record_def accepted_event_def)
    then show ?thesis using c out f
      by (intro exI [of _ ?ev] exI [of _ "materialize db' t (take_claim ?j w tok n now ?j, d)"] exI [of _ db'])
        (simp add: materialize_def record_from_job_def take_claim_def split: prod.splits)
  qed
qed

theorem delivery_claims_accepted_witness:
  "\<exists>found db'. claim_accepted (ac_gen (snd (accept image_db image_fresh 1 5 image_request ''h''))) 2000 (\<lambda>_. False) 77 1 32 ''w'' 60 =
     (Inr (Some found), db') \<and> gr_db_id found = 31 \<and> gr_fencing_token found = 1"
proof -
  obtain r where r: "accept image_db image_fresh 1 5 image_request ''h'' = (Inr r, snd (accept image_db image_fresh 1 5 image_request ''h''))"
      "\<not> ag_replayed r" using image_accepted by blast
  have h: "fr_job_id image_fresh < 2 ^ 128" "g_deployments (ac_gen image_db) = deployment_view (ac_catalog image_db)"
    by (simp_all add: image_fresh_def image_db_rows)
  have v: "validate_claim_input ''w'' 60 = Inr ()" by code_simp
  from delivery_claims_accepted [OF r h v, of "\<lambda>_. False" 2000 77] show ?thesis
    by (auto simp: image_fresh_def)
qed

end
