(* ===== verification/Concurrency_Properties.thy ===== *)
theory Concurrency_Properties
  imports Concurrency
begin

text \<open>
  What the semaphore promises over any interleaving of the scripts of any number of processes: a run is a
  list of (clock reading, script call). Every key has one configured limit and one configured time to
  live, as the callers of \<open>app/infrastructure/concurrency.py\<close> do.
\<close>

subsection \<open>Runs\<close>

datatype redis_act = Acquire string string | Renew string string | Release string string

fun redis_exec :: "(string \<Rightarrow> int) \<Rightarrow> (string \<Rightarrow> int) \<Rightarrow> int \<Rightarrow> redis_act \<Rightarrow> redis \<Rightarrow> redis" where
  "redis_exec limits ttls now (Acquire k token) r = snd (ACQUIRE_SCRIPT r now k token (limits k) (ttls k))"
| "redis_exec limits ttls now (Renew k token) r = snd (RENEW_SCRIPT r now k token (ttls k))"
| "redis_exec limits ttls now (Release k token) r = snd (RELEASE_SCRIPT r now k token)"

fun redis_run :: "(string \<Rightarrow> int) \<Rightarrow> (string \<Rightarrow> int) \<Rightarrow> (int \<times> redis_act) list \<Rightarrow> redis \<Rightarrow> redis" where
  "redis_run limits ttls [] r = r"
| "redis_run limits ttls ((now, a) # evs) r = redis_run limits ttls evs (redis_exec limits ttls now a r)"

definition timed :: "int \<Rightarrow> (int \<times> redis_act) list \<Rightarrow> int \<Rightarrow> bool" where
  "timed from evs until \<longleftrightarrow> sorted (from # map fst evs @ [until])"

lemma timed_Cons [simp]:
  "timed from ((now, a) # evs) until \<longleftrightarrow> from \<le> now \<and> timed now evs until"
  by (auto simp: timed_def)

lemma timed_Nil [simp]: "timed from [] until \<longleftrightarrow> from \<le> until"
  by (simp add: timed_def)

definition configured :: "(string \<Rightarrow> int) \<Rightarrow> (string \<Rightarrow> int) \<Rightarrow> bool" where
  "configured limits ttls \<longleftrightarrow> (\<forall>k. 1 \<le> limits k \<and> 1 \<le> ttls k)"

subsection \<open>The invariant of one sorted set\<close>

text \<open>
  No token twice, no score further away than one time to live, none outliving the key, and at most the
  limit of scores in the future.
\<close>

definition zset_ok :: "int \<Rightarrow> int \<Rightarrow> int \<Rightarrow> zset \<Rightarrow> bool" where
  "zset_ok limit ttl now z \<longleftrightarrow>
     distinct (map fst (z_members z)) \<and>
     (\<forall>m \<in> set (z_members z). snd m \<le> now + ttl \<and> snd m \<le> z_expires_at z) \<and>
     int (length (unexpired now (z_members z))) \<le> limit"

definition redis_ok :: "(string \<Rightarrow> int) \<Rightarrow> (string \<Rightarrow> int) \<Rightarrow> int \<Rightarrow> redis \<Rightarrow> bool" where
  "redis_ok limits ttls now r \<longleftrightarrow> (\<forall>k z. r k = Some z \<longrightarrow> zset_ok (limits k) (ttls k) now z)"

lemma unexpired_mono: "now \<le> now' \<Longrightarrow> length (unexpired now' ms) \<le> length (unexpired now ms)"
  unfolding unexpired_def by (induction ms) auto

lemma unexpired_idem [simp]: "unexpired now (unexpired now ms) = unexpired now ms"
  by (simp add: unexpired_def)

lemma distinct_filter_fst: "distinct (map fst ms) \<Longrightarrow> distinct (map fst (filter P ms))"
  by (induction ms) auto

lemma zset_ok_later: "zset_ok limit ttl now z \<Longrightarrow> now \<le> now' \<Longrightarrow> zset_ok limit ttl now' z"
  using unexpired_mono [of now now' "z_members z"] by (force simp: zset_ok_def)

lemma redis_ok_later: "redis_ok limits ttls now r \<Longrightarrow> now \<le> now' \<Longrightarrow> redis_ok limits ttls now' r"
  by (auto simp: redis_ok_def intro: zset_ok_later)

lemma zset_ok_filter:
  assumes "zset_ok limit ttl now z"
  shows "zset_ok limit ttl now (z\<lparr>z_members := filter P (z_members z)\<rparr>)"
proof -
  have "length (unexpired now (filter P ms)) \<le> length (unexpired now ms)" for ms
    unfolding unexpired_def by (induction ms) auto
  from this [of "z_members z"] show ?thesis
    using assms by (fastforce simp: zset_ok_def distinct_filter_fst)
qed

lemma redis_ok_store:
  assumes "redis_ok limits ttls now r"
    and "ms \<noteq> [] \<Longrightarrow> zset_ok (limits k) (ttls k) now \<lparr>z_members = ms, z_expires_at = e\<rparr>"
  shows "redis_ok limits ttls now (zstore k ms e r)"
  using assms by (auto simp: redis_ok_def zstore_def)

text \<open>Dropping members of a key keeps the invariant, whatever the key's expiry did.\<close>

lemma redis_ok_drop:
  assumes "redis_ok limits ttls now r"
  shows "redis_ok limits ttls now (zstore k (filter P (zmembers r now k)) (zexpires r k) r)"
proof (rule redis_ok_store [OF assms])
  assume ne: "filter P (zmembers r now k) \<noteq> []"
  then obtain z where z: "r k = Some z" "zmembers r now k = z_members z" "zexpires r k = z_expires_at z"
    by (auto simp: zmembers_def zexpires_def split: option.splits if_splits)
  with assms have "zset_ok (limits k) (ttls k) now z" by (simp add: redis_ok_def)
  from zset_ok_filter [OF this, of P] z show
    "zset_ok (limits k) (ttls k) now \<lparr>z_members = filter P (zmembers r now k), z_expires_at = zexpires r k\<rparr>"
    by (cases z) simp
qed

lemma zmembers_ok:
  assumes "redis_ok limits ttls now r" and "configured limits ttls"
  shows "distinct (map fst (zmembers r now k)) \<and>
    (\<forall>m \<in> set (zmembers r now k). snd m \<le> now + ttls k) \<and>
    int (length (unexpired now (zmembers r now k))) \<le> limits k"
proof -
  have "0 \<le> limits k" using assms(2) by (auto simp: configured_def intro: order_trans [of 0 1])
  then show ?thesis
  proof (cases "r k")
    case (Some z)
    then have "zset_ok (limits k) (ttls k) now z" using assms(1) by (simp add: redis_ok_def)
    with Some \<open>0 \<le> limits k\<close> show ?thesis by (auto simp: zset_ok_def zmembers_def unexpired_def)
  qed (simp add: zmembers_def unexpired_def)
qed

text \<open>Writing one member back with a full time to live, when the set has room for it.\<close>

lemma redis_ok_add:
  assumes ok: "redis_ok limits ttls now r" and cfg: "configured limits ttls"
    and room: "int (length (zrem token (unexpired now (zmembers r now k)))) < limits k"
  shows "redis_ok limits ttls now
    (zstore k (zadd token (now + ttls k) (unexpired now (zmembers r now k))) (now + ttls k * 2) r)"
proof (rule redis_ok_store [OF ok])
  let ?ms = "unexpired now (zmembers r now k)"
  have t: "1 \<le> ttls k" using cfg by (simp add: configured_def)
  have m: "distinct (map fst ?ms)" "\<forall>m \<in> set ?ms. snd m \<le> now + ttls k"
    using zmembers_ok [OF ok cfg, of k] by (auto simp: unexpired_def distinct_filter_fst)
  have "unexpired now (zrem token ?ms) = zrem token ?ms"
    unfolding unexpired_def zrem_def filter_filter by (rule filter_cong) auto
  with room have "int (length (unexpired now (zadd token (now + ttls k) ?ms))) \<le> limits k"
    using t by (simp add: zadd_def unexpired_def)
  moreover have "distinct (map fst (zadd token (now + ttls k) ?ms))"
    using m(1) by (auto simp: zadd_def zrem_def distinct_filter_fst)
  moreover have "snd x \<le> now + ttls k \<and> snd x \<le> now + ttls k * 2" if "x \<in> set (zadd token (now + ttls k) ?ms)" for x
    using that m(2) t by (fastforce simp: zadd_def zrem_def)
  ultimately show "zset_ok (limits k) (ttls k) now
      \<lparr>z_members = zadd token (now + ttls k) ?ms, z_expires_at = now + ttls k * 2\<rparr>"
    by (simp add: zset_ok_def)
qed

lemma length_zrem_le: "length (zrem token ms) \<le> length ms"
  by (simp add: zrem_def)

lemma length_zrem_less: "token \<in> set (map fst ms) \<Longrightarrow> length (zrem token ms) < length ms"
  unfolding zrem_def by (auto intro: length_filter_less)

lemma redis_exec_ok:
  assumes "redis_ok limits ttls now r" and cfg: "configured limits ttls" and "now \<le> now'"
  shows "redis_ok limits ttls now' (redis_exec limits ttls now' a r)"
proof -
  have ok: "redis_ok limits ttls now' r" by (rule redis_ok_later [OF assms(1,3)])
  note drop = redis_ok_drop [OF ok]
  show ?thesis
  proof (cases a)
    case (Acquire k token)
    have "redis_ok limits ttls now' (snd (ACQUIRE_SCRIPT r now' k token (limits k) (ttls k)))"
    proof (cases "limits k \<le> int (length (unexpired now' (zmembers r now' k)))")
      case True
      then show ?thesis using drop [of k] by (simp add: ACQUIRE_SCRIPT_def Let_def unexpired_def)
    next
      case False
      then have "int (length (zrem token (unexpired now' (zmembers r now' k)))) < limits k"
        using length_zrem_le [of token "unexpired now' (zmembers r now' k)"] by linarith
      from redis_ok_add [OF ok cfg this] False show ?thesis by (simp add: ACQUIRE_SCRIPT_def)
    qed
    then show ?thesis using Acquire by simp
  next
    case (Renew k token)
    have "redis_ok limits ttls now' (snd (RENEW_SCRIPT r now' k token (ttls k)))"
    proof (cases "token \<in> set (map fst (unexpired now' (zmembers r now' k)))")
      case True
      then have "int (length (zrem token (unexpired now' (zmembers r now' k)))) < limits k"
        using length_zrem_less zmembers_ok [OF ok cfg, of k] by fastforce
      from redis_ok_add [OF ok cfg this] True show ?thesis by (simp add: RENEW_SCRIPT_def)
    next
      case False
      then show ?thesis using drop [of k] by (simp add: RENEW_SCRIPT_def Let_def unexpired_def)
    qed
    then show ?thesis using Renew by simp
  next
    case (Release k token)
    then show ?thesis using drop [of k] by (simp add: RELEASE_SCRIPT_def Let_def zrem_def)
  qed
qed

lemma redis_run_ok:
  assumes "configured limits ttls"
  shows "redis_ok limits ttls now r \<Longrightarrow> timed now evs until \<Longrightarrow> redis_ok limits ttls until (redis_run limits ttls evs r)"
proof (induction evs arbitrary: now r)
  case Nil
  then show ?case by (auto intro: redis_ok_later)
next
  case (Cons e evs)
  obtain n a where e: "e = (n, a)" by (cases e)
  with Cons.prems show ?case
    using Cons.IH [OF redis_exec_ok [OF Cons.prems(1) assms, of n a]] by simp
qed

lemma empty_redis_ok: "redis_ok limits ttls now (\<lambda>_. None)"
  by (simp add: redis_ok_def)

subsection \<open>A held permit stays held\<close>

definition holds :: "redis \<Rightarrow> string \<Rightarrow> string \<Rightarrow> int \<Rightarrow> bool" where
  "holds r k token s \<longleftrightarrow> (\<exists>z. r k = Some z \<and> (token, s) \<in> set (z_members z))"

lemma holds_members:
  assumes "redis_ok limits ttls now r" and "holds r k token s" and "now' < s"
  shows "(token, s) \<in> set (unexpired now' (zmembers r now' k))"
proof -
  obtain z where z: "r k = Some z" "(token, s) \<in> set (z_members z)"
    using assms(2) by (auto simp: holds_def)
  with assms(1) have "s \<le> z_expires_at z" by (force simp: redis_ok_def zset_ok_def)
  with z assms(3) show ?thesis by (simp add: zmembers_def unexpired_def)
qed

lemma holds_store [simp]: "holds (zstore k ms e r) k token s \<longleftrightarrow> (token, s) \<in> set ms"
  by (auto simp: holds_def zstore_def)

lemma holds_store_other [simp]: "k' \<noteq> k \<Longrightarrow> holds (zstore k' ms e r) k token s \<longleftrightarrow> holds r k token s"
  by (simp add: holds_def zstore_def)

lemma holds_score:
  assumes "redis_ok limits ttls now r" and "holds r k token s"
  shows "s \<le> now + ttls k"
  using assms by (force simp: redis_ok_def zset_ok_def holds_def)

lemma redis_exec_holds:
  assumes ok: "redis_ok limits ttls now r" and h: "holds r k token s" and "now \<le> now'" "now' < s"
    and a: "a \<noteq> Release k token"
  shows "\<exists>s' \<ge> s. holds (redis_exec limits ttls now' a r) k token s'"
proof -
  have m: "(token, s) \<in> set (unexpired now' (zmembers r now' k))"
    by (rule holds_members [OF ok h assms(4)])
  then have m': "(token, s) \<in> set (zmembers r now' k)" by (simp add: unexpired_def)
  have s: "s \<le> now' + ttls k" using holds_score [OF ok h] assms(3) by simp
  show ?thesis
  proof (cases a)
    case (Acquire k' tok)
    then show ?thesis using m s h
      by (cases "k' = k"; cases "tok = token") (auto simp: ACQUIRE_SCRIPT_def Let_def zadd_def zrem_def)
  next
    case (Renew k' tok)
    then show ?thesis using m s h
      by (cases "k' = k"; cases "tok = token") (auto simp: RENEW_SCRIPT_def Let_def zadd_def zrem_def)
  next
    case (Release k' tok)
    then show ?thesis using m' h a
      by (cases "k' = k") (auto simp: RELEASE_SCRIPT_def Let_def zrem_def)
  qed
qed

lemma redis_run_holds:
  assumes "configured limits ttls"
  shows "redis_ok limits ttls now r \<Longrightarrow> holds r k token s \<Longrightarrow> timed now evs until \<Longrightarrow> until < s \<Longrightarrow>
    \<forall>e \<in> set evs. snd e \<noteq> Release k token \<Longrightarrow> \<exists>s' \<ge> s. holds (redis_run limits ttls evs r) k token s'"
proof (induction evs arbitrary: now r s)
  case (Cons e evs)
  obtain n a where e: "e = (n, a)" by (cases e)
  have "n \<le> until" using Cons.prems(3) e by (auto simp: timed_def)
  then obtain s' where s': "s \<le> s'" "holds (redis_exec limits ttls n a r) k token s'"
    using redis_exec_holds [OF Cons.prems(1,2), of n a] Cons.prems(3-5) e by auto
  have "redis_ok limits ttls n (redis_exec limits ttls n a r)"
    using redis_exec_ok [OF Cons.prems(1) assms] Cons.prems(3) e by simp
  then have "\<exists>s'' \<ge> s'. holds (redis_run limits ttls evs (redis_exec limits ttls n a r)) k token s''"
    by (rule Cons.IH [OF _ s'(2)]) (use Cons.prems e s'(1) in auto)
  then show ?case using e s'(1) by (auto intro: order_trans)
qed auto

lemma acquired_holds:
  assumes "ACQUIRE_SCRIPT r now k token limit ttl = (1, r')"
  shows "holds r' k token (now + ttl)"
  using assms by (auto simp: ACQUIRE_SCRIPT_def Let_def zadd_def split: if_splits)

subsection \<open>Properties\<close>

text \<open>
  C24. At no moment do more permits of a key run than its limit, whatever scripts any processes ran before
  in whatever order and however many of them crashed without releasing.
\<close>

theorem permits_bounded:
  assumes "configured limits ttls" and "timed from evs now"
  shows "int (length (unexpired now (zmembers (redis_run limits ttls evs (\<lambda>_. None)) now k))) \<le> limits k"
  using zmembers_ok [OF redis_run_ok [OF assms(1) empty_redis_ok assms(2)] assms(1)] by simp

theorem permits_bounded_witness:
  "length (unexpired 30 (zmembers (redis_run (\<lambda>_. 1) (\<lambda>_. 1000)
     [(10, Acquire ''k'' ''a''), (20, Acquire ''k'' ''b'')] (\<lambda>_. None)) 30 ''k'')) \<le> 1 \<and>
   zmembers (redis_run (\<lambda>_. 1) (\<lambda>_. 1000)
     [(10, Acquire ''k'' ''a''), (20, Acquire ''k'' ''b'')] (\<lambda>_. None)) 30 ''k'' = [(''a'', 1010)]"
proof
  have "configured (\<lambda>_. 1) (\<lambda>_. 1000)" by (simp add: configured_def)
  from permits_bounded [OF this, of 0 "[(10, Acquire ''k'' ''a''), (20, Acquire ''k'' ''b'')]" 30 "''k''"]
  show "length (unexpired 30 (zmembers (redis_run (\<lambda>_. 1) (\<lambda>_. 1000)
     [(10, Acquire ''k'' ''a''), (20, Acquire ''k'' ''b'')] (\<lambda>_. None)) 30 ''k'')) \<le> 1"
    by simp
qed code_simp

text \<open>
  A granted permit is not taken away: until its time to live has passed, and as long as nobody releases
  that token, it is a live member of its sorted set whatever else runs, key expiry included.
\<close>

theorem permit_kept:
  assumes "configured limits ttls" and "timed from evs now"
    and "ACQUIRE_SCRIPT (redis_run limits ttls evs (\<lambda>_. None)) now k token (limits k) (ttls k) = (1, r')"
    and "timed now evs' until" and "until < now + ttls k"
    and "\<forall>e \<in> set evs'. snd e \<noteq> Release k token"
  shows "token \<in> set (map fst (unexpired until (zmembers (redis_run limits ttls evs' r') until k)))"
proof -
  have "redis_ok limits ttls now (redis_exec limits ttls now (Acquire k token) (redis_run limits ttls evs (\<lambda>_. None)))"
    by (rule redis_exec_ok [OF redis_run_ok [OF assms(1) empty_redis_ok assms(2)] assms(1)]) simp
  then have ok: "redis_ok limits ttls now r'" by (simp add: assms(3))
  obtain s where s: "now + ttls k \<le> s" "holds (redis_run limits ttls evs' r') k token s"
    using redis_run_holds [OF assms(1) ok acquired_holds [OF assms(3)] assms(4-6)] by auto
  have "(token, s) \<in> set (unexpired until (zmembers (redis_run limits ttls evs' r') until k))"
    by (rule holds_members [OF redis_run_ok [OF assms(1) ok assms(4)] s(2)]) (use assms(5) s(1) in simp)
  then show ?thesis by force
qed

theorem permit_kept_witness:
  "''a'' \<in> set (map fst (unexpired 900 (zmembers (redis_run (\<lambda>_. 1) (\<lambda>_. 1000)
     [(500, Acquire ''k'' ''b''), (600, Release ''k'' ''b'')]
     (snd (ACQUIRE_SCRIPT (redis_run (\<lambda>_. 1) (\<lambda>_. 1000) [] (\<lambda>_. None)) 10 ''k'' ''a'' 1 1000))) 900 ''k'')))"
proof -
  let ?first = "ACQUIRE_SCRIPT (redis_run (\<lambda>_. 1) (\<lambda>_. 1000) [] (\<lambda>_. None)) 10 ''k'' ''a'' 1 1000"
  have "fst ?first = 1" by code_simp
  then have granted: "?first = (1, snd ?first)" by (metis prod.collapse)
  show ?thesis
    by (rule permit_kept [OF _ _ granted, of 0]) (simp_all add: configured_def)
qed

subsection \<open>Admission\<close>

lemma release_script_gone: "\<not> holds (snd (RELEASE_SCRIPT r now k token)) k token s"
  by (auto simp: RELEASE_SCRIPT_def Let_def zrem_def)

lemma lease_release_gone:
  "rl_active l \<Longrightarrow> n \<noteq> Dropped \<Longrightarrow> \<not> holds (snd (snd (lease_release r n now l))) (rl_key l) (rl_token l) s"
  using release_script_gone [of r now "rl_key l" "rl_token l" s]
  by (cases n) (auto simp: lease_release_def split: prod.splits)

lemma lease_release_other:
  "rl_key l \<noteq> k \<Longrightarrow> holds (snd (snd (lease_release r n now l))) k token s = holds r k token s"
  by (cases n) (auto simp: lease_release_def RELEASE_SCRIPT_def Let_def split: prod.splits)

definition redis_key :: "string \<Rightarrow> string \<Rightarrow> string" where
  "redis_key env resource = ''mosaic:'' @ env @ '':concurrency:'' @ resource"

lemma key_for_Inr: "key_for env resource = Inr k \<Longrightarrow> k = redis_key env resource"
  by (auto simp: key_for_def redis_key_def)

lemma acquire_Some:
  assumes "acquire env r n now token resource limit ttl_seconds = (Inr (Some l), r')"
  shows "rl_active l \<and> rl_token l = token \<and> rl_key l = redis_key env resource \<and>
    holds r' (rl_key l) token (now + rl_ttl_ms l)"
proof (cases n)
  case Delivered
  with assms show ?thesis
    by (auto simp: acquire_def acquired_holds dest!: key_for_Inr split: sum.splits prod.splits if_splits)
qed (use assms in \<open>auto simp: acquire_def split: sum.splits prod.splits\<close>)

text \<open>A refused or lost call grants nothing, unless only its answer was lost.\<close>

lemma acquire_refused:
  assumes "acquire env r n now token resource limit ttl_seconds = (res, r')" and "\<nexists>l. res = Inr (Some l)"
    and "n \<noteq> Answer_lost" and "\<not> holds r k tok s"
  shows "\<not> holds r' k tok s"
proof -
  have "\<not> holds r1 k tok s" if "ACQUIRE_SCRIPT r now k' token limit t = (x, r1)" "x \<noteq> 1" for k' t x r1
    using that assms(4)
    by (cases "k' = k")
      (auto simp: ACQUIRE_SCRIPT_def Let_def unexpired_def zmembers_def holds_def zstore_def split: if_splits option.splits)
  with assms show ?thesis
    by (cases n) (auto simp: acquire_def split: sum.splits prod.splits if_splits)
qed

lemma acquire_other:
  assumes "acquire env r n now token resource limit ttl_seconds = (res, r')" and "k \<noteq> redis_key env resource"
  shows "holds r' k tok s = holds r k tok s"
proof -
  have "holds (snd (ACQUIRE_SCRIPT r now (redis_key env resource) token limit t)) k tok s = holds r k tok s" for t
    using assms(2) by (simp add: ACQUIRE_SCRIPT_def Let_def)
  then have "holds (snd (redis_eval n (\<lambda>s. ACQUIRE_SCRIPT s now (redis_key env resource) token limit t) r)) k tok s = holds r k tok s" for t
    by (cases n) (simp_all add: case_prod_unfold)
  with assms(1) show ?thesis
    by (auto simp: acquire_def dest!: key_for_Inr split: sum.splits prod.splits) (metis snd_conv)+
qed

lemma acquire_pair_granted:
  assumes "acquire_pair env r nets clock tokens outer lo inner li ttl = (Inr (Some ls), r')"
    and "redis_key env outer \<noteq> redis_key env inner"
  shows "\<exists>l1 l2. ls = [l1, l2] \<and>
    holds r' (redis_key env outer) (tokens 0) (clock 0 + rl_ttl_ms l1) \<and>
    holds r' (redis_key env inner) (tokens 1) (clock 1 + rl_ttl_ms l2)"
proof -
  obtain l1 r1 l2 where a: "acquire env r (nets 0) (clock 0) (tokens 0) outer lo ttl = (Inr (Some l1), r1)"
      "acquire env r1 (nets 1) (clock 1) (tokens 1) inner li ttl = (Inr (Some l2), r')" "ls = [l1, l2]"
    using assms(1) by (auto simp: acquire_pair_def split: prod.splits sum.splits option.splits)
  show ?thesis
    using acquire_Some [OF a(1)] acquire_Some [OF a(2)] acquire_other [OF a(2)] assms(2) a(3) by auto
qed

lemma acquire_pair_refused:
  assumes "acquire_pair env r nets clock tokens outer lo inner li ttl = (res, r')" and "\<nexists>ls. res = Inr (Some ls)"
    and "redis_key env outer \<noteq> redis_key env inner"
    and net: "nets 0 \<noteq> Answer_lost" "nets 1 \<noteq> Answer_lost" "nets 2 \<noteq> Dropped"
    and fresh: "\<And>s. \<not> holds r (redis_key env outer) (tokens 0) s" "\<And>s. \<not> holds r (redis_key env inner) (tokens 1) s"
  shows "\<not> holds r' (redis_key env outer) (tokens 0) s \<and> \<not> holds r' (redis_key env inner) (tokens 1) s'"
proof -
  obtain res1 r1 where a: "acquire env r (nets 0) (clock 0) (tokens 0) outer lo ttl = (res1, r1)"
    by fastforce
  show ?thesis
  proof (cases "\<exists>l. res1 = Inr (Some l)")
    case False
    then have "r' = r1"
      using assms(1) a by (auto simp: acquire_pair_def split: sum.splits option.splits)
    then show ?thesis using acquire_refused [OF a False net(1)] fresh by simp
  next
    case True
    then obtain l where l: "res1 = Inr (Some l)" by blast
    obtain res2 r2 where b: "acquire env r1 (nets 1) (clock 1) (tokens 1) inner li ttl = (res2, r2)"
      by fastforce
    have n: "\<nexists>l. res2 = Inr (Some l)" and r': "r' = snd (snd (lease_release r2 (nets 2) (clock 2) l))"
      using assms(1,2) a b l by (auto simp: acquire_pair_def split: sum.splits option.splits)
    note al = acquire_Some [OF a [unfolded l]]
    have i1: "\<not> holds r1 (redis_key env inner) (tokens 1) s'"
      using acquire_other [OF a] assms(3) fresh(2) by simp
    have "\<not> holds r2 (redis_key env inner) (tokens 1) s'"
      by (rule acquire_refused [OF b n net(2) i1])
    moreover have "\<not> holds r' (redis_key env outer) (tokens 0) s"
      using lease_release_gone [OF _ net(3), of l r2 "clock 2" s] al r' by simp
    ultimately show ?thesis using lease_release_other [of l] al assms(3) r' by simp
  qed
qed

lemma admission_keys_differ:
  "redis_key env (deployment_resource d) \<noteq> redis_key env (tenant_deployment_resource t d)"
  by (simp add: redis_key_def deployment_resource_def tenant_deployment_resource_def)

text \<open>
  C25. A deployment admission is all or nothing. Granted, it holds the deployment permit and the tenant's
  permit, each for a full time to live; refused or failed, it holds neither, provided no acquire lost only
  its answer and the give-back reached Redis (otherwise the orphan lapses with its time to live).
\<close>

theorem admission_all_or_nothing:
  assumes "acquire_deployment_admission env r nets clock tokens t d limit ttl = (res, r')"
    and "nets 0 \<noteq> Answer_lost" and "nets 1 \<noteq> Answer_lost" and "nets 2 \<noteq> Dropped"
    and "\<And>s. \<not> holds r (redis_key env (deployment_resource d)) (tokens 0) s"
    and "\<And>s. \<not> holds r (redis_key env (tenant_deployment_resource t d)) (tokens 1) s"
  shows "case res of
      Inr (Some ls) \<Rightarrow> \<exists>l1 l2. ls = [l1, l2] \<and>
        holds r' (redis_key env (deployment_resource d)) (tokens 0) (clock 0 + rl_ttl_ms l1) \<and>
        holds r' (redis_key env (tenant_deployment_resource t d)) (tokens 1) (clock 1 + rl_ttl_ms l2)
    | _ \<Rightarrow> \<not> holds r' (redis_key env (deployment_resource d)) (tokens 0) s \<and>
        \<not> holds r' (redis_key env (tenant_deployment_resource t d)) (tokens 1) s'"
proof (cases "\<exists>ls. res = Inr (Some ls)")
  case True
  then obtain ls where "res = Inr (Some ls)" by blast
  then show ?thesis
    using acquire_pair_granted [OF _ admission_keys_differ] assms(1) by (simp add: acquire_deployment_admission_def)
next
  case False
  then show ?thesis
    using acquire_pair_refused [OF assms(1) [unfolded acquire_deployment_admission_def] False admission_keys_differ assms(2-6)]
    by (auto split: sum.splits option.splits)
qed

definition busy_tenant :: redis where
  "busy_tenant = (\<lambda>_. None)(redis_key ''dev'' (tenant_deployment_resource 0 0) :=
     Some \<lparr>z_members = [(''x'', 2005)], z_expires_at = 4005\<rparr>)"

theorem admission_all_or_nothing_witness:
  "\<not> holds (snd (acquire_deployment_admission ''dev'' busy_tenant (\<lambda>_. Delivered) (\<lambda>_. 10)
       (\<lambda>i. if i = 0 then ''a'' else ''b'') 0 0 1 2)) (redis_key ''dev'' (deployment_resource 0)) ''a'' 2010"
proof -
  let ?a = "acquire_deployment_admission ''dev'' busy_tenant (\<lambda>_. Delivered) (\<lambda>_. 10)
    (\<lambda>i. if i = 0 then ''a'' else ''b'') 0 0 1 2"
  have "fst ?a = Inr None" by code_simp
  then have a: "?a = (Inr None, snd ?a)" by (metis prod.collapse)
  have fresh: "\<not> holds busy_tenant (redis_key ''dev'' (deployment_resource 0)) ''a'' s"
    "\<not> holds busy_tenant (redis_key ''dev'' (tenant_deployment_resource 0 0)) ''b'' s" for s
    by (simp_all add: busy_tenant_def holds_def redis_key_def deployment_resource_def tenant_deployment_resource_def)
  show ?thesis
    using admission_all_or_nothing [OF a, of 2010 0] fresh by simp
qed

end
