(* ===== verification/Chat_Rows.thy ===== *)
theory Chat_Rows
  imports Shared_Tables Catalog Outbox_Repository Uuid_Text
begin

text \<open>
  The tables of the chat path (\<open>Conversations\<close>, \<open>Messages\<close>, \<open>InferenceRequests\<close> and \<open>ChatStreamEvents\<close> of
  \<open>app/infrastructure/models.py\<close>) with the constraints PostgreSQL checks when a transaction flushes, and the
  records the two chat repositories hand out (\<open>app/conversations/ports.py\<close>). The catalog, the outbox, the
  idempotency records and the wallet tables are those of the other components. Sessions do not autoflush, so
  a constraint is checked at an explicit flush and at commit.
\<close>

subsection \<open>Errors\<close>

datatype chat_error =
    ConversationNotFoundError
  | ModelNotFoundError
  | ModelUnavailableError
  | ConversationBusyError
  | MessageNotLatestError
  | IdempotencyConflictError
  | IdempotencyInProgressError
  | ChatSubmissionDisabledError
  | StreamCursorError
  | StreamCapacityError
  | ConversationInfrastructureError string
  | ChatBillingError billing_error
  | ChatValueError string
  | ChatRuntimeError string

abbreviation CONVERSATION_UNAVAILABLE :: chat_error where
  "CONVERSATION_UNAVAILABLE \<equiv> ConversationInfrastructureError ''CONVERSATION_UNAVAILABLE''"

subsection \<open>Rows\<close>

text \<open>The values the status checks of the two tables admit.\<close>

datatype InferenceStatus =
    IQueued | IRunning | ISubmittedUnknown | IStopped | IStopRequested | ISucceeded | IFailed | ICancelled

datatype MessageStatus = MAccepted | MStreaming | MCompleted | MFailed | MStopped

record Conversation =
  cv_id :: uuid
  cv_tenant_id :: uuid
  cv_created_by_user_id :: uuid
  cv_product_model_id :: uuid
  cv_title :: "string option"
  cv_status :: string
  cv_active_inference_request_id :: "uuid option"
  cv_version :: int
  cv_created_at :: instant
  cv_updated_at :: instant

record Message =
  m_id :: uuid
  m_tenant_id :: uuid
  m_conversation_id :: uuid
  m_sequence_no :: int
  m_role :: string
  m_content :: json
  m_status :: MessageStatus
  m_author_user_id :: "uuid option"
  m_request_id :: "uuid option"
  m_created_at :: instant
  m_updated_at :: instant

record InferenceRequest =
  q_id :: uuid
  q_tenant_id :: uuid
  q_request_id :: uuid
  q_actor_user_id :: "uuid option"
  q_conversation_id :: "uuid option"
  q_message_id :: "uuid option"
  q_model_deployment_id :: uuid
  q_accepted_model_revision_id :: "uuid option"
  q_accepted_model_deployment_id :: "uuid option"
  q_accepted_routing_policy_id :: "uuid option"
  q_accepted_price_version_id :: "uuid option"
  q_billing_reservation_id :: "uuid option"
  q_accepted_capability_schema_version :: "int option"
  q_accepted_capability_schema_hash :: "string option"
  q_accepted_capability_schema :: "json option"
  q_accepted_input_snapshot :: "json option"
  q_status :: InferenceStatus
  q_provider_request_id :: "string option"
  q_provider_task_id :: "string option"
  q_request_hash :: string
  q_input_tokens :: int
  q_output_tokens :: int
  q_error_code :: "string option"
  q_started_at :: "instant option"
  q_completed_at :: "instant option"
  q_last_event_sequence :: int
  q_cancel_requested_at :: "instant option"
  q_worker_id :: "string option"
  q_lease_token :: "uuid option"
  q_lease_expires_at :: "instant option"
  q_last_heartbeat_at :: "instant option"
  q_provider_started_at :: "instant option"
  q_terminal_reason :: "string option"
  q_sanitized_error_details :: "(string \<times> json) list option"
  q_parent_request_id :: "uuid option"
  q_created_at :: instant
  q_updated_at :: instant

record ChatEvent =
  e_id :: uuid
  e_tenant_id :: uuid
  e_inference_request_id :: uuid
  e_sequence_no :: int
  e_event_type :: string
  e_payload :: "(string \<times> json) list"
  e_created_at :: instant

record chat_db =
  ch_requests :: "InferenceRequest list"
  ch_conversations :: "Conversation list"
  ch_messages :: "Message list"
  ch_events :: "ChatEvent list"
  ch_idempotency :: "(string \<times> json) list IdempotencyRecord list"
  ch_outbox :: "OutboxRow list"
  ch_catalog :: catalog_db
  ch_billing :: billing_db

subsection \<open>Constraints checked at flush\<close>

definition conversation_check :: "Conversation \<Rightarrow> bool" where
  "conversation_check c \<longleftrightarrow> cv_status c \<in> set [''active'', ''archived''] \<and> 0 \<le> cv_version c"

definition text_object :: "json \<Rightarrow> bool" where
  "text_object v \<longleftrightarrow>
     (case v of
        JObj kvs \<Rightarrow> map_of kvs ''type'' = Some (JStr ''text'') \<and> (case map_of kvs ''text'' of Some (JStr _) \<Rightarrow> True | _ \<Rightarrow> False)
      | _ \<Rightarrow> False)"

definition message_check :: "Message \<Rightarrow> bool" where
  "message_check m \<longleftrightarrow>
     m_role m \<in> set [''system'', ''user'', ''assistant'', ''tool''] \<and>
     (m_role m \<in> set [''user'', ''assistant''] \<longrightarrow> text_object (m_content m))"

definition request_check :: "InferenceRequest \<Rightarrow> bool" where
  "request_check q \<longleftrightarrow>
     0 \<le> q_input_tokens q \<and> 0 \<le> q_output_tokens q \<and> q_request_hash q \<noteq> [] \<and> -1 \<le> q_last_event_sequence q \<and>
     (q_message_id q \<noteq> None \<longrightarrow> q_conversation_id q \<noteq> None) \<and>
     snapshot_complete (q_model_deployment_id q) (q_accepted_model_revision_id q) (q_accepted_model_deployment_id q)
       (q_accepted_routing_policy_id q) (q_accepted_price_version_id q) (q_accepted_capability_schema_version q)
       (q_accepted_capability_schema_hash q) (q_accepted_capability_schema q) (q_accepted_input_snapshot q)"

abbreviation TERMINAL_EVENTS :: "string list" where
  "TERMINAL_EVENTS \<equiv> [''completed'', ''stopped'', ''failed'']"

definition event_check :: "ChatEvent \<Rightarrow> bool" where
  "event_check e \<longleftrightarrow> 0 \<le> e_sequence_no e \<and> e_event_type e \<in> set (''started'' # ''delta'' # TERMINAL_EVENTS)"

definition request_widths :: "InferenceRequest \<Rightarrow> bool" where
  "request_widths q \<longleftrightarrow>
     fits 255 (q_provider_request_id q) \<and> fits 255 (q_provider_task_id q) \<and> length (q_request_hash q) \<le> 128 \<and>
     fits 120 (q_error_code q) \<and> fits 128 (q_worker_id q) \<and> fits 160 (q_terminal_reason q)"

definition chat_numeric :: "chat_db \<Rightarrow> bool" where
  "chat_numeric db \<longleftrightarrow>
     list_all (\<lambda>q. bigint (q_input_tokens q) \<and> bigint (q_output_tokens q) \<and> bigint (q_last_event_sequence q)) (ch_requests db) \<and>
     list_all (\<lambda>c. bigint (cv_version c)) (ch_conversations db) \<and>
     list_all (\<lambda>m. - (2 ^ 31) \<le> m_sequence_no m \<and> m_sequence_no m < 2 ^ 31) (ch_messages db) \<and>
     list_all (\<lambda>e. bigint (e_sequence_no e)) (ch_events db)"

definition chat_checks :: "chat_db \<Rightarrow> bool" where
  "chat_checks db \<longleftrightarrow>
     list_all request_check (ch_requests db) \<and> list_all conversation_check (ch_conversations db) \<and>
     list_all message_check (ch_messages db) \<and> list_all event_check (ch_events db)"

text \<open>The partial unique indexes.\<close>

definition provider_request_keys :: "(InferenceRequest \<Rightarrow> string option) \<Rightarrow> InferenceRequest list \<Rightarrow> (uuid \<times> uuid \<times> string) list" where
  "provider_request_keys f qs =
     map (\<lambda>q. (q_tenant_id q, q_model_deployment_id q, the (f q))) (filter (\<lambda>q. f q \<noteq> None) qs)"

definition occupies :: "InferenceRequest \<Rightarrow> bool" where
  "occupies q \<longleftrightarrow> q_conversation_id q \<noteq> None \<and> q_status q \<in> set [IQueued, IRunning, ISubmittedUnknown, IStopRequested]"

definition active_slots :: "InferenceRequest list \<Rightarrow> (uuid \<times> uuid) list" where
  "active_slots qs = map (\<lambda>q. (q_tenant_id q, the (q_conversation_id q))) (filter occupies qs)"

definition event_slot :: "ChatEvent \<Rightarrow> uuid \<times> uuid \<times> int" where
  "event_slot e = (e_tenant_id e, e_inference_request_id e, e_sequence_no e)"

definition terminal_slots :: "ChatEvent list \<Rightarrow> (uuid \<times> uuid) list" where
  "terminal_slots es =
     map (\<lambda>e. (e_tenant_id e, e_inference_request_id e)) (filter (\<lambda>e. e_event_type e \<in> set TERMINAL_EVENTS) es)"

definition chat_unique :: "chat_db \<Rightarrow> bool" where
  "chat_unique db \<longleftrightarrow>
     distinct (map q_id (ch_requests db)) \<and> distinct (map q_request_id (ch_requests db)) \<and>
     distinct (provider_request_keys q_provider_request_id (ch_requests db)) \<and>
     distinct (provider_request_keys q_provider_task_id (ch_requests db)) \<and>
     distinct (active_slots (ch_requests db)) \<and>
     distinct (map cv_id (ch_conversations db)) \<and> distinct (map m_id (ch_messages db)) \<and>
     distinct (map (\<lambda>m. (m_tenant_id m, m_conversation_id m, m_sequence_no m)) (ch_messages db)) \<and>
     distinct (map e_id (ch_events db)) \<and> distinct (map event_slot (ch_events db)) \<and> distinct (terminal_slots (ch_events db))"

text \<open>
  The foreign keys inside the chat tables; those into the catalog, the memberships and the wallet tables are met by
  rows the same transaction has read.
\<close>

definition chat_references :: "chat_db \<Rightarrow> bool" where
  "chat_references db \<longleftrightarrow>
     list_all (\<lambda>c. null_or (\<lambda>a. list_ex (\<lambda>q. q_tenant_id q = cv_tenant_id c \<and> q_id q = a \<and> q_conversation_id q = Some (cv_id c))
       (ch_requests db)) (cv_active_inference_request_id c)) (ch_conversations db) \<and>
     list_all (\<lambda>m. list_ex (\<lambda>c. cv_tenant_id c = m_tenant_id m \<and> cv_id c = m_conversation_id m) (ch_conversations db) \<and>
       null_or (\<lambda>a. list_ex (\<lambda>q. q_tenant_id q = m_tenant_id m \<and> q_id q = a \<and> q_conversation_id q = Some (m_conversation_id m) \<and>
         q_message_id q = Some (m_id m)) (ch_requests db)) (m_request_id m)) (ch_messages db) \<and>
     list_all (\<lambda>q. null_or (\<lambda>c. list_ex (\<lambda>v. cv_tenant_id v = q_tenant_id q \<and> cv_id v = c) (ch_conversations db) \<and>
         null_or (\<lambda>i. list_ex (\<lambda>m. m_tenant_id m = q_tenant_id q \<and> m_id m = i \<and> m_conversation_id m = c) (ch_messages db)) (q_message_id q))
       (q_conversation_id q)) (ch_requests db) \<and>
     list_all (\<lambda>e. list_ex (\<lambda>q. q_tenant_id q = e_tenant_id e \<and> q_id q = e_inference_request_id e) (ch_requests db)) (ch_events db)"

definition chat_flush :: "chat_db \<Rightarrow> chat_error raised + chat_db" where
  "chat_flush db =
     (if \<not> chat_numeric db then Inl (Sql NumericOutOfRange)
      else if \<not> (list_all request_widths (ch_requests db) \<and> list_all (\<lambda>c. fits 240 (cv_title c)) (ch_conversations db))
      then Inl (Sql StringTooLong)
      else if \<not> chat_checks db then Inl (Sql CheckViolation)
      else if \<not> chat_unique db then Inl (Sql UniqueViolation)
      else if \<not> chat_references db then Inl (Sql ForeignKeyViolation)
      else Inr db)"

definition chat_ok :: "chat_db \<Rightarrow> bool" where
  "chat_ok db \<longleftrightarrow>
     chat_numeric db \<and> list_all request_widths (ch_requests db) \<and> list_all (\<lambda>c. fits 240 (cv_title c)) (ch_conversations db) \<and>
     chat_checks db \<and> chat_unique db \<and> chat_references db"

lemma chat_flush_Inr_iff [simp]: "chat_flush db = Inr db' \<longleftrightarrow> db' = db \<and> chat_ok db"
  by (auto simp: chat_flush_def chat_ok_def)

lemma chat_flush_ok [simp]: "chat_ok db \<Longrightarrow> chat_flush db = Inr db"
  by (simp add: chat_flush_def chat_ok_def)

subsection \<open>Writes of loaded rows\<close>

definition put_request :: "InferenceRequest \<Rightarrow> chat_db \<Rightarrow> chat_db" where
  "put_request q db = db\<lparr>ch_requests := update_where (\<lambda>x. q_id x = q_id q) (\<lambda>_. q) (ch_requests db)\<rparr>"

definition put_conversation :: "Conversation \<Rightarrow> chat_db \<Rightarrow> chat_db" where
  "put_conversation c db = db\<lparr>ch_conversations := update_where (\<lambda>x. cv_id x = cv_id c) (\<lambda>_. c) (ch_conversations db)\<rparr>"

definition put_message :: "Message \<Rightarrow> chat_db \<Rightarrow> chat_db" where
  "put_message m db = db\<lparr>ch_messages := update_where (\<lambda>x. m_id x = m_id m) (\<lambda>_. m) (ch_messages db)\<rparr>"

definition add_event :: "ChatEvent \<Rightarrow> chat_db \<Rightarrow> chat_db" where
  "add_event e db = db\<lparr>ch_events := ch_events db @ [e]\<rparr>"

interpretation request_table: keyed_table q_id ch_requests put_request
  by unfold_locales (simp add: put_request_def)

interpretation conversation_table: keyed_table cv_id ch_conversations put_conversation
  by unfold_locales (simp add: put_conversation_def)

interpretation message_table: keyed_table m_id ch_messages put_message
  by unfold_locales (simp add: put_message_def)

subsection \<open>Text and payloads\<close>

text \<open>\<open>a or b\<close> on optional text: the empty text is false.\<close>

fun or_else :: "string option \<Rightarrow> string option \<Rightarrow> string option" where
  "or_else (Some (c # s)) b = Some (c # s)"
| "or_else _ b = b"

fun text_content :: "json \<Rightarrow> string" where
  "text_content (JObj kvs) = (case map_of kvs ''text'' of Some (JStr s) \<Rightarrow> s | _ \<Rightarrow> [])"
| "text_content (JStr s) = s"
| "text_content _ = []"

definition text_json :: "string \<Rightarrow> json" where
  "text_json s = JObj [(''type'', JStr ''text''), (''text'', JStr s)]"

lemma text_content_json [simp]: "text_content (text_json s) = s"
  by (simp add: text_json_def)

lemma text_object_json [simp]: "text_object (text_json s)"
  by (simp add: text_object_def text_json_def)

text \<open>The fields every stream event starts with, and the event row of a request.\<close>

definition event_fields :: "string \<Rightarrow> uuid \<Rightarrow> uuid \<Rightarrow> uuid \<Rightarrow> int \<Rightarrow> (string \<times> json) list" where
  "event_fields event_type request_id conversation_id message_id sequence =
     [(''type'', JStr event_type), (''request_id'', JStr (str_uuid request_id)), (''conversation_id'', JStr (str_uuid conversation_id)),
      (''message_id'', JStr (str_uuid message_id)), (''sequence'', JInt sequence)]"

definition event_row :: "uuid \<Rightarrow> InferenceRequest \<Rightarrow> int \<Rightarrow> string \<Rightarrow> (string \<times> json) list \<Rightarrow> instant \<Rightarrow> ChatEvent" where
  "event_row eid request sequence event_type payload created_at =
     \<lparr>e_id = eid, e_tenant_id = q_tenant_id request, e_inference_request_id = q_id request, e_sequence_no = sequence,
      e_event_type = event_type, e_payload = payload, e_created_at = created_at\<rparr>"

subsection \<open>Records of the ports\<close>

record ConversationMessageRecord =
  mr_message_id :: uuid
  mr_role :: string
  mr_content :: string
  mr_status :: MessageStatus
  mr_created_at :: instant
  mr_request_id :: "uuid option"

record ConversationRecord =
  vr_conversation_id :: uuid
  vr_tenant_id :: uuid
  vr_product_model_id :: string
  vr_title :: string
  vr_messages :: "ConversationMessageRecord list"
  vr_updated_at :: instant
  vr_active_request_id :: "uuid option"
  vr_active_request_cursor :: "int option"

record ChatRequestRecord =
  rq_request_db_id :: uuid
  rq_request_id :: uuid
  rq_conversation_id :: uuid
  rq_message_id :: uuid
  rq_tenant_id :: uuid
  rq_status :: InferenceStatus
  rq_last_event_sequence :: int

record AcceptedChatRequest =
  ar_request :: ChatRequestRecord
  ar_replayed :: bool

record StopResult =
  sr_request_id :: uuid
  sr_status :: InferenceStatus
  sr_changed :: bool
  sr_last_event_sequence :: "int option"

record StreamEventRecord =
  se_sequence :: int
  se_event :: "(string \<times> json) list"

record ChatDeploymentRecord =
  dr_deployment_id :: uuid
  dr_product_model_id :: string
  dr_provider_model_id :: string
  dr_concurrency_limit :: int
  dr_routing_config :: "(string \<times> json) list"

record ChatExecutionRecord =
  x_request_db_id :: uuid
  x_request_id :: uuid
  x_conversation_id :: uuid
  x_message_id :: uuid
  x_tenant_id :: uuid
  x_product_model_id :: string
  x_deployment :: ChatDeploymentRecord
  x_history :: "ConversationMessageRecord list"
  x_actor_user_id :: "uuid option"
  x_status :: InferenceStatus
  x_last_event_sequence :: int
  x_worker_id :: "string option"
  x_lease_token :: "uuid option"
  x_lease_expires_at :: "instant option"
  x_provider_request_id :: "string option"
  x_reservation_id :: "uuid option"

record Usage =
  us_prompt_tokens :: int
  us_completion_tokens :: int
  us_total_tokens :: int

record ChatUsageRecord =
  cu_request_db_id :: uuid
  cu_request_id :: uuid
  cu_tenant_id :: uuid
  cu_deployment_id :: uuid
  cu_provider_request_id :: "string option"
  cu_usage :: Usage

record ChatLeaseCheck =
  lc_lease_valid :: bool
  lc_stop_requested :: bool

end
