(* ===== verification/Chat_Execution.thy ===== *)
theory Chat_Execution
  imports Chat_Rows
begin

text \<open>
  The worker's side of the chat path (\<open>app/conversations/execution_repository.py\<close>): claiming a queued request
  under a lease token, the fenced writes of deltas and of the terminal outcomes, and the reconciliation of
  expired leases. Each operation is one transaction returning its outcome and the committed database. Where
  the code reads the clock a second time after taking the row lock, the second reading is \<open>seen\<close>. Metrics
  and wake-up notifications are not part of the state.
\<close>

abbreviation RUNNING_STATUSES :: "InferenceStatus list" where
  "RUNNING_STATUSES \<equiv> [IRunning, IStopRequested]"

subsection \<open>Claiming\<close>

text \<open>The join of a queued request with its conversation, product, deployment and trusted endpoint.\<close>

definition trusted_endpoint :: "ProviderEndpoint \<Rightarrow> bool" where
  "trusted_endpoint ep \<longleftrightarrow> pe_status ep = ''active'' \<and> pe_provider_name ep = ''bailian'' \<and>
     pe_protocol ep = ''openai_compatible'' \<and> pe_secret_ref ep = ''env:DASHSCOPE_API_KEY''"

definition claim_query ::
  "chat_db \<Rightarrow> (uuid \<Rightarrow> bool) \<Rightarrow> uuid option \<Rightarrow> uuid option \<Rightarrow> (InferenceRequest \<times> Conversation \<times> ProductModel \<times> ModelDeployment) list" where
  "claim_query db locked tenant request =
     sort_key (\<lambda>(q, _). (q_created_at q, q_id q))
       [(q, c, p, d). q \<leftarrow> ch_requests db, q_status q = IQueued \<and> null_or (\<lambda>t. q_tenant_id q = t) tenant \<and>
            null_or (\<lambda>r. q_request_id q = r) request \<and> \<not> locked (q_id q),
          c \<leftarrow> ch_conversations db, cv_tenant_id c = q_tenant_id q \<and> q_conversation_id q = Some (cv_id c),
          p \<leftarrow> c_products (ch_catalog db), pm_id p = cv_product_model_id c,
          d \<leftarrow> c_deployments (ch_catalog db), md_id d = q_model_deployment_id q,
          ep \<leftarrow> c_endpoints (ch_catalog db), pe_id ep = md_provider_endpoint_id d \<and>
            pm_status p = ''active'' \<and> pm_modality p = ''text'' \<and> pm_task_type p = ''chat'' \<and> md_status d = ''active'' \<and>
            trusted_endpoint ep]"

definition history :: "chat_db \<Rightarrow> uuid \<Rightarrow> uuid \<Rightarrow> ConversationMessageRecord list" where
  "history db t conversation_id =
     map (\<lambda>m. \<lparr>mr_message_id = m_id m, mr_role = m_role m, mr_content = text_content (m_content m), mr_status = m_status m,
               mr_created_at = m_created_at m, mr_request_id = None\<rparr>)
       (sort_key m_sequence_no (filter (\<lambda>m. m_tenant_id m = t \<and> m_conversation_id m = conversation_id) (ch_messages db)))"

definition claim_request :: "string \<Rightarrow> uuid \<Rightarrow> int \<Rightarrow> instant \<Rightarrow> InferenceRequest \<Rightarrow> InferenceRequest" where
  "claim_request worker_id token lease_seconds now q =
     q\<lparr>q_status := IRunning, q_worker_id := Some (strip worker_id), q_lease_token := Some token,
       q_lease_expires_at := Some (now + seconds lease_seconds), q_last_heartbeat_at := Some now,
       q_started_at := (case q_started_at q of None \<Rightarrow> Some now | Some s \<Rightarrow> Some s), q_updated_at := now\<rparr>"

definition execution_record ::
  "InferenceRequest \<Rightarrow> uuid \<Rightarrow> uuid \<Rightarrow> ProductModel \<Rightarrow> ModelDeployment \<Rightarrow> ConversationMessageRecord list \<Rightarrow> ChatExecutionRecord" where
  "execution_record q conversation_id message_id product deployment hist =
     \<lparr>x_request_db_id = q_id q, x_request_id = q_request_id q, x_conversation_id = conversation_id, x_message_id = message_id,
      x_tenant_id = q_tenant_id q, x_product_model_id = pm_model_key product,
      x_deployment = \<lparr>dr_deployment_id = md_id deployment, dr_product_model_id = pm_model_key product,
        dr_provider_model_id = md_provider_model_id deployment, dr_concurrency_limit = md_concurrency_limit deployment,
        dr_routing_config = md_routing_config deployment\<rparr>,
      x_history = hist, x_actor_user_id = q_actor_user_id q, x_status = IRunning,
      x_last_event_sequence = q_last_event_sequence q, x_worker_id = q_worker_id q, x_lease_token = q_lease_token q,
      x_lease_expires_at = q_lease_expires_at q, x_provider_request_id = q_provider_request_id q,
      x_reservation_id = q_billing_reservation_id q\<rparr>"

definition claim_queued ::
  "chat_db \<Rightarrow> instant \<Rightarrow> (uuid \<Rightarrow> bool) \<Rightarrow> uuid \<Rightarrow> string \<Rightarrow> int \<Rightarrow> uuid option \<Rightarrow> uuid option
   \<Rightarrow> (chat_error raised + ChatExecutionRecord option) \<times> chat_db" where
  "claim_queued db now locked token worker_id lease_seconds tenant request =
     transaction db
       (andthen (require (\<not> (blank worker_id \<or> length worker_id > 128)) (Domain (ChatValueError ''worker_id must be 1 to 128 characters''))) (\<lambda>_.
        andthen (require (1 \<le> lease_seconds) (Domain (ChatValueError ''lease_seconds must be positive''))) (\<lambda>_.
        case first_row (claim_query db locked tenant request) of
          None \<Rightarrow> Inr (None, db)
        | Some (q, c, product, deployment) \<Rightarrow>
            (let q' = claim_request worker_id token lease_seconds now q in
             andthen (chat_flush (put_request q' db)) (\<lambda>db'.
             case (q_message_id q', q_conversation_id q') of
               (Some message_id, Some conversation_id) \<Rightarrow>
                 Inr (Some (execution_record q' conversation_id message_id product deployment
                        (history db' (q_tenant_id q') (cv_id c))), db')
             | _ \<Rightarrow> Inl (Domain (ChatRuntimeError ''claimed chat request is missing its durable message link'')))))))"

subsection \<open>Rows of an execution\<close>

definition locked_request :: "chat_db \<Rightarrow> ChatExecutionRecord \<Rightarrow> chat_error raised + InferenceRequest option" where
  "locked_request db x =
     (case x_lease_token x of
        None \<Rightarrow> Inr None
      | Some token \<Rightarrow>
          scalar_one_or_none (filter (\<lambda>q. q_tenant_id q = x_tenant_id x \<and> q_id q = x_request_db_id x \<and>
            q_request_id q = x_request_id x \<and> q_lease_token q = Some token) (ch_requests db)))"

definition unexpired :: "instant \<Rightarrow> instant option \<Rightarrow> bool" where
  "unexpired now e \<longleftrightarrow> (case e of None \<Rightarrow> False | Some t \<Rightarrow> now < t)"

definition locked_writable_request ::
  "chat_db \<Rightarrow> instant \<Rightarrow> ChatExecutionRecord \<Rightarrow> int \<Rightarrow> InferenceStatus list \<Rightarrow> chat_error raised + InferenceRequest option" where
  "locked_writable_request db now x expected_sequence statuses =
     andthen (locked_request db x) (\<lambda>found.
     case found of
       None \<Rightarrow> Inr None
     | Some q \<Rightarrow>
         Inr (if q_status q \<notin> set statuses \<or> q_last_event_sequence q \<noteq> expected_sequence - 1 \<or>
                 \<not> unexpired now (q_lease_expires_at q) then None else Some q))"

definition locked_message :: "chat_db \<Rightarrow> ChatExecutionRecord \<Rightarrow> chat_error raised + Message option" where
  "locked_message db x =
     scalar_one_or_none (filter (\<lambda>m. m_tenant_id m = x_tenant_id x \<and> m_conversation_id m = x_conversation_id x \<and>
       m_id m = x_message_id x \<and> m_request_id m = Some (x_request_db_id x)) (ch_messages db))"

definition locked_conversation :: "chat_db \<Rightarrow> ChatExecutionRecord \<Rightarrow> chat_error raised + Conversation option" where
  "locked_conversation db x =
     scalar_one_or_none (filter (\<lambda>c. cv_tenant_id c = x_tenant_id x \<and> cv_id c = x_conversation_id x \<and>
       cv_active_inference_request_id c = Some (x_request_db_id x)) (ch_conversations db))"

definition clear_active :: "Conversation \<Rightarrow> uuid \<Rightarrow> instant \<Rightarrow> chat_error raised + Conversation" where
  "clear_active c request_db_id now =
     andthen (require (cv_active_inference_request_id c = Some request_db_id)
       (Domain (ChatRuntimeError ''conversation active request changed while terminalizing''))) (\<lambda>_.
     Inr (c\<lparr>cv_active_inference_request_id := None, cv_version := cv_version c + 1, cv_updated_at := now\<rparr>))"

definition provider_id_is_coherent :: "InferenceRequest \<Rightarrow> string option \<Rightarrow> bool" where
  "provider_id_is_coherent q provider_request_id \<longleftrightarrow>
     provider_request_id = None \<or> q_provider_request_id q = None \<or> q_provider_request_id q = provider_request_id"

definition DETAIL_KEYS :: "string list" where
  "DETAIL_KEYS = [''code'', ''phase'', ''retryable'', ''status_code'', ''request_id'']"

fun safe_item :: "(string \<times> json) list \<Rightarrow> string \<Rightarrow> (string \<times> json) list" where
  "safe_item value key =
     (case map_of value key of
        None \<Rightarrow> [(key, JNull)]
      | Some JNull \<Rightarrow> [(key, JNull)]
      | Some (JStr s) \<Rightarrow> [(key, JStr s)]
      | Some (JBool b) \<Rightarrow> [(key, JBool b)]
      | Some (JInt i) \<Rightarrow> [(key, JInt i)]
      | Some _ \<Rightarrow> [])"

definition safe_details :: "(string \<times> json) list option \<Rightarrow> (string \<times> json) list option" where
  "safe_details value = map_option (\<lambda>v. concat (map (safe_item v) DETAIL_KEYS)) value"

subsection \<open>The lease\<close>

definition requeue_request :: "instant \<Rightarrow> InferenceRequest \<Rightarrow> InferenceRequest" where
  "requeue_request now q =
     q\<lparr>q_status := IQueued, q_worker_id := None, q_lease_token := None, q_lease_expires_at := None,
       q_last_heartbeat_at := None, q_updated_at := now\<rparr>"

definition requeue_claimed :: "chat_db \<Rightarrow> instant \<Rightarrow> ChatExecutionRecord \<Rightarrow> (chat_error raised + bool) \<times> chat_db" where
  "requeue_claimed db now x =
     transaction db
       (case x_lease_token x of
          None \<Rightarrow> Inr (False, db)
        | Some token \<Rightarrow>
            andthen (scalar_one_or_none (filter (\<lambda>q. q_tenant_id q = x_tenant_id x \<and> q_id q = x_request_db_id x \<and>
              q_request_id q = x_request_id x \<and> q_status q = IRunning \<and> q_lease_token q = Some token) (ch_requests db))) (\<lambda>found.
            case found of
              None \<Rightarrow> Inr (False, db)
            | Some q \<Rightarrow> andthen (chat_flush (put_request (requeue_request now q) db)) (\<lambda>db'. Inr (True, db'))))"

definition extend_lease :: "instant \<Rightarrow> int \<Rightarrow> InferenceRequest \<Rightarrow> InferenceRequest" where
  "extend_lease now extension q =
     q\<lparr>q_last_heartbeat_at := Some now, q_lease_expires_at := Some (now + seconds extension), q_updated_at := now\<rparr>"

definition lease_check :: "bool \<Rightarrow> bool \<Rightarrow> ChatLeaseCheck" where
  "lease_check valid stop = \<lparr>lc_lease_valid = valid, lc_stop_requested = stop\<rparr>"

definition check_lease_and_stop ::
  "chat_db \<Rightarrow> instant \<Rightarrow> int \<Rightarrow> ChatExecutionRecord \<Rightarrow> (chat_error raised + ChatLeaseCheck) \<times> chat_db" where
  "check_lease_and_stop db now extension x =
     transaction db
       (andthen (locked_request db x) (\<lambda>found.
        case found of
          None \<Rightarrow> Inr (lease_check False False, db)
        | Some q \<Rightarrow>
            if q_status q \<notin> set RUNNING_STATUSES \<or> \<not> unexpired now (q_lease_expires_at q)
            then Inr (lease_check False False, db)
            else andthen (chat_flush (put_request (extend_lease now extension q) db)) (\<lambda>db'.
                 Inr (lease_check True (q_status q = IStopRequested), db'))))"

subsection \<open>Deltas\<close>

definition delta_request :: "instant \<Rightarrow> int \<Rightarrow> int \<Rightarrow> string option \<Rightarrow> InferenceRequest \<Rightarrow> InferenceRequest" where
  "delta_request now extension expected_sequence provider_request_id q =
     (extend_lease now extension q)\<lparr>q_provider_request_id := or_else provider_request_id (q_provider_request_id q),
       q_provider_started_at := (case q_provider_started_at q of None \<Rightarrow> Some now | Some s \<Rightarrow> Some s),
       q_last_event_sequence := expected_sequence\<rparr>"

definition delta_payload :: "InferenceRequest \<Rightarrow> ChatExecutionRecord \<Rightarrow> int \<Rightarrow> string \<Rightarrow> (string \<times> json) list" where
  "delta_payload q x expected_sequence delta =
     event_fields ''delta'' (q_request_id q) (x_conversation_id x) (x_message_id x) expected_sequence @ [(''delta'', JStr delta)]"

definition append_delta ::
  "chat_db \<Rightarrow> instant \<Rightarrow> instant \<Rightarrow> int \<Rightarrow> uuid \<Rightarrow> ChatExecutionRecord \<Rightarrow> int \<Rightarrow> string \<Rightarrow> string option
   \<Rightarrow> (chat_error raised + StreamEventRecord option) \<times> chat_db" where
  "append_delta db now seen extension eid x expected_sequence delta provider_request_id =
     transaction db
       (andthen (require (delta \<noteq> []) (Domain (ChatValueError ''delta must not be empty''))) (\<lambda>_.
        andthen (locked_writable_request db seen x expected_sequence [IRunning]) (\<lambda>found.
        case found of
          None \<Rightarrow> Inr (None, db)
        | Some q \<Rightarrow>
            if \<not> provider_id_is_coherent q provider_request_id then Inr (None, db)
            else
              andthen (locked_message db x) (\<lambda>message.
              case message of
                None \<Rightarrow> Inr (None, db)
              | Some m \<Rightarrow>
                  if m_status m \<noteq> MStreaming then Inr (None, db)
                  else
                    let payload = delta_payload q x expected_sequence delta;
                        m' = m\<lparr>m_content := text_json (text_content (m_content m) @ delta), m_updated_at := now\<rparr>;
                        q' = delta_request now extension expected_sequence provider_request_id q in
                    andthen (chat_flush (add_event (event_row eid q expected_sequence ''delta'' payload now)
                      (put_message m' (put_request q' db)))) (\<lambda>db'.
                    Inr (Some \<lparr>se_sequence = expected_sequence, se_event = payload\<rparr>, db'))))))"

subsection \<open>Terminal outcomes\<close>

definition price_for_request :: "chat_db \<Rightarrow> InferenceRequest \<Rightarrow> chat_error raised + PriceSnapshot" where
  "price_for_request db q =
     (case q_accepted_price_version_id q of
        None \<Rightarrow> Inl (Domain (ChatRuntimeError ''accepted chat request is missing its price snapshot''))
      | Some vid \<Rightarrow>
          andthen (or_raise (ChatRuntimeError ''accepted chat price snapshot is missing'')
            (scalar_one_or_none (filter (\<lambda>p. pv_id p = vid) (price_versions (ch_billing db))))) (\<lambda>p.
          map_error (Domain \<circ> ChatBillingError) (price_snapshot p)))"

definition chat_measures :: "Usage \<Rightarrow> BillingUsage" where
  "chat_measures u = no_usage\<lparr>bu_input_tokens := us_prompt_tokens u, bu_output_tokens := us_completion_tokens u,
     bu_billable_units := us_total_tokens u\<rparr>"

definition complete_request :: "instant \<Rightarrow> int \<Rightarrow> string option \<Rightarrow> Usage \<Rightarrow> InferenceRequest \<Rightarrow> InferenceRequest" where
  "complete_request now expected_sequence provider_request_id usage q =
     q\<lparr>q_status := ISucceeded, q_provider_request_id := or_else provider_request_id (q_provider_request_id q),
       q_input_tokens := us_prompt_tokens usage, q_output_tokens := us_completion_tokens usage,
       q_last_event_sequence := expected_sequence, q_completed_at := Some now, q_terminal_reason := Some ''provider_completed'',
       q_lease_token := None, q_lease_expires_at := None, q_updated_at := now\<rparr>"

definition chat_usage_row ::
  "uuid \<Rightarrow> ChatExecutionRecord \<Rightarrow> string option \<Rightarrow> string \<Rightarrow> PriceSnapshot \<Rightarrow> Usage \<Rightarrow> Money \<Rightarrow> UsageRecord" where
  "chat_usage_row uid x provider_request_id label price usage charge =
     \<lparr>u_id = uid, u_tenant_id = x_tenant_id x, u_actor_user_id = x_actor_user_id x,
      u_inference_request_id = Some (x_request_db_id x), u_generation_job_id = None,
      u_model_deployment_id = dr_deployment_id (x_deployment x), u_modality = ''text'', u_model_key = x_product_model_id x,
      u_provider_request_id = provider_request_id, u_provider_task_id = None, u_pricing_version = label,
      u_currency = ps_currency price, u_measures = chat_measures usage, u_charge_amount_minor = amount_minor charge\<rparr>"

text \<open>The usage row is written once per request; the commit flushes it with the chat rows.\<close>

definition record_usage ::
  "chat_db \<Rightarrow> uuid \<Rightarrow> ChatExecutionRecord \<Rightarrow> string option \<Rightarrow> PriceSnapshot \<Rightarrow> Usage \<Rightarrow> Money \<Rightarrow> chat_error raised + chat_db" where
  "record_usage db uid x provider_request_id price usage charge =
     andthen (scalar_one_or_none (filter (\<lambda>u. u_tenant_id u = x_tenant_id x \<and> u_inference_request_id u = Some (x_request_db_id x))
       (usage_records (ch_billing db)))) (\<lambda>existing.
     if existing \<noteq> None then Inr db
     else andthen (map_error (Domain \<circ> ChatBillingError) (pricing_version price)) (\<lambda>label.
       Inr (db\<lparr>ch_billing := (ch_billing db)\<lparr>usage_records := usage_records (ch_billing db) @
         [chat_usage_row uid x provider_request_id label price usage charge]\<rparr>\<rparr>)))"

definition commit_flush :: "chat_db \<Rightarrow> chat_error raised + chat_db" where
  "commit_flush db = andthen (chat_flush db) (\<lambda>db'. andthen (flush (ch_billing db')) (\<lambda>_. Inr db'))"

definition mark_completed ::
  "chat_db \<Rightarrow> instant \<Rightarrow> instant \<Rightarrow> uuid \<Rightarrow> uuid \<Rightarrow> ChatExecutionRecord \<Rightarrow> int \<Rightarrow> string \<Rightarrow> string option \<Rightarrow> ChatUsageRecord
   \<Rightarrow> (chat_error raised + bool) \<times> chat_db" where
  "mark_completed db now seen eid uid x expected_sequence content provider_request_id usage =
     transaction db
       (andthen (locked_writable_request db seen x expected_sequence [IRunning]) (\<lambda>found.
        case found of
          None \<Rightarrow> Inr (False, db)
        | Some q \<Rightarrow>
            if \<not> provider_id_is_coherent q provider_request_id then Inr (False, db)
            else
              andthen (locked_message db x) (\<lambda>message.
              andthen (locked_conversation db x) (\<lambda>conversation.
              case (message, conversation) of
                (Some m, Some c) \<Rightarrow>
                  andthen (price_for_request db q) (\<lambda>price.
                  andthen (map_error (Domain \<circ> ChatBillingError) (mk_BillingUsage (chat_measures (cu_usage usage)))) (\<lambda>meters.
                  andthen (map_error (Domain \<circ> ChatBillingError) (charge_for_usage price meters)) (\<lambda>charge.
                  let payload = event_fields ''completed'' (q_request_id q) (x_conversation_id x) (x_message_id x) expected_sequence
                        @ [(''content'', JStr content)] in
                  andthen (clear_active c (q_id q) now) (\<lambda>c'.
                  andthen (record_usage
                    (add_event (event_row eid q expected_sequence ''completed'' payload now)
                      (put_conversation c'
                        (put_message (m\<lparr>m_content := text_json content, m_status := MCompleted, m_updated_at := now\<rparr>)
                          (put_request (complete_request now expected_sequence provider_request_id (cu_usage usage) q) db))))
                    uid x provider_request_id price (cu_usage usage) charge) (\<lambda>db1.
                  andthen (commit_flush db1) (\<lambda>db2. Inr (True, db2)))))))
              | _ \<Rightarrow> Inr (False, db)))))"

text \<open>The sentence shown with a failure (in the source a fixed Chinese text).\<close>

definition FAILURE_MESSAGE :: string where
  "FAILURE_MESSAGE = ''the model response did not complete''"

definition error_body :: "string \<Rightarrow> uuid \<Rightarrow> bool \<Rightarrow> json" where
  "error_body code request_id retryable =
     JObj [(''code'', JStr code), (''message'', JStr FAILURE_MESSAGE), (''request_id'', JStr (str_uuid request_id)), (''retryable'', JBool retryable)]"

definition terminal_payload ::
  "InferenceRequest \<Rightarrow> ChatExecutionRecord \<Rightarrow> int \<Rightarrow> string \<Rightarrow> string option \<Rightarrow> (string \<times> json) list option \<Rightarrow> (string \<times> json) list" where
  "terminal_payload q x expected_sequence event_type error_code error_details =
     event_fields event_type (q_request_id q) (x_conversation_id x) (x_message_id x) expected_sequence @
     (if event_type = ''failed'' then
        [(''error'', error_body (case or_else error_code (Some ''CHAT_PROVIDER_ERROR'') of Some c \<Rightarrow> c | None \<Rightarrow> []) (q_request_id q)
           (truthy (map_of (case error_details of None \<Rightarrow> [] | Some d \<Rightarrow> d) ''retryable'')))]
      else [])"

definition terminate_request ::
  "instant \<Rightarrow> int \<Rightarrow> InferenceStatus \<Rightarrow> string option \<Rightarrow> string option \<Rightarrow> (string \<times> json) list option \<Rightarrow> string \<Rightarrow> InferenceRequest \<Rightarrow> InferenceRequest"
where
  "terminate_request now expected_sequence request_status provider_request_id error_code error_details terminal_reason q =
     q\<lparr>q_status := request_status, q_provider_request_id := or_else provider_request_id (q_provider_request_id q),
       q_error_code := error_code, q_sanitized_error_details := safe_details error_details,
       q_last_event_sequence := expected_sequence, q_completed_at := Some now, q_terminal_reason := Some terminal_reason,
       q_lease_token := None, q_lease_expires_at := None, q_updated_at := now\<rparr>"

definition terminal_without_usage ::
  "chat_db \<Rightarrow> instant \<Rightarrow> instant \<Rightarrow> uuid \<Rightarrow> ChatExecutionRecord \<Rightarrow> int \<Rightarrow> string \<Rightarrow> string \<Rightarrow> InferenceStatus \<Rightarrow> MessageStatus \<Rightarrow>
   string option \<Rightarrow> (string \<times> json) list option \<Rightarrow> string option \<Rightarrow> InferenceStatus list \<Rightarrow> string option \<Rightarrow> (chat_error raised + bool) \<times> chat_db"
where
  "terminal_without_usage db now seen eid x expected_sequence content event_type request_status message_status
     error_code error_details provider_request_id statuses terminal_reason =
     transaction db
       (andthen (locked_writable_request db seen x expected_sequence statuses) (\<lambda>found.
        case found of
          None \<Rightarrow> Inr (False, db)
        | Some q \<Rightarrow>
            if \<not> provider_id_is_coherent q provider_request_id then Inr (False, db)
            else
              andthen (locked_message db x) (\<lambda>message.
              andthen (locked_conversation db x) (\<lambda>conversation.
              case (message, conversation) of
                (Some m, Some c) \<Rightarrow>
                  (let m' = m\<lparr>m_content := (if content = [] then m_content m else text_json content), m_status := message_status, m_updated_at := now\<rparr>;
                       reason = (case or_else terminal_reason (Some event_type) of Some s \<Rightarrow> s | None \<Rightarrow> []);
                       q' = terminate_request now expected_sequence request_status provider_request_id error_code error_details reason q;
                       payload = terminal_payload q x expected_sequence event_type error_code error_details in
                   andthen (clear_active c (q_id q) now) (\<lambda>c'.
                   andthen (chat_flush (add_event (event_row eid q expected_sequence event_type payload now)
                     (put_conversation c' (put_message m' (put_request q' db))))) (\<lambda>db'.
                   Inr (True, db'))))
              | _ \<Rightarrow> Inr (False, db)))))"

definition mark_stopped ::
  "chat_db \<Rightarrow> instant \<Rightarrow> instant \<Rightarrow> uuid \<Rightarrow> ChatExecutionRecord \<Rightarrow> int \<Rightarrow> string \<Rightarrow> (chat_error raised + bool) \<times> chat_db" where
  "mark_stopped db now seen eid x expected_sequence content =
     terminal_without_usage db now seen eid x expected_sequence content ''stopped'' IStopped MStopped None None
       (x_provider_request_id x) RUNNING_STATUSES None"

definition mark_failed ::
  "chat_db \<Rightarrow> instant \<Rightarrow> instant \<Rightarrow> uuid \<Rightarrow> ChatExecutionRecord \<Rightarrow> int \<Rightarrow> string \<Rightarrow> (string \<times> json) list option \<Rightarrow> string option
   \<Rightarrow> (chat_error raised + bool) \<times> chat_db" where
  "mark_failed db now seen eid x expected_sequence error_code error_details provider_request_id =
     terminal_without_usage db now seen eid x expected_sequence [] ''failed'' IFailed MFailed (Some error_code) error_details
       provider_request_id RUNNING_STATUSES None"

definition mark_submitted_unknown ::
  "chat_db \<Rightarrow> instant \<Rightarrow> instant \<Rightarrow> uuid \<Rightarrow> ChatExecutionRecord \<Rightarrow> string option \<Rightarrow> string \<Rightarrow> (chat_error raised + bool) \<times> chat_db" where
  "mark_submitted_unknown db now seen eid x provider_request_id error_code =
     terminal_without_usage db now seen eid x (x_last_event_sequence x + 1) [] ''failed'' ISubmittedUnknown MFailed (Some error_code)
       (Some [(''code'', JStr error_code), (''phase'', JStr ''provider''), (''retryable'', JBool False)])
       provider_request_id [IRunning] (Some ''provider_submission_unknown'')"

subsection \<open>Expired leases\<close>

definition reconcile_unknown :: "instant \<Rightarrow> int \<Rightarrow> InferenceRequest \<Rightarrow> InferenceRequest" where
  "reconcile_unknown now sequence q =
     q\<lparr>q_status := ISubmittedUnknown, q_error_code := Some ''CHAT_LEASE_EXPIRED'',
       q_sanitized_error_details := Some [(''code'', JStr ''CHAT_LEASE_EXPIRED''), (''phase'', JStr ''lease''), (''retryable'', JBool False)],
       q_terminal_reason := Some ''worker_lease_expired_unknown'', q_last_event_sequence := sequence, q_completed_at := Some now,
       q_lease_token := None, q_lease_expires_at := None, q_updated_at := now\<rparr>"

definition reconcile_stopped :: "instant \<Rightarrow> int \<Rightarrow> InferenceRequest \<Rightarrow> InferenceRequest" where
  "reconcile_stopped now sequence q =
     q\<lparr>q_status := IStopped, q_last_event_sequence := sequence, q_completed_at := Some now,
       q_terminal_reason := Some ''stop_reconciled_after_lease_expiry'', q_lease_token := None, q_lease_expires_at := None, q_updated_at := now\<rparr>"

text \<open>
  One turn of the loop. A request without links, or whose message or conversation does not match, is skipped;
  the counters are (unknown, stopped).
\<close>

definition reconcile_row ::
  "instant \<Rightarrow> (nat \<Rightarrow> uuid) \<Rightarrow> InferenceRequest \<Rightarrow> (nat \<times> nat) \<times> chat_db \<Rightarrow> chat_error raised + ((nat \<times> nat) \<times> chat_db)" where
  "reconcile_row now fresh q acc =
     (case acc of ((unknown, stopped), db) \<Rightarrow>
        (case (q_conversation_id q, q_message_id q) of
           (Some conversation_id, Some message_id) \<Rightarrow>
             andthen (scalar_one_or_none (filter (\<lambda>m. m_tenant_id m = q_tenant_id q \<and> m_id m = message_id \<and>
               m_conversation_id m = conversation_id) (ch_messages db))) (\<lambda>message.
             andthen (scalar_one_or_none (filter (\<lambda>c. cv_tenant_id c = q_tenant_id q \<and> cv_id c = conversation_id \<and>
               cv_active_inference_request_id c = Some (q_id q)) (ch_conversations db))) (\<lambda>conversation.
             case (message, conversation) of
               (Some m, Some c) \<Rightarrow>
                 (let sequence = q_last_event_sequence q + 1; eid = fresh (unknown + stopped) in
                  andthen (clear_active c (q_id q) now) (\<lambda>c'.
                  if q_status q = IRunning then
                    Inr ((unknown + 1, stopped),
                      add_event (event_row eid q sequence ''failed''
                          (event_fields ''failed'' (q_request_id q) conversation_id message_id sequence @
                             [(''error'', error_body ''CHAT_LEASE_EXPIRED'' (q_request_id q) False)]) now)
                        (put_conversation c' (put_message (m\<lparr>m_status := MFailed, m_updated_at := now\<rparr>)
                          (put_request (reconcile_unknown now sequence q) db))))
                  else
                    Inr ((unknown, stopped + 1),
                      add_event (event_row eid q sequence ''stopped''
                          (event_fields ''stopped'' (q_request_id q) conversation_id message_id sequence) now)
                        (put_conversation c' (put_message (m\<lparr>m_status := MStopped, m_updated_at := now\<rparr>)
                          (put_request (reconcile_stopped now sequence q) db))))))
             | _ \<Rightarrow> Inr acc))
         | _ \<Rightarrow> Inr acc))"

fun reconcile_rows ::
  "instant \<Rightarrow> (nat \<Rightarrow> uuid) \<Rightarrow> InferenceRequest list \<Rightarrow> (nat \<times> nat) \<times> chat_db \<Rightarrow> chat_error raised + ((nat \<times> nat) \<times> chat_db)" where
  "reconcile_rows now fresh [] acc = Inr acc"
| "reconcile_rows now fresh (q # qs) acc = andthen (reconcile_row now fresh q acc) (reconcile_rows now fresh qs)"

definition expired_requests :: "chat_db \<Rightarrow> instant \<Rightarrow> (uuid \<Rightarrow> bool) \<Rightarrow> int \<Rightarrow> InferenceRequest list" where
  "expired_requests db now locked limit =
     take (nat limit) (sort_key (\<lambda>q. (q_updated_at q, q_id q))
       (filter (\<lambda>q. q_status q \<in> set RUNNING_STATUSES \<and> null_or (\<lambda>e. e \<le> now) (q_lease_expires_at q) \<and> \<not> locked (q_id q)) (ch_requests db)))"

definition reconcile_expired_once ::
  "chat_db \<Rightarrow> instant \<Rightarrow> (uuid \<Rightarrow> bool) \<Rightarrow> (nat \<Rightarrow> uuid) \<Rightarrow> int \<Rightarrow> (chat_error raised + (nat \<times> nat)) \<times> chat_db" where
  "reconcile_expired_once db now locked fresh limit =
     transaction db
       (andthen (require (1 \<le> limit \<and> limit \<le> 500) (Domain (ChatValueError ''reconciliation limit must be between 1 and 500''))) (\<lambda>_.
        andthen (reconcile_rows now fresh (expired_requests db now locked limit) ((0, 0), db)) (\<lambda>(counts, db').
        andthen (chat_flush db') (\<lambda>db''. Inr (counts, db'')))))"

end
