(* ===== verification/Chat_Repository.thy ===== *)
theory Chat_Repository
  imports Chat_Execution
begin

text \<open>
  The API's side of the chat path (\<open>app/conversations/repository.py\<close>): conversations, the acceptance of a message
  or of a regeneration (one transaction that claims the idempotency key, appends the messages, binds route and
  price, places the hold, makes the request the conversation's active one, writes its first event and queues
  the outbox event), stop, and the reads. Identifiers and clocks are arguments; the actor's membership has
  been established by authentication.
\<close>

record chat_fresh =
  cf_idempotency_id :: uuid
  cf_conversation_id :: uuid
  cf_user_message_id :: uuid
  cf_assistant_message_id :: uuid
  cf_request_db_id :: uuid
  cf_request_id :: uuid
  cf_reservation_id :: uuid
  cf_ledger_id :: uuid
  cf_event_id :: uuid
  cf_outbox_id :: uuid
  cf_now :: instant
  cf_db_now :: instant

abbreviation CONVERSATION_CREATE :: string where "CONVERSATION_CREATE \<equiv> ''conversation.create''"
abbreviation CONVERSATION_SEND :: string where "CONVERSATION_SEND \<equiv> ''conversation.send''"
abbreviation CONVERSATION_REGENERATE :: string where "CONVERSATION_REGENERATE \<equiv> ''conversation.regenerate''"

abbreviation TERMINAL_REQUEST_STATUSES :: "InferenceStatus list" where
  "TERMINAL_REQUEST_STATUSES \<equiv> [ISucceeded, IFailed, ICancelled, IStopped]"

subsection \<open>Idempotency\<close>

definition claim_idempotency ::
  "chat_db \<Rightarrow> chat_fresh \<Rightarrow> uuid \<Rightarrow> uuid \<Rightarrow> string \<Rightarrow> string \<Rightarrow> string
   \<Rightarrow> chat_error raised + ((string \<times> json) list IdempotencyRecord \<times> bool \<times> chat_db)" where
  "claim_idempotency db fr t actor operation key request_hash =
     andthen (require (length key \<le> 255 \<and> length request_hash \<le> 128) (Sql StringTooLong)) (\<lambda>_.
     case filter (\<lambda>r. idempotency_scope r = (t, actor, operation, key)) (ch_idempotency db) of
       [] \<Rightarrow>
         (let inserted = \<lparr>id_id = cf_idempotency_id fr, id_tenant_id = t, id_actor_user_id = actor, id_operation = operation,
                id_key = key, id_request_hash = request_hash, id_status = ''processing'', id_response_status = None,
                id_response_body = None, id_resource_type = None, id_resource_id = None\<rparr> in
          andthen (require (idempotency_ok (ch_idempotency db @ [inserted])) (Sql UniqueViolation)) (\<lambda>_.
          Inr (inserted, True, db\<lparr>ch_idempotency := ch_idempotency db @ [inserted]\<rparr>)))
     | [existing] \<Rightarrow>
         andthen (require (id_request_hash existing = request_hash) (Domain IdempotencyConflictError)) (\<lambda>_.
         Inr (existing, False, db))
     | _ \<Rightarrow> Inl (Sql MultipleResultsFound))"

definition complete_idempotency ::
  "chat_db \<Rightarrow> uuid \<Rightarrow> uuid \<Rightarrow> int \<Rightarrow> string \<Rightarrow> uuid \<Rightarrow> (string \<times> json) list \<Rightarrow> chat_db" where
  "complete_idempotency db t idem_id response_status resource_type resource_id response_body =
     db\<lparr>ch_idempotency := update_where (\<lambda>r. id_tenant_id r = t \<and> id_id r = idem_id)
       (\<lambda>r. r\<lparr>id_status := ''completed'', id_response_status := Some response_status, id_resource_type := Some resource_type,
              id_resource_id := Some resource_id, id_response_body := Some response_body\<rparr>) (ch_idempotency db)\<rparr>"

subsection \<open>Reading conversations\<close>

definition conversation_query :: "chat_db \<Rightarrow> uuid \<Rightarrow> uuid \<Rightarrow> (Conversation \<times> ProductModel) list" where
  "conversation_query db t actor =
     [(c, p). c \<leftarrow> ch_conversations db, cv_tenant_id c = t \<and> cv_created_by_user_id c = actor,
        p \<leftarrow> c_products (ch_catalog db), pm_id p = cv_product_model_id c]"

definition get_row_by_id :: "chat_db \<Rightarrow> uuid \<Rightarrow> uuid \<Rightarrow> uuid \<Rightarrow> (Conversation \<times> ProductModel) option" where
  "get_row_by_id db t actor conversation_id =
     first_row (filter (\<lambda>(c, _). cv_id c = conversation_id) (conversation_query db t actor))"

definition lock_conversation :: "chat_db \<Rightarrow> uuid \<Rightarrow> uuid \<Rightarrow> uuid \<Rightarrow> Conversation option" where
  "lock_conversation db t actor conversation_id = map_option fst (get_row_by_id db t actor conversation_id)"

text \<open>The third alternative of the title is a fixed text (in the source a Chinese one).\<close>

definition NEW_CONVERSATION :: string where "NEW_CONVERSATION = ''new conversation''"

definition conversation_title :: "Conversation \<Rightarrow> ProductModel \<Rightarrow> string" where
  "conversation_title c p =
     take 240 (case cv_title c of
       Some (ch # s) \<Rightarrow> ch # s | _ \<Rightarrow> if pm_display_name p \<noteq> [] then pm_display_name p else NEW_CONVERSATION)"

definition materialize_loaded ::
  "Conversation \<times> ProductModel \<Rightarrow> uuid \<Rightarrow> Message list \<Rightarrow> InferenceRequest list \<Rightarrow> chat_error raised + ConversationRecord" where
  "materialize_loaded row t messages requests =
     (case row of (c, p) \<Rightarrow>
        andthen (case cv_active_inference_request_id c of
                   None \<Rightarrow> Inr (None, None)
                 | Some active \<Rightarrow>
                     (case filter (\<lambda>q. q_id q = active) requests of
                        [] \<Rightarrow> Inl (Domain (ConversationInfrastructureError ''CONVERSATION_STATE_INVALID''))
                      | q # _ \<Rightarrow> Inr (Some (q_request_id q), Some (q_last_event_sequence q)))) (\<lambda>(active_public, active_cursor).
        Inr \<lparr>vr_conversation_id = cv_id c, vr_tenant_id = t, vr_product_model_id = pm_model_key p,
             vr_title = conversation_title c p,
             vr_messages = map (\<lambda>m. \<lparr>mr_message_id = m_id m, mr_role = m_role m, mr_content = text_content (m_content m),
               mr_status = m_status m, mr_created_at = m_created_at m,
               mr_request_id = map_option q_request_id (first_row (filter (\<lambda>q. q_message_id q = Some (m_id m)) requests))\<rparr>) messages,
             vr_updated_at = cv_updated_at c, vr_active_request_id = active_public, vr_active_request_cursor = active_cursor\<rparr>))"

definition conversation_messages :: "chat_db \<Rightarrow> uuid \<Rightarrow> uuid \<Rightarrow> Message list" where
  "conversation_messages db t conversation_id =
     sort_key m_sequence_no (filter (\<lambda>m. m_tenant_id m = t \<and> m_conversation_id m = conversation_id \<and>
       m_role m \<in> set [''user'', ''assistant'']) (ch_messages db))"

definition materialize_row :: "chat_db \<Rightarrow> Conversation \<times> ProductModel \<Rightarrow> uuid \<Rightarrow> chat_error raised + ConversationRecord" where
  "materialize_row db row t =
     materialize_loaded row t (conversation_messages db t (cv_id (fst row)))
       (rev (sort_key q_created_at (rev (filter (\<lambda>q. q_tenant_id q = t \<and> q_conversation_id q = Some (cv_id (fst row))) (ch_requests db)))))"

text \<open>\<open>list\<close> loads the latest message and the active request of each conversation.\<close>

definition latest_message :: "chat_db \<Rightarrow> uuid \<Rightarrow> uuid \<Rightarrow> Message list" where
  "latest_message db t conversation_id =
     take 1 (rev (sort_key (\<lambda>m. (m_sequence_no m, m_id m)) (conversation_messages db t conversation_id)))"

definition list_conversations :: "chat_db \<Rightarrow> uuid \<Rightarrow> uuid \<Rightarrow> int \<Rightarrow> chat_error raised + ConversationRecord list" where
  "list_conversations db t actor limit =
     andthen (require (1 \<le> limit \<and> limit \<le> 100) (Domain (ChatValueError ''conversation list limit must be between 1 and 100''))) (\<lambda>_.
     let rows = take (nat limit) (sort_key (\<lambda>(c, _). (- cv_updated_at c, cv_id c))
           (filter (\<lambda>(c, _). cv_status c = ''active'') (conversation_query db t actor)));
         active = List.map_filter (\<lambda>(c, _). cv_active_inference_request_id c) rows;
         requests = filter (\<lambda>q. q_tenant_id q = t \<and> q_id q \<in> set active) (ch_requests db) in
     traverse (\<lambda>row. materialize_loaded row t (latest_message db t (cv_id (fst row)))
       (filter (\<lambda>q. q_conversation_id q = Some (cv_id (fst row))) requests)) rows)"

definition get_conversation :: "chat_db \<Rightarrow> uuid \<Rightarrow> uuid \<Rightarrow> uuid \<Rightarrow> chat_error raised + ConversationRecord option" where
  "get_conversation db t actor conversation_id =
     (case get_row_by_id db t actor conversation_id of
        None \<Rightarrow> Inr None
      | Some row \<Rightarrow> andthen (materialize_row db row t) (\<lambda>r. Inr (Some r)))"

definition request_record :: "InferenceRequest \<Rightarrow> chat_error raised + ChatRequestRecord" where
  "request_record q =
     (case (q_conversation_id q, q_message_id q) of
        (Some conversation_id, Some message_id) \<Rightarrow>
          Inr \<lparr>rq_request_db_id = q_id q, rq_request_id = q_request_id q, rq_conversation_id = conversation_id,
               rq_message_id = message_id, rq_tenant_id = q_tenant_id q, rq_status = q_status q,
               rq_last_event_sequence = q_last_event_sequence q\<rparr>
      | _ \<Rightarrow> Inl (Domain CONVERSATION_UNAVAILABLE))"

subsection \<open>Creation\<close>

definition entitled_product :: "chat_db \<Rightarrow> uuid \<Rightarrow> (ProductModel \<Rightarrow> bool) \<Rightarrow> chat_error raised + ProductModel" where
  "entitled_product db t selected =
     or_raise ModelNotFoundError (scalar_one_or_none
       [p. p \<leftarrow> c_products (ch_catalog db), e \<leftarrow> c_entitlements (ch_catalog db), entitled t p e,
          selected p \<and> pm_modality p = ''text'' \<and> pm_task_type p = ''chat'' \<and> pm_status p = ''active''])"

definition new_conversation :: "chat_fresh \<Rightarrow> uuid \<Rightarrow> uuid \<Rightarrow> ProductModel \<Rightarrow> Conversation" where
  "new_conversation fr t actor p =
     \<lparr>cv_id = cf_conversation_id fr, cv_tenant_id = t, cv_created_by_user_id = actor, cv_product_model_id = pm_id p,
      cv_title = Some (take 240 (pm_display_name p)), cv_status = ''active'', cv_active_inference_request_id = None,
      cv_version = 0, cv_created_at = cf_now fr, cv_updated_at = cf_now fr\<rparr>"

definition create_conversation ::
  "chat_db \<Rightarrow> chat_fresh \<Rightarrow> uuid \<Rightarrow> uuid \<Rightarrow> string \<Rightarrow> string \<Rightarrow> string \<Rightarrow> (chat_error raised + (ConversationRecord \<times> bool)) \<times> chat_db" where
  "create_conversation db fr t actor product_model_id client_request_id request_hash =
     transaction db
       (andthen (claim_idempotency db fr t actor CONVERSATION_CREATE client_request_id request_hash) (\<lambda>(idem, inserted, db1).
        if \<not> inserted then
          (case id_resource_id idem of
             None \<Rightarrow> Inl (Domain IdempotencyInProgressError)
           | Some conversation_id \<Rightarrow>
               (case get_row_by_id db1 t actor conversation_id of
                  None \<Rightarrow> Inl (Domain CONVERSATION_UNAVAILABLE)
                | Some row \<Rightarrow> andthen (materialize_row db1 row t) (\<lambda>r. Inr ((r, True), db1))))
        else
          andthen (entitled_product db1 t (\<lambda>p. pm_model_key p = product_model_id)) (\<lambda>product.
          andthen (chat_flush (db1\<lparr>ch_conversations := ch_conversations db1 @ [new_conversation fr t actor product]\<rparr>)) (\<lambda>db2.
          let db3 = complete_idempotency db2 t (id_id idem) 201 ''conversation'' (cf_conversation_id fr)
                [(''conversation_id'', JStr (str_uuid (cf_conversation_id fr)))] in
          (case get_row_by_id db3 t actor (cf_conversation_id fr) of
             None \<Rightarrow> Inl (Domain CONVERSATION_UNAVAILABLE)
           | Some row \<Rightarrow> andthen (materialize_row db3 row t) (\<lambda>r. Inr ((r, False), db3)))))))"

subsection \<open>Acceptance of a request\<close>

definition chat_resolve_route :: "chat_db \<Rightarrow> uuid \<Rightarrow> uuid \<Rightarrow> chat_error raised + (uuid \<times> string)" where
  "chat_resolve_route db t product_model_db_id =
     andthen (entitled_product db t (\<lambda>p. pm_id p = product_model_db_id)) (\<lambda>product.
     case sort_key (\<lambda>d. (md_priority d, md_created_at d))
            [d. d \<leftarrow> c_deployments (ch_catalog db), ep \<leftarrow> c_endpoints (ch_catalog db), pe_id ep = md_provider_endpoint_id d,
               md_product_model_id d = pm_id product \<and> md_status d = ''active'' \<and> pe_status ep = ''active''] of
       [] \<Rightarrow> Inl (Domain ModelUnavailableError)
     | route # _ \<Rightarrow> Inr (md_id route, pm_model_key product))"

definition max_sequence :: "chat_db \<Rightarrow> uuid \<Rightarrow> uuid \<Rightarrow> int" where
  "max_sequence db t conversation_id =
     (let ns = map m_sequence_no (filter (\<lambda>m. m_tenant_id m = t \<and> m_conversation_id m = conversation_id) (ch_messages db)) in
      case ns of [] \<Rightarrow> 0 | n # ns' \<Rightarrow> foldl max n ns')"

definition user_message :: "chat_fresh \<Rightarrow> uuid \<Rightarrow> uuid \<Rightarrow> uuid \<Rightarrow> int \<Rightarrow> string \<Rightarrow> Message" where
  "user_message fr t actor conversation_id sequence content =
     \<lparr>m_id = cf_user_message_id fr, m_tenant_id = t, m_conversation_id = conversation_id, m_sequence_no = sequence,
      m_role = ''user'', m_content = text_json content, m_status = MAccepted, m_author_user_id = Some actor, m_request_id = None,
      m_created_at = cf_db_now fr, m_updated_at = cf_db_now fr\<rparr>"

definition assistant_message :: "chat_fresh \<Rightarrow> uuid \<Rightarrow> uuid \<Rightarrow> int \<Rightarrow> Message" where
  "assistant_message fr t conversation_id sequence =
     \<lparr>m_id = cf_assistant_message_id fr, m_tenant_id = t, m_conversation_id = conversation_id, m_sequence_no = sequence,
      m_role = ''assistant'', m_content = text_json [], m_status = MStreaming, m_author_user_id = None, m_request_id = None,
      m_created_at = cf_db_now fr, m_updated_at = cf_db_now fr\<rparr>"

text \<open>The messages a request adds, in order.\<close>

definition appended_messages ::
  "chat_db \<Rightarrow> chat_fresh \<Rightarrow> uuid \<Rightarrow> uuid \<Rightarrow> uuid \<Rightarrow> string option \<Rightarrow> uuid option \<Rightarrow> Message list" where
  "appended_messages db fr t actor conversation_id user_content assistant_message_id =
     (let next_sequence = max_sequence db t conversation_id + 1;
          user = (case user_content of None \<Rightarrow> [] | Some content \<Rightarrow> [user_message fr t actor conversation_id next_sequence content])
      in user @ (case assistant_message_id of
           Some _ \<Rightarrow> [] | None \<Rightarrow> [assistant_message fr t conversation_id (next_sequence + int (length user))]))"

definition accepted_request ::
  "chat_fresh \<Rightarrow> uuid \<Rightarrow> uuid \<Rightarrow> uuid \<Rightarrow> uuid \<Rightarrow> uuid \<Rightarrow> string \<Rightarrow> uuid option \<Rightarrow> string option \<Rightarrow> AcceptedDecisionSnapshot \<Rightarrow> InferenceRequest" where
  "accepted_request fr t actor conversation_id message_id deployment_id request_hash parent_request_id user_content decision =
     \<lparr>q_id = cf_request_db_id fr, q_tenant_id = t, q_request_id = cf_request_id fr, q_actor_user_id = Some actor,
      q_conversation_id = Some conversation_id, q_message_id = Some message_id, q_model_deployment_id = deployment_id,
      q_accepted_model_revision_id = Some (ad_model_revision_id decision),
      q_accepted_model_deployment_id = Some (ad_model_deployment_id decision),
      q_accepted_routing_policy_id = Some (ad_routing_policy_id decision),
      q_accepted_price_version_id = Some (ad_price_version_id decision), q_billing_reservation_id = None,
      q_accepted_capability_schema_version = Some (ad_capability_schema_version decision),
      q_accepted_capability_schema_hash = Some (ad_capability_schema_hash decision),
      q_accepted_capability_schema = Some (JObj (ad_capability_schema decision)),
      q_accepted_input_snapshot = Some (JObj [(''content'', case user_content of None \<Rightarrow> JNull | Some s \<Rightarrow> JStr s)]),
      q_status = IQueued, q_provider_request_id = None, q_provider_task_id = None, q_request_hash = request_hash,
      q_input_tokens = 0, q_output_tokens = 0, q_error_code = None, q_started_at = None, q_completed_at = None,
      q_last_event_sequence = -1, q_cancel_requested_at = None, q_worker_id = None, q_lease_token = None,
      q_lease_expires_at = None, q_last_heartbeat_at = None, q_provider_started_at = None, q_terminal_reason = None,
      q_sanitized_error_details = None, q_parent_request_id = parent_request_id, q_created_at = cf_db_now fr, q_updated_at = cf_db_now fr\<rparr>"

definition chat_outbox_event :: "chat_fresh \<Rightarrow> uuid \<Rightarrow> uuid \<Rightarrow> int \<Rightarrow> uuid \<Rightarrow> uuid \<Rightarrow> uuid \<Rightarrow> OutboxRow" where
  "chat_outbox_event fr t conversation_id version message_id deployment_id reservation_id =
     \<lparr>o_id = cf_outbox_id fr, o_tenant_id = t, o_aggregate_type = ''conversation'', o_aggregate_id = conversation_id,
      o_event_type = ''chat.inference.execute'', o_aggregate_version = version,
      o_payload = [(''request_id'', JStr (str_uuid (cf_request_id fr))), (''conversation_id'', JStr (str_uuid conversation_id)),
        (''message_id'', JStr (str_uuid message_id)), (''model_deployment_id'', JStr (str_uuid deployment_id)),
        (''reservation_id'', JStr (str_uuid reservation_id))],
      o_status = ''pending'', o_attempts = 0, o_available_at = cf_db_now fr, o_published_at = None, o_error_details = None,
      o_claim_owner = None, o_lease_token = None, o_lease_expires_at = None, o_created_at = cf_db_now fr\<rparr>"

text \<open>The price of a request is what settlement reads of the requests table.\<close>

definition priced_request :: "InferenceRequest \<Rightarrow> priced_source" where
  "priced_request q = \<lparr>src_tenant_id = q_tenant_id q, src_id = q_id q, src_accepted_price_version_id = q_accepted_price_version_id q\<rparr>"

definition chat_billing :: "chat_db \<Rightarrow> billing_db" where
  "chat_billing db = (ch_billing db)\<lparr>inference_requests := map priced_request (ch_requests db)\<rparr>"

definition append_event :: "chat_db \<Rightarrow> uuid \<Rightarrow> instant \<Rightarrow> InferenceRequest \<Rightarrow> string \<Rightarrow> int \<Rightarrow> (string \<times> json) list \<Rightarrow> chat_error raised + chat_db" where
  "append_event db eid now q event_type sequence payload =
     chat_flush (add_event (event_row eid q sequence event_type payload now) (put_request (q\<lparr>q_last_event_sequence := sequence\<rparr>) db))"

text \<open>The request with its hold, its message and its conversation linked to it.\<close>

definition append_request_transaction ::
  "chat_db \<Rightarrow> chat_fresh \<Rightarrow> uuid \<Rightarrow> uuid \<Rightarrow> Conversation \<Rightarrow> uuid \<Rightarrow> string option \<Rightarrow> uuid option \<Rightarrow> string \<Rightarrow> uuid option
   \<Rightarrow> chat_error raised + (ChatRequestRecord \<times> chat_db)" where
  "append_request_transaction db fr t actor c deployment_id user_content assistant_message_id request_hash parent_request_id =
     (let message_id = (case assistant_message_id of None \<Rightarrow> cf_assistant_message_id fr | Some i \<Rightarrow> i) in
      andthen (chat_flush (db\<lparr>ch_messages := ch_messages db @
        appended_messages db fr t actor (cv_id c) user_content assistant_message_id\<rparr>)) (\<lambda>db1.
      andthen (map_error (Domain \<circ> ChatBillingError)
        (resolve_accepted_decision (ch_catalog db1) (cv_product_model_id c) deployment_id (cf_now fr))) (\<lambda>found.
      case found of
        None \<Rightarrow> Inl (Domain ModelUnavailableError)
      | Some decision \<Rightarrow>
      (let q = accepted_request fr t actor (cv_id c) message_id deployment_id request_hash parent_request_id user_content decision in
      andthen (chat_flush (db1\<lparr>ch_requests := ch_requests db1 @ [q]\<rparr>)) (\<lambda>db2.
      andthen (map_error (Domain \<circ> ChatBillingError)
        (reserve_in_transaction (chat_billing db2) (chat_billing db2) (chat_billing db2) (cf_reservation_id fr) (cf_ledger_id fr)
           (cf_now fr) t ''chat_inference'' (q_id q) (ad_price decision) (Aware (cf_now fr + seconds (15 * 60))))) (\<lambda>(reservation, billing).
      let q1 = q\<lparr>q_billing_reservation_id := Some (rr_reservation_id reservation)\<rparr> in
      andthen (chat_flush (put_request q1 (db2\<lparr>ch_billing := billing\<rparr>))) (\<lambda>db3.
      andthen (scalar_one_or_none (filter (\<lambda>m. m_tenant_id m = t \<and> m_id m = message_id \<and> m_conversation_id m = cv_id c) (ch_messages db3))) (\<lambda>row.
      case row of
        None \<Rightarrow> Inl (Domain CONVERSATION_UNAVAILABLE)
      | Some m \<Rightarrow>
      andthen (chat_flush (put_message (m\<lparr>m_request_id := Some (q_id q), m_updated_at := cf_db_now fr\<rparr>) db3)) (\<lambda>db4.
      let version = cv_version c + 1;
          c' = c\<lparr>cv_active_inference_request_id := Some (q_id q), cv_version := version, cv_updated_at := cf_now fr\<rparr> in
      andthen (append_event (put_conversation c' db4) (cf_event_id fr) (cf_now fr) q1 ''started'' 0
        (event_fields ''started'' (q_request_id q) (cv_id c) message_id 0)) (\<lambda>db5.
      let outbox = ch_outbox db5 @ [chat_outbox_event fr t (cv_id c) version message_id deployment_id (rr_reservation_id reservation)] in
      andthen (require (outbox_unique outbox) (Sql UniqueViolation)) (\<lambda>_.
      andthen (request_record (q1\<lparr>q_last_event_sequence := 0\<rparr>)) (\<lambda>record.
      Inr (record, db5\<lparr>ch_outbox := outbox\<rparr>)))))))))))))"

definition replay_request ::
  "chat_db \<Rightarrow> uuid \<Rightarrow> uuid \<Rightarrow> (string \<times> json) list IdempotencyRecord \<Rightarrow> chat_error raised + AcceptedChatRequest" where
  "replay_request db t actor idem =
     (case id_resource_id idem of
        None \<Rightarrow> Inl (Domain IdempotencyInProgressError)
      | Some db_id \<Rightarrow>
          andthen (scalar_one_or_none
            [q. q \<leftarrow> ch_requests db, c \<leftarrow> ch_conversations db, cv_tenant_id c = q_tenant_id q \<and> q_conversation_id q = Some (cv_id c),
               q_tenant_id q = t \<and> q_id q = db_id \<and> q_actor_user_id q = Some actor \<and> cv_created_by_user_id c = actor]) (\<lambda>found.
          case found of
            None \<Rightarrow> Inl (Domain CONVERSATION_UNAVAILABLE)
          | Some q \<Rightarrow> andthen (request_record q) (\<lambda>r. Inr \<lparr>ar_request = r, ar_replayed = True\<rparr>)))"

definition accepted_body :: "ChatRequestRecord \<Rightarrow> uuid \<Rightarrow> (string \<times> json) list" where
  "accepted_body r conversation_id =
     [(''request_id'', JStr (str_uuid (rq_request_id r))), (''message_id'', JStr (str_uuid (rq_message_id r))),
      (''conversation_id'', JStr (str_uuid conversation_id))]"

text \<open>\<open>submit\<close> and \<open>regenerate\<close> open alike: replay, then the idle conversation of the actor.\<close>

definition with_idle_conversation ::
  "chat_db \<Rightarrow> chat_fresh \<Rightarrow> uuid \<Rightarrow> uuid \<Rightarrow> string \<Rightarrow> uuid \<Rightarrow> string \<Rightarrow> string \<Rightarrow>
   (chat_db \<Rightarrow> Conversation \<Rightarrow> chat_error raised + (ChatRequestRecord \<times> chat_db)) \<Rightarrow> (chat_error raised + AcceptedChatRequest) \<times> chat_db" where
  "with_idle_conversation db fr t actor operation conversation_id client_request_id request_hash body =
     transaction db
       (andthen (claim_idempotency db fr t actor operation client_request_id request_hash) (\<lambda>(idem, inserted, db1).
        if \<not> inserted then andthen (replay_request db1 t actor idem) (\<lambda>r. Inr (r, db1))
        else
          (case lock_conversation db1 t actor conversation_id of
             None \<Rightarrow> Inl (Domain ConversationNotFoundError)
           | Some c \<Rightarrow>
               andthen (require (cv_active_inference_request_id c = None) (Domain ConversationBusyError)) (\<lambda>_.
               andthen (body db1 c) (\<lambda>(r, db2).
               Inr (\<lparr>ar_request = r, ar_replayed = False\<rparr>,
                    complete_idempotency db2 t (id_id idem) 202 ''inference_request'' (rq_request_db_id r) (accepted_body r (cv_id c))))))))"

definition submit ::
  "chat_db \<Rightarrow> chat_fresh \<Rightarrow> uuid \<Rightarrow> uuid \<Rightarrow> uuid \<Rightarrow> string \<Rightarrow> string \<Rightarrow> string \<Rightarrow> (chat_error raised + AcceptedChatRequest) \<times> chat_db" where
  "submit db fr t actor conversation_id content client_request_id request_hash =
     with_idle_conversation db fr t actor CONVERSATION_SEND conversation_id client_request_id request_hash (\<lambda>db1 c.
       andthen (chat_resolve_route db1 t (cv_product_model_id c)) (\<lambda>(deployment_id, _).
       append_request_transaction db1 fr t actor c deployment_id (Some content) None request_hash None))"

definition regeneration_target :: "chat_db \<Rightarrow> uuid \<Rightarrow> uuid \<Rightarrow> uuid \<Rightarrow> chat_error raised + Message" where
  "regeneration_target db t conversation_id message_id =
     andthen (or_raise MessageNotLatestError (scalar_one_or_none (filter (\<lambda>m. m_tenant_id m = t \<and>
       m_conversation_id m = conversation_id \<and> m_id m = message_id) (ch_messages db)))) (\<lambda>target.
     case rev (sort_key m_sequence_no (filter (\<lambda>m. m_tenant_id m = t \<and> m_conversation_id m = conversation_id) (ch_messages db))) of
       [] \<Rightarrow> Inl (Domain MessageNotLatestError)
     | latest # _ \<Rightarrow>
         andthen (require (m_id latest = m_id target \<and> m_role target = ''assistant'') (Domain MessageNotLatestError)) (\<lambda>_. Inr target))"

definition regenerate ::
  "chat_db \<Rightarrow> chat_fresh \<Rightarrow> uuid \<Rightarrow> uuid \<Rightarrow> uuid \<Rightarrow> uuid \<Rightarrow> string \<Rightarrow> string \<Rightarrow> (chat_error raised + AcceptedChatRequest) \<times> chat_db" where
  "regenerate db fr t actor conversation_id message_id client_request_id request_hash =
     with_idle_conversation db fr t actor CONVERSATION_REGENERATE conversation_id client_request_id request_hash (\<lambda>db1 c.
       andthen (regeneration_target db1 t conversation_id message_id) (\<lambda>target.
       andthen (chat_resolve_route db1 t (cv_product_model_id c)) (\<lambda>(deployment_id, _).
       append_request_transaction
         (put_message (target\<lparr>m_status := MStreaming, m_content := text_json [], m_updated_at := cf_now fr\<rparr>) db1)
         fr t actor c deployment_id None (Some (m_id target)) request_hash (m_request_id target))))"

subsection \<open>Events\<close>

definition stream_event_record :: "ChatEvent \<Rightarrow> chat_error raised + StreamEventRecord" where
  "stream_event_record e =
     andthen (require (map_of (e_payload e) ''type'' = Some (JStr (e_event_type e)) \<and>
         map_of (e_payload e) ''sequence'' = Some (JInt (e_sequence_no e)))
       (Domain (ConversationInfrastructureError ''STREAM_EVENT_INVALID''))) (\<lambda>_.
     Inr \<lparr>se_sequence = e_sequence_no e, se_event = e_payload e\<rparr>)"

text \<open>The request of an actor: the join both reads and the stop use.\<close>

definition owned_requests :: "chat_db \<Rightarrow> uuid \<Rightarrow> uuid \<Rightarrow> uuid \<Rightarrow> uuid \<Rightarrow> InferenceRequest list" where
  "owned_requests db t actor conversation_id request_id =
     [q. q \<leftarrow> ch_requests db, c \<leftarrow> ch_conversations db, cv_tenant_id c = q_tenant_id q \<and> q_conversation_id q = Some (cv_id c),
        q_tenant_id q = t \<and> q_actor_user_id q = Some actor \<and> q_conversation_id q = Some conversation_id \<and>
        q_request_id q = request_id \<and> cv_created_by_user_id c = actor]"

definition assert_request :: "chat_db \<Rightarrow> uuid \<Rightarrow> uuid \<Rightarrow> uuid \<Rightarrow> uuid \<Rightarrow> chat_error raised + ChatRequestRecord" where
  "assert_request db t actor conversation_id request_id =
     andthen (or_raise ConversationNotFoundError (scalar_one_or_none (owned_requests db t actor conversation_id request_id))) (\<lambda>q.
     andthen (require (q_message_id q \<noteq> None) (Domain ConversationNotFoundError)) (\<lambda>_. request_record q))"

definition events_in_transaction ::
  "chat_db \<Rightarrow> uuid \<Rightarrow> uuid \<Rightarrow> uuid \<Rightarrow> uuid \<Rightarrow> int \<Rightarrow> chat_error raised + StreamEventRecord list" where
  "events_in_transaction db t actor conversation_id request_id after_sequence =
     andthen (or_raise ConversationNotFoundError (scalar_one_or_none (owned_requests db t actor conversation_id request_id))) (\<lambda>q.
     traverse stream_event_record (sort_key e_sequence_no (filter (\<lambda>e. e_tenant_id e = t \<and>
       e_inference_request_id e = q_id q \<and> after_sequence < e_sequence_no e) (ch_events db))))"

subsection \<open>Stop\<close>

definition clear_active_on_row :: "chat_db \<Rightarrow> uuid \<Rightarrow> Conversation \<Rightarrow> uuid \<Rightarrow> instant \<Rightarrow> chat_error raised + chat_db" where
  "clear_active_on_row db t c request_db_id now =
     (let P = (\<lambda>x. cv_tenant_id x = t \<and> cv_id x = cv_id c \<and> cv_active_inference_request_id x = Some request_db_id \<and>
            cv_version x = cv_version c) in
      andthen (require (rowcount P (ch_conversations db) = 1) (Domain (ConversationInfrastructureError ''CONVERSATION_STATE_CONFLICT''))) (\<lambda>_.
      Inr (db\<lparr>ch_conversations := update_where P
        (\<lambda>x. x\<lparr>cv_active_inference_request_id := None, cv_version := cv_version c + 1, cv_updated_at := now\<rparr>) (ch_conversations db)\<rparr>)))"

text \<open>\<open>_append_terminal_event\<close>, called with the type \<open>stopped\<close> only; it returns the request's last sequence number.\<close>

definition append_terminal_event ::
  "chat_db \<Rightarrow> chat_fresh \<Rightarrow> uuid \<Rightarrow> uuid \<Rightarrow> InferenceRequest \<Rightarrow> string \<Rightarrow> chat_error raised + (int \<times> chat_db)" where
  "append_terminal_event db fr t actor q event_type =
     (case q_conversation_id q of
        None \<Rightarrow> Inl (Domain ConversationNotFoundError)
      | Some conversation_id \<Rightarrow>
          andthen (events_in_transaction db t actor conversation_id (q_request_id q) (-1)) (\<lambda>rows.
          if list_ex (\<lambda>r. case map_of (se_event r) ''type'' of Some (JStr ty) \<Rightarrow> ty \<in> set TERMINAL_EVENTS | _ \<Rightarrow> False) rows
          then Inr (q_last_event_sequence q, db)
          else
            let sequence = (if rows = [] then 0 else se_sequence (last rows) + 1) in
            andthen (require (event_type = ''stopped'') (Domain (ConversationInfrastructureError ''STREAM_EVENT_INVALID''))) (\<lambda>_.
            andthen (append_event db (cf_event_id fr) (cf_now fr) q ''stopped'' sequence
              [(''type'', JStr ''stopped''), (''request_id'', JStr (str_uuid (q_request_id q))),
               (''conversation_id'', JStr (str_uuid conversation_id)),
               (''message_id'', JStr (case q_message_id q of None \<Rightarrow> ''None'' | Some m \<Rightarrow> str_uuid m)),
               (''sequence'', JInt sequence)]) (\<lambda>db'.
            Inr (sequence, db')))))"

definition stop_queued :: "instant \<Rightarrow> InferenceRequest \<Rightarrow> InferenceRequest" where
  "stop_queued now q = q\<lparr>q_status := IStopped, q_completed_at := Some now, q_updated_at := now\<rparr>"

definition stop_message :: "chat_db \<Rightarrow> instant \<Rightarrow> InferenceRequest \<Rightarrow> uuid \<Rightarrow> chat_error raised + chat_db" where
  "stop_message db now q t =
     andthen (scalar_one_or_none (filter (\<lambda>m. m_tenant_id m = t \<and> Some (m_id m) = q_message_id q \<and>
       Some (m_conversation_id m) = q_conversation_id q) (ch_messages db))) (\<lambda>message.
     Inr (case message of
        None \<Rightarrow> db
      | Some m \<Rightarrow> if m_status m = MStreaming then put_message (m\<lparr>m_status := MStopped, m_updated_at := now\<rparr>) db else db))"

definition stop_result :: "uuid \<Rightarrow> InferenceStatus \<Rightarrow> bool \<Rightarrow> int \<Rightarrow> StopResult" where
  "stop_result request_id status changed last_event_sequence =
     \<lparr>sr_request_id = request_id, sr_status = status, sr_changed = changed, sr_last_event_sequence = Some last_event_sequence\<rparr>"

definition stop ::
  "chat_db \<Rightarrow> chat_fresh \<Rightarrow> uuid \<Rightarrow> uuid \<Rightarrow> uuid \<Rightarrow> uuid \<Rightarrow> (chat_error raised + StopResult) \<times> chat_db" where
  "stop db fr t actor conversation_id request_id =
     transaction db
       (case lock_conversation db t actor conversation_id of
          None \<Rightarrow> Inl (Domain ConversationNotFoundError)
        | Some c \<Rightarrow>
            andthen (or_raise ConversationNotFoundError (scalar_one_or_none (filter (\<lambda>q. q_tenant_id q = t \<and>
              q_actor_user_id q = Some actor \<and> q_conversation_id q = Some conversation_id \<and> q_request_id q = request_id) (ch_requests db)))) (\<lambda>q.
            if q_status q \<in> set TERMINAL_REQUEST_STATUSES then
              andthen (if cv_active_inference_request_id c = Some (q_id q) then clear_active_on_row db t c (q_id q) (cf_now fr) else Inr db) (\<lambda>db1.
              Inr (stop_result request_id (q_status q) False (q_last_event_sequence q), db1))
            else
              andthen (require (cv_active_inference_request_id c = Some (q_id q)) (Domain ConversationBusyError)) (\<lambda>_.
              if q_status q = IQueued then
                andthen (stop_message db (cf_now fr) q t) (\<lambda>db1.
                andthen (append_terminal_event (put_request (stop_queued (cf_now fr) q) db1) fr t actor (stop_queued (cf_now fr) q) ''stopped'') (\<lambda>(sequence, db2).
                andthen (clear_active_on_row db2 t c (q_id q) (cf_now fr)) (\<lambda>db3.
                andthen (chat_flush db3) (\<lambda>db4.
                Inr (stop_result request_id IStopped True sequence, db4)))))
              else if q_status q \<in> set [IRunning, ISubmittedUnknown, IStopRequested] then
                andthen (chat_flush (put_request (q\<lparr>q_status := IStopRequested, q_cancel_requested_at := Some (cf_now fr), q_updated_at := cf_now fr\<rparr>) db)) (\<lambda>db1.
                Inr (stop_result request_id IStopRequested True (q_last_event_sequence q), db1))
              else Inl (Domain (ConversationInfrastructureError ''INFERENCE_STATE_INVALID'')))))"

end
