(* ===== verification/Chat_Invariants.thy ===== *)
theory Chat_Invariants
  imports Chat_Repository
begin

text \<open>
  The invariant of the chat tables: the events of a request are numbered from 0 without a gap, start with
  \<open>started\<close>, and carry exactly the identifiers of the request; a terminal event is the last one and is there
  exactly when the request is no longer live; a live request is the active one of its conversation, and its
  streaming message holds the concatenation of the deltas written so far. The lemmas say how each kind of
  write the repositories make keeps it.
\<close>

subsection \<open>The invariant\<close>

definition in_flight :: "InferenceRequest \<Rightarrow> bool" where
  "in_flight q \<longleftrightarrow> q_status q \<in> set [IQueued, IRunning, IStopRequested]"

definition events_of :: "chat_db \<Rightarrow> InferenceRequest \<Rightarrow> ChatEvent list" where
  "events_of db q = filter (\<lambda>e. e_tenant_id e = q_tenant_id q \<and> e_inference_request_id e = q_id q) (ch_events db)"

definition terminal_event :: "ChatEvent \<Rightarrow> bool" where
  "terminal_event e \<longleftrightarrow> e_event_type e \<in> set TERMINAL_EVENTS"

definition is_public_code :: "string \<Rightarrow> bool" where
  "is_public_code s \<longleftrightarrow> s \<noteq> [] \<and> list_all (\<lambda>c. is_upper c \<or> is_digit c \<or> c = CHR ''_'') s"

text \<open>What follows the common fields of a payload, by type.\<close>

definition payload_tail :: "uuid \<Rightarrow> string \<Rightarrow> (string \<times> json) list \<Rightarrow> bool" where
  "payload_tail request_id event_type rest \<longleftrightarrow>
     event_type \<in> set [''started'', ''stopped''] \<and> rest = [] \<or>
     event_type = ''delta'' \<and> (\<exists>d. d \<noteq> [] \<and> rest = [(''delta'', JStr d)]) \<or>
     event_type = ''completed'' \<and> (\<exists>s. rest = [(''content'', JStr s)]) \<or>
     event_type = ''failed'' \<and> (\<exists>code b. is_public_code code \<and> rest = [(''error'', error_body code request_id b)])"

definition event_shape :: "InferenceRequest \<Rightarrow> ChatEvent \<Rightarrow> bool" where
  "event_shape q e \<longleftrightarrow>
     (\<exists>c m rest. q_conversation_id q = Some c \<and> q_message_id q = Some m \<and>
        e_payload e = event_fields (e_event_type e) (q_request_id q) c m (e_sequence_no e) @ rest \<and>
        payload_tail (q_request_id q) (e_event_type e) rest)"

definition delta_text :: "ChatEvent \<Rightarrow> string" where
  "delta_text e = (case map_of (e_payload e) ''delta'' of Some (JStr d) \<Rightarrow> d | _ \<Rightarrow> [])"

definition deltas :: "ChatEvent list \<Rightarrow> string" where
  "deltas es = concat (map delta_text es)"

definition log_ok :: "InferenceRequest \<Rightarrow> ChatEvent list \<Rightarrow> bool" where
  "log_ok q es \<longleftrightarrow>
     es \<noteq> [] \<and> map e_sequence_no es = map int [0..<length es] \<and> q_last_event_sequence q = int (length es) - 1 \<and>
     list_all (event_shape q) es \<and> e_event_type (hd es) = ''started'' \<and>
     list_all (\<lambda>e. e_event_type e \<noteq> ''started'') (tl es) \<and> list_all (\<lambda>e. \<not> terminal_event e) (butlast es) \<and>
     (terminal_event (last es) \<longleftrightarrow> \<not> in_flight q)"

definition streaming_message :: "chat_db \<Rightarrow> InferenceRequest \<Rightarrow> Message \<Rightarrow> bool" where
  "streaming_message db q m \<longleftrightarrow>
     m_tenant_id m = q_tenant_id q \<and> q_message_id q = Some (m_id m) \<and> q_conversation_id q = Some (m_conversation_id m) \<and>
     m_request_id m = Some (q_id q) \<and> m_status m = MStreaming \<and> m_content m = text_json (deltas (events_of db q))"

definition active_in :: "InferenceRequest \<Rightarrow> Conversation \<Rightarrow> bool" where
  "active_in q c \<longleftrightarrow>
     cv_tenant_id c = q_tenant_id q \<and> q_conversation_id q = Some (cv_id c) \<and> cv_active_inference_request_id c = Some (q_id q)"

definition request_inv :: "chat_db \<Rightarrow> InferenceRequest \<Rightarrow> bool" where
  "request_inv db q \<longleftrightarrow>
     log_ok q (events_of db q) \<and>
     (in_flight q \<longrightarrow> list_ex (streaming_message db q) (ch_messages db) \<and> list_ex (active_in q) (ch_conversations db))"

definition conversation_inv :: "chat_db \<Rightarrow> Conversation \<Rightarrow> bool" where
  "conversation_inv db c \<longleftrightarrow>
     (cv_active_inference_request_id c \<noteq> None \<longrightarrow> list_ex (\<lambda>q. active_in q c \<and> in_flight q) (ch_requests db))"

definition chat_core :: "chat_db \<Rightarrow> bool" where
  "chat_core db \<longleftrightarrow>
     distinct (map q_id (ch_requests db)) \<and> distinct (map cv_id (ch_conversations db)) \<and> distinct (map m_id (ch_messages db)) \<and>
     list_all (request_inv db) (ch_requests db) \<and> list_all (conversation_inv db) (ch_conversations db)"

text \<open>Between two flushes of one transaction only the core is known; a committed state meets the constraints too.\<close>

definition chat_inv :: "chat_db \<Rightarrow> bool" where
  "chat_inv db \<longleftrightarrow> chat_ok db \<and> chat_core db"

subsection \<open>Keys and frames\<close>

lemma chat_ok_distinct:
  assumes "chat_ok db"
  shows "distinct (map q_id (ch_requests db))" "distinct (map cv_id (ch_conversations db))"
    "distinct (map m_id (ch_messages db))" "distinct (map q_request_id (ch_requests db))"
  using assms by (simp_all add: chat_ok_def chat_unique_def)

lemma chat_inv_core [simp]: "chat_inv db \<Longrightarrow> chat_core db" and chat_inv_ok: "chat_inv db \<Longrightarrow> chat_ok db"
  by (simp_all add: chat_inv_def)

lemma row_unique:
  assumes "chat_core db"
  shows request_unique: "q \<in> set (ch_requests db) \<Longrightarrow> q2 \<in> set (ch_requests db) \<Longrightarrow> q_id q = q_id q2 \<Longrightarrow> q = q2"
    and conversation_unique: "c \<in> set (ch_conversations db) \<Longrightarrow> c2 \<in> set (ch_conversations db) \<Longrightarrow> cv_id c = cv_id c2 \<Longrightarrow> c = c2"
    and message_unique: "m \<in> set (ch_messages db) \<Longrightarrow> m2 \<in> set (ch_messages db) \<Longrightarrow> m_id m = m_id m2 \<Longrightarrow> m = m2"
  using assms distinct_key_inj unfolding chat_core_def by metis+

lemmas put_keys [simp] = request_table.keys_put conversation_table.keys_put message_table.keys_put

lemma put_request_frame [simp]:
  "ch_conversations (put_request q db) = ch_conversations db" "ch_messages (put_request q db) = ch_messages db"
  "ch_events (put_request q db) = ch_events db" "ch_billing (put_request q db) = ch_billing db"
  "ch_catalog (put_request q db) = ch_catalog db" "ch_idempotency (put_request q db) = ch_idempotency db"
  "ch_outbox (put_request q db) = ch_outbox db"
  by (simp_all add: put_request_def)

lemma put_message_frame [simp]:
  "ch_conversations (put_message m db) = ch_conversations db" "ch_requests (put_message m db) = ch_requests db"
  "ch_events (put_message m db) = ch_events db" "ch_billing (put_message m db) = ch_billing db"
  "ch_catalog (put_message m db) = ch_catalog db" "ch_idempotency (put_message m db) = ch_idempotency db"
  "ch_outbox (put_message m db) = ch_outbox db"
  by (simp_all add: put_message_def)

lemma put_conversation_frame [simp]:
  "ch_messages (put_conversation c db) = ch_messages db" "ch_requests (put_conversation c db) = ch_requests db"
  "ch_events (put_conversation c db) = ch_events db" "ch_billing (put_conversation c db) = ch_billing db"
  "ch_catalog (put_conversation c db) = ch_catalog db" "ch_idempotency (put_conversation c db) = ch_idempotency db"
  "ch_outbox (put_conversation c db) = ch_outbox db"
  by (simp_all add: put_conversation_def)

lemma add_event_frame [simp]:
  "ch_messages (add_event e db) = ch_messages db" "ch_requests (add_event e db) = ch_requests db"
  "ch_conversations (add_event e db) = ch_conversations db" "ch_billing (add_event e db) = ch_billing db"
  "ch_catalog (add_event e db) = ch_catalog db" "ch_idempotency (add_event e db) = ch_idempotency db"
  "ch_outbox (add_event e db) = ch_outbox db" "ch_events (add_event e db) = ch_events db @ [e]"
  by (simp_all add: add_event_def)

text \<open>The invariant reads the four chat tables only.\<close>

definition same_chat :: "chat_db \<Rightarrow> chat_db \<Rightarrow> bool" where
  "same_chat db db' \<longleftrightarrow>
     ch_requests db' = ch_requests db \<and> ch_conversations db' = ch_conversations db \<and> ch_messages db' = ch_messages db \<and>
     ch_events db' = ch_events db"

lemma same_chat_core:
  assumes "same_chat db db'"
  shows "chat_core db' = chat_core db"
proof -
  have ev: "events_of db' = events_of db" using assms by (simp add: fun_eq_iff events_of_def same_chat_def)
  have msg: "streaming_message db' = streaming_message db" by (simp add: fun_eq_iff streaming_message_def ev)
  have "request_inv db' = request_inv db" "conversation_inv db' = conversation_inv db"
    using assms by (simp_all add: fun_eq_iff request_inv_def conversation_inv_def ev msg same_chat_def)
  then show ?thesis using assms by (simp add: chat_core_def same_chat_def)
qed

lemma same_chat_inv: "same_chat db db' \<Longrightarrow> chat_inv db' = chat_inv db"
proof -
  assume same: "same_chat db db'"
  then have "chat_ok db' = chat_ok db"
    by (simp add: chat_ok_def chat_numeric_def chat_checks_def chat_unique_def chat_references_def same_chat_def)
  then show ?thesis using same_chat_core [OF same] by (simp add: chat_inv_def)
qed

lemma chat_coreD:
  assumes "chat_core db" and "q \<in> set (ch_requests db)"
  shows "request_inv db q" "log_ok q (events_of db q)"
  using assms by (auto simp: chat_core_def list_all_iff request_inv_def)

text \<open>The message and the conversation of a live request.\<close>

lemma live_message:
  assumes "chat_core db" and "q \<in> set (ch_requests db)" and "in_flight q"
  obtains m where "m \<in> set (ch_messages db)" "streaming_message db q m"
  using assms by (auto simp: chat_core_def list_all_iff request_inv_def list_ex_iff)

lemma live_conversation:
  assumes "chat_core db" and "q \<in> set (ch_requests db)" and "in_flight q"
  obtains c where "c \<in> set (ch_conversations db)" "active_in q c"
  using assms by (auto simp: chat_core_def list_all_iff request_inv_def list_ex_iff)

lemma active_live:
  assumes "chat_core db" and "c \<in> set (ch_conversations db)" and "cv_active_inference_request_id c = Some r"
  obtains q where "q \<in> set (ch_requests db)" "q_id q = r" "active_in q c" "in_flight q"
proof -
  have "list_ex (\<lambda>q. active_in q c \<and> in_flight q) (ch_requests db)"
    using assms by (auto simp: chat_core_def list_all_iff conversation_inv_def)
  then show thesis using assms(3) by (auto simp: list_ex_iff active_in_def intro: that)
qed

lemma one_live_request:
  assumes "chat_core db" and "q \<in> set (ch_requests db)" "in_flight q" and "q2 \<in> set (ch_requests db)" "in_flight q2"
    and "q_conversation_id q2 = q_conversation_id q"
  shows "q2 = q"
proof -
  obtain c where c: "c \<in> set (ch_conversations db)" "active_in q c" using live_conversation [OF assms(1-3)] .
  obtain c2 where c2: "c2 \<in> set (ch_conversations db)" "active_in q2 c2" using live_conversation [OF assms(1,4,5)] .
  have "cv_id c2 = cv_id c" using c(2) c2(2) assms(6) by (simp add: active_in_def)
  then have "c2 = c" using conversation_unique [of db c2 c] assms(1) c(1) c2(1) by (simp add: chat_core_def)
  then have "q_id q2 = q_id q" using c(2) c2(2) by (simp add: active_in_def)
  then show ?thesis using request_unique [of db q2 q] assms(1,2,4) by (simp add: chat_core_def)
qed

subsection \<open>Appending to a log\<close>

lemma log_ok_append:
  assumes "log_ok q es" and "in_flight q" and "e_sequence_no e = q_last_event_sequence q + 1" and "event_shape q e"
    and "e_event_type e \<noteq> ''started''"
    and "q_request_id q' = q_request_id q" "q_conversation_id q' = q_conversation_id q" "q_message_id q' = q_message_id q"
    and "q_last_event_sequence q' = q_last_event_sequence q + 1" and "terminal_event e \<longleftrightarrow> \<not> in_flight q'"
  shows "log_ok q' (es @ [e])"
proof -
  have ne: "es \<noteq> []" and seq: "map e_sequence_no es = map int [0..<length es]" and last: "q_last_event_sequence q = int (length es) - 1"
    and nt: "list_all (\<lambda>e. \<not> terminal_event e) (butlast es)" and lt: "\<not> terminal_event (last es)"
    and sh: "list_all (event_shape q) es" and st: "e_event_type (hd es) = ''started''" "list_all (\<lambda>e. e_event_type e \<noteq> ''started'') (tl es)"
    using assms(1,2) by (auto simp: log_ok_def)
  have eq: "event_shape q' = event_shape q" using assms(6-8) by (simp add: event_shape_def fun_eq_iff)
  have "list_all (\<lambda>e. \<not> terminal_event e) (butlast es @ [last es])"
    using nt lt by simp
  then have "list_all (\<lambda>e. \<not> terminal_event e) es"
    by (simp only: append_butlast_last_id [OF ne])
  then show ?thesis
    using ne seq last sh st assms(3-5,9,10) by (simp add: log_ok_def eq)
qed

lemma log_ok_start:
  assumes "event_shape q e" and "e_event_type e = ''started''" and "e_sequence_no e = 0" and "q_last_event_sequence q = 0" and "in_flight q"
  shows "log_ok q [e]"
  using assms by (simp add: log_ok_def terminal_event_def)

lemma log_ok_cong:
  assumes "log_ok q es" and "q_request_id q' = q_request_id q" "q_conversation_id q' = q_conversation_id q"
    "q_message_id q' = q_message_id q" "q_last_event_sequence q' = q_last_event_sequence q" "in_flight q' = in_flight q"
  shows "log_ok q' es"
proof -
  have "event_shape q' = event_shape q" using assms(2-4) by (simp add: event_shape_def fun_eq_iff)
  then show ?thesis using assms(1,5,6) by (simp add: log_ok_def)
qed

lemma deltas_append [simp]: "deltas (es @ fs) = deltas es @ deltas fs"
  by (simp add: deltas_def)

subsection \<open>Writes\<close>

lemma request_inv_frame:
  assumes "request_inv db x" and "events_of db' x = events_of db x"
    and "\<And>m. in_flight x \<Longrightarrow> m \<in> set (ch_messages db) \<Longrightarrow> streaming_message db x m \<Longrightarrow> m \<in> set (ch_messages db')"
    and "\<And>c. in_flight x \<Longrightarrow> c \<in> set (ch_conversations db) \<Longrightarrow> active_in x c \<Longrightarrow> c \<in> set (ch_conversations db')"
  shows "request_inv db' x"
proof -
  have "streaming_message db' x = streaming_message db x"
    using assms(2) by (simp add: fun_eq_iff streaming_message_def)
  then show ?thesis
    using assms by (auto simp: request_inv_def list_ex_iff)
qed

lemma in_put_request:
  assumes "x \<in> set (ch_requests (put_request q' db))"
  obtains "x = q'" | "x \<in> set (ch_requests db)" "q_id x \<noteq> q_id q'"
  using request_table.in_put_cases [OF assms] by metis

lemma request_put:
  assumes "q \<in> set (ch_requests db)" and "q_id q' = q_id q"
  shows "q' \<in> set (ch_requests (put_request q' db))"
    and "x \<in> set (ch_requests db) \<Longrightarrow> q_id x \<noteq> q_id q \<Longrightarrow> x \<in> set (ch_requests (put_request q' db))"
  using assms by (auto simp: put_request_def set_update_where image_iff)

lemma message_put:
  assumes "m \<in> set (ch_messages db)" and "m_id m' = m_id m"
  shows "m' \<in> set (ch_messages (put_message m' db))"
    and "x \<in> set (ch_messages db) \<Longrightarrow> m_id x \<noteq> m_id m \<Longrightarrow> x \<in> set (ch_messages (put_message m' db))"
  using assms by (auto simp: put_message_def set_update_where image_iff)

lemma conversation_put:
  assumes "c \<in> set (ch_conversations db)" and "cv_id c' = cv_id c"
  shows "c' \<in> set (ch_conversations (put_conversation c' db))"
    and "x \<in> set (ch_conversations db) \<Longrightarrow> cv_id x \<noteq> cv_id c \<Longrightarrow> x \<in> set (ch_conversations (put_conversation c' db))"
  using assms by (auto simp: put_conversation_def set_update_where image_iff)

text \<open>The columns of a request no write changes.\<close>

definition same_request :: "InferenceRequest \<Rightarrow> InferenceRequest \<Rightarrow> bool" where
  "same_request q q' \<longleftrightarrow>
     q_id q' = q_id q \<and> q_tenant_id q' = q_tenant_id q \<and> q_request_id q' = q_request_id q \<and>
     q_conversation_id q' = q_conversation_id q \<and> q_message_id q' = q_message_id q"

lemma same_request_active: "same_request q q' \<Longrightarrow> active_in q' c = active_in q c"
  by (simp add: same_request_def active_in_def)

lemma same_request_events: "same_request q q' \<Longrightarrow> events_of db q' = events_of db q"
  by (simp add: same_request_def events_of_def)

lemma events_of_add [simp]:
  "events_of (add_event e db) x =
     events_of db x @ (if e_tenant_id e = q_tenant_id x \<and> e_inference_request_id e = q_id x then [e] else [])"
  by (simp add: events_of_def)

lemma events_of_put [simp]:
  "events_of (put_request q db) x = events_of db x" "events_of (put_message m db) x = events_of db x"
  "events_of (put_conversation c db) x = events_of db x"
  by (simp_all add: events_of_def)

lemma conversation_inv_put_request:
  assumes inv: "conversation_inv db c" and q: "q \<in> set (ch_requests db)" "same_request q q'" and dist: "distinct (map q_id (ch_requests db))"
    and keep: "active_in q c \<Longrightarrow> in_flight q'"
    and rows: "ch_requests db' = ch_requests (put_request q' db)"
  shows "conversation_inv db' c"
  unfolding conversation_inv_def
proof
  assume "cv_active_inference_request_id c \<noteq> None"
  then obtain x where x: "x \<in> set (ch_requests db)" "active_in x c" "in_flight x"
    using inv by (auto simp: conversation_inv_def list_ex_iff)
  have id: "q_id q' = q_id q" using q(2) by (simp add: same_request_def)
  show "list_ex (\<lambda>q. active_in q c \<and> in_flight q) (ch_requests db')"
  proof (cases "q_id x = q_id q")
    case True
    then have "x = q" using distinct_key_inj [OF dist x(1) q(1)] by simp
    then show ?thesis
      using x keep request_put(1) [OF q(1) id] same_request_active [OF q(2)] by (auto simp: rows list_ex_iff)
  next
    case False
    then show ?thesis using x request_put(2) [OF q(1) id] by (auto simp: rows list_ex_iff)
  qed
qed

lemma live_status_write:
  assumes inv: "chat_core db" and q: "q \<in> set (ch_requests db)" "same_request q q'"
    and last: "q_last_event_sequence q' = q_last_event_sequence q" and live: "in_flight q' = in_flight q"
  shows "chat_core (put_request q' db)"
proof -
  have dist: "distinct (map q_id (ch_requests db))" using inv by (simp add: chat_core_def)
  have rq: "request_inv db q" using inv q(1) by (rule chat_coreD)
  have "request_inv (put_request q' db) q'"
  proof -
    have "log_ok q' (events_of db q)"
      using rq log_ok_cong [of q "events_of db q" q'] q(2) last live by (simp add: request_inv_def same_request_def)
    moreover have "streaming_message (put_request q' db) q' = streaming_message db q"
      using q(2) same_request_events [OF q(2)] by (auto simp: streaming_message_def same_request_def fun_eq_iff)
    moreover have "active_in q' = active_in q" using same_request_active [OF q(2)] by (simp add: fun_eq_iff)
    ultimately show ?thesis
      using rq live same_request_events [OF q(2)] by (simp add: request_inv_def)
  qed
  moreover have "request_inv (put_request q' db) x" if "x \<in> set (ch_requests db)" for x
    by (rule request_inv_frame [OF chat_coreD(1) [OF inv that]]) simp_all
  ultimately have "list_all (request_inv (put_request q' db)) (ch_requests (put_request q' db))"
    unfolding list_all_iff using in_put_request by metis
  moreover have "conversation_inv (put_request q' db) c" if c: "c \<in> set (ch_conversations db)" for c
  proof (rule conversation_inv_put_request [OF _ q dist _ refl])
    show "conversation_inv db c" using inv c by (simp add: chat_core_def list_all_iff)
    assume act: "active_in q c"
    then obtain x where x: "x \<in> set (ch_requests db)" "q_id x = q_id q" "in_flight x"
      using active_live [OF inv c, of "q_id q"] by (auto simp: active_in_def)
    then have "x = q" using distinct_key_inj [OF dist x(1) q(1)] by simp
    then show "in_flight q'" using x live by simp
  qed
  ultimately show ?thesis using inv by (simp add: chat_core_def list_all_iff)
qed

text \<open>The message a write to a live request touches is the request's streaming message.\<close>

lemma own_message:
  assumes "chat_core db" and "q \<in> set (ch_requests db)" and "in_flight q"
    and "m \<in> set (ch_messages db)" and "q_message_id q = Some (m_id m)"
  shows "streaming_message db q m"
proof -
  obtain m0 where m0: "m0 \<in> set (ch_messages db)" "streaming_message db q m0" using live_message [OF assms(1-3)] .
  then have "m_id m0 = m_id m" using assms(5) by (simp add: streaming_message_def)
  then have "m0 = m" using message_unique [of db m0 m] assms(1,4) m0(1) by (simp add: chat_core_def)
  then show ?thesis using m0 by simp
qed

lemma other_message:
  assumes "streaming_message db q m" and "streaming_message db x mx" and "q_id x \<noteq> q_id q" and "chat_core db"
    and "m \<in> set (ch_messages db)" "mx \<in> set (ch_messages db)"
  shows "m_id mx \<noteq> m_id m"
  using assms message_unique [of db mx m] by (auto simp: streaming_message_def chat_core_def)

lemma delta_write:
  assumes inv: "chat_core db" and q: "q \<in> set (ch_requests db)" "in_flight q" "same_request q q'"
    and last: "q_last_event_sequence q' = q_last_event_sequence q + 1" and live: "in_flight q'"
    and m: "m \<in> set (ch_messages db)" "q_message_id q = Some (m_id m)"
    and m': "m' = m\<lparr>m_content := text_json (text_content (m_content m) @ delta_text e), m_updated_at := now\<rparr>"
    and e: "e_tenant_id e = q_tenant_id q" "e_inference_request_id e = q_id q" "e_sequence_no e = q_last_event_sequence q + 1"
      "event_shape q e" "e_event_type e = ''delta''"
    and db': "db' = add_event e (put_message m' (put_request q' db))"
  shows "chat_core db'"
proof -
  have dist: "distinct (map q_id (ch_requests db))" using inv by (simp add: chat_core_def)
  have rq: "request_inv db q" using inv q(1) by (rule chat_coreD)
  have sm: "streaming_message db q m" using own_message [OF inv q(1,2) m] .
  have ids: "q_id q' = q_id q" "q_tenant_id q' = q_tenant_id q" using q(3) by (simp_all add: same_request_def)
  have ev: "events_of db' q' = events_of db q @ [e]" "events_of db' q = events_of db q @ [e]"
    using e(1,2) ids same_request_events [OF q(3)] by (simp_all add: db')
  have mid: "m_id m' = m_id m" by (simp add: m')
  have m'in: "m' \<in> set (ch_messages db')"
    using message_put(1) [of m "put_request q' db" m'] m(1) mid by (simp add: db')
  have log: "log_ok q' (events_of db' q')"
    unfolding ev
    by (rule log_ok_append [of q]) (use rq q last live e in \<open>simp_all add: request_inv_def same_request_def terminal_event_def\<close>)
  have "streaming_message db' q' m'"
    using sm q(3) ev by (simp add: streaming_message_def same_request_def m' deltas_def)
  then have "request_inv db' q'"
    using log rq q(2) m'in same_request_active [OF q(3)] by (auto simp: request_inv_def list_ex_iff db')
  moreover have "request_inv db' x" if x: "x \<in> set (ch_requests db)" "q_id x \<noteq> q_id q" for x
  proof (rule request_inv_frame [OF chat_coreD(1) [OF inv x(1)]])
    show "events_of db' x = events_of db x" using x(2) e(2) by (simp add: db')
    show "mx \<in> set (ch_messages db')" if "mx \<in> set (ch_messages db)" "streaming_message db x mx" for mx
      using message_put(2) [of m "put_request q' db" m' mx] m(1) mid that other_message [OF sm that(2) x(2) inv m(1) that(1)]
      by (simp add: db')
  qed (simp add: db')
  ultimately have "list_all (request_inv db') (ch_requests db')"
    unfolding list_all_iff db' using in_put_request ids(1) by (metis add_event_frame(2) put_message_frame(2))
  moreover have "conversation_inv db' c" if c: "c \<in> set (ch_conversations db)" for c
    by (rule conversation_inv_put_request [OF _ q(1,3) dist live]) (use inv c in \<open>simp_all add: chat_core_def list_all_iff db'\<close>)
  ultimately show ?thesis using inv by (simp add: chat_core_def list_all_iff db')
qed

lemma terminal_write:
  assumes inv: "chat_core db" and q: "q \<in> set (ch_requests db)" "in_flight q" "same_request q q'"
    and last: "q_last_event_sequence q' = q_last_event_sequence q + 1" and fin: "\<not> in_flight q'"
    and m: "m \<in> set (ch_messages db)" "q_message_id q = Some (m_id m)" and m': "m_id m' = m_id m"
    and c: "c \<in> set (ch_conversations db)" "active_in q c"
    and c': "cv_id c' = cv_id c" "cv_active_inference_request_id c' = None"
    and e: "e_tenant_id e = q_tenant_id q" "e_inference_request_id e = q_id q" "e_sequence_no e = q_last_event_sequence q + 1"
      "event_shape q e" "terminal_event e"
    and db': "db' = add_event e (put_conversation c' (put_message m' (put_request q' db)))"
  shows "chat_core db'"
proof -
  have dist: "distinct (map q_id (ch_requests db))" using inv by (simp add: chat_core_def)
  have rq: "request_inv db q" using inv q(1) by (rule chat_coreD)
  have sm: "streaming_message db q m" using own_message [OF inv q(1,2) m] .
  have ids: "q_id q' = q_id q" "q_tenant_id q' = q_tenant_id q" using q(3) by (simp_all add: same_request_def)
  have ev: "events_of db' q' = events_of db q @ [e]"
    using e(1,2) ids same_request_events [OF q(3)] by (simp add: db')
  have "log_ok q' (events_of db' q')"
    unfolding ev
    by (rule log_ok_append [of q]) (use rq q last fin e in \<open>auto simp: request_inv_def same_request_def terminal_event_def\<close>)
  then have "request_inv db' q'" using fin by (simp add: request_inv_def)
  moreover have "request_inv db' x" if x: "x \<in> set (ch_requests db)" "q_id x \<noteq> q_id q" for x
  proof (rule request_inv_frame [OF chat_coreD(1) [OF inv x(1)]])
    show "events_of db' x = events_of db x" using x(2) e(2) by (simp add: db')
    show "mx \<in> set (ch_messages db')" if "mx \<in> set (ch_messages db)" "streaming_message db x mx" for mx
      using message_put(2) [of m "put_request q' db" m' mx] m(1) m' that other_message [OF sm that(2) x(2) inv m(1) that(1)]
      by (simp add: db')
    show "cx \<in> set (ch_conversations db')" if "cx \<in> set (ch_conversations db)" "active_in x cx" for cx
    proof -
      have "cv_id cx \<noteq> cv_id c"
        using conversation_unique [of db cx c] inv c that x(2) by (auto simp: chat_core_def active_in_def)
      then show ?thesis
        using conversation_put(2) [of c "put_message m' (put_request q' db)" c' cx] c(1) c'(1) that(1) by (simp add: db')
    qed
  qed
  ultimately have "list_all (request_inv db') (ch_requests db')"
    unfolding list_all_iff db' using in_put_request ids(1)
    by (metis add_event_frame(2) put_message_frame(2) put_conversation_frame(2))
  moreover have "conversation_inv db' v" if v: "v \<in> set (ch_conversations db')" for v
  proof -
    have "v \<in> set (ch_conversations (put_conversation c' (put_message m' (put_request q' db))))" using v by (simp add: db')
    then show ?thesis
    proof (rule conversation_table.in_put_cases)
      assume "v = c'" then show ?thesis using c'(2) by (simp add: conversation_inv_def)
    next
      assume old: "v \<in> set (ch_conversations (put_message m' (put_request q' db)))" "cv_id v \<noteq> cv_id c'"
      then have nact: "\<not> active_in q v" using c c'(1) by (auto simp: active_in_def)
      show ?thesis
        by (rule conversation_inv_put_request [OF _ q(1,3) dist]) (use inv old nact in \<open>simp_all add: chat_core_def list_all_iff db'\<close>)
    qed
  qed
  ultimately have "list_all (request_inv db') (ch_requests db')" "list_all (conversation_inv db') (ch_conversations db')"
    by (simp_all add: list_all_iff)
  then show ?thesis using inv by (simp add: chat_core_def db')
qed

lemma no_events_of_fresh:
  assumes "chat_ok db" and "q_id q \<notin> q_id ` set (ch_requests db)"
  shows "events_of db q = []"
proof -
  have "list_all (\<lambda>e. list_ex (\<lambda>q. q_tenant_id q = e_tenant_id e \<and> q_id q = e_inference_request_id e) (ch_requests db)) (ch_events db)"
    using assms(1) by (simp add: chat_ok_def chat_references_def)
  then have "e_inference_request_id e \<in> q_id ` set (ch_requests db)" if "e \<in> set (ch_events db)" for e
    using that by (force simp: list_all_iff list_ex_iff)
  then show ?thesis using assms(2) unfolding events_of_def filter_empty_conv by metis
qed

lemma idle_conversation:
  assumes "chat_core db" and "c \<in> set (ch_conversations db)" "cv_active_inference_request_id c = None"
    and "x \<in> set (ch_requests db)" "in_flight x"
  shows "q_conversation_id x \<noteq> Some (cv_id c)"
proof
  assume x: "q_conversation_id x = Some (cv_id c)"
  obtain cx where cx: "cx \<in> set (ch_conversations db)" "active_in x cx" using live_conversation [OF assms(1,4,5)] .
  have "cv_id cx = cv_id c" using cx(2) x by (simp add: active_in_def)
  then have "cx = c" by (rule conversation_unique [OF assms(1) cx(1) assms(2)])
  then show False using cx(2) assms(3) by (simp add: active_in_def)
qed

lemma admit_write:
  assumes inv: "chat_inv db" and rows: "ch_requests db' = ch_requests db @ [q]" and live: "in_flight q"
    and last: "q_last_event_sequence q = 0"
    and e: "ch_events db' = ch_events db @ [e]" "e_tenant_id e = q_tenant_id q" "e_inference_request_id e = q_id q"
      "e_sequence_no e = 0" "e_event_type e = ''started''" "event_shape q e"
    and c: "c \<in> set (ch_conversations db)" "cv_active_inference_request_id c = None"
    and c': "ch_conversations db' = ch_conversations (put_conversation c' db)" "cv_id c' = cv_id c" "active_in q c'"
    and m: "m \<in> set (ch_messages db')" "m_tenant_id m = q_tenant_id q" "q_message_id q = Some (m_id m)"
      "q_conversation_id q = Some (m_conversation_id m)" "m_request_id m = Some (q_id q)" "m_status m = MStreaming"
      "m_content m = text_json []"
    and ms: "\<And>mx. mx \<in> set (ch_messages db) \<Longrightarrow> m_conversation_id mx \<noteq> cv_id c \<Longrightarrow> mx \<in> set (ch_messages db')"
    and ok: "chat_ok db'"
  shows "chat_inv db'"
proof -
  have core: "chat_core db" using inv by simp
  have fresh: "q_id q \<notin> q_id ` set (ch_requests db)"
    using chat_ok_distinct(1) [OF ok] by (auto simp: rows)
  have "events_of db' q = [e]"
    using no_events_of_fresh [of db q] inv fresh e(1-3) by (simp add: chat_inv_def events_of_def)
  moreover have "log_ok q [e]" using log_ok_start [of q e] e last live by simp
  moreover have "delta_text e = []"
    using e(5,6) by (auto simp: delta_text_def event_shape_def event_fields_def payload_tail_def)
  ultimately have "log_ok q (events_of db' q)" "streaming_message db' q m"
    using m by (simp_all add: streaming_message_def deltas_def)
  moreover have c'in: "c' \<in> set (ch_conversations db')" using conversation_put(1) [OF c(1) c'(2)] c'(1) by simp
  ultimately have "request_inv db' q"
    using m(1) c'(3) by (auto simp: request_inv_def list_ex_iff)
  moreover have "request_inv db' x" if x: "x \<in> set (ch_requests db)" for x
  proof (rule request_inv_frame [OF chat_coreD(1) [OF core x]])
    show "events_of db' x = events_of db x"
      using fresh x e(1,3) by (auto simp: events_of_def)
    show "mx \<in> set (ch_messages db')" if "in_flight x" "mx \<in> set (ch_messages db)" "streaming_message db x mx" for mx
      using ms [OF that(2)] idle_conversation [OF core c x that(1)] that(3) by (simp add: streaming_message_def)
    show "cx \<in> set (ch_conversations db')" if "in_flight x" "cx \<in> set (ch_conversations db)" "active_in x cx" for cx
      using conversation_put(2) [OF c(1) c'(2) that(2)] idle_conversation [OF core c x that(1)] that(3) c'(1)
      by (auto simp: active_in_def)
  qed
  ultimately have "list_all (request_inv db') (ch_requests db')" by (simp add: rows list_all_iff)
  moreover have "conversation_inv db' v" if v: "v \<in> set (ch_conversations db')" for v
  proof -
    have "v \<in> set (ch_conversations (put_conversation c' db))" using v c'(1) by simp
    then show ?thesis
    proof (rule conversation_table.in_put_cases)
      assume "v = c'" then show ?thesis using c'(3) live by (simp add: conversation_inv_def rows)
    next
      assume "v \<in> set (ch_conversations db)"
      then have "conversation_inv db v" using core by (simp add: chat_core_def list_all_iff)
      then show ?thesis by (auto simp: conversation_inv_def rows)
    qed
  qed
  ultimately show ?thesis
    using ok chat_ok_distinct [OF ok] by (simp add: chat_inv_def chat_core_def list_all_iff)
qed

text \<open>What an acceptance has written when it succeeds.\<close>

lemma put_fresh_request:
  assumes "ch_requests db = qs @ [q]" and "q_id q \<notin> q_id ` set qs" and "q_id q' = q_id q"
  shows "ch_requests (put_request q' db) = qs @ [q']"
proof -
  have "update_where (\<lambda>x. q_id x = q_id q') (\<lambda>_. q') qs = qs"
    using assms(2,3) by (intro update_where_id) (metis image_eqI)
  then show ?thesis using assms(1,3) by (simp add: put_request_def update_where_def)
qed

lemma append_request_Inr:
  assumes "append_request_transaction db fr t actor c dep content am h parent = Inr (r, db')"
  obtains decision reservation billing m q where
    "q = (accepted_request fr t actor (cv_id c) (case am of None \<Rightarrow> cf_assistant_message_id fr | Some i \<Rightarrow> i) dep h parent content decision)
       \<lparr>q_billing_reservation_id := Some (rr_reservation_id reservation), q_last_event_sequence := 0\<rparr>"
    "resolve_accepted_decision (ch_catalog db) (cv_product_model_id c) dep (cf_now fr) = Inr (Some decision)"
    "ch_requests db' = ch_requests db @ [q]"
    "ch_events db' = ch_events db @ [event_row (cf_event_id fr) q 0 ''started'' (event_fields ''started'' (q_request_id q) (cv_id c) (m_id m) 0) (cf_now fr)]"
    "ch_conversations db' = ch_conversations (put_conversation (c\<lparr>cv_active_inference_request_id := Some (q_id q),
       cv_version := cv_version c + 1, cv_updated_at := cf_now fr\<rparr>) db)"
    "m \<in> set (ch_messages db @ appended_messages db fr t actor (cv_id c) content am)"
    "m_tenant_id m = t" "q_message_id q = Some (m_id m)" "m_conversation_id m = cv_id c"
    "ch_messages db' = update_where (\<lambda>x. m_id x = m_id m) (\<lambda>_. m\<lparr>m_request_id := Some (q_id q), m_updated_at := cf_db_now fr\<rparr>)
       (ch_messages db @ appended_messages db fr t actor (cv_id c) content am)"
    "\<exists>db2. ch_billing db2 = ch_billing db \<and> reserve_in_transaction (chat_billing db2) (chat_billing db2) (chat_billing db2)
       (cf_reservation_id fr) (cf_ledger_id fr) (cf_now fr) t ''chat_inference'' (q_id q) (ad_price decision)
       (Aware (cf_now fr + seconds (15 * 60))) = Inr (reservation, billing)"
    "ch_billing db' = billing" "ch_idempotency db' = ch_idempotency db" "ch_catalog db' = ch_catalog db"
    "ch_outbox db' = ch_outbox db @ [chat_outbox_event fr t (cv_id c) (cv_version c + 1) (m_id m) dep (rr_reservation_id reservation)]"
    "r = \<lparr>rq_request_db_id = cf_request_db_id fr, rq_request_id = cf_request_id fr, rq_conversation_id = cv_id c,
      rq_message_id = m_id m, rq_tenant_id = t, rq_status = IQueued, rq_last_event_sequence = 0\<rparr>"
    "chat_ok db'"
proof -
  let ?ms = "appended_messages db fr t actor (cv_id c) content am"
  let ?mid = "case am of None \<Rightarrow> cf_assistant_message_id fr | Some i \<Rightarrow> i"
  define db1 where "db1 = db\<lparr>ch_messages := ch_messages db @ ?ms\<rparr>"
  from assms obtain decision where d: "resolve_accepted_decision (ch_catalog db) (cv_product_model_id c) dep (cf_now fr) = Inr (Some decision)"
    and ok1: "chat_ok db1"
    by (auto simp: append_request_transaction_def db1_def Let_def split: option.splits)
  define q0 where "q0 = accepted_request fr t actor (cv_id c) ?mid dep h parent content decision"
  define db2 where "db2 = db1\<lparr>ch_requests := ch_requests db1 @ [q0]\<rparr>"
  from assms d obtain reservation billing where
    res: "reserve_in_transaction (chat_billing db2) (chat_billing db2) (chat_billing db2)
       (cf_reservation_id fr) (cf_ledger_id fr) (cf_now fr) t ''chat_inference'' (q_id q0) (ad_price decision)
       (Aware (cf_now fr + seconds (15 * 60))) = Inr (reservation, billing)"
    and ok2: "chat_ok db2"
    by (auto simp: append_request_transaction_def db1_def db2_def q0_def Let_def split: option.splits)
  define q1 where "q1 = q0\<lparr>q_billing_reservation_id := Some (rr_reservation_id reservation)\<rparr>"
  define db3 where "db3 = put_request q1 (db2\<lparr>ch_billing := billing\<rparr>)"
  from assms d res obtain m where m: "scalar_one_or_none (filter (\<lambda>m. m_tenant_id m = t \<and> m_id m = ?mid \<and> m_conversation_id m = cv_id c) (ch_messages db3)) = (Inr (Some m) :: chat_error raised + Message option)"
    by (auto simp: append_request_transaction_def db1_def db2_def db3_def q0_def q1_def Let_def split: option.splits)
  define db4 where "db4 = put_message (m\<lparr>m_request_id := Some (q_id q0), m_updated_at := cf_db_now fr\<rparr>) db3"
  define c' where "c' = c\<lparr>cv_active_inference_request_id := Some (q_id q0), cv_version := cv_version c + 1, cv_updated_at := cf_now fr\<rparr>"
  define db5 where "db5 = add_event (event_row (cf_event_id fr) q1 0 ''started'' (event_fields ''started'' (q_request_id q0) (cv_id c) ?mid 0) (cf_now fr))
     (put_request (q1\<lparr>q_last_event_sequence := 0\<rparr>) (put_conversation c' db4))"
  have fin: "chat_ok db5 \<and> request_record (q1\<lparr>q_last_event_sequence := 0\<rparr>) = (Inr r :: chat_error raised + _) \<and>
     db' = db5\<lparr>ch_outbox := ch_outbox db5 @ [chat_outbox_event fr t (cv_id c) (cv_version c + 1) ?mid dep (rr_reservation_id reservation)]\<rparr>"
    using assms d res m
    by (auto simp: append_request_transaction_def append_event_def db1_def db2_def db3_def db4_def db5_def c'_def q0_def q1_def Let_def
        split: option.splits)
  let ?q = "q1\<lparr>q_last_event_sequence := 0\<rparr>"
  have fresh: "q_id q0 \<notin> q_id ` set (ch_requests db)"
    using chat_ok_distinct(1) [OF ok2] by (simp add: db2_def db1_def)
  have rows3: "ch_requests db3 = ch_requests db @ [q1]"
    unfolding db3_def by (rule put_fresh_request [OF _ fresh]) (simp_all add: db2_def db1_def q1_def)
  have rows: "ch_requests db5 = ch_requests db @ [?q]"
    unfolding db5_def add_event_frame
    by (rule put_fresh_request [where q = q1]) (use fresh rows3 in \<open>simp_all add: db4_def q1_def\<close>)
  have mem: "m \<in> set (ch_messages db @ ?ms)" and mt: "m_tenant_id m = t" "m_id m = ?mid" "m_conversation_id m = cv_id c"
    using filter_singletonD [OF m [unfolded scalar_Some_iff]] by (auto simp: db3_def db2_def db1_def)
  show thesis
  proof (rule that [of ?q reservation decision m billing])
    show "ch_messages db' = update_where (\<lambda>x. m_id x = m_id m) (\<lambda>_. m\<lparr>m_request_id := Some (q_id ?q), m_updated_at := cf_db_now fr\<rparr>) (ch_messages db @ ?ms)"
      using fin by (simp add: db5_def db4_def db3_def db2_def db1_def put_message_def q1_def)
    show "ch_conversations db' = ch_conversations (put_conversation (c\<lparr>cv_active_inference_request_id := Some (q_id ?q),
       cv_version := cv_version c + 1, cv_updated_at := cf_now fr\<rparr>) db)"
      using fin by (simp add: db5_def db4_def db3_def db2_def db1_def put_conversation_def c'_def q1_def)
    show "ch_events db' = ch_events db @ [event_row (cf_event_id fr) ?q 0 ''started'' (event_fields ''started'' (q_request_id ?q) (cv_id c) (m_id m) 0) (cf_now fr)]"
      using fin by (simp add: db5_def db4_def db3_def db2_def db1_def q1_def mt(2) event_row_def)
    show "ch_requests db' = ch_requests db @ [?q]" using fin rows by simp
    show "chat_ok db'" using fin by (simp add: chat_ok_def chat_numeric_def chat_checks_def chat_unique_def chat_references_def)
    show "r = \<lparr>rq_request_db_id = cf_request_db_id fr, rq_request_id = cf_request_id fr, rq_conversation_id = cv_id c,
      rq_message_id = m_id m, rq_tenant_id = t, rq_status = IQueued, rq_last_event_sequence = 0\<rparr>"
      using fin mt(2) by (simp add: request_record_def q1_def q0_def accepted_request_def)
    show "\<exists>db2. ch_billing db2 = ch_billing db \<and> reserve_in_transaction (chat_billing db2) (chat_billing db2) (chat_billing db2)
       (cf_reservation_id fr) (cf_ledger_id fr) (cf_now fr) t ''chat_inference'' (q_id ?q) (ad_price decision)
       (Aware (cf_now fr + seconds (15 * 60))) = Inr (reservation, billing)"
      using res by (intro exI [of _ db2]) (simp add: db2_def db1_def q1_def)
    show "ch_billing db' = billing" "ch_idempotency db' = ch_idempotency db" "ch_catalog db' = ch_catalog db"
      using fin by (simp_all add: db5_def db4_def db3_def db2_def db1_def)
    show "ch_outbox db' = ch_outbox db @ [chat_outbox_event fr t (cv_id c) (cv_version c + 1) (m_id m) dep (rr_reservation_id reservation)]"
      using fin mt(2) by (simp add: db5_def db4_def db3_def db2_def db1_def)
    show "q_message_id ?q = Some (m_id m)" using mt(2) by (simp add: q1_def q0_def accepted_request_def)
    show "?q = (accepted_request fr t actor (cv_id c) ?mid dep h parent content decision)
       \<lparr>q_billing_reservation_id := Some (rr_reservation_id reservation), q_last_event_sequence := 0\<rparr>"
      by (simp add: q1_def q0_def)
  qed (use mem mt d in simp_all)
qed

end
