(* ===== verification/Chat_Settlement.thy ===== *)
theory Chat_Settlement
  imports Chat_Repository
begin

text \<open>
  The chat worker's view of the wallet service (\<open>app/conversations/billing_adapter.py\<close>): capture and release of
  the hold placed at acceptance, and the reconciler that settles the holds of terminal requests.
\<close>

definition chat_capture ::
  "chat_db \<Rightarrow> uuid \<Rightarrow> uuid \<Rightarrow> instant \<Rightarrow> uuid \<Rightarrow> uuid \<Rightarrow> BillingUsage option \<Rightarrow> (billing_error + CaptureResult) \<times> chat_db" where
  "chat_capture db lid1 lid2 now t rid usage =
     (case capture (chat_billing db) lid1 lid2 now t rid None usage of (r, b) \<Rightarrow> (r, db\<lparr>ch_billing := b\<rparr>))"

definition chat_release ::
  "chat_db \<Rightarrow> uuid \<Rightarrow> instant \<Rightarrow> uuid \<Rightarrow> uuid \<Rightarrow> (billing_error + ReleaseResult) \<times> chat_db" where
  "chat_release db lid now t rid =
     (case release (chat_billing db) lid now t rid of (r, b) \<Rightarrow> (r, db\<lparr>ch_billing := b\<rparr>))"

definition required_reservation_id :: "chat_db \<Rightarrow> ChatExecutionRecord \<Rightarrow> chat_error raised + uuid" where
  "required_reservation_id db x =
     (case x_reservation_id x of
        Some rid \<Rightarrow> Inr rid
      | None \<Rightarrow>
          or_raise (ChatRuntimeError ''chat billing reservation is missing'')
            (scalar_one_or_none (map r_id (reservation_by_source (x_tenant_id x) ''chat_inference'' (x_request_db_id x) (ch_billing db)))))"

definition adapter_capture ::
  "chat_db \<Rightarrow> uuid \<Rightarrow> uuid \<Rightarrow> instant \<Rightarrow> ChatExecutionRecord \<Rightarrow> ChatUsageRecord \<Rightarrow> (chat_error raised + unit) \<times> chat_db" where
  "adapter_capture db lid1 lid2 now x usage =
     (case andthen (required_reservation_id db x) (\<lambda>rid.
           andthen (map_error (Domain \<circ> ChatBillingError) (mk_BillingUsage (chat_measures (cu_usage usage)))) (\<lambda>meters. Inr (rid, meters))) of
        Inl e \<Rightarrow> (Inl e, db)
      | Inr (rid, meters) \<Rightarrow>
          (case chat_capture db lid1 lid2 now (x_tenant_id x) rid (Some meters) of
             (r, db') \<Rightarrow> (andthen (map_error (Domain \<circ> ChatBillingError) r) (\<lambda>_. Inr ()), db')))"

definition adapter_release ::
  "chat_db \<Rightarrow> uuid \<Rightarrow> instant \<Rightarrow> ChatExecutionRecord \<Rightarrow> (chat_error raised + unit) \<times> chat_db" where
  "adapter_release db lid now x =
     (case required_reservation_id db x of
        Inl e \<Rightarrow> (Inl e, db)
      | Inr rid \<Rightarrow>
          (case chat_release db lid now (x_tenant_id x) rid of
             (r, db') \<Rightarrow> (andthen (map_error (Domain \<circ> ChatBillingError) r) (\<lambda>_. Inr ()), db')))"

subsection \<open>The reconciler\<close>

record chat_settlement_row =
  cs_tenant_id :: uuid
  cs_reservation_id :: uuid
  cs_status :: InferenceStatus
  cs_usage_id :: "uuid option"

text \<open>
  The rows of the table are kept in the order they were inserted, so list order is \<open>ORDER BY created_at\<close>.
\<close>

definition chat_settlement_rows :: "chat_db \<Rightarrow> int \<Rightarrow> chat_settlement_row list" where
  "chat_settlement_rows db limit =
     take (nat limit)
       [\<lparr>cs_tenant_id = r_tenant_id r, cs_reservation_id = r_id r, cs_status = q_status q, cs_usage_id = u\<rparr>.
          r \<leftarrow> reservations (ch_billing db), r_source_type r = ''chat_inference'' \<and> r_status r = ''pending'',
          q \<leftarrow> ch_requests db, q_tenant_id q = r_tenant_id r \<and> q_id q = r_source_id r \<and>
            q_status q \<in> set [ISucceeded, IFailed, IStopped, ICancelled],
          u \<leftarrow> outer (map u_id (filter (\<lambda>u. u_tenant_id u = q_tenant_id q \<and> u_inference_request_id u = Some (q_id q))
            (usage_records (ch_billing db))))]"

definition chat_settle_row ::
  "chat_db \<Rightarrow> (nat \<Rightarrow> uuid) \<Rightarrow> nat \<Rightarrow> instant \<Rightarrow> chat_settlement_row \<Rightarrow> (billing_error + nat) \<times> chat_db" where
  "chat_settle_row db ids n now row =
     (let t = cs_tenant_id row; rid = cs_reservation_id row; rel = (\<lambda>d. chat_release d (ids (n + 2)) now t rid) in
      if cs_status row = ISucceeded \<and> cs_usage_id row = None then (Inr 0, db)
      else
        (case (if cs_status row = ISucceeded
               then capture_or_release_expired (chat_capture db (ids n) (ids (n + 1)) now t rid None) rel
               else (case rel db of (Inl e, d) \<Rightarrow> (Inl e, d) | (Inr _, d) \<Rightarrow> (Inr (), d))) of
           (Inl e, db1) \<Rightarrow> (Inl e, db1)
         | (Inr _, db1) \<Rightarrow> (Inr 1, db1)))"

fun chat_settle_rows ::
  "(nat \<Rightarrow> uuid) \<Rightarrow> instant \<Rightarrow> nat \<Rightarrow> chat_settlement_row list \<Rightarrow> nat \<Rightarrow> chat_db \<Rightarrow> (billing_error + nat) \<times> chat_db" where
  "chat_settle_rows ids now n [] repaired db = (Inr repaired, db)"
| "chat_settle_rows ids now n (row # rows) repaired db =
     (case chat_settle_row db ids n now row of
        (Inl e, db') \<Rightarrow> (Inl e, db')
      | (Inr k, db') \<Rightarrow> chat_settle_rows ids now (n + 3) rows (repaired + k) db')"

definition chat_reconcile_once ::
  "chat_db \<Rightarrow> (nat \<Rightarrow> uuid) \<Rightarrow> instant \<Rightarrow> int \<Rightarrow> (chat_error raised + nat) \<times> chat_db" where
  "chat_reconcile_once db ids now limit =
     (if \<not> (1 \<le> limit \<and> limit \<le> 500)
      then (Inl (Domain (ChatValueError ''reconciliation limit must be between 1 and 500'')), db)
      else (case chat_settle_rows ids now 0 (chat_settlement_rows db limit) 0 db of
              (r, db') \<Rightarrow> (map_error (Domain \<circ> ChatBillingError) r, db')))"

end
