(* ===== verification/Chat_Steps.thy ===== *)
theory Chat_Steps
  imports Chat_Invariants Chat_Settlement Billing_Settlement
begin

text \<open>
  Every operation of the two chat repositories and of the settlement adapter keeps the invariant of the chat
  tables and the wallet books. \<open>chat_step\<close> is one committed transaction of any process; \<open>chat_run\<close> is what is
  left of any interleaving of them, since row locks make each transaction atomic on the rows it reads.
\<close>

subsection \<open>Rows of an execution\<close>

lemma first_row_mem: "first_row xs = Some x \<Longrightarrow> x \<in> set xs"
  by (cases xs) auto

lemma claim_query_mem:
  assumes "(q, c, p, d) \<in> set (claim_query db locked tenant request)"
  shows "q \<in> set (ch_requests db)" "q_status q = IQueued" "c \<in> set (ch_conversations db)" "cv_tenant_id c = q_tenant_id q"
    "q_conversation_id q = Some (cv_id c)" "\<not> locked (q_id q)"
  using assms by (auto simp: claim_query_def)

lemma locked_request_Some:
  assumes "locked_request db x = Inr (Some q)"
  shows "q \<in> set (ch_requests db)" "q_id q = x_request_db_id x" "q_tenant_id q = x_tenant_id x" "q_request_id q = x_request_id x"
    "q_lease_token q = x_lease_token x" "x_lease_token x \<noteq> None"
  using assms by (auto simp: locked_request_def split: option.splits dest!: filter_singletonD)

lemma locked_writable_Some:
  assumes "locked_writable_request db now x n statuses = Inr (Some q)"
  shows "locked_request db x = Inr (Some q)" "q_status q \<in> set statuses" "q_last_event_sequence q = n - 1" "unexpired now (q_lease_expires_at q)"
  using assms by (auto simp: locked_writable_request_def split: option.splits if_splits)

lemma locked_message_Some:
  assumes "locked_message db x = Inr (Some m)"
  shows "m \<in> set (ch_messages db)" "m_tenant_id m = x_tenant_id x" "m_conversation_id m = x_conversation_id x"
    "m_id m = x_message_id x" "m_request_id m = Some (x_request_db_id x)"
  using assms by (auto simp: locked_message_def dest!: filter_singletonD)

lemma locked_conversation_Some:
  assumes "locked_conversation db x = Inr (Some c)"
  shows "c \<in> set (ch_conversations db)" "cv_tenant_id c = x_tenant_id x" "cv_id c = x_conversation_id x"
    "cv_active_inference_request_id c = Some (x_request_db_id x)"
  using assms by (auto simp: locked_conversation_def dest!: filter_singletonD)

text \<open>The foreign key of the message ties the identifiers of an execution to the request's own.\<close>

lemma message_request:
  assumes "chat_inv db" and "m \<in> set (ch_messages db)" and "m_request_id m = Some (q_id q)" and "q \<in> set (ch_requests db)"
  shows "q_message_id q = Some (m_id m)" "q_conversation_id q = Some (m_conversation_id m)" "m_tenant_id m = q_tenant_id q"
proof -
  have "null_or (\<lambda>a. list_ex (\<lambda>q. q_tenant_id q = m_tenant_id m \<and> q_id q = a \<and> q_conversation_id q = Some (m_conversation_id m) \<and>
      q_message_id q = Some (m_id m)) (ch_requests db)) (m_request_id m)"
    using assms(1,2) by (simp add: chat_inv_def chat_ok_def chat_references_def list_all_iff)
  then obtain q2 where q2: "q2 \<in> set (ch_requests db)" "q_id q2 = q_id q" "q_tenant_id q2 = m_tenant_id m"
      "q_conversation_id q2 = Some (m_conversation_id m)" "q_message_id q2 = Some (m_id m)"
    using assms(3) by (auto simp: list_ex_iff)
  then have "q2 = q" using request_unique [of db q2 q] assms(1,4) by simp
  with q2 show "q_message_id q = Some (m_id m)" "q_conversation_id q = Some (m_conversation_id m)" "m_tenant_id m = q_tenant_id q"
    by simp_all
qed

lemma execution_rows:
  assumes "chat_inv db" and "locked_request db x = Inr (Some q)" and "locked_message db x = Inr (Some m)"
  shows "q_message_id q = Some (m_id m)" "q_conversation_id q = Some (x_conversation_id x)" "q_message_id q = Some (x_message_id x)"
  using message_request [OF assms(1) locked_message_Some(1) [OF assms(3)], of q] locked_message_Some [OF assms(3)]
    locked_request_Some [OF assms(2)] by simp_all

lemma execution_active:
  assumes "chat_inv db" and "locked_request db x = Inr (Some q)" and "locked_message db x = Inr (Some m)"
    and "locked_conversation db x = Inr (Some c)"
  shows "active_in q c"
  using locked_conversation_Some [OF assms(4)] execution_rows [OF assms(1-3)] locked_request_Some [OF assms(2)]
  by (simp add: active_in_def)

lemma clear_active_Inr: "clear_active c i now = Inr c' \<Longrightarrow> cv_id c' = cv_id c \<and> cv_active_inference_request_id c' = None"
  by (auto simp: clear_active_def)

subsection \<open>The worker's operations\<close>

lemma status_write:
  assumes "chat_inv db" and "q \<in> set (ch_requests db)" and "same_request q q'" and "q_last_event_sequence q' = q_last_event_sequence q"
    and "in_flight q' = in_flight q" and "chat_ok (put_request q' db)"
  shows "chat_inv (put_request q' db)"
  using live_status_write [OF chat_inv_core [OF assms(1)] assms(2-5)] assms(6) by (simp add: chat_inv_def)

lemma claim_queued_cases:
  assumes "claim_queued db now locked token w n tenant request = (res, db')"
  obtains "db' = db"
  | q c p d where "first_row (claim_query db locked tenant request) = Some (q, c, p, d)"
      "db' = put_request (claim_request w token n now q) db" "chat_ok db'"
  using assms
  by (cases res) (auto simp: claim_queued_def transaction_Inr_iff transaction_Inl_iff Let_def split: option.splits)

lemma claim_queued_inv:
  assumes "chat_inv db"
  shows "chat_inv (snd (claim_queued db now locked token w n tenant request))"
proof (cases rule: claim_queued_cases [OF prod.collapse [symmetric], of db now locked token w n tenant request])
  case (2 q c p d)
  note q = claim_query_mem [OF first_row_mem [OF 2(1)]]
  show ?thesis
    unfolding 2(2)
    by (rule status_write [OF assms q(1) _ _ _ 2(3) [unfolded 2(2)]])
      (use q in \<open>simp_all add: same_request_def claim_request_def in_flight_def\<close>)
qed (use assms in simp)

lemma requeue_claimed_cases:
  obtains "snd (requeue_claimed db now x) = db"
  | q where "q \<in> set (ch_requests db)" "q_status q = IRunning" "q_id q = x_request_db_id x" "q_tenant_id q = x_tenant_id x"
      "q_lease_token q = x_lease_token x"
      "snd (requeue_claimed db now x) = put_request (requeue_request now q) db" "chat_ok (put_request (requeue_request now q) db)"
proof (cases "x_lease_token x")
  case None
  then show thesis using that(1) by (simp add: requeue_claimed_def transaction_def)
next
  case (Some token)
  let ?rows = "filter (\<lambda>q. q_tenant_id q = x_tenant_id x \<and> q_id q = x_request_db_id x \<and>
      q_request_id q = x_request_id x \<and> q_status q = IRunning \<and> q_lease_token q = Some token) (ch_requests db)"
  note body = requeue_claimed_def [of db now x, unfolded Some option.case]
  show thesis
  proof (cases "scalar_one_or_none ?rows :: chat_error raised + _")
    case (Inl e)
    then show thesis using that(1) by (simp add: body transaction_def)
  next
    case (Inr found)
    show thesis
    proof (cases found)
      case None
      then show thesis using that(1) Inr by (simp add: body transaction_def)
    next
      case f: (Some q)
      note q = filter_singletonD [OF Inr [unfolded f scalar_Some_iff]]
      show thesis
      proof (cases "chat_flush (put_request (requeue_request now q) db)")
        case (Inl e)
        then show thesis using that(1) by (simp add: body transaction_def Inr f)
      next
        case flush: (Inr db')
        then show thesis using that(2) [of q] q Some by (simp add: body transaction_def Inr f)
      qed
    qed
  qed
qed

lemma requeue_claimed_inv:
  assumes "chat_inv db"
  shows "chat_inv (snd (requeue_claimed db now x))"
proof (cases rule: requeue_claimed_cases [of db now x])
  case (2 q)
  show ?thesis
    unfolding 2(6)
    by (rule status_write [OF assms 2(1) _ _ _ 2(7)])
      (use 2 in \<open>simp_all add: same_request_def requeue_request_def in_flight_def\<close>)
qed (use assms in simp)

lemma check_lease_cases:
  assumes "check_lease_and_stop db now n x = (res, db')"
  obtains "db' = db"
  | q where "locked_request db x = Inr (Some q)" "q_status q \<in> set RUNNING_STATUSES" "unexpired now (q_lease_expires_at q)"
      "db' = put_request (extend_lease now n q) db" "chat_ok db'" "res = Inr (lease_check True (q_status q = IStopRequested))"
proof (cases res)
  case (Inl e)
  then show thesis using assms that(1) unfolding check_lease_and_stop_def by (simp only: transaction_Inl_iff)
next
  case (Inr v)
  then have "db' = db \<or> (\<exists>q. locked_request db x = Inr (Some q) \<and> q_status q \<in> set RUNNING_STATUSES \<and>
      unexpired now (q_lease_expires_at q) \<and> db' = put_request (extend_lease now n q) db \<and> chat_ok db' \<and>
      v = lease_check True (q_status q = IStopRequested))"
    using assms by (auto simp: check_lease_and_stop_def transaction_Inr_iff split: option.splits if_splits)
  then show thesis using that Inr by blast
qed

lemma check_lease_inv:
  assumes "chat_inv db"
  shows "chat_inv (snd (check_lease_and_stop db now n x))"
proof (cases rule: check_lease_cases [OF prod.collapse [symmetric], of db now n x])
  case (2 q)
  show ?thesis
    unfolding 2(4)
    by (rule status_write [OF assms locked_request_Some(1) [OF 2(1)] _ _ _ 2(5) [unfolded 2(4)]])
      (simp_all add: same_request_def extend_lease_def in_flight_def)
qed (use assms in simp)

lemma append_delta_Some:
  assumes "append_delta db now seen n eid x k d pid = (Inr (Some r), db')"
  obtains q m where "locked_writable_request db seen x k [IRunning] = Inr (Some q)" "provider_id_is_coherent q pid"
    "locked_message db x = Inr (Some m)" "m_status m = MStreaming" "d \<noteq> []" "chat_ok db'"
    "db' = add_event (event_row eid q k ''delta'' (delta_payload q x k d) now)
       (put_message (m\<lparr>m_content := text_json (text_content (m_content m) @ d), m_updated_at := now\<rparr>) (put_request (delta_request now n k pid q) db))"
    "r = \<lparr>se_sequence = k, se_event = delta_payload q x k d\<rparr>"
  using assms
  by (auto simp: append_delta_def transaction_Inr_iff Let_def split: option.splits if_splits)

lemma append_delta_other:
  assumes "append_delta db now seen n eid x k d pid = (res, db')" and "\<nexists>r. res = Inr (Some r)"
  shows "db' = db"
  using assms
  by (cases res) (auto simp: append_delta_def transaction_Inr_iff transaction_Inl_iff Let_def split: option.splits if_splits)

lemma delta_event:
  assumes "q_conversation_id q = Some (x_conversation_id x)" "q_message_id q = Some (x_message_id x)" "d \<noteq> []"
  shows "event_shape q (event_row eid q k ''delta'' (delta_payload q x k d) now)"
    "delta_text (event_row eid q k ''delta'' (delta_payload q x k d) now) = d"
  using assms by (auto simp: event_shape_def event_row_def delta_payload_def payload_tail_def delta_text_def event_fields_def)

lemma append_delta_inv:
  assumes inv: "chat_inv db"
  shows "chat_inv (snd (append_delta db now seen n eid x k d pid))"
proof (cases "\<exists>r. fst (append_delta db now seen n eid x k d pid) = Inr (Some r)")
  case False
  then show ?thesis using append_delta_other [of db now seen n eid x k d pid] inv by (metis prod.collapse)
next
  case True
  then obtain r db' where res: "append_delta db now seen n eid x k d pid = (Inr (Some r), db')" by (metis prod.collapse)
  from res obtain q m where q: "locked_writable_request db seen x k [IRunning] = Inr (Some q)"
    and m: "locked_message db x = Inr (Some m)" and d: "d \<noteq> []" and ok: "chat_ok db'"
    and db': "db' = add_event (event_row eid q k ''delta'' (delta_payload q x k d) now)
       (put_message (m\<lparr>m_content := text_json (text_content (m_content m) @ d), m_updated_at := now\<rparr>) (put_request (delta_request now n k pid q) db))"
    by (rule append_delta_Some)
  note qs = locked_writable_Some [OF q] and rows = execution_rows [OF inv locked_writable_Some(1) [OF q] m]
  note ev = delta_event [OF rows(2,3) d, of eid k now]
  have "chat_core db'"
    by (rule delta_write [where q = q and q' = "delta_request now n k pid q" and m = m and e = "event_row eid q k ''delta'' (delta_payload q x k d) now"
          and now = now, OF chat_inv_core [OF inv]])
      (use qs rows ev locked_request_Some [OF qs(1)] locked_message_Some [OF m] in
        \<open>simp_all add: db' same_request_def delta_request_def extend_lease_def in_flight_def event_row_def\<close>)
  then show ?thesis using ok res by (simp add: chat_inv_def)
qed

text \<open>Both ways to end a request write the same rows; the event and the message differ.\<close>

lemma finish_request:
  assumes inv: "chat_inv db" and q: "locked_writable_request db seen x k statuses = Inr (Some q)" "set statuses \<subseteq> set RUNNING_STATUSES"
    and m: "locked_message db x = Inr (Some m)" and c: "locked_conversation db x = Inr (Some c)" "clear_active c (q_id q) now = Inr c'"
    and q': "same_request q q'" "q_last_event_sequence q' = k" "\<not> in_flight q'" and m': "m_id m' = m_id m"
    and e: "e_tenant_id e = q_tenant_id q" "e_inference_request_id e = q_id q" "e_sequence_no e = k" "event_shape q e" "terminal_event e"
    and ok: "chat_ok (add_event e (put_conversation c' (put_message m' (put_request q' db))))"
  shows "chat_inv (add_event e (put_conversation c' (put_message m' (put_request q' db))))"
proof -
  note qs = locked_writable_Some [OF q(1)]
  have "in_flight q" using qs(2) q(2) by (auto simp: in_flight_def)
  then have "chat_core (add_event e (put_conversation c' (put_message m' (put_request q' db))))"
    by (intro terminal_write [OF chat_inv_core [OF inv] locked_request_Some(1) [OF qs(1)] _ q'(1) _ q'(3)
          locked_message_Some(1) [OF m] execution_rows(1) [OF inv qs(1) m] m'
          locked_conversation_Some(1) [OF c(1)] execution_active [OF inv qs(1) m c(1)] _ _ e(1,2) _ e(4,5) refl])
      (use q'(2) e(3) qs(3) clear_active_Inr [OF c(2)] in simp_all)
  then show ?thesis using ok by (simp add: chat_inv_def)
qed

lemma terminal_without_usage_Inr:
  assumes "terminal_without_usage db now seen eid x k content ty rs ms code details pid statuses reason = (Inr b, db')" and "db' \<noteq> db \<or> b"
  obtains q m c c' where "locked_writable_request db seen x k statuses = Inr (Some q)" "provider_id_is_coherent q pid" "locked_message db x = Inr (Some m)"
    "locked_conversation db x = Inr (Some c)" "clear_active c (q_id q) now = Inr c'" "b" "chat_ok db'"
    "db' = add_event (event_row eid q k ty (terminal_payload q x k ty code details) now)
       (put_conversation c' (put_message (m\<lparr>m_content := (if content = [] then m_content m else text_json content), m_status := ms, m_updated_at := now\<rparr>)
         (put_request (terminate_request now k rs pid code details (case or_else reason (Some ty) of Some s \<Rightarrow> s | None \<Rightarrow> []) q) db)))"
proof -
  from assms obtain q where q: "locked_writable_request db seen x k statuses = Inr (Some q)" "provider_id_is_coherent q pid"
    by (auto simp: terminal_without_usage_def transaction_Inr_iff Let_def split: option.splits if_splits)
  with assms obtain m where m: "locked_message db x = Inr (Some m)"
    by (auto simp: terminal_without_usage_def transaction_Inr_iff Let_def split: option.splits if_splits)
  with q assms obtain c where c: "locked_conversation db x = Inr (Some c)"
    by (auto simp: terminal_without_usage_def transaction_Inr_iff Let_def split: option.splits if_splits)
  show thesis
    using assms q m c that by (auto simp: terminal_without_usage_def transaction_Inr_iff Let_def)
qed

lemma terminal_payload_shape:
  assumes "q_conversation_id q = Some (x_conversation_id x)" "q_message_id q = Some (x_message_id x)"
    and "ty = ''stopped'' \<or> ty = ''failed'' \<and> (\<exists>s. code = Some s \<and> is_public_code s)"
  shows "event_shape q (event_row eid q k ty (terminal_payload q x k ty code details) now)"
proof -
  have "or_else (Some s) v = Some s" if "is_public_code s" for s v using that by (cases s) (simp_all add: is_public_code_def)
  then show ?thesis
    using assms by (auto simp: event_shape_def event_row_def terminal_payload_def payload_tail_def) blast
qed

lemma terminal_without_usage_inv:
  assumes inv: "chat_inv db" and st: "set statuses \<subseteq> set RUNNING_STATUSES" and rs: "rs \<in> set [IStopped, IFailed, ISubmittedUnknown]"
    and ty: "ty = ''stopped'' \<or> ty = ''failed'' \<and> (\<exists>s. code = Some s \<and> is_public_code s)"
  shows "chat_inv (snd (terminal_without_usage db now seen eid x k content ty rs ms code details pid statuses reason))"
proof (cases "terminal_without_usage db now seen eid x k content ty rs ms code details pid statuses reason")
  case (Pair res db')
  show ?thesis
  proof (cases "db' = db")
    case False
    then obtain b where b: "res = Inr b"
      using Pair by (cases res) (auto simp: terminal_without_usage_def transaction_Inl_iff)
    from Pair [unfolded b] disjI1 [OF False] obtain q m c c' where r:
      "locked_writable_request db seen x k statuses = Inr (Some q)" "locked_message db x = Inr (Some m)"
      "locked_conversation db x = Inr (Some c)" "clear_active c (q_id q) now = Inr c'" "chat_ok db'"
      "db' = add_event (event_row eid q k ty (terminal_payload q x k ty code details) now)
       (put_conversation c' (put_message (m\<lparr>m_content := (if content = [] then m_content m else text_json content), m_status := ms, m_updated_at := now\<rparr>)
         (put_request (terminate_request now k rs pid code details (case or_else reason (Some ty) of Some s \<Rightarrow> s | None \<Rightarrow> []) q) db)))"
      by (rule terminal_without_usage_Inr)
    note rows = execution_rows [OF inv locked_writable_Some(1) [OF r(1)] r(2)]
    have "chat_inv db'"
      unfolding r(6)
      by (rule finish_request [OF inv r(1) st r(2,3,4)])
        (use rs ty r(5,6) terminal_payload_shape [OF rows(2,3) ty] in
          \<open>auto simp: same_request_def terminate_request_def in_flight_def event_row_def terminal_event_def\<close>)
    then show ?thesis using Pair by simp
  qed (use inv Pair in simp)
qed

lemma marks_inv:
  assumes "chat_inv db"
  shows "chat_inv (snd (mark_stopped db now seen eid x k content))"
    and "is_public_code code \<Longrightarrow> chat_inv (snd (mark_failed db now seen eid x k code details pid))"
    and "is_public_code code \<Longrightarrow> chat_inv (snd (mark_submitted_unknown db now seen eid x pid code))"
  unfolding mark_stopped_def mark_failed_def mark_submitted_unknown_def
  by (rule terminal_without_usage_inv [OF assms]; simp)+

subsection \<open>Completion\<close>

lemma record_usage_Inr:
  assumes "record_usage db uid x pid price usage charge = Inr db1"
  obtains rows where "db1 = db\<lparr>ch_billing := (ch_billing db)\<lparr>usage_records := usage_records (ch_billing db) @ rows\<rparr>\<rparr>"
    "rows = [] \<and> (\<exists>u \<in> set (usage_records (ch_billing db)). u_tenant_id u = x_tenant_id x \<and> u_inference_request_id u = Some (x_request_db_id x)) \<or>
     (\<exists>label. pricing_version price = Inr label \<and> rows = [chat_usage_row uid x pid label price usage charge])"
proof -
  let ?rows = "filter (\<lambda>u. u_tenant_id u = x_tenant_id x \<and> u_inference_request_id u = Some (x_request_db_id x)) (usage_records (ch_billing db))"
  obtain found where f: "scalar_one_or_none ?rows = (Inr found :: chat_error raised + _)"
    using assms by (cases "scalar_one_or_none ?rows :: chat_error raised + _") (simp_all add: record_usage_def)
  show thesis
  proof (cases found)
    case None
    then show thesis using assms f by (auto simp: record_usage_def intro!: that)
  next
    case (Some u)
    then have "u \<in> set (usage_records (ch_billing db)) \<and> u_tenant_id u = x_tenant_id x \<and> u_inference_request_id u = Some (x_request_db_id x)"
      using f filter_singletonD [of _ _ u] by fastforce
    moreover have "db1 = db" using assms f Some by (simp add: record_usage_def)
    ultimately show thesis using that [of "[]"] by auto
  qed
qed

definition completed_db ::
  "chat_db \<Rightarrow> instant \<Rightarrow> uuid \<Rightarrow> ChatExecutionRecord \<Rightarrow> int \<Rightarrow> string \<Rightarrow> string option \<Rightarrow> Usage \<Rightarrow> InferenceRequest \<Rightarrow> Message \<Rightarrow> Conversation \<Rightarrow> chat_db" where
  "completed_db db now eid x k content pid usage q m c' =
     add_event (event_row eid q k ''completed'' (event_fields ''completed'' (q_request_id q) (x_conversation_id x) (x_message_id x) k
         @ [(''content'', JStr content)]) now)
       (put_conversation c' (put_message (m\<lparr>m_content := text_json content, m_status := MCompleted, m_updated_at := now\<rparr>)
         (put_request (complete_request now k pid usage q) db)))"

lemma mark_completed_True:
  assumes "mark_completed db now seen eid uid x k content pid usage = (Inr True, db')"
  obtains q m c c' price charge rows where
    "locked_writable_request db seen x k [IRunning] = Inr (Some q)" "provider_id_is_coherent q pid"
    "locked_message db x = Inr (Some m)" "locked_conversation db x = Inr (Some c)" "clear_active c (q_id q) now = Inr c'"
    "price_for_request db q = Inr price" "mk_BillingUsage (chat_measures (cu_usage usage)) = Inr (chat_measures (cu_usage usage))"
    "charge_for_usage price (chat_measures (cu_usage usage)) = Inr charge"
    "db' = (completed_db db now eid x k content pid (cu_usage usage) q m c')
       \<lparr>ch_billing := (ch_billing db)\<lparr>usage_records := usage_records (ch_billing db) @ rows\<rparr>\<rparr>"
    "rows = [] \<and> (\<exists>u \<in> set (usage_records (ch_billing db)). u_tenant_id u = x_tenant_id x \<and> u_inference_request_id u = Some (x_request_db_id x)) \<or>
     (\<exists>label. pricing_version price = Inr label \<and> rows = [chat_usage_row uid x pid label price (cu_usage usage) charge])"
    "chat_ok db'" "constraints_ok (ch_billing db')"
proof -
  from assms obtain q where q: "locked_writable_request db seen x k [IRunning] = Inr (Some q)" "provider_id_is_coherent q pid"
    by (auto simp: mark_completed_def transaction_Inr_iff Let_def split: option.splits if_splits)
  with assms obtain m where m: "locked_message db x = Inr (Some m)"
    by (auto simp: mark_completed_def transaction_Inr_iff Let_def split: option.splits if_splits)
  with q assms obtain c where c: "locked_conversation db x = Inr (Some c)"
    by (auto simp: mark_completed_def transaction_Inr_iff Let_def split: option.splits if_splits)
  from assms q m c obtain price charge c' db1 where r: "price_for_request db q = Inr price"
    "charge_for_usage price (chat_measures (cu_usage usage)) = Inr charge"
    "mk_BillingUsage (chat_measures (cu_usage usage)) = Inr (chat_measures (cu_usage usage))"
    "clear_active c (q_id q) now = Inr c'"
    "record_usage (completed_db db now eid x k content pid (cu_usage usage) q m c') uid x pid price (cu_usage usage) charge = Inr db1"
    "commit_flush db1 = Inr db'"
    by (auto simp: mark_completed_def transaction_Inr_iff Let_def completed_db_def mk_BillingUsage_def)
  have eq: "db' = db1" "chat_ok db'" "constraints_ok (ch_billing db')" using r(6) by (auto simp: commit_flush_def)
  from r(5) obtain rows where rows: "db1 = (completed_db db now eid x k content pid (cu_usage usage) q m c')
       \<lparr>ch_billing := (ch_billing db)\<lparr>usage_records := usage_records (ch_billing db) @ rows\<rparr>\<rparr>"
    "rows = [] \<and> (\<exists>u \<in> set (usage_records (ch_billing db)). u_tenant_id u = x_tenant_id x \<and> u_inference_request_id u = Some (x_request_db_id x)) \<or>
     (\<exists>label. pricing_version price = Inr label \<and> rows = [chat_usage_row uid x pid label price (cu_usage usage) charge])"
    by (rule record_usage_Inr) (auto simp: completed_db_def)
  show thesis
    by (rule that [OF q m c r(4,1,3,2) _ rows(2)]) (use eq rows(1) in simp_all)
qed

lemma mark_completed_other:
  assumes "mark_completed db now seen eid uid x k content pid usage = (res, db')" and "res \<noteq> Inr True"
  shows "db' = db"
proof (cases res)
  case (Inl e)
  then show ?thesis using assms by (simp add: mark_completed_def transaction_Inl_iff)
next
  case (Inr b)
  then have "\<not> b" using assms(2) by simp
  then show ?thesis
    using assms Inr by (auto simp: mark_completed_def transaction_Inr_iff Let_def split: option.splits if_splits)
qed

lemma mark_completed_inv:
  assumes inv: "chat_inv db"
  shows "chat_inv (snd (mark_completed db now seen eid uid x k content pid usage))"
proof (cases "mark_completed db now seen eid uid x k content pid usage")
  case (Pair res db')
  show ?thesis
  proof (cases "res = Inr True")
    case True
    with Pair have "mark_completed db now seen eid uid x k content pid usage = (Inr True, db')" by simp
    then obtain q m c c' rows where r: "locked_writable_request db seen x k [IRunning] = Inr (Some q)"
      "locked_message db x = Inr (Some m)" "locked_conversation db x = Inr (Some c)" "clear_active c (q_id q) now = Inr c'"
      "db' = (completed_db db now eid x k content pid (cu_usage usage) q m c')
         \<lparr>ch_billing := (ch_billing db)\<lparr>usage_records := usage_records (ch_billing db) @ rows\<rparr>\<rparr>" "chat_ok db'"
      by (rule mark_completed_True)
    note rows = execution_rows [OF inv locked_writable_Some(1) [OF r(1)] r(2)]
    have same: "same_chat (completed_db db now eid x k content pid (cu_usage usage) q m c') db'" by (simp add: r(5) same_chat_def)
    have ok: "chat_ok (completed_db db now eid x k content pid (cu_usage usage) q m c')"
      using r(6) by (simp add: r(5) chat_ok_def chat_numeric_def chat_checks_def chat_unique_def chat_references_def)
    have "event_shape q (event_row eid q k ''completed'' (event_fields ''completed'' (q_request_id q) (x_conversation_id x) (x_message_id x) k
         @ [(''content'', JStr content)]) now)"
      using rows(2,3) by (simp add: event_shape_def event_row_def payload_tail_def)
    then have "chat_inv (completed_db db now eid x k content pid (cu_usage usage) q m c')"
      unfolding completed_db_def
      by (intro finish_request [OF inv r(1) _ r(2,3,4)])
        (use ok in \<open>simp_all add: same_request_def complete_request_def in_flight_def event_row_def terminal_event_def completed_db_def\<close>)
    then show ?thesis using same_chat_inv [OF same] Pair by simp
  next
    case False
    then show ?thesis using mark_completed_other [OF Pair] inv Pair by simp
  qed
qed

subsection \<open>Expired leases\<close>

lemma reconcile_row_cases:
  assumes "reconcile_row now fresh q (k, db) = Inr (k', db')"
  obtains "db' = db" "k' = k"
  | q' m m' c c' e where "m \<in> set (ch_messages db)" "q_message_id q = Some (m_id m)" "m_id m' = m_id m"
      "c \<in> set (ch_conversations db)" "active_in q c" "cv_id c' = cv_id c" "cv_active_inference_request_id c' = None"
      "q' = (if q_status q = IRunning then reconcile_unknown now (q_last_event_sequence q + 1) q else reconcile_stopped now (q_last_event_sequence q + 1) q)"
      "e_tenant_id e = q_tenant_id q" "e_inference_request_id e = q_id q" "e_sequence_no e = q_last_event_sequence q + 1"
      "event_shape q e" "terminal_event e"
      "db' = add_event e (put_conversation c' (put_message m' (put_request q' db)))"
      "k' = (if q_status q = IRunning then (fst k + 1, snd k) else (fst k, snd k + 1))" "clear_active c (q_id q) now = Inr c'"
proof (cases "db' = db \<and> k' = k")
  case True
  then show thesis using that(1) by simp
next
  case False
  obtain cid mid where ids: "q_conversation_id q = Some cid" "q_message_id q = Some mid"
    using assms False by (cases "q_conversation_id q"; cases "q_message_id q") (auto simp: reconcile_row_def split: prod.splits)
  let ?ms = "filter (\<lambda>m. m_tenant_id m = q_tenant_id q \<and> m_id m = mid \<and> m_conversation_id m = cid) (ch_messages db)"
  let ?cs = "filter (\<lambda>c. cv_tenant_id c = q_tenant_id q \<and> cv_id c = cid \<and> cv_active_inference_request_id c = Some (q_id q)) (ch_conversations db)"
  obtain om where om: "scalar_one_or_none ?ms = (Inr om :: chat_error raised + _)"
    using assms by (cases "scalar_one_or_none ?ms :: chat_error raised + _") (auto simp: reconcile_row_def ids split: prod.splits)
  obtain oc where oc: "scalar_one_or_none ?cs = (Inr oc :: chat_error raised + _)"
    using assms om by (cases "scalar_one_or_none ?cs :: chat_error raised + _") (auto simp: reconcile_row_def ids split: prod.splits)
  obtain m c where mc: "om = Some m" "oc = Some c"
    using assms om oc False by (cases om; cases oc) (auto simp: reconcile_row_def ids split: prod.splits)
  note m = filter_singletonD [OF om [unfolded mc scalar_Some_iff]] and c = filter_singletonD [OF oc [unfolded mc scalar_Some_iff]]
  obtain c' where c': "clear_active c (q_id q) now = Inr c'" using c by (simp add: clear_active_def)
  let ?n = "q_last_event_sequence q + 1" and ?eid = "fresh (fst k + snd k)"
  have act: "active_in q c" using c ids by (simp add: active_in_def)
  have err: "is_public_code ''CHAT_LEASE_EXPIRED''" by (simp add: is_public_code_def is_upper_def)
  note common = ids om oc mc c' m c act reconcile_row_def
  show thesis
  proof (cases "q_status q = IRunning")
    case True
    show thesis
      by (rule that(2) [of m "m\<lparr>m_status := MFailed, m_updated_at := now\<rparr>" c c' _ "event_row ?eid q ?n ''failed''
            (event_fields ''failed'' (q_request_id q) cid mid ?n @ [(''error'', error_body ''CHAT_LEASE_EXPIRED'' (q_request_id q) False)]) now"])
        (use assms True common err clear_active_Inr [OF c'] in
          \<open>auto simp: event_row_def terminal_event_def event_shape_def payload_tail_def Let_def split: prod.splits\<close>)
  next
    case False
    show thesis
      by (rule that(2) [of m "m\<lparr>m_status := MStopped, m_updated_at := now\<rparr>" c c' _ "event_row ?eid q ?n ''stopped''
            (event_fields ''stopped'' (q_request_id q) cid mid ?n) now"])
        (use assms False common clear_active_Inr [OF c'] in
          \<open>auto simp: event_row_def terminal_event_def event_shape_def payload_tail_def Let_def split: prod.splits\<close>)
  qed
qed

lemma reconcile_row_core:
  assumes core: "chat_core db" and q: "q \<in> set (ch_requests db)" "q_status q \<in> set RUNNING_STATUSES"
    and row: "reconcile_row now fresh q (k, db) = Inr (k', db')"
  shows "chat_core db'" "x \<in> set (ch_requests db) \<Longrightarrow> q_id x \<noteq> q_id q \<Longrightarrow> x \<in> set (ch_requests db')"
proof -
  have live: "in_flight q" using q(2) by (auto simp: in_flight_def)
  have "chat_core db' \<and> (x \<in> set (ch_requests db) \<longrightarrow> q_id x \<noteq> q_id q \<longrightarrow> x \<in> set (ch_requests db'))"
    using row
  proof (cases rule: reconcile_row_cases)
    case 1
    then show ?thesis using core by simp
  next
    case (2 q' m m' c c' e)
    have same: "same_request q q'" "q_last_event_sequence q' = q_last_event_sequence q + 1" "\<not> in_flight q'"
      using 2(8) by (simp_all add: same_request_def reconcile_unknown_def reconcile_stopped_def in_flight_def)
    have "chat_core db'"
      by (rule terminal_write [OF core q(1) live same 2(1-7,9-14)])
    moreover have "q_id q' = q_id q" using same(1) by (simp add: same_request_def)
    ultimately show ?thesis using request_put(2) [OF q(1), of q' x] by (simp add: 2(14))
  qed
  then show "chat_core db'" "x \<in> set (ch_requests db) \<Longrightarrow> q_id x \<noteq> q_id q \<Longrightarrow> x \<in> set (ch_requests db')" by simp_all
qed

text \<open>The loop, seen through any reflexive and transitive relation that each turn keeps.\<close>

lemma reconcile_rows_induct:
  assumes "reconcile_rows now fresh qs (k, db) = Inr (k', db')" and "chat_core db" and "distinct (map q_id qs)"
    and "\<And>q. q \<in> set qs \<Longrightarrow> q \<in> set (ch_requests db) \<and> q_status q \<in> set RUNNING_STATUSES"
    and turn: "\<And>q k db k1 db1. chat_core db \<Longrightarrow> q \<in> set (ch_requests db) \<Longrightarrow> q_status q \<in> set RUNNING_STATUSES \<Longrightarrow>
      reconcile_row now fresh q (k, db) = Inr (k1, db1) \<Longrightarrow> R db db1"
    and refl: "\<And>db. R db db" and trans: "\<And>d1 d2 d3. R d1 d2 \<Longrightarrow> R d2 d3 \<Longrightarrow> R d1 d3"
  shows "chat_core db' \<and> R db db'"
  using assms(1-4)
proof (induction qs arbitrary: k db)
  case (Cons q qs)
  from Cons.prems(1) obtain k1 db1 where row: "reconcile_row now fresh q (k, db) = Inr (k1, db1)"
    and rest: "reconcile_rows now fresh qs (k1, db1) = Inr (k', db')" by auto
  have q: "q \<in> set (ch_requests db)" "q_status q \<in> set RUNNING_STATUSES" using Cons.prems(4) by simp_all
  have "chat_core db' \<and> R db1 db'"
  proof (rule Cons.IH [OF rest reconcile_row_core(1) [OF Cons.prems(2) q row]])
    show "distinct (map q_id qs)" using Cons.prems(3) by simp
    show "x \<in> set (ch_requests db1) \<and> q_status x \<in> set RUNNING_STATUSES" if "x \<in> set qs" for x
    proof -
      have "q_id x \<noteq> q_id q" using that Cons.prems(3) by (metis image_eqI distinct.simps(2) image_set list.simps(9))
      then show ?thesis using that Cons.prems(4) [of x] reconcile_row_core(2) [OF Cons.prems(2) q row, of x] by simp
    qed
  qed
  then show ?case using turn [OF Cons.prems(2) q row] trans by blast
qed (simp add: refl)

lemma expired_requests_mem:
  assumes "q \<in> set (expired_requests db now locked n)"
  shows "q \<in> set (ch_requests db)" "q_status q \<in> set RUNNING_STATUSES" "null_or (\<lambda>e. e \<le> now) (q_lease_expires_at q)"
  using assms by (auto simp: expired_requests_def dest!: in_set_takeD)

lemma distinct_expired:
  assumes "distinct (map q_id (ch_requests db))"
  shows "distinct (map q_id (expired_requests db now locked n))"
proof -
  let ?rs = "filter (\<lambda>q. q_status q \<in> set RUNNING_STATUSES \<and> null_or (\<lambda>e. e \<le> now) (q_lease_expires_at q) \<and> \<not> locked (q_id q)) (ch_requests db)"
  have "distinct (map q_id ?rs)" using assms by (rule distinct_map_filter)
  then have "distinct (map q_id (sort_key (\<lambda>q. (q_updated_at q, q_id q)) ?rs))"
    by (simp add: distinct_map)
  then show ?thesis by (simp only: expired_requests_def take_map [symmetric] distinct_take)
qed

lemma reconcile_expired_induct:
  assumes inv: "chat_inv db"
    and turn: "\<And>q k db k1 db1. chat_core db \<Longrightarrow> q \<in> set (ch_requests db) \<Longrightarrow> q_status q \<in> set RUNNING_STATUSES \<Longrightarrow>
      reconcile_row now fresh q (k, db) = Inr (k1, db1) \<Longrightarrow> R db db1"
    and refl: "\<And>db. R db db" and trans: "\<And>d1 d2 d3. R d1 d2 \<Longrightarrow> R d2 d3 \<Longrightarrow> R d1 d3"
  shows "chat_inv (snd (reconcile_expired_once db now locked fresh n)) \<and> R db (snd (reconcile_expired_once db now locked fresh n))"
  unfolding reconcile_expired_once_def
proof (rule transaction_inv [where I = "\<lambda>d. chat_inv d \<and> R db d"], goal_cases)
  case (2 res db')
  then obtain k where k: "reconcile_rows now fresh (expired_requests db now locked n) ((0, 0), db) = Inr (k, db')" "chat_ok db'"
    by auto
  have "chat_core db' \<and> R db db'"
    by (rule reconcile_rows_induct [OF k(1) chat_inv_core [OF inv] distinct_expired])
      (use chat_ok_distinct(1) [OF chat_inv_ok [OF inv]] turn refl trans expired_requests_mem in blast)+
  then show ?case using k(2) by (simp add: chat_inv_def)
qed (use inv refl in simp)

lemma reconcile_expired_inv: "chat_inv db \<Longrightarrow> chat_inv (snd (reconcile_expired_once db now locked fresh n))"
  using reconcile_expired_induct [of db now fresh "\<lambda>_ _. True"] by blast

subsection \<open>Acceptance\<close>

lemma claim_idempotency_Inr:
  assumes "claim_idempotency db fr t actor op key h = Inr (idem, inserted, db1)"
  shows "inserted \<Longrightarrow> filter (\<lambda>r. idempotency_scope r = (t, actor, op, key)) (ch_idempotency db) = [] \<and>
      db1 = db\<lparr>ch_idempotency := ch_idempotency db @ [idem]\<rparr> \<and> idempotency_ok (ch_idempotency db @ [idem]) \<and>
      idempotency_scope idem = (t, actor, op, key) \<and> id_request_hash idem = h \<and> id_id idem = cf_idempotency_id fr \<and> id_tenant_id idem = t"
    and "\<not> inserted \<Longrightarrow> db1 = db \<and> filter (\<lambda>r. idempotency_scope r = (t, actor, op, key)) (ch_idempotency db) = [idem] \<and> id_request_hash idem = h"
  using assms by (auto simp: claim_idempotency_def Let_def idempotency_scope_def split: list.splits)

lemma claim_idempotency_chat: "claim_idempotency db fr t actor op key h = Inr (idem, inserted, db1) \<Longrightarrow> same_chat db db1"
  using claim_idempotency_Inr [of db fr t actor op key h idem inserted db1] by (cases inserted) (auto simp: same_chat_def)

lemma lock_conversation_Some:
  assumes "lock_conversation db t actor i = Some c"
  shows "c \<in> set (ch_conversations db)" "cv_tenant_id c = t" "cv_created_by_user_id c = actor" "cv_id c = i"
proof -
  from assms obtain p where "first_row (filter (\<lambda>(c, _). cv_id c = i) (conversation_query db t actor)) = Some (c, p)"
    by (auto simp: lock_conversation_def get_row_by_id_def)
  from first_row_mem [OF this] show "c \<in> set (ch_conversations db)" "cv_tenant_id c = t" "cv_created_by_user_id c = actor" "cv_id c = i"
    by (auto simp: conversation_query_def)
qed

lemma complete_idempotency_frame [simp]:
  "ch_requests (complete_idempotency db t i n ty rid body) = ch_requests db" "ch_conversations (complete_idempotency db t i n ty rid body) = ch_conversations db"
  "ch_messages (complete_idempotency db t i n ty rid body) = ch_messages db" "ch_events (complete_idempotency db t i n ty rid body) = ch_events db"
  "ch_billing (complete_idempotency db t i n ty rid body) = ch_billing db" "ch_outbox (complete_idempotency db t i n ty rid body) = ch_outbox db"
  "ch_catalog (complete_idempotency db t i n ty rid body) = ch_catalog db"
  by (simp_all add: complete_idempotency_def)

lemma with_idle_Inr:
  assumes "with_idle_conversation db fr t actor op cid key h body = (Inr a, db')"
  obtains idem where "db' = db" "ar_replayed a" "filter (\<lambda>r. idempotency_scope r = (t, actor, op, key)) (ch_idempotency db) = [idem]"
      "id_request_hash idem = h" "replay_request db t actor idem = Inr a"
  | idem db1 c r db2 where "claim_idempotency db fr t actor op key h = Inr (idem, True, db1)"
      "lock_conversation db1 t actor cid = Some c" "cv_active_inference_request_id c = None" "body db1 c = Inr (r, db2)"
      "a = \<lparr>ar_request = r, ar_replayed = False\<rparr>"
      "db' = complete_idempotency db2 t (id_id idem) 202 ''inference_request'' (rq_request_db_id r) (accepted_body r (cv_id c))"
proof -
  from assms obtain idem inserted db1 where c: "claim_idempotency db fr t actor op key h = Inr (idem, inserted, db1)"
    by (auto simp: with_idle_conversation_def transaction_Inr_iff)
  show thesis
  proof (cases inserted)
    case False
    note old = claim_idempotency_Inr(2) [OF c False]
    have rep: "replay_request db t actor idem = Inr a" "db' = db"
      using assms c False old by (auto simp: with_idle_conversation_def transaction_Inr_iff)
    moreover have "ar_replayed a" using rep(1) by (auto simp: replay_request_def split: option.splits)
    ultimately show thesis using that(1) old by blast
  next
    case True
    then obtain v where "lock_conversation db1 t actor cid = Some v" "cv_active_inference_request_id v = None"
      using assms c by (auto simp: with_idle_conversation_def transaction_Inr_iff split: option.splits)
    then show thesis
      using assms c True that(2) by (auto simp: with_idle_conversation_def transaction_Inr_iff)
  qed
qed

lemma append_request_inv:
  assumes inv: "chat_inv db" and dbx: "ch_requests dbx = ch_requests db" "ch_conversations dbx = ch_conversations db" "ch_events dbx = ch_events db"
    and c: "c \<in> set (ch_conversations db)" "cv_tenant_id c = t" "cv_active_inference_request_id c = None"
    and ms: "\<And>mx. mx \<in> set (ch_messages db) \<Longrightarrow> m_conversation_id mx \<noteq> cv_id c \<Longrightarrow> mx \<in> set (ch_messages dbx)"
    and target: "\<And>m. m \<in> set (ch_messages dbx @ appended_messages dbx fr t actor (cv_id c) content am) \<Longrightarrow>
        m_id m = (case am of None \<Rightarrow> cf_assistant_message_id fr | Some i \<Rightarrow> i) \<Longrightarrow>
        distinct (map m_id (ch_messages dbx @ appended_messages dbx fr t actor (cv_id c) content am)) \<Longrightarrow>
        m_status m = MStreaming \<and> m_content m = text_json []"
    and res: "append_request_transaction dbx fr t actor c dep content am h parent = Inr (r, db')"
  shows "chat_inv db'"
proof -
  let ?all = "ch_messages dbx @ appended_messages dbx fr t actor (cv_id c) content am"
  from res obtain decision m q and reservation :: ReservationResult where
    q: "q = (accepted_request fr t actor (cv_id c) (case am of None \<Rightarrow> cf_assistant_message_id fr | Some i \<Rightarrow> i) dep h parent content decision)
       \<lparr>q_billing_reservation_id := Some (rr_reservation_id reservation), q_last_event_sequence := 0\<rparr>"
    and w: "ch_requests db' = ch_requests dbx @ [q]"
    "ch_events db' = ch_events dbx @ [event_row (cf_event_id fr) q 0 ''started'' (event_fields ''started'' (q_request_id q) (cv_id c) (m_id m) 0) (cf_now fr)]"
    "ch_conversations db' = ch_conversations (put_conversation (c\<lparr>cv_active_inference_request_id := Some (q_id q),
       cv_version := cv_version c + 1, cv_updated_at := cf_now fr\<rparr>) dbx)"
    and m: "m \<in> set ?all" "m_tenant_id m = t" "q_message_id q = Some (m_id m)" "m_conversation_id m = cv_id c"
    "ch_messages db' = update_where (\<lambda>x. m_id x = m_id m) (\<lambda>_. m\<lparr>m_request_id := Some (q_id q), m_updated_at := cf_db_now fr\<rparr>) ?all"
    and ok: "chat_ok db'"
    by (rule append_request_Inr)
  let ?m = "m\<lparr>m_request_id := Some (q_id q), m_updated_at := cf_db_now fr\<rparr>"
  have "map m_id (ch_messages db') = map m_id ?all" unfolding m(5) by (rule map_update_where) simp
  then have "distinct (map m_id ?all)" using chat_ok_distinct(3) [OF ok] by simp
  moreover have "m_id m = (case am of None \<Rightarrow> cf_assistant_message_id fr | Some i \<Rightarrow> i)"
    using m(3) by (simp add: q accepted_request_def)
  ultimately have st: "m_status m = MStreaming" "m_content m = text_json []" using target m(1) by blast+
  show ?thesis
  proof (rule admit_write [OF inv, where q = q and m = ?m and c = c])
    show "?m \<in> set (ch_messages db')" using m(1) by (force simp: m(5) set_update_where)
    show "mx \<in> set (ch_messages db')" if "mx \<in> set (ch_messages db)" "m_conversation_id mx \<noteq> cv_id c" for mx
    proof -
      have "mx \<in> set ?all" using ms [OF that] by simp
      moreover have "m_id mx \<noteq> m_id m"
        using distinct_key_inj [OF \<open>distinct (map m_id ?all)\<close> \<open>mx \<in> set ?all\<close> m(1)] m(4) that(2) by auto
      ultimately show ?thesis by (force simp: m(5) set_update_where)
    qed
    show "ch_conversations db' = ch_conversations (put_conversation (c\<lparr>cv_active_inference_request_id := Some (q_id q),
       cv_version := cv_version c + 1, cv_updated_at := cf_now fr\<rparr>) db)"
      using w(3) dbx(2) by (simp add: put_conversation_def)
    show "ch_events db' = ch_events db @ [event_row (cf_event_id fr) q 0 ''started'' (event_fields ''started'' (q_request_id q) (cv_id c) (m_id m) 0) (cf_now fr)]"
      using w(2) dbx(3) by simp
    show "event_shape q (event_row (cf_event_id fr) q 0 ''started'' (event_fields ''started'' (q_request_id q) (cv_id c) (m_id m) 0) (cf_now fr))"
      using m(3) by (simp add: event_shape_def event_row_def payload_tail_def q accepted_request_def)
  qed (use w dbx c m st ok in \<open>simp_all add: event_row_def active_in_def in_flight_def q accepted_request_def\<close>)
qed

lemma idle_request_inv:
  assumes inv: "chat_inv db"
    and body: "\<And>db1 c r db2. chat_inv db1 \<Longrightarrow> c \<in> set (ch_conversations db1) \<Longrightarrow> cv_tenant_id c = t \<Longrightarrow> cv_id c = cid \<Longrightarrow>
        cv_active_inference_request_id c = None \<Longrightarrow> body db1 c = Inr (r, db2) \<Longrightarrow> chat_inv db2"
  shows "chat_inv (snd (with_idle_conversation db fr t actor op cid key h body))"
proof (cases "with_idle_conversation db fr t actor op cid key h body")
  case (Pair res db')
  show ?thesis
  proof (cases res)
    case (Inl e)
    then have "db' = db" using Pair unfolding with_idle_conversation_def by (simp only: transaction_Inl_iff)
    then show ?thesis using Pair inv by simp
  next
    case (Inr a)
    with Pair have "with_idle_conversation db fr t actor op cid key h body = (Inr a, db')" by simp
    then show ?thesis
    proof (cases rule: with_idle_Inr)
      case 1
      then show ?thesis using Pair inv by simp
    next
      case (2 idem db1 c r db2)
      have "chat_inv db1" using same_chat_inv [OF claim_idempotency_chat [OF 2(1)]] inv by simp
      then have "chat_inv db2" using body 2(3,4) lock_conversation_Some [OF 2(2)] by blast
      moreover have "same_chat db2 db'" by (simp add: 2(6) same_chat_def)
      ultimately show ?thesis using same_chat_inv Pair by auto
    qed
  qed
qed

lemma submit_inv:
  assumes "chat_inv db"
  shows "chat_inv (snd (submit db fr t actor cid content key h))"
  unfolding submit_def
proof (rule idle_request_inv [OF assms], goal_cases)
  case (1 db1 c r db2)
  then obtain dep where res: "append_request_transaction db1 fr t actor c dep (Some content) None h None = Inr (r, db2)" by auto
  show ?case
  proof (rule append_request_inv [OF 1(1) refl refl refl 1(2,3,5) _ _ res])
    fix m assume m: "m \<in> set (ch_messages db1 @ appended_messages db1 fr t actor (cv_id c) (Some content) None)"
      "m_id m = (case None of None \<Rightarrow> cf_assistant_message_id fr | Some i \<Rightarrow> i)"
      and dist: "distinct (map m_id (ch_messages db1 @ appended_messages db1 fr t actor (cv_id c) (Some content) None))"
    let ?a = "assistant_message fr t (cv_id c) (max_sequence db1 t (cv_id c) + 1 + 1)"
    have "?a \<in> set (ch_messages db1 @ appended_messages db1 fr t actor (cv_id c) (Some content) None)"
      by (simp add: appended_messages_def Let_def)
    from distinct_key_inj [OF dist m(1) this] m(2) have "m = ?a" by (simp add: assistant_message_def)
    then show "m_status m = MStreaming \<and> m_content m = text_json []" by (simp add: assistant_message_def)
  qed
qed

lemma regeneration_target_Inr:
  assumes "regeneration_target db t cid mid = Inr m"
  shows "m \<in> set (ch_messages db)" "m_tenant_id m = t" "m_conversation_id m = cid" "m_id m = mid" "m_role m = ''assistant''"
proof -
  from assms have f: "filter (\<lambda>m. m_tenant_id m = t \<and> m_conversation_id m = cid \<and> m_id m = mid) (ch_messages db) = [m] \<and> m_role m = ''assistant''"
    unfolding regeneration_target_def andthen_Inr_iff or_raise_Inr_iff scalar_Some_iff
    by (cases "rev (sort_key m_sequence_no (filter (\<lambda>m. m_tenant_id m = t \<and> m_conversation_id m = cid) (ch_messages db)))") (simp_all only: list.case, auto)
  from filter_singletonD [OF conjunct1 [OF f]] f
  show "m \<in> set (ch_messages db)" "m_tenant_id m = t" "m_conversation_id m = cid" "m_id m = mid" "m_role m = ''assistant''" by simp_all
qed

lemma regenerate_inv:
  assumes "chat_inv db"
  shows "chat_inv (snd (regenerate db fr t actor cid mid key h))"
  unfolding regenerate_def
proof (rule idle_request_inv [OF assms], goal_cases)
  case (1 db1 c r db2)
  then obtain dep target where tg: "regeneration_target db1 t cid mid = Inr target"
    and res: "append_request_transaction (put_message (target\<lparr>m_status := MStreaming, m_content := text_json [], m_updated_at := cf_now fr\<rparr>) db1)
      fr t actor c dep None (Some (m_id target)) h (m_request_id target) = Inr (r, db2)" by auto
  let ?t = "target\<lparr>m_status := MStreaming, m_content := text_json [], m_updated_at := cf_now fr\<rparr>"
  note target = regeneration_target_Inr [OF tg]
  show ?case
  proof (rule append_request_inv [OF 1(1) _ _ _ 1(2,3,5) _ _ res])
    show "mx \<in> set (ch_messages (put_message ?t db1))" if "mx \<in> set (ch_messages db1)" "m_conversation_id mx \<noteq> cv_id c" for mx
      using message_put(2) [OF target(1), of ?t mx] that message_unique [of db1 mx target] 1(1,4) target(1,3) by auto
    fix m assume m: "m \<in> set (ch_messages (put_message ?t db1) @ appended_messages (put_message ?t db1) fr t actor (cv_id c) None (Some (m_id target)))"
      "m_id m = (case Some (m_id target) of None \<Rightarrow> cf_assistant_message_id fr | Some i \<Rightarrow> i)"
    then have "m \<in> set (ch_messages (put_message ?t db1))" "m_id m = m_id target" by (simp_all add: appended_messages_def)
    then have "m = ?t" by (auto elim: message_table.in_put_cases)
    then show "m_status m = MStreaming \<and> m_content m = text_json []" by simp
  qed simp_all
qed

lemma create_conversation_cases:
  assumes "create_conversation db fr t actor product key h = (res, db')"
  obtains "db' = db"
  | idem db1 p where "claim_idempotency db fr t actor CONVERSATION_CREATE key h = Inr (idem, True, db1)"
      "same_chat (db1\<lparr>ch_conversations := ch_conversations db1 @ [new_conversation fr t actor p]\<rparr>) db'"
      "chat_ok (db1\<lparr>ch_conversations := ch_conversations db1 @ [new_conversation fr t actor p]\<rparr>)" "ch_billing db' = ch_billing db"
proof (cases res)
  case (Inl e)
  then show thesis using assms that(1) unfolding create_conversation_def by (simp only: transaction_Inl_iff)
next
  case (Inr v)
  then obtain idem inserted db1 where c: "claim_idempotency db fr t actor CONVERSATION_CREATE key h = Inr (idem, inserted, db1)"
    using assms by (auto simp: create_conversation_def transaction_Inr_iff)
  note body = assms [unfolded Inr create_conversation_def transaction_Inr_iff c andthen.simps prod.case]
  show thesis
  proof (cases inserted)
    case False
    then have "db' = db" using body claim_idempotency_Inr(2) [OF c] by (auto split: option.splits)
    then show thesis by (rule that(1))
  next
    case True
    then have "\<exists>p. same_chat (db1\<lparr>ch_conversations := ch_conversations db1 @ [new_conversation fr t actor p]\<rparr>) db' \<and>
        chat_ok (db1\<lparr>ch_conversations := ch_conversations db1 @ [new_conversation fr t actor p]\<rparr>) \<and> ch_billing db' = ch_billing db1"
      using body by (auto simp: Let_def same_chat_def split: option.splits) blast
    moreover have "ch_billing db1 = ch_billing db" using claim_idempotency_Inr(1) [OF c True] by simp
    ultimately show thesis using c True that(2) by auto
  qed
qed

lemma create_conversation_inv:
  assumes inv: "chat_inv db"
  shows "chat_inv (snd (create_conversation db fr t actor key crid h))"
proof (cases rule: create_conversation_cases [OF prod.collapse [symmetric], of db fr t actor key crid h])
  case (2 idem db1 p)
  let ?db = "db1\<lparr>ch_conversations := ch_conversations db1 @ [new_conversation fr t actor p]\<rparr>"
  have inv1: "chat_inv db1" using same_chat_inv [OF claim_idempotency_chat [OF 2(1)]] inv by simp
  have "request_inv ?db x" if "x \<in> set (ch_requests db1)" for x
    by (rule request_inv_frame [OF chat_coreD(1) [OF chat_inv_core [OF inv1] that]]) (simp_all add: events_of_def)
  moreover have "conversation_inv ?db v" if "conversation_inv db1 v" for v using that by (simp add: conversation_inv_def)
  moreover have "conversation_inv ?db (new_conversation fr t actor p)" by (simp add: conversation_inv_def new_conversation_def)
  ultimately have "chat_inv ?db"
    using inv1 2(3) chat_ok_distinct [OF 2(3)] by (simp add: chat_inv_def chat_core_def list_all_iff)
  then show ?thesis using same_chat_inv [OF 2(2)] by simp
qed (use inv in simp)

subsection \<open>Stop\<close>

lemma owned_requests_mem:
  assumes "q \<in> set (owned_requests db t actor cid rid)"
  shows "q \<in> set (ch_requests db)" "q_tenant_id q = t" "q_actor_user_id q = Some actor" "q_conversation_id q = Some cid" "q_request_id q = rid"
  using assms by (auto simp: owned_requests_def)

lemma traverse_events:
  assumes "traverse stream_event_record es = Inr rs"
  shows "rs = map (\<lambda>e. \<lparr>se_sequence = e_sequence_no e, se_event = e_payload e\<rparr>) es"
  using assms by (induction es arbitrary: rs) (auto simp: stream_event_record_def)

text \<open>A log is in order already, so reading it by sequence number gives it back.\<close>

lemma sorted_log:
  assumes "log_ok q es"
  shows "sort_key e_sequence_no (filter (\<lambda>e. k < e_sequence_no e) es) = filter (\<lambda>e. k < e_sequence_no e) es"
proof -
  have "sorted (map e_sequence_no es)" using assms by (simp add: log_ok_def sorted_map_mono [of "[0..<length es]"] mono_on_def)
  then have "sorted (map e_sequence_no (filter (\<lambda>e. k < e_sequence_no e) es))" by (rule sorted_filter)
  then show ?thesis by (rule sort_key_id_if_sorted)
qed

lemma log_after_start:
  assumes "log_ok q es"
  shows "filter (\<lambda>e. -1 < e_sequence_no e) es = es"
proof (rule filter_True, rule ballI)
  fix e assume "e \<in> set es"
  then have "e_sequence_no e \<in> set (map int [0..<length es])" using assms by (metis image_eqI log_ok_def set_map)
  then show "-1 < e_sequence_no e" by auto
qed

lemma events_read:
  assumes "events_in_transaction db t actor cid rid k = Inr rs"
  obtains q where "owned_requests db t actor cid rid = [q]"
    "rs = map (\<lambda>e. \<lparr>se_sequence = e_sequence_no e, se_event = e_payload e\<rparr>) (sort_key e_sequence_no (filter (\<lambda>e. k < e_sequence_no e) (events_of db q)))"
proof -
  from assms obtain q where q: "owned_requests db t actor cid rid = [q]"
    and t: "traverse stream_event_record (sort_key e_sequence_no (filter (\<lambda>e. e_tenant_id e = t \<and>
       e_inference_request_id e = q_id q \<and> k < e_sequence_no e) (ch_events db))) = Inr rs"
    by (auto simp: events_in_transaction_def)
  have "q_tenant_id q = t" using q owned_requests_mem(2) [of q db t actor cid rid] by simp
  then have "filter (\<lambda>e. e_tenant_id e = t \<and> e_inference_request_id e = q_id q \<and> k < e_sequence_no e) (ch_events db) =
      filter (\<lambda>e. k < e_sequence_no e) (events_of db q)"
    by (auto simp: events_of_def intro: filter_cong)
  then show thesis using that [OF q] traverse_events [OF t] by simp
qed

lemma live_log_open:
  assumes "log_ok q es" and "in_flight q"
  shows "list_all (\<lambda>e. \<not> terminal_event e) es" "es \<noteq> []" "e_sequence_no (last es) = q_last_event_sequence q"
proof -
  have ne: "es \<noteq> []" using assms by (simp add: log_ok_def)
  have "list_all (\<lambda>e. \<not> terminal_event e) (butlast es)" "\<not> terminal_event (last es)" using assms by (simp_all add: log_ok_def)
  then have "list_all (\<lambda>e. \<not> terminal_event e) (butlast es @ [last es])" by simp
  then show "list_all (\<lambda>e. \<not> terminal_event e) es" by (simp only: append_butlast_last_id [OF ne])
  show "es \<noteq> []" by (rule ne)
  have "e_sequence_no (last es) = last (map e_sequence_no es)" using ne by (simp add: last_map)
  also have "\<dots> = last (map int [0..<length es])" using assms(1) by (simp add: log_ok_def)
  also have "\<dots> = q_last_event_sequence q" using assms(1) ne by (cases es) (simp_all add: log_ok_def last_map)
  finally show "e_sequence_no (last es) = q_last_event_sequence q" .
qed

lemma event_type_field:
  "event_shape q e \<Longrightarrow> map_of (e_payload e) ''type'' = Some (JStr (e_event_type e))"
  by (auto simp: event_shape_def event_fields_def)

lemma active_request_live:
  assumes "chat_inv db" and "c \<in> set (ch_conversations db)" "cv_active_inference_request_id c = Some (q_id q)" and "q \<in> set (ch_requests db)"
  shows "in_flight q" "active_in q c"
proof -
  obtain q2 where "q2 \<in> set (ch_requests db)" "q_id q2 = q_id q" "active_in q2 c" "in_flight q2"
    using active_live [OF chat_inv_core [OF assms(1)] assms(2,3)] .
  moreover from this have "q2 = q" using request_unique [of db q2 q] assms(1,4) by simp
  ultimately show "in_flight q" "active_in q c" by simp_all
qed

lemma clear_active_on_row_Inr:
  assumes "clear_active_on_row db t c i now = Inr db'" and "distinct (map cv_id (ch_conversations db))"
    and "c \<in> set (ch_conversations db)" "cv_tenant_id c = t" "cv_active_inference_request_id c = Some i"
  shows "db' = put_conversation (c\<lparr>cv_active_inference_request_id := None, cv_version := cv_version c + 1, cv_updated_at := now\<rparr>) db"
proof -
  let ?P = "\<lambda>x. cv_tenant_id x = t \<and> cv_id x = cv_id c \<and> cv_active_inference_request_id x = Some i \<and> cv_version x = cv_version c"
  have one: "x = c" if "x \<in> set (ch_conversations db)" "cv_id x = cv_id c" for x
    using distinct_key_inj [OF assms(2) that(1) assms(3)] that(2) by simp
  have "update_where ?P f (ch_conversations db) = update_where (\<lambda>x. cv_id x = cv_id c) (\<lambda>_. f c) (ch_conversations db)" for f
    unfolding update_where_def by (rule map_cong [OF refl]) (use one assms(4,5) in auto)
  then show ?thesis
    using assms(1) by (simp add: clear_active_on_row_def Let_def put_conversation_def)
qed

lemma stop_message_Inr:
  assumes "chat_inv db" and "q \<in> set (ch_requests db)" "in_flight q" "q_tenant_id q = t" and "stop_message db now q t = Inr db1"
  obtains m where "m \<in> set (ch_messages db)" "q_message_id q = Some (m_id m)" "db1 = put_message (m\<lparr>m_status := MStopped, m_updated_at := now\<rparr>) db"
proof -
  obtain m where m: "m \<in> set (ch_messages db)" "streaming_message db q m" using live_message [OF chat_inv_core [OF assms(1)] assms(2,3)] .
  have "filter (\<lambda>x. m_tenant_id x = t \<and> Some (m_id x) = q_message_id q \<and> Some (m_conversation_id x) = q_conversation_id q) (ch_messages db) =
      filter (\<lambda>x. m_id x = m_id m \<and> m_tenant_id x = t \<and> Some (m_conversation_id x) = q_conversation_id q) (ch_messages db)"
    using m(2) by (intro filter_cong) (auto simp: streaming_message_def)
  also have "\<dots> = [m]"
    by (rule distinct_key_filter_singleton) (use assms m chat_ok_distinct(3) [OF chat_inv_ok [OF assms(1)]] in \<open>auto simp: streaming_message_def\<close>)
  finally show thesis
    using that [OF m(1)] assms(5) m(2) by (simp add: stop_message_def streaming_message_def)
qed

text \<open>The terminal event of a queued request takes the next number of its log.\<close>

lemma append_terminal_event_Inr:
  assumes inv: "chat_inv db" and q: "q \<in> set (ch_requests db)" "in_flight q" "q_conversation_id q = Some cid"
    and q': "same_request q q'" "q_last_event_sequence q' = q_last_event_sequence q" "q_id q' = q_id q"
    and dbx: "ch_requests dbx = ch_requests (put_request q' db)" "ch_conversations dbx = ch_conversations db" "ch_events dbx = ch_events db"
    and res: "append_terminal_event dbx fr t actor q' ''stopped'' = Inr (n, db')"
  obtains e where "db' = add_event e (put_request (q'\<lparr>q_last_event_sequence := q_last_event_sequence q + 1\<rparr>) dbx)" "n = q_last_event_sequence q + 1"
    "e_tenant_id e = q_tenant_id q" "e_inference_request_id e = q_id q" "e_sequence_no e = q_last_event_sequence q + 1"
    "event_shape q e" "terminal_event e"
proof -
  have log: "log_ok q (events_of db q)" using chat_coreD(2) [OF chat_inv_core [OF inv] q(1)] .
  note open_log = live_log_open [OF log q(2)]
  obtain mid where mid: "q_message_id q = Some mid"
    using log by (cases "events_of db q") (auto simp: log_ok_def event_shape_def)
  have conv: "q_conversation_id q' = Some cid" "q_request_id q' = q_request_id q" "q_message_id q' = Some mid" "q_tenant_id q' = q_tenant_id q"
    using q' q(3) mid by (simp_all add: same_request_def)
  from res obtain rows where rows: "events_in_transaction dbx t actor cid (q_request_id q) (-1) = Inr rows"
    by (auto simp: append_terminal_event_def conv)
  then obtain qx where qx: "owned_requests dbx t actor cid (q_request_id q) = [qx]"
    and rs: "rows = map (\<lambda>e. \<lparr>se_sequence = e_sequence_no e, se_event = e_payload e\<rparr>)
      (sort_key e_sequence_no (filter (\<lambda>e. -1 < e_sequence_no e) (events_of dbx qx)))" by (rule events_read)
  have "map q_request_id (ch_requests dbx) = map q_request_id (ch_requests db)"
    unfolding dbx(1) by (rule request_table.map_put) (use request_unique [of db _ q] inv q(1) q'(3) conv(2) in auto)
  then have "distinct (map q_request_id (ch_requests dbx))" using chat_ok_distinct(4) [OF chat_inv_ok [OF inv]] by simp
  moreover have "qx \<in> set (ch_requests dbx)" "q_request_id qx = q_request_id q'" using owned_requests_mem [of qx dbx t actor cid "q_request_id q"] qx conv(2) by simp_all
  moreover have "q' \<in> set (ch_requests dbx)" using request_put(1) [OF q(1) q'(3)] dbx(1) by simp
  ultimately have "qx = q'" using distinct_key_inj by metis
  then have ev: "events_of dbx qx = events_of db q" using dbx(3) q'(3) conv(4) by (simp add: events_of_def)
  have rs': "rows = map (\<lambda>e. \<lparr>se_sequence = e_sequence_no e, se_event = e_payload e\<rparr>) (events_of db q)"
    using rs sorted_log [OF log, of "-1"] by (simp add: ev log_after_start [OF log])
  have shapes: "list_all (event_shape q) (events_of db q)" using log by (simp add: log_ok_def)
  have "\<not> list_ex (\<lambda>r. case map_of (se_event r) ''type'' of Some (JStr ty) \<Rightarrow> ty \<in> set TERMINAL_EVENTS | _ \<Rightarrow> False) rows"
    using open_log(1) shapes event_type_field by (auto simp: rs' list_ex_iff list_all_iff terminal_event_def)
  moreover have "rows \<noteq> []" "se_sequence (last rows) = q_last_event_sequence q"
    using open_log(2,3) by (simp_all add: rs' last_map)
  ultimately have db': "db' = add_event (event_row (cf_event_id fr) q' (q_last_event_sequence q + 1) ''stopped''
      (event_fields ''stopped'' (q_request_id q) cid mid (q_last_event_sequence q + 1)) (cf_now fr))
      (put_request (q'\<lparr>q_last_event_sequence := q_last_event_sequence q + 1\<rparr>) dbx)" and n: "n = q_last_event_sequence q + 1"
    using res rows by (auto simp: append_terminal_event_def conv Let_def append_event_def event_fields_def)
  show thesis
    by (rule that [OF db' n]) (use q(3) mid q'(3) conv in \<open>auto simp: event_row_def event_shape_def payload_tail_def terminal_event_def\<close>)
qed

lemma stop_queued_write:
  assumes inv: "chat_inv db" and q: "q \<in> set (ch_requests db)" "q_status q = IQueued" "q_tenant_id q = t" "q_conversation_id q = Some (cv_id c)"
    and c: "c \<in> set (ch_conversations db)" "cv_tenant_id c = t" "cv_active_inference_request_id c = Some (q_id q)"
    and db1: "stop_message db now q t = Inr db1"
    and db2: "append_terminal_event (put_request (stop_queued now q) db1) fr t actor (stop_queued now q) ''stopped'' = Inr (n, db2)"
    and db3: "clear_active_on_row db2 t c (q_id q) now = Inr db3" and ok: "chat_ok db3"
  shows "chat_inv db3" "n = q_last_event_sequence q + 1"
    "\<exists>e m. same_chat (add_event e (put_conversation (c\<lparr>cv_active_inference_request_id := None, cv_version := cv_version c + 1, cv_updated_at := now\<rparr>)
       (put_message m (put_request ((stop_queued now q)\<lparr>q_last_event_sequence := q_last_event_sequence q + 1\<rparr>) db)))) db3"
proof -
  have live: "in_flight q" using q(2) by (simp add: in_flight_def)
  have act: "active_in q c" using c q by (simp add: active_in_def)
  obtain m where m: "m \<in> set (ch_messages db)" "q_message_id q = Some (m_id m)"
    "db1 = put_message (m\<lparr>m_status := MStopped, m_updated_at := now\<rparr>) db" using stop_message_Inr [OF inv q(1) live q(3) db1] .
  let ?q = "stop_queued now q" and ?n = "q_last_event_sequence q + 1" and ?m = "m\<lparr>m_status := MStopped, m_updated_at := now\<rparr>"
  let ?c = "c\<lparr>cv_active_inference_request_id := None, cv_version := cv_version c + 1, cv_updated_at := now\<rparr>"
  let ?q2 = "?q\<lparr>q_last_event_sequence := ?n\<rparr>"
  have same: "same_request q ?q" "same_request q ?q2" by (simp_all add: same_request_def stop_queued_def)
  obtain e where e: "db2 = add_event e (put_request ?q2 (put_request ?q db1))" and n: "n = ?n"
    and es: "e_tenant_id e = q_tenant_id q" "e_inference_request_id e = q_id q" "e_sequence_no e = ?n" "event_shape q e" "terminal_event e"
    by (rule append_terminal_event_Inr [OF inv q(1) live q(4) same(1) _ _ _ _ _ db2]) (simp_all add: stop_queued_def m(3) put_request_def)
  have "db3 = put_conversation ?c db2"
    by (rule clear_active_on_row_Inr [OF db3]) (use c chat_ok_distinct(2) [OF chat_inv_ok [OF inv]] in \<open>simp_all add: e m(3)\<close>)
  then have same3: "same_chat (add_event e (put_conversation ?c (put_message ?m (put_request ?q2 db)))) db3"
    by (auto simp: same_chat_def e m(3) put_conversation_def put_message_def put_request_def update_where_def stop_queued_def add_event_def)
  have "chat_core (add_event e (put_conversation ?c (put_message ?m (put_request ?q2 db))))"
    by (rule terminal_write [OF chat_inv_core [OF inv] q(1) live same(2) _ _ m(1,2) _ c(1) act _ _ es refl])
      (simp_all add: stop_queued_def in_flight_def)
  then show "chat_inv db3" using same_chat_core [OF same3] ok by (simp add: chat_inv_def)
  show "n = ?n" by (rule n)
  show "\<exists>e m. same_chat (add_event e (put_conversation ?c (put_message m (put_request ?q2 db)))) db3" using same3 by blast
qed

lemma stop_cases:
  assumes inv: "chat_inv db" and res: "stop db fr t actor cid rid = (Inr r, db')"
  obtains q where "db' = db" "q \<in> set (ch_requests db)" "q_tenant_id q = t" "q_request_id q = rid" "\<not> in_flight q" "\<not> sr_changed r"
  | q c db1 db2 n where "q \<in> set (ch_requests db)" "q_status q = IQueued" "q_tenant_id q = t" "q_request_id q = rid" "q_conversation_id q = Some (cv_id c)"
      "c \<in> set (ch_conversations db)" "cv_tenant_id c = t" "cv_active_inference_request_id c = Some (q_id q)"
      "stop_message db (cf_now fr) q t = Inr db1"
      "append_terminal_event (put_request (stop_queued (cf_now fr) q) db1) fr t actor (stop_queued (cf_now fr) q) ''stopped'' = Inr (n, db2)"
      "clear_active_on_row db2 t c (q_id q) (cf_now fr) = Inr db'" "chat_ok db'" "r = stop_result rid IStopped True n"
  | q where "q \<in> set (ch_requests db)" "q_status q \<in> set RUNNING_STATUSES" "q_tenant_id q = t" "q_request_id q = rid"
      "db' = put_request (q\<lparr>q_status := IStopRequested, q_cancel_requested_at := Some (cf_now fr), q_updated_at := cf_now fr\<rparr>) db" "chat_ok db'"
      "r = stop_result rid IStopRequested True (q_last_event_sequence q)"
proof -
  obtain c where c: "lock_conversation db t actor cid = Some c"
    using res by (auto simp: stop_def transaction_Inr_iff split: option.splits)
  note cs = lock_conversation_Some [OF c]
  let ?rows = "filter (\<lambda>q. q_tenant_id q = t \<and> q_actor_user_id q = Some actor \<and> q_conversation_id q = Some cid \<and> q_request_id q = rid) (ch_requests db)"
  obtain q where f: "?rows = [q]"
    using res by (auto simp: stop_def transaction_Inr_iff c)
  note q = filter_singletonD [OF f]
  note body = res [unfolded stop_def transaction_Inr_iff c option.case f scalar_one_or_none.simps or_raise.simps andthen.simps]
  show thesis
  proof (cases "q_status q \<in> set TERMINAL_REQUEST_STATUSES")
    case True
    then have nl: "\<not> in_flight q" by (auto simp: in_flight_def)
    then have "cv_active_inference_request_id c \<noteq> Some (q_id q)" using active_request_live(1) [OF inv cs(1)] q by blast
    then show thesis using that(1) q nl True body by (auto simp: stop_result_def)
  next
    case False
    then have act: "cv_active_inference_request_id c = Some (q_id q)" using body by (auto split: if_splits)
    have live: "in_flight q" using active_request_live(1) [OF inv cs(1) act] q by simp
    show thesis
    proof (cases "q_status q = IQueued")
      case True
      then show thesis using that(2) [of q c] q cs act False body by auto
    next
      case queued: False
      then have st: "q_status q \<in> set RUNNING_STATUSES" using live by (auto simp: in_flight_def)
      then show thesis using that(3) [of q] q act False queued body by auto
    qed
  qed
qed

lemma stop_inv:
  assumes inv: "chat_inv db"
  shows "chat_inv (snd (stop db fr t actor cid rid))"
proof (cases "stop db fr t actor cid rid")
  case (Pair res db')
  show ?thesis
  proof (cases res)
    case (Inl e)
    then have "db' = db" using Pair unfolding stop_def by (simp only: transaction_Inl_iff)
    then show ?thesis using inv Pair by simp
  next
    case (Inr r)
    with Pair have sres: "stop db fr t actor cid rid = (Inr r, db')" by simp
    have "chat_inv db'"
      using inv sres
    proof (cases rule: stop_cases)
      case 2
      show ?thesis by (rule stop_queued_write(1) [OF inv 2(1-3,5-12)])
    next
      case (3 q)
      show ?thesis
        unfolding 3(5)
        by (rule status_write [OF inv 3(1)]) (use 3 in \<open>auto simp: same_request_def in_flight_def\<close>)
    qed (use inv in simp)
    then show ?thesis using Pair by simp
  qed
qed

subsection \<open>Settlement\<close>

lemma chat_billing_fields [simp]:
  "wallets (chat_billing db) = wallets (ch_billing db)" "reservations (chat_billing db) = reservations (ch_billing db)"
  "ledger (chat_billing db) = ledger (ch_billing db)" "usage_records (chat_billing db) = usage_records (ch_billing db)"
  "price_versions (chat_billing db) = price_versions (ch_billing db)"
  by (simp_all add: chat_billing_def)

lemma chat_billing_inv [simp]: "billing_inv (chat_billing db) = billing_inv (ch_billing db)"
  by (rule billing_inv_view) simp_all

definition chat_frame ::
  "chat_db \<Rightarrow> InferenceRequest list \<times> Conversation list \<times> Message list \<times> ChatEvent list \<times> (string \<times> json) list IdempotencyRecord list \<times> OutboxRow list \<times> catalog_db" where
  "chat_frame db = (ch_requests db, ch_conversations db, ch_messages db, ch_events db, ch_idempotency db, ch_outbox db, ch_catalog db)"

lemma chat_capture_books: "billing_inv (ch_billing db) \<Longrightarrow> billing_inv (ch_billing (snd (chat_capture db lid1 lid2 now t rid usage)))"
  using capture_inv [of "chat_billing db" lid1 lid2 now t rid None usage] by (simp add: chat_capture_def case_prod_unfold)

lemma chat_release_books: "billing_inv (ch_billing db) \<Longrightarrow> billing_inv (ch_billing (snd (chat_release db lid now t rid)))"
  using release_inv [of "chat_billing db" lid now t rid] by (simp add: chat_release_def case_prod_unfold)

lemma chat_capture_frame: "chat_frame (snd (chat_capture db lid1 lid2 now t rid usage)) = chat_frame db"
  and chat_release_frame: "chat_frame (snd (chat_release db lid now t rid)) = chat_frame db"
  by (simp_all add: chat_capture_def chat_release_def chat_frame_def case_prod_unfold)

interpretation chat_settlement: settlement_port chat_capture chat_release "\<lambda>db. billing_inv (ch_billing db)" chat_frame
  by unfold_locales (simp_all add: chat_capture_books chat_release_books chat_capture_frame chat_release_frame)

lemma chat_capture_settles:
  "capture_or_release_expired (chat_capture db lid1 lid2 now t rid None) (\<lambda>d. chat_release d lid3 now t rid) =
     chat_settlement.settle db lid1 lid2 lid3 now t rid"
  by (cases "chat_capture db lid1 lid2 now t rid None"; cases "fst (chat_capture db lid1 lid2 now t rid None)")
    (auto simp: chat_settlement.settle_def split: prod.splits sum.splits)

lemma chat_settle_row_books:
  "chat_frame (snd (chat_settle_row db ids n now row)) = chat_frame db"
  "billing_inv (ch_billing db) \<Longrightarrow> billing_inv (ch_billing (snd (chat_settle_row db ids n now row)))"
  using chat_settlement.settle_frame [of db "ids n" "ids (n + 1)" "ids (n + 2)" now "cs_tenant_id row" "cs_reservation_id row"]
    chat_settlement.settle_inv [of db "ids n" "ids (n + 1)" "ids (n + 2)" now "cs_tenant_id row" "cs_reservation_id row"]
    chat_release_frame [of db "ids (n + 2)" now "cs_tenant_id row" "cs_reservation_id row"]
    chat_release_books [of db "ids (n + 2)" now "cs_tenant_id row" "cs_reservation_id row"]
  by (auto simp: chat_settle_row_def Let_def chat_capture_settles split: prod.splits sum.splits)

lemma chat_settle_rows_books:
  "chat_frame (snd (chat_settle_rows ids now n rows k db)) = chat_frame db"
  "billing_inv (ch_billing db) \<Longrightarrow> billing_inv (ch_billing (snd (chat_settle_rows ids now n rows k db)))"
proof (induction ids now n rows k db rule: chat_settle_rows.induct)
  case (2 ids now n row rows repaired db)
  { case 1 show ?case
      using 2 chat_settle_row_books(1) [of db ids n now row] by (auto split: prod.splits sum.splits)
  next
    case 2 then show ?case
      using "2.IH" chat_settle_row_books(2) [of db ids n now row] by (auto split: prod.splits sum.splits) }
qed simp_all

subsection \<open>Steps and runs\<close>

text \<open>
  A failure or an unknown outcome is reported under a public error code, as the worker's \<open>_safe_error_code\<close>
  gives it. \<open>elsewhere\<close> is any transaction of another component: it leaves the chat tables alone and keeps the books.
\<close>

inductive chat_step :: "chat_db \<Rightarrow> chat_db \<Rightarrow> bool" where
  created: "chat_step db (snd (create_conversation db fr t actor product key h))"
| submitted: "chat_step db (snd (submit db fr t actor cid content key h))"
| regenerated: "chat_step db (snd (regenerate db fr t actor cid mid key h))"
| stopped: "chat_step db (snd (stop db fr t actor cid rid))"
| claimed: "chat_step db (snd (claim_queued db now locked token worker n tenant request))"
| requeued: "chat_step db (snd (requeue_claimed db now x))"
| checked: "chat_step db (snd (check_lease_and_stop db now n x))"
| appended: "chat_step db (snd (append_delta db now seen n eid x k delta pid))"
| completed: "chat_step db (snd (mark_completed db now seen eid uid x k content pid usage))"
| stop_marked: "chat_step db (snd (mark_stopped db now seen eid x k content))"
| failed: "is_public_code code \<Longrightarrow> chat_step db (snd (mark_failed db now seen eid x k code details pid))"
| unknown: "is_public_code code \<Longrightarrow> chat_step db (snd (mark_submitted_unknown db now seen eid x pid code))"
| reconciled: "chat_step db (snd (reconcile_expired_once db now locked fresh n))"
| captured: "chat_step db (snd (chat_capture db lid1 lid2 now t rid usage))"
| released: "chat_step db (snd (chat_release db lid now t rid))"
| elsewhere: "same_chat db db' \<Longrightarrow> (billing_inv (ch_billing db) \<Longrightarrow> billing_inv (ch_billing db')) \<Longrightarrow> chat_step db db'"

abbreviation chat_run :: "chat_db \<Rightarrow> chat_db \<Rightarrow> bool" where
  "chat_run \<equiv> chat_step\<^sup>*\<^sup>*"

inductive_cases chat_stepE: "chat_step db db'"

lemma frame_same_chat: "chat_frame db' = chat_frame db \<Longrightarrow> same_chat db db'"
  by (simp add: chat_frame_def same_chat_def)

lemma chat_step_inv: "chat_step db db' \<Longrightarrow> chat_inv db \<Longrightarrow> chat_inv db'"
proof (induction rule: chat_step.induct)
  case (captured db lid1 lid2 now t rid usage)
  then show ?case using same_chat_inv [OF frame_same_chat [OF chat_capture_frame]] by simp
next
  case (released db lid now t rid)
  then show ?case using same_chat_inv [OF frame_same_chat [OF chat_release_frame]] by simp
next
  case (elsewhere db db')
  then show ?case using same_chat_inv by simp
qed (simp_all add: create_conversation_inv submit_inv regenerate_inv stop_inv claim_queued_inv requeue_claimed_inv check_lease_inv
    append_delta_inv mark_completed_inv marks_inv reconcile_expired_inv)

lemma chat_run_inv: "chat_run db db' \<Longrightarrow> chat_inv db \<Longrightarrow> chat_inv db'"
  by (induction rule: rtranclp_induct) (auto intro: chat_step_inv)

subsection \<open>The books over chat steps\<close>

lemma append_request_books:
  assumes "append_request_transaction db fr t actor c dep content am h parent = Inr (r, db')" and "billing_inv (ch_billing db)"
  shows "billing_inv (ch_billing db')"
proof -
  from assms(1) obtain decision :: AcceptedDecisionSnapshot and reservation billing and q :: InferenceRequest where
    "\<exists>db2. ch_billing db2 = ch_billing db \<and> reserve_in_transaction (chat_billing db2) (chat_billing db2) (chat_billing db2)
       (cf_reservation_id fr) (cf_ledger_id fr) (cf_now fr) t ''chat_inference'' (q_id q) (ad_price decision)
       (Aware (cf_now fr + seconds (15 * 60))) = Inr (reservation, billing)" "ch_billing db' = billing"
    by (rule append_request_Inr)
  then obtain db2 where "ch_billing db2 = ch_billing db" "reserve_in_transaction (chat_billing db2) (chat_billing db2) (chat_billing db2)
       (cf_reservation_id fr) (cf_ledger_id fr) (cf_now fr) t ''chat_inference'' (q_id q) (ad_price decision)
       (Aware (cf_now fr + seconds (15 * 60))) = Inr (reservation, ch_billing db')" by blast
  then show ?thesis using reserve_in_transaction_inv [of "chat_billing db2"] assms(2) chat_billing_inv [of db2] by metis
qed

lemma with_idle_books:
  assumes "billing_inv (ch_billing db)" and "\<And>db1 c r db2. body db1 c = Inr (r, db2) \<Longrightarrow> billing_inv (ch_billing db1) \<Longrightarrow> billing_inv (ch_billing db2)"
  shows "billing_inv (ch_billing (snd (with_idle_conversation db fr t actor op cid key h body)))"
proof (cases "with_idle_conversation db fr t actor op cid key h body")
  case (Pair res db')
  show ?thesis
  proof (cases res)
    case (Inl e)
    then have "db' = db" using Pair unfolding with_idle_conversation_def by (simp only: transaction_Inl_iff)
    then show ?thesis using Pair assms by simp
  next
    case (Inr a)
    with Pair have "with_idle_conversation db fr t actor op cid key h body = (Inr a, db')" by simp
    then show ?thesis
    proof (cases rule: with_idle_Inr)
      case 1
      then show ?thesis using Pair assms by simp
    next
      case (2 idem db1 c r db2)
      have "ch_billing db1 = ch_billing db" using claim_idempotency_Inr(1) [OF 2(1)] by simp
      then show ?thesis using assms(2) [OF 2(4)] assms(1) Pair by (simp add: 2(6))
    qed
  qed
qed

lemma acceptance_books:
  assumes "billing_inv (ch_billing db)"
  shows "billing_inv (ch_billing (snd (submit db fr t actor cid content key h)))"
    and "billing_inv (ch_billing (snd (regenerate db fr t actor cid mid key h)))"
  unfolding submit_def regenerate_def
  by (rule with_idle_books [OF assms]; auto dest!: append_request_books)+

lemma mark_completed_books:
  assumes "billing_inv (ch_billing db)"
  shows "billing_inv (ch_billing (snd (mark_completed db now seen eid uid x k content pid usage)))"
proof (cases "mark_completed db now seen eid uid x k content pid usage")
  case (Pair res db')
  show ?thesis
  proof (cases "res = Inr True")
    case True
    with Pair have "mark_completed db now seen eid uid x k content pid usage = (Inr True, db')" by simp
    then obtain q m c' rows where "db' = (completed_db db now eid x k content pid (cu_usage usage) q m c')
       \<lparr>ch_billing := (ch_billing db)\<lparr>usage_records := usage_records (ch_billing db) @ rows\<rparr>\<rparr>" "constraints_ok (ch_billing db')"
      by (rule mark_completed_True)
    then show ?thesis
      using billing_inv_usage [of "ch_billing db" "ch_billing db'"] assms Pair by simp
  next
    case False
    then show ?thesis using mark_completed_other [OF Pair] assms Pair by simp
  qed
qed

text \<open>Every other operation of the two repositories leaves the wallet tables alone.\<close>

lemma lease_billing:
  "ch_billing (snd (claim_queued db now locked token w n tenant request)) = ch_billing db"
  "ch_billing (snd (requeue_claimed db now x)) = ch_billing db"
  "ch_billing (snd (check_lease_and_stop db now n x)) = ch_billing db"
proof -
  show "ch_billing (snd (claim_queued db now locked token w n tenant request)) = ch_billing db"
    by (rule claim_queued_cases [OF prod.collapse [symmetric], of db now locked token w n tenant request]) simp_all
  show "ch_billing (snd (requeue_claimed db now x)) = ch_billing db"
    by (rule requeue_claimed_cases [of db now x]) simp_all
  show "ch_billing (snd (check_lease_and_stop db now n x)) = ch_billing db"
    by (rule check_lease_cases [OF prod.collapse [symmetric], of db now n x]) simp_all
qed

lemma append_delta_billing: "ch_billing (snd (append_delta db now seen n eid x k d pid)) = ch_billing db"
proof (cases "\<exists>r. fst (append_delta db now seen n eid x k d pid) = Inr (Some r)")
  case True
  then obtain r db' where res: "append_delta db now seen n eid x k d pid = (Inr (Some r), db')" by (metis prod.collapse)
  then show ?thesis by (cases rule: append_delta_Some) (simp add: res)
next
  case False
  then show ?thesis using append_delta_other [of db now seen n eid x k d pid] by (metis prod.collapse)
qed

lemma terminal_billing:
  "ch_billing (snd (terminal_without_usage db now seen eid x k content ty rs ms code details pid statuses reason)) = ch_billing db"
proof (cases "terminal_without_usage db now seen eid x k content ty rs ms code details pid statuses reason")
  case (Pair res db')
  show ?thesis
  proof (cases "db' = db")
    case False
    then obtain b where "res = Inr b" using Pair by (cases res) (auto simp: terminal_without_usage_def transaction_Inl_iff)
    with Pair disjI1 [OF False] show ?thesis by (auto elim: terminal_without_usage_Inr)
  qed (use Pair in simp)
qed

lemma reconcile_expired_billing:
  assumes "chat_inv db"
  shows "ch_billing (snd (reconcile_expired_once db now locked fresh n)) = ch_billing db"
proof -
  have row: "ch_billing d1 = ch_billing d" if "reconcile_row now fresh q (k, d) = Inr (k1, d1)" for q k d k1 d1
    using that by (cases rule: reconcile_row_cases) simp_all
  show ?thesis
    by (rule conjunct2 [OF reconcile_expired_induct [OF assms, where R = "\<lambda>d d'. ch_billing d' = ch_billing d"]])
      (erule row, simp_all)
qed

lemma create_conversation_billing: "ch_billing (snd (create_conversation db fr t actor product key h)) = ch_billing db"
  by (rule create_conversation_cases [OF prod.collapse [symmetric], of db fr t actor product key h]) simp_all

lemma stop_billing:
  assumes "chat_inv db"
  shows "ch_billing (snd (stop db fr t actor cid rid)) = ch_billing db"
proof (cases "stop db fr t actor cid rid")
  case (Pair res db')
  show ?thesis
  proof (cases res)
    case (Inl e)
    then have "db' = db" using Pair unfolding stop_def by (simp only: transaction_Inl_iff)
    then show ?thesis using Pair by simp
  next
    case (Inr r)
    with Pair have "stop db fr t actor cid rid = (Inr r, db')" by simp
    with assms show ?thesis
    proof (cases rule: stop_cases)
      case (2 q c db1 db2 n)
      have "in_flight q" using 2(2) by (simp add: in_flight_def)
      then obtain m where "db1 = put_message (m\<lparr>m_status := MStopped, m_updated_at := cf_now fr\<rparr>) db"
        by (rule stop_message_Inr [OF assms 2(1) _ 2(3,9)])
      moreover have "ch_billing db2 = ch_billing db1"
        using 2(10) by (auto simp: append_terminal_event_def append_event_def Let_def split: option.splits if_splits)
      moreover have "ch_billing db' = ch_billing db2" using 2(11) by (auto simp: clear_active_on_row_def Let_def)
      ultimately show ?thesis using Pair by simp
    qed (use Pair in simp_all)
  qed
qed

lemma chat_step_books:
  "chat_step db db' \<Longrightarrow> chat_inv db \<Longrightarrow> billing_inv (ch_billing db) \<Longrightarrow> billing_inv (ch_billing db')"
  by (induction rule: chat_step.induct)
    (simp_all add: create_conversation_billing acceptance_books stop_billing lease_billing append_delta_billing mark_completed_books
      mark_stopped_def mark_failed_def mark_submitted_unknown_def terminal_billing reconcile_expired_billing chat_capture_books chat_release_books)

lemma chat_run_books:
  "chat_run db db' \<Longrightarrow> chat_inv db \<Longrightarrow> billing_inv (ch_billing db) \<Longrightarrow> chat_inv db' \<and> billing_inv (ch_billing db')"
  by (induction rule: rtranclp_induct) (auto intro: chat_step_inv chat_step_books)

end
