(* ===== verification/Chat_History.thy ===== *)
theory Chat_History
  imports Chat_Steps "HOL-Library.Sublist"
begin

text \<open>
  What no step takes back: events are only appended, requests and conversations are never removed and keep
  their identity, and the row of a request that is no longer live is never written again.
\<close>

definition keeps_request :: "InferenceRequest \<Rightarrow> InferenceRequest \<Rightarrow> bool" where
  "keeps_request q q' \<longleftrightarrow>
     same_request q q' \<and> q_actor_user_id q' = q_actor_user_id q \<and> q_billing_reservation_id q' = q_billing_reservation_id q \<and>
     q_accepted_price_version_id q' = q_accepted_price_version_id q \<and> (in_flight q \<or> q' = q)"

definition keeps_conversation :: "Conversation \<Rightarrow> Conversation \<Rightarrow> bool" where
  "keeps_conversation c c' \<longleftrightarrow>
     cv_id c' = cv_id c \<and> cv_tenant_id c' = cv_tenant_id c \<and> cv_created_by_user_id c' = cv_created_by_user_id c \<and>
     cv_product_model_id c' = cv_product_model_id c"

definition chat_moved :: "chat_db \<Rightarrow> chat_db \<Rightarrow> bool" where
  "chat_moved db db' \<longleftrightarrow>
     prefix (ch_events db) (ch_events db') \<and>
     (\<forall>q \<in> set (ch_requests db). \<exists>q' \<in> set (ch_requests db'). keeps_request q q') \<and>
     (\<forall>c \<in> set (ch_conversations db). \<exists>c' \<in> set (ch_conversations db'). keeps_conversation c c')"

lemma keeps_request_refl [simp, intro]: "keeps_request q q"
  by (simp add: keeps_request_def same_request_def)

lemma keeps_conversation_refl [simp, intro]: "keeps_conversation c c"
  by (simp add: keeps_conversation_def)

lemma chat_moved_refl [simp]: "chat_moved db db"
  by (auto simp: chat_moved_def)

lemma keeps_request_trans: "keeps_request q1 q2 \<Longrightarrow> keeps_request q2 q3 \<Longrightarrow> keeps_request q1 q3"
  by (auto simp: keeps_request_def same_request_def)

lemma keeps_conversation_trans: "keeps_conversation c1 c2 \<Longrightarrow> keeps_conversation c2 c3 \<Longrightarrow> keeps_conversation c1 c3"
  by (simp add: keeps_conversation_def)

lemma chat_moved_trans:
  assumes "chat_moved db1 db2" and "chat_moved db2 db3"
  shows "chat_moved db1 db3"
  using assms prefix_order.trans keeps_request_trans keeps_conversation_trans unfolding chat_moved_def by meson

lemma same_chat_moved: "same_chat db db' \<Longrightarrow> chat_moved db db'"
  by (auto simp: chat_moved_def same_chat_def)

subsection \<open>Writes\<close>

lemma put_request_moved:
  assumes "distinct (map q_id (ch_requests db))" and "q \<in> set (ch_requests db)" and "keeps_request q q'"
  shows "chat_moved db (put_request q' db)"
proof -
  have id: "q_id q' = q_id q" using assms(3) by (simp add: keeps_request_def same_request_def)
  have "\<exists>x' \<in> set (ch_requests (put_request q' db)). keeps_request x x'" if "x \<in> set (ch_requests db)" for x
  proof (cases "q_id x = q_id q")
    case True
    then have "x = q" using distinct_key_inj [OF assms(1) that assms(2)] by simp
    then show ?thesis using request_put(1) [OF assms(2) id] assms(3) by blast
  qed (use request_put(2) [OF assms(2) id that] in auto)
  then show ?thesis by (auto simp: chat_moved_def)
qed

lemma put_conversation_moved:
  assumes "distinct (map cv_id (ch_conversations db))" and "c \<in> set (ch_conversations db)" and "keeps_conversation c c'"
  shows "chat_moved db (put_conversation c' db)"
proof -
  have id: "cv_id c' = cv_id c" using assms(3) by (simp add: keeps_conversation_def)
  have "\<exists>x' \<in> set (ch_conversations (put_conversation c' db)). keeps_conversation x x'" if "x \<in> set (ch_conversations db)" for x
  proof (cases "cv_id x = cv_id c")
    case True
    then have "x = c" using distinct_key_inj [OF assms(1) that assms(2)] by simp
    then show ?thesis using conversation_put(1) [OF assms(2) id] assms(3) by blast
  qed (use conversation_put(2) [OF assms(2) id that] in auto)
  then show ?thesis by (auto simp: chat_moved_def)
qed

lemma terminal_moved:
  assumes "chat_core db" and "q \<in> set (ch_requests db)" "keeps_request q q'" and "c \<in> set (ch_conversations db)" "keeps_conversation c c'"
    and "same_chat (add_event e (put_conversation c' (put_message m' (put_request q' db)))) db'"
  shows "chat_moved db db'"
proof -
  have 1: "chat_moved db (put_request q' db)" using assms(1-3) by (intro put_request_moved) (auto simp: chat_core_def)
  have 2: "chat_moved (put_request q' db) (put_conversation c' (put_request q' db))"
    using assms(1,4,5) by (intro put_conversation_moved) (auto simp: chat_core_def)
  have 3: "chat_moved (put_conversation c' (put_request q' db)) db'"
    using assms(6) by (auto simp: chat_moved_def same_chat_def put_conversation_def)
  show ?thesis using 1 2 3 chat_moved_trans by blast
qed

lemma clear_active_keeps: "clear_active c i now = Inr c' \<Longrightarrow> keeps_conversation c c'"
  by (auto simp: clear_active_def keeps_conversation_def)

subsection \<open>Steps\<close>

lemma lease_moved:
  assumes "chat_inv db"
  shows "chat_moved db (snd (claim_queued db now locked token w n tenant request))"
    and "chat_moved db (snd (requeue_claimed db now x))"
    and "chat_moved db (snd (check_lease_and_stop db now n x))"
proof -
  note put = put_request_moved [OF chat_ok_distinct(1) [OF chat_inv_ok [OF assms]]]
  show "chat_moved db (snd (claim_queued db now locked token w n tenant request))"
  proof (cases rule: claim_queued_cases [OF prod.collapse [symmetric], of db now locked token w n tenant request])
    case (2 q c p d)
    note q = claim_query_mem [OF first_row_mem [OF 2(1)]]
    show ?thesis unfolding 2(2)
      by (rule put [OF q(1)]) (use q in \<open>simp add: keeps_request_def same_request_def claim_request_def in_flight_def\<close>)
  qed simp
  show "chat_moved db (snd (requeue_claimed db now x))"
  proof (cases rule: requeue_claimed_cases [of db now x])
    case (2 q)
    show ?thesis unfolding 2(6)
      by (rule put [OF 2(1)]) (use 2 in \<open>simp add: keeps_request_def same_request_def requeue_request_def in_flight_def\<close>)
  qed simp
  show "chat_moved db (snd (check_lease_and_stop db now n x))"
  proof (cases rule: check_lease_cases [OF prod.collapse [symmetric], of db now n x])
    case (2 q)
    show ?thesis unfolding 2(4)
      by (rule put [OF locked_request_Some(1) [OF 2(1)]])
        (use 2(2) in \<open>auto simp: keeps_request_def same_request_def extend_lease_def in_flight_def\<close>)
  qed simp
qed

lemma append_delta_moved:
  assumes "chat_inv db"
  shows "chat_moved db (snd (append_delta db now seen n eid x k d pid))"
proof (cases "\<exists>r. fst (append_delta db now seen n eid x k d pid) = Inr (Some r)")
  case True
  then obtain r db' where res: "append_delta db now seen n eid x k d pid = (Inr (Some r), db')" by (metis prod.collapse)
  then show ?thesis
  proof (cases rule: append_delta_Some)
    case (1 q m)
    note qs = locked_writable_Some [OF 1(1)]
    have "chat_moved db (put_request (delta_request now n k pid q) db)"
      by (rule put_request_moved [OF chat_ok_distinct(1) [OF chat_inv_ok [OF assms]] locked_request_Some(1) [OF qs(1)]])
        (use qs(2) in \<open>simp add: keeps_request_def same_request_def delta_request_def extend_lease_def in_flight_def\<close>)
    then show ?thesis using res by (simp add: 1(7) chat_moved_def)
  qed
next
  case False
  then have "snd (append_delta db now seen n eid x k d pid) = db"
    using append_delta_other [of db now seen n eid x k d pid] by (metis prod.collapse)
  then show ?thesis by simp
qed

lemma terminal_without_usage_moved:
  assumes inv: "chat_inv db" and st: "set statuses \<subseteq> set RUNNING_STATUSES"
  shows "chat_moved db (snd (terminal_without_usage db now seen eid x k content ty rs ms code details pid statuses reason))"
proof (cases "terminal_without_usage db now seen eid x k content ty rs ms code details pid statuses reason")
  case (Pair res db')
  show ?thesis
  proof (cases "db' = db")
    case False
    then obtain b where b: "res = Inr b" using Pair by (cases res) (auto simp: terminal_without_usage_def transaction_Inl_iff)
    from Pair [unfolded b] disjI1 [OF False] show ?thesis
    proof (cases rule: terminal_without_usage_Inr)
      case (1 q m c c')
      note qs = locked_writable_Some [OF 1(1)]
      have "chat_moved db db'"
        unfolding 1(8)
        by (rule terminal_moved [OF chat_inv_core [OF inv] locked_request_Some(1) [OF qs(1)] _ locked_conversation_Some(1) [OF 1(4)] clear_active_keeps [OF 1(5)]])
          (use qs(2) st in \<open>auto simp: keeps_request_def same_request_def terminate_request_def in_flight_def same_chat_def\<close>)
      then show ?thesis using Pair by simp
    qed
  qed (use Pair in simp)
qed

lemma mark_completed_moved:
  assumes inv: "chat_inv db"
  shows "chat_moved db (snd (mark_completed db now seen eid uid x k content pid usage))"
proof (cases "mark_completed db now seen eid uid x k content pid usage")
  case (Pair res db')
  show ?thesis
  proof (cases "res = Inr True")
    case True
    with Pair have "mark_completed db now seen eid uid x k content pid usage = (Inr True, db')" by simp
    then show ?thesis
    proof (cases rule: mark_completed_True)
      case (1 q m c c' price charge rows)
      note qs = locked_writable_Some [OF 1(1)]
      have "chat_moved db db'"
        by (rule terminal_moved [OF chat_inv_core [OF inv] locked_request_Some(1) [OF qs(1)] _ locked_conversation_Some(1) [OF 1(4)] clear_active_keeps [OF 1(5)],
              where q' = "complete_request now k pid (cu_usage usage) q"])
          (use qs(2) in \<open>auto simp: 1(9) completed_db_def keeps_request_def same_request_def complete_request_def in_flight_def same_chat_def\<close>)
      then show ?thesis using Pair by simp
    qed
  next
    case False
    then show ?thesis using mark_completed_other [OF Pair] Pair by simp
  qed
qed

lemma reconcile_row_moved:
  assumes core: "chat_core db" and q: "q \<in> set (ch_requests db)" "q_status q \<in> set RUNNING_STATUSES"
    and row: "reconcile_row now fresh q (k, db) = Inr (k1, db1)"
  shows "chat_moved db db1"
  using row
proof (cases rule: reconcile_row_cases)
  case (2 q' m m' c c' e)
  have "keeps_request q q'"
    using q(2) by (auto simp: 2(8) keeps_request_def same_request_def reconcile_unknown_def reconcile_stopped_def in_flight_def)
  then show ?thesis
    by (rule terminal_moved [OF core q(1) _ 2(4) clear_active_keeps [OF 2(16)]]) (simp add: 2(14) same_chat_def)
qed simp

lemma reconcile_expired_moved: "chat_inv db \<Longrightarrow> chat_moved db (snd (reconcile_expired_once db now locked fresh n))"
  using reconcile_expired_induct [of db now fresh chat_moved] reconcile_row_moved chat_moved_refl chat_moved_trans by blast

lemma append_request_moved:
  assumes res: "append_request_transaction dbx fr t actor c dep content am h parent = Inr (r, db')"
    and dbx: "ch_requests dbx = ch_requests db" "ch_conversations dbx = ch_conversations db" "ch_events dbx = ch_events db"
    and c: "c \<in> set (ch_conversations db)" and dist: "distinct (map cv_id (ch_conversations db))"
  shows "chat_moved db db'"
proof -
  from res obtain q :: InferenceRequest and m :: Message where w: "ch_requests db' = ch_requests dbx @ [q]"
    "ch_events db' = ch_events dbx @ [event_row (cf_event_id fr) q 0 ''started'' (event_fields ''started'' (q_request_id q) (cv_id c) (m_id m) 0) (cf_now fr)]"
    "ch_conversations db' = ch_conversations (put_conversation (c\<lparr>cv_active_inference_request_id := Some (q_id q),
       cv_version := cv_version c + 1, cv_updated_at := cf_now fr\<rparr>) dbx)"
    by (rule append_request_Inr)
  have "chat_moved db (put_conversation (c\<lparr>cv_active_inference_request_id := Some (q_id q),
       cv_version := cv_version c + 1, cv_updated_at := cf_now fr\<rparr>) db)"
    by (rule put_conversation_moved [OF dist c]) (simp add: keeps_conversation_def)
  then show ?thesis using w dbx by (auto simp: chat_moved_def put_conversation_def)
qed

lemma with_idle_moved:
  assumes inv: "chat_inv db"
    and body: "\<And>db1 c r db2. body db1 c = Inr (r, db2) \<Longrightarrow> chat_inv db1 \<Longrightarrow> c \<in> set (ch_conversations db1) \<Longrightarrow> chat_moved db1 db2"
  shows "chat_moved db (snd (with_idle_conversation db fr t actor op cid key h body))"
proof (cases "with_idle_conversation db fr t actor op cid key h body")
  case (Pair res db')
  show ?thesis
  proof (cases res)
    case (Inl e)
    then have "db' = db" using Pair unfolding with_idle_conversation_def by (simp only: transaction_Inl_iff)
    then show ?thesis using Pair by simp
  next
    case (Inr a)
    with Pair have "with_idle_conversation db fr t actor op cid key h body = (Inr a, db')" by simp
    then show ?thesis
    proof (cases rule: with_idle_Inr)
      case 1
      then show ?thesis using Pair by simp
    next
      case (2 idem db1 c r db2)
      have same: "same_chat db db1" "same_chat db2 db'" using claim_idempotency_chat [OF 2(1)] by (simp_all add: 2(6) same_chat_def)
      have "chat_moved db1 db2"
        by (rule body [OF 2(4) _ lock_conversation_Some(1) [OF 2(2)]]) (use same_chat_inv [OF same(1)] inv in simp)
      then show ?thesis using same_chat_moved [OF same(1)] same_chat_moved [OF same(2)] chat_moved_trans Pair by (metis snd_conv)
    qed
  qed
qed

lemma acceptance_moved:
  assumes "chat_inv db"
  shows "chat_moved db (snd (submit db fr t actor cid content key h))"
    and "chat_moved db (snd (regenerate db fr t actor cid mid key h))"
proof -
  show "chat_moved db (snd (submit db fr t actor cid content key h))"
    unfolding submit_def
    by (rule with_idle_moved [OF assms]) (auto elim!: append_request_moved dest: chat_inv_ok chat_ok_distinct(2))
  show "chat_moved db (snd (regenerate db fr t actor cid mid key h))"
    unfolding regenerate_def
    by (rule with_idle_moved [OF assms]) (auto elim!: append_request_moved dest: chat_inv_ok chat_ok_distinct(2))
qed

lemma create_conversation_moved: "chat_moved db (snd (create_conversation db fr t actor product key h))"
proof (cases rule: create_conversation_cases [OF prod.collapse [symmetric], of db fr t actor product key h])
  case (2 idem db1 p)
  have "chat_moved db1 (db1\<lparr>ch_conversations := ch_conversations db1 @ [new_conversation fr t actor p]\<rparr>)"
    by (simp add: chat_moved_def) (metis UnCI keeps_conversation_refl keeps_request_refl)
  then show ?thesis
    using same_chat_moved [OF claim_idempotency_chat [OF 2(1)]] same_chat_moved [OF 2(2)] chat_moved_trans by blast
qed simp

lemma stop_moved:
  assumes inv: "chat_inv db"
  shows "chat_moved db (snd (stop db fr t actor cid rid))"
proof (cases "stop db fr t actor cid rid")
  case (Pair res db')
  show ?thesis
  proof (cases res)
    case (Inl e)
    then have "db' = db" using Pair unfolding stop_def by (simp only: transaction_Inl_iff)
    then show ?thesis using Pair by simp
  next
    case (Inr r)
    with Pair have sres: "stop db fr t actor cid rid = (Inr r, db')" by simp
    have "chat_moved db db'"
      using inv sres
    proof (cases rule: stop_cases)
      case (2 q c db1 db2 n)
      obtain e m where w: "same_chat (add_event e (put_conversation (c\<lparr>cv_active_inference_request_id := None, cv_version := cv_version c + 1, cv_updated_at := cf_now fr\<rparr>)
          (put_message m (put_request ((stop_queued (cf_now fr) q)\<lparr>q_last_event_sequence := q_last_event_sequence q + 1\<rparr>) db)))) db'"
        using stop_queued_write(3) [OF inv 2(1-3,5-12)] by blast
      show ?thesis
        by (rule terminal_moved [OF chat_inv_core [OF inv] 2(1) _ 2(6) _ w])
          (use 2(2) in \<open>simp_all add: keeps_request_def keeps_conversation_def same_request_def stop_queued_def in_flight_def\<close>)
    next
      case (3 q)
      show ?thesis
        unfolding 3(5)
        by (rule put_request_moved [OF chat_ok_distinct(1) [OF chat_inv_ok [OF inv]] 3(1)])
          (use 3 in \<open>auto simp: keeps_request_def same_request_def in_flight_def\<close>)
    qed simp
    then show ?thesis using Pair by simp
  qed
qed

lemma chat_step_moved: "chat_step db db' \<Longrightarrow> chat_inv db \<Longrightarrow> chat_moved db db'"
proof (induction rule: chat_step.induct)
  case (captured db lid1 lid2 now t rid usage)
  then show ?case using same_chat_moved [OF frame_same_chat [OF chat_capture_frame]] by simp
next
  case (released db lid now t rid)
  then show ?case using same_chat_moved [OF frame_same_chat [OF chat_release_frame]] by simp
qed (simp_all add: create_conversation_moved acceptance_moved stop_moved lease_moved append_delta_moved mark_completed_moved
    mark_stopped_def mark_failed_def mark_submitted_unknown_def terminal_without_usage_moved reconcile_expired_moved same_chat_moved)

lemma chat_run_moved: "chat_run db db' \<Longrightarrow> chat_inv db \<Longrightarrow> chat_moved db db' \<and> chat_inv db'"
  by (induction rule: rtranclp_induct) (auto intro: chat_step_inv chat_moved_trans dest: chat_step_moved)

subsection \<open>Logs grow\<close>

lemma moved_log:
  assumes "chat_moved db db'" and "q \<in> set (ch_requests db)"
  obtains q' where "q' \<in> set (ch_requests db')" "keeps_request q q'" "prefix (events_of db q) (events_of db' q')"
proof -
  obtain q' where q': "q' \<in> set (ch_requests db')" "keeps_request q q'" using assms by (auto simp: chat_moved_def)
  obtain es where "ch_events db' = ch_events db @ es" using assms(1) by (auto simp: chat_moved_def elim: prefixE)
  then have "prefix (events_of db q) (events_of db' q')"
    using q'(2) by (simp add: events_of_def keeps_request_def same_request_def)
  with q' show thesis by (rule that)
qed

end
