(* ===== verification/Chat_Stream.thy ===== *)
theory Chat_Stream
  imports Chat_Repository
begin

text \<open>
  \<open>conversations/service.py\<close> and the stream contract of \<open>contracts/conversation.py\<close>: the typed events, the
  checks \<open>_validate_event\<close> makes on a stored one, and the reader \<open>stream\<close> that replays a request's log from a
  cursor and follows it. Pydantic's validator is a parameter, \<open>validate\<close>: what the code relies on is that it
  accepts an input that has exactly the declared fields, with the declared types and within the declared
  bounds (\<open>strict_event\<close>), and returns these values. The Redis subscription only wakes the reader up: every
  exception it raises is caught, so it decides how long a turn waits and nothing else.
\<close>

subsection \<open>The contract\<close>

record ErrorBody =
  eb_code :: string
  eb_message :: string
  eb_request_id :: string
  eb_retryable :: bool
  eb_details :: "(string \<times> json) list option"

record StreamEventBase =
  sb_request_id :: string
  sb_conversation_id :: string
  sb_message_id :: string

datatype ChatStreamEvent =
    StreamStartedEvent StreamEventBase
  | StreamDeltaEvent StreamEventBase int string
  | StreamCompletedEvent StreamEventBase int string
  | StreamStoppedEvent StreamEventBase int
  | StreamFailedEvent StreamEventBase int ErrorBody

fun event_base :: "ChatStreamEvent \<Rightarrow> StreamEventBase" where
  "event_base (StreamStartedEvent b) = b"
| "event_base (StreamDeltaEvent b n d) = b"
| "event_base (StreamCompletedEvent b n s) = b"
| "event_base (StreamStoppedEvent b n) = b"
| "event_base (StreamFailedEvent b n e) = b"

fun event_type :: "ChatStreamEvent \<Rightarrow> string" where
  "event_type (StreamStartedEvent b) = ''started''"
| "event_type (StreamDeltaEvent b n d) = ''delta''"
| "event_type (StreamCompletedEvent b n s) = ''completed''"
| "event_type (StreamStoppedEvent b n) = ''stopped''"
| "event_type (StreamFailedEvent b n e) = ''failed''"

fun event_sequence :: "ChatStreamEvent \<Rightarrow> int" where
  "event_sequence (StreamStartedEvent b) = 0"
| "event_sequence (StreamDeltaEvent b n d) = n"
| "event_sequence (StreamCompletedEvent b n s) = n"
| "event_sequence (StreamStoppedEvent b n) = n"
| "event_sequence (StreamFailedEvent b n e) = n"

definition NonEmptyId :: "string \<Rightarrow> bool" where
  "NonEmptyId s \<longleftrightarrow> 1 \<le> length s \<and> length s \<le> 200"

definition is_error_body_code :: "string \<Rightarrow> bool" where
  "is_error_body_code s \<longleftrightarrow> s \<noteq> [] \<and> list_all (\<lambda>c. is_upper c \<or> is_digit c \<or> c = CHR ''_'') s"

definition error_ok :: "ErrorBody \<Rightarrow> bool" where
  "error_ok e \<longleftrightarrow> is_error_body_code (eb_code e) \<and> eb_message e \<noteq> [] \<and> eb_request_id e \<noteq> []"

fun tail_ok :: "ChatStreamEvent \<Rightarrow> bool" where
  "tail_ok (StreamStartedEvent b) = True"
| "tail_ok (StreamDeltaEvent b n d) = (0 \<le> n \<and> 1 \<le> length d \<and> length d \<le> 64000)"
| "tail_ok (StreamCompletedEvent b n s) = (0 \<le> n \<and> length s \<le> 1000000)"
| "tail_ok (StreamStoppedEvent b n) = (0 \<le> n)"
| "tail_ok (StreamFailedEvent b n e) = (0 \<le> n \<and> error_ok e)"

definition event_ok :: "ChatStreamEvent \<Rightarrow> bool" where
  "event_ok ev \<longleftrightarrow> NonEmptyId (sb_request_id (event_base ev)) \<and> NonEmptyId (sb_conversation_id (event_base ev)) \<and>
     NonEmptyId (sb_message_id (event_base ev)) \<and> tail_ok ev"

text \<open>\<open>model_dump(mode="json")\<close>: every field, those of the base class first.\<close>

definition error_dump :: "ErrorBody \<Rightarrow> json" where
  "error_dump e =
     JObj [(''code'', JStr (eb_code e)), (''message'', JStr (eb_message e)), (''request_id'', JStr (eb_request_id e)),
       (''retryable'', JBool (eb_retryable e)), (''details'', case eb_details e of None \<Rightarrow> JNull | Some d \<Rightarrow> JObj d)]"

fun tail_dump :: "ChatStreamEvent \<Rightarrow> (string \<times> json) list" where
  "tail_dump (StreamStartedEvent b) = []"
| "tail_dump (StreamDeltaEvent b n d) = [(''delta'', JStr d)]"
| "tail_dump (StreamCompletedEvent b n s) = [(''content'', JStr s)]"
| "tail_dump (StreamStoppedEvent b n) = []"
| "tail_dump (StreamFailedEvent b n e) = [(''error'', error_dump e)]"

definition model_dump :: "ChatStreamEvent \<Rightarrow> (string \<times> json) list" where
  "model_dump ev =
     [(''request_id'', JStr (sb_request_id (event_base ev))), (''conversation_id'', JStr (sb_conversation_id (event_base ev))),
      (''message_id'', JStr (sb_message_id (event_base ev))), (''type'', JStr (event_type ev)), (''sequence'', JInt (event_sequence ev))] @
     tail_dump ev"

subsection \<open>Reading a stored event\<close>

text \<open>The fields of a dictionary, and a field of the declared type; \<open>extra = "forbid"\<close>.\<close>

definition only_fields :: "string list \<Rightarrow> (string \<times> json) list \<Rightarrow> bool" where
  "only_fields names d \<longleftrightarrow> list_all (\<lambda>(k, v). k \<in> set names) d"

definition str_field :: "(string \<times> json) list \<Rightarrow> string \<Rightarrow> string option" where
  "str_field d name = (case map_of d name of Some (JStr s) \<Rightarrow> Some s | _ \<Rightarrow> None)"

definition int_field :: "(string \<times> json) list \<Rightarrow> string \<Rightarrow> int option" where
  "int_field d name = (case map_of d name of Some (JInt n) \<Rightarrow> Some n | _ \<Rightarrow> None)"

definition details_field :: "(string \<times> json) list \<Rightarrow> (string \<times> json) list option option" where
  "details_field d = (case map_of d ''details'' of None \<Rightarrow> Some None | Some JNull \<Rightarrow> Some None | Some (JObj kvs) \<Rightarrow> Some (Some kvs) | _ \<Rightarrow> None)"

definition error_field :: "(string \<times> json) list \<Rightarrow> ErrorBody option" where
  "error_field d =
     (case map_of d ''error'' of
        Some (JObj b) \<Rightarrow>
          if only_fields [''code'', ''message'', ''request_id'', ''retryable'', ''details''] b then
            (case (str_field b ''code'', str_field b ''message'', str_field b ''request_id'', map_of b ''retryable'', details_field b) of
               (Some code, Some message, Some request_id, Some (JBool retryable), Some details) \<Rightarrow>
                 Some \<lparr>eb_code = code, eb_message = message, eb_request_id = request_id, eb_retryable = retryable, eb_details = details\<rparr>
             | _ \<Rightarrow> None)
          else None
      | _ \<Rightarrow> None)"

definition base_fields :: "string list" where
  "base_fields = [''request_id'', ''conversation_id'', ''message_id'', ''type'', ''sequence'']"

text \<open>The tagged union: the class is chosen by \<open>type\<close>; a started event may leave its sequence out.\<close>

definition typed_event :: "StreamEventBase \<Rightarrow> (string \<times> json) list \<Rightarrow> ChatStreamEvent option" where
  "typed_event b d =
     (case str_field d ''type'' of
        None \<Rightarrow> None
      | Some ty \<Rightarrow>
          if ty = ''started'' then
            if only_fields base_fields d \<and> map_of d ''sequence'' \<in> set [None, Some (JInt 0)] then Some (StreamStartedEvent b) else None
          else
            (case int_field d ''sequence'' of
               None \<Rightarrow> None
             | Some n \<Rightarrow>
                 if ty = ''delta'' \<and> only_fields (''delta'' # base_fields) d then map_option (StreamDeltaEvent b n) (str_field d ''delta'')
                 else if ty = ''completed'' \<and> only_fields (''content'' # base_fields) d then map_option (StreamCompletedEvent b n) (str_field d ''content'')
                 else if ty = ''stopped'' \<and> only_fields base_fields d then Some (StreamStoppedEvent b n)
                 else if ty = ''failed'' \<and> only_fields (''error'' # base_fields) d then map_option (StreamFailedEvent b n) (error_field d)
                 else None))"

definition strict_event :: "(string \<times> json) list \<Rightarrow> ChatStreamEvent option" where
  "strict_event d =
     (case (str_field d ''request_id'', str_field d ''conversation_id'', str_field d ''message_id'') of
        (Some r, Some c, Some m) \<Rightarrow>
          (case typed_event \<lparr>sb_request_id = r, sb_conversation_id = c, sb_message_id = m\<rparr> d of
             Some ev \<Rightarrow> if event_ok ev then Some ev else None
           | None \<Rightarrow> None)
      | _ \<Rightarrow> None)"

definition validate_event ::
  "((string \<times> json) list \<Rightarrow> ChatStreamEvent option) \<Rightarrow> uuid \<Rightarrow> uuid \<Rightarrow> uuid \<Rightarrow> int \<Rightarrow> bool \<Rightarrow> bool \<Rightarrow> StreamEventRecord \<Rightarrow>
     chat_error raised + ChatStreamEvent"
where
  "validate_event validate request_id conversation_id message_id expected_sequence require_started terminal row =
     andthen (require (se_sequence row = expected_sequence) (Domain (ConversationInfrastructureError ''STREAM_EVENT_SEQUENCE_INVALID''))) (\<lambda>_.
     andthen (case validate (se_event row) of
         None \<Rightarrow> Inl (Domain (ConversationInfrastructureError ''STREAM_EVENT_INVALID''))
       | Some event \<Rightarrow> Inr event) (\<lambda>event.
     andthen (require (sb_request_id (event_base event) = str_uuid request_id \<and> sb_conversation_id (event_base event) = str_uuid conversation_id \<and>
         sb_message_id (event_base event) = str_uuid message_id \<and> event_sequence event = expected_sequence)
       (Domain (ConversationInfrastructureError ''STREAM_EVENT_INVALID''))) (\<lambda>_.
     andthen (require (require_started \<longrightarrow> event_type event = ''started'' \<and> expected_sequence = 0)
       (Domain (ConversationInfrastructureError ''STREAM_EVENT_SEQUENCE_INVALID''))) (\<lambda>_.
     andthen (require (require_started \<or> event_type event \<noteq> ''started'')
       (Domain (ConversationInfrastructureError ''STREAM_EVENT_SEQUENCE_INVALID''))) (\<lambda>_.
     andthen (require (\<not> terminal) (Domain (ConversationInfrastructureError ''STREAM_EVENT_AFTER_TERMINAL''))) (\<lambda>_.
     andthen (require (case event of StreamFailedEvent b n e \<Rightarrow> eb_request_id e = str_uuid request_id | _ \<Rightarrow> True)
       (Domain (ConversationInfrastructureError ''STREAM_EVENT_INVALID''))) (\<lambda>_.
     Inr event)))))))"

subsection \<open>The reader\<close>

definition TERMINAL_REQUEST_STATUSES :: "InferenceStatus list" where
  "TERMINAL_REQUEST_STATUSES = [ISucceeded, IFailed, ICancelled, IStopped, ISubmittedUnknown]"

text \<open>What a reader gets: events and heartbeats (\<open>None\<close>), then the end; \<open>Open\<close> is a stream still being followed.\<close>

datatype stream_end = Returned | Raised "chat_error raised" | Open

type_synonym stream_output = "(string \<times> json) list option list"

record stream_config =
  sc_max_duration :: "int option"
  sc_replay_fallback :: int
  sc_include_heartbeats :: bool
  sc_heartbeat_interval :: int

record stream_state =
  ss_expected :: int
  ss_started :: bool
  ss_terminal :: bool
  ss_last_heartbeat :: int

text \<open>
  One turn of the loop sees two committed states, one per read, and reads the monotonic clock (in microseconds)
  when it looks at the deadline, at the heartbeat, when it resets the heartbeat, and the last two after the wait.
\<close>

record stream_turn =
  tn_events :: chat_db
  tn_request :: chat_db
  tn_deadline_clock :: int
  tn_heartbeat_clock :: int
  tn_reset_clock :: int
  tn_waited_clock :: int
  tn_waited_reset_clock :: int

fun stream_rows ::
  "((string \<times> json) list \<Rightarrow> ChatStreamEvent option) \<Rightarrow> uuid \<Rightarrow> uuid \<Rightarrow> uuid \<Rightarrow> StreamEventRecord list \<Rightarrow> stream_state \<Rightarrow>
     stream_output \<times> (chat_error raised + stream_state)"
where
  "stream_rows validate rid cid mid [] s = ([], Inr s)"
| "stream_rows validate rid cid mid (row # rows) s =
     (case validate_event validate rid cid mid (ss_expected s) (\<not> ss_started s) (ss_terminal s) row of
        Inl e \<Rightarrow> ([], Inl e)
      | Inr event \<Rightarrow>
          let (out, res) = stream_rows validate rid cid mid rows
            (s\<lparr>ss_started := True, ss_expected := ss_expected s + 1,
               ss_terminal := (ss_terminal s \<or> event_type event \<in> set TERMINAL_EVENTS)\<rparr>)
          in (Some (model_dump event) # out, res))"

datatype turn_end = TurnEnds stream_end | TurnContinues stream_state

text \<open>What the loop does once the two reads of a turn succeeded without a terminal event.\<close>

definition turn_wait :: "stream_config \<Rightarrow> int option \<Rightarrow> stream_turn \<Rightarrow> bool \<Rightarrow> stream_state \<Rightarrow> ChatRequestRecord \<Rightarrow> stream_output \<times> turn_end" where
  "turn_wait cfg deadline turn no_rows s refreshed =
     (let finished = rq_status refreshed \<in> set TERMINAL_REQUEST_STATUSES in
      if finished \<and> rq_last_event_sequence refreshed < ss_expected s then ([], TurnEnds Returned)
      else if no_rows \<and> finished \<and> ss_expected s \<le> rq_last_event_sequence refreshed then
        ([], TurnEnds (Raised (Domain (ConversationInfrastructureError ''STREAM_EVENT_SEQUENCE_INVALID''))))
      else
        let remaining = (case deadline of None \<Rightarrow> sc_replay_fallback cfg | Some d \<Rightarrow> d - tn_deadline_clock turn) in
        if deadline \<noteq> None \<and> remaining \<le> 0 then ([], TurnEnds Returned)
        else
          let heartbeat_remaining = sc_heartbeat_interval cfg - (tn_heartbeat_clock turn - ss_last_heartbeat s);
              wait = min (sc_replay_fallback cfg) remaining;
              wait_seconds = (if sc_include_heartbeats cfg then min wait heartbeat_remaining else wait) in
          if sc_include_heartbeats cfg \<and> heartbeat_remaining \<le> 0 then
            ([None], TurnContinues (s\<lparr>ss_last_heartbeat := tn_reset_clock turn\<rparr>))
          else if wait_seconds \<le> 0 then ([], TurnEnds Returned)
          else if sc_include_heartbeats cfg \<and> sc_heartbeat_interval cfg \<le> tn_waited_clock turn - ss_last_heartbeat s then
            ([None], TurnContinues (s\<lparr>ss_last_heartbeat := tn_waited_reset_clock turn\<rparr>))
          else ([], TurnContinues s))"

definition stream_turn_step ::
  "((string \<times> json) list \<Rightarrow> ChatStreamEvent option) \<Rightarrow> stream_config \<Rightarrow> int option \<Rightarrow> uuid \<Rightarrow> uuid \<Rightarrow> uuid \<Rightarrow> ChatRequestRecord \<Rightarrow>
     stream_turn \<Rightarrow> stream_state \<Rightarrow> stream_output \<times> turn_end"
where
  "stream_turn_step validate cfg deadline t actor cid request turn s =
     (case events_in_transaction (tn_events turn) t actor cid (rq_request_id request) (ss_expected s - 1) of
        Inl e \<Rightarrow> ([], TurnEnds (Raised e))
      | Inr rows \<Rightarrow>
          (case stream_rows validate (rq_request_id request) cid (rq_message_id request) rows s of
             (out, Inl e) \<Rightarrow> (out, TurnEnds (Raised e))
           | (out, Inr s') \<Rightarrow>
               if ss_terminal s' then (out, TurnEnds Returned)
               else
                 (case assert_request (tn_request turn) t actor cid (rq_request_id request) of
                    Inl e \<Rightarrow> (out, TurnEnds (Raised e))
                  | Inr refreshed \<Rightarrow>
                      let (beats, next) = turn_wait cfg deadline turn (rows = []) s' refreshed in (out @ beats, next))))"

fun stream_turns ::
  "((string \<times> json) list \<Rightarrow> ChatStreamEvent option) \<Rightarrow> stream_config \<Rightarrow> int option \<Rightarrow> uuid \<Rightarrow> uuid \<Rightarrow> uuid \<Rightarrow> ChatRequestRecord \<Rightarrow>
     stream_turn list \<Rightarrow> stream_state \<Rightarrow> stream_output \<times> stream_end"
where
  "stream_turns validate cfg deadline t actor cid request [] s = ([], Open)"
| "stream_turns validate cfg deadline t actor cid request (turn # turns) s =
     (case stream_turn_step validate cfg deadline t actor cid request turn s of
        (out, TurnEnds e) \<Rightarrow> (out, e)
      | (out, TurnContinues s') \<Rightarrow>
          let (rest, e) = stream_turns validate cfg deadline t actor cid request turns s' in (out @ rest, e))"

text \<open>\<open>opened\<close> and \<open>beat\<close> are the two clock readings before the loop.\<close>

definition stream ::
  "((string \<times> json) list \<Rightarrow> ChatStreamEvent option) \<Rightarrow> stream_config \<Rightarrow> chat_db \<Rightarrow> int \<Rightarrow> int \<Rightarrow> uuid \<Rightarrow> uuid \<Rightarrow> uuid \<Rightarrow> uuid \<Rightarrow> int option \<Rightarrow>
     stream_turn list \<Rightarrow> stream_output \<times> stream_end"
where
  "stream validate cfg db opened beat t actor cid rid cursor turns =
     (let normalized_cursor = (case cursor of None \<Rightarrow> -1 | Some c \<Rightarrow> c) in
      if normalized_cursor < -1 \<or> sc_include_heartbeats cfg \<and> sc_heartbeat_interval cfg \<le> 0 then ([], Raised (Domain StreamCursorError))
      else
        (case assert_request db t actor cid rid of
           Inl e \<Rightarrow> ([], Raised e)
         | Inr request \<Rightarrow>
             let finished = rq_status request \<in> set TERMINAL_REQUEST_STATUSES in
             if finished \<and> rq_last_event_sequence request < 1 then
               ([], Raised (Domain (ConversationInfrastructureError ''STREAM_TERMINAL_EVENT_MISSING'')))
             else if rq_last_event_sequence request < normalized_cursor then ([], Raised (Domain StreamCursorError))
             else if finished \<and> rq_last_event_sequence request \<le> normalized_cursor then ([], Returned)
             else
               stream_turns validate cfg (map_option ((+) opened) (sc_max_duration cfg)) t actor cid request turns
                 \<lparr>ss_expected = normalized_cursor + 1, ss_started = (0 \<le> normalized_cursor), ss_terminal = False, ss_last_heartbeat = beat\<rparr>))"

end
