(* ===== verification/Chat_Service.thy ===== *)
theory Chat_Service
  imports Chat_Stream
begin

text \<open>
  The other operations of \<open>conversations/service.py\<close> and the request and response contracts of
  \<open>contracts/conversation.py\<close>. The SHA-256 hash of the canonical JSON text of a request is a parameter
  (\<open>digest\<close>, of the normalized fields). A stream notification is returned as a value: publishing it is
  best effort, its exceptions are suppressed.
\<close>

subsection \<open>Requests\<close>

definition is_model_key :: "string \<Rightarrow> bool" where
  "is_model_key s \<longleftrightarrow> s \<noteq> [] \<and> list_all (\<lambda>c. is_lower c \<or> is_digit c \<or> c = CHR ''-'') s"

record CreateConversationRequest =
  cc_product_model_id :: string
  cc_client_request_id :: string

definition create_request_ok :: "CreateConversationRequest \<Rightarrow> bool" where
  "create_request_ok r \<longleftrightarrow> 1 \<le> length (cc_product_model_id r) \<and> length (cc_product_model_id r) \<le> 200 \<and>
     is_model_key (cc_product_model_id r) \<and> NonEmptyId (cc_client_request_id r)"

record SendMessageRequest =
  sm_content :: string
  sm_client_request_id :: string

definition send_request_ok :: "SendMessageRequest \<Rightarrow> bool" where
  "send_request_ok r \<longleftrightarrow> 1 \<le> length (sm_content r) \<and> length (sm_content r) \<le> 64000 \<and> strip (sm_content r) \<noteq> [] \<and>
     NonEmptyId (sm_client_request_id r)"

record ResumeConversationRequest =
  rs_cursor :: "int option"
  rs_last_event_id :: "int option"

definition resume_request_ok :: "ResumeConversationRequest \<Rightarrow> bool" where
  "resume_request_ok r \<longleftrightarrow>
     (case rs_cursor r of None \<Rightarrow> True | Some c \<Rightarrow> -1 \<le> c) \<and> (case rs_last_event_id r of None \<Rightarrow> True | Some c \<Rightarrow> 0 \<le> c) \<and>
     (rs_cursor r \<noteq> None \<and> rs_last_event_id r \<noteq> None \<longrightarrow> rs_cursor r = rs_last_event_id r)"

subsection \<open>Responses\<close>

datatype public_message_status = PStreaming | PComplete | PStopped | PFailed

definition public_message_status :: "MessageStatus \<Rightarrow> public_message_status" where
  "public_message_status s =
     (if s \<in> set [MAccepted, MCompleted] then PComplete
      else if s = MStreaming then PStreaming
      else if s = MStopped then PStopped
      else PFailed)"

record ConversationMessage =
  cm_message_id :: string
  cm_role :: string
  cm_content :: string
  cm_status :: public_message_status
  cm_created_at :: instant
  cm_request_id :: "string option"

record ConversationResponse =
  co_conversation_id :: string
  co_product_model_id :: string
  co_title :: string
  co_messages :: "ConversationMessage list"
  co_updated_at :: instant
  co_active_request_id :: "string option"
  co_active_request_cursor :: "int option"

record ConversationSummaryResponse =
  cs_conversation_id :: string
  cs_product_model_id :: string
  cs_title :: string
  cs_preview :: string
  cs_updated_at :: instant

text \<open>What constructing the response models checks.\<close>

definition message_response_ok :: "ConversationMessage \<Rightarrow> bool" where
  "message_response_ok m \<longleftrightarrow> NonEmptyId (cm_message_id m) \<and> cm_role m \<in> set [''user'', ''assistant''] \<and> length (cm_content m) \<le> 1000000 \<and>
     (case cm_request_id m of None \<Rightarrow> True | Some r \<Rightarrow> NonEmptyId r)"

definition conversation_response_ok :: "ConversationResponse \<Rightarrow> bool" where
  "conversation_response_ok c \<longleftrightarrow>
     NonEmptyId (co_conversation_id c) \<and> NonEmptyId (co_product_model_id c) \<and> 1 \<le> length (co_title c) \<and> length (co_title c) \<le> 240 \<and>
     length (co_messages c) \<le> 20000 \<and> (case co_active_request_id c of None \<Rightarrow> True | Some r \<Rightarrow> NonEmptyId r) \<and>
     (case co_active_request_cursor c of None \<Rightarrow> True | Some n \<Rightarrow> -1 \<le> n) \<and>
     (co_active_request_id c = None) = (co_active_request_cursor c = None)"

definition summary_response_ok :: "ConversationSummaryResponse \<Rightarrow> bool" where
  "summary_response_ok c \<longleftrightarrow>
     NonEmptyId (cs_conversation_id c) \<and> NonEmptyId (cs_product_model_id c) \<and> 1 \<le> length (cs_title c) \<and> length (cs_title c) \<le> 240 \<and>
     length (cs_preview c) \<le> 1000"

definition message_response :: "ConversationMessageRecord \<Rightarrow> ConversationMessage" where
  "message_response m =
     \<lparr>cm_message_id = str_uuid (mr_message_id m), cm_role = (if mr_role m = ''user'' then ''user'' else ''assistant''), cm_content = mr_content m,
      cm_status = public_message_status (mr_status m), cm_created_at = mr_created_at m, cm_request_id = map_option str_uuid (mr_request_id m)\<rparr>"

definition conversation_response :: "ConversationRecord \<Rightarrow> chat_error raised + ConversationResponse" where
  "conversation_response c =
     (let messages = map message_response (filter (\<lambda>m. mr_role m \<in> set [''user'', ''assistant'']) (vr_messages c));
          response = \<lparr>co_conversation_id = str_uuid (vr_conversation_id c), co_product_model_id = vr_product_model_id c, co_title = vr_title c,
            co_messages = messages, co_updated_at = vr_updated_at c, co_active_request_id = map_option str_uuid (vr_active_request_id c),
            co_active_request_cursor = vr_active_request_cursor c\<rparr> in
      andthen (require (list_all message_response_ok messages) (Domain (ChatValueError ''ConversationMessage''))) (\<lambda>_.
      andthen (require (conversation_response_ok response) (Domain (ChatValueError ''ConversationResponse''))) (\<lambda>_.
      Inr response)))"

fun preview :: "ConversationMessageRecord list \<Rightarrow> string" where
  "preview [] = []"
| "preview (m # ms) = (if mr_content m \<noteq> [] then take 1000 (mr_content m) else preview ms)"

definition summary_response :: "ConversationRecord \<Rightarrow> chat_error raised + ConversationSummaryResponse" where
  "summary_response c =
     (let response = \<lparr>cs_conversation_id = str_uuid (vr_conversation_id c), cs_product_model_id = vr_product_model_id c, cs_title = vr_title c,
            cs_preview = preview (rev (vr_messages c)), cs_updated_at = vr_updated_at c\<rparr> in
      andthen (require (summary_response_ok response) (Domain (ChatValueError ''ConversationSummaryResponse''))) (\<lambda>_. Inr response))"

subsection \<open>Operations\<close>

definition service_list :: "chat_db \<Rightarrow> uuid \<Rightarrow> uuid \<Rightarrow> int \<Rightarrow> chat_error raised + ConversationSummaryResponse list" where
  "service_list db t actor limit = andthen (list_conversations db t actor limit) (traverse summary_response)"

definition service_get :: "chat_db \<Rightarrow> uuid \<Rightarrow> uuid \<Rightarrow> uuid \<Rightarrow> chat_error raised + ConversationResponse" where
  "service_get db t actor conversation_id =
     andthen (get_conversation db t actor conversation_id) (\<lambda>r.
     case r of None \<Rightarrow> Inl (Domain ConversationNotFoundError) | Some c \<Rightarrow> conversation_response c)"

definition service_create ::
  "((string \<times> json) list \<Rightarrow> string) \<Rightarrow> chat_db \<Rightarrow> chat_fresh \<Rightarrow> uuid \<Rightarrow> uuid \<Rightarrow> CreateConversationRequest \<Rightarrow>
     (chat_error raised + ConversationResponse) \<times> chat_db" where
  "service_create digest db fr t actor r =
     (case create_conversation db fr t actor (cc_product_model_id r) (cc_client_request_id r)
         (digest [(''product_model_id'', JStr (cc_product_model_id r))]) of
        (Inl e, db') \<Rightarrow> (Inl e, db')
      | (Inr (c, replayed), db') \<Rightarrow> (conversation_response c, db'))"

type_synonym stream_notice = "uuid \<times> uuid \<times> int"

definition notify_stream_event :: "ChatRequestRecord \<Rightarrow> stream_notice list" where
  "notify_stream_event r =
     (if rq_last_event_sequence r < 0 then [] else [(rq_tenant_id r, rq_request_id r, rq_last_event_sequence r)])"

definition accepted_notice ::
  "(chat_error raised + AcceptedChatRequest) \<times> chat_db \<Rightarrow> (chat_error raised + AcceptedChatRequest) \<times> chat_db \<times> stream_notice list" where
  "accepted_notice r =
     (case r of
        (Inl e, db') \<Rightarrow> (Inl e, db', [])
      | (Inr a, db') \<Rightarrow> (Inr a, db', if ar_replayed a then [] else notify_stream_event (ar_request a)))"

definition service_send ::
  "bool \<Rightarrow> ((string \<times> json) list \<Rightarrow> string) \<Rightarrow> chat_db \<Rightarrow> chat_fresh \<Rightarrow> uuid \<Rightarrow> uuid \<Rightarrow> uuid \<Rightarrow> SendMessageRequest \<Rightarrow>
     (chat_error raised + AcceptedChatRequest) \<times> chat_db \<times> stream_notice list" where
  "service_send submission_enabled digest db fr t actor conversation_id r =
     (if \<not> submission_enabled then (Inl (Domain ChatSubmissionDisabledError), db, [])
      else accepted_notice (submit db fr t actor conversation_id (sm_content r) (sm_client_request_id r)
        (digest [(''conversation_id'', JStr (str_uuid conversation_id)), (''content'', JStr (sm_content r))])))"

definition service_regenerate ::
  "bool \<Rightarrow> ((string \<times> json) list \<Rightarrow> string) \<Rightarrow> chat_db \<Rightarrow> chat_fresh \<Rightarrow> uuid \<Rightarrow> uuid \<Rightarrow> uuid \<Rightarrow> uuid \<Rightarrow> string \<Rightarrow>
     (chat_error raised + AcceptedChatRequest) \<times> chat_db \<times> stream_notice list" where
  "service_regenerate submission_enabled digest db fr t actor conversation_id message_id client_request_id =
     (if \<not> submission_enabled then (Inl (Domain ChatSubmissionDisabledError), db, [])
      else accepted_notice (regenerate db fr t actor conversation_id message_id client_request_id
        (digest [(''conversation_id'', JStr (str_uuid conversation_id)), (''message_id'', JStr (str_uuid message_id))])))"

definition service_stop ::
  "chat_db \<Rightarrow> chat_fresh \<Rightarrow> uuid \<Rightarrow> uuid \<Rightarrow> uuid \<Rightarrow> uuid \<Rightarrow> (chat_error raised + StopResult) \<times> chat_db \<times> stream_notice list" where
  "service_stop db fr t actor conversation_id request_id =
     (case stop db fr t actor conversation_id request_id of
        (Inl e, db') \<Rightarrow> (Inl e, db', [])
      | (Inr r, db') \<Rightarrow>
          (Inr r, db', case sr_last_event_sequence r of
             Some n \<Rightarrow> if sr_changed r then [(t, request_id, n)] else [] | None \<Rightarrow> []))"

text \<open>The answer of the admission port: a permit, no permit, or the limiter out of reach.\<close>

datatype 'p admission_answer = Permit 'p | NoPermit | AdmissionUnavailable

definition acquire_stream_admission :: "(uuid \<Rightarrow> 'p admission_answer) option \<Rightarrow> uuid \<Rightarrow> chat_error raised + 'p option" where
  "acquire_stream_admission admission t =
     (case admission of
        None \<Rightarrow> Inr None
      | Some acquire \<Rightarrow>
          (case acquire t of
             AdmissionUnavailable \<Rightarrow> Inl (Domain (ConversationInfrastructureError ''STREAM_ADMISSION_UNAVAILABLE''))
           | NoPermit \<Rightarrow> Inl (Domain StreamCapacityError)
           | Permit p \<Rightarrow> Inr (Some p)))"

end
