(* ===== verification/Chat_Reading.thy ===== *)
theory Chat_Reading
  imports Chat_History Chat_Service
begin

text \<open>
  Readers of the chat tables: every event a log holds is an event of the public contract, a reader that follows
  a request from a cursor is given the rest of its log in order, each event once, and what happens between its
  reads never makes it skip or repeat one.
\<close>

subsection \<open>Stored events and the contract\<close>

lemma contract_eta [simp]:
  "\<lparr>sb_request_id = sb_request_id b, sb_conversation_id = sb_conversation_id b, sb_message_id = sb_message_id b\<rparr> = b"
  "\<lparr>eb_code = eb_code e, eb_message = eb_message e, eb_request_id = eb_request_id e, eb_retryable = eb_retryable e, eb_details = eb_details e\<rparr> = e"
  by simp_all

lemma error_field_dump: "error_field ((''error'', error_dump e) # d) = Some e"
proof -
  have details: "(case (case eb_details e of None \<Rightarrow> JNull | Some x \<Rightarrow> JObj x) of
      JNull \<Rightarrow> Some None | JObj kvs \<Rightarrow> Some (Some kvs) | _ \<Rightarrow> None) = Some (eb_details e)" by (cases "eb_details e") simp_all
  show ?thesis by (simp add: error_field_def error_dump_def only_fields_def str_field_def details_field_def details)
qed

lemma strict_model_dump:
  assumes "event_ok ev"
  shows "strict_event (model_dump ev) = Some ev"
proof -
  have "error_field (tail_dump (StreamFailedEvent b n x)) = Some x" for b n x by (simp add: error_field_dump)
  then have "error_field (model_dump (StreamFailedEvent b n x)) = Some x" for b n x by (simp add: model_dump_def error_field_def)
  then show ?thesis using assms
    by (cases ev)
      (auto simp: strict_event_def str_field_def int_field_def typed_event_def only_fields_def base_fields_def model_dump_def)
qed

lemma str_uuid_length [simp]: "length (str_uuid u) = 36"
  by (simp add: str_uuid_def dashed_def)

lemma str_uuid_id [simp]: "NonEmptyId (str_uuid u)" "str_uuid u \<noteq> []"
  using str_uuid_length [of u] by (auto simp: NonEmptyId_def simp del: str_uuid_length)

lemma public_code_is_error_body_code: "is_error_body_code s = is_public_code s"
  by (simp add: is_error_body_code_def is_public_code_def)

text \<open>The text of a completed event, and the bounds of the contract on the two texts of a log.\<close>

definition content_text :: "ChatEvent \<Rightarrow> string" where
  "content_text e = (case map_of (e_payload e) ''content'' of Some (JStr s) \<Rightarrow> s | _ \<Rightarrow> [])"

definition within_contract :: "ChatEvent \<Rightarrow> bool" where
  "within_contract e \<longleftrightarrow> length (delta_text e) \<le> 64000 \<and> length (content_text e) \<le> 1000000"

definition published :: "ChatEvent \<Rightarrow> (string \<times> json) list" where
  "published e = (case strict_event (e_payload e) of Some ev \<Rightarrow> model_dump ev | None \<Rightarrow> [])"

abbreviation stored :: "ChatEvent \<Rightarrow> StreamEventRecord" where
  "stored e \<equiv> \<lparr>se_sequence = e_sequence_no e, se_event = e_payload e\<rparr>"

text \<open>What the reader's checks need of a typed event.\<close>

definition event_of :: "uuid \<Rightarrow> uuid \<Rightarrow> uuid \<Rightarrow> ChatEvent \<Rightarrow> ChatStreamEvent \<Rightarrow> bool" where
  "event_of rid cid mid e ev \<longleftrightarrow>
     event_base ev = \<lparr>sb_request_id = str_uuid rid, sb_conversation_id = str_uuid cid, sb_message_id = str_uuid mid\<rparr> \<and>
     event_type ev = e_event_type e \<and> event_sequence ev = e_sequence_no e \<and>
     (case ev of StreamFailedEvent b n x \<Rightarrow> eb_request_id x = str_uuid rid | _ \<Rightarrow> True)"

lemma event_shape_typed:
  assumes "event_shape q e" and "within_contract e" and "0 \<le> e_sequence_no e" and "e_event_type e = ''started'' \<longrightarrow> e_sequence_no e = 0"
    and "q_conversation_id q = Some cid" and "q_message_id q = Some mid"
  obtains ev where "strict_event (e_payload e) = Some ev" "event_of (q_request_id q) cid mid e ev"
proof -
  obtain rest where payload: "e_payload e = event_fields (e_event_type e) (q_request_id q) cid mid (e_sequence_no e) @ rest"
    and tail: "payload_tail (q_request_id q) (e_event_type e) rest"
    using assms(1,5,6) by (auto simp: event_shape_def)
  have "\<exists>ev. strict_event (e_payload e) = Some ev \<and> event_of (q_request_id q) cid mid e ev"
    using tail assms(2-4) unfolding payload_tail_def payload
    by (elim disjE conjE exE)
      (auto simp: payload event_fields_def strict_event_def str_field_def int_field_def typed_event_def only_fields_def base_fields_def
        error_field_def error_body_def details_field_def event_of_def event_ok_def error_ok_def public_code_is_error_body_code FAILURE_MESSAGE_def
        within_contract_def delta_text_def content_text_def Suc_le_eq)
  then show thesis using that by blast
qed

subsection \<open>Reading a log in order\<close>

text \<open>A stretch of a log from sequence number \<open>k\<close> on.\<close>

fun log_slice :: "InferenceRequest \<Rightarrow> int \<Rightarrow> ChatEvent list \<Rightarrow> bool" where
  "log_slice q k [] = True"
| "log_slice q k (e # es) =
     (event_shape q e \<and> within_contract e \<and> e_sequence_no e = k \<and> (e_event_type e = ''started'' \<longleftrightarrow> k = 0) \<and>
      (terminal_event e \<longrightarrow> es = []) \<and> log_slice q (k + 1) es)"

lemma log_slice_drop: "log_slice q k es \<Longrightarrow> log_slice q (k + int n) (drop n es)"
proof (induction q k es arbitrary: n rule: log_slice.induct)
  case (2 q k e es)
  then show ?case by (cases n) (auto simp: algebra_simps)
qed simp

lemma numbered_from:
  assumes "map e_sequence_no (e # es) = map int [k..<k + length (e # es)]"
  shows "e_sequence_no e = int k" "map e_sequence_no es = map int [Suc k..<Suc k + length es]"
proof -
  have "[k..<k + length (e # es)] = k # [Suc k..<Suc k + length es]" by (simp add: upt_conv_Cons del: upt_Suc)
  then show "e_sequence_no e = int k" "map e_sequence_no es = map int [Suc k..<Suc k + length es]" using assms by simp_all
qed

lemma log_slice_tail:
  assumes "map e_sequence_no es = map int [k..<k + length es]" and "0 < k" and "list_all (event_shape q) es" and "list_all within_contract es"
    and "list_all (\<lambda>e. e_event_type e \<noteq> ''started'') es" and "list_all (\<lambda>e. \<not> terminal_event e) (butlast es)"
  shows "log_slice q (int k) es"
  using assms
proof (induction es arbitrary: k)
  case (Cons e es)
  note numbered_from [OF Cons.prems(1)]
  moreover have "list_all (\<lambda>e. \<not> terminal_event e) (butlast es)" "terminal_event e \<longrightarrow> es = []"
    using Cons.prems(6) by (auto split: if_splits)
  ultimately show ?case using Cons.IH [of "Suc k"] Cons.prems by (simp add: algebra_simps)
qed simp

lemma log_ok_slice:
  assumes "log_ok q es" and "list_all within_contract es"
  shows "log_slice q 0 es"
proof -
  from assms(1) obtain e fs where es: "es = e # fs" by (cases es) (auto simp: log_ok_def)
  have "map e_sequence_no (e # fs) = map int [0..<0 + length (e # fs)]" using assms(1) by (simp add: log_ok_def es)
  from numbered_from [OF this] have "map e_sequence_no fs = map int [1..<1 + length fs]" "e_sequence_no e = 0" by simp_all
  moreover have "list_all (\<lambda>e. \<not> terminal_event e) (butlast fs)" "terminal_event e \<longrightarrow> fs = []"
    using assms(1) by (auto simp: log_ok_def es split: if_splits)
  ultimately show ?thesis
    using log_slice_tail [of fs 1 q] assms by (simp add: log_ok_def es)
qed

lemma stream_rows_slice:
  assumes "\<And>d ev. strict_event d = Some ev \<Longrightarrow> validate d = Some ev"
    and "q_conversation_id q = Some cid" and "q_message_id q = Some mid"
    and "log_slice q (ss_expected s) es" and "0 \<le> ss_expected s" and "ss_started s \<longleftrightarrow> 0 < ss_expected s" and "\<not> ss_terminal s"
  shows "stream_rows validate (q_request_id q) cid mid (map stored es) s =
     (map (Some \<circ> published) es,
      Inr (s\<lparr>ss_expected := ss_expected s + int (length es), ss_started := (ss_started s \<or> es \<noteq> []),
             ss_terminal := (es \<noteq> [] \<and> terminal_event (last es))\<rparr>))"
  using assms(4-7)
proof (induction es arbitrary: s)
  case (Cons e es)
  note slice = Cons.prems(1) [unfolded log_slice.simps]
  obtain ev where ev: "strict_event (e_payload e) = Some ev" "event_of (q_request_id q) cid mid e ev"
    by (rule event_shape_typed [OF _ _ _ _ assms(2,3)]) (use slice Cons.prems(2) in auto)
  let ?s = "s\<lparr>ss_started := True, ss_expected := ss_expected s + 1, ss_terminal := (ss_terminal s \<or> event_type ev \<in> set TERMINAL_EVENTS)\<rparr>"
  have valid: "validate_event validate (q_request_id q) cid mid (ss_expected s) (\<not> ss_started s) (ss_terminal s) (stored e) = Inr ev"
    using assms(1) [OF ev(1)] ev(2) slice Cons.prems(2-4)
    by (auto simp: validate_event_def event_of_def split: ChatStreamEvent.splits)
  have ends: "(event_type ev \<in> set TERMINAL_EVENTS) = terminal_event e" using ev(2) by (simp add: event_of_def terminal_event_def)
  show ?case
  proof (cases "terminal_event e")
    case True
    then have "es = []" using slice by simp
    then show ?thesis using valid True ends ev(1) by (simp add: published_def del: stream_rows.simps(2)) (simp add: Let_def)
  next
    case False
    then have "stream_rows validate (q_request_id q) cid mid (map stored es) ?s =
      (map (Some \<circ> published) es, Inr (?s\<lparr>ss_expected := ss_expected ?s + int (length es), ss_started := (ss_started ?s \<or> es \<noteq> []),
             ss_terminal := (es \<noteq> [] \<and> terminal_event (last es))\<rparr>))"
      using slice Cons.prems ends by (intro Cons.IH) auto
    then show ?thesis using valid False ends ev(1) by (simp add: published_def Let_def algebra_simps)
  qed
qed simp


subsection \<open>Finding a request\<close>

lemma concat_guard: "concat (map (\<lambda>x. if P x then [f x] else []) xs) = map f (filter P xs)"
  by (induction xs) simp_all

lemma comprehension_once:
  assumes "distinct (map key cs)" and "c \<in> set cs" and "P c" and "\<And>x. P x \<Longrightarrow> key x = key c"
  shows "concat (map (\<lambda>x. if P x then [q] else []) cs) = [q]"
proof -
  have "filter P cs = filter (\<lambda>x. key x = key c \<and> P x) cs" by (rule filter_cong) (use assms(4) in auto)
  also have "\<dots> = [c]" by (rule distinct_key_filter_singleton [where Q = P, OF assms(1-3)])
  finally show ?thesis by (simp add: concat_guard [where f = "\<lambda>_. q"])
qed

lemma owned_filter:
  assumes "distinct (map cv_id (ch_conversations db))"
  shows "owned_requests db t actor cid rid =
    filter (\<lambda>q. q_tenant_id q = t \<and> q_actor_user_id q = Some actor \<and> q_conversation_id q = Some cid \<and> q_request_id q = rid \<and>
      list_ex (\<lambda>c. cv_tenant_id c = t \<and> cv_id c = cid \<and> cv_created_by_user_id c = actor) (ch_conversations db)) (ch_requests db)"
proof -
  define own where "own q c \<longleftrightarrow> cv_tenant_id c = q_tenant_id q \<and> q_conversation_id q = Some (cv_id c) \<and>
    q_tenant_id q = t \<and> q_actor_user_id q = Some actor \<and> q_conversation_id q = Some cid \<and> q_request_id q = rid \<and> cv_created_by_user_id c = actor"
    for q :: InferenceRequest and c :: Conversation
  have inner: "concat (map (\<lambda>c. if own q c then [q] else []) (ch_conversations db)) =
      (if list_ex (own q) (ch_conversations db) then [q] else [])" for q
  proof (cases "list_ex (own q) (ch_conversations db)")
    case True
    then obtain c where "c \<in> set (ch_conversations db)" "own q c" by (auto simp: list_ex_iff)
    then have "concat (map (\<lambda>c. if own q c then [q] else []) (ch_conversations db)) = [q]"
      by (rule comprehension_once [OF assms]) (use \<open>own q c\<close> in \<open>simp add: own_def\<close>)
    then show ?thesis using True by simp
  qed (auto simp: list_ex_iff)
  have "owned_requests db t actor cid rid = concat (map (\<lambda>q. concat (map (\<lambda>c. if own q c then [q] else []) (ch_conversations db))) (ch_requests db))"
    unfolding owned_requests_def own_def by (rule arg_cong [where f = concat], rule map_cong [OF refl], rule arg_cong [where f = concat], rule map_cong) auto
  also have "\<dots> = filter (\<lambda>q. list_ex (own q) (ch_conversations db)) (ch_requests db)"
    by (simp add: inner concat_guard [where f = "\<lambda>q. q"])
  also have "\<dots> = filter (\<lambda>q. q_tenant_id q = t \<and> q_actor_user_id q = Some actor \<and> q_conversation_id q = Some cid \<and> q_request_id q = rid \<and>
      list_ex (\<lambda>c. cv_tenant_id c = t \<and> cv_id c = cid \<and> cv_created_by_user_id c = actor) (ch_conversations db)) (ch_requests db)"
    by (rule filter_cong) (auto simp: own_def list_ex_iff)
  finally show ?thesis .
qed

lemma owned_mem:
  assumes "owned_requests db t actor cid rid = [q]" and "chat_inv db"
  shows "q \<in> set (ch_requests db)" "q_tenant_id q = t" "q_conversation_id q = Some cid" "q_request_id q = rid"
    "log_ok q (events_of db q)"
proof -
  have mem: "q \<in> set (owned_requests db t actor cid rid)" using assms(1) by simp
  show "q \<in> set (ch_requests db)" "q_tenant_id q = t" "q_conversation_id q = Some cid" "q_request_id q = rid"
    using owned_requests_mem [OF mem] by simp_all
  then show "log_ok q (events_of db q)" using chat_coreD(2) assms(2) by simp
qed

lemma owned_message:
  assumes "owned_requests db t actor cid rid = [q]" and "chat_inv db"
  obtains mid where "q_message_id q = Some mid"
    "assert_request db t actor cid rid = Inr \<lparr>rq_request_db_id = q_id q, rq_request_id = rid, rq_conversation_id = cid,
       rq_message_id = mid, rq_tenant_id = t, rq_status = q_status q, rq_last_event_sequence = q_last_event_sequence q\<rparr>"
proof -
  note q = owned_mem [OF assms]
  obtain e where "event_shape q e" using q(5) by (cases "events_of db q") (auto simp: log_ok_def)
  then obtain mid where "q_message_id q = Some mid" by (auto simp: event_shape_def)
  then show thesis using that q assms(1) by (simp add: assert_request_def request_record_def)
qed

lemma owned_moved:
  assumes "owned_requests db t actor cid rid = [q]" and "chat_inv db" and "chat_run db db'"
  obtains q' where "owned_requests db' t actor cid rid = [q']" "keeps_request q q'" "prefix (events_of db q) (events_of db' q')" "chat_inv db'"
proof -
  have moved: "chat_moved db db'" and inv': "chat_inv db'" using chat_run_moved [OF assms(3,2)] by simp_all
  note dist = chat_ok_distinct [OF chat_inv_ok [OF inv']]
  have "q \<in> set (owned_requests db t actor cid rid)" using assms(1) by simp
  then have q: "q \<in> set (ch_requests db)" "q_tenant_id q = t" "q_actor_user_id q = Some actor" "q_conversation_id q = Some cid" "q_request_id q = rid"
    and own: "list_ex (\<lambda>c. cv_tenant_id c = t \<and> cv_id c = cid \<and> cv_created_by_user_id c = actor) (ch_conversations db)"
    using chat_ok_distinct [OF chat_inv_ok [OF assms(2)]] by (auto simp: owned_filter)
  obtain q' where q': "q' \<in> set (ch_requests db')" "keeps_request q q'" "prefix (events_of db q) (events_of db' q')"
    using moved_log [OF moved q(1)] .
  have own': "list_ex (\<lambda>c. cv_tenant_id c = t \<and> cv_id c = cid \<and> cv_created_by_user_id c = actor) (ch_conversations db')"
    using own moved unfolding chat_moved_def list_ex_iff keeps_conversation_def by metis
  have "owned_requests db' t actor cid rid = filter (\<lambda>x. q_request_id x = q_request_id q' \<and>
      (q_tenant_id x = t \<and> q_actor_user_id x = Some actor \<and> q_conversation_id x = Some cid)) (ch_requests db')"
    unfolding owned_filter [OF dist(2)] by (rule filter_cong) (use q q'(2) own' in \<open>auto simp: keeps_request_def same_request_def\<close>)
  also have "\<dots> = [q']"
    by (rule distinct_key_filter_singleton [OF dist(4) q'(1)]) (use q q'(2) in \<open>simp add: keeps_request_def same_request_def\<close>)
  finally show thesis using that q' inv' by simp
qed

subsection \<open>The rows a turn reads\<close>

lemma filter_numbered:
  assumes "map e_sequence_no es = map int [i..<i + length es]"
  shows "filter (\<lambda>e. int k - 1 < e_sequence_no e) es = drop (k - i) es"
  using assms
proof (induction es arbitrary: i)
  case (Cons e es)
  note num = numbered_from [OF Cons.prems]
  have "filter (\<lambda>e. int k - 1 < e_sequence_no e) es = drop (k - Suc i) es" by (rule Cons.IH [OF num(2)])
  then show ?case using num(1) by (cases "k \<le> i") (auto simp: Suc_diff_le [symmetric] drop_Cons' not_le)
qed simp

lemma events_replay:
  assumes "owned_requests db t actor cid rid = [q]" and "chat_inv db"
  shows "events_in_transaction db t actor cid rid (int k - 1) = Inr (map stored (drop k (events_of db q)))"
proof -
  note q = owned_mem [OF assms]
  have rec: "traverse stream_event_record es = Inr (map stored es)" if "list_all (event_shape q) es" for es
    using that by (induction es) (auto simp: stream_event_record_def event_shape_def event_fields_def)
  have "filter (\<lambda>e. e_tenant_id e = t \<and> e_inference_request_id e = q_id q \<and> int k - 1 < e_sequence_no e) (ch_events db) =
      filter (\<lambda>e. int k - 1 < e_sequence_no e) (events_of db q)"
    using q(2) by (auto simp: events_of_def intro: filter_cong)
  moreover have "filter (\<lambda>e. int k - 1 < e_sequence_no e) (events_of db q) = drop k (events_of db q)"
    using filter_numbered [of "events_of db q" 0 k] q(5) by (simp add: log_ok_def)
  moreover have "list_all (event_shape q) (drop k (events_of db q))" using q(5) by (auto simp: log_ok_def list_all_iff dest: in_set_dropD)
  ultimately show ?thesis using assms(1) sorted_log [OF q(5), of "int k - 1"] rec by (simp add: events_in_transaction_def)
qed

subsection \<open>Turns\<close>

text \<open>
  \<open>observed db turns\<close>: each read of a reader sees a state that a run leads to from the one before. \<open>log_of\<close> is the
  log of the request a reader follows, \<open>last_seen\<close> the state of its last read.
\<close>

fun observed :: "chat_db \<Rightarrow> stream_turn list \<Rightarrow> bool" where
  "observed db [] = True"
| "observed db (turn # turns) = (chat_run db (tn_events turn) \<and> chat_run (tn_events turn) (tn_request turn) \<and> observed (tn_request turn) turns)"

fun last_seen :: "chat_db \<Rightarrow> stream_turn list \<Rightarrow> chat_db" where
  "last_seen db [] = db"
| "last_seen db (turn # turns) = last_seen (tn_request turn) turns"

definition log_of :: "chat_db \<Rightarrow> uuid \<Rightarrow> uuid \<Rightarrow> uuid \<Rightarrow> uuid \<Rightarrow> ChatEvent list" where
  "log_of db t actor cid rid = concat (map (events_of db) (owned_requests db t actor cid rid))"

definition snapshot_turn :: "stream_turn \<Rightarrow> bool" where
  "snapshot_turn turn \<longleftrightarrow> tn_request turn = tn_events turn"

definition events_only :: "stream_output \<Rightarrow> (string \<times> json) list list" where
  "events_only out = List.map_filter (\<lambda>x. x) out"

lemma events_only_simps [simp]:
  "events_only [] = []" "events_only (None # out) = events_only out" "events_only (Some x # out) = x # events_only out"
  "events_only (out @ out') = events_only out @ events_only out'" "events_only (map (Some \<circ> f) es) = map f es"
proof -
  show "events_only (map (Some \<circ> f) es) = map f es" by (induction es) (simp_all add: events_only_def map_filter_def)
qed (simp_all add: events_only_def map_filter_def)

lemma turn_wait_beats: "turn_wait cfg deadline turn no_rows s refreshed = (out, next) \<Longrightarrow> events_only out = []"
  by (auto simp: turn_wait_def Let_def split: if_splits option.splits)

lemma turn_wait_continues:
  assumes "turn_wait cfg deadline turn no_rows s refreshed = (out, TurnContinues s')"
  shows "ss_expected s' = ss_expected s" "ss_started s' = ss_started s" "ss_terminal s' = ss_terminal s"
    "rq_status refreshed \<in> set TERMINAL_REQUEST_STATUSES \<longrightarrow> ss_expected s \<le> rq_last_event_sequence refreshed \<and> \<not> no_rows"
  using assms by (auto simp: turn_wait_def Let_def split: if_splits)

lemma turn_wait_ends:
  assumes "turn_wait cfg deadline turn no_rows s refreshed = (out, TurnEnds e)"
  obtains (all) "e = Returned" "rq_status refreshed \<in> set TERMINAL_REQUEST_STATUSES" "rq_last_event_sequence refreshed < ss_expected s"
  | (late) "e = Returned" "deadline \<noteq> None \<or> sc_replay_fallback cfg \<le> 0"
  | (race) "e = Raised (Domain (ConversationInfrastructureError ''STREAM_EVENT_SEQUENCE_INVALID''))" "no_rows"
      "rq_status refreshed \<in> set TERMINAL_REQUEST_STATUSES" "ss_expected s \<le> rq_last_event_sequence refreshed"
  using assms by (auto simp: turn_wait_def Let_def min_def split: if_splits option.splits)

lemma finished_iff: "q_status q \<in> set TERMINAL_REQUEST_STATUSES \<longleftrightarrow> \<not> in_flight q"
  by (cases "q_status q") (simp_all add: TERMINAL_REQUEST_STATUSES_def in_flight_def)

text \<open>A reader's position in a log: \<open>k\<close> events given, none of them terminal.\<close>

definition reader_at :: "stream_state \<Rightarrow> ChatEvent list \<Rightarrow> nat \<Rightarrow> bool" where
  "reader_at s es k \<longleftrightarrow>
     ss_expected s = int k \<and> (ss_started s \<longleftrightarrow> 0 < k) \<and> \<not> ss_terminal s \<and> k \<le> length es \<and> list_all (\<lambda>e. \<not> terminal_event e) (take k es)"

lemma reader_at_prefix:
  assumes "reader_at s es k" and "prefix es fs"
  shows "reader_at s fs k"
  using assms by (auto simp: reader_at_def elim!: prefixE)

lemma turn_reads:
  assumes ext: "\<And>d ev. strict_event d = Some ev \<Longrightarrow> validate d = Some ev"
    and own: "owned_requests (tn_events turn) t actor cid (rq_request_id request) = [q]" and inv: "chat_inv (tn_events turn)"
    and mid: "q_message_id q = Some (rq_message_id request)"
    and pos: "reader_at s (events_of (tn_events turn) q) k" and fit: "list_all within_contract (events_of (tn_events turn) q)"
  obtains s' where
    "stream_turn_step validate cfg deadline t actor cid request turn s =
       (if ss_terminal s' then (map (Some \<circ> published) (drop k (events_of (tn_events turn) q)), TurnEnds Returned)
        else case assert_request (tn_request turn) t actor cid (rq_request_id request) of
            Inl e \<Rightarrow> (map (Some \<circ> published) (drop k (events_of (tn_events turn) q)), TurnEnds (Raised e))
          | Inr refreshed \<Rightarrow>
              let (beats, next) = turn_wait cfg deadline turn (drop k (events_of (tn_events turn) q) = []) s' refreshed
              in (map (Some \<circ> published) (drop k (events_of (tn_events turn) q)) @ beats, next))"
    "ss_terminal s' = (\<not> in_flight q)"
    "ss_terminal s' \<or> reader_at s' (events_of (tn_events turn) q) (length (events_of (tn_events turn) q))"
proof -
  let ?es = "events_of (tn_events turn) q"
  note q = owned_mem [OF own inv]
  have exp: "ss_expected s = int k" "ss_started s \<longleftrightarrow> 0 < k" "\<not> ss_terminal s" "k \<le> length ?es"
    and open_log: "list_all (\<lambda>e. \<not> terminal_event e) (take k ?es)" using pos by (simp_all add: reader_at_def)
  have log: "?es \<noteq> []" "terminal_event (last ?es) \<longleftrightarrow> \<not> in_flight q" using q(5) by (simp_all add: log_ok_def)
  have slice: "log_slice q (ss_expected s) (drop k ?es)"
    using log_slice_drop [OF log_ok_slice [OF q(5) fit], of k] exp(1) by simp
  let ?s = "s\<lparr>ss_expected := ss_expected s + int (length (drop k ?es)), ss_started := (ss_started s \<or> drop k ?es \<noteq> []),
             ss_terminal := (drop k ?es \<noteq> [] \<and> terminal_event (last (drop k ?es)))\<rparr>"
  have rows: "stream_rows validate (rq_request_id request) cid (rq_message_id request) (map stored (drop k ?es)) s =
      (map (Some \<circ> published) (drop k ?es), Inr ?s)"
    using stream_rows_slice [OF ext q(3) mid slice] exp q(4) by simp
  have read: "events_in_transaction (tn_events turn) t actor cid (rq_request_id request) (ss_expected s - 1) = Inr (map stored (drop k ?es))"
    using events_replay [OF own inv, of k] exp(1) by simp
  have terminal: "ss_terminal ?s = (\<not> in_flight q)"
  proof (cases "k = length ?es")
    case True
    then have "\<not> terminal_event (last ?es)" using open_log log(1) by (simp add: list_all_iff)
    then show ?thesis using True log(2) by simp
  next
    case False
    then show ?thesis using exp(4) log(2) by (simp add: last_drop)
  qed
  have at_end: "reader_at ?s ?es (length ?es)" if "\<not> ss_terminal ?s"
  proof -
    have "list_all (\<lambda>e. \<not> terminal_event e) ?es" by (rule live_log_open(1) [OF q(5)]) (use that terminal in blast)
    then show ?thesis using that exp log(1) by (auto simp: reader_at_def)
  qed
  show thesis
  proof (rule that)
    define s' where "s' = ?s"
    show "stream_turn_step validate cfg deadline t actor cid request turn s =
       (if ss_terminal s' then (map (Some \<circ> published) (drop k ?es), TurnEnds Returned)
        else case assert_request (tn_request turn) t actor cid (rq_request_id request) of
            Inl e \<Rightarrow> (map (Some \<circ> published) (drop k ?es), TurnEnds (Raised e))
          | Inr refreshed \<Rightarrow>
              let (beats, next) = turn_wait cfg deadline turn (drop k ?es = []) s' refreshed
              in (map (Some \<circ> published) (drop k ?es) @ beats, next))"
      unfolding stream_turn_step_def read rows [folded s'_def] sum.case prod.case map_is_Nil_conv ..
    show "ss_terminal s' = (\<not> in_flight q)" "ss_terminal s' \<or> reader_at s' ?es (length ?es)"
      using terminal at_end unfolding s'_def by blast+
  qed
qed

lemma closed_log:
  assumes "log_ok q es" and "log_ok q' es'" and "keeps_request q q'" and "prefix es es'" and "\<not> in_flight q"
  shows "es' = es"
proof -
  have "q' = q" using assms(3,5) by (simp add: keeps_request_def)
  then have "length es' = length es" using assms(1,2) by (simp add: log_ok_def)
  then show ?thesis using assms(4) by (auto elim!: prefixE)
qed

lemma last_seen_owned:
  assumes "owned_requests db t actor cid rid = [q]" and "chat_inv db" and "observed db turns"
  obtains q' where "owned_requests (last_seen db turns) t actor cid rid = [q']" "keeps_request q q'"
    "prefix (events_of db q) (events_of (last_seen db turns) q')" "chat_inv (last_seen db turns)"
proof -
  have "\<exists>q'. owned_requests (last_seen db turns) t actor cid rid = [q'] \<and> keeps_request q q' \<and>
    prefix (events_of db q) (events_of (last_seen db turns) q') \<and> chat_inv (last_seen db turns)"
    using assms
  proof (induction turns arbitrary: db q)
    case (Cons turn turns)
    then have "chat_run db (tn_request turn)" by (auto intro: rtranclp_trans)
    then obtain q2 where q2: "owned_requests (tn_request turn) t actor cid rid = [q2]" "keeps_request q q2"
      "prefix (events_of db q) (events_of (tn_request turn) q2)" "chat_inv (tn_request turn)"
      by (rule owned_moved [OF Cons.prems(1,2)])
    then show ?case using Cons.IH [of "tn_request turn" q2] Cons.prems(3) keeps_request_trans prefix_order.trans by fastforce
  qed auto
  then show thesis using that by blast
qed

definition follows ::
  "stream_config \<Rightarrow> int option \<Rightarrow> stream_turn list \<Rightarrow> ChatEvent list \<Rightarrow> nat \<Rightarrow> stream_output \<times> stream_end \<Rightarrow> bool" where
  "follows cfg deadline turns L k r \<longleftrightarrow>
     (\<exists>n. k \<le> n \<and> n \<le> length L \<and> events_only (fst r) = map published (drop k (take n L)) \<and>
       (case snd r of
          Returned \<Rightarrow> deadline = None \<and> 0 < sc_replay_fallback cfg \<longrightarrow> n = length L \<and> terminal_event (last L)
        | Raised e \<Rightarrow> e = Domain (ConversationInfrastructureError ''STREAM_EVENT_SEQUENCE_INVALID'') \<and> \<not> list_all snapshot_turn turns
        | Open \<Rightarrow> list_all snapshot_turn turns \<and> turns \<noteq> [] \<longrightarrow> n = length L \<and> \<not> terminal_event (last L)))"

lemma follows_append:
  assumes "follows cfg deadline turns L (length es) (rest, e)" and "prefix es L" and "k \<le> length es" and "events_only out = map published (drop k es)"
    and "list_all snapshot_turn (turn # turns) \<Longrightarrow> turns = [] \<Longrightarrow> L = es \<and> \<not> terminal_event (last es)"
  shows "follows cfg deadline (turn # turns) L k (out @ rest, e)"
proof -
  from assms(1) obtain n where n: "length es \<le> n" "n \<le> length L" "events_only rest = map published (drop (length es) (take n L))"
    and ends: "case e of Returned \<Rightarrow> deadline = None \<and> 0 < sc_replay_fallback cfg \<longrightarrow> n = length L \<and> terminal_event (last L)
        | Raised e \<Rightarrow> e = Domain (ConversationInfrastructureError ''STREAM_EVENT_SEQUENCE_INVALID'') \<and> \<not> list_all snapshot_turn turns
        | Open \<Rightarrow> list_all snapshot_turn turns \<and> turns \<noteq> [] \<longrightarrow> n = length L \<and> \<not> terminal_event (last L)"
    by (auto simp: follows_def)
  from assms(2) obtain fs where L: "L = es @ fs" by (auto elim: prefixE)
  have "drop k (take n L) = drop k es @ drop (length es) (take n L)" using n(1) assms(3) by (simp add: L)
  then have "events_only (out @ rest) = map published (drop k (take n L))" using n(3) assms(4) by simp
  moreover have "list_all snapshot_turn (turn # turns) \<and> e = Open \<longrightarrow> n = length L \<and> \<not> terminal_event (last L)"
    using ends assms(5) n by (cases "turns = []") auto
  ultimately show ?thesis
    unfolding follows_def using n assms(3) ends by (intro exI [of _ n]) (auto split: stream_end.splits)
qed

lemma stream_turns_follow:
  assumes ext: "\<And>d ev. strict_event d = Some ev \<Longrightarrow> validate d = Some ev"
    and "owned_requests db t actor cid (rq_request_id request) = [q]" and "chat_inv db"
    and "q_message_id q = Some (rq_message_id request)" and "observed db turns" and "reader_at s (events_of db q) k"
    and "list_all within_contract (log_of (last_seen db turns) t actor cid (rq_request_id request))"
  shows "follows cfg deadline turns (log_of (last_seen db turns) t actor cid (rq_request_id request)) k
    (stream_turns validate cfg deadline t actor cid request turns s)"
  using assms(2-)
proof (induction turns arbitrary: db q s k)
  case Nil
  then show ?case by (auto simp: follows_def reader_at_def log_of_def intro!: exI [of _ k])
next
  case (Cons turn turns)
  let ?own = "\<lambda>db. owned_requests db t actor cid (rq_request_id request)"
  have runs: "chat_run db (tn_events turn)" "chat_run (tn_events turn) (tn_request turn)" and obs: "observed (tn_request turn) turns"
    using Cons.prems(4) by simp_all
  obtain q1 where q1: "?own (tn_events turn) = [q1]" "keeps_request q q1" "prefix (events_of db q) (events_of (tn_events turn) q1)"
    "chat_inv (tn_events turn)" by (rule owned_moved [OF Cons.prems(1,2) runs(1)])
  obtain q2 where q2: "?own (tn_request turn) = [q2]" "keeps_request q1 q2"
    "prefix (events_of (tn_events turn) q1) (events_of (tn_request turn) q2)" "chat_inv (tn_request turn)"
    by (rule owned_moved [OF q1(1,4) runs(2)])
  obtain q3 where q3: "?own (last_seen db (turn # turns)) = [q3]" "keeps_request q2 q3"
    "prefix (events_of (tn_request turn) q2) (events_of (last_seen db (turn # turns)) q3)" "chat_inv (last_seen db (turn # turns))"
    using last_seen_owned [OF q2(1,4) obs] by (metis last_seen.simps(2))
  define es1 es2 L where es: "es1 = events_of (tn_events turn) q1" "es2 = events_of (tn_request turn) q2" "L = events_of (last_seen db (turn # turns)) q3"
  have L: "log_of (last_seen db (turn # turns)) t actor cid (rq_request_id request) = L" using q3(1) by (simp add: log_of_def es)
  have pre: "prefix es1 es2" "prefix es2 L" "prefix es1 L" using q2(3) q3(3) prefix_order.trans by (auto simp: es)
  have logs: "log_ok q1 es1" "log_ok q2 es2" "log_ok q3 L" using owned_mem(5) [OF q1(1,4)] owned_mem(5) [OF q2(1,4)] owned_mem(5) [OF q3(1,4)] by (simp_all add: es)
  have mids: "q_message_id q1 = Some (rq_message_id request)" "q_message_id q2 = Some (rq_message_id request)"
    using Cons.prems(3) q1(2) q2(2) by (simp_all add: keeps_request_def same_request_def)
  have pos: "reader_at s es1 k" using reader_at_prefix [OF Cons.prems(5) q1(3)] by (simp add: es)
  have k: "k \<le> length es1" "length es1 \<le> length L" using pos pre(3) by (simp_all add: reader_at_def prefix_length_le)
  have taken: "take (length es1) L = es1" using pre(3) by (auto elim: prefixE)
  have fit: "list_all within_contract es1" using Cons.prems(6) pre(3) unfolding L by (auto elim!: prefixE)
  obtain s1 where step: "stream_turn_step validate cfg deadline t actor cid request turn s =
       (if ss_terminal s1 then (map (Some \<circ> published) (drop k es1), TurnEnds Returned)
        else case assert_request (tn_request turn) t actor cid (rq_request_id request) of
            Inl e \<Rightarrow> (map (Some \<circ> published) (drop k es1), TurnEnds (Raised e))
          | Inr refreshed \<Rightarrow>
              let (beats, next) = turn_wait cfg deadline turn (drop k es1 = []) s1 refreshed in (map (Some \<circ> published) (drop k es1) @ beats, next))"
    and s1: "ss_terminal s1 = (\<not> in_flight q1)" "ss_terminal s1 \<or> reader_at s1 es1 (length es1)"
    unfolding es by (rule turn_reads [where validate = validate, OF _ q1(1,4) mids(1) pos [unfolded es] fit [unfolded es]]) (erule ext)
  show ?case unfolding L
  proof (cases "in_flight q1")
    case False
    have "L = es1"
      using closed_log [OF logs(1) logs(3) keeps_request_trans [OF q2(2) q3(2)] pre(3) False] .
    then show "follows cfg deadline (turn # turns) L k (stream_turns validate cfg deadline t actor cid request (turn # turns) s)"
      using False step s1(1) k logs(1) by (auto simp: follows_def log_ok_def intro!: exI [of _ "length es1"])
  next
    case True
    then have at1: "reader_at s1 es1 (length es1)" "\<not> ss_terminal s1" "\<not> terminal_event (last es1)" using s1 logs(1) by (auto simp: log_ok_def)
    obtain refreshed where ref: "assert_request (tn_request turn) t actor cid (rq_request_id request) = Inr refreshed"
      "rq_status refreshed = q_status q2" "rq_last_event_sequence refreshed = q_last_event_sequence q2"
      using owned_message [OF q2(1,4)] by (metis ChatRequestRecord.select_convs(6,7))
    obtain beats "next" where wait: "turn_wait cfg deadline turn (drop k es1 = []) s1 refreshed = (beats, next)" by fastforce
    have out: "stream_turn_step validate cfg deadline t actor cid request turn s = (map (Some \<circ> published) (drop k es1) @ beats, next)"
      using step at1(2) ref(1) wait by simp
    have given: "events_only (map (Some \<circ> published) (drop k es1) @ beats) = map published (drop k es1)"
      using turn_wait_beats [OF wait] by simp
    have snap: "q2 = q1 \<and> es2 = es1" if "snapshot_turn turn" using that q1(1) q2(1) by (simp add: snapshot_turn_def es)
    show "follows cfg deadline (turn # turns) L k (stream_turns validate cfg deadline t actor cid request (turn # turns) s)"
    proof (cases "next")
      case (TurnEnds e)
      have "case e of Returned \<Rightarrow> deadline \<noteq> None \<or> sc_replay_fallback cfg \<le> 0
         | Raised x \<Rightarrow> x = Domain (ConversationInfrastructureError ''STREAM_EVENT_SEQUENCE_INVALID'') \<and> \<not> snapshot_turn turn | Open \<Rightarrow> False"
        using wait [unfolded TurnEnds]
      proof (cases rule: turn_wait_ends)
        case all
        then have "\<not> in_flight q2" "length es2 \<le> length es1" using ref(2,3) logs(2) at1(1) finished_iff [of q2] by (auto simp: log_ok_def reader_at_def)
        then have "es2 = es1" "terminal_event (last es2)" using pre(1) logs(2) by (auto simp: log_ok_def elim!: prefixE)
        then show ?thesis using at1(3) by simp
      next
        case race
        then show ?thesis using ref(2) finished_iff [of q2] snap True by auto
      qed simp
      then show ?thesis using out TurnEnds given k taken by (auto simp: follows_def intro!: exI [of _ "length es1"] split: stream_end.splits)
    next
      case (TurnContinues s2)
      note cont = turn_wait_continues [OF wait [unfolded TurnContinues]]
      have "reader_at s2 es2 (length es1)" using reader_at_prefix [OF at1(1) pre(1)] cont by (simp add: reader_at_def)
      then have "follows cfg deadline turns L (length es1) (stream_turns validate cfg deadline t actor cid request turns s2)"
        using Cons.IH [OF q2(1,4) mids(2) obs, of s2 "length es1"] Cons.prems(6) L by (simp add: es)
      then obtain rest e where rest: "stream_turns validate cfg deadline t actor cid request turns s2 = (rest, e)"
        "follows cfg deadline turns L (length es1) (rest, e)" by (metis prod.collapse)
      have "follows cfg deadline (turn # turns) L k ((map (Some \<circ> published) (drop k es1) @ beats) @ rest, e)"
        by (rule follows_append [OF rest(2) pre(3) k(1) given]) (use snap at1(3) q2(1) q3(1) in \<open>auto simp: es\<close>)
      then show ?thesis using out TurnContinues rest(1) by simp
    qed
  qed
qed

text \<open>A reader that opens at a cursor: the state of the loop, unless the log is already given in full.\<close>

lemma stream_follow:
  assumes ext: "\<And>d ev. strict_event d = Some ev \<Longrightarrow> validate d = Some ev"
    and own: "owned_requests db t actor cid rid = [q]" and inv: "chat_inv db" and obs: "observed db turns"
    and fit: "list_all within_contract (log_of (last_seen db turns) t actor cid rid)"
    and cursor: "cursor = (if k = 0 \<and> implicit then None else Some (int k - 1))" "k \<le> length (events_of db q)"
    and beats: "sc_include_heartbeats cfg \<longrightarrow> 0 < sc_heartbeat_interval cfg"
    and reading: "in_flight q \<or> k < length (events_of db q)"
  shows "follows cfg (map_option ((+) opened) (sc_max_duration cfg)) turns (log_of (last_seen db turns) t actor cid rid) k
    (stream validate cfg db opened beat t actor cid rid cursor turns)"
proof -
  note q = owned_mem [OF own inv]
  let ?es = "events_of db q"
  obtain mid where mid: "q_message_id q = Some mid"
    and req: "assert_request db t actor cid rid = Inr \<lparr>rq_request_db_id = q_id q, rq_request_id = rid, rq_conversation_id = cid,
       rq_message_id = mid, rq_tenant_id = t, rq_status = q_status q, rq_last_event_sequence = q_last_event_sequence q\<rparr>"
    by (rule owned_message [OF own inv])
  have log: "?es \<noteq> []" "q_last_event_sequence q = int (length ?es) - 1" "list_all (\<lambda>e. \<not> terminal_event e) (butlast ?es)"
    "terminal_event (last ?es) \<longleftrightarrow> \<not> in_flight q" "e_event_type (hd ?es) = ''started''"
    using q(5) by (simp_all add: log_ok_def)
  have norm: "(case cursor of None \<Rightarrow> -1 | Some c \<Rightarrow> c) = int k - 1" using cursor(1) by simp
  have two: "2 \<le> length ?es" if "\<not> in_flight q"
  proof -
    have "last ?es \<noteq> hd ?es" using that log(4,5) by (auto simp: terminal_event_def)
    then show ?thesis using log(1) by (cases ?es) (auto simp: Suc_le_eq)
  qed
  have "list_all (\<lambda>e. \<not> terminal_event e) (take k ?es)"
  proof (cases "in_flight q")
    case True
    then show ?thesis using live_log_open(1) [OF q(5)] by (auto simp: list_all_iff dest: in_set_takeD)
  next
    case False
    then have "take k ?es = take k (butlast ?es)" using reading by (simp add: butlast_conv_take)
    then show ?thesis using log(3) by (auto simp: list_all_iff dest: in_set_takeD)
  qed
  then have pos: "reader_at \<lparr>ss_expected = int k, ss_started = (0 \<le> int k - 1), ss_terminal = False, ss_last_heartbeat = beat\<rparr> ?es k"
    using cursor(2) by (simp add: reader_at_def)
  have "stream validate cfg db opened beat t actor cid rid cursor turns =
      stream_turns validate cfg (map_option ((+) opened) (sc_max_duration cfg)) t actor cid
        \<lparr>rq_request_db_id = q_id q, rq_request_id = rid, rq_conversation_id = cid, rq_message_id = mid, rq_tenant_id = t,
         rq_status = q_status q, rq_last_event_sequence = q_last_event_sequence q\<rparr> turns
        \<lparr>ss_expected = int k, ss_started = (0 \<le> int k - 1), ss_terminal = False, ss_last_heartbeat = beat\<rparr>"
    using beats reading two log(2) cursor(2) finished_iff [of q] by (auto simp: stream_def norm req Let_def)
  then show ?thesis
    using stream_turns_follow [where validate = validate and request = "\<lparr>rq_request_db_id = q_id q, rq_request_id = rid, rq_conversation_id = cid, rq_message_id = mid, rq_tenant_id = t,
         rq_status = q_status q, rq_last_event_sequence = q_last_event_sequence q\<rparr>", OF ext] own inv mid obs pos fit by simp
qed

end
