(* ===== verification/Chat_Demo.thy ===== *)
theory Chat_Demo
  imports Chat_Reading
begin

text \<open>
  A concrete conversation, run through the model from empty chat tables: it is created, a message is submitted,
  a worker claims the request, and the request is left unknown. The states are the inputs at which the properties of
  the chat subsystem are instantiated.
\<close>

definition chat_tariff :: PriceVersion where
  "chat_tariff = \<lparr>pv_id = 1, pv_price_key = ''chat'', pv_version = 1, pv_currency = ''PTS'', pv_unit = ''local_metered_usage'',
     pv_pricing = [(''schema'', JStr ''local_tariff_v1''), (''currency'', JStr ''PTS''), (''rounding'', JStr ''integer_sum''),
       (''reservation_minor'', JInt 300), (''minimum_charge_minor'', JInt 2), (''components'', JObj [(''output_tokens'', JInt 1)])]\<rparr>"

definition chat_catalog :: catalog_db where
  "chat_catalog =
     \<lparr>c_products = [\<lparr>pm_id = 1, pm_model_key = ''chat'', pm_display_name = ''C'', pm_modality = ''text'', pm_task_type = ''chat'',
        pm_status = ''active'', pm_capabilities = [], pm_pricing_summary = [], pm_description = None\<rparr>],
      c_entitlements = [\<lparr>te_tenant_id = 1, te_product_model_id = 1, te_enabled = True, te_config = []\<rparr>],
      c_endpoints = [\<lparr>pe_id = 2, pe_endpoint_key = ''e'', pe_provider_name = ''bailian'', pe_protocol = ''openai_compatible'',
        pe_base_url = ''u'', pe_secret_ref = ''env:DASHSCOPE_API_KEY'', pe_status = ''active'', pe_config = []\<rparr>],
      c_deployments = [\<lparr>md_id = 3, md_product_model_id = 1, md_provider_endpoint_id = 2, md_provider_model_id = ''m'',
        md_status = ''active'', md_priority = 0, md_concurrency_limit = 4, md_routing_config = [], md_created_at = 0\<rparr>],
      c_revisions = [\<lparr>mr_id = 4, mr_product_model_id = 1, mr_version = 1, mr_capability_schema_version = 1,
        mr_capability_schema = JObj [], mr_capability_schema_hash = replicate 64 CHR ''0''\<rparr>],
      c_policies = [\<lparr>po_id = 5, po_model_revision_id = 4, po_version = 1, po_strategy = ''priority''\<rparr>],
      c_prices = [\<lparr>cp_row = chat_tariff, cp_model_revision_id = 4, cp_effective_from = 0, cp_effective_to = None\<rparr>],
      c_bindings = [\<lparr>pb_model_revision_id = 4, pb_model_deployment_id = 3, pb_price_version_id = 1, pb_effective_from = 0,
        pb_effective_to = None\<rparr>]\<rparr>"

definition no_chat :: "catalog_db \<Rightarrow> billing_db \<Rightarrow> chat_db" where
  "no_chat catalog billing =
     \<lparr>ch_requests = [], ch_conversations = [], ch_messages = [], ch_events = [], ch_idempotency = [], ch_outbox = [],
      ch_catalog = catalog, ch_billing = billing\<rparr>"

definition chat_wallets :: billing_db where
  "chat_wallets = granted_db\<lparr>price_versions := [chat_tariff]\<rparr>"

definition demo_conversation :: Conversation where
  "demo_conversation = \<lparr>cv_id = 201, cv_tenant_id = 1, cv_created_by_user_id = 5, cv_product_model_id = 1, cv_title = Some ''C'',
     cv_status = ''active'', cv_active_inference_request_id = None, cv_version = 0, cv_created_at = 1000, cv_updated_at = 1000\<rparr>"

definition chat_created :: chat_db where
  "chat_created = (no_chat chat_catalog chat_wallets)\<lparr>ch_conversations := [demo_conversation]\<rparr>"

definition demo_fresh :: chat_fresh where
  "demo_fresh = \<lparr>cf_idempotency_id = 300, cf_conversation_id = 301, cf_user_message_id = 302, cf_assistant_message_id = 303,
     cf_request_db_id = 304, cf_request_id = 305, cf_reservation_id = 306, cf_ledger_id = 307, cf_event_id = 308,
     cf_outbox_id = 309, cf_now = 1000, cf_db_now = 1001\<rparr>"

definition chat_decision :: AcceptedDecisionSnapshot where
  "chat_decision = \<lparr>ad_model_revision_id = 4, ad_model_deployment_id = 3, ad_routing_policy_id = 5, ad_price_version_id = 1,
     ad_price = \<lparr>ps_price_version_id = 1, ps_price_key = ''chat'', ps_version = 1, ps_currency = ''PTS'', ps_unit = ''local_metered_usage'',
       ps_pricing = pv_pricing chat_tariff\<rparr>,
     ad_capability_schema_version = 1, ad_capability_schema_hash = replicate 64 CHR ''0'', ad_capability_schema = []\<rparr>"

definition demo_request :: InferenceRequest where
  "demo_request = accepted_request demo_fresh 1 5 201 303 3 ''h'' None (Some ''hi'') chat_decision"

definition chat_held :: "ReservationResult \<times> billing_db" where
  "chat_held = (let b = chat_wallets\<lparr>inference_requests := [priced_request demo_request]\<rparr> in
     projr (reserve_in_transaction b b b 306 307 1000 1 ''chat_inference'' 304 (ad_price chat_decision) (Aware (1000 + seconds (15 * 60)))))"

definition queued_request :: InferenceRequest where
  "queued_request = demo_request\<lparr>q_billing_reservation_id := Some 306, q_last_event_sequence := 0\<rparr>"

definition demo_messages :: "Message list" where
  "demo_messages = [user_message demo_fresh 1 5 201 1 ''hi'', assistant_message demo_fresh 1 201 2]"

definition linked_messages :: "Message list" where
  "linked_messages = [user_message demo_fresh 1 5 201 1 ''hi'', (assistant_message demo_fresh 1 201 2)\<lparr>m_request_id := Some 304\<rparr>]"

definition started_event :: ChatEvent where
  "started_event = event_row 308 queued_request 0 ''started'' (event_fields ''started'' 305 201 303 0) 1000"

definition queued_chat :: "billing_db \<Rightarrow> chat_db" where
  "queued_chat billing = (no_chat chat_catalog billing)
     \<lparr>ch_requests := [queued_request],
      ch_conversations := [demo_conversation\<lparr>cv_active_inference_request_id := Some 304, cv_version := 1\<rparr>],
      ch_messages := linked_messages, ch_events := [started_event],
      ch_idempotency := [\<lparr>id_id = 300, id_tenant_id = 1, id_actor_user_id = 5, id_operation = CONVERSATION_SEND, id_key = ''k'',
        id_request_hash = ''h'', id_status = ''completed'', id_response_status = Some 202,
        id_response_body = Some [(''request_id'', JStr (str_uuid 305)), (''message_id'', JStr (str_uuid 303)), (''conversation_id'', JStr (str_uuid 201))],
        id_resource_type = Some ''inference_request'', id_resource_id = Some 304\<rparr>],
      ch_outbox := [chat_outbox_event demo_fresh 1 201 1 303 3 306]\<rparr>"

definition chat_queued :: chat_db where
  "chat_queued = queued_chat (snd chat_held)"

definition demo_chat_usage :: ChatUsageRecord where
  "demo_chat_usage = \<lparr>cu_request_db_id = 304, cu_request_id = 305, cu_tenant_id = 1, cu_deployment_id = 3, cu_provider_request_id = Some ''p'',
     cu_usage = \<lparr>us_prompt_tokens = 3, us_completion_tokens = 4, us_total_tokens = 7\<rparr>\<rparr>"

subsection \<open>The submission\<close>

lemma chat_decision: "resolve_accepted_decision chat_catalog 1 3 1000 = Inr (Some chat_decision)"
  by code_simp

lemma chat_held:
  "(let b = chat_wallets\<lparr>inference_requests := [priced_request demo_request]\<rparr> in
     reserve_in_transaction b b b 306 307 1000 1 ''chat_inference'' 304 (ad_price chat_decision) (Aware (1000 + seconds (15 * 60)))) = Inr chat_held"
proof -
  have "\<not> isl (let b = chat_wallets\<lparr>inference_requests := [priced_request demo_request]\<rparr> in
     reserve_in_transaction b b b 306 307 1000 1 ''chat_inference'' 304 (ad_price chat_decision) (Aware (1000 + seconds (15 * 60))))"
    unfolding chat_wallets_def granted_db_eval by code_simp
  then show ?thesis by (simp add: chat_held_def Let_def)
qed

lemma chat_held_id: "rr_reservation_id (fst chat_held) = 306"
  unfolding chat_held_def chat_wallets_def granted_db_eval by code_simp

lemma append_request_I:
  assumes "dm = db\<lparr>ch_messages := ch_messages db @ appended_messages db fr t actor (cv_id c) content am\<rparr>" and "chat_ok dm"
    and "mid = (case am of None \<Rightarrow> cf_assistant_message_id fr | Some i \<Rightarrow> i)"
    and "resolve_accepted_decision (ch_catalog dm) (cv_product_model_id c) dep (cf_now fr) = Inr (Some decision)"
    and "q = accepted_request fr t actor (cv_id c) mid dep h parent content decision"
    and "dq = dm\<lparr>ch_requests := ch_requests dm @ [q]\<rparr>" and "chat_ok dq"
    and "reserve_in_transaction (chat_billing dq) (chat_billing dq) (chat_billing dq) (cf_reservation_id fr) (cf_ledger_id fr)
           (cf_now fr) t ''chat_inference'' (q_id q) (ad_price decision) (Aware (cf_now fr + seconds (15 * 60))) = Inr (reservation, billing)"
    and "qh = q\<lparr>q_billing_reservation_id := Some (rr_reservation_id reservation)\<rparr>"
    and "dh = put_request qh (dq\<lparr>ch_billing := billing\<rparr>)" and "chat_ok dh"
    and "filter (\<lambda>m. m_tenant_id m = t \<and> m_id m = mid \<and> m_conversation_id m = cv_id c) (ch_messages dh) = [m]"
    and "dl = put_message (m\<lparr>m_request_id := Some (q_id q), m_updated_at := cf_db_now fr\<rparr>) dh" and "chat_ok dl"
    and "de = add_event (event_row (cf_event_id fr) qh 0 ''started'' (event_fields ''started'' (q_request_id q) (cv_id c) mid 0) (cf_now fr))
       (put_request (qh\<lparr>q_last_event_sequence := 0\<rparr>) (put_conversation (c\<lparr>cv_active_inference_request_id := Some (q_id q),
          cv_version := cv_version c + 1, cv_updated_at := cf_now fr\<rparr>) dl))" and "chat_ok de"
    and "outbox_unique (ch_outbox de @ [chat_outbox_event fr t (cv_id c) (cv_version c + 1) mid dep (rr_reservation_id reservation)])"
    and "request_record (qh\<lparr>q_last_event_sequence := 0\<rparr>) = Inr r"
  shows "append_request_transaction db fr t actor c dep content am h parent =
    Inr (r, de\<lparr>ch_outbox := ch_outbox de @ [chat_outbox_event fr t (cv_id c) (cv_version c + 1) mid dep (rr_reservation_id reservation)]\<rparr>)"
proof -
  have "chat_flush dm = Inr dm" "chat_flush dq = Inr dq" "chat_flush dh = Inr dh" "chat_flush dl = Inr dl" "chat_flush de = Inr de"
    using assms by simp_all
  then show ?thesis using assms(4,8,12,17,18)
    unfolding append_request_transaction_def append_event_def Let_def
    by (simp flip: assms(1,3,5,6,9,10,13,15) add: require_def)
qed

lemma same_chat_ok: "same_chat db db' \<Longrightarrow> chat_ok db' = chat_ok db"
  by (simp add: chat_ok_def chat_numeric_def chat_checks_def chat_unique_def chat_references_def same_chat_def)

lemma demo_messages: "appended_messages (chat_created\<lparr>ch_idempotency := rs\<rparr>) demo_fresh 1 5 201 (Some ''hi'') None = demo_messages"
  by (simp add: appended_messages_def demo_messages_def max_sequence_def chat_created_def no_chat_def)

abbreviation demo_stage :: "Conversation list \<Rightarrow> Message list \<Rightarrow> InferenceRequest list \<Rightarrow> ChatEvent list \<Rightarrow> chat_db" where
  "demo_stage cs ms qs es \<equiv> (no_chat chat_catalog empty_db)\<lparr>ch_conversations := cs, ch_messages := ms, ch_requests := qs, ch_events := es\<rparr>"

lemma demo_stage_ok:
  "chat_ok (demo_stage [demo_conversation] demo_messages [] [])"
  "chat_ok (demo_stage [demo_conversation] demo_messages [demo_request] [])"
  "chat_ok (demo_stage [demo_conversation] demo_messages [demo_request\<lparr>q_billing_reservation_id := Some 306\<rparr>] [])"
  "chat_ok (demo_stage [demo_conversation] linked_messages [demo_request\<lparr>q_billing_reservation_id := Some 306\<rparr>] [])"
  "chat_ok (demo_stage [demo_conversation\<lparr>cv_active_inference_request_id := Some 304, cv_version := 1\<rparr>] linked_messages [queued_request] [started_event])"
  by code_simp+

definition accepted_demo :: AcceptedChatRequest where
  "accepted_demo = \<lparr>ar_request = \<lparr>rq_request_db_id = 304, rq_request_id = 305, rq_conversation_id = 201, rq_message_id = 303,
     rq_tenant_id = 1, rq_status = IQueued, rq_last_event_sequence = 0\<rparr>, ar_replayed = False\<rparr>"

lemma chat_submitted: "submit chat_created demo_fresh 1 5 201 ''hi'' ''k'' ''h'' = (Inr accepted_demo, chat_queued)"
proof -
  define idem :: "(string \<times> json) list IdempotencyRecord" where
    "idem = \<lparr>id_id = 300, id_tenant_id = 1, id_actor_user_id = 5, id_operation = CONVERSATION_SEND, id_key = ''k'', id_request_hash = ''h'',
      id_status = ''processing'', id_response_status = None, id_response_body = None, id_resource_type = None, id_resource_id = None\<rparr>"
  define db where "db = chat_created\<lparr>ch_idempotency := [idem]\<rparr>"
  note rows = chat_created_def no_chat_def
  note fresh = demo_fresh_def
  define d1 where "d1 = db\<lparr>ch_messages := demo_messages\<rparr>"
  define d2 where "d2 = d1\<lparr>ch_requests := [demo_request]\<rparr>"
  define q1 where "q1 = demo_request\<lparr>q_billing_reservation_id := Some 306\<rparr>"
  define d3 where "d3 = d2\<lparr>ch_requests := [q1], ch_billing := snd chat_held\<rparr>"
  define d4 where "d4 = d3\<lparr>ch_messages := linked_messages\<rparr>"
  define d5 where "d5 = d4\<lparr>ch_requests := [queued_request], ch_events := [started_event],
    ch_conversations := [demo_conversation\<lparr>cv_active_inference_request_id := Some 304, cv_version := 1\<rparr>]\<rparr>"
  have ids: "q_id demo_request = 304" "q_request_id demo_request = 305" "cv_id demo_conversation = 201" "cv_version demo_conversation = 0"
    "cv_updated_at demo_conversation = 1000" "cv_product_model_id demo_conversation = 1"
    by (simp_all add: demo_request_def accepted_request_def fresh demo_conversation_def)
  have ok: "chat_ok d1" "chat_ok d2" "chat_ok d3" "chat_ok d4" "chat_ok d5"
    using demo_stage_ok
    by (auto simp: d1_def d2_def d3_def d4_def d5_def db_def q1_def rows same_chat_def intro: same_chat_ok [THEN iffD2, rotated])
  have claim: "claim_idempotency chat_created demo_fresh 1 5 CONVERSATION_SEND ''k'' ''h'' = Inr (idem, True, db)"
    by (simp add: claim_idempotency_def db_def idem_def rows fresh require_def idempotency_ok_def Let_def)
  have lock: "lock_conversation db 1 5 201 = Some demo_conversation"
    by (simp add: db_def rows) code_simp
  have route: "chat_resolve_route db 1 1 = Inr (3, ''chat'')"
    by (simp add: db_def rows) code_simp
  have "append_request_transaction db demo_fresh 1 5 demo_conversation 3 (Some ''hi'') None ''h'' None =
      Inr (ar_request accepted_demo, d5\<lparr>ch_outbox := ch_outbox d5 @ [chat_outbox_event demo_fresh 1 (cv_id demo_conversation)
        (cv_version demo_conversation + 1) 303 3 (rr_reservation_id (fst chat_held))]\<rparr>)"
  proof (rule append_request_I [where dm = d1 and dq = d2 and dh = d3 and dl = d4 and m = "assistant_message demo_fresh 1 201 2"
        and decision = chat_decision and q = demo_request and qh = q1 and billing = "snd chat_held"])
    show "reserve_in_transaction (chat_billing d2) (chat_billing d2) (chat_billing d2) (cf_reservation_id demo_fresh) (cf_ledger_id demo_fresh)
       (cf_now demo_fresh) 1 ''chat_inference'' (q_id demo_request) (ad_price chat_decision)
       (Aware (cf_now demo_fresh + seconds (15 * 60))) = Inr (fst chat_held, snd chat_held)"
      using chat_held by (simp add: Let_def chat_billing_def d2_def d1_def db_def rows fresh ids)
    show "d1 = db\<lparr>ch_messages := ch_messages db @ appended_messages db demo_fresh 1 5 (cv_id demo_conversation) (Some ''hi'') None\<rparr>"
      unfolding d1_def ids db_def demo_messages by (simp add: rows)
    show "filter (\<lambda>m. m_tenant_id m = 1 \<and> m_id m = 303 \<and> m_conversation_id m = cv_id demo_conversation) (ch_messages d3) = [assistant_message demo_fresh 1 201 2]"
      by (simp add: d3_def d2_def d1_def demo_messages_def ids user_message_def assistant_message_def fresh)
    show "d3 = put_request q1 (d2\<lparr>ch_billing := snd chat_held\<rparr>)"
      by (simp add: d3_def d2_def put_request_def update_where_def q1_def ids)
    show "d4 = put_message ((assistant_message demo_fresh 1 201 2)\<lparr>m_request_id := Some (q_id demo_request), m_updated_at := cf_db_now demo_fresh\<rparr>) d3"
      by (simp add: d4_def d3_def d2_def d1_def put_message_def update_where_def demo_messages_def linked_messages_def user_message_def
          assistant_message_def fresh ids)
    show "d5 = add_event (event_row (cf_event_id demo_fresh) q1 0 ''started'' (event_fields ''started'' (q_request_id demo_request) (cv_id demo_conversation) 303 0)
        (cf_now demo_fresh)) (put_request (q1\<lparr>q_last_event_sequence := 0\<rparr>) (put_conversation (demo_conversation\<lparr>cv_active_inference_request_id := Some (q_id demo_request),
          cv_version := cv_version demo_conversation + 1, cv_updated_at := cf_now demo_fresh\<rparr>) d4))"
      by (simp add: d5_def d4_def d3_def d2_def d1_def db_def rows put_request_def put_conversation_def add_event_def update_where_def q1_def ids
          queued_request_def started_event_def event_row_def fresh demo_conversation_def)
    show "request_record (q1\<lparr>q_last_event_sequence := 0\<rparr>) = Inr (ar_request accepted_demo)"
      by (simp add: request_record_def q1_def demo_request_def accepted_request_def accepted_demo_def fresh)
  qed (use ok chat_decision in \<open>simp_all add: d2_def d1_def db_def rows fresh ids demo_request_def q1_def chat_held_id d5_def d4_def d3_def outbox_unique_def\<close>)
  then have "with_idle_conversation chat_created demo_fresh 1 5 CONVERSATION_SEND 201 ''k'' ''h'' (\<lambda>db1 c.
       andthen (chat_resolve_route db1 1 (cv_product_model_id c)) (\<lambda>(deployment_id, _).
       append_request_transaction db1 demo_fresh 1 5 c deployment_id (Some ''hi'') None ''h'' None)) =
     (Inr accepted_demo, complete_idempotency (d5\<lparr>ch_outbox := ch_outbox d5 @ [chat_outbox_event demo_fresh 1 201 1 303 3 306]\<rparr>)
       1 300 202 ''inference_request'' 304 (accepted_body (ar_request accepted_demo) 201))"
    by (simp add: with_idle_conversation_def claim lock route ids transaction_def chat_held_id require_def accepted_demo_def del: One_nat_def)
       (simp add: demo_conversation_def idem_def)
  then show ?thesis
    by (simp add: submit_def complete_idempotency_def update_where_def d5_def d4_def d3_def d2_def d1_def db_def idem_def rows chat_queued_def queued_chat_def
        accepted_body_def accepted_demo_def)
qed

lemma chat_created_inv: "chat_inv chat_created"
proof -
  have "chat_ok (demo_stage [demo_conversation] [] [] [])" by code_simp
  then have "chat_ok chat_created" by (rule same_chat_ok [THEN iffD2, rotated]) (simp add: same_chat_def chat_created_def no_chat_def)
  then show ?thesis by (simp add: chat_inv_def chat_core_def chat_created_def no_chat_def conversation_inv_def demo_conversation_def)
qed

lemma chat_queued_run: "chat_run chat_created chat_queued"
  using chat_step.submitted [of chat_created demo_fresh 1 5 201 "''hi''" "''k''" "''h''"] chat_submitted by auto

lemma chat_queued_inv: "chat_inv chat_queued"
  using chat_run_inv [OF chat_queued_run chat_created_inv] .

lemma no_chat_inv: "chat_inv (no_chat catalog billing)"
  by (simp add: chat_inv_def chat_core_def chat_ok_def chat_numeric_def chat_checks_def chat_unique_def chat_references_def no_chat_def
      provider_request_keys_def active_slots_def terminal_slots_def)

text \<open>The demonstration tables are reached from empty ones; other components may drop the idempotency record.\<close>

lemma chat_created_tables:
  "(let db = snd (create_conversation (no_chat chat_catalog b) (demo_fresh\<lparr>cf_conversation_id := 201\<rparr>) 1 5 ''chat'' ''c'' ''h'') in
     ch_conversations db = [demo_conversation] \<and> ch_requests db = [] \<and> ch_messages db = [] \<and> ch_events db = [] \<and> ch_billing db = b)"
  by code_simp

lemma chat_created_run: "chat_run (no_chat chat_catalog chat_wallets) chat_created"
proof -
  let ?db = "snd (create_conversation (no_chat chat_catalog chat_wallets) (demo_fresh\<lparr>cf_conversation_id := 201\<rparr>) 1 5 ''chat'' ''c'' ''h'')"
  have "chat_step (no_chat chat_catalog chat_wallets) ?db" by (rule chat_step.created)
  moreover have "chat_step ?db chat_created"
    by (rule chat_step.elsewhere)
      (use chat_created_tables [of chat_wallets] in \<open>auto simp: Let_def same_chat_def chat_created_def no_chat_def\<close>)
  ultimately show ?thesis by (meson converse_rtranclp_into_rtranclp rtranclp.rtrancl_refl)
qed

lemma chat_demo_run: "chat_run (no_chat chat_catalog chat_wallets) chat_queued"
  using chat_created_run chat_queued_run by (rule rtranclp_trans)

lemma queued_request_row: "queued_request \<in> set (ch_requests chat_queued)" "in_flight queued_request"
  by (simp_all add: chat_queued_def queued_chat_def no_chat_def queued_request_def demo_request_def accepted_request_def in_flight_def)

lemma chat_wallets_inv: "billing_inv chat_wallets"
  using billing_inv_view [of granted_db chat_wallets] billing_reachable_billing_inv [OF granted_db_reachable] by (simp add: chat_wallets_def)

subsection \<open>The execution\<close>

definition running_request :: InferenceRequest where
  "running_request = claim_request ''w'' 400 60 2000 queued_request"

definition chat_execution :: ChatExecutionRecord where
  "chat_execution = execution_record running_request 201 303 (hd (c_products chat_catalog)) (hd (c_deployments chat_catalog))
     (history (demo_stage [] linked_messages [] []) 1 201)"

definition chat_running :: chat_db where
  "chat_running = put_request running_request chat_queued"

lemma demo_claim_query:
  "claim_query (queued_chat b) (\<lambda>_. False) None None =
     [(queued_request, demo_conversation\<lparr>cv_active_inference_request_id := Some 304, cv_version := 1\<rparr>, hd (c_products chat_catalog), hd (c_deployments chat_catalog))]"
  by code_simp

lemma demo_running_ok: "chat_ok (demo_stage [demo_conversation\<lparr>cv_active_inference_request_id := Some 304, cv_version := 1\<rparr>] linked_messages [running_request] [started_event])"
  by code_simp

lemma chat_claimed: "claim_queued chat_queued 2000 (\<lambda>_. False) 400 ''w'' 60 None None = (Inr (Some chat_execution), chat_running)"
proof -
  have ids: "q_id running_request = 304" "q_id queued_request = 304" "q_message_id running_request = Some 303" "q_conversation_id running_request = Some 201"
    "q_tenant_id running_request = 1" by (simp_all add: running_request_def claim_request_def queued_request_def demo_request_def accepted_request_def demo_fresh_def)
  have ok: "chat_ok chat_running"
    by (rule same_chat_ok [THEN iffD2, OF _ demo_running_ok])
      (simp add: same_chat_def chat_running_def chat_queued_def queued_chat_def no_chat_def put_request_def update_where_def ids)
  have hist: "history chat_running 1 201 = history (demo_stage [] linked_messages [] []) 1 201"
    by (simp add: history_def chat_running_def chat_queued_def queued_chat_def no_chat_def)
  have query: "claim_query chat_queued (\<lambda>_. False) None None = [(queued_request, demo_conversation\<lparr>cv_active_inference_request_id := Some 304, cv_version := 1\<rparr>,
      hd (c_products chat_catalog), hd (c_deployments chat_catalog))]" unfolding chat_queued_def by (rule demo_claim_query)
  have name: "\<not> blank ''w''" by code_simp
  have conv: "cv_id (demo_conversation\<lparr>cv_active_inference_request_id := Some 304, cv_version := 1\<rparr>) = 201" by (simp add: demo_conversation_def)
  show ?thesis
    unfolding claim_queued_def query first_row.simps option.case prod.case running_request_def [symmetric] Let_def chat_running_def [symmetric]
      chat_flush_ok [OF ok] andthen.simps ids conv hist chat_execution_def [symmetric]
    by (simp add: transaction_def require_def name)
qed

subsection \<open>The unknown outcome\<close>

definition demo_unknown :: "billing_db \<Rightarrow> chat_db" where
  "demo_unknown b = snd (mark_submitted_unknown (put_request running_request (queued_chat b)) 3000 3000 500 chat_execution (Some ''p'') ''CHAT_TIMEOUT'')"

lemma demo_unknown_rows:
  "(case (ch_requests (demo_unknown b), ch_conversations (demo_unknown b)) of
      ([q], [c]) \<Rightarrow> q_status q = ISubmittedUnknown \<and> q_id q = 304 \<and> q_tenant_id q = 1 \<and> q_conversation_id q = Some 201 \<and>
        cv_id c = 201 \<and> cv_active_inference_request_id c = None \<and> list_all (\<lambda>e. e_event_type e \<in> set [''started'', ''failed'']) (ch_events (demo_unknown b))
    | _ \<Rightarrow> False)"
  by code_simp

definition chat_unknown :: chat_db where
  "chat_unknown = demo_unknown (snd chat_held)"

definition unknown_request :: InferenceRequest where
  "unknown_request = hd (ch_requests chat_unknown)"

lemma unknown_request: "ch_requests chat_unknown = [unknown_request]" "q_status unknown_request = ISubmittedUnknown" "q_id unknown_request = 304"
  "q_tenant_id unknown_request = 1" "q_conversation_id unknown_request = Some 201" "list_all (\<lambda>e. e_event_type e \<in> set [''started'', ''failed'']) (ch_events chat_unknown)"
  using demo_unknown_rows [of "snd chat_held"] by (auto simp: chat_unknown_def unknown_request_def split: list.splits)

lemma chat_unknown_run: "chat_run chat_queued chat_unknown"
proof -
  have "chat_step chat_queued chat_running"
    using chat_step.claimed [of chat_queued 2000 "\<lambda>_. False" 400 "''w''" 60 None None] chat_claimed by simp
  moreover have "is_public_code ''CHAT_TIMEOUT''" by code_simp
  then have "chat_step chat_running chat_unknown"
    using chat_step.unknown [of "''CHAT_TIMEOUT''" chat_running 3000 3000 500 chat_execution "Some ''p''"]
    by (simp add: chat_unknown_def demo_unknown_def chat_running_def chat_queued_def)
  ultimately show ?thesis by (meson converse_rtranclp_into_rtranclp rtranclp.rtrancl_refl)
qed

lemma chat_unknown_inv: "chat_inv chat_unknown"
  using chat_run_inv [OF chat_unknown_run chat_queued_inv] .

end
