(* ===== verification/Chat_Properties.thy ===== *)
theory Chat_Properties
  imports Chat_Demo
begin

text \<open>
  The properties of the chat subsystem over all interleavings of its transactions: logs and messages, the
  wallet books, fencing of workers, acceptance, and what readers of a stream see.
\<close>

subsection \<open>Logs\<close>

text \<open>
  C28. From empty chat tables, whatever the API, the workers and the reconciler do: the events of a request are
  numbered from 0 without a gap, the first one is the started event, a terminal event is the last one and is
  there exactly when the request is no longer queued, running or being stopped; and while it is, its message
  holds the concatenation of its deltas and no other request of the conversation is live.
\<close>

theorem chat_logs_sound:
  assumes "chat_run (no_chat catalog billing) db" and "q \<in> set (ch_requests db)"
  shows "events_of db q \<noteq> [] \<and> map e_sequence_no (events_of db q) = map int [0..<length (events_of db q)] \<and>
      q_last_event_sequence q = int (length (events_of db q)) - 1 \<and> e_event_type (hd (events_of db q)) = ''started'' \<and>
      list_all (\<lambda>e. \<not> terminal_event e) (butlast (events_of db q)) \<and> (terminal_event (last (events_of db q)) \<longleftrightarrow> \<not> in_flight q) \<and>
      (in_flight q \<longrightarrow>
        (\<exists>m \<in> set (ch_messages db). q_message_id q = Some (m_id m) \<and> m_status m = MStreaming \<and> text_content (m_content m) = deltas (events_of db q)) \<and>
        (\<forall>q2 \<in> set (ch_requests db). in_flight q2 \<and> q_conversation_id q2 = q_conversation_id q \<longrightarrow> q2 = q))"
proof -
  have core: "chat_core db" using chat_run_inv [OF assms(1) no_chat_inv] by simp
  note log = chat_coreD(2) [OF core assms(2)]
  have "\<exists>m \<in> set (ch_messages db). q_message_id q = Some (m_id m) \<and> m_status m = MStreaming \<and> text_content (m_content m) = deltas (events_of db q)"
    if live: "in_flight q"
  proof -
    obtain m where "m \<in> set (ch_messages db)" "streaming_message db q m" by (rule live_message [OF core assms(2) live])
    then show ?thesis by (intro bexI [of _ m]) (simp_all add: streaming_message_def)
  qed
  moreover have "q2 = q" if "in_flight q" "q2 \<in> set (ch_requests db)" "in_flight q2" "q_conversation_id q2 = q_conversation_id q" for q2
    using one_live_request [OF core assms(2) that] .
  moreover have "events_of db q \<noteq> []" "map e_sequence_no (events_of db q) = map int [0..<length (events_of db q)]"
    "q_last_event_sequence q = int (length (events_of db q)) - 1" "e_event_type (hd (events_of db q)) = ''started''"
    "list_all (\<lambda>e. \<not> terminal_event e) (butlast (events_of db q))" "terminal_event (last (events_of db q)) \<longleftrightarrow> \<not> in_flight q"
    using log unfolding log_ok_def by blast+
  ultimately show ?thesis by blast
qed

theorem chat_logs_sound_witness:
  "map e_sequence_no (events_of chat_queued queued_request) = map int [0..<length (events_of chat_queued queued_request)] \<and>
   (\<exists>m \<in> set (ch_messages chat_queued). m_status m = MStreaming \<and> text_content (m_content m) = deltas (events_of chat_queued queued_request))"
  using chat_logs_sound [OF chat_demo_run queued_request_row(1)] queued_request_row(2) by blast

subsection \<open>Books\<close>

text \<open>
  C33. The wallet books stay balanced under the chat subsystem: over every interleaving of acceptances, worker
  writes, completions, stops, settlements and reconciliations, each wallet's reserved amount is the sum of its
  pending holds, its balance is what the journal says, and every reservation has the journal rows of its status.
\<close>

theorem chat_books_balance:
  assumes "chat_run (no_chat catalog billing) db" and "billing_inv billing"
  shows "billing_inv (ch_billing db)"
  using chat_run_books [OF assms(1) no_chat_inv] assms(2) by (simp add: no_chat_def)

theorem chat_books_balance_witness: "billing_inv (ch_billing chat_queued) \<and> reservations (ch_billing chat_queued) \<noteq> []"
proof -
  have "reservations (ch_billing chat_queued) \<noteq> []"
    unfolding chat_queued_def queued_chat_def no_chat_def chat_held_def chat_wallets_def granted_db_eval by code_simp
  then show ?thesis using chat_books_balance [OF chat_demo_run chat_wallets_inv] by blast
qed

subsection \<open>Terminal requests\<close>

text \<open>
  C32. What a finished request says is final: once a request is neither queued nor running nor being stopped,
  no later transaction of any actor writes its row or adds an event to its log.
\<close>

theorem chat_terminal_final:
  assumes "chat_inv db" and "chat_run db db'" and "q \<in> set (ch_requests db)" and "\<not> in_flight q"
  shows "q \<in> set (ch_requests db') \<and> events_of db' q = events_of db q"
proof -
  have moved: "chat_moved db db'" and inv': "chat_inv db'" using chat_run_moved [OF assms(2,1)] by simp_all
  obtain q' where q': "q' \<in> set (ch_requests db')" "keeps_request q q'" "prefix (events_of db q) (events_of db' q')"
    using moved_log [OF moved assms(3)] .
  have "q' = q" using q'(2) assms(4) by (simp add: keeps_request_def)
  moreover have "events_of db' q' = events_of db q"
    by (rule closed_log [OF chat_coreD(2) [OF chat_inv_core [OF assms(1)] assms(3)] chat_coreD(2) [OF chat_inv_core [OF inv'] q'(1)] q'(2,3) assms(4)])
  ultimately show ?thesis using q'(1) by simp
qed

theorem chat_terminal_final_witness:
  "unknown_request \<in> set (ch_requests (snd (stop chat_unknown demo_fresh 1 5 201 305)))"
proof -
  have "chat_run chat_unknown (snd (stop chat_unknown demo_fresh 1 5 201 305))" using chat_step.stopped by (rule r_into_rtranclp)
  moreover have "unknown_request \<in> set (ch_requests chat_unknown)" "\<not> in_flight unknown_request"
    using unknown_request(1,2) by (simp_all add: in_flight_def)
  ultimately show ?thesis using chat_terminal_final [OF chat_unknown_inv] by blast
qed

subsection \<open>Fencing\<close>

text \<open>The row a worker's record names is no longer held under its token, or its lease has run out, or it is not being executed.\<close>

definition lease_lost :: "chat_db \<Rightarrow> instant \<Rightarrow> ChatExecutionRecord \<Rightarrow> bool" where
  "lease_lost db now x \<longleftrightarrow>
     list_all (\<lambda>q. q_id q = x_request_db_id x \<longrightarrow>
       q_lease_token q \<noteq> x_lease_token x \<or> \<not> unexpired now (q_lease_expires_at q) \<or> q_status q \<notin> set RUNNING_STATUSES) (ch_requests db)"

lemma lease_lost_writable:
  assumes "lease_lost db now x" and "distinct (map q_id (ch_requests db))" and "set statuses \<subseteq> set RUNNING_STATUSES"
  shows "locked_writable_request db now x k statuses = Inr None"
proof (cases "x_lease_token x")
  case (Some token)
  let ?P = "\<lambda>q. q_tenant_id q = x_tenant_id x \<and> q_id q = x_request_db_id x \<and> q_request_id q = x_request_id x \<and> q_lease_token q = Some token"
  have "filter ?P (ch_requests db) = filter (\<lambda>q. q_id q = x_request_db_id x \<and> ?P q) (ch_requests db)" by (rule filter_cong) auto
  then have one: "length (filter ?P (ch_requests db)) \<le> 1" using distinct_key_filter_le1 [OF assms(2), of "x_request_db_id x" ?P] by simp
  show ?thesis
  proof (cases "filter ?P (ch_requests db)" rule: scalar_one_or_none.cases)
    case (2 q)
    then have q: "q \<in> set (ch_requests db)" "?P q" using filter_singletonD [OF 2] by simp_all
    then have "\<not> unexpired now (q_lease_expires_at q) \<or> q_status q \<notin> set statuses"
      using assms(1,3) Some by (auto simp: lease_lost_def list_all_iff)
    then show ?thesis using 2 Some by (auto simp: locked_writable_request_def locked_request_def)
  next
    case 3
    then show ?thesis using one by simp
  qed (use Some in \<open>simp add: locked_writable_request_def locked_request_def\<close>)
qed (simp add: locked_writable_request_def locked_request_def)

text \<open>The one row \<open>requeue_claimed\<close> may write: running, under the token of the worker's record.\<close>

definition running_under_token :: "ChatExecutionRecord \<Rightarrow> InferenceRequest \<Rightarrow> bool" where
  "running_under_token x q \<longleftrightarrow> q_tenant_id q = x_tenant_id x \<and> q_id q = x_request_db_id x \<and> q_request_id q = x_request_id x \<and>
     q_status q = IRunning \<and> q_lease_token q = x_lease_token x \<and> x_lease_token x \<noteq> None"

lemma requeue_unheld:
  assumes "list_all (\<lambda>q. \<not> running_under_token x q) (ch_requests db)"
  shows "requeue_claimed db now x = (Inr False, db)"
proof (cases "x_lease_token x")
  case (Some token)
  have "filter (\<lambda>q. q_tenant_id q = x_tenant_id x \<and> q_id q = x_request_db_id x \<and> q_request_id q = x_request_id x \<and>
      q_status q = IRunning \<and> q_lease_token q = Some token) (ch_requests db) = []"
    using assms Some by (auto simp: filter_empty_conv list_all_iff running_under_token_def)
  then show ?thesis by (simp add: requeue_claimed_def Some transaction_def)
qed (simp add: requeue_claimed_def transaction_def)

lemma lease_lost_check:
  assumes "lease_lost db now x" and "distinct (map q_id (ch_requests db))"
  shows "check_lease_and_stop db now n x = (Inr (lease_check False False), db)"
proof -
  have none: "locked_writable_request db now x k RUNNING_STATUSES = Inr None" for k by (rule lease_lost_writable [OF assms]) simp
  show ?thesis
  proof (cases "locked_request db x")
    case (Inl e)
    then show ?thesis using none [of 0] by (simp add: locked_writable_request_def)
  next
    case (Inr found)
    show ?thesis
    proof (cases found)
      case None
      then show ?thesis using Inr by (simp add: check_lease_and_stop_def transaction_def)
    next
      case (Some q)
      then have "q_status q \<notin> set RUNNING_STATUSES \<or> \<not> unexpired now (q_lease_expires_at q)"
        using none [of "q_last_event_sequence q + 1"] Inr by (auto simp: locked_writable_request_def split: if_splits)
      then show ?thesis using Inr Some by (simp add: check_lease_and_stop_def transaction_def)
    qed
  qed
qed

lemma requeue_only_that:
  assumes "distinct (map q_id (ch_requests db))" and "\<not> list_all (\<lambda>q. \<not> running_under_token x q) (ch_requests db)"
  shows "\<exists>rows. snd (requeue_claimed db now x) = db\<lparr>ch_requests := rows\<rparr> \<and>
    filter (\<lambda>q. \<not> running_under_token x q) (ch_requests db) = filter (\<lambda>q. q_id q \<noteq> x_request_db_id x) rows"
proof -
  obtain q where q: "q \<in> set (ch_requests db)" "running_under_token x q" using assms(2) by (auto simp: list_all_iff)
  have "\<not> running_under_token x r \<longleftrightarrow> q_id r \<noteq> x_request_db_id x" if "r \<in> set (ch_requests db)" for r
    using distinct_key_inj [OF assms(1) that q(1)] q(2) by (auto simp: running_under_token_def)
  then have others: "filter (\<lambda>q. \<not> running_under_token x q) (ch_requests db) = filter (\<lambda>q. q_id q \<noteq> x_request_db_id x) (ch_requests db)"
    by (rule filter_cong [OF refl])
  show ?thesis
  proof (cases rule: requeue_claimed_cases [of db now x])
    case 1
    then show ?thesis using others by (intro exI [of _ "ch_requests db"]) simp
  next
    case (2 r)
    let ?rows = "update_where (\<lambda>y. q_id y = q_id r) (\<lambda>_. requeue_request now r) (ch_requests db)"
    have "filter (\<lambda>q. q_id q \<noteq> x_request_db_id x) (update_where (\<lambda>y. q_id y = q_id r) (\<lambda>_. requeue_request now r) qs) =
        filter (\<lambda>q. q_id q \<noteq> x_request_db_id x) qs" for qs
      using 2(3) by (induction qs) (auto simp: update_where_def requeue_request_def)
    then show ?thesis using others 2(6) by (intro exI [of _ ?rows]) (simp add: put_request_def requeue_request_def)
  qed
qed

text \<open>
  C31. A worker that lost its request writes nothing of it. Once the row is under another token, or its lease has
  run out, or it is no longer being executed, appending a delta, completing, stopping, failing and marking the
  outcome unknown all report failure and change nothing, and the lease check reports the loss and does not extend
  the lease. Putting the request back in the queue is the one call that does not look at the expiry: it is refused
  with no effect unless the row is still running under the worker's own token, and then it touches no table but
  the requests and no request but that one.
\<close>

theorem chat_stale_worker:
  assumes "chat_inv db" and "lease_lost db seen x" and "delta \<noteq> []"
  shows "append_delta db now seen n eid x k delta pid = (Inr None, db) \<and>
    mark_completed db now seen eid uid x k content pid usage = (Inr False, db) \<and>
    mark_stopped db now seen eid x k content = (Inr False, db) \<and>
    mark_failed db now seen eid x k code details pid = (Inr False, db) \<and>
    mark_submitted_unknown db now seen eid x pid code = (Inr False, db) \<and>
    check_lease_and_stop db seen n x = (Inr (lease_check False False), db) \<and>
    (if list_all (\<lambda>q. \<not> running_under_token x q) (ch_requests db) then requeue_claimed db now x = (Inr False, db)
     else \<exists>rows. snd (requeue_claimed db now x) = db\<lparr>ch_requests := rows\<rparr> \<and>
       filter (\<lambda>q. \<not> running_under_token x q) (ch_requests db) = filter (\<lambda>q. q_id q \<noteq> x_request_db_id x) rows)"
proof -
  have lost: "locked_writable_request db seen x j statuses = Inr None" if "set statuses \<subseteq> set RUNNING_STATUSES" for j statuses
    by (rule lease_lost_writable [OF assms(2) chat_ok_distinct(1) [OF chat_inv_ok [OF assms(1)]] that])
  have running: "locked_writable_request db seen x j [IRunning] = Inr None" "locked_writable_request db seen x j RUNNING_STATUSES = Inr None" for j
    by (rule lost, simp)+
  have terminal: "terminal_without_usage db now seen eid x j content ty rs ms c d p statuses reason = (Inr False, db)"
    if "set statuses \<subseteq> set RUNNING_STATUSES" for j content ty rs ms c d p statuses reason
    unfolding terminal_without_usage_def lost [OF that] andthen.simps option.case transaction_def by simp
  have "append_delta db now seen n eid x k delta pid = (Inr None, db)"
    unfolding append_delta_def running andthen.simps option.case transaction_def using assms(3) by (simp add: require_def)
  moreover have "mark_completed db now seen eid uid x k content pid usage = (Inr False, db)"
    unfolding mark_completed_def running andthen.simps option.case transaction_def by simp
  moreover have "mark_stopped db now seen eid x k content = (Inr False, db)" "mark_failed db now seen eid x k code details pid = (Inr False, db)"
    "mark_submitted_unknown db now seen eid x pid code = (Inr False, db)"
    unfolding mark_stopped_def mark_failed_def mark_submitted_unknown_def by (rule terminal; simp)+
  moreover have "check_lease_and_stop db seen n x = (Inr (lease_check False False), db)"
    by (rule lease_lost_check [OF assms(2) chat_ok_distinct(1) [OF chat_inv_ok [OF assms(1)]]])
  moreover have "\<exists>rows. snd (requeue_claimed db now x) = db\<lparr>ch_requests := rows\<rparr> \<and>
      filter (\<lambda>q. \<not> running_under_token x q) (ch_requests db) = filter (\<lambda>q. q_id q \<noteq> x_request_db_id x) rows"
    if "\<not> list_all (\<lambda>q. \<not> running_under_token x q) (ch_requests db)"
    by (rule requeue_only_that [OF chat_ok_distinct(1) [OF chat_inv_ok [OF assms(1)]] that])
  ultimately show ?thesis using requeue_unheld by simp
qed

theorem chat_stale_worker_witness: "append_delta chat_unknown 5000 5000 60 501 chat_execution 1 ''late'' None = (Inr None, chat_unknown)"
proof -
  have "lease_lost chat_unknown 5000 chat_execution" using unknown_request by (simp add: lease_lost_def)
  then show ?thesis using chat_stale_worker [OF chat_unknown_inv, of 5000 chat_execution "''late''"] by simp
qed

text \<open>The call that does not look at the expiry: an hour after its lease ran out, the worker puts the request back in the queue.\<close>

lemma requeue_ignores_expiry:
  "lease_lost chat_running 3600000000 chat_execution \<and> fst (requeue_claimed chat_running 3600000000 chat_execution) = Inr True"
proof -
  note defs = running_request_def claim_request_def queued_request_def demo_request_def accepted_request_def demo_fresh_def
  have rows: "ch_requests chat_running = [running_request]"
    by (simp add: chat_running_def chat_queued_def queued_chat_def no_chat_def put_request_def update_where_def defs)
  have fields: "q_id running_request = 304" "q_tenant_id running_request = 1" "q_request_id running_request = 305" "q_status running_request = IRunning"
    "q_lease_token running_request = Some 400" "q_lease_expires_at running_request = Some 60002000" by (simp_all add: defs)
  have x: "x_request_db_id chat_execution = 304" "x_tenant_id chat_execution = 1" "x_request_id chat_execution = 305" "x_lease_token chat_execution = Some 400"
    by (simp_all add: chat_execution_def execution_record_def fields)
  have "chat_ok (demo_stage [demo_conversation\<lparr>cv_active_inference_request_id := Some 304, cv_version := 1\<rparr>] linked_messages
      [requeue_request 3600000000 running_request] [started_event])" by code_simp
  then have "chat_ok (put_request (requeue_request 3600000000 running_request) chat_running)"
    by (rule same_chat_ok [THEN iffD2, rotated])
      (simp add: same_chat_def put_request_def rows update_where_def requeue_request_def, simp add: chat_running_def chat_queued_def queued_chat_def no_chat_def)
  then have "fst (requeue_claimed chat_running 3600000000 chat_execution) = Inr True"
    by (simp add: requeue_claimed_def x rows fields transaction_def)
  moreover have "lease_lost chat_running 3600000000 chat_execution" by (simp add: lease_lost_def rows fields unexpired_def)
  ultimately show ?thesis by simp
qed

subsection \<open>Acceptance\<close>

lemma normalize_chat: "normalize_source_type ''chat_inference'' = Inr ''chat_inference''"
  by code_simp

lemma submit_Inr_new:
  assumes "submit db fr t actor cid content key h = (Inr a, db')" and "\<not> ar_replayed a"
  obtains idem db1 c dep model r db2 where "claim_idempotency db fr t actor CONVERSATION_SEND key h = Inr (idem, True, db1)"
    "c \<in> set (ch_conversations db)" "cv_tenant_id c = t" "cv_created_by_user_id c = actor" "cv_id c = cid" "cv_active_inference_request_id c = None"
    "chat_resolve_route db1 t (cv_product_model_id c) = Inr (dep, model)"
    "append_request_transaction db1 fr t actor c dep (Some content) None h None = Inr (r, db2)" "a = \<lparr>ar_request = r, ar_replayed = False\<rparr>"
    "db' = complete_idempotency db2 t (id_id idem) 202 ''inference_request'' (rq_request_db_id r) (accepted_body r (cv_id c))"
  using assms(1) unfolding submit_def
proof (cases rule: with_idle_Inr)
  case 1
  then show thesis using assms(2) by simp
next
  case (2 idem db1 c r db2)
  note c = lock_conversation_Some [OF 2(2)]
  have "ch_conversations db1 = ch_conversations db" using claim_idempotency_chat [OF 2(1)] by (simp add: same_chat_def)
  moreover obtain dep model where "chat_resolve_route db1 t (cv_product_model_id c) = Inr (dep, model)"
    "append_request_transaction db1 fr t actor c dep (Some content) None h None = Inr (r, db2)" using 2(4) by auto
  ultimately show thesis using that 2(1,3,5,6) c by simp
qed

lemma appended_answer:
  assumes ms: "ms = appended_messages db fr t actor cid (Some content) None" and dist: "distinct (map m_id (old @ ms))"
    and m: "m \<in> set (old @ ms)" "m_id m = cf_assistant_message_id fr"
  obtains user answer where "m_content user = text_json content" "m_content answer = text_json []" "m_status answer = MStreaming"
    "m_id answer = cf_assistant_message_id fr" "m_conversation_id user = cid" "m_conversation_id answer = cid" "m_tenant_id user = t" "m_tenant_id answer = t"
    "update_where (\<lambda>x. m_id x = m_id m) (\<lambda>_. m\<lparr>m_request_id := i, m_updated_at := u\<rparr>) (old @ ms) = old @ [user, answer\<lparr>m_request_id := i, m_updated_at := u\<rparr>]"
proof -
  obtain user answer where added: "ms = [user, answer]"
    and texts: "m_content user = text_json content" "m_content answer = text_json []" "m_status answer = MStreaming" "m_id answer = cf_assistant_message_id fr"
      "m_conversation_id user = cid" "m_conversation_id answer = cid" "m_tenant_id user = t" "m_tenant_id answer = t"
    by (simp add: ms appended_messages_def Let_def user_message_def assistant_message_def)
  have "m = answer" by (rule distinct_key_inj [OF dist m(1)]) (simp_all add: added m(2) texts(4))
  then have "update_where (\<lambda>x. m_id x = m_id m) (\<lambda>_. m\<lparr>m_request_id := i, m_updated_at := u\<rparr>) (old @ ms) = old @ [user, answer\<lparr>m_request_id := i, m_updated_at := u\<rparr>]"
    using dist by (auto simp: added update_where_def intro!: map_idI) (metis image_eqI)
  then show thesis by (rule that [OF texts])
qed

text \<open>
  C30. A submission is atomic and complete: in an idle conversation of the actor it routes the conversation's model to
  a deployment, takes the decision the catalog gives for that deployment at that moment, and appends the user's
  message, an empty streaming answer, one queued request linked to that answer and carrying that decision's
  deployment, revision, policy and price version, one pending hold of exactly the reservation amount of that
  decision's price with the request as its source, the started event, and one pending outbox event that names the
  request, the deployment and the hold; the request becomes the active one of the conversation. (The request's fresh
  identifier is not yet the source of a hold.)
\<close>

theorem submit_exact:
  assumes "submit db fr t actor cid content key h = (Inr a, db')" and "\<not> ar_replayed a"
    and "reservation_by_source t ''chat_inference'' (cf_request_db_id fr) (ch_billing db) = []"
  shows "\<exists>c q user answer dep model (decision :: AcceptedDecisionSnapshot) amount hold ev.
    c \<in> set (ch_conversations db) \<and> cv_id c = cid \<and> cv_created_by_user_id c = actor \<and> cv_active_inference_request_id c = None \<and>
    ch_requests db' = ch_requests db @ [q] \<and> q_status q = IQueued \<and> q_tenant_id q = t \<and> q_actor_user_id q = Some actor \<and>
    q_conversation_id q = Some cid \<and> q_message_id q = Some (m_id answer) \<and> q_last_event_sequence q = 0 \<and>
    list_all (\<lambda>x. m_conversation_id x = cid \<and> m_tenant_id x = t) [user, answer] \<and> m_content user = text_json content \<and>
    m_content answer = text_json [] \<and> m_status answer = MStreaming \<and> m_request_id answer = Some (q_id q) \<and>
    ch_messages db' = ch_messages db @ [user, answer] \<and>
    ch_events db' = ch_events db @ [event_row (cf_event_id fr) q 0 ''started'' (event_fields ''started'' (q_request_id q) cid (m_id answer) 0) (cf_now fr)] \<and>
    ch_conversations db' = ch_conversations (put_conversation (c\<lparr>cv_active_inference_request_id := Some (q_id q), cv_version := cv_version c + 1,
      cv_updated_at := cf_now fr\<rparr>) db) \<and>
    chat_resolve_route db t (cv_product_model_id c) = Inr (dep, model) \<and>
    resolve_accepted_decision (ch_catalog db) (cv_product_model_id c) dep (cf_now fr) = Inr (Some decision) \<and>
    q_model_deployment_id q = dep \<and> q_accepted_model_deployment_id q = Some (ad_model_deployment_id decision) \<and>
    q_accepted_model_revision_id q = Some (ad_model_revision_id decision) \<and> q_accepted_routing_policy_id q = Some (ad_routing_policy_id decision) \<and>
    q_accepted_price_version_id q = Some (ad_price_version_id decision) \<and> reservation_amount (ad_price decision) = Inr amount \<and>
    reservations (ch_billing db') = reservations (ch_billing db) @ [hold] \<and> q_billing_reservation_id q = Some (r_id hold) \<and> r_status hold = ''pending'' \<and>
    r_tenant_id hold = t \<and> r_source_id hold = q_id q \<and> r_amount_minor hold = amount_minor amount \<and>
    ch_outbox db' = ch_outbox db @ [ev] \<and> o_status ev = ''pending'' \<and> o_event_type ev = ''chat.inference.execute'' \<and>
    map_of (o_payload ev) ''request_id'' = Some (JStr (str_uuid (q_request_id q))) \<and>
    map_of (o_payload ev) ''model_deployment_id'' = Some (JStr (str_uuid dep)) \<and>
    map_of (o_payload ev) ''reservation_id'' = Some (JStr (str_uuid (r_id hold))) \<and>
    rq_request_id (ar_request a) = q_request_id q \<and> rq_status (ar_request a) = IQueued"
proof -
  obtain idem db1 c dep model r db2 where idem: "claim_idempotency db fr t actor CONVERSATION_SEND key h = Inr (idem, True, db1)"
    and c: "c \<in> set (ch_conversations db)" "cv_tenant_id c = t" "cv_created_by_user_id c = actor" "cv_id c = cid" "cv_active_inference_request_id c = None"
    and route: "chat_resolve_route db1 t (cv_product_model_id c) = Inr (dep, model)"
    and app: "append_request_transaction db1 fr t actor c dep (Some content) None h None = Inr (r, db2)"
    and a: "a = \<lparr>ar_request = r, ar_replayed = False\<rparr>"
    and db': "db' = complete_idempotency db2 t (id_id idem) 202 ''inference_request'' (rq_request_db_id r) (accepted_body r (cv_id c))"
    by (rule submit_Inr_new [OF assms(1,2)])
  have db1: "ch_requests db1 = ch_requests db" "ch_conversations db1 = ch_conversations db" "ch_messages db1 = ch_messages db" "ch_events db1 = ch_events db"
    "ch_billing db1 = ch_billing db" "ch_outbox db1 = ch_outbox db"
    "ch_catalog db1 = ch_catalog db"
    using claim_idempotency_Inr(1) [OF idem] by simp_all
  have route': "chat_resolve_route db t (cv_product_model_id c) = Inr (dep, model)"
    using route by (simp add: chat_resolve_route_def entitled_product_def db1)
  from app obtain decision :: AcceptedDecisionSnapshot and reservation :: ReservationResult and billing :: billing_db and m :: Message and q :: InferenceRequest where
    q0: "q = (accepted_request fr t actor (cv_id c) (case None of None \<Rightarrow> cf_assistant_message_id fr | Some i \<Rightarrow> i) dep h None (Some content) decision)
       \<lparr>q_billing_reservation_id := Some (rr_reservation_id reservation), q_last_event_sequence := 0\<rparr>"
    and decided: "resolve_accepted_decision (ch_catalog db1) (cv_product_model_id c) dep (cf_now fr) = Inr (Some decision)"
    and rows: "ch_requests db2 = ch_requests db1 @ [q]"
      "ch_events db2 = ch_events db1 @ [event_row (cf_event_id fr) q 0 ''started'' (event_fields ''started'' (q_request_id q) (cv_id c) (m_id m) 0) (cf_now fr)]"
      "ch_conversations db2 = ch_conversations (put_conversation (c\<lparr>cv_active_inference_request_id := Some (q_id q),
       cv_version := cv_version c + 1, cv_updated_at := cf_now fr\<rparr>) db1)"
    and m: "m \<in> set (ch_messages db1 @ appended_messages db1 fr t actor (cv_id c) (Some content) None)" "q_message_id q = Some (m_id m)"
    and msgs: "ch_messages db2 = update_where (\<lambda>x. m_id x = m_id m) (\<lambda>_. m\<lparr>m_request_id := Some (q_id q), m_updated_at := cf_db_now fr\<rparr>)
       (ch_messages db1 @ appended_messages db1 fr t actor (cv_id c) (Some content) None)"
    and res: "\<exists>db3. ch_billing db3 = ch_billing db1 \<and> reserve_in_transaction (chat_billing db3) (chat_billing db3) (chat_billing db3)
       (cf_reservation_id fr) (cf_ledger_id fr) (cf_now fr) t ''chat_inference'' (q_id q) (ad_price decision)
       (Aware (cf_now fr + seconds (15 * 60))) = Inr (reservation, billing)"
    and bill: "ch_billing db2 = billing"
    and out: "ch_outbox db2 = ch_outbox db1 @ [chat_outbox_event fr t (cv_id c) (cv_version c + 1) (m_id m) dep (rr_reservation_id reservation)]"
    and r: "r = \<lparr>rq_request_db_id = cf_request_db_id fr, rq_request_id = cf_request_id fr, rq_conversation_id = cv_id c,
      rq_message_id = m_id m, rq_tenant_id = t, rq_status = IQueued, rq_last_event_sequence = 0\<rparr>"
    and ok: "chat_ok db2"
    by (rule append_request_Inr)
  note q = q0 [unfolded option.case]
  have mid: "m_id m = cf_assistant_message_id fr" using m(2) by (simp add: q accepted_request_def)
  have "map m_id (update_where (\<lambda>x. m_id x = m_id m) (\<lambda>_. m\<lparr>m_request_id := Some (q_id q), m_updated_at := cf_db_now fr\<rparr>) xs) = map m_id xs" for xs
    by (simp add: update_where_def)
  then have dist: "distinct (map m_id (ch_messages db @ appended_messages db1 fr t actor (cv_id c) (Some content) None))"
    using chat_ok_distinct(3) [OF ok] by (simp only: msgs db1(3))
  obtain user answer where texts: "m_content user = text_json content" "m_content answer = text_json []" "m_status answer = MStreaming"
      "m_id answer = cf_assistant_message_id fr" "m_conversation_id user = cv_id c" "m_conversation_id answer = cv_id c" "m_tenant_id user = t" "m_tenant_id answer = t"
    and msgs': "ch_messages db2 = ch_messages db @ [user, answer\<lparr>m_request_id := Some (q_id q), m_updated_at := cf_db_now fr\<rparr>]"
    using appended_answer [OF refl dist m(1) [unfolded db1(3)] mid] unfolding msgs db1(3) by blast
  have id: "m_id m = m_id answer" using mid texts(4) by simp
  obtain db3 where db3: "ch_billing db3 = ch_billing db" "reserve_in_transaction (chat_billing db3) (chat_billing db3) (chat_billing db3)
       (cf_reservation_id fr) (cf_ledger_id fr) (cf_now fr) t ''chat_inference'' (q_id q) (ad_price decision)
       (Aware (cf_now fr + seconds (15 * 60))) = Inr (reservation, billing)" using res db1(5) by auto
  have src: "reservation_by_source t ''chat_inference'' (q_id q) (chat_billing db3) = []"
    using assms(3) db3(1) by (simp add: reservation_by_source_def chat_billing_def q accepted_request_def)
  obtain amount hold where hold: "reservation_amount (ad_price decision) = Inr amount"
      "reservations billing = reservations (chat_billing db3) @ [hold]"
      "r_id hold = rr_reservation_id reservation" "r_tenant_id hold = t" "r_source_id hold = q_id q" "r_status hold = ''pending''"
      "r_amount_minor hold = amount_minor amount"
    using reserve_hold_row [OF normalize_chat db3(2) src] by auto
  have holds: "reservations billing = reservations (ch_billing db) @ [hold]" using hold(2) db3(1) by (simp add: chat_billing_def)
  have end_rows: "ch_requests db' = ch_requests db2" "ch_events db' = ch_events db2" "ch_messages db' = ch_messages db2" "ch_conversations db' = ch_conversations db2"
    "ch_billing db' = ch_billing db2" "ch_outbox db' = ch_outbox db2" by (simp_all add: db' complete_idempotency_def)
  show ?thesis
    by (rule exI [of _ c], rule exI [of _ q], rule exI [of _ user], rule exI [of _ "answer\<lparr>m_request_id := Some (q_id q), m_updated_at := cf_db_now fr\<rparr>"],
        rule exI [of _ dep], rule exI [of _ model], rule exI [of _ decision], rule exI [of _ amount], rule exI [of _ hold],
        rule exI [of _ "chat_outbox_event fr t (cv_id c) (cv_version c + 1) (m_id m) dep (rr_reservation_id reservation)"], intro conjI)
      (simp_all add: c route' decided [unfolded db1] end_rows rows msgs' texts holds hold(1,3-) bill out a r id db1 put_conversation_def, simp_all add: q accepted_request_def chat_outbox_event_def c texts)
qed

theorem submit_exact_witness:
  "\<exists>q hold (decision :: AcceptedDecisionSnapshot) amount. ch_requests chat_queued = [q] \<and> q_status q = IQueued \<and>
     hold \<in> set (reservations (ch_billing chat_queued)) \<and> r_source_id hold = q_id q \<and> q_accepted_price_version_id q = Some (ad_price_version_id decision) \<and>
     reservation_amount (ad_price decision) = Inr amount \<and> r_amount_minor hold = amount_minor amount"
proof -
  have "reservation_by_source 1 ''chat_inference'' (cf_request_db_id demo_fresh) (ch_billing chat_created) = []" by code_simp
  moreover have "ch_requests chat_created = []" by (simp add: chat_created_def no_chat_def)
  moreover have "\<not> ar_replayed accepted_demo" by (simp add: accepted_demo_def)
  ultimately show ?thesis using submit_exact [OF chat_submitted] by fastforce
qed

subsection \<open>A conversation whose request is left unknown\<close>

lemma append_request_slot_free:
  assumes "append_request_transaction db fr t actor c dep content am h parent = Inr (r, db')"
    and "q \<in> set (ch_requests db)" and "q_tenant_id q = t" and "q_conversation_id q = Some (cv_id c)"
  shows "\<not> occupies q"
proof
  assume occ: "occupies q"
  from assms(1) obtain decision :: AcceptedDecisionSnapshot and reservation :: ReservationResult and q' :: InferenceRequest where
    q': "q' = (accepted_request fr t actor (cv_id c) (case am of None \<Rightarrow> cf_assistant_message_id fr | Some i \<Rightarrow> i) dep h parent content decision)
       \<lparr>q_billing_reservation_id := Some (rr_reservation_id reservation), q_last_event_sequence := 0\<rparr>"
    and "ch_requests db' = ch_requests db @ [q']" "chat_ok db'" by (rule append_request_Inr)
  then have "distinct (active_slots (ch_requests db @ [q']))" by (simp add: chat_ok_def chat_unique_def)
  moreover have "occupies q'" "(q_tenant_id q', the (q_conversation_id q')) = (q_tenant_id q, the (q_conversation_id q))"
    using assms(3,4) by (simp_all add: q' occupies_def accepted_request_def)
  ultimately show False using occ assms(2) by (auto simp: active_slots_def)
qed

lemma with_idle_slot_free:
  assumes "with_idle_conversation db fr t actor op cid key h body = (Inr a, db')" and "\<not> ar_replayed a"
    and "q \<in> set (ch_requests db)"
    and "\<And>db1 c r db2. body db1 c = Inr (r, db2) \<Longrightarrow> cv_id c = cid \<Longrightarrow> q \<in> set (ch_requests db1) \<Longrightarrow> \<not> occupies q"
  shows "\<not> occupies q"
  using assms(1)
proof (cases rule: with_idle_Inr)
  case 1
  then show ?thesis using assms(2) by simp
next
  case (2 idem db1 c r db2)
  have "q \<in> set (ch_requests db1)" using claim_idempotency_chat [OF 2(1)] assms(3) by (simp add: same_chat_def)
  then show ?thesis using assms(4) [OF 2(4)] lock_conversation_Some(4) [OF 2(2)] by blast
qed

text \<open>
  C34. A request that ends as unknown closes its conversation for good: the row still occupies the conversation's
  slot in the unique index although it is no longer the active request, no transaction ever changes it, and so in
  every later state a submission or a regeneration in that conversation is refused, unless it only repeats an
  earlier accepted one.
\<close>

theorem unknown_closes_conversation:
  assumes "chat_inv db" and "q \<in> set (ch_requests db)" and "q_status q = ISubmittedUnknown" and "q_conversation_id q = Some cid"
    and "chat_run db db1" and new: "\<not> ar_replayed a"
  shows "fst (submit db1 fr (q_tenant_id q) actor cid content key h) \<noteq> Inr a \<and> fst (regenerate db1 fr (q_tenant_id q) actor cid mid key h) \<noteq> Inr a"
proof -
  have "\<not> in_flight q" using assms(3) by (simp add: in_flight_def)
  then have "keeps_request q q' \<longrightarrow> q' = q" for q' by (simp add: keeps_request_def)
  then have row: "q \<in> set (ch_requests db1)" using chat_run_moved [OF assms(5,1)] assms(2) unfolding chat_moved_def by blast
  have occ: "occupies q" using assms(3,4) by (simp add: occupies_def)
  have "fst (submit db1 fr (q_tenant_id q) actor cid content key h) \<noteq> Inr a"
  proof
    assume "fst (submit db1 fr (q_tenant_id q) actor cid content key h) = Inr a"
    then obtain db' where "submit db1 fr (q_tenant_id q) actor cid content key h = (Inr a, db')" by (metis prod.collapse)
    then have "\<not> occupies q" unfolding submit_def
      by (rule with_idle_slot_free [OF _ new row]) (use assms(4) in \<open>auto dest: append_request_slot_free\<close>)
    then show False using occ by simp
  qed
  moreover have "fst (regenerate db1 fr (q_tenant_id q) actor cid mid key h) \<noteq> Inr a"
  proof
    assume "fst (regenerate db1 fr (q_tenant_id q) actor cid mid key h) = Inr a"
    then obtain db' where "regenerate db1 fr (q_tenant_id q) actor cid mid key h = (Inr a, db')" by (metis prod.collapse)
    then have "\<not> occupies q" unfolding regenerate_def
      by (rule with_idle_slot_free [OF _ new row]) (use assms(4) in \<open>auto dest: append_request_slot_free\<close>)
    then show False using occ by simp
  qed
  ultimately show ?thesis by blast
qed

theorem unknown_closes_conversation_witness:
  "fst (submit chat_unknown demo_fresh 1 5 201 ''hi'' ''x'' ''h'') \<noteq> Inr accepted_demo"
proof -
  have row: "unknown_request \<in> set (ch_requests chat_unknown)" using unknown_request(1) by simp
  have "\<not> ar_replayed accepted_demo" by (simp add: accepted_demo_def)
  note closed = unknown_closes_conversation [OF chat_unknown_inv row unknown_request(2,5) rtranclp.rtrancl_refl this, unfolded unknown_request(4)]
  show ?thesis by (rule conjunct1 [OF closed])
qed

subsection \<open>Readers of a stream\<close>

text \<open>
  Every event of the public contract survives the wire: dumping an event that meets its contract and reading
  the dump back by the declared fields gives the same event.
\<close>

theorem stream_event_roundtrip:
  assumes "event_ok ev"
  shows "strict_event (model_dump ev) = Some ev"
  using assms by (rule strict_model_dump)

theorem stream_event_roundtrip_witness:
  "strict_event (model_dump (StreamDeltaEvent \<lparr>sb_request_id = ''r'', sb_conversation_id = ''c'', sb_message_id = ''m''\<rparr> 1 ''hi'')) =
     Some (StreamDeltaEvent \<lparr>sb_request_id = ''r'', sb_conversation_id = ''c'', sb_message_id = ''m''\<rparr> 1 ''hi'')"
proof -
  have "event_ok (StreamDeltaEvent \<lparr>sb_request_id = ''r'', sb_conversation_id = ''c'', sb_message_id = ''m''\<rparr> 1 ''hi'')"
    by (simp add: event_ok_def NonEmptyId_def)
  then show ?thesis by (rule stream_event_roundtrip)
qed

text \<open>
  C29. A reader that opens a stream of its own request at a cursor is given the rest of the request's log: whatever
  the other processes commit between its reads, the events it gets are the contiguous stretch of the log after
  the cursor, each once and in order; without a time limit the stream ends only with the terminal event, after
  all of the log; and when the two reads of each turn see one state, it is never refused and a finished request
  ends it. (The
  validator accepts what the contract declares, and the texts of the log keep to the bounds of the contract.)
\<close>

theorem stream_follows_log:
  assumes "\<And>d ev. strict_event d = Some ev \<Longrightarrow> validate d = Some ev"
    and "chat_inv db" and "owned_requests db t actor cid rid = [q]" and "observed db turns"
    and "list_all within_contract (log_of (last_seen db turns) t actor cid rid)"
    and "k < length (events_of db q) \<or> k = length (events_of db q) \<and> in_flight q"
    and "sc_include_heartbeats cfg \<longrightarrow> 0 < sc_heartbeat_interval cfg" and "0 < sc_replay_fallback cfg"
    and "stream validate cfg db opened beat t actor cid rid (Some (int k - 1)) turns = (out, ending)"
  shows "(\<exists>n. events_only out = map published (take n (drop k (log_of (last_seen db turns) t actor cid rid)))) \<and>
    (ending = Returned \<and> sc_max_duration cfg = None \<longrightarrow>
      events_only out = map published (drop k (log_of (last_seen db turns) t actor cid rid)) \<and> terminal_event (last (log_of (last_seen db turns) t actor cid rid))) \<and>
    (\<forall>e. ending = Raised e \<longrightarrow> \<not> list_all snapshot_turn turns) \<and>
    (list_all snapshot_turn turns \<and> turns \<noteq> [] \<and> terminal_event (last (log_of (last_seen db turns) t actor cid rid)) \<longrightarrow> ending \<noteq> Open)"
proof -
  let ?L = "log_of (last_seen db turns) t actor cid rid"
  have "follows cfg (map_option ((+) opened) (sc_max_duration cfg)) turns ?L k (out, ending)"
    using stream_follow [where validate = validate and k = k and implicit = False and cfg = cfg and opened = opened and beat = beat,
        OF assms(1) assms(3,2,4,5) _ _ assms(7)] assms(6,9) by auto
  then obtain n where n: "k \<le> n" "events_only out = map published (drop k (take n ?L))"
    and ends: "case ending of
          Returned \<Rightarrow> map_option ((+) opened) (sc_max_duration cfg) = None \<and> 0 < sc_replay_fallback cfg \<longrightarrow> n = length ?L \<and> terminal_event (last ?L)
        | Raised e \<Rightarrow> e = Domain (ConversationInfrastructureError ''STREAM_EVENT_SEQUENCE_INVALID'') \<and> \<not> list_all snapshot_turn turns
        | Open \<Rightarrow> list_all snapshot_turn turns \<and> turns \<noteq> [] \<longrightarrow> n = length ?L \<and> \<not> terminal_event (last ?L)"
    unfolding follows_def by auto
  have "events_only out = map published (take (n - k) (drop k ?L))" using n(2) by (simp add: take_drop n(1))
  moreover have "n = length ?L \<and> terminal_event (last ?L)" if "ending = Returned" "sc_max_duration cfg = None"
    using ends that assms(8) by simp
  ultimately show ?thesis using ends n(2) by auto
qed

definition demo_turn :: "chat_db \<Rightarrow> chat_db \<Rightarrow> stream_turn" where
  "demo_turn db1 db2 = \<lparr>tn_events = db1, tn_request = db2, tn_deadline_clock = 1, tn_heartbeat_clock = 1, tn_reset_clock = 1,
     tn_waited_clock = 2, tn_waited_reset_clock = 2\<rparr>"

definition demo_stream :: stream_config where
  "demo_stream = \<lparr>sc_max_duration = None, sc_replay_fallback = 5000000, sc_include_heartbeats = False, sc_heartbeat_interval = 15000000\<rparr>"

lemma demo_owned: "owned_requests chat_queued 1 5 201 305 = [queued_request]"
  by (simp add: owned_requests_def chat_queued_def queued_chat_def no_chat_def queued_request_def demo_request_def accepted_request_def demo_fresh_def
      demo_conversation_def)

lemma textless_event_fits:
  assumes "event_shape q e" and "e_event_type e \<in> set [''started'', ''stopped'', ''failed'']"
  shows "within_contract e"
  using assms by (auto simp: event_shape_def payload_tail_def within_contract_def delta_text_def content_text_def event_fields_def)

lemma demo_log_fits: "list_all within_contract (log_of chat_unknown t actor cid rid)"
proof -
  have "within_contract e" if q: "q \<in> set (owned_requests chat_unknown t actor cid rid)" and e: "e \<in> set (events_of chat_unknown q)" for q e
  proof (rule textless_event_fits)
    show "event_shape q e"
      using chat_coreD(2) [OF chat_inv_core [OF chat_unknown_inv] owned_requests_mem(1) [OF q]] e by (simp add: log_ok_def list_all_iff)
    show "e_event_type e \<in> set [''started'', ''stopped'', ''failed'']" using unknown_request(6) e by (auto simp: events_of_def list_all_iff)
  qed
  then show ?thesis by (auto simp: log_of_def list_all_iff)
qed

theorem stream_follows_log_witness:
  "\<exists>n. events_only (fst (stream strict_event demo_stream chat_queued 0 0 1 5 201 305 (Some (int 0 - 1)) [demo_turn chat_queued chat_queued, demo_turn chat_unknown chat_unknown])) =
     map published (take n (log_of chat_unknown 1 5 201 305))"
proof -
  let ?turns = "[demo_turn chat_queued chat_queued, demo_turn chat_unknown chat_unknown]"
  have seen: "last_seen chat_queued ?turns = chat_unknown" by (simp add: demo_turn_def)
  have "observed chat_queued ?turns" using chat_unknown_run by (simp add: demo_turn_def)
  moreover have "0 < length (events_of chat_queued queued_request)"
    using chat_coreD(2) [OF chat_inv_core [OF chat_queued_inv] queued_request_row(1)] by (simp add: log_ok_def)
  ultimately show ?thesis
    using stream_follows_log [of strict_event, OF _ chat_queued_inv demo_owned, where turns = "?turns" and k = 0 and cfg = demo_stream and opened = 0 and beat = 0,
        unfolded seen, OF _ _ demo_log_fits _ _ _ prod.collapse [symmetric]] by (simp add: demo_stream_def)
qed

lemma stream_rows_count:
  "stream_rows validate rid cid mid rows s = (out, Inr s') \<Longrightarrow> ss_expected s' = ss_expected s + int (length (events_only out))"
  by (induction rows arbitrary: s out) (auto simp: events_only_def Let_def split: sum.splits prod.splits)

lemma turn_wait_count:
  "turn_wait cfg deadline turn b s r = (out, TurnContinues s') \<Longrightarrow>
     events_only out = [] \<and> ss_expected s' = ss_expected s \<and> ss_terminal s' = ss_terminal s"
  by (auto simp: turn_wait_def events_only_def Let_def split: if_splits)

lemma turn_step_continues:
  assumes "stream_turn_step validate cfg deadline t actor cid r turn s = (out, TurnContinues s')"
  shows "ss_expected s' = ss_expected s + int (length (events_only out)) \<and> \<not> ss_terminal s'"
proof -
  obtain rows where rows: "events_in_transaction (tn_events turn) t actor cid (rq_request_id r) (ss_expected s - 1) = Inr rows"
    using assms by (auto simp: stream_turn_step_def split: sum.splits)
  obtain out1 s1 where one: "stream_rows validate (rq_request_id r) cid (rq_message_id r) rows s = (out1, Inr s1)" "\<not> ss_terminal s1"
    using assms rows by (auto simp: stream_turn_step_def split: sum.splits prod.splits if_splits)
  obtain refreshed beats where wait: "turn_wait cfg deadline turn (rows = []) s1 refreshed = (beats, TurnContinues s')" "out = out1 @ beats"
    using assms rows one by (auto simp: stream_turn_step_def split: sum.splits prod.splits if_splits)
  show ?thesis using turn_wait_count [OF wait(1)] stream_rows_count [OF one(1)] one(2) wait(2) by simp
qed

text \<open>A reader that is still open goes on from where it is.\<close>

lemma stream_turns_open:
  assumes "stream_turns validate cfg deadline t actor cid r before s = (out, Open)" and "\<not> ss_terminal s"
  obtains s' where "ss_expected s' = ss_expected s + int (length (events_only out))" "\<not> ss_terminal s'"
    "\<And>turns. stream_turns validate cfg deadline t actor cid r (before @ turns) s =
       (let (rest, e) = stream_turns validate cfg deadline t actor cid r turns s' in (out @ rest, e))"
  using assms
proof (induction before arbitrary: s out thesis)
  case Nil
  then show ?case by (auto simp: events_only_def)
next
  case (Cons turn before)
  obtain out1 e1 where step: "stream_turn_step validate cfg deadline t actor cid r turn s = (out1, e1)" by fastforce
  have "e1 \<noteq> TurnEnds e" for e
  proof
    assume e: "e1 = TurnEnds e"
    then have "e = Open" using Cons.prems(2) step by simp
    then show False using step e by (auto simp: stream_turn_step_def turn_wait_def Let_def split: sum.splits prod.splits if_splits)
  qed
  then obtain s1 where e1: "e1 = TurnContinues s1" by (cases e1) auto
  note one = turn_step_continues [OF step [unfolded e1]]
  obtain rest where rest: "stream_turns validate cfg deadline t actor cid r before s1 = (rest, Open)" "out = out1 @ rest"
    using Cons.prems(2) step e1 by (auto split: prod.splits)
  obtain s' where s': "ss_expected s' = ss_expected s1 + int (length (events_only rest))" "\<not> ss_terminal s'"
    "\<And>turns. stream_turns validate cfg deadline t actor cid r (before @ turns) s1 =
       (let (rest', e) = stream_turns validate cfg deadline t actor cid r turns s' in (rest @ rest', e))"
    using Cons.IH [OF _ rest(1)] one by blast
  show ?case
    by (rule Cons.prems(1) [of s'])
      (use s' one in \<open>simp_all add: step e1 rest(2) split: prod.splits\<close>)
qed

text \<open>
  C35. The two reads of a turn are two transactions, and a request that finishes between them breaks the stream: at any
  turn, with or without heartbeats, a reader that has been given every event so far and finds no new one is
  refused with an infrastructure error when the terminal event is committed before its second read, although the
  log is intact.
\<close>

theorem stream_race:
  assumes "chat_inv db" and "owned_requests db t actor cid rid = [q0]" and "chat_run db (tn_events turn)"
    and "owned_requests (tn_events turn) t actor cid rid = [q]" and "in_flight q"
    and "chat_run (tn_events turn) (tn_request turn)" and "owned_requests (tn_request turn) t actor cid rid = [q']" and "\<not> in_flight q'"
    and "stream validate cfg db opened beat t actor cid rid (Some (int k - 1)) before = (out, Open)"
    and "k + length (events_only out) = length (events_of (tn_events turn) q)"
  shows "stream validate cfg db opened beat t actor cid rid (Some (int k - 1)) (before @ turn # turns) =
    (out, Raised (Domain (ConversationInfrastructureError ''STREAM_EVENT_SEQUENCE_INVALID'')))"
proof -
  let ?err = "Raised (Domain (ConversationInfrastructureError ''STREAM_EVENT_SEQUENCE_INVALID''))"
  let ?dl = "map_option ((+) opened) (sc_max_duration cfg)" and ?n = "length (events_of (tn_events turn) q)"
  let ?s = "\<lparr>ss_expected = int k - 1 + 1, ss_started = (0 \<le> int k - 1), ss_terminal = False, ss_last_heartbeat = beat\<rparr>"
  have inv: "chat_inv (tn_events turn)" by (rule chat_run_inv [OF assms(3,1)])
  note q = owned_mem [OF assms(4) inv]
  obtain q2 where q2: "owned_requests (tn_request turn) t actor cid rid = [q2]" "prefix (events_of (tn_events turn) q) (events_of (tn_request turn) q2)"
      "chat_inv (tn_request turn)"
    by (rule owned_moved [OF assms(4) inv assms(6)])
  have [simp]: "q2 = q'" using q2(1) assms(7) by simp
  note q' = owned_mem [OF q2(1,3)]
  obtain mid where req: "assert_request db t actor cid rid = Inr \<lparr>rq_request_db_id = q_id q0, rq_request_id = rid, rq_conversation_id = cid,
       rq_message_id = mid, rq_tenant_id = t, rq_status = q_status q0, rq_last_event_sequence = q_last_event_sequence q0\<rparr>" (is "_ = Inr ?r")
    by (rule owned_message [OF assms(2,1)])
  obtain mid' where ref: "assert_request (tn_request turn) t actor cid rid = Inr \<lparr>rq_request_db_id = q_id q2, rq_request_id = rid, rq_conversation_id = cid,
       rq_message_id = mid', rq_tenant_id = t, rq_status = q_status q2, rq_last_event_sequence = q_last_event_sequence q2\<rparr>"
    by (rule owned_message [OF q2(1,3)])
  have opens: "stream validate cfg db opened beat t actor cid rid (Some (int k - 1)) ts = stream_turns validate cfg ?dl t actor cid ?r ts ?s" for ts
    using assms(9) by (auto simp: stream_def req Let_def split: if_splits)
  have open_at: "\<not> ss_terminal ?s" by simp
  obtain s' where at_: "ss_expected s' = ss_expected ?s + int (length (events_only out))" and s': "\<not> ss_terminal s'"
    "\<And>ts. stream_turns validate cfg ?dl t actor cid ?r (before @ ts) ?s =
       (let (rest, e) = stream_turns validate cfg ?dl t actor cid ?r ts s' in (out @ rest, e))"
    by (rule stream_turns_open [OF assms(9) [unfolded opens] open_at]) blast
  have expected: "ss_expected s' = int ?n" using at_ assms(10) by simp
  have read: "events_in_transaction (tn_events turn) t actor cid rid (int ?n - 1) = Inr []" using events_replay [OF assms(4) inv, of ?n] by simp
  have "events_of (tn_request turn) q2 \<noteq> events_of (tn_events turn) q" using q(5) q'(5) assms(5,8) by (auto simp: log_ok_def)
  then have "int ?n \<le> q_last_event_sequence q2" using q2(2) q'(5) by (auto simp: log_ok_def elim!: prefixE)
  then have "stream_turn_step validate cfg ?dl t actor cid ?r turn s' = ([], TurnEnds ?err)"
    using assms(8) s'(1) expected finished_iff [of q'] by (simp add: stream_turn_step_def read ref turn_wait_def Let_def)
  then show ?thesis unfolding opens s'(2) by simp
qed

lemma demo_owned_unknown: "owned_requests chat_unknown 1 5 201 305 = [unknown_request]"
proof -
  obtain q2 where q2: "owned_requests chat_unknown 1 5 201 305 = [q2]" by (rule owned_moved [OF demo_owned chat_queued_inv chat_unknown_run])
  then have "q2 \<in> set (ch_requests chat_unknown)" using owned_mem(1) [OF q2 chat_unknown_inv] by simp
  then show ?thesis using q2 unknown_request(1) by simp
qed

definition beating_stream :: stream_config where
  "beating_stream = \<lparr>sc_max_duration = Some 300000000, sc_replay_fallback = 5000000, sc_include_heartbeats = True, sc_heartbeat_interval = 15000000\<rparr>"

theorem stream_race_witness:
  "chat_run chat_queued chat_unknown \<and>
   stream strict_event beating_stream chat_queued 0 0 1 5 201 305 (Some (int 1 - 1)) [demo_turn chat_queued chat_unknown] =
     ([], Raised (Domain (ConversationInfrastructureError ''STREAM_EVENT_SEQUENCE_INVALID'')))"
proof -
  have last: "q_last_event_sequence queued_request = 0" by (simp add: queued_request_def)
  then have log: "length (events_of chat_queued queued_request) = 1"
    using owned_mem(5) [OF demo_owned chat_queued_inv] by (simp add: log_ok_def)
  have open_: "stream strict_event beating_stream chat_queued 0 0 1 5 201 305 (Some (int 1 - 1)) [] = ([], Open)"
  proof -
    obtain mid where "assert_request chat_queued 1 5 201 305 = Inr \<lparr>rq_request_db_id = q_id queued_request, rq_request_id = 305, rq_conversation_id = 201,
       rq_message_id = mid, rq_tenant_id = 1, rq_status = q_status queued_request, rq_last_event_sequence = q_last_event_sequence queued_request\<rparr>"
      by (rule owned_message [OF demo_owned chat_queued_inv])
    then show ?thesis using last queued_request_row(2) finished_iff [of queued_request] by (simp add: stream_def beating_stream_def Let_def)
  qed
  have t: "tn_events (demo_turn chat_queued chat_unknown) = chat_queued" "tn_request (demo_turn chat_queued chat_unknown) = chat_unknown"
    by (simp_all add: demo_turn_def)
  have "\<not> in_flight unknown_request" using unknown_request(2) by (simp add: in_flight_def)
  from stream_race [where turn = "demo_turn chat_queued chat_unknown" and before = "[]" and turns = "[]",
      OF chat_queued_inv demo_owned, unfolded t, OF _ demo_owned queued_request_row(2) chat_unknown_run demo_owned_unknown this open_]
  show ?thesis using chat_unknown_run log by (simp add: events_only_def)
qed

lemma turn_past_deadline:
  assumes "d \<le> tn_deadline_clock turn"
  shows "\<exists>out e. stream_turn_step validate cfg (Some d) t actor cid r turn s = (out, TurnEnds e) \<and> e \<noteq> Open"
proof -
  have wait: "\<exists>e. turn_wait cfg (Some d) turn b s' refreshed = ([], TurnEnds e) \<and> e \<noteq> Open" for b s' refreshed
    using assms by (auto simp: turn_wait_def Let_def)
  show ?thesis
  proof (cases "events_in_transaction (tn_events turn) t actor cid (rq_request_id r) (ss_expected s - 1)")
    case (Inr rows)
    obtain out res where rows: "stream_rows validate (rq_request_id r) cid (rq_message_id r) rows s = (out, res)" by fastforce
    show ?thesis
    proof (cases res)
      case res: (Inr s')
      show ?thesis
      proof (cases "assert_request (tn_request turn) t actor cid (rq_request_id r)")
        case refreshed: (Inr refreshed)
        obtain e where "turn_wait cfg (Some d) turn (rows = []) s' refreshed = ([], TurnEnds e)" "e \<noteq> Open" using wait by blast
        then show ?thesis by (simp add: stream_turn_step_def Inr rows res refreshed)
      qed (simp add: stream_turn_step_def Inr rows res)
    qed (simp add: stream_turn_step_def Inr rows)
  qed (simp add: stream_turn_step_def)
qed

lemma stream_turns_end:
  assumes "turn \<in> set turns" and "d \<le> tn_deadline_clock turn"
  shows "snd (stream_turns validate cfg (Some d) t actor cid r turns s) \<noteq> Open"
  using assms(1)
proof (induction turns arbitrary: s)
  case (Cons x turns)
  show ?case
  proof (cases "stream_turn_step validate cfg (Some d) t actor cid r x s")
    case (Pair out turn_end)
    then show ?thesis
    proof (cases turn_end)
      case (TurnContinues s')
      then have "x \<noteq> turn" using turn_past_deadline [OF assms(2), of validate cfg t actor cid r s] Pair by auto
      then show ?thesis using Cons.IH [of s'] Cons.prems Pair TurnContinues by (auto split: prod.splits)
    next
      case (TurnEnds e)
      have "e \<noteq> Open" using Pair TurnEnds by (auto simp: stream_turn_step_def turn_wait_def Let_def split: sum.splits prod.splits if_splits)
      then show ?thesis using Pair TurnEnds by simp
    qed
  qed
qed simp

text \<open>
  C36. A reader with a time limit ends: whatever it reads, the stream is over by the first turn that finds the
  limit passed on its clock, if it has not ended before.
\<close>

theorem stream_ends:
  assumes "sc_max_duration cfg = Some d" and "turn \<in> set turns" and "opened + d \<le> tn_deadline_clock turn"
  shows "snd (stream validate cfg db opened beat t actor cid rid cursor turns) \<noteq> Open"
  using stream_turns_end [OF assms(2,3)] assms(1) by (auto simp: stream_def Let_def split: sum.splits)

theorem stream_ends_witness:
  "snd (stream strict_event (demo_stream\<lparr>sc_max_duration := Some 1\<rparr>) chat_queued 0 0 1 5 201 305 None [demo_turn chat_queued chat_queued]) \<noteq> Open"
  by (rule stream_ends [where d = 1 and turn = "demo_turn chat_queued chat_queued"]) (simp_all add: demo_turn_def demo_stream_def)

end
