(* ===== verification/Chat_Worker.thy ===== *)
theory Chat_Worker
  imports Chat_Settlement Concurrency
begin

text \<open>
  The durable chat worker (\<open>DurableChatWorker\<close> of \<open>app/conversations/worker.py\<close>): a delivery claims a queued
  request, streams the provider's answer into the event log and settles the hold, with the request handed to the
  provider (\<open>app/providers/ports.py\<close>) and its errors (\<open>app/providers/errors.py\<close>). Every database call is a
  transaction of its own, and \<open>wc_other\<close> transforms the database before each: what the other processes commit
  meanwhile. What the provider streams is an argument; metrics and wake-up notifications are not modelled.
\<close>

subsection \<open>Exceptions\<close>

record ProviderFailure =
  pf_provider :: string
  pf_operation :: string
  pf_code :: string
  pf_message :: string
  pf_status_code :: "int option"
  pf_retryable :: bool
  pf_request_id :: "string option"

datatype chat_exn =
    ChatProviderError ProviderFailure
  | ChatSaturated
  | ChatAdmissionUnavailable
  | ChatLeaseLost
  | ChatRaised "chat_error raised"
  | ChatOtherException

definition opt_json :: "('a \<Rightarrow> json) \<Rightarrow> 'a option \<Rightarrow> json" where
  "opt_json f v = (case v of None \<Rightarrow> JNull | Some x \<Rightarrow> f x)"

definition public_dict :: "ProviderFailure \<Rightarrow> (string \<times> json) list" where
  "public_dict f =
     [(''code'', JStr (pf_code f)), (''message'', JStr (pf_message f)), (''status_code'', opt_json JInt (pf_status_code f)),
      (''retryable'', JBool (pf_retryable f)), (''request_id'', opt_json JStr (pf_request_id f))]"

definition diagnostic_dict :: "ProviderFailure \<Rightarrow> (string \<times> json) list" where
  "diagnostic_dict f = [(''provider'', JStr (pf_provider f)), (''operation'', JStr (pf_operation f))] @ public_dict f"

definition UNCERTAIN_PROVIDER_CODES :: "string list" where
  "UNCERTAIN_PROVIDER_CODES = [''provider_submission_unknown'', ''submission_unknown'']"

definition DEFINITIVE_NO_SUBMISSION_CODES :: "string list" where
  "DEFINITIVE_NO_SUBMISSION_CODES = [''provider_connection_error'']"

definition is_submission_unknown :: "ProviderFailure \<Rightarrow> bool" where
  "is_submission_unknown e =
     (let code = lower (pf_code e) in
      if code \<in> set UNCERTAIN_PROVIDER_CODES then True
      else if code \<in> set DEFINITIVE_NO_SUBMISSION_CODES then False
      else (case pf_status_code e of None \<Rightarrow> True | Some status \<Rightarrow> status = 408 \<or> 500 \<le> status))"

text \<open>\<open>re.sub("[^A-Z0-9_]+", "_", s)\<close> and \<open>strip("_")\<close>.\<close>

definition code_char :: "char \<Rightarrow> bool" where
  "code_char c \<longleftrightarrow> is_upper c \<or> is_digit c \<or> c = CHR ''_''"

fun sub_runs :: "string \<Rightarrow> string" where
  "sub_runs [] = []"
| "sub_runs (c # s) =
     (if code_char c then c # sub_runs s
      else (case s of
              [] \<Rightarrow> ''_''
            | c' # _ \<Rightarrow> if code_char c' then CHR ''_'' # sub_runs s else sub_runs s))"

definition strip_underscores :: "string \<Rightarrow> string" where
  "strip_underscores s = rev (dropWhile (\<lambda>c. c = CHR ''_'') (rev (dropWhile (\<lambda>c. c = CHR ''_'') s)))"

definition safe_error_code :: "string \<Rightarrow> string \<Rightarrow> string" where
  "safe_error_code value fallback =
     (let normalized = strip_underscores (sub_runs (upper value)) in
      take 120 (if normalized = [] then fallback else normalized))"

definition safe_error_details :: "(string \<times> json) list option \<Rightarrow> (string \<times> json) list option" where
  "safe_error_details value =
     map_option (\<lambda>v. concat (map (safe_item v) [''code'', ''phase'', ''retryable'', ''status_code'', ''request_id''])) value"

subsection \<open>The completion request\<close>

record ChatMessage =
  tm_role :: string
  tm_content :: string

record TextCompletionRequest =
  tr_model :: string
  tr_messages :: "ChatMessage list"
  tr_temperature :: "rat option"
  tr_max_completion_tokens :: "int option"

record TextStreamChunk =
  tc_request_id :: string
  tc_delta :: string
  tc_usage :: "Usage option"

text \<open>A \<open>TypeError\<close> or \<open>ValueError\<close>, which the worker catches, and an \<open>OverflowError\<close>, which it does not.\<close>

datatype completion_error = Completion_invalid | Completion_overflow

definition require_text :: "string \<Rightarrow> nat \<Rightarrow> completion_error + unit" where
  "require_text value max_length =
     andthen (require (\<not> blank value) Completion_invalid) (\<lambda>_. require (length value \<le> max_length) Completion_invalid)"

definition CHAT_ROLES :: "string list" where
  "CHAT_ROLES = [''system'', ''user'', ''assistant'', ''tool'']"

definition mk_ChatMessage :: "string \<Rightarrow> string \<Rightarrow> completion_error + ChatMessage" where
  "mk_ChatMessage role content =
     andthen (require (role \<in> set CHAT_ROLES) Completion_invalid) (\<lambda>_.
     andthen (require_text content 8000) (\<lambda>_. Inr \<lparr>tm_role = role, tm_content = content\<rparr>))"

definition mk_TextCompletionRequest ::
  "string \<Rightarrow> ChatMessage list \<Rightarrow> rat option \<Rightarrow> int option \<Rightarrow> completion_error + TextCompletionRequest" where
  "mk_TextCompletionRequest model messages temperature max_completion_tokens =
     andthen (require_text model 160) (\<lambda>_.
     andthen (require (messages \<noteq> []) Completion_invalid) (\<lambda>_.
     andthen (require (null_or (\<lambda>t. 0 \<le> t \<and> t \<le> 2) temperature) Completion_invalid) (\<lambda>_.
     andthen (require (null_or (\<lambda>n. 1 \<le> n) max_completion_tokens) Completion_invalid) (\<lambda>_.
     Inr \<lparr>tr_model = model, tr_messages = messages, tr_temperature = temperature,
          tr_max_completion_tokens = max_completion_tokens\<rparr>))))"

text \<open>
  \<open>decode\<close> is the number a JSON parser reads from the text of a float. \<open>float(value)\<close> raises for an integer
  beyond the largest double; smaller ones are exact where the range check can tell.
\<close>

definition config_float ::
  "(string \<Rightarrow> rat) \<Rightarrow> (string \<times> json) list \<Rightarrow> string \<Rightarrow> rat option \<Rightarrow> completion_error + rat option" where
  "config_float decode config key fallback =
     (case map_of config key of
        None \<Rightarrow> Inr fallback
      | Some JNull \<Rightarrow> Inr None
      | Some (JInt i) \<Rightarrow>
          if 2 ^ 1024 - 2 ^ 970 \<le> \<bar>i\<bar> then Inl Completion_overflow else Inr (Some (of_int i))
      | Some (JFloat s) \<Rightarrow> Inr (Some (decode s))
      | Some _ \<Rightarrow> Inl Completion_invalid)"

definition config_int :: "(string \<times> json) list \<Rightarrow> string \<Rightarrow> int option \<Rightarrow> completion_error + int option" where
  "config_int config key fallback =
     (case map_of config key of
        None \<Rightarrow> Inr fallback
      | Some JNull \<Rightarrow> Inr None
      | Some (JInt i) \<Rightarrow> Inr (Some i)
      | Some _ \<Rightarrow> Inl Completion_invalid)"

fun prompt_messages :: "uuid \<Rightarrow> ConversationMessageRecord list \<Rightarrow> completion_error + ChatMessage list" where
  "prompt_messages message_id [] = Inr []"
| "prompt_messages message_id (item # items) =
     (if mr_message_id item = message_id then prompt_messages message_id items
      else
        andthen (require (mr_role item \<in> set CHAT_ROLES) Completion_invalid) (\<lambda>_.
        if blank (mr_content item) then prompt_messages message_id items
        else
          andthen (mk_ChatMessage (mr_role item) (mr_content item)) (\<lambda>message.
          andthen (prompt_messages message_id items) (\<lambda>messages. Inr (message # messages)))))"

subsection \<open>The worker and its environment\<close>

record ChatWorkerDependencies =
  wd_executor :: "(ChatRequestRecord \<Rightarrow> chat_db \<Rightarrow> (chat_exn + unit) \<times> chat_db) option"
  wd_repository :: bool
  wd_text_generation :: bool
  wd_billing :: bool
  wd_concurrency :: bool
  wd_worker_id :: string
  wd_lease_seconds :: int
  wd_concurrency_lease_seconds :: rat
  wd_concurrency_renewal_interval_seconds :: "rat option"
  wd_concurrency_retry_delay_seconds :: rat
  wd_temperature :: "rat option"
  wd_max_completion_tokens :: "int option"

text \<open>
  Clocks, identifiers and interference are indexed by the call. \<open>wc_cut\<close> says at which call of the guarded stream
  the loss of the permit was noticed, if it was, and whether the transaction then under way had committed.
  \<open>wc_stream\<close> is what the provider streamed and how the stream ended, \<open>wc_close\<close> what closing it raised.
\<close>

record chat_env =
  wc_deps :: ChatWorkerDependencies
  wc_extension :: int
  wc_now :: "nat \<Rightarrow> instant"
  wc_seen :: "nat \<Rightarrow> instant"
  wc_uuid :: "nat \<Rightarrow> nat \<Rightarrow> uuid"
  wc_other :: "nat \<Rightarrow> chat_db \<Rightarrow> chat_db"
  wc_locked :: "uuid \<Rightarrow> bool"
  wc_environment :: string
  wc_redis :: redis
  wc_nets :: "nat \<Rightarrow> net"
  wc_clock :: "nat \<Rightarrow> int"
  wc_tokens :: "nat \<Rightarrow> string"
  wc_decode :: "string \<Rightarrow> rat"
  wc_stream :: "TextCompletionRequest \<Rightarrow> chat_exn + (TextStreamChunk list \<times> chat_exn option)"
  wc_close :: "chat_exn option"
  wc_cut :: "nat \<Rightarrow> bool option"

definition mk_DurableChatWorker :: "ChatWorkerDependencies \<Rightarrow> chat_error + ChatWorkerDependencies" where
  "mk_DurableChatWorker d =
     andthen (require (\<not> blank (wd_worker_id d)) (ChatValueError ''worker_id must not be blank'')) (\<lambda>_.
     andthen (require (1 \<le> wd_lease_seconds d) (ChatValueError ''lease_seconds must be positive'')) (\<lambda>_.
     andthen (require (1 \<le> wd_concurrency_lease_seconds d)
       (ChatValueError ''concurrency lease must be at least one second'')) (\<lambda>_.
     andthen (require (null_or (\<lambda>s. 0 < s) (wd_concurrency_renewal_interval_seconds d))
       (ChatValueError ''concurrency renewal interval must be positive'')) (\<lambda>_.
     andthen (require (0 < wd_concurrency_retry_delay_seconds d)
       (ChatValueError ''concurrency retry delay must be positive'')) (\<lambda>_. Inr d)))))"

definition required_dependencies :: "ChatWorkerDependencies \<Rightarrow> chat_exn + unit" where
  "required_dependencies d =
     require (wd_repository d \<and> wd_text_generation d \<and> wd_billing d \<and> wd_concurrency d)
       (ChatRaised (Domain (ConversationInfrastructureError ''CHAT_WORKER_NOT_CONFIGURED'')))"

definition completion_request :: "chat_env \<Rightarrow> ChatExecutionRecord \<Rightarrow> completion_error + TextCompletionRequest" where
  "completion_request env x =
     (let d = x_deployment x; deps = wc_deps env in
      andthen (prompt_messages (x_message_id x) (x_history x)) (\<lambda>messages.
      andthen (config_float (wc_decode env) (dr_routing_config d) ''temperature'' (wd_temperature deps)) (\<lambda>temperature.
      andthen (config_int (dr_routing_config d) ''max_completion_tokens'' (wd_max_completion_tokens deps)) (\<lambda>max_tokens.
      mk_TextCompletionRequest (dr_provider_model_id d) messages temperature max_tokens))))"

definition chat_acquire_admission :: "chat_env \<Rightarrow> ChatExecutionRecord \<Rightarrow> concurrency_error + RedisLease list option" where
  "chat_acquire_admission env x =
     fst (acquire_deployment_admission (wc_environment env) (wc_redis env) (wc_nets env) (wc_clock env) (wc_tokens env)
       (x_tenant_id x) (dr_deployment_id (x_deployment x)) (dr_concurrency_limit (x_deployment x))
       (wd_concurrency_lease_seconds (wc_deps env)))"

text \<open>
  One repository or billing call. Inside \<open>admission.run\<close> (\<open>guarded\<close>) the loss of the permit cancels the call
  before or after its commit; its result is then lost.
\<close>

definition chat_call ::
  "chat_env \<Rightarrow> bool \<Rightarrow> nat \<Rightarrow> chat_db \<Rightarrow> (chat_db \<Rightarrow> (chat_error raised + 'a) \<times> chat_db) \<Rightarrow> (chat_exn + 'a) \<times> chat_db" where
  "chat_call env guarded i db call =
     (let before = wc_other env i db in
      case (if guarded then wc_cut env i else None) of
        Some committed \<Rightarrow> (Inl ChatLeaseLost, if committed then snd (call before) else before)
      | None \<Rightarrow> (case call before of (r, db') \<Rightarrow> (map_error ChatRaised r, db')))"

definition worker_check :: "chat_env \<Rightarrow> bool \<Rightarrow> nat \<Rightarrow> chat_db \<Rightarrow> ChatExecutionRecord \<Rightarrow> (chat_exn + ChatLeaseCheck) \<times> chat_db" where
  "worker_check env guarded i db x =
     chat_call env guarded i db (\<lambda>d. check_lease_and_stop d (wc_now env i) (wc_extension env) x)"

definition worker_release :: "chat_env \<Rightarrow> bool \<Rightarrow> nat \<Rightarrow> chat_db \<Rightarrow> ChatExecutionRecord \<Rightarrow> (chat_exn + unit) \<times> chat_db" where
  "worker_release env guarded i db x = chat_call env guarded i db (\<lambda>d. adapter_release d (wc_uuid env i 0) (wc_now env i) x)"

subsection \<open>Stops and failures\<close>

text \<open>A mark that was made is followed by the release of the hold.\<close>

definition marked_release ::
  "chat_env \<Rightarrow> bool \<Rightarrow> nat \<Rightarrow> ChatExecutionRecord \<Rightarrow> bool \<Rightarrow> (chat_exn + bool) \<times> chat_db \<Rightarrow> (chat_exn + unit) \<times> chat_db" where
  "marked_release env guarded i x reserved m =
     (case m of
        (Inl e, db) \<Rightarrow> (Inl e, db)
      | (Inr marked, db) \<Rightarrow> if marked \<and> reserved then worker_release env guarded i db x else (Inr (), db))"

definition stop_marked_request ::
  "chat_env \<Rightarrow> bool \<Rightarrow> nat \<Rightarrow> chat_db \<Rightarrow> ChatExecutionRecord \<Rightarrow> string \<Rightarrow> bool \<Rightarrow> (chat_exn + unit) \<times> chat_db" where
  "stop_marked_request env guarded i db x content reserved =
     marked_release env guarded (i + 2) x reserved
       (chat_call env guarded (i + 1) db (\<lambda>d. mark_stopped d (wc_now env (i + 1)) (wc_seen env (i + 1)) (wc_uuid env (i + 1) 0) x
          (x_last_event_sequence x + 1) content))"

definition stop_if_requested ::
  "chat_env \<Rightarrow> bool \<Rightarrow> nat \<Rightarrow> chat_db \<Rightarrow> ChatExecutionRecord \<Rightarrow> string \<Rightarrow> bool \<Rightarrow> bool \<Rightarrow> (chat_exn + bool) \<times> chat_db" where
  "stop_if_requested env guarded i db x content reserved force =
     (case (if force then (Inr (lease_check True True), db) else worker_check env guarded i db x) of
        (Inl e, db1) \<Rightarrow> (Inl e, db1)
      | (Inr check, db1) \<Rightarrow>
          if \<not> lc_lease_valid check then (Inr True, db1)
          else if \<not> lc_stop_requested check then (Inr False, db1)
          else (case stop_marked_request env guarded i db1 x content reserved of
                  (Inl e, db2) \<Rightarrow> (Inl e, db2) | (Inr _, db2) \<Rightarrow> (Inr True, db2)))"

definition chat_fail ::
  "chat_env \<Rightarrow> chat_db \<Rightarrow> ChatExecutionRecord \<Rightarrow> int \<Rightarrow> string \<Rightarrow> (string \<times> json) list option \<Rightarrow> string option \<Rightarrow> bool
   \<Rightarrow> (chat_exn + unit) \<times> chat_db" where
  "chat_fail env db x expected_sequence error_code error_details provider_request_id reserved =
     marked_release env False 13 x reserved
       (chat_call env False 12 db (\<lambda>d. mark_failed d (wc_now env 12) (wc_seen env 12) (wc_uuid env 12 0) x expected_sequence
          (safe_error_code error_code ''CHAT_PROVIDER_ERROR'') (safe_error_details error_details) provider_request_id))"

definition provider_failure ::
  "chat_env \<Rightarrow> chat_db \<Rightarrow> ChatExecutionRecord \<Rightarrow> string option \<Rightarrow> string \<Rightarrow> (string \<times> json) list option \<Rightarrow> bool \<Rightarrow> bool
   \<Rightarrow> (chat_exn + unit) \<times> chat_db" where
  "provider_failure env db x provider_request_id error_code error_details submitted_unknown reserved =
     (if submitted_unknown then
        (case chat_call env False 12 db (\<lambda>d. mark_submitted_unknown d (wc_now env 12) (wc_seen env 12) (wc_uuid env 12 0) x
                provider_request_id (safe_error_code error_code ''CHAT_SUBMISSION_UNKNOWN'')) of
           (Inl e, db') \<Rightarrow> (Inl e, db') | (Inr _, db') \<Rightarrow> (Inr (), db'))
      else chat_fail env db x (x_last_event_sequence x + 1) error_code error_details provider_request_id reserved)"

definition chat_requeue_after_saturation :: "chat_env \<Rightarrow> chat_db \<Rightarrow> ChatExecutionRecord \<Rightarrow> (chat_exn + unit) \<times> chat_db" where
  "chat_requeue_after_saturation env db x =
     (case chat_call env False 4 db (\<lambda>d. requeue_claimed d (wc_now env 4) x) of
        (Inl e, db') \<Rightarrow> (Inl e, db')
      | (Inr requeued, db') \<Rightarrow>
          (require requeued (ChatRaised (Domain (ConversationInfrastructureError ''CHAT_CONCURRENCY_REQUEUE_FAILED''))), db'))"

subsection \<open>The stream\<close>

text \<open>The fields of \<open>_ChatStreamState\<close> are assigned while the stream runs, so they survive an exception.\<close>

record ChatStreamState =
  st_current :: ChatExecutionRecord
  st_provider_request_id :: "string option"
  st_content :: string
  st_usage :: "Usage option"
  st_terminal_marked :: bool

definition coherent_provider_request_id :: "string option \<Rightarrow> string \<Rightarrow> chat_exn + string" where
  "coherent_provider_request_id previous current =
     andthen (require (current \<noteq> []) ChatOtherException) (\<lambda>_.
     andthen (require (null_or (\<lambda>p. p = current) previous) ChatOtherException) (\<lambda>_. Inr current))"

definition received :: "TextStreamChunk \<Rightarrow> string \<Rightarrow> ChatStreamState \<Rightarrow> ChatStreamState" where
  "received chunk provider_request_id st =
     st\<lparr>st_provider_request_id := Some provider_request_id,
        st_usage := (case tc_usage chunk of None \<Rightarrow> st_usage st | Some u \<Rightarrow> Some u)\<rparr>"

definition appended_delta :: "string \<Rightarrow> StreamEventRecord \<Rightarrow> ChatStreamState \<Rightarrow> ChatStreamState" where
  "appended_delta delta event st =
     st\<lparr>st_content := st_content st @ delta,
        st_current := (st_current st)\<lparr>x_last_event_sequence := se_sequence event,
          x_provider_request_id := st_provider_request_id st\<rparr>\<rparr>"

definition worker_append ::
  "chat_env \<Rightarrow> nat \<Rightarrow> chat_db \<Rightarrow> ChatStreamState \<Rightarrow> string \<Rightarrow> (chat_exn + StreamEventRecord option) \<times> chat_db" where
  "worker_append env i db st delta =
     chat_call env True i db (\<lambda>d. append_delta d (wc_now env i) (wc_seen env i) (wc_extension env) (wc_uuid env i 0) (st_current st)
       (x_last_event_sequence (st_current st) + 1) delta (st_provider_request_id st))"

fun consume_chunks ::
  "chat_env \<Rightarrow> nat \<Rightarrow> TextStreamChunk list \<Rightarrow> chat_exn option \<Rightarrow> ChatStreamState \<Rightarrow> chat_db
   \<Rightarrow> (chat_exn + unit) \<times> ChatStreamState \<times> chat_db" where
  "consume_chunks env i [] failure st db =
     (if wc_cut env i \<noteq> None then Inl ChatLeaseLost else (case failure of None \<Rightarrow> Inr () | Some e \<Rightarrow> Inl e), st, wc_other env i db)"
| "consume_chunks env i (chunk # chunks) failure st db =
     (case worker_check env True i db (st_current st) of
        (Inl e, db1) \<Rightarrow> (Inl e, st, db1)
      | (Inr check, db1) \<Rightarrow>
          if \<not> lc_lease_valid check then (Inr (), st, db1)
          else if lc_stop_requested check then
            (case stop_if_requested env True i db1 (st_current st) (st_content st) True True of
               (Inl e, db2) \<Rightarrow> (Inl e, st, db2)
             | (Inr _, db2) \<Rightarrow> (Inr (), st\<lparr>st_terminal_marked := True\<rparr>, db2))
          else
            (case coherent_provider_request_id (st_provider_request_id st) (tc_request_id chunk) of
               Inl e \<Rightarrow> (Inl e, st, db1)
             | Inr pid \<Rightarrow>
                 if tc_delta chunk = [] then consume_chunks env (i + 4) chunks failure (received chunk pid st) db1
                 else
                   (case worker_append env (i + 1) db1 (received chunk pid st) (tc_delta chunk) of
                      (Inl e, db2) \<Rightarrow> (Inl e, received chunk pid st, db2)
                    | (Inr None, db2) \<Rightarrow> (Inr (), received chunk pid st, db2)
                    | (Inr (Some event), db2) \<Rightarrow>
                        consume_chunks env (i + 4) chunks failure (appended_delta (tc_delta chunk) event (received chunk pid st)) db2)))"

text \<open>The \<open>finally\<close> clause closes the stream; what closing raises replaces the outcome.\<close>

definition consume_stream ::
  "chat_env \<Rightarrow> ChatStreamState \<Rightarrow> TextCompletionRequest \<Rightarrow> chat_db \<Rightarrow> (chat_exn + unit) \<times> ChatStreamState \<times> chat_db" where
  "consume_stream env st completion db =
     (case wc_stream env completion of
        Inl e \<Rightarrow> (Inl e, st, db)
      | Inr (chunks, failure) \<Rightarrow>
          (case consume_chunks env 20 chunks failure st db of
             (r, st', db') \<Rightarrow> (case wc_close env of None \<Rightarrow> r | Some e \<Rightarrow> Inl e, st', db')))"

subsection \<open>Execution of a claimed request\<close>

text \<open>
  The body of the \<open>try\<close> block returns the exception with what its handlers read: whether the call had been
  submitted, whether the request is already marked, and the stream state. Without an exception it tells whether
  the last line was reached, after the capture.
\<close>

type_synonym body_result = "((chat_exn \<times> bool \<times> bool) + bool) \<times> ChatStreamState \<times> chat_db"

definition usage_record :: "ChatStreamState \<Rightarrow> ChatUsageRecord" where
  "usage_record st =
     (let x = st_current st in
      \<lparr>cu_request_db_id = x_request_db_id x, cu_request_id = x_request_id x, cu_tenant_id = x_tenant_id x,
       cu_deployment_id = dr_deployment_id (x_deployment x), cu_provider_request_id = st_provider_request_id st,
       cu_usage = (case st_usage st of
                     None \<Rightarrow> \<lparr>us_prompt_tokens = 0, us_completion_tokens = 0, us_total_tokens = 0\<rparr> | Some u \<Rightarrow> u)\<rparr>)"

definition complete_and_capture :: "chat_env \<Rightarrow> ChatStreamState \<Rightarrow> chat_db \<Rightarrow> body_result" where
  "complete_and_capture env st db =
     (case chat_call env False 9 db (\<lambda>d. mark_completed d (wc_now env 9) (wc_seen env 9) (wc_uuid env 9 0) (wc_uuid env 9 1) (st_current st)
             (x_last_event_sequence (st_current st) + 1) (st_content st) (st_provider_request_id st) (usage_record st)) of
        (Inl e, db1) \<Rightarrow> (Inl (e, True, False), st, db1)
      | (Inr False, db1) \<Rightarrow> (Inr False, st, db1)
      | (Inr True, db1) \<Rightarrow>
          (case chat_call env False 10 db1 (\<lambda>d. adapter_capture d (wc_uuid env 10 0) (wc_uuid env 10 1) (wc_now env 10) (st_current st)
                  (usage_record st)) of
             (Inl e, db2) \<Rightarrow> (Inl (e, True, True), st, db2)
           | (Inr _, db2) \<Rightarrow> (Inr True, st, db2)))"

definition finish_stream :: "chat_env \<Rightarrow> ChatStreamState \<Rightarrow> chat_db \<Rightarrow> body_result" where
  "finish_stream env st db =
     (case worker_check env False 6 db (st_current st) of
        (Inl e, db1) \<Rightarrow> (Inl (e, True, False), st, db1)
      | (Inr check, db1) \<Rightarrow>
          if \<not> lc_lease_valid check then (Inr False, st, db1)
          else if lc_stop_requested check then
            (case stop_if_requested env False 6 db1 (st_current st) (st_content st) True True of
               (Inl e, db2) \<Rightarrow> (Inl (e, True, False), st, db2)
             | (Inr _, db2) \<Rightarrow> (Inr False, st, db2))
          else complete_and_capture env st db1)"

definition stream_start :: "ChatExecutionRecord \<Rightarrow> ChatStreamState" where
  "stream_start x = \<lparr>st_current = x, st_provider_request_id = x_provider_request_id x, st_content = [], st_usage = None,
     st_terminal_marked = False\<rparr>"

definition admitted_body :: "chat_env \<Rightarrow> chat_db \<Rightarrow> ChatExecutionRecord \<Rightarrow> TextCompletionRequest \<Rightarrow> body_result" where
  "admitted_body env db x completion =
     (case stop_if_requested env False 15 db x [] True False of
        (Inl e, db1) \<Rightarrow> (Inl (e, False, False), stream_start x, db1)
      | (Inr True, db1) \<Rightarrow> (Inr False, stream_start x, db1)
      | (Inr False, db1) \<Rightarrow>
          (case consume_stream env (stream_start x) completion db1 of
             (Inl e, st, db2) \<Rightarrow> (Inl (e, True, False), st, db2)
           | (Inr _, st, db2) \<Rightarrow> if st_terminal_marked st then (Inr False, st, db2) else finish_stream env st db2))"

definition handle_chat_exception ::
  "chat_env \<Rightarrow> chat_exn \<Rightarrow> bool \<Rightarrow> bool \<Rightarrow> ChatStreamState \<Rightarrow> chat_db \<Rightarrow> (chat_exn + unit) \<times> chat_db" where
  "handle_chat_exception env e submission_attempted terminal_marked st db =
     (case e of
        ChatProviderError f \<Rightarrow>
          if terminal_marked then (Inl e, db)
          else provider_failure env db (st_current st) (or_else (st_provider_request_id st) (pf_request_id f)) (pf_code f)
                 (Some (diagnostic_dict f)) (submission_attempted \<and> is_submission_unknown f) True
      | ChatSaturated \<Rightarrow> (Inl e, db)
      | ChatAdmissionUnavailable \<Rightarrow> (Inl e, db)
      | _ \<Rightarrow>
          if terminal_marked then (Inl e, db)
          else provider_failure env db (st_current st) (st_provider_request_id st) ''CHAT_PROVIDER_ERROR'' None
                 submission_attempted True)"

definition execute_admitted :: "chat_env \<Rightarrow> chat_db \<Rightarrow> ChatExecutionRecord \<Rightarrow> TextCompletionRequest \<Rightarrow> (chat_exn + bool) \<times> chat_db" where
  "execute_admitted env db x completion =
     (case admitted_body env db x completion of
        (Inr settled, _, db') \<Rightarrow> (Inr settled, db')
      | (Inl (e, submission_attempted, terminal_marked), st, db') \<Rightarrow>
          (case handle_chat_exception env e submission_attempted terminal_marked st db' of
             (Inl e', db'') \<Rightarrow> (Inl e', db'') | (Inr _, db'') \<Rightarrow> (Inr False, db'')))"

definition execute_prepared :: "chat_env \<Rightarrow> chat_db \<Rightarrow> ChatExecutionRecord \<Rightarrow> TextCompletionRequest \<Rightarrow> (chat_exn + bool) \<times> chat_db" where
  "execute_prepared env db x completion =
     (case chat_acquire_admission env x of
        Inr (Some _) \<Rightarrow> execute_admitted env db x completion
      | Inr None \<Rightarrow>
          (case chat_requeue_after_saturation env db x of (Inl e, db') \<Rightarrow> (Inl e, db') | (Inr _, db') \<Rightarrow> (Inl ChatSaturated, db'))
      | Inl ConcurrencyUnavailable \<Rightarrow>
          (case chat_requeue_after_saturation env db x of
             (Inl e, db') \<Rightarrow> (Inl e, db') | (Inr _, db') \<Rightarrow> (Inl ChatAdmissionUnavailable, db'))
      | Inl _ \<Rightarrow> (Inl ChatOtherException, db))"

definition chat_execute_claimed :: "chat_env \<Rightarrow> chat_db \<Rightarrow> ChatExecutionRecord \<Rightarrow> (chat_exn + bool) \<times> chat_db" where
  "chat_execute_claimed env db x =
     (let refuse = (\<lambda>d code reserved.
            (case chat_fail env d x (x_last_event_sequence x + 1) code None (x_provider_request_id x) reserved of
               (Inl e, db') \<Rightarrow> (Inl e, db') | (Inr _, db') \<Rightarrow> (Inr False, db'))) in
      if x_status x \<noteq> IRunning \<or> x_lease_token x = None then (Inr False, db)
      else if x_reservation_id x = None then refuse db ''CHAT_BILLING_RESERVATION_MISSING'' False
      else
        (case stop_if_requested env False 1 db x [] True False of
           (Inl e, db1) \<Rightarrow> (Inl e, db1)
         | (Inr True, db1) \<Rightarrow> (Inr False, db1)
         | (Inr False, db1) \<Rightarrow>
             (case completion_request env x of
                Inl Completion_invalid \<Rightarrow> refuse db1 ''CHAT_HISTORY_INVALID'' True
              | Inl Completion_overflow \<Rightarrow> (Inl ChatOtherException, db1)
              | Inr completion \<Rightarrow> execute_prepared env db1 x completion)))"

subsection \<open>Deliveries\<close>

definition worker_claim ::
  "chat_env \<Rightarrow> chat_db \<Rightarrow> uuid option \<Rightarrow> uuid option \<Rightarrow> (chat_exn + ChatExecutionRecord option) \<times> chat_db" where
  "worker_claim env db tenant request =
     chat_call env False 0 db (\<lambda>d. claim_queued d (wc_now env 0) (wc_locked env) (wc_uuid env 0 0) (wd_worker_id (wc_deps env))
       (wd_lease_seconds (wc_deps env)) tenant request)"

definition chat_process :: "chat_env \<Rightarrow> chat_db \<Rightarrow> ChatRequestRecord \<Rightarrow> (chat_exn + unit) \<times> chat_db" where
  "chat_process env db request =
     (case wd_executor (wc_deps env) of
        Some executor \<Rightarrow> executor request db
      | None \<Rightarrow>
          (case required_dependencies (wc_deps env) of
             Inl e \<Rightarrow> (Inl e, db)
           | Inr _ \<Rightarrow>
               (case worker_claim env db (Some (rq_tenant_id request)) (Some (rq_request_id request)) of
                  (Inl e, db1) \<Rightarrow> (Inl e, db1)
                | (Inr None, db1) \<Rightarrow> (Inr (), db1)
                | (Inr (Some x), db1) \<Rightarrow>
                    (case chat_execute_claimed env db1 x of (Inl e, db2) \<Rightarrow> (Inl e, db2) | (Inr _, db2) \<Rightarrow> (Inr (), db2)))))"

definition chat_run_once :: "chat_env \<Rightarrow> chat_db \<Rightarrow> uuid option \<Rightarrow> (chat_exn + bool) \<times> chat_db" where
  "chat_run_once env db tenant =
     (if wd_executor (wc_deps env) \<noteq> None
      then (Inl (ChatRaised (Domain (ConversationInfrastructureError ''CHAT_WORKER_CLAIM_UNAVAILABLE''))), db)
      else
        (case required_dependencies (wc_deps env) of
           Inl e \<Rightarrow> (Inl e, db)
         | Inr _ \<Rightarrow>
             (case worker_claim env db tenant None of
                (Inl e, db1) \<Rightarrow> (Inl e, db1)
              | (Inr None, db1) \<Rightarrow> (Inr False, db1)
              | (Inr (Some x), db1) \<Rightarrow>
                  (case chat_execute_claimed env db1 x of (Inl e, db2) \<Rightarrow> (Inl e, db2) | (Inr _, db2) \<Rightarrow> (Inr True, db2)))))"

end
