(* ===== verification/Chat_Worker_Demo.thy ===== *)
theory Chat_Worker_Demo
  imports Chat_Worker Chat_Demo
begin

text \<open>
  A delivery of the chat worker on the claimed request of the demonstration: the provider streams one chunk and the
  stream ends, normally or with an error. The successful delivery is run to its end.
\<close>

definition demo_deps :: ChatWorkerDependencies where
  "demo_deps = \<lparr>wd_executor = None, wd_repository = True, wd_text_generation = True, wd_billing = True, wd_concurrency = True,
     wd_worker_id = ''w'', wd_lease_seconds = 60, wd_concurrency_lease_seconds = 120, wd_concurrency_renewal_interval_seconds = None,
     wd_concurrency_retry_delay_seconds = 2, wd_temperature = None, wd_max_completion_tokens = None\<rparr>"

definition demo_tokens :: Usage where
  "demo_tokens = \<lparr>us_prompt_tokens = 3, us_completion_tokens = 4, us_total_tokens = 7\<rparr>"

definition demo_chunk :: TextStreamChunk where
  "demo_chunk = \<lparr>tc_request_id = ''p'', tc_delta = ''hey'', tc_usage = Some demo_tokens\<rparr>"

definition demo_worker :: "chat_exn option \<Rightarrow> chat_env" where
  "demo_worker failure = \<lparr>wc_deps = demo_deps, wc_extension = 60, wc_now = (\<lambda>_. 2500), wc_seen = (\<lambda>_. 2500), wc_uuid = (\<lambda>i n. 500 + 2 * i + n),
     wc_other = (\<lambda>_ d. d), wc_locked = (\<lambda>_. False), wc_environment = ''test'', wc_redis = (\<lambda>_. None), wc_nets = (\<lambda>_. Delivered),
     wc_clock = (\<lambda>_. 5), wc_tokens = (\<lambda>i. [char_of (65 + i)]), wc_decode = (\<lambda>_. 0), wc_stream = (\<lambda>_. Inr ([demo_chunk], failure)),
     wc_close = None, wc_cut = (\<lambda>_. None)\<rparr>"

subsection \<open>Calls of a worker that holds its lease\<close>

lemma check_lease_live:
  assumes "locked_request db x = Inr (Some q)" "q_status q = IRunning" "Chat_Execution.unexpired now (q_lease_expires_at q)"
    and "chat_ok (put_request (extend_lease now n q) db)"
  shows "check_lease_and_stop db now n x = (Inr (lease_check True False), put_request (extend_lease now n q) db)"
  using assms by (simp add: check_lease_and_stop_def transaction_def)

lemma append_delta_live:
  assumes "locked_writable_request db seen x k [IRunning] = Inr (Some q)" "provider_id_is_coherent q pid"
    and "locked_message db x = Inr (Some m)" "m_status m = MStreaming" "d \<noteq> []"
    and "db' = add_event (event_row eid q k ''delta'' (delta_payload q x k d) now)
       (put_message (m\<lparr>m_content := text_json (text_content (m_content m) @ d), m_updated_at := now\<rparr>) (put_request (delta_request now n k pid q) db))"
    and "chat_ok db'"
  shows "append_delta db now seen n eid x k d pid = (Inr (Some \<lparr>se_sequence = k, se_event = delta_payload q x k d\<rparr>), db')"
  using assms by (simp add: append_delta_def transaction_def require_def Let_def)

lemma mark_completed_live:
  assumes "locked_writable_request db seen x k [IRunning] = Inr (Some q)" "provider_id_is_coherent q pid"
    and "locked_message db x = Inr (Some m)" "locked_conversation db x = Inr (Some c)" "clear_active c (q_id q) now = Inr c'"
    and "price_for_request db q = Inr price" "mk_BillingUsage (chat_measures (cu_usage usage)) = Inr meters"
    and "charge_for_usage price meters = Inr charge" "usage_records (ch_billing db) = []" "pricing_version price = Inr label"
    and "db' = (completed_db db now eid x k content pid (cu_usage usage) q m c')
       \<lparr>ch_billing := (ch_billing db)\<lparr>usage_records := [chat_usage_row uid x pid label price (cu_usage usage) charge]\<rparr>\<rparr>"
    and "chat_ok db'" "constraints_ok (ch_billing db')"
  shows "mark_completed db now seen eid uid x k content pid usage = (Inr True, db')"
proof -
  have b: "ch_billing (completed_db db now eid x k content pid (cu_usage usage) q m c') = ch_billing db" by (simp add: completed_db_def)
  have "record_usage (completed_db db now eid x k content pid (cu_usage usage) q m c') uid x pid price (cu_usage usage) charge = Inr db'"
    by (simp add: record_usage_def b assms(9-11))
  moreover have "commit_flush db' = Inr db'" using assms(12,13) by (simp add: commit_flush_def flush_def constraints_ok_def)
  ultimately show ?thesis
    using assms(1-8) by (simp add: mark_completed_def transaction_def Let_def flip: completed_db_def)
qed

subsection \<open>The states of the delivery\<close>

definition leased_request :: InferenceRequest where
  "leased_request = extend_lease 2500 60 running_request"

definition delta_row :: InferenceRequest where
  "delta_row = delta_request 2500 60 1 (Some ''p'') leased_request"

definition linked_assistant :: Message where
  "linked_assistant = (assistant_message demo_fresh 1 201 2)\<lparr>m_request_id := Some 304\<rparr>"

definition delta_message :: Message where
  "delta_message = linked_assistant\<lparr>m_content := text_json ''hey'', m_updated_at := 2500\<rparr>"

definition delta_stored :: ChatEvent where
  "delta_stored = event_row 542 leased_request 1 ''delta'' (delta_payload leased_request chat_execution 1 ''hey'') 2500"

definition open_conversation :: Conversation where
  "open_conversation = demo_conversation\<lparr>cv_active_inference_request_id := Some 304, cv_version := 1\<rparr>"

definition streaming_execution :: ChatExecutionRecord where
  "streaming_execution = chat_execution\<lparr>x_last_event_sequence := 1, x_provider_request_id := Some ''p''\<rparr>"

definition chat_leased :: chat_db where
  "chat_leased = chat_queued\<lparr>ch_requests := [leased_request]\<rparr>"

definition chat_streamed :: chat_db where
  "chat_streamed = chat_queued\<lparr>ch_requests := [delta_row], ch_messages := [user_message demo_fresh 1 5 201 1 ''hi'', delta_message],
     ch_events := [started_event, delta_stored]\<rparr>"

lemma chat_leased_ok: "chat_ok chat_leased"
proof -
  have "chat_ok (demo_stage [open_conversation] linked_messages [leased_request] [started_event])" by code_simp
  then show ?thesis
    by (rule same_chat_ok [THEN iffD2, rotated]) (simp add: same_chat_def chat_leased_def chat_queued_def queued_chat_def no_chat_def open_conversation_def)
qed

lemma chat_streamed_ok: "chat_ok chat_streamed"
proof -
  have "chat_ok (demo_stage [open_conversation] [user_message demo_fresh 1 5 201 1 ''hi'', delta_message] [delta_row] [started_event, delta_stored])"
    by code_simp
  then show ?thesis
    by (rule same_chat_ok [THEN iffD2, rotated]) (simp add: same_chat_def chat_streamed_def chat_queued_def queued_chat_def no_chat_def open_conversation_def)
qed

lemmas demo_row_defs = running_request_def claim_request_def queued_request_def demo_request_def accepted_request_def demo_fresh_def

lemma running_fields:
  "q_id running_request = 304" "q_tenant_id running_request = 1" "q_request_id running_request = 305" "q_status running_request = IRunning"
  "q_lease_token running_request = Some 400" "q_lease_expires_at running_request = Some 60002000" "q_last_event_sequence running_request = 0"
  "q_provider_request_id running_request = None" "q_billing_reservation_id running_request = Some 306" "q_accepted_price_version_id running_request = Some 1"
  by (simp_all add: demo_row_defs chat_decision_def)

lemma leased_fields:
  "q_id leased_request = 304" "q_tenant_id leased_request = 1" "q_request_id leased_request = 305" "q_status leased_request = IRunning"
  "q_lease_token leased_request = Some 400" "q_lease_expires_at leased_request = Some 60002500" "q_last_event_sequence leased_request = 0"
  "q_provider_request_id leased_request = None"
  by (simp_all add: leased_request_def extend_lease_def running_fields)

lemma delta_row_fields:
  "q_id delta_row = 304" "q_tenant_id delta_row = 1" "q_request_id delta_row = 305" "q_status delta_row = IRunning"
  "q_lease_token delta_row = Some 400" "q_lease_expires_at delta_row = Some 60002500" "q_last_event_sequence delta_row = 1"
  "q_provider_request_id delta_row = Some ''p''" "q_accepted_price_version_id delta_row = Some 1"
  by (simp_all add: delta_row_def delta_request_def leased_fields extend_lease_def) (simp_all add: leased_request_def extend_lease_def running_fields)

lemma execution_fields:
  "x_request_db_id chat_execution = 304" "x_tenant_id chat_execution = 1" "x_request_id chat_execution = 305" "x_status chat_execution = IRunning"
  "x_lease_token chat_execution = Some 400" "x_last_event_sequence chat_execution = 0" "x_conversation_id chat_execution = 201"
  "x_message_id chat_execution = 303" "x_provider_request_id chat_execution = None" "x_reservation_id chat_execution = Some 306"
  by (simp_all add: chat_execution_def execution_record_def running_fields)

lemma streaming_fields:
  "x_request_db_id streaming_execution = 304" "x_tenant_id streaming_execution = 1" "x_request_id streaming_execution = 305"
  "x_lease_token streaming_execution = Some 400" "x_last_event_sequence streaming_execution = 1" "x_conversation_id streaming_execution = 201"
  "x_message_id streaming_execution = 303" "x_reservation_id streaming_execution = Some 306"
  by (simp_all add: streaming_execution_def execution_fields)

lemma extend_again:
  "extend_lease 2500 60 leased_request = leased_request" "extend_lease 2500 60 delta_row = delta_row"
  by (simp_all add: leased_request_def delta_row_def delta_request_def extend_lease_def)

lemma put_single: "ch_requests db = [q] \<Longrightarrow> q_id q' = q_id q \<Longrightarrow> put_request q' db = db\<lparr>ch_requests := [q']\<rparr>"
  by (simp add: put_request_def update_where_def)

lemma check_running: "check_lease_and_stop chat_running 2500 60 chat_execution = (Inr (lease_check True False), chat_leased)"
proof -
  have rows: "ch_requests chat_running = [running_request]"
    by (simp add: chat_running_def chat_queued_def queued_chat_def no_chat_def put_request_def update_where_def running_fields queued_request_def demo_request_def
        accepted_request_def demo_fresh_def)
  then have "put_request leased_request chat_running = chat_leased"
    by (simp add: put_single [OF rows] leased_fields running_fields chat_leased_def chat_running_def put_request_def)
  then show ?thesis
    using check_lease_live [of chat_running chat_execution running_request 2500 60] chat_leased_ok
    by (simp add: locked_request_def rows execution_fields running_fields Chat_Execution.unexpired_def flip: leased_request_def)
qed

lemma demo_rows: "ch_requests chat_leased = [leased_request]" "ch_requests chat_streamed = [delta_row]"
  by (simp_all add: chat_leased_def chat_streamed_def)

lemma put_again: "put_request leased_request chat_leased = chat_leased" "put_request delta_row chat_streamed = chat_streamed"
  by (simp_all add: put_request_def chat_leased_def chat_streamed_def update_where_def)

lemma check_leased: "check_lease_and_stop chat_leased 2500 60 chat_execution = (Inr (lease_check True False), chat_leased)"
  using check_lease_live [of chat_leased chat_execution leased_request 2500 60] chat_leased_ok
  by (simp add: locked_request_def execution_fields leased_fields Chat_Execution.unexpired_def extend_again demo_rows put_again)

lemma check_streamed: "check_lease_and_stop chat_streamed 2500 60 streaming_execution = (Inr (lease_check True False), chat_streamed)"
  using check_lease_live [of chat_streamed streaming_execution delta_row 2500 60] chat_streamed_ok
  by (simp add: locked_request_def streaming_fields delta_row_fields Chat_Execution.unexpired_def extend_again demo_rows put_again)

lemma append_leased:
  "append_delta chat_leased 2500 2500 60 542 chat_execution 1 ''hey'' (Some ''p'') =
     (Inr (Some \<lparr>se_sequence = 1, se_event = delta_payload leased_request chat_execution 1 ''hey''\<rparr>), chat_streamed)"
proof (rule append_delta_live)
  show "locked_writable_request chat_leased 2500 chat_execution 1 [IRunning] = Inr (Some leased_request)"
    by (simp add: locked_writable_request_def locked_request_def chat_leased_def execution_fields leased_fields Chat_Execution.unexpired_def)
  show "locked_message chat_leased chat_execution = Inr (Some linked_assistant)"
    by (simp add: locked_message_def chat_leased_def chat_queued_def queued_chat_def no_chat_def linked_messages_def execution_fields linked_assistant_def
        user_message_def assistant_message_def demo_fresh_def)
  show "chat_streamed = add_event (event_row 542 leased_request 1 ''delta'' (delta_payload leased_request chat_execution 1 ''hey'') 2500)
      (put_message (linked_assistant\<lparr>m_content := text_json (text_content (m_content linked_assistant) @ ''hey''), m_updated_at := 2500\<rparr>)
        (put_request (delta_request 2500 60 1 (Some ''p'') leased_request) chat_leased))"
    by (simp add: chat_streamed_def chat_leased_def chat_queued_def queued_chat_def no_chat_def put_message_def put_request_def add_event_def update_where_def
        linked_messages_def delta_message_def linked_assistant_def user_message_def assistant_message_def demo_fresh_def delta_stored_def
        leased_fields delta_row_fields text_json_def flip: delta_row_def)
qed (simp_all add: chat_streamed_ok provider_id_is_coherent_def leased_fields linked_assistant_def assistant_message_def)

subsection \<open>Completion and capture\<close>

definition demo_state :: ChatStreamState where
  "demo_state = \<lparr>st_current = streaming_execution, st_provider_request_id = Some ''p'', st_content = ''hey'', st_usage = Some demo_tokens,
     st_terminal_marked = False\<rparr>"

definition demo_usage_row :: UsageRecord where
  "demo_usage_row = chat_usage_row 519 streaming_execution (Some ''p'') (projr (pricing_version (ad_price chat_decision))) (ad_price chat_decision)
     demo_tokens (projr (charge_for_usage (ad_price chat_decision) (chat_measures demo_tokens)))"

definition metered_billing :: billing_db where
  "metered_billing = (snd chat_held)\<lparr>usage_records := [demo_usage_row]\<rparr>"

definition chat_answered :: chat_db where
  "chat_answered = (completed_db chat_streamed 2500 518 streaming_execution 2 ''hey'' (Some ''p'') demo_tokens delta_row delta_message
     (open_conversation\<lparr>cv_active_inference_request_id := None, cv_version := 2, cv_updated_at := 2500\<rparr>))\<lparr>ch_billing := metered_billing\<rparr>"

lemma held_rows: "price_versions (snd chat_held) = [chat_tariff]" "usage_records (snd chat_held) = []"
  unfolding chat_held_def chat_wallets_def granted_db_eval by code_simp+

lemma demo_price:
  "price_snapshot chat_tariff = Inr (ad_price chat_decision)" "\<not> isl (pricing_version (ad_price chat_decision))"
  "mk_BillingUsage (chat_measures demo_tokens) = Inr (chat_measures demo_tokens)"
  "\<not> isl (charge_for_usage (ad_price chat_decision) (chat_measures demo_tokens))"
  by code_simp+

lemma metered_ok: "constraints_ok metered_billing"
  unfolding metered_billing_def chat_held_def chat_wallets_def granted_db_eval by code_simp

lemma chat_answered_ok: "chat_ok chat_answered"
proof -
  have "chat_ok (completed_db (demo_stage [open_conversation] [user_message demo_fresh 1 5 201 1 ''hi'', delta_message] [delta_row] [started_event, delta_stored])
     2500 518 streaming_execution 2 ''hey'' (Some ''p'') demo_tokens delta_row delta_message
     (open_conversation\<lparr>cv_active_inference_request_id := None, cv_version := 2, cv_updated_at := 2500\<rparr>))" by code_simp
  then show ?thesis
    by (rule same_chat_ok [THEN iffD2, rotated])
      (simp add: same_chat_def chat_answered_def completed_db_def chat_streamed_def chat_queued_def queued_chat_def no_chat_def open_conversation_def
        put_request_def put_message_def put_conversation_def add_event_def)
qed

lemma demo_completed:
  "mark_completed chat_streamed 2500 2500 518 519 streaming_execution 2 ''hey'' (Some ''p'') (usage_record demo_state) = (Inr True, chat_answered)"
proof (rule mark_completed_live [where q = delta_row and m = delta_message and c = open_conversation and price = "ad_price chat_decision"
      and meters = "chat_measures demo_tokens" and label = "projr (pricing_version (ad_price chat_decision))"
      and charge = "projr (charge_for_usage (ad_price chat_decision) (chat_measures demo_tokens))"
      and c' = "open_conversation\<lparr>cv_active_inference_request_id := None, cv_version := 2, cv_updated_at := 2500\<rparr>"])
  have u: "cu_usage (usage_record demo_state) = demo_tokens" by (simp add: usage_record_def demo_state_def Let_def)
  have b: "ch_billing chat_streamed = snd chat_held" by (simp add: chat_streamed_def chat_queued_def queued_chat_def no_chat_def)
  show "locked_writable_request chat_streamed 2500 streaming_execution 2 [IRunning] = Inr (Some delta_row)"
    by (simp add: locked_writable_request_def locked_request_def demo_rows streaming_fields delta_row_fields Chat_Execution.unexpired_def)
  show "locked_message chat_streamed streaming_execution = Inr (Some delta_message)"
    by (simp add: locked_message_def chat_streamed_def streaming_fields delta_message_def linked_assistant_def user_message_def assistant_message_def demo_fresh_def)
  show "locked_conversation chat_streamed streaming_execution = Inr (Some open_conversation)"
    by (simp add: locked_conversation_def chat_streamed_def chat_queued_def queued_chat_def no_chat_def streaming_fields open_conversation_def demo_conversation_def)
  show "clear_active open_conversation (q_id delta_row) 2500 =
      Inr (open_conversation\<lparr>cv_active_inference_request_id := None, cv_version := 2, cv_updated_at := 2500\<rparr>)"
    by (simp add: clear_active_def open_conversation_def delta_row_fields)
  show "price_for_request chat_streamed delta_row = Inr (ad_price chat_decision)"
    using demo_price(1) by (simp add: price_for_request_def b held_rows delta_row_fields chat_tariff_def)
  show "mk_BillingUsage (chat_measures (cu_usage (usage_record demo_state))) = Inr (chat_measures demo_tokens)" unfolding u by (rule demo_price(3))
  show "pricing_version (ad_price chat_decision) = Inr (projr (pricing_version (ad_price chat_decision)))"
    "charge_for_usage (ad_price chat_decision) (chat_measures demo_tokens) = Inr (projr (charge_for_usage (ad_price chat_decision) (chat_measures demo_tokens)))"
    using demo_price(2,4) by simp_all
  show "usage_records (ch_billing chat_streamed) = []" by (simp add: b held_rows)
  show "chat_answered = (completed_db chat_streamed 2500 518 streaming_execution 2 ''hey'' (Some ''p'') (cu_usage (usage_record demo_state)) delta_row delta_message
      (open_conversation\<lparr>cv_active_inference_request_id := None, cv_version := 2, cv_updated_at := 2500\<rparr>))
      \<lparr>ch_billing := (ch_billing chat_streamed)\<lparr>usage_records := [chat_usage_row 519 streaming_execution (Some ''p'') (projr (pricing_version (ad_price chat_decision)))
        (ad_price chat_decision) (cu_usage (usage_record demo_state)) (projr (charge_for_usage (ad_price chat_decision) (chat_measures demo_tokens)))]\<rparr>\<rparr>"
    by (simp add: chat_answered_def u b metered_billing_def demo_usage_row_def)
  show "constraints_ok (ch_billing chat_answered)" by (simp add: chat_answered_def metered_ok)
qed (simp_all add: chat_answered_ok provider_id_is_coherent_def delta_row_fields)

lemma demo_captured: "\<not> isl (fst (capture (metered_billing\<lparr>inference_requests := [priced_request delta_row]\<rparr>) 520 521 2500 1 306 None (Some (chat_measures demo_tokens))))"
  unfolding metered_billing_def chat_held_def chat_wallets_def granted_db_eval by code_simp

subsection \<open>The delivery\<close>

lemma demo_env:
  "wc_now (demo_worker f) i = 2500" "wc_seen (demo_worker f) i = 2500" "wc_uuid (demo_worker f) i n = 500 + 2 * i + n" "wc_other (demo_worker f) i d = d"
  "wc_extension (demo_worker f) = 60" "wc_cut (demo_worker f) i = None" "wc_close (demo_worker f) = None"
  "wc_stream (demo_worker f) c = Inr ([demo_chunk], f)" "wc_deps (demo_worker f) = demo_deps"
  by (simp_all add: demo_worker_def)

lemma demo_call: "chat_call (demo_worker f) g i db call = (case call db of (r, db') \<Rightarrow> (map_error ChatRaised r, db'))"
  by (simp add: chat_call_def demo_env)

lemma demo_prepared:
  "\<not> isl (completion_request (demo_worker f) chat_execution)"
  "(case chat_acquire_admission (demo_worker f) chat_execution of Inr (Some leases) \<Rightarrow> length leases = 2 | _ \<Rightarrow> False)"
  by code_simp+

lemma demo_checks:
  "worker_check (demo_worker f) g i chat_running chat_execution = (Inr (lease_check True False), chat_leased)"
  "worker_check (demo_worker f) g i chat_leased chat_execution = (Inr (lease_check True False), chat_leased)"
  "worker_check (demo_worker f) g i chat_streamed streaming_execution = (Inr (lease_check True False), chat_streamed)"
  by (simp_all add: worker_check_def demo_call demo_env check_running check_leased check_streamed)

lemma demo_stops:
  "stop_if_requested (demo_worker f) g i chat_running chat_execution c r False = (Inr False, chat_leased)"
  "stop_if_requested (demo_worker f) g i chat_leased chat_execution c r False = (Inr False, chat_leased)"
  by (simp_all add: stop_if_requested_def demo_checks lease_check_def)

lemma demo_received: "received demo_chunk ''p'' (stream_start chat_execution) =
    \<lparr>st_current = chat_execution, st_provider_request_id = Some ''p'', st_content = [], st_usage = Some demo_tokens, st_terminal_marked = False\<rparr>"
  by (simp add: received_def stream_start_def demo_chunk_def)

lemma demo_appended: "appended_delta ''hey'' \<lparr>se_sequence = 1, se_event = e\<rparr>
    \<lparr>st_current = chat_execution, st_provider_request_id = Some ''p'', st_content = [], st_usage = Some demo_tokens, st_terminal_marked = False\<rparr> = demo_state"
  by (simp add: appended_delta_def demo_state_def streaming_execution_def)

lemma demo_stream:
  "consume_stream (demo_worker f) (stream_start chat_execution) c chat_leased =
     (case f of None \<Rightarrow> Inr () | Some e \<Rightarrow> Inl e, demo_state, chat_streamed)"
proof -
  have append: "worker_append (demo_worker f) 21 chat_leased (received demo_chunk ''p'' (stream_start chat_execution)) ''hey'' =
      (Inr (Some \<lparr>se_sequence = 1, se_event = delta_payload leased_request chat_execution 1 ''hey''\<rparr>), chat_streamed)"
    by (simp add: worker_append_def demo_call demo_env demo_received execution_fields append_leased del: One_nat_def)
  have chunk: "tc_delta demo_chunk = ''hey''" "tc_request_id demo_chunk = ''p''" by (simp_all add: demo_chunk_def)
  have start: "st_current (stream_start chat_execution) = chat_execution" "st_provider_request_id (stream_start chat_execution) = None"
    by (simp_all add: stream_start_def execution_fields)
  have "consume_chunks (demo_worker f) 20 [demo_chunk] f (stream_start chat_execution) chat_leased =
      (case f of None \<Rightarrow> Inr () | Some e \<Rightarrow> Inl e, demo_state, chat_streamed)"
    by (simp add: demo_checks lease_check_def start chunk coherent_provider_request_id_def append demo_env require_def)
      (simp add: demo_received demo_appended)
  then show ?thesis by (simp add: consume_stream_def demo_env split: option.splits)
qed

lemma demo_settled: "\<exists>db'. complete_and_capture (demo_worker f) demo_state chat_streamed = (Inr True, demo_state, db')"
proof -
  have st: "st_current demo_state = streaming_execution" "st_content demo_state = ''hey''" "st_provider_request_id demo_state = Some ''p''"
    "cu_usage (usage_record demo_state) = demo_tokens" by (simp_all add: demo_state_def usage_record_def Let_def)
  have "map priced_request (ch_requests chat_answered) = [priced_request delta_row]"
    by (simp add: chat_answered_def completed_db_def put_request_def chat_streamed_def update_where_def complete_request_def priced_request_def)
  then have b: "chat_billing chat_answered = metered_billing\<lparr>inference_requests := [priced_request delta_row]\<rparr>"
    by (simp add: chat_billing_def chat_answered_def)
  obtain cr b' where "capture (chat_billing chat_answered) 520 521 2500 1 306 None (Some (chat_measures demo_tokens)) = (Inr cr, b')"
    using demo_captured unfolding b by (metis prod.collapse sum.collapse(2))
  then have "adapter_capture chat_answered 520 521 2500 streaming_execution (usage_record demo_state) = (Inr (), chat_answered\<lparr>ch_billing := b'\<rparr>)"
    by (simp add: adapter_capture_def required_reservation_id_def streaming_fields st demo_price(3) chat_capture_def)
  then show ?thesis
    by (simp add: complete_and_capture_def demo_call demo_env st streaming_fields demo_completed)
qed

lemma demo_delivery_settles: "\<exists>db'. chat_execute_claimed (demo_worker None) chat_running chat_execution = (Inr True, db')"
proof -
  obtain completion where c: "completion_request (demo_worker None) chat_execution = Inr completion"
    using demo_prepared(1) [of None] by (cases "completion_request (demo_worker None) chat_execution") auto
  obtain leases where a: "chat_acquire_admission (demo_worker None) chat_execution = Inr (Some leases)"
    using demo_prepared(2) [of None] by (auto split: sum.splits option.splits)
  obtain db' where "complete_and_capture (demo_worker None) demo_state chat_streamed = (Inr True, demo_state, db')" using demo_settled by blast
  then have "admitted_body (demo_worker None) chat_leased chat_execution completion = (Inr True, demo_state, db')"
    by (simp add: admitted_body_def demo_stops demo_stream finish_stream_def demo_checks lease_check_def)
      (simp add: demo_state_def finish_stream_def demo_checks lease_check_def)
  then show ?thesis
    by (simp add: chat_execute_claimed_def execution_fields demo_stops c execute_prepared_def a execute_admitted_def)
qed

lemma chat_running_run: "chat_run (no_chat chat_catalog chat_wallets) chat_running"
  using chat_demo_run chat_step.claimed [of chat_queued 2000 "\<lambda>_. False" 400 "''w''" 60 None None] chat_claimed by auto

lemma chat_running_inv: "chat_inv chat_running" and chat_running_books: "billing_inv (ch_billing chat_running)"
  using chat_run_books [OF chat_running_run no_chat_inv] chat_wallets_inv by (simp_all add: no_chat_def)

end
