(* ===== verification/Chat_Worker_Properties.thy ===== *)
theory Chat_Worker_Properties
  imports Chat_Worker_Demo
begin

text \<open>
  What the chat worker guarantees whatever the provider streams, wherever the permit is lost and whatever the
  other processes commit between its calls: its deliveries are interleavings of repository steps, it moves money
  only for a finished request, and a completed answer is the text of the deltas in the log.
\<close>

subsection \<open>Public error codes\<close>

lemma sub_runs_code: "list_all code_char (sub_runs s)"
proof (induction s rule: sub_runs.induct)
  case (2 c s)
  then show ?case by (cases s) (auto simp: code_char_def [of "CHR ''_''"])
qed simp

lemma list_all_subset: "list_all P ys \<Longrightarrow> set xs \<subseteq> set ys \<Longrightarrow> list_all P xs"
  by (auto simp: list_all_iff)

lemma strip_underscores_subset: "set (strip_underscores s) \<subseteq> set s"
  by (auto simp: strip_underscores_def dest!: set_dropWhileD)

lemma safe_error_code_public:
  assumes "is_public_code fallback"
  shows "is_public_code (safe_error_code value fallback)"
proof -
  have code: "is_public_code s \<longleftrightarrow> s \<noteq> [] \<and> list_all code_char s" for s by (simp add: is_public_code_def code_char_def [abs_def])
  have "list_all code_char (take 120 s)" if "list_all code_char s" for s by (rule list_all_subset [OF that set_take_subset])
  moreover have "list_all code_char (strip_underscores (sub_runs (upper value)))"
    by (rule list_all_subset [OF sub_runs_code strip_underscores_subset])
  ultimately show ?thesis using assms by (auto simp: safe_error_code_def Let_def code)
qed

lemma worker_codes:
  "is_public_code (safe_error_code value ''CHAT_PROVIDER_ERROR'')" "is_public_code (safe_error_code value ''CHAT_SUBMISSION_UNKNOWN'')"
  by (rule safe_error_code_public, code_simp)+

subsection \<open>The contract of the worker's calls\<close>

text \<open>What holds of the database after a call and after every way to go on holds at the end.\<close>

lemma snd_case_sum:
  assumes "P (snd m)" and "\<And>v d. m = (Inr v, d) \<Longrightarrow> P d \<Longrightarrow> P (snd (g v d))" and "\<And>e d. P d \<Longrightarrow> P (snd (h e d))"
  shows "P (snd (case m of (Inl e, d) \<Rightarrow> h e d | (Inr v, d) \<Rightarrow> g v d))"
  using assms by (cases m; cases "fst m") auto

text \<open>
  \<open>I k\<close> is what is known of the database throughout a delivery and \<open>S k\<close> what is known once the request has been
  marked finished; \<open>E k\<close> says which execution records the delivery works with. Only a marked request is settled.
\<close>

locale chat_worker_contract =
  fixes E :: "'k \<Rightarrow> ChatExecutionRecord \<Rightarrow> bool"
    and I :: "'k \<Rightarrow> chat_db \<Rightarrow> bool"
    and S :: "'k \<Rightarrow> chat_db \<Rightarrow> bool"
  assumes marked: "S k db \<Longrightarrow> I k db"
    and kept: "E k x \<Longrightarrow> E k (x\<lparr>x_last_event_sequence := n, x_provider_request_id := p\<rparr>)"
    and check: "E k x \<Longrightarrow> I k db \<Longrightarrow> I k (snd (check_lease_and_stop db now ext x))"
    and requeue: "E k x \<Longrightarrow> I k db \<Longrightarrow> I k (snd (requeue_claimed db now x))"
    and append: "E k x \<Longrightarrow> I k db \<Longrightarrow> I k (snd (append_delta db now seen ext eid x s d pid))"
    and unknown: "E k x \<Longrightarrow> is_public_code code \<Longrightarrow> I k db \<Longrightarrow> I k (snd (mark_submitted_unknown db now seen eid x pid code))"
    and stop: "E k x \<Longrightarrow> I k db \<Longrightarrow> I k (snd (mark_stopped db now seen eid x s content))"
    and stopped: "E k x \<Longrightarrow> I k db \<Longrightarrow> mark_stopped db now seen eid x s content = (Inr True, db') \<Longrightarrow> S k db'"
    and fail: "E k x \<Longrightarrow> is_public_code code \<Longrightarrow> I k db \<Longrightarrow> I k (snd (mark_failed db now seen eid x s code details pid))"
    and failed: "E k x \<Longrightarrow> is_public_code code \<Longrightarrow> I k db \<Longrightarrow> mark_failed db now seen eid x s code details pid = (Inr True, db') \<Longrightarrow> S k db'"
    and complete: "E k x \<Longrightarrow> I k db \<Longrightarrow> I k (snd (mark_completed db now seen eid uid x s content pid usage))"
    and completed: "E k x \<Longrightarrow> I k db \<Longrightarrow> mark_completed db now seen eid uid x s content pid usage = (Inr True, db') \<Longrightarrow> S k db'"
    and release: "S k db \<Longrightarrow> I k (snd (chat_release db lid now t rid))"
    and capture: "S k db \<Longrightarrow> I k (snd (chat_capture db lid1 lid2 now t rid meters))"
begin

definition rely :: "'k \<Rightarrow> chat_env \<Rightarrow> bool" where
  "rely k env \<longleftrightarrow> (\<forall>i db. (I k db \<longrightarrow> I k (wc_other env i db)) \<and> (S k db \<longrightarrow> S k (wc_other env i db)))"

lemma rely_other: "rely k env \<Longrightarrow> I k db \<Longrightarrow> I k (wc_other env i db)" "rely k env \<Longrightarrow> S k db \<Longrightarrow> S k (wc_other env i db)"
  by (simp_all add: rely_def)

lemma call:
  assumes "rely k env" and "\<And>d. I k d \<Longrightarrow> I k (snd (f d))" and "I k db"
  shows "I k (snd (chat_call env guarded i db f))"
  using assms(2) [OF rely_other(1) [OF assms(1,3), of i]] rely_other(1) [OF assms(1,3), of i]
  by (cases "f (wc_other env i db)") (auto simp: chat_call_def Let_def split: option.splits)

lemma settling_call:
  assumes "rely k env" and "\<And>d. S k d \<Longrightarrow> I k (snd (f d))" and "S k db"
  shows "I k (snd (chat_call env guarded i db f))"
  using assms(2) [OF rely_other(2) [OF assms(1,3), of i]] marked [OF rely_other(2) [OF assms(1,3), of i]]
  by (cases "f (wc_other env i db)") (auto simp: chat_call_def Let_def split: option.splits)

lemma marking_call:
  assumes "rely k env" and "\<And>d d'. I k d \<Longrightarrow> f d = (Inr True, d') \<Longrightarrow> S k d'" and "I k db"
    and "chat_call env guarded i db f = (Inr True, db')"
  shows "S k db'"
  using assms(4) assms(2) [OF rely_other(1) [OF assms(1,3), of i], of db']
  by (cases "f (wc_other env i db)") (auto simp: chat_call_def Let_def split: option.splits if_splits)

lemma adapter_release: "S k db \<Longrightarrow> I k (snd (adapter_release db lid now x))"
  using release [of k db lid now] marked by (auto simp: adapter_release_def case_prod_unfold split: sum.splits)

lemma adapter_capture: "S k db \<Longrightarrow> I k (snd (adapter_capture db lid1 lid2 now x usage))"
  using capture [of k db lid1 lid2 now] marked by (auto simp: adapter_capture_def case_prod_unfold split: sum.splits)

lemma marked_release:
  assumes "rely k env" and "I k (snd m)" and "\<And>d. m = (Inr True, d) \<Longrightarrow> S k d"
  shows "I k (snd (marked_release env guarded i x reserved m))"
proof (cases m)
  case (Pair r d)
  show ?thesis
  proof (cases "r = Inr True")
    case True
    have "S k d" using assms(3) Pair True by simp
    have "I k (snd (worker_release env guarded i d x))"
      unfolding worker_release_def by (rule settling_call [OF assms(1) adapter_release \<open>S k d\<close>])
    then show ?thesis using assms(2) Pair True by (simp add: marked_release_def)
  next
    case False
    then show ?thesis using assms(2) Pair by (auto simp: marked_release_def split: sum.splits)
  qed
qed

lemma stop_marked_request:
  assumes "rely k env" and "E k x" and "I k db"
  shows "I k (snd (stop_marked_request env guarded i db x content reserved))"
  unfolding stop_marked_request_def
  by (rule marked_release [OF assms(1) call [OF assms(1) stop [OF assms(2)] assms(3)] marking_call [OF assms(1) stopped [OF assms(2)] assms(3)]])

lemma worker_check:
  assumes "rely k env" and "E k x" and "I k db"
  shows "I k (snd (worker_check env guarded i db x))"
  unfolding worker_check_def by (rule call [OF assms(1) check assms(3)]) (rule assms(2))

lemma stop_if_requested:
  assumes "rely k env" and "E k x" and "I k db"
  shows "I k (snd (stop_if_requested env guarded i db x content reserved force))"
  unfolding stop_if_requested_def
proof (rule snd_case_sum)
  fix check :: ChatLeaseCheck and d :: chat_db
  assume "I k d"
  then have "I k (snd (stop_marked_request env guarded i d x content reserved))" by (rule stop_marked_request [OF assms(1,2)])
  then have "I k (snd (case stop_marked_request env guarded i d x content reserved of (Inl e, db2) \<Rightarrow> (Inl e, db2) | (Inr _, db2) \<Rightarrow> (Inr True, db2)))"
    by (rule snd_case_sum) simp_all
  with \<open>I k d\<close> show "I k (snd (if \<not> lc_lease_valid check then (Inr True, d) else if \<not> lc_stop_requested check then (Inr False, d)
      else (case stop_marked_request env guarded i d x content reserved of (Inl e, db2) \<Rightarrow> (Inl e, db2) | (Inr _, db2) \<Rightarrow> (Inr True, db2))))"
    by simp
qed (use worker_check [OF assms] assms(3) in simp_all)

lemma chat_fail:
  assumes "rely k env" and "E k x" and "I k db"
  shows "I k (snd (chat_fail env db x s code details pid reserved))"
  unfolding chat_fail_def
  by (rule marked_release [OF assms(1) call [OF assms(1) fail [OF assms(2) worker_codes(1)] assms(3)]
        marking_call [OF assms(1) failed [OF assms(2) worker_codes(1)] assms(3)]])

lemma provider_failure:
  assumes "rely k env" and "E k x" and "I k db"
  shows "I k (snd (provider_failure env db x pid code details submitted_unknown reserved))"
proof -
  have "I k (snd (chat_call env False 12 db (\<lambda>d. mark_submitted_unknown d now seen eid x pid (safe_error_code code ''CHAT_SUBMISSION_UNKNOWN''))))"
    for now seen eid by (rule call [OF assms(1) unknown assms(3)]) (rule assms(2) worker_codes)+
  then show ?thesis using chat_fail [OF assms] unfolding provider_failure_def by (auto intro!: snd_case_sum [of "I k"])
qed

lemma requeue_after_saturation:
  assumes "rely k env" and "E k x" and "I k db"
  shows "I k (snd (chat_requeue_after_saturation env db x))"
proof -
  have "I k (snd (chat_call env False 4 db (\<lambda>d. requeue_claimed d (wc_now env 4) x)))"
    by (rule call [OF assms(1) requeue assms(3)]) (rule assms(2))
  then show ?thesis by (auto simp: chat_requeue_after_saturation_def split: prod.splits sum.splits)
qed

lemma worker_append:
  assumes "rely k env" and "E k (st_current st)" and "I k db"
  shows "I k (snd (worker_append env i db st delta))"
  unfolding worker_append_def by (rule call [OF assms(1) append assms(3)]) (rule assms(2))

lemma received_current [simp]: "st_current (received chunk pid st) = st_current st"
  by (simp add: received_def)

lemma appended_current: "E k (st_current st) \<Longrightarrow> E k (st_current (appended_delta d event st))"
  by (simp add: appended_delta_def kept)

lemma consume_chunks:
  assumes "rely k env"
  shows "E k (st_current st) \<Longrightarrow> I k db \<Longrightarrow> consume_chunks env i chunks failure st db = (r, st', db') \<Longrightarrow> E k (st_current st') \<and> I k db'"
proof (induction chunks arbitrary: i st db)
  case Nil
  then show ?case using rely_other(1) [OF assms] by auto
next
  case (Cons chunk chunks)
  note [simp] = case_prod_unfold
  obtain rc d1 where c: "worker_check env True i db (st_current st) = (rc, d1)" by (cases "worker_check env True i db (st_current st)")
  have d1: "I k d1" using worker_check [OF assms Cons.prems(1,2), of True i] c by simp
  have stop: "I k (snd (stop_if_requested env True i d1 (st_current st) (st_content st) True True))"
    by (rule stop_if_requested [OF assms Cons.prems(1) d1])
  show ?case
  proof (cases "\<exists>check. rc = Inr check \<and> lc_lease_valid check \<and> \<not> lc_stop_requested check")
    case False
    then show ?thesis
      using Cons.prems c d1 stop by (cases rc) (auto split: if_splits sum.splits)
  next
    case True
    then obtain check where live: "rc = Inr check" "lc_lease_valid check" "\<not> lc_stop_requested check" by blast
    show ?thesis
    proof (cases "coherent_provider_request_id (st_provider_request_id st) (tc_request_id chunk)")
      case (Inl e)
      then show ?thesis using Cons.prems c d1 live by auto
    next
      case (Inr pid)
      let ?st = "received chunk pid st"
      have cur: "E k (st_current ?st)" using Cons.prems(1) by simp
      have app: "I k (snd (worker_append env (i + 1) d1 ?st (tc_delta chunk)))" by (rule worker_append [OF assms cur d1])
      show ?thesis
      proof (cases "tc_delta chunk = []")
        case True
        then show ?thesis using Cons.prems(3) c live Inr by (intro Cons.IH [OF cur d1]) simp
      next
        case False
        obtain ra d2 where a: "worker_append env (i + 1) d1 ?st (tc_delta chunk) = (ra, d2)"
          by (cases "worker_append env (i + 1) d1 ?st (tc_delta chunk)")
        show ?thesis
        proof (cases "\<exists>event. ra = Inr (Some event)")
          case True
          then obtain event where ev: "ra = Inr (Some event)" by blast
          have "I k d2" using app a by simp
          from Cons.IH [OF appended_current [OF cur] this] show ?thesis
            using Cons.prems(3) c live Inr False a ev by simp
        next
          case no_event: False
          then show ?thesis using Cons.prems c live Inr False a app d1 by (auto split: sum.splits option.splits)
        qed
      qed
    qed
  qed
qed

lemma consume_stream:
  assumes "rely k env" and "E k (st_current st)" and "I k db" and "consume_stream env st completion db = (r, st', db')"
  shows "E k (st_current st') \<and> I k db'"
proof (cases "wc_stream env completion")
  case (Inl e)
  then show ?thesis using assms(2-4) by (simp add: consume_stream_def)
next
  case (Inr streamed)
  obtain chunks failure where str: "streamed = (chunks, failure)" by (cases streamed)
  obtain rc s d where c: "consume_chunks env 20 chunks failure st db = (rc, s, d)" by (cases "consume_chunks env 20 chunks failure st db")
  then show ?thesis using consume_chunks [OF assms(1-3) c] assms(4) Inr str by (simp add: consume_stream_def)
qed

lemma complete_and_capture:
  assumes "rely k env" and "E k (st_current st)" and "I k db"
  shows "I k (snd (snd (complete_and_capture env st db)))"
proof -
  let ?f = "\<lambda>d. mark_completed d (wc_now env 9) (wc_seen env 9) (wc_uuid env 9 0) (wc_uuid env 9 1) (st_current st)
             (x_last_event_sequence (st_current st) + 1) (st_content st) (st_provider_request_id st) (usage_record st)"
  obtain r d where c: "chat_call env False 9 db ?f = (r, d)" by (cases "chat_call env False 9 db ?f")
  have "I k (snd (chat_call env False 9 db ?f))" by (rule call [OF assms(1) complete [OF assms(2)] assms(3)])
  then have "I k d" using c by simp
  have settled: "S k d" if "r = Inr True" by (rule marking_call [OF assms(1) completed [OF assms(2)] assms(3)]) (use c that in simp_all)
  have "I k (snd (chat_call env False 10 d (\<lambda>d. adapter_capture d (wc_uuid env 10 0) (wc_uuid env 10 1) (wc_now env 10) (st_current st) (usage_record st))))"
    if marked: "r = Inr True" by (rule settling_call [OF assms(1) adapter_capture settled [OF marked]])
  with \<open>I k d\<close> show ?thesis using c
    by (auto simp: complete_and_capture_def case_prod_unfold split: sum.splits bool.splits)
qed

lemma finish_stream:
  assumes "rely k env" and "E k (st_current st)" and "I k db"
  shows "I k (snd (snd (finish_stream env st db)))"
proof -
  obtain r d where c: "worker_check env False 6 db (st_current st) = (r, d)" by (cases "worker_check env False 6 db (st_current st)")
  have d: "I k d" using worker_check [OF assms, of False 6] c by simp
  show ?thesis
    using c d stop_if_requested [OF assms(1,2) d, of False 6 "st_content st" True True] complete_and_capture [OF assms(1,2) d]
    by (auto simp: finish_stream_def case_prod_unfold split: sum.splits)
qed

lemma admitted_body:
  assumes "rely k env" and "E k x" and "I k db" and "admitted_body env db x completion = (r, st, db')"
  shows "E k (st_current st) \<and> I k db'"
proof -
  have st: "E k (st_current (stream_start x))" using assms(2) by (simp add: stream_start_def)
  obtain rs d where c: "stop_if_requested env False 15 db x [] True False = (rs, d)" by (cases "stop_if_requested env False 15 db x [] True False")
  have d: "I k d" using stop_if_requested [OF assms(1-3), of False 15 "[]" True False] c by simp
  obtain rc s d2 where stream: "consume_stream env (stream_start x) completion d = (rc, s, d2)" by (cases "consume_stream env (stream_start x) completion d")
  have s: "E k (st_current s)" "I k d2" using consume_stream [OF assms(1) st d stream] by simp_all
  have "fst (snd (finish_stream env s d2)) = s"
    by (auto simp: finish_stream_def complete_and_capture_def case_prod_unfold split: sum.splits bool.splits)
  then show ?thesis
    using assms(4) c d st stream s finish_stream [OF assms(1) s]
    by (auto simp: admitted_body_def split: sum.splits bool.splits if_splits)
qed

lemma handle_chat_exception:
  assumes "rely k env" and "E k (st_current st)" and "I k db"
  shows "I k (snd (handle_chat_exception env e submitted marked st db))"
  using provider_failure [OF assms] assms(3) by (auto simp: handle_chat_exception_def split: chat_exn.splits)

lemma execute_prepared:
  assumes "rely k env" and "E k x" and "I k db"
  shows "I k (snd (execute_prepared env db x completion))"
proof -
  have "I k (snd (execute_admitted env db x completion))"
  proof (cases "admitted_body env db x completion")
    case (fields r st d)
    then have d: "E k (st_current st)" "I k d" using admitted_body [OF assms] by simp_all
    show ?thesis using fields d(2) handle_chat_exception [OF assms(1) d]
      by (auto simp: execute_admitted_def case_prod_unfold split: sum.splits)
  qed
  then show ?thesis using requeue_after_saturation [OF assms] assms(3)
    by (auto simp: execute_prepared_def case_prod_unfold split: sum.splits option.splits concurrency_error.splits)
qed

lemma execute_claimed:
  assumes "rely k env" and "E k x" and "I k db"
  shows "I k (snd (chat_execute_claimed env db x))"
proof -
  obtain r d where c: "stop_if_requested env False 1 db x [] True False = (r, d)" by (cases "stop_if_requested env False 1 db x [] True False")
  have d: "I k d" using stop_if_requested [OF assms, of False 1 "[]" True False] c by simp
  show ?thesis
    using c d chat_fail [OF assms] chat_fail [OF assms(1,2) d] execute_prepared [OF assms(1,2) d] assms(3)
    by (auto simp: chat_execute_claimed_def Let_def case_prod_unfold split: sum.splits bool.splits completion_error.splits)
qed

end

text \<open>A contract that does not depend on the request holds of whole deliveries.\<close>

locale chat_delivery_contract = chat_worker_contract +
  assumes any: "E k x"
    and claim_queued: "I k db \<Longrightarrow> I k (snd (claim_queued db now locked token worker n tenant request))"
begin

lemma worker_claim:
  assumes "rely k env" and "I k db"
  shows "I k (snd (worker_claim env db tenant request))"
  unfolding worker_claim_def by (rule call [OF assms(1) claim_queued assms(2)])

lemma deliveries:
  assumes "rely k env" and "I k db" and "wd_executor (wc_deps env) = None"
  shows "I k (snd (chat_process env db request))" "I k (snd (chat_run_once env db tenant))"
proof -
  have run: "I k (snd (chat_execute_claimed env d x))" if "I k d" for d x by (rule execute_claimed [OF assms(1) any that])
  have c: "I k (snd (worker_claim env db t q))" for t q by (rule worker_claim [OF assms(1,2)])
  show "I k (snd (chat_process env db request))" "I k (snd (chat_run_once env db tenant))"
    using c run assms(2,3)
    by (auto simp: chat_process_def chat_run_once_def case_prod_unfold split: sum.splits option.splits)
qed

end

subsection \<open>Deliveries are runs\<close>

interpretation chat_interleaved: chat_delivery_contract "\<lambda>_ _. True" chat_run chat_run
  by unfold_locales (auto intro: rtranclp.rtrancl_into_rtrancl chat_step.intros, (metis chat_step.intros rtranclp.rtrancl_into_rtrancl snd_conv)+)

text \<open>
  C37. A delivery of the chat worker is an interleaving of committed repository steps: whatever the provider
  streams and however it fails, wherever the permit is lost, and whatever runs of the other processes fall between
  the worker's calls, the database it leaves is reached by such steps only. Everything proved of chat runs, gapless
  logs, final outcomes and balanced books, therefore holds of the worker, and every error code it writes is public.
\<close>

theorem chat_worker_is_run:
  assumes "\<And>i d. chat_run d (wc_other env i d)" and "wd_executor (wc_deps env) = None"
  shows "chat_run db (snd (chat_process env db request)) \<and> chat_run db (snd (chat_run_once env db tenant))"
proof -
  have "chat_interleaved.rely db env" using assms(1) by (auto simp: chat_interleaved.rely_def intro: rtranclp_trans)
  then show ?thesis using chat_interleaved.deliveries [OF _ rtranclp.rtrancl_refl assms(2)] by blast
qed

theorem chat_worker_is_run_witness:
  "chat_run chat_queued (snd (chat_process (demo_worker None) chat_queued (ar_request accepted_demo))) \<and>
   chat_run chat_queued (snd (chat_run_once (demo_worker (Some ChatOtherException)) chat_queued None))"
  using chat_worker_is_run [of "demo_worker None" chat_queued] chat_worker_is_run [of "demo_worker (Some ChatOtherException)" chat_queued]
  by (simp add: demo_env demo_deps_def)

subsection \<open>Money follows the outcome\<close>

definition finished_request :: "uuid \<Rightarrow> chat_db \<Rightarrow> bool" where
  "finished_request i db \<longleftrightarrow> (\<exists>q \<in> set (ch_requests db). q_id q = i \<and> q_status q \<in> set [ISucceeded, IFailed, IStopped])"

lemma finished_moved:
  assumes "chat_moved db db'" and "finished_request i db"
  shows "finished_request i db'"
proof -
  obtain q where q: "q \<in> set (ch_requests db)" "q_id q = i" "q_status q \<in> set [ISucceeded, IFailed, IStopped]"
    using assms(2) by (auto simp: finished_request_def)
  then obtain q' where "q' \<in> set (ch_requests db')" "keeps_request q q'" using assms(1) by (auto simp: chat_moved_def)
  moreover have "\<not> in_flight q" using q(3) by (auto simp: in_flight_def)
  ultimately show ?thesis using q by (auto simp: keeps_request_def finished_request_def)
qed

definition hold_row :: "uuid \<Rightarrow> chat_db \<Rightarrow> BalanceReservation list" where
  "hold_row rid db = filter (\<lambda>r. r_id r = rid) (reservations (ch_billing db))"

text \<open>The hold is as at the start, or the request is finished. The index is the hold, its id and the request's id.\<close>

definition hold_follows :: "BalanceReservation list \<times> uuid \<times> uuid \<Rightarrow> chat_db \<Rightarrow> bool" where
  "hold_follows k db \<longleftrightarrow> chat_inv db \<and> (hold_row (fst (snd k)) db = fst k \<or> finished_request (snd (snd k)) db)"

definition hold_finished :: "BalanceReservation list \<times> uuid \<times> uuid \<Rightarrow> chat_db \<Rightarrow> bool" where
  "hold_finished k db \<longleftrightarrow> chat_inv db \<and> finished_request (snd (snd k)) db"

lemma hold_follows_step:
  assumes "chat_step db db'" and "reservations (ch_billing db') = reservations (ch_billing db)" and "hold_follows k db"
  shows "hold_follows k db'"
  using chat_step_inv [OF assms(1)] finished_moved [OF chat_step_moved [OF assms(1)]] assms(2,3)
  by (auto simp: hold_follows_def hold_row_def)

lemma hold_finished_step:
  assumes "chat_step db db'" and "hold_finished k db"
  shows "hold_finished k db'"
  using chat_step_inv [OF assms(1)] finished_moved [OF chat_step_moved [OF assms(1)]] assms(2) by (auto simp: hold_finished_def)

lemma hold_finished_follows: "hold_finished k db \<Longrightarrow> hold_follows k db"
  by (simp add: hold_finished_def hold_follows_def)

lemma terminal_finishes:
  assumes "terminal_without_usage db now seen eid x k content ty rs ms code details pid statuses reason = (Inr True, db')"
    and "rs \<in> set [ISucceeded, IFailed, IStopped]"
  shows "finished_request (x_request_db_id x) db'"
  using assms(1)
proof (rule terminal_without_usage_Inr)
  fix q m c c'
  assume q: "locked_writable_request db seen x k statuses = Inr (Some q)"
    and db': "db' = add_event (event_row eid q k ty (terminal_payload q x k ty code details) now)
       (put_conversation c' (put_message (m\<lparr>m_content := (if content = [] then m_content m else text_json content), m_status := ms, m_updated_at := now\<rparr>)
         (put_request (terminate_request now k rs pid code details (case or_else reason (Some ty) of Some s \<Rightarrow> s | None \<Rightarrow> []) q) db)))"
  note row = locked_request_Some [OF locked_writable_Some(1) [OF q]]
  let ?q = "terminate_request now k rs pid code details (case or_else reason (Some ty) of Some s \<Rightarrow> s | None \<Rightarrow> []) q"
  have "?q \<in> set (ch_requests (put_request ?q db))" by (rule request_put(1) [OF row(1)]) (simp add: terminate_request_def)
  then show ?thesis using row assms(2) by (auto simp: db' finished_request_def terminate_request_def intro!: bexI [of _ ?q])
qed simp

lemma completed_finishes:
  assumes "mark_completed db now seen eid uid x k content pid usage = (Inr True, db')"
  shows "finished_request (x_request_db_id x) db'"
  using assms
proof (rule mark_completed_True)
  fix q m c' rows
  assume q: "locked_writable_request db seen x k [IRunning] = Inr (Some q)"
    and db': "db' = (completed_db db now eid x k content pid (cu_usage usage) q m c')
       \<lparr>ch_billing := (ch_billing db)\<lparr>usage_records := usage_records (ch_billing db) @ rows\<rparr>\<rparr>"
  note row = locked_request_Some [OF locked_writable_Some(1) [OF q]]
  let ?q = "complete_request now k pid (cu_usage usage) q"
  have "?q \<in> set (ch_requests (put_request ?q db))" by (rule request_put(1) [OF row(1)]) (simp add: complete_request_def)
  then show ?thesis using row by (auto simp: db' completed_db_def finished_request_def complete_request_def intro!: bexI [of _ ?q])
qed

lemma mark_reservations:
  "ch_billing (snd (mark_stopped db now seen eid x k content)) = ch_billing db"
  "ch_billing (snd (mark_failed db now seen eid x k code details pid)) = ch_billing db"
  "ch_billing (snd (mark_submitted_unknown db now seen eid x pid code)) = ch_billing db"
  by (simp_all add: mark_stopped_def mark_failed_def mark_submitted_unknown_def terminal_billing)

lemma mark_completed_reservations:
  "reservations (ch_billing (snd (mark_completed db now seen eid uid x k content pid usage))) = reservations (ch_billing db)"
proof (cases "mark_completed db now seen eid uid x k content pid usage")
  case (Pair res db')
  show ?thesis
  proof (cases "res = Inr True")
    case True
    with Pair have "mark_completed db now seen eid uid x k content pid usage = (Inr True, db')" by simp
    then have "reservations (ch_billing db') = reservations (ch_billing db)" by (rule mark_completed_True) simp
    then show ?thesis using Pair by simp
  next
    case False
    then show ?thesis using mark_completed_other [OF Pair] Pair by simp
  qed
qed

interpretation hold_follows: chat_worker_contract "\<lambda>k x. x_request_db_id x = snd (snd k)" hold_follows hold_finished
proof unfold_locales
  fix k db db' now ext x seen eid s d pid code content details lid lid1 lid2 t rid meters n p uid usage
  show "hold_finished k db \<Longrightarrow> hold_follows k db" by (rule hold_finished_follows)
  show "hold_follows k db \<Longrightarrow> hold_follows k (snd (check_lease_and_stop db now ext x))"
    by (rule hold_follows_step [OF chat_step.checked]) (simp add: lease_billing)
  show "hold_follows k db \<Longrightarrow> hold_follows k (snd (requeue_claimed db now x))"
    by (rule hold_follows_step [OF chat_step.requeued]) (simp add: lease_billing)
  show "hold_follows k db \<Longrightarrow> hold_follows k (snd (append_delta db now seen ext eid x s d pid))"
    by (rule hold_follows_step [OF chat_step.appended]) (simp add: append_delta_billing)
  show "is_public_code code \<Longrightarrow> hold_follows k db \<Longrightarrow> hold_follows k (snd (mark_submitted_unknown db now seen eid x pid code))"
    by (rule hold_follows_step [OF chat_step.unknown]) (simp_all add: mark_reservations)
  show stop: "hold_follows k db \<Longrightarrow> hold_follows k (snd (mark_stopped db now seen eid x s content))"
    by (rule hold_follows_step [OF chat_step.stop_marked]) (simp add: mark_reservations)
  show fail: "is_public_code code \<Longrightarrow> hold_follows k db \<Longrightarrow> hold_follows k (snd (mark_failed db now seen eid x s code details pid))"
    by (rule hold_follows_step [OF chat_step.failed]) (simp_all add: mark_reservations)
  show complete: "hold_follows k db \<Longrightarrow> hold_follows k (snd (mark_completed db now seen eid uid x s content pid usage))"
    by (rule hold_follows_step [OF chat_step.completed]) (simp_all add: mark_completed_reservations)
  assume id: "x_request_db_id x = snd (snd k)"
  show "hold_follows k db \<Longrightarrow> mark_stopped db now seen eid x s content = (Inr True, db') \<Longrightarrow> hold_finished k db'"
    using stop terminal_finishes [of db now seen eid x s content _ IStopped] id
    by (auto simp: hold_finished_def hold_follows_def mark_stopped_def)
  show "is_public_code code \<Longrightarrow> hold_follows k db \<Longrightarrow> mark_failed db now seen eid x s code details pid = (Inr True, db') \<Longrightarrow> hold_finished k db'"
    using fail terminal_finishes [of db now seen eid x s "[]" _ IFailed] id
    by (auto simp: hold_finished_def hold_follows_def mark_failed_def)
  show "hold_follows k db \<Longrightarrow> mark_completed db now seen eid uid x s content pid usage = (Inr True, db') \<Longrightarrow> hold_finished k db'"
    using complete completed_finishes [of db now seen eid uid x s content pid usage db'] id by (auto simp: hold_finished_def hold_follows_def)
qed (auto intro: hold_finished_follows hold_finished_step [OF chat_step.released] hold_finished_step [OF chat_step.captured])

text \<open>The guarantee of one process towards the others about the hold of a request.\<close>

definition settles_finished :: "uuid \<Rightarrow> uuid \<Rightarrow> chat_db \<Rightarrow> chat_db \<Rightarrow> bool" where
  "settles_finished rid i db db' \<longleftrightarrow> chat_run db db' \<and> (hold_row rid db' = hold_row rid db \<or> finished_request i db')"

text \<open>
  C38. The worker moves the money of a request only after its outcome is committed: if no other process touches a hold
  before the request has succeeded, failed or been stopped, neither does the worker, whatever the provider
  streams, whichever call raises and wherever the permit is lost. A request whose outcome is left unknown, that is
  requeued or whose worker loses its lease therefore keeps its hold exactly as it was.
\<close>

theorem chat_hold_follows_outcome:
  assumes "chat_inv db" and "\<And>i d. chat_inv d \<Longrightarrow> settles_finished rid (x_request_db_id x) d (wc_other env i d)"
  shows "hold_row rid (snd (chat_execute_claimed env db x)) = hold_row rid db \<or>
    finished_request (x_request_db_id x) (snd (chat_execute_claimed env db x))"
proof -
  let ?k = "(hold_row rid db, rid, x_request_db_id x)"
  have "hold_follows ?k (wc_other env i d)" if "hold_follows ?k d" for i d
    using that assms(2) [of d i] chat_run_moved [of d] finished_moved by (auto simp: hold_follows_def settles_finished_def)
  moreover have "hold_finished ?k (wc_other env i d)" if "hold_finished ?k d" for i d
    using that assms(2) [of d i] chat_run_moved [of d] finished_moved by (auto simp: hold_finished_def settles_finished_def)
  ultimately have "hold_follows.rely ?k env" by (simp add: hold_follows.rely_def)
  then have "hold_follows ?k (snd (chat_execute_claimed env db x))"
    by (rule hold_follows.execute_claimed) (use assms(1) in \<open>simp_all add: hold_follows_def\<close>)
  then show ?thesis by (simp add: hold_follows_def)
qed

text \<open>With the provider failing after its first chunk, as with any other error of the stream.\<close>

theorem chat_hold_follows_outcome_witness:
  "chat_inv chat_running \<and>
   (let db' = snd (chat_execute_claimed (demo_worker (Some ChatOtherException)) chat_running chat_execution) in
    hold_row 306 db' = hold_row 306 chat_running \<or> finished_request 304 db')"
proof -
  have "settles_finished rid i d (wc_other (demo_worker f) n d)" for rid i d f n by (simp add: settles_finished_def demo_env)
  then show ?thesis
    using chat_hold_follows_outcome [OF chat_running_inv, of 306 chat_execution "demo_worker (Some ChatOtherException)"] chat_running_inv
    by (simp add: Let_def execution_fields)
qed

subsection \<open>The completed answer\<close>

text \<open>\<open>content\<close> is the text of the deltas among the first \<open>n + 1\<close> events of the request.\<close>

definition streamed_text :: "uuid \<Rightarrow> int \<Rightarrow> string \<Rightarrow> chat_db \<Rightarrow> bool" where
  "streamed_text i n content db \<longleftrightarrow> n = 0 \<and> content = [] \<or>
     (\<exists>q \<in> set (ch_requests db). q_id q = i \<and> 0 \<le> n \<and> n < int (length (events_of db q)) \<and>
        content = deltas (take (nat n + 1) (events_of db q)))"

lemma streamed_text_run:
  assumes "chat_run db db'" and "chat_inv db" and "streamed_text i n content db"
  shows "streamed_text i n content db'"
proof (cases "n = 0 \<and> content = []")
  case False
  then obtain q where q: "q \<in> set (ch_requests db)" "q_id q = i" "0 \<le> n" "n < int (length (events_of db q))"
    "content = deltas (take (nat n + 1) (events_of db q))" using assms(3) by (auto simp: streamed_text_def)
  obtain q' where q': "q' \<in> set (ch_requests db')" "keeps_request q q'" "prefix (events_of db q) (events_of db' q')"
    using moved_log [OF conjunct1 [OF chat_run_moved [OF assms(1,2)]] q(1)] .
  then obtain es where es: "events_of db' q' = events_of db q @ es" by (auto elim: prefixE)
  have "take (nat n + 1) (events_of db' q') = take (nat n + 1) (events_of db q)" using q(3,4) by (simp add: es)
  then show ?thesis using q q'(1,2) es unfolding streamed_text_def by (intro disjI2 bexI [of _ q']) (simp_all add: keeps_request_def same_request_def)
qed (simp add: streamed_text_def)

lemma started_text:
  assumes "log_ok q es" and "length es = 1"
  shows "deltas es = []"
proof -
  obtain e where es: "es = [e]" using assms(2) by (auto simp: length_Suc_conv)
  then have "e_event_type e = ''started''" "event_shape q e" using assms(1) by (simp_all add: log_ok_def)
  then show ?thesis by (auto simp: es deltas_def delta_text_def event_shape_def payload_tail_def event_fields_def)
qed

text \<open>When the sequence number is the last of the log, the text is that of the whole log.\<close>

lemma streamed_whole:
  assumes "chat_inv db" and "q \<in> set (ch_requests db)" and "q_last_event_sequence q = n" and "streamed_text (q_id q) n content db"
  shows "content = deltas (events_of db q) \<and> int (length (events_of db q)) = n + 1"
proof -
  have log: "log_ok q (events_of db q)" by (rule chat_coreD(2) [OF chat_inv_core [OF assms(1)] assms(2)])
  then have len: "int (length (events_of db q)) = n + 1" using assms(3) by (simp add: log_ok_def)
  show ?thesis
  proof (cases "n = 0 \<and> content = []")
    case True
    then show ?thesis using started_text [OF log] len by simp
  next
    case False
    then obtain q2 where q2: "q2 \<in> set (ch_requests db)" "q_id q2 = q_id q" "0 \<le> n" "content = deltas (take (nat n + 1) (events_of db q2))"
      using assms(4) by (auto simp: streamed_text_def)
    have "q2 = q" by (rule request_unique [OF chat_inv_core [OF assms(1)] q2(1) assms(2) q2(2)])
    moreover have "take (nat n + 1) (events_of db q) = events_of db q" using len q2(3) by simp
    ultimately show ?thesis using q2(4) len by simp
  qed
qed

lemma append_delta_text:
  assumes "chat_inv db" and "append_delta db now seen n eid x k d pid = (Inr (Some r), db')"
    and "streamed_text (x_request_db_id x) (k - 1) content db"
  shows "streamed_text (x_request_db_id x) (se_sequence r) (content @ d) db'"
  using assms(2)
proof (rule append_delta_Some)
  fix q m
  assume q: "locked_writable_request db seen x k [IRunning] = Inr (Some q)" and m: "locked_message db x = Inr (Some m)" and d: "d \<noteq> []"
    and db': "db' = add_event (event_row eid q k ''delta'' (delta_payload q x k d) now)
       (put_message (m\<lparr>m_content := text_json (text_content (m_content m) @ d), m_updated_at := now\<rparr>) (put_request (delta_request now n k pid q) db))"
    and r: "r = \<lparr>se_sequence = k, se_event = delta_payload q x k d\<rparr>"
  note qs = locked_writable_Some [OF q] and row = locked_request_Some [OF locked_writable_Some(1) [OF q]]
  note ids = execution_rows [OF assms(1) qs(1) m]
  let ?q = "delta_request now n k pid q"
  have same: "same_request q ?q" by (simp add: same_request_def delta_request_def extend_lease_def)
  have whole: "content = deltas (events_of db q)" "int (length (events_of db q)) = k"
    using streamed_whole [OF assms(1) row(1) qs(3)] assms(3) row(2) by simp_all
  have ev: "events_of db' ?q = events_of db q @ [event_row eid q k ''delta'' (delta_payload q x k d) now]"
    using same by (simp add: db' same_request_def same_request_events [OF same] event_row_def)
  have mem: "?q \<in> set (ch_requests db')" using request_put(1) [OF row(1)] same by (simp add: db' same_request_def)
  have "take (nat k + 1) (events_of db' ?q) = events_of db' ?q" using whole(2) by (simp add: ev)
  moreover have "deltas (events_of db' ?q) = content @ d" using delta_event(2) [OF ids(2,3) d] by (simp add: ev whole(1) deltas_def)
  ultimately show ?thesis
    unfolding streamed_text_def using mem same row(2) whole(2) by (intro disjI2 bexI [of _ ?q]) (simp_all add: r ev same_request_def)
qed

text \<open>What the stream keeps of the execution it was given.\<close>

definition same_execution :: "ChatExecutionRecord \<Rightarrow> ChatExecutionRecord \<Rightarrow> bool" where
  "same_execution x y \<longleftrightarrow> (\<exists>n p. y = x\<lparr>x_last_event_sequence := n, x_provider_request_id := p\<rparr>)"

lemma same_execution_refl: "same_execution x x"
  unfolding same_execution_def by (rule exI [of _ "x_last_event_sequence x"], rule exI [of _ "x_provider_request_id x"]) simp

lemma same_execution_appended: "same_execution x (st_current st) \<Longrightarrow> same_execution x (st_current (appended_delta d event st))"
  by (auto simp: same_execution_def appended_delta_def) blast

lemma same_execution_fields:
  "same_execution x y \<Longrightarrow> x_request_db_id y = x_request_db_id x \<and> x_tenant_id y = x_tenant_id x \<and> x_reservation_id y = x_reservation_id x"
  by (auto simp: same_execution_def)

abbreviation stream_text :: "ChatStreamState \<Rightarrow> chat_db \<Rightarrow> bool" where
  "stream_text st db \<equiv> streamed_text (x_request_db_id (st_current st)) (x_last_event_sequence (st_current st)) (st_content st) db"

lemma runs_rely: "(\<And>i d. chat_run d (wc_other env i d)) \<Longrightarrow> chat_interleaved.rely k env"
  by (auto simp: chat_interleaved.rely_def intro: rtranclp_trans)

lemma worker_append_text:
  assumes others: "\<And>i d. chat_run d (wc_other env i d)" and "chat_inv db" and "stream_text st db"
    and "worker_append env i db st delta = (Inr (Some event), db')"
  shows "stream_text (appended_delta delta event st) db'"
proof -
  let ?d = "wc_other env i db" and ?x = "st_current st"
  have d: "chat_inv ?d" "stream_text st ?d" using chat_run_inv [OF others assms(2)] streamed_text_run [OF others assms(2,3)] by simp_all
  have "append_delta ?d (wc_now env i) (wc_seen env i) (wc_extension env) (wc_uuid env i 0) ?x (x_last_event_sequence ?x + 1) delta
      (st_provider_request_id st) = (Inr (Some event), db')"
    using assms(4) by (auto simp: worker_append_def chat_call_def Let_def split: option.splits prod.splits)
  from append_delta_text [OF d(1) this] show ?thesis using d(2) by (simp add: appended_delta_def)
qed

lemma consume_chunks_text:
  assumes others: "\<And>i d. chat_run d (wc_other env i d)"
  shows "chat_inv db \<Longrightarrow> same_execution x (st_current st) \<Longrightarrow> stream_text st db \<Longrightarrow>
    consume_chunks env i chunks failure st db = (Inr r, st', db') \<Longrightarrow> \<not> st_terminal_marked st' \<Longrightarrow>
    same_execution x (st_current st') \<and> stream_text st' db' \<and> chat_inv db'"
proof (induction chunks arbitrary: i st db)
  case Nil
  then show ?case using streamed_text_run [OF others] chat_run_inv [OF others] by (auto split: if_splits option.splits)
next
  case (Cons chunk chunks)
  note rely = runs_rely [OF others]
  obtain rc d1 where c: "worker_check env True i db (st_current st) = (rc, d1)" by (cases "worker_check env True i db (st_current st)")
  then obtain check where check: "rc = Inr check" using Cons.prems(4) by (cases rc) auto
  have run: "chat_run db d1" using chat_interleaved.worker_check [OF rely, where k = db and db = db and guarded = True and i = i and x = "st_current st"] c by simp
  have d1: "chat_inv d1" "stream_text st d1" using chat_run_inv [OF run] streamed_text_run [OF run] Cons.prems(1,3) by simp_all
  show ?case
  proof (cases "lc_lease_valid check \<and> \<not> lc_stop_requested check")
    case False
    then show ?thesis
      using Cons.prems c check d1 by (auto split: if_splits sum.splits prod.splits)
  next
    case True
    then obtain pid where pid: "coherent_provider_request_id (st_provider_request_id st) (tc_request_id chunk) = Inr pid"
      using Cons.prems(4) c check by (cases "coherent_provider_request_id (st_provider_request_id st) (tc_request_id chunk)") auto
    let ?st = "received chunk pid st"
    have st: "same_execution x (st_current ?st)" "stream_text ?st d1" using Cons.prems(2) d1(2) by (simp_all add: received_def)
    show ?thesis
    proof (cases "tc_delta chunk = []")
      case empty: True
      show ?thesis by (rule Cons.IH [OF d1(1) st]) (use Cons.prems c check True pid empty in simp_all)
    next
      case some: False
      obtain ra d2 where a: "worker_append env (i + 1) d1 ?st (tc_delta chunk) = (ra, d2)"
        by (cases "worker_append env (i + 1) d1 ?st (tc_delta chunk)")
      have run2: "chat_run d1 d2" using chat_interleaved.worker_append [OF rely, where k = d1 and db = d1 and st = ?st and i = "i + 1" and delta = "tc_delta chunk"] a by simp
      have d2: "chat_inv d2" "stream_text ?st d2" using chat_run_inv [OF run2 d1(1)] streamed_text_run [OF run2 d1(1) st(2)] by simp_all
      show ?thesis
      proof (cases "\<exists>event. ra = Inr (Some event)")
        case True
        then obtain event where ev: "worker_append env (i + 1) d1 ?st (tc_delta chunk) = (Inr (Some event), d2)" using a by auto
        show ?thesis
          by (rule Cons.IH [OF d2(1) same_execution_appended [OF st(1)] worker_append_text [OF others d1(1) st(2) ev]])
            (use Cons.prems c check \<open>lc_lease_valid check \<and> \<not> lc_stop_requested check\<close> pid some ev in simp_all)
      next
        case False
        then show ?thesis
          using Cons.prems(4) c check \<open>lc_lease_valid check \<and> \<not> lc_stop_requested check\<close> pid some a d2 st(1)
          by (auto split: sum.splits option.splits)
      qed
    qed
  qed
qed

text \<open>The finished log of a request whose answer is the text of its deltas.\<close>

definition answered :: "uuid \<Rightarrow> chat_db \<Rightarrow> bool" where
  "answered i db \<longleftrightarrow> (\<exists>q \<in> set (ch_requests db). q_id q = i \<and> q_status q = ISucceeded \<and>
     e_event_type (last (events_of db q)) = ''completed'' \<and> content_text (last (events_of db q)) = deltas (events_of db q))"

lemma answered_run:
  assumes "chat_run db db'" and "chat_inv db" and "answered i db"
  shows "answered i db'"
proof -
  obtain q where q: "q \<in> set (ch_requests db)" "q_id q = i" "q_status q = ISucceeded"
    "e_event_type (last (events_of db q)) = ''completed''" "content_text (last (events_of db q)) = deltas (events_of db q)"
    using assms(3) by (auto simp: answered_def)
  then have closed: "\<not> in_flight q" by (simp add: in_flight_def)
  have moved: "chat_moved db db'" and inv': "chat_inv db'" using chat_run_moved [OF assms(1,2)] by simp_all
  obtain q' where q': "q' \<in> set (ch_requests db')" "keeps_request q q'" "prefix (events_of db q) (events_of db' q')"
    using moved_log [OF moved q(1)] .
  have "q' = q" using q'(2) closed by (simp add: keeps_request_def)
  moreover have "events_of db' q' = events_of db q"
    by (rule closed_log [OF chat_coreD(2) [OF chat_inv_core [OF assms(2)] q(1)] chat_coreD(2) [OF chat_inv_core [OF inv'] q'(1)] q'(2,3) closed])
  ultimately show ?thesis using q q'(1) by (auto simp: answered_def)
qed

lemma completed_answer:
  assumes "chat_inv db" and "mark_completed db now seen eid uid x k content pid usage = (Inr True, db')"
    and "streamed_text (x_request_db_id x) (k - 1) content db"
  shows "answered (x_request_db_id x) db'"
  using assms(2)
proof (rule mark_completed_True)
  fix q m c' rows
  assume q: "locked_writable_request db seen x k [IRunning] = Inr (Some q)"
    and db': "db' = (completed_db db now eid x k content pid (cu_usage usage) q m c')
       \<lparr>ch_billing := (ch_billing db)\<lparr>usage_records := usage_records (ch_billing db) @ rows\<rparr>\<rparr>"
  note qs = locked_writable_Some [OF q] and row = locked_request_Some [OF locked_writable_Some(1) [OF q]]
  let ?q = "complete_request now k pid (cu_usage usage) q"
  let ?e = "event_row eid q k ''completed'' (event_fields ''completed'' (q_request_id q) (x_conversation_id x) (x_message_id x) k
         @ [(''content'', JStr content)]) now"
  have same: "same_request q ?q" and status: "q_status ?q = ISucceeded" by (simp_all add: same_request_def complete_request_def)
  have whole: "content = deltas (events_of db q)" using streamed_whole [OF assms(1) row(1) qs(3)] assms(3) row(2) by simp
  have mem: "?q \<in> set (ch_requests db')" using request_put(1) [OF row(1)] same by (simp add: db' completed_db_def same_request_def)
  have "events_of db' ?q = events_of (completed_db db now eid x k content pid (cu_usage usage) q m c') ?q" by (simp add: db' events_of_def)
  then have ev: "events_of db' ?q = events_of db q @ [?e]"
    using same by (simp add: completed_db_def same_request_events [OF same] same_request_def event_row_def)
  have "content_text ?e = content" "delta_text ?e = []" "e_event_type ?e = ''completed''"
    by (simp_all add: content_text_def delta_text_def event_row_def event_fields_def)
  then show ?thesis
    unfolding answered_def using mem row(2) same whole
    by (intro bexI [of _ ?q]) (simp_all add: ev deltas_def same_request_def status)
qed

lemma complete_and_capture_answer:
  assumes others: "\<And>i d. chat_run d (wc_other env i d)" and inv: "chat_inv db" "billing_inv (ch_billing db)" and st: "stream_text st db"
    and res: "complete_and_capture env st db = (Inr True, st', db')" and rid: "x_reservation_id (st_current st) = Some rid"
  shows "answered (x_request_db_id (st_current st)) db' \<and>
    (\<exists>r \<in> set (reservations (ch_billing db')). r_id r = rid \<and> r_status r = ''committed'')"
proof -
  let ?x = "st_current st"
  obtain d1 m where d1: "mark_completed (wc_other env 9 db) (wc_now env 9) (wc_seen env 9) (wc_uuid env 9 0) (wc_uuid env 9 1) ?x
      (x_last_event_sequence ?x + 1) (st_content st) (st_provider_request_id st) (usage_record st) = (Inr True, d1)"
    and cap: "adapter_capture (wc_other env 10 d1) (wc_uuid env 10 0) (wc_uuid env 10 1) (wc_now env 10) ?x (usage_record st) = (Inr m, db')"
    using res by (auto simp: complete_and_capture_def chat_call_def Let_def split: prod.splits sum.splits bool.splits)
  let ?before = "wc_other env 9 db" and ?d = "wc_other env 10 d1"
  have before: "chat_inv ?before" "stream_text st ?before" "billing_inv (ch_billing ?before)"
    using chat_run_books [OF others inv] streamed_text_run [OF others inv(1) st] by simp_all
  have d1': "chat_inv d1" "billing_inv (ch_billing d1)"
    using mark_completed_inv [OF before(1)] mark_completed_books [OF before(3)] d1 by (metis snd_conv)+
  have "answered (x_request_db_id ?x) d1" by (rule completed_answer [OF before(1) d1]) (use before(2) in simp)
  then have "answered (x_request_db_id ?x) ?d" by (rule answered_run [OF others d1'(1)])
  moreover have d: "billing_inv (ch_billing ?d)" using chat_run_books [OF others d1'] by simp
  obtain meters cr where c: "chat_capture ?d (wc_uuid env 10 0) (wc_uuid env 10 1) (wc_now env 10) (x_tenant_id ?x) rid (Some meters) = (Inr cr, db')"
    using cap rid by (auto simp: adapter_capture_def required_reservation_id_def split: prod.splits sum.splits)
  have "same_chat ?d db'" using frame_same_chat [OF chat_capture_frame] c by (metis snd_conv)
  then have "chat_run ?d db'" using chat_step.captured c by (metis r_into_rtranclp snd_conv)
  ultimately have "answered (x_request_db_id ?x) db'"
    using answered_run chat_run_inv [OF others d1'(1)] by blast
  moreover have "capture_body (chat_billing ?d) (wc_uuid env 10 0) (wc_uuid env 10 1) (wc_now env 10) (x_tenant_id ?x) rid None (Some meters) = Inr (cr, ch_billing db')"
    using c by (auto simp: chat_capture_def capture_Inr_iff split: prod.splits)
  then have "\<exists>r \<in> set (reservations (ch_billing db')). r_id r = rid \<and> r_status r = ''committed''"
    by (rule capture_body_row [rotated]) (use d in auto)
  ultimately show ?thesis by blast
qed

lemma execute_claimed_settled:
  assumes "chat_execute_claimed env db x = (Inr True, db')"
  obtains d1 d2 completion r st d3 d4 st' check where "x_reservation_id x \<noteq> None"
    "stop_if_requested env False 1 db x [] True False = (Inr False, d1)" "stop_if_requested env False 15 d1 x [] True False = (Inr False, d2)"
    "consume_stream env (stream_start x) completion d2 = (Inr r, st, d3)" "\<not> st_terminal_marked st"
    "worker_check env False 6 d3 (st_current st) = (Inr check, d4)" "complete_and_capture env st d4 = (Inr True, st', db')"
proof -
  from assms obtain d1 completion where d1: "x_reservation_id x \<noteq> None" "stop_if_requested env False 1 db x [] True False = (Inr False, d1)"
    "execute_prepared env d1 x completion = (Inr True, db')"
    by (auto simp: chat_execute_claimed_def Let_def split: if_splits prod.splits sum.splits bool.splits completion_error.splits)
  from d1(3) have "execute_admitted env d1 x completion = (Inr True, db')"
    by (auto simp: execute_prepared_def split: sum.splits option.splits concurrency_error.splits prod.splits)
  then obtain st' where "admitted_body env d1 x completion = (Inr True, st', db')"
    by (auto simp: execute_admitted_def split: sum.splits prod.splits)
  then obtain d2 r st d3 where d2: "stop_if_requested env False 15 d1 x [] True False = (Inr False, d2)"
    "consume_stream env (stream_start x) completion d2 = (Inr r, st, d3)" "\<not> st_terminal_marked st" "finish_stream env st d3 = (Inr True, st', db')"
    by (auto simp: admitted_body_def split: sum.splits prod.splits bool.splits if_splits)
  from d2(4) obtain check d4 where "worker_check env False 6 d3 (st_current st) = (Inr check, d4)" "complete_and_capture env st d4 = (Inr True, st', db')"
    by (auto simp: finish_stream_def split: sum.splits prod.splits if_splits)
  with d1 d2 show thesis by (rule_tac that)
qed

text \<open>
  C39. A delivery that ends well has done all it should: whatever else is committed meanwhile, the request has
  succeeded, the last event of its log is the completion, the completed text is exactly the concatenation of the
  deltas every reader of the stream was sent, and the hold of the request is captured.
\<close>

theorem chat_answer_settled:
  assumes "chat_inv db" and "billing_inv (ch_billing db)" and "\<And>i d. chat_run d (wc_other env i d)"
    and "x_last_event_sequence x = 0" and "chat_execute_claimed env db x = (Inr True, db')"
  shows "(\<exists>q \<in> set (ch_requests db'). q_id q = x_request_db_id x \<and> q_status q = ISucceeded \<and>
      e_event_type (last (events_of db' q)) = ''completed'' \<and> content_text (last (events_of db' q)) = deltas (events_of db' q)) \<and>
    (\<exists>r \<in> set (reservations (ch_billing db')). Some (r_id r) = x_reservation_id x \<and> r_status r = ''committed'')"
proof -
  note others = assms(3) and rely = runs_rely [OF assms(3)]
  obtain d1 d2 completion r st d3 d4 st' check where x: "x_reservation_id x \<noteq> None"
    and stops: "stop_if_requested env False 1 db x [] True False = (Inr False, d1)" "stop_if_requested env False 15 d1 x [] True False = (Inr False, d2)"
    and stream: "consume_stream env (stream_start x) completion d2 = (Inr r, st, d3)" "\<not> st_terminal_marked st"
    and ends: "worker_check env False 6 d3 (st_current st) = (Inr check, d4)" "complete_and_capture env st d4 = (Inr True, st', db')"
    by (rule execute_claimed_settled [OF assms(5)])
  have run1: "chat_run db d1" using chat_interleaved.stop_if_requested [OF rely, where k = db and db = db] stops(1) by (metis rtranclp.rtrancl_refl snd_conv)
  have run2: "chat_run d1 d2" using chat_interleaved.stop_if_requested [OF rely, where k = d1 and db = d1] stops(2) by (metis rtranclp.rtrancl_refl snd_conv)
  have d2: "chat_inv d2" "billing_inv (ch_billing d2)" using chat_run_books [OF rtranclp_trans [OF run1 run2] assms(1,2)] by simp_all
  obtain chunks failure where "consume_chunks env 20 chunks failure (stream_start x) d2 = (Inr r, st, d3)"
    using stream(1) by (auto simp: consume_stream_def split: sum.splits prod.splits option.splits)
  moreover have "stream_text (stream_start x) d2" using assms(4) by (simp add: streamed_text_def stream_start_def)
  ultimately have st: "same_execution x (st_current st)" "stream_text st d3" "chat_inv d3"
    using consume_chunks_text [OF others d2(1), of x "stream_start x"] stream(2) same_execution_refl [of x] by (auto simp: stream_start_def)
  have "chat_run d2 d3" using chat_interleaved.consume_stream [OF rely, where k = d2 and db = d2] stream(1) by blast
  moreover have run4: "chat_run d3 d4" using chat_interleaved.worker_check [OF rely, where k = d3 and db = d3] ends(1) by (metis rtranclp.rtrancl_refl snd_conv)
  ultimately have d4: "chat_inv d4" "billing_inv (ch_billing d4)" using chat_run_books [OF rtranclp_trans d2] by blast+
  obtain rid where rid: "x_reservation_id x = Some rid" using x by blast
  show ?thesis
    using complete_and_capture_answer [OF others d4 streamed_text_run [OF run4 st(3,2)] ends(2)] same_execution_fields [OF st(1)] rid
    by (auto simp: answered_def)
qed

theorem chat_answer_settled_witness:
  "\<exists>db'. chat_execute_claimed (demo_worker None) chat_running chat_execution = (Inr True, db') \<and>
     (\<exists>q \<in> set (ch_requests db'). q_id q = 304 \<and> q_status q = ISucceeded \<and> content_text (last (events_of db' q)) = deltas (events_of db' q)) \<and>
     (\<exists>r \<in> set (reservations (ch_billing db')). r_id r = 306 \<and> r_status r = ''committed'')"
proof -
  obtain db' where db': "chat_execute_claimed (demo_worker None) chat_running chat_execution = (Inr True, db')" using demo_delivery_settles by blast
  have "chat_run d (wc_other (demo_worker None) i d)" for i d by (simp add: demo_env)
  from chat_answer_settled [OF chat_running_inv chat_running_books this _ db'] show ?thesis
    using db' by (auto simp: execution_fields)
qed

end
