(* ===== verification/Chat_Refusal.thy ===== *)
theory Chat_Refusal
  imports Chat_Worker_Demo
begin

text \<open>
  What becomes of a conversation that holds a long message. The public contract accepts messages of up to 64,000
  characters, the provider port only of up to 8000, and the worker hands the whole history to it: a delivery for such a
  conversation ends with a failed request before the provider is asked.
\<close>

subsection \<open>Long messages\<close>

lemma long_prompt:
  assumes "item \<in> set items" and "mr_message_id item \<noteq> message_id" and "\<not> blank (mr_content item)" and "8000 < length (mr_content item)"
  shows "prompt_messages message_id items = Inl Completion_invalid"
proof -
  have refused: "mk_ChatMessage role (mr_content item) = Inl Completion_invalid" for role
    using assms(3,4) by (auto simp: mk_ChatMessage_def require_text_def require_def)
  have invalid: "mk_ChatMessage role content = Inl e \<Longrightarrow> e = Completion_invalid" for role content e
    by (auto simp: mk_ChatMessage_def require_text_def require_Inl_iff andthen_Inl_iff)
  show ?thesis using assms(1)
  proof (induction items)
    case (Cons first items)
    then show ?case
      using assms(2,3) refused invalid
      by (cases "mk_ChatMessage (mr_role first) (mr_content first)") (auto simp: require_def)
  qed simp
qed

lemma history_item:
  assumes "m \<in> set (ch_messages db)" and "m_tenant_id m = t" and "m_conversation_id m = cid"
  shows "\<lparr>mr_message_id = m_id m, mr_role = m_role m, mr_content = text_content (m_content m), mr_status = m_status m,
    mr_created_at = m_created_at m, mr_request_id = None\<rparr> \<in> set (history db t cid)"
  using assms by (auto simp: history_def intro: rev_image_eqI)

text \<open>What never asks the provider does not depend on it.\<close>

lemma chat_call_stream: "chat_call (env\<lparr>wc_stream := provider\<rparr>) g i db call = chat_call env g i db call"
  by (simp add: chat_call_def)

lemma stream_unused:
  "stop_if_requested (env\<lparr>wc_stream := provider\<rparr>) g i db x c r f = stop_if_requested env g i db x c r f"
  "chat_fail (env\<lparr>wc_stream := provider\<rparr>) db x k code details pid r = chat_fail env db x k code details pid r"
proof -
  have fields: "wc_now (env\<lparr>wc_stream := provider\<rparr>) = wc_now env" "wc_seen (env\<lparr>wc_stream := provider\<rparr>) = wc_seen env"
    "wc_uuid (env\<lparr>wc_stream := provider\<rparr>) = wc_uuid env" "wc_extension (env\<lparr>wc_stream := provider\<rparr>) = wc_extension env" by simp_all
  show "stop_if_requested (env\<lparr>wc_stream := provider\<rparr>) g i db x c r f = stop_if_requested env g i db x c r f"
    "chat_fail (env\<lparr>wc_stream := provider\<rparr>) db x k code details pid r = chat_fail env db x k code details pid r"
    unfolding stop_if_requested_def stop_marked_request_def chat_fail_def marked_release_def worker_release_def worker_check_def chat_call_stream fields
    by (rule refl)+
qed

subsection \<open>The rows of a claimed request\<close>

lemma claimed_record:
  assumes "claim_queued db now locked token w n tenant request = (Inr (Some x), db')"
  obtains q cid mid p d where "q \<in> set (ch_requests db)" "db' = put_request (claim_request w token n now q) db" "chat_ok db'"
    "q_conversation_id q = Some cid" "q_message_id q = Some mid"
    "x = execution_record (claim_request w token n now q) cid mid p d (history db' (q_tenant_id q) cid)"
proof -
  let ?q = "\<lambda>q. claim_request w token n now q"
  obtain q c p d where row: "first_row (claim_query db locked tenant request) = Some (q, c, p, d)"
    using assms by (auto simp: claim_queued_def transaction_Inr_iff Let_def split: option.splits)
  note q = claim_query_mem [OF first_row_mem [OF row]]
  have same: "q_message_id (?q q) = q_message_id q" "q_conversation_id (?q q) = Some (cv_id c)" "q_tenant_id (?q q) = q_tenant_id q"
    using q(5) by (simp_all add: claim_request_def)
  obtain mid where "q_message_id q = Some mid" "chat_ok (put_request (?q q) db)" "db' = put_request (?q q) db"
    "x = execution_record (?q q) (cv_id c) mid p d (history db' (q_tenant_id q) (cv_id c))"
    using assms unfolding claim_queued_def row option.case prod.case Let_def same
    by (auto simp: transaction_Inr_iff split: option.splits)
  then show thesis using that q(1,5) by blast
qed

lemma one_row:
  assumes "distinct (map key rs)" and "r \<in> set rs" and "P r" and "\<And>y. P y \<Longrightarrow> key y = key r"
  shows "scalar_one_or_none (filter P rs) = Inr (Some r)"
proof -
  have "filter P rs = filter (\<lambda>y. key y = key r \<and> P y) rs" using assms(4) by (metis (no_types, lifting))
  then have "length (filter P rs) \<le> 1" using distinct_key_filter_le1 [OF assms(1)] by simp
  moreover have "r \<in> set (filter P rs)" using assms(2,3) by simp
  ultimately have "filter P rs = [r]" by (cases "filter P rs") (auto simp del: set_filter)
  then show ?thesis by simp
qed

text \<open>The row, the message and the conversation of a request in flight are there for its worker.\<close>

lemma live_rows:
  assumes inv: "chat_inv db" and q: "q \<in> set (ch_requests db)" "in_flight q"
    and x: "x_request_db_id x = q_id q" "x_tenant_id x = q_tenant_id q" "x_request_id x = q_request_id q" "x_lease_token x = Some token"
      "q_lease_token q = Some token" "q_conversation_id q = Some (x_conversation_id x)" "q_message_id q = Some (x_message_id x)"
  obtains m c where "locked_request db x = Inr (Some q)" "locked_message db x = Inr (Some m)" "locked_conversation db x = Inr (Some c)"
    "cv_active_inference_request_id c = Some (q_id q)"
proof -
  note dist = chat_ok_distinct [OF chat_inv_ok [OF inv]]
  have "request_inv db q" using chat_coreD(1) [OF chat_inv_core [OF inv] q(1)] .
  then obtain m c where m: "m \<in> set (ch_messages db)" "streaming_message db q m" and c: "c \<in> set (ch_conversations db)" "active_in q c"
    using q(2) by (auto simp: request_inv_def list_ex_iff)
  have "locked_request db x = Inr (Some q)"
    unfolding locked_request_def x(4) option.case by (rule one_row [OF dist(1) q(1)]) (use x in simp_all)
  moreover have "locked_message db x = Inr (Some m)"
    unfolding locked_message_def by (rule one_row [OF dist(3) m(1)]) (use m(2) x in \<open>simp_all add: streaming_message_def\<close>)
  moreover have "locked_conversation db x = Inr (Some c)"
    unfolding locked_conversation_def by (rule one_row [OF dist(2) c(1)]) (use c(2) x in \<open>simp_all add: active_in_def\<close>)
  ultimately show thesis using that c(2) by (simp add: active_in_def)
qed

text \<open>A write on a live row under a valid lease, if it returns, is made.\<close>

lemma live_check_Inr:
  assumes "locked_request db x = Inr (Some q)" and "q_status q = IRunning" and "Chat_Execution.unexpired now (q_lease_expires_at q)"
    and "check_lease_and_stop db now n x = (Inr check, db')"
  shows "check = lease_check True False \<and> db' = put_request (extend_lease now n q) db \<and> chat_ok db'"
  using assms by (auto simp: check_lease_and_stop_def transaction_Inr_iff)

lemma live_failed_Inr:
  assumes "locked_request db x = Inr (Some q)" and "q_status q = IRunning" and "Chat_Execution.unexpired seen (q_lease_expires_at q)"
    and "q_last_event_sequence q = k - 1" and "provider_id_is_coherent q pid" and "locked_message db x = Inr (Some m)"
    and "locked_conversation db x = Inr (Some c)" and "cv_active_inference_request_id c = Some (q_id q)"
    and "mark_failed db now seen eid x k code details pid = (Inr b, db')"
  shows "b \<and> (\<exists>q' \<in> set (ch_requests db'). q_id q' = q_id q \<and> q_status q' = IFailed \<and> q_error_code q' = Some code)"
proof -
  have w: "locked_writable_request db seen x k RUNNING_STATUSES = Inr (Some q)" using assms(1-4) by (simp add: locked_writable_request_def)
  let ?c = "c\<lparr>cv_active_inference_request_id := None, cv_version := cv_version c + 1, cv_updated_at := now\<rparr>"
  let ?q = "terminate_request now k IFailed pid (Some code) details ''failed'' q"
  have c: "clear_active c (q_id q) now = Inr ?c" using assms(8) by (simp add: clear_active_def require_def)
  have made: "b \<and> ch_requests db' = ch_requests (put_request ?q db)"
    using assms(5,9) unfolding mark_failed_def terminal_without_usage_def w assms(6,7) andthen.simps option.case prod.case Let_def c
    by (auto simp: transaction_Inr_iff)
  have row: "?q \<in> set (ch_requests (put_request ?q db))"
    by (rule request_put(1) [OF locked_request_Some(1) [OF assms(1)]]) (simp add: terminate_request_def)
  then show ?thesis using made by (auto simp: terminate_request_def intro!: bexI [of _ ?q])
qed

lemma adapter_release_chat: "ch_requests (snd (adapter_release db lid now x)) = ch_requests db"
  by (auto simp: adapter_release_def case_prod_unfold chat_release_def Let_def split: sum.splits prod.splits)

lemma quiet_call:
  assumes "wc_other env i db = db"
  shows "chat_call env False i db call = (case call db of (r, db') \<Rightarrow> (map_error ChatRaised r, db'))"
  using assms by (simp add: chat_call_def)

lemma quiet_fail:
  assumes "wc_other env 12 db = db" and "\<And>d. wc_other env 13 d = d"
    and "chat_fail env db x k code details pid reserved = (Inr u, db')"
  obtains b d where "mark_failed db (wc_now env 12) (wc_seen env 12) (wc_uuid env 12 0) x k (safe_error_code code ''CHAT_PROVIDER_ERROR'')
      (safe_error_details details) pid = (Inr b, d)" "ch_requests db' = ch_requests d"
proof (cases "mark_failed db (wc_now env 12) (wc_seen env 12) (wc_uuid env 12 0) x k (safe_error_code code ''CHAT_PROVIDER_ERROR'')
      (safe_error_details details) pid")
  case (Pair r d)
  note fail = assms(3) [unfolded chat_fail_def quiet_call [of env 12 db, OF assms(1)] Pair prod.case marked_release_def]
  obtain b where b: "r = Inr b" using fail by (cases r) auto
  have "ch_requests (snd (worker_release env False 13 d x)) = ch_requests d"
    using adapter_release_chat [of d] by (simp add: worker_release_def quiet_call [OF assms(2)] case_prod_unfold)
  then have "ch_requests db' = ch_requests d" using fail b by (auto split: if_splits)
  then show thesis using that Pair b by blast
qed

lemma execution_fields_of [simp]:
  "x_request_db_id (execution_record q cid mid p d h) = q_id q" "x_request_id (execution_record q cid mid p d h) = q_request_id q"
  "x_conversation_id (execution_record q cid mid p d h) = cid" "x_message_id (execution_record q cid mid p d h) = mid"
  "x_tenant_id (execution_record q cid mid p d h) = q_tenant_id q" "x_history (execution_record q cid mid p d h) = h"
  "x_status (execution_record q cid mid p d h) = IRunning" "x_last_event_sequence (execution_record q cid mid p d h) = q_last_event_sequence q"
  "x_lease_token (execution_record q cid mid p d h) = q_lease_token q" "x_provider_request_id (execution_record q cid mid p d h) = q_provider_request_id q"
  "x_reservation_id (execution_record q cid mid p d h) = q_billing_reservation_id q"
  by (simp_all add: execution_record_def)

subsection \<open>The refusal\<close>

lemma invalid_history_fails:
  assumes inv: "chat_inv db" and q: "q \<in> set (ch_requests db)" "q_status q = IRunning"
    and x: "x_request_db_id x = q_id q" "x_tenant_id x = q_tenant_id q" "x_request_id x = q_request_id q" "x_lease_token x = Some token"
      "q_lease_token q = Some token" "q_conversation_id q = Some (x_conversation_id x)" "q_message_id q = Some (x_message_id x)"
      "x_status x = IRunning" "x_last_event_sequence x = q_last_event_sequence q" "x_provider_request_id x = q_provider_request_id q"
      "x_reservation_id x \<noteq> None"
    and bad: "completion_request env x = Inl Completion_invalid"
    and quiet: "\<And>i d. wc_other env i d = d"
    and lease: "Chat_Execution.unexpired (wc_now env 1) (q_lease_expires_at q)" "wc_seen env 12 < wc_now env 1 + seconds (wc_extension env)"
    and ret: "chat_execute_claimed env db x = (Inr settled, db')"
  shows "\<not> settled \<and> (\<exists>q' \<in> set (ch_requests db'). q_id q' = q_id q \<and> q_status q' = IFailed \<and> q_error_code q' = Some ''CHAT_HISTORY_INVALID'')"
proof -
  have live: "in_flight q" using q(2) by (simp add: in_flight_def)
  obtain m c where rows: "locked_request db x = Inr (Some q)" by (rule live_rows [OF inv q(1) live x(1-7)])
  let ?q = "extend_lease (wc_now env 1) (wc_extension env) q"
  let ?fail = "\<lambda>d. chat_fail env d x (x_last_event_sequence x + 1) ''CHAT_HISTORY_INVALID'' None (x_provider_request_id x) True"
  obtain r d where check: "check_lease_and_stop db (wc_now env 1) (wc_extension env) x = (r, d)" by fastforce
  have stop: "stop_if_requested env False 1 db x [] True False =
      (case map_error ChatRaised r of Inl e \<Rightarrow> (Inl e, d) | Inr check \<Rightarrow> if \<not> lc_lease_valid check then (Inr True, d)
        else if \<not> lc_stop_requested check then (Inr False, d)
        else (case stop_marked_request env False 1 d x [] True of (Inl e, db2) \<Rightarrow> (Inl e, db2) | (Inr _, db2) \<Rightarrow> (Inr True, db2)))"
    unfolding stop_if_requested_def worker_check_def quiet_call [OF quiet] check by simp
  obtain v where v: "r = Inr v" using ret x(4,8,11) by (cases r) (auto simp: chat_execute_claimed_def stop Let_def simp del: One_nat_def)
  note kept = live_check_Inr [OF rows q(2) lease(1) check [unfolded v]]
  have d: "d = put_request ?q db" "chat_inv d"
    using kept check_lease_inv [OF inv, of "wc_now env 1" "wc_extension env" x] by (simp_all add: check del: One_nat_def)
  obtain u where failed: "?fail d = (Inr u, db')" and s: "\<not> settled"
    using ret x(4,8,11) kept by (auto simp: chat_execute_claimed_def stop v lease_check_def bad Let_def simp del: One_nat_def split: sum.splits prod.splits)
  have q': "?q \<in> set (ch_requests d)" unfolding d(1) by (rule request_put(1) [OF q(1)]) (simp add: extend_lease_def)
  have same: "q_id ?q = q_id q" "q_tenant_id ?q = q_tenant_id q" "q_request_id ?q = q_request_id q" "q_lease_token ?q = q_lease_token q"
    "q_conversation_id ?q = q_conversation_id q" "q_message_id ?q = q_message_id q" "q_status ?q = IRunning"
    "q_last_event_sequence ?q = q_last_event_sequence q" "q_provider_request_id ?q = q_provider_request_id q"
    "q_lease_expires_at ?q = Some (wc_now env 1 + seconds (wc_extension env))"
    using q(2) by (simp_all add: extend_lease_def)
  obtain m c where later: "locked_request d x = Inr (Some ?q)" "locked_message d x = Inr (Some m)" "locked_conversation d x = Inr (Some c)"
      "cv_active_inference_request_id c = Some (q_id ?q)"
    by (rule live_rows [OF d(2) q', of x token]) (use x same in \<open>simp_all add: in_flight_def\<close>)
  have code: "safe_error_code ''CHAT_HISTORY_INVALID'' ''CHAT_PROVIDER_ERROR'' = ''CHAT_HISTORY_INVALID''" by code_simp
  obtain b e where mark: "mark_failed d (wc_now env 12) (wc_seen env 12) (wc_uuid env 12 0) x (x_last_event_sequence x + 1) ''CHAT_HISTORY_INVALID''
      (safe_error_details None) (x_provider_request_id x) = (Inr b, e)" "ch_requests db' = ch_requests e"
    by (rule quiet_fail [OF quiet quiet failed, unfolded code])
  have "provider_id_is_coherent ?q (x_provider_request_id x)" using x(10) same(9) by (simp add: provider_id_is_coherent_def)
  moreover have "Chat_Execution.unexpired (wc_seen env 12) (q_lease_expires_at ?q)" using lease(2) same(10) by (simp add: Chat_Execution.unexpired_def)
  ultimately show ?thesis
    using live_failed_Inr [OF later(1) same(7) _ _ _ later(2-4) mark(1)] x(9) same(1,8) s mark(2) by simp
qed

text \<open>
  C40. A message of more than 8000 characters that is not blank, which the service accepts up to 64,000, ends the use of
  its conversation: let a worker claim any queued request, with its hold, of a conversation that holds such a message
  besides the answer's own. With nobody interfering and the lease in force at the check and at the mark, a delivery
  that returns leaves that request failed with the code \<open>CHAT_HISTORY_INVALID\<close>, and what it does is the same whatever
  the provider would have streamed.
\<close>

theorem long_message_refused:
  assumes "chat_inv db" and "claim_queued db now locked token w n tenant request = (Inr (Some x), db1)"
    and "m \<in> set (ch_messages db)" and "m_tenant_id m = x_tenant_id x" and "m_conversation_id m = x_conversation_id x" and "m_id m \<noteq> x_message_id x"
    and "\<not> blank (text_content (m_content m))" and "8000 < length (text_content (m_content m))"
    and "x_reservation_id x \<noteq> None" and "\<And>i d. wc_other env i d = d"
    and "wc_now env 1 < now + seconds n" and "wc_seen env 12 < wc_now env 1 + seconds (wc_extension env)"
    and "chat_execute_claimed env db1 x = (Inr settled, db')"
  shows "\<not> settled \<and> (\<exists>q \<in> set (ch_requests db'). q_id q = x_request_db_id x \<and> q_status q = IFailed \<and> q_error_code q = Some ''CHAT_HISTORY_INVALID'') \<and>
    chat_execute_claimed (env\<lparr>wc_stream := provider\<rparr>) db1 x = chat_execute_claimed env db1 x"
proof -
  obtain q cid mid p d where q: "q \<in> set (ch_requests db)" and db1: "db1 = put_request (claim_request w token n now q) db" "chat_ok db1"
    and link: "q_conversation_id q = Some cid" "q_message_id q = Some mid"
    and x: "x = execution_record (claim_request w token n now q) cid mid p d (history db1 (q_tenant_id q) cid)"
    by (rule claimed_record [OF assms(2)])
  let ?q = "claim_request w token n now q"
  have inv1: "chat_inv db1" using claim_queued_inv [OF assms(1), of now locked token w n tenant request] by (simp add: assms(2))
  have fields: "q_tenant_id ?q = q_tenant_id q" "q_conversation_id ?q = Some cid" "q_message_id ?q = Some mid" "q_lease_token ?q = Some token"
    "q_status ?q = IRunning" "q_lease_expires_at ?q = Some (now + seconds n)" using link by (simp_all add: claim_request_def)
  have "m \<in> set (ch_messages db1)" using assms(3) by (simp add: db1(1))
  moreover have "m_tenant_id m = q_tenant_id q" "m_conversation_id m = cid" using assms(4,5) by (simp_all add: x fields)
  ultimately have item: "\<lparr>mr_message_id = m_id m, mr_role = m_role m, mr_content = text_content (m_content m), mr_status = m_status m,
      mr_created_at = m_created_at m, mr_request_id = None\<rparr> \<in> set (x_history x)" by (simp add: x history_item)
  have refused: "completion_request e x = Inl Completion_invalid" for e
    using long_prompt [OF item, of "x_message_id x"] assms(6-8) by (simp add: completion_request_def Let_def)
  have row: "?q \<in> set (ch_requests db1)" unfolding db1(1) by (rule request_put(1) [OF q]) (simp add: claim_request_def)
  have "\<not> settled \<and> (\<exists>q' \<in> set (ch_requests db'). q_id q' = q_id ?q \<and> q_status q' = IFailed \<and> q_error_code q' = Some ''CHAT_HISTORY_INVALID'')"
    by (rule invalid_history_fails [OF inv1 row fields(5) _ _ _ _ fields(4) _ _ _ _ _ assms(9) refused assms(10) _ assms(12,13)])
      (use fields assms(11) in \<open>simp_all add: x Chat_Execution.unexpired_def\<close>)
  moreover have "chat_execute_claimed (env\<lparr>wc_stream := provider\<rparr>) db1 x = chat_execute_claimed env db1 x"
    unfolding chat_execute_claimed_def refused stream_unused sum.case completion_error.case by simp
  ultimately show ?thesis by (simp add: x)
qed

subsection \<open>A long message\<close>

text \<open>The demonstration tables with another text in the user's message.\<close>

definition retext :: "string \<Rightarrow> Message \<Rightarrow> Message" where
  "retext content m = (if m_id m = 302 then m\<lparr>m_content := text_json content\<rparr> else m)"

definition with_text :: "string \<Rightarrow> chat_db \<Rightarrow> chat_db" where
  "with_text content db = db\<lparr>ch_messages := map (retext content) (ch_messages db)\<rparr>"

lemma retext_fields [simp]:
  "m_id (retext s m) = m_id m" "m_tenant_id (retext s m) = m_tenant_id m" "m_conversation_id (retext s m) = m_conversation_id m"
  "m_sequence_no (retext s m) = m_sequence_no m" "m_request_id (retext s m) = m_request_id m" "m_role (retext s m) = m_role m"
  "m_status (retext s m) = m_status m"
  by (simp_all add: retext_def)

lemma with_text_frame [simp]:
  "ch_requests (with_text s db) = ch_requests db" "ch_conversations (with_text s db) = ch_conversations db" "ch_events (with_text s db) = ch_events db"
  "ch_billing (with_text s db) = ch_billing db" "ch_catalog (with_text s db) = ch_catalog db" "ch_messages (with_text s db) = map (retext s) (ch_messages db)"
  "put_request q (with_text s db) = with_text s (put_request q db)" "put_conversation c (with_text s db) = with_text s (put_conversation c db)"
  "add_event e (with_text s db) = with_text s (add_event e db)" "events_of (with_text s db) q = events_of db q"
  by (simp_all add: with_text_def put_request_def put_conversation_def add_event_def events_of_def)

lemma with_text_ok: "chat_ok db \<Longrightarrow> chat_ok (with_text s db)"
proof -
  assume ok: "chat_ok db"
  have "message_check (retext s m)" if "message_check m" for m using that by (auto simp: message_check_def retext_def)
  then have "list_all message_check (map (retext s) (ch_messages db))" using ok by (simp add: chat_ok_def chat_checks_def list_all_iff)
  moreover have "map m_id (map (retext s) ms) = map m_id ms"
    "map (\<lambda>m. (m_tenant_id m, m_conversation_id m, m_sequence_no m)) (map (retext s) ms) = map (\<lambda>m. (m_tenant_id m, m_conversation_id m, m_sequence_no m)) ms" for ms
    by simp_all
  ultimately show ?thesis
    using ok unfolding chat_ok_def chat_numeric_def chat_checks_def chat_unique_def chat_references_def with_text_frame
    by (simp add: list_all_iff list_ex_iff comp_def)
qed

lemma with_text_inv:
  assumes "chat_inv db" and "\<And>m. m \<in> set (ch_messages db) \<Longrightarrow> m_id m = 302 \<Longrightarrow> m_request_id m = None"
  shows "chat_inv (with_text s db)"
proof -
  have same: "retext s m = m" if "m \<in> set (ch_messages db)" "m_request_id m \<noteq> None" for m using assms(2) that by (auto simp: retext_def)
  have "request_inv (with_text s db) q" if q: "request_inv db q" for q
  proof -
    have "\<exists>m \<in> set (ch_messages (with_text s db)). streaming_message (with_text s db) q m"
      if m: "m \<in> set (ch_messages db)" "streaming_message db q m" for m
      using m same [OF m(1)] by (intro bexI [of _ m]) (auto simp: streaming_message_def intro!: image_eqI [of _ _ m])
    then show ?thesis using q by (auto simp: request_inv_def list_ex_iff)
  qed
  moreover have "map m_id (map (retext s) ms) = map m_id ms" for ms by simp
  moreover have "conversation_inv (with_text s db) c = conversation_inv db c" for c by (simp add: conversation_inv_def)
  ultimately show ?thesis using assms(1) with_text_ok [of db s]
    by (simp add: chat_inv_def chat_core_def list_all_iff del: map_map)
qed

lemma put_message_with_text: "m_id m \<noteq> 302 \<Longrightarrow> put_message m (with_text s db) = with_text s (put_message m db)"
  by (auto simp: with_text_def put_message_def update_where_def retext_def)

lemma with_text_query: "claim_query (with_text s db) locked tenant request = claim_query db locked tenant request"
  unfolding claim_query_def with_text_frame by (rule refl)

definition long_text :: string where
  "long_text = replicate 8001 CHR ''a''"

definition long_execution :: ChatExecutionRecord where
  "long_execution = chat_execution\<lparr>x_history := history (with_text long_text chat_running) 1 201\<rparr>"

lemma long_fields:
  "x_request_db_id long_execution = 304" "x_tenant_id long_execution = 1" "x_request_id long_execution = 305" "x_status long_execution = IRunning"
  "x_lease_token long_execution = Some 400" "x_last_event_sequence long_execution = 0" "x_conversation_id long_execution = 201"
  "x_message_id long_execution = 303" "x_provider_request_id long_execution = None" "x_reservation_id long_execution = Some 306"
  by (simp_all add: long_execution_def execution_fields)

lemma chat_running_ok: "chat_ok chat_running"
  using chat_running_inv by (rule chat_inv_ok)

lemma long_claimed:
  "claim_queued (with_text s chat_queued) 2000 (\<lambda>_. False) 400 ''w'' 60 None None =
     (Inr (Some (chat_execution\<lparr>x_history := history (with_text s chat_running) 1 201\<rparr>)), with_text s chat_running)"
proof -
  have ids: "q_message_id running_request = Some 303" "q_conversation_id running_request = Some 201" "q_tenant_id running_request = 1"
    by (simp_all add: demo_row_defs)
  have query: "claim_query (with_text s chat_queued) (\<lambda>_. False) None None = [(queued_request, demo_conversation\<lparr>cv_active_inference_request_id := Some 304, cv_version := 1\<rparr>,
      hd (c_products chat_catalog), hd (c_deployments chat_catalog))]"
    using demo_claim_query [of "snd chat_held"] by (simp only: with_text_query chat_queued_def)
  have name: "\<not> blank ''w''" by code_simp
  have conv: "cv_id (demo_conversation\<lparr>cv_active_inference_request_id := Some 304, cv_version := 1\<rparr>) = 201" by (simp add: demo_conversation_def)
  have put: "put_request running_request (with_text s chat_queued) = with_text s chat_running" by (simp add: chat_running_def)
  have rec: "execution_record running_request 201 303 (hd (c_products chat_catalog)) (hd (c_deployments chat_catalog)) h = chat_execution\<lparr>x_history := h\<rparr>" for h
    by (simp add: chat_execution_def execution_record_def)
  show ?thesis
    unfolding claim_queued_def query first_row.simps option.case prod.case running_request_def [symmetric] Let_def put
      chat_flush_ok [OF with_text_ok [OF chat_running_ok]] andthen.simps ids conv rec
    by (simp add: transaction_def require_def name)
qed

definition failed_row :: InferenceRequest where
  "failed_row = terminate_request 2500 1 IFailed None (Some ''CHAT_HISTORY_INVALID'') None ''failed'' leased_request"

definition chat_refused :: chat_db where
  "chat_refused = add_event (event_row 524 leased_request 1 ''failed'' (terminal_payload leased_request chat_execution 1 ''failed'' (Some ''CHAT_HISTORY_INVALID'') None) 2500)
     (put_conversation (open_conversation\<lparr>cv_active_inference_request_id := None, cv_version := 2, cv_updated_at := 2500\<rparr>)
       (put_message (linked_assistant\<lparr>m_status := MFailed, m_updated_at := 2500\<rparr>) (put_request failed_row chat_leased)))"

lemma chat_refused_ok: "chat_ok chat_refused"
proof -
  let ?leased = "demo_stage [open_conversation] linked_messages [leased_request] [started_event]"
  have "chat_ok (add_event (event_row 524 leased_request 1 ''failed'' (terminal_payload leased_request chat_execution 1 ''failed'' (Some ''CHAT_HISTORY_INVALID'') None) 2500)
     (put_conversation (open_conversation\<lparr>cv_active_inference_request_id := None, cv_version := 2, cv_updated_at := 2500\<rparr>)
       (put_message (linked_assistant\<lparr>m_status := MFailed, m_updated_at := 2500\<rparr>) (put_request failed_row ?leased))))" by code_simp
  then show ?thesis
    by (rule same_chat_ok [THEN iffD2, rotated])
      (simp add: same_chat_def chat_refused_def chat_leased_def chat_queued_def queued_chat_def no_chat_def open_conversation_def
        put_request_def put_message_def put_conversation_def add_event_def)
qed

lemma long_check: "check_lease_and_stop (with_text s chat_running) 2500 60 long_execution = (Inr (lease_check True False), with_text s chat_leased)"
proof -
  have rows: "ch_requests chat_running = [running_request]"
    by (simp add: chat_running_def chat_queued_def queued_chat_def no_chat_def put_request_def update_where_def demo_row_defs)
  then have "put_request leased_request chat_running = chat_leased"
    by (simp add: put_single [OF rows] leased_fields running_fields chat_leased_def chat_running_def put_request_def)
  then show ?thesis
    using check_lease_live [of "with_text s chat_running" long_execution running_request 2500 60] with_text_ok [OF chat_leased_ok, of s]
    by (simp add: locked_request_def rows long_fields running_fields Chat_Execution.unexpired_def flip: leased_request_def)
qed

lemma demo_released: "\<not> isl (fst (release ((snd chat_held)\<lparr>inference_requests := [priced_request failed_row]\<rparr>) 526 2500 1 306))"
  unfolding chat_held_def chat_wallets_def granted_db_eval by code_simp

lemma long_marked:
  "mark_failed (with_text s chat_leased) 2500 2500 524 long_execution 1 ''CHAT_HISTORY_INVALID'' None None = (Inr True, with_text s chat_refused)"
proof -
  let ?db = "with_text s chat_leased"
  let ?c = "open_conversation\<lparr>cv_active_inference_request_id := None, cv_version := 2, cv_updated_at := 2500\<rparr>"
  let ?m = "linked_assistant\<lparr>m_status := MFailed, m_updated_at := 2500\<rparr>"
  have "locked_writable_request ?db 2500 long_execution 1 RUNNING_STATUSES = Inr (Some leased_request)"
    by (simp add: locked_writable_request_def locked_request_def demo_rows long_fields leased_fields Chat_Execution.unexpired_def)
  moreover have "provider_id_is_coherent leased_request None" by (simp add: provider_id_is_coherent_def)
  moreover have "locked_message ?db long_execution = Inr (Some linked_assistant)"
    by (simp add: locked_message_def chat_leased_def chat_queued_def queued_chat_def no_chat_def linked_messages_def long_fields linked_assistant_def
        user_message_def assistant_message_def demo_fresh_def retext_def)
  moreover have "locked_conversation ?db long_execution = Inr (Some open_conversation)"
    by (simp add: locked_conversation_def chat_leased_def chat_queued_def queued_chat_def no_chat_def long_fields open_conversation_def demo_conversation_def)
  moreover have "clear_active open_conversation (q_id leased_request) 2500 = Inr ?c"
    by (simp add: clear_active_def open_conversation_def leased_fields)
  moreover have "terminal_payload leased_request long_execution 1 ''failed'' (Some ''CHAT_HISTORY_INVALID'') None =
      terminal_payload leased_request chat_execution 1 ''failed'' (Some ''CHAT_HISTORY_INVALID'') None"
    by (simp add: terminal_payload_def long_fields execution_fields)
  moreover have "put_message ?m (with_text s d) = with_text s (put_message ?m d)" for d
    by (rule put_message_with_text) (simp add: linked_assistant_def assistant_message_def demo_fresh_def)
  ultimately show ?thesis
    using with_text_ok [OF chat_refused_ok, of s]
    by (simp add: mark_failed_def terminal_without_usage_def transaction_def Let_def failed_row_def chat_refused_def)
qed

lemma long_delivery:
  assumes "completion_request (demo_worker None) long_execution = Inl Completion_invalid"
  shows "\<exists>db'. chat_execute_claimed (demo_worker None) (with_text s chat_running) long_execution = (Inr False, db')"
proof -
  have code: "safe_error_code ''CHAT_HISTORY_INVALID'' ''CHAT_PROVIDER_ERROR'' = ''CHAT_HISTORY_INVALID''" by code_simp
  have stop: "stop_if_requested (demo_worker None) False 1 (with_text s chat_running) long_execution [] True False = (Inr False, with_text s chat_leased)"
    by (simp add: stop_if_requested_def worker_check_def demo_call demo_env long_check lease_check_def)
  have "map priced_request (ch_requests chat_refused) = [priced_request failed_row]"
    by (simp add: chat_refused_def put_request_def put_message_def put_conversation_def add_event_def chat_leased_def update_where_def failed_row_def
        terminate_request_def leased_fields)
  moreover have "ch_billing chat_refused = snd chat_held"
    by (simp add: chat_refused_def put_request_def put_message_def put_conversation_def add_event_def chat_leased_def chat_queued_def queued_chat_def no_chat_def)
  ultimately have b: "chat_billing (with_text s chat_refused) = (snd chat_held)\<lparr>inference_requests := [priced_request failed_row]\<rparr>"
    by (simp add: chat_billing_def)
  obtain r b' where "release (chat_billing (with_text s chat_refused)) 526 2500 1 306 = (Inr r, b')"
    using demo_released unfolding b by (metis prod.collapse sum.collapse(2))
  then obtain d where "worker_release (demo_worker None) False 13 (with_text s chat_refused) long_execution = (Inr (), d)"
    by (simp add: worker_release_def demo_call demo_env adapter_release_def required_reservation_id_def long_fields chat_release_def)
  then have "chat_fail (demo_worker None) (with_text s chat_leased) long_execution 1 ''CHAT_HISTORY_INVALID'' None None True = (Inr (), d)"
    by (simp add: chat_fail_def demo_call demo_env code safe_error_details_def long_marked marked_release_def)
  then show ?thesis
    using stop assms by (simp add: chat_execute_claimed_def long_fields Let_def)
qed

theorem long_message_refused_witness:
  "\<exists>db'. chat_execute_claimed (demo_worker None) (with_text long_text chat_running) long_execution = (Inr False, db') \<and>
     (\<exists>q \<in> set (ch_requests db'). q_id q = 304 \<and> q_status q = IFailed \<and> q_error_code q = Some ''CHAT_HISTORY_INVALID'')"
proof -
  let ?m = "(user_message demo_fresh 1 5 201 1 ''hi'')\<lparr>m_content := text_json long_text\<rparr>"
  have space: "\<not> is_space (CHR ''a'')" by code_simp
  then have long: "\<not> blank long_text" "8000 < length long_text" by (simp_all add: long_text_def blank_def list_all_iff)
  have ms: "ch_messages chat_queued = linked_messages" by (simp add: chat_queued_def queued_chat_def no_chat_def)
  then have m: "?m \<in> set (ch_messages (with_text long_text chat_queued))"
    by (simp add: linked_messages_def retext_def user_message_def demo_fresh_def)
  have inv: "chat_inv (with_text long_text chat_queued)"
    by (rule with_text_inv [OF chat_queued_inv]) (auto simp: ms linked_messages_def user_message_def assistant_message_def demo_fresh_def)
  have claimed: "claim_queued (with_text long_text chat_queued) 2000 (\<lambda>_. False) 400 ''w'' 60 None None = (Inr (Some long_execution), with_text long_text chat_running)"
    unfolding long_execution_def by (rule long_claimed)
  have "?m \<in> set (ch_messages (with_text long_text chat_running))" using m by (simp add: chat_running_def)
  from history_item [OF this, of 1 201] have "\<lparr>mr_message_id = m_id ?m, mr_role = m_role ?m, mr_content = text_content (m_content ?m),
      mr_status = m_status ?m, mr_created_at = m_created_at ?m, mr_request_id = None\<rparr> \<in> set (x_history long_execution)"
    unfolding long_execution_def by (simp add: user_message_def)
  from long_prompt [OF this, of 303] have "completion_request (demo_worker None) long_execution = Inl Completion_invalid"
    using long by (simp add: completion_request_def Let_def long_fields user_message_def demo_fresh_def)
  then obtain db' where d: "chat_execute_claimed (demo_worker None) (with_text long_text chat_running) long_execution = (Inr False, db')"
    using long_delivery by blast
  have "(\<exists>q \<in> set (ch_requests db'). q_id q = x_request_db_id long_execution \<and> q_status q = IFailed \<and> q_error_code q = Some ''CHAT_HISTORY_INVALID'')"
    using long_message_refused [OF inv claimed m, where env = "demo_worker None", OF _ _ _ _ _ _ _ _ _ d] long
    by (simp add: long_fields demo_env user_message_def demo_fresh_def)
  then show ?thesis using d by (simp add: long_fields)
qed

end
