(* ===== verification/Spec2Isabelle.thy ===== *)
theory Spec2Isabelle
  imports Billing_Properties Outbox_Relay Delivery_Properties Concurrency_Properties Chat_Properties Chat_Worker_Properties Chat_Refusal
begin

text \<open>
  A verification development for the API of the Mosaic platform (the Python code under \<^verbatim>\<open>src/apps/api/app\<close>): a
  multi-tenant service that sells chat answers and media generations against a prepaid wallet.

  \<^bold>\<open>The program.\<close> A request is accepted by an HTTP handler in one database transaction: it routes the requested model
  through the catalog, places a hold on the tenant's wallet, inserts the job or the chat request, and stores an event
  in the outbox. A relay claims outbox events under a lease and publishes them to the broker. A worker receives
  the event, claims the job or request under a lease of its own, takes permits from a Redis semaphore, calls the
  provider, records the result, and captures or releases the hold. Reconcilers recover jobs whose worker died and
  holds whose settlement was interrupted. Readers follow a chat answer through a stream of numbered events.

  \<^bold>\<open>How it is modelled.\<close> A table is the list of its rows, a row is a record with the columns of
  \<^verbatim>\<open>infrastructure/models.py\<close>; a database is a record of tables. An operation is a function that takes the database,
  the clock readings and the fresh identifiers it would draw, and returns an error or a result together with the
  database: \<open>transaction\<close> of the prelude commits or rolls back, and each flush checks the constraints, unique
  indexes, foreign keys and column widths of the schema. Errors are values of the datatypes that mirror the
  exception classes. Rows another transaction has locked are a predicate (\<open>locked\<close>), which \<open>SKIP LOCKED\<close> filters out.
  What runs in several transactions (the workers, the relay, the stream reader) takes an environment: clocks and
  identifiers are indexed by the call, and a function (\<open>wv_other\<close>, \<open>wc_other\<close>) transforms the database before each
  call by whatever the other processes commit meanwhile; theorems about such code quantify over it, restricted to
  steps of the modelled operations or further where the theorem says so. Loss of a permit in the middle of a chat stream is \<open>wc_cut\<close>: at
  which call it is noticed and whether that call had committed. No function needs fuel: every loop runs over
  a list (rows, events, chunks of the provider, observed turns of a reader), so all definitions are total and
  executable; a stream that is still being followed when its turns are used up ends as \<open>Open\<close>.

  \<^bold>\<open>Theories and sources.\<close>
  \<^item> Shared: \<open>Prelude\<close> (text, JSON, errors, transactions, tables as lists), \<open>Uuid_Text\<close> (\<open>uuid\<close>: printing and parsing
    are inverse), \<open>Shared_Tables\<close> (columns common to several tables), \<open>Audit_Log\<close> (\<^verbatim>\<open>audit/writer.py\<close>).
  \<^item> Billing: \<open>Billing_State\<close> (\<^verbatim>\<open>billing/state.py\<close>), \<open>Billing_Pricing\<close> (\<^verbatim>\<open>ports.py\<close>, \<^verbatim>\<open>errors.py\<close>, \<^verbatim>\<open>pricing.py\<close>),
    \<open>Billing_Service\<close> and \<open>Billing_Operations\<close> (\<^verbatim>\<open>service.py\<close>, \<^verbatim>\<open>queries.py\<close> and the scripts that credit a wallet),
    \<open>Billing_Books\<close> (the accounting invariant), \<open>Billing_Liveness\<close> (settlement cannot get stuck), \<open>Billing_Properties\<close>
    (the state machine and its theorems), \<open>Billing_Settlement\<close> (the contract clients rely on).
  \<^item> Outbox: \<open>Outbox_Types\<close>, \<open>Outbox_Repository\<close>, \<open>Outbox_Properties\<close>, \<open>Outbox_Relay\<close> (\<^verbatim>\<open>outbox/types.py\<close>, \<^verbatim>\<open>repository.py\<close>,
    \<^verbatim>\<open>relay.py\<close>) and \<open>Messaging\<close> (the envelope of \<^verbatim>\<open>messaging/rabbitmq.py\<close>).
  \<^item> Catalog: \<open>Catalog\<close>, \<open>Catalog_Properties\<close> (\<^verbatim>\<open>catalog/repository.py\<close>, \<^verbatim>\<open>catalog/service.py\<close>, route resolution of
    \<^verbatim>\<open>generations/repository.py\<close>, \<^verbatim>\<open>voice_resources.py\<close>).
  \<^item> Generations: \<open>Generation_State\<close> (\<^verbatim>\<open>state.py\<close>), \<open>Generation_Jobs\<close>, \<open>Generation_Completion\<close>, \<open>Generation_Acceptance\<close>
    (\<^verbatim>\<open>repository.py\<close>), \<open>Generation_Lifecycle\<close> (\<^verbatim>\<open>lifecycle.py\<close>, heartbeat and reconciler), \<open>Generation_Recovery\<close>
    (\<^verbatim>\<open>recovery.py\<close>, settlement), \<open>Generation_Worker\<close> (\<^verbatim>\<open>worker.py\<close>); \<open>Generation_Invariants\<close>, \<open>Generation_Properties\<close>,
    \<open>Generation_Books\<close>, \<open>Acceptance_Properties\<close>, \<open>Worker_Properties\<close>, \<open>Delivery_Properties\<close> hold the proofs.
  \<^item> Concurrency limits: \<open>Concurrency\<close>, \<open>Concurrency_Properties\<close> (\<^verbatim>\<open>infrastructure/concurrency.py\<close>: the Lua scripts, the
    lease client on a network that loses calls and answers, the admissions).
  \<^item> Chat: \<open>Chat_Rows\<close> (tables), \<open>Chat_Repository\<close> (\<^verbatim>\<open>conversations/repository.py\<close>), \<open>Chat_Execution\<close>
    (\<^verbatim>\<open>execution_repository.py\<close>), \<open>Chat_Settlement\<close> (\<^verbatim>\<open>billing_adapter.py\<close>), \<open>Chat_Stream\<close> and \<open>Chat_Service\<close> (\<^verbatim>\<open>service.py\<close> and
    the contracts), \<open>Chat_Worker\<close> (\<^verbatim>\<open>worker.py\<close> and the provider port); \<open>Chat_Invariants\<close>, \<open>Chat_Steps\<close>, \<open>Chat_History\<close>,
    \<open>Chat_Reading\<close>, \<open>Chat_Properties\<close>, \<open>Chat_Worker_Properties\<close>, \<open>Chat_Refusal\<close> hold the proofs, \<open>Chat_Demo\<close> and
    \<open>Chat_Worker_Demo\<close> the concrete runs at which the theorems are instantiated.

  \<^bold>\<open>What is shown.\<close>
  \<^item> Wallet: in every reachable database wallets, pending holds and the journal agree; a hold is settled at most
    once and for exactly the charged amount; capture and release of a pending hold cannot be stopped by an
    internal error; reserving is idempotent on its source; tenants do not touch each other's rows. Generation and chat, whose
    steps include these operations, keep the books too.
  \<^item> Outbox: a lease token settles its event at most once and no event is leased more often than allowed, over every
    interleaving of relays; the exact effect of a claim; what the relay counts is what became of the row.
  \<^item> Generations: a worker with an old fence changes nothing; a provider call is committed at most once; a claim, an
    acceptance and a completion do exactly what they should; a held job whose lease ran out is recovered; the
    worker keeps the hold when an outcome is unknown and captures it when it reports success; the event an acceptance
    stores is the one the worker claims the job by.
  \<^item> Concurrency: live permits never exceed the limit; an admission holds both permits or neither.
  \<^item> Chat: the log of every request is gapless and ends with one terminal event exactly when the request has ended;
    finished requests are final; stale workers are refused; submission is atomic; a reader gets the log
    in order, each event once, and a reader with a time limit ends; the worker touches the hold only after
    the outcome is committed and a settled answer is the text of its deltas.
  \<^item> Defects, stated as theorems about the code as it is: a request left unknown blocks its conversation for good; a stream
    breaks when a request finishes between the two reads of a turn; a message longer than 8000
    characters makes every later request of its conversation fail.

  \<^bold>\<open>Interfaces.\<close> The locales state what a client relies on: keyed tables (\<open>Prelude\<close>), the settlement port
  (\<open>Billing_Settlement\<close>), the fenced repository the relay is written against (\<open>Outbox_Relay\<close>), and the calls of the two
  workers as steps of a relation (\<open>Worker_Properties\<close>, \<open>Chat_Worker_Properties\<close>). Each is interpreted on the
  model's own operations, and the properties use the interpreted facts.

  \<^bold>\<open>Parameters.\<close> Code outside the repository is an argument: what the provider and the executor return, whether a
  stored object could be deleted, what the broker answers, the SHA-256 digest of a request, the validator of pydantic
  (assumed only to accept what the declared contract accepts) and the float decoder of the JSON parser. Text is over
  ASCII; the fixed Chinese texts of the chat path are placeholders.

  \<^bold>\<open>Not modelled.\<close> Authentication and sessions, HTTP routes and middleware, artifact storage, the provider's HTTP
  clients, the executor and its resolver, the polling pass for videos of \<^verbatim>\<open>recovery.py\<close>, the public projections of
  \<^verbatim>\<open>catalog/service.py\<close>, usage reporting, configuration, logging and metrics, wake-up notifications, the process
  entry points, and the web client: input and output, read-only views, or glue around the modelled operations. The
  old outbox methods of \<^verbatim>\<open>generations/repository.py\<close>, superseded by \<^verbatim>\<open>app/outbox\<close>, are left out as well.
\<close>

end
